(* ===== verification/Prelude.thy ===== *)
theory Prelude
  imports Main "HOL-Library.Char_ord" "HOL-Library.List_Lexorder" "HOL-Library.Sublist"
begin

text \<open>
  Shared vocabulary of the development.

  \<^item> Results: a Python call that may raise is a value of \<open>'e + 'a\<close>; \<open>Inl\<close> is the
    exception, \<open>bindE\<close> sequences two calls and \<open>require\<close> turns an absent row into an
    exception.
  \<^item> Instants: a timezone-aware \<open>datetime\<close> is the number of microseconds since the
    epoch; a naive one is kept apart, because the services refuse it.
  \<^item> Identities: a UUID is its integer value; \<open>uuid_hex\<close> and \<open>uuid_text\<close> are the
    attributes \<open>hex\<close> and \<open>str\<close> of the Python class.
  \<^item> Tables: a table is the list of its rows, \<open>find_row\<close> is a select by primary key and
    \<open>store_row\<close> the write-back of a mutated ORM object.
  \<^item> Text: a Python \<open>str\<close> is a \<open>string\<close>, that is a text over the code points 0 to 255;
    the character classes below are those of Python on that range.
\<close>

named_theorems row_simps
  \<open>rewrite rules for selects from and write-backs to a table\<close>

named_theorems audit_frames
  \<open>facts that an operation only appends to the audit trail\<close>

section \<open>Results\<close>

fun bindE :: "'e + 'a \<Rightarrow> ('a \<Rightarrow> 'e + 'b) \<Rightarrow> 'e + 'b" where
  "bindE (Inl e) f = Inl e"
| "bindE (Inr x) f = f x"

fun require :: "'e \<Rightarrow> 'a option \<Rightarrow> 'e + 'a" where
  "require e None = Inl e"
| "require e (Some x) = Inr x"

definition ensure :: "bool \<Rightarrow> 'e \<Rightarrow> 'e + unit" where
  "ensure b e = (if b then Inr () else Inl e)"

fun is_ok :: "'e + 'a \<Rightarrow> bool" where
  "is_ok (Inr _) = True"
| "is_ok (Inl _) = False"

lemma bindE_Inr_iff [simp]: "bindE r f = Inr y \<longleftrightarrow> (\<exists>x. r = Inr x \<and> f x = Inr y)"
  by (cases r) auto

lemma Inr_bindE_iff [simp]: "Inr y = bindE r f \<longleftrightarrow> (\<exists>x. r = Inr x \<and> f x = Inr y)"
  by (cases r) auto

lemma bindE_Inl_iff: "bindE r f = Inl e \<longleftrightarrow> r = Inl e \<or> (\<exists>x. r = Inr x \<and> f x = Inl e)"
  by (cases r) auto

lemma require_Inr_iff [simp]: "require e r = Inr x \<longleftrightarrow> r = Some x"
  by (cases r) auto

lemma require_Inl_iff [simp]: "require e r = Inl e' \<longleftrightarrow> r = None \<and> e' = e"
  by (cases r) auto

lemma ensure_Inr_iff [simp]: "ensure b e = Inr u \<longleftrightarrow> b"
  by (simp add: ensure_def)

lemma ensure_Inl_iff [simp]: "ensure b e = Inl e' \<longleftrightarrow> \<not> b \<and> e' = e"
  by (auto simp: ensure_def)

lemma is_ok_iff: "is_ok r \<longleftrightarrow> (\<exists>x. r = Inr x)"
  by (cases r) auto

section \<open>Instants\<close>

type_synonym instant = int

datatype moment = Aware instant | Naive instant

fun aware_of :: "moment \<Rightarrow> instant option" where
  "aware_of (Aware t) = Some t"
| "aware_of (Naive t) = None"

definition seconds :: "int \<Rightarrow> int" where
  "seconds n = n * 1000000"

definition minutes :: "int \<Rightarrow> int" where
  "minutes n = seconds (n * 60)"

definition hours :: "int \<Rightarrow> int" where
  "hours n = minutes (n * 60)"

lemma seconds_pos [simp]: "0 < seconds n \<longleftrightarrow> 0 < n"
  by (simp add: seconds_def)

lemma minutes_pos [simp]: "0 < minutes n \<longleftrightarrow> 0 < n"
  by (simp add: minutes_def)

lemma hours_pos [simp]: "0 < hours n \<longleftrightarrow> 0 < n"
  by (simp add: hours_def)

section \<open>Identities\<close>

type_synonym uuid = nat

definition hex_digit :: "nat \<Rightarrow> char" where
  "hex_digit d = (if d < 10 then char_of (48 + d) else char_of (87 + d))"

fun hex_digits :: "nat \<Rightarrow> nat \<Rightarrow> string" where
  "hex_digits 0 n = []"
| "hex_digits (Suc w) n = hex_digits w (n div 16) @ [hex_digit (n mod 16)]"

definition uuid_hex :: "uuid \<Rightarrow> string" where
  "uuid_hex u = hex_digits 32 u"

definition uuid_text :: "uuid \<Rightarrow> string" where
  "uuid_text u =
     (let h = uuid_hex u in
      take 8 h @ ''-'' @ take 4 (drop 8 h) @ ''-'' @ take 4 (drop 12 h) @ ''-''
      @ take 4 (drop 16 h) @ ''-'' @ drop 20 h)"

definition wf_uuid :: "uuid \<Rightarrow> bool" where
  "wf_uuid u \<longleftrightarrow> u < 2 ^ 128"

lemma hex_digit_inj: "a < 16 \<Longrightarrow> b < 16 \<Longrightarrow> hex_digit a = hex_digit b \<Longrightarrow> a = b"
  by (auto simp: hex_digit_def char_of_eq_iff take_bit_eq_mod split: if_splits)

lemma length_hex_digits [simp]: "length (hex_digits w n) = w"
  by (induction w arbitrary: n) auto

lemma hex_digits_inj: "a < 16 ^ w \<Longrightarrow> b < 16 ^ w \<Longrightarrow> hex_digits w a = hex_digits w b \<Longrightarrow> a = b"
proof (induction w arbitrary: a b)
  case 0
  then show ?case by simp
next
  case (Suc w)
  have low: "a mod 16 = b mod 16"
    using Suc.prems(3) by (auto intro: hex_digit_inj)
  have "a div 16 = b div 16"
    using Suc.prems by (intro Suc.IH) (auto simp: less_mult_imp_div_less mult.commute)
  with low show ?case by (metis div_mult_mod_eq)
qed

lemma length_uuid_hex [simp]: "length (uuid_hex u) = 32"
  by (simp add: uuid_hex_def)

lemma hex_digit_zero: "hex_digit 0 = CHR ''0''"
  by code_simp

lemma hex_digits_zero: "hex_digits w 0 = replicate w CHR ''0''"
  by (induction w) (simp_all add: hex_digit_zero replicate_append_same)

text \<open>Evaluation skips the leading zeros.\<close>

lemma hex_digits_code [code]:
  "hex_digits w n = (if n = 0 then replicate w CHR ''0''
     else case w of 0 \<Rightarrow> [] | Suc v \<Rightarrow> hex_digits v (n div 16) @ [hex_digit (n mod 16)])"
  by (cases w) (auto simp: hex_digits_zero hex_digit_zero replicate_append_same)

lemma uuid_hex_inj: "wf_uuid a \<Longrightarrow> wf_uuid b \<Longrightarrow> uuid_hex a = uuid_hex b \<longleftrightarrow> a = b"
  using hex_digits_inj [of a 32 b] by (auto simp: wf_uuid_def uuid_hex_def)

lemma uuid_text_hex:
  assumes "uuid_text a = uuid_text b"
  shows "uuid_hex a = uuid_hex b"
proof -
  let ?a = "uuid_hex a" and ?b = "uuid_hex b"
  have "take 8 ?a = take 8 ?b \<and> take 4 (drop 8 ?a) = take 4 (drop 8 ?b)
    \<and> take 4 (drop 12 ?a) = take 4 (drop 12 ?b) \<and> take 4 (drop 16 ?a) = take 4 (drop 16 ?b)
    \<and> drop 20 ?a = drop 20 ?b"
    using assms by (simp add: uuid_text_def Let_def append_eq_append_conv)
  moreover have "h = take 8 h @ take 4 (drop 8 h) @ take 4 (drop 12 h) @ take 4 (drop 16 h) @ drop 20 h"
    for h :: string
    using append_take_drop_id [of 8 h] append_take_drop_id [of 4 "drop 8 h"]
      append_take_drop_id [of 4 "drop 12 h"] append_take_drop_id [of 4 "drop 16 h"] by simp
  ultimately show ?thesis by metis
qed

lemma uuid_text_inj: "wf_uuid a \<Longrightarrow> wf_uuid b \<Longrightarrow> uuid_text a = uuid_text b \<longleftrightarrow> a = b"
  using uuid_text_hex uuid_hex_inj by blast

section \<open>Tables\<close>

definition find_row :: "('r \<Rightarrow> uuid) \<Rightarrow> uuid \<Rightarrow> 'r list \<Rightarrow> 'r option" where
  "find_row key i rows = find (\<lambda>r. key r = i) rows"

definition store_row :: "('r \<Rightarrow> uuid) \<Rightarrow> 'r \<Rightarrow> 'r list \<Rightarrow> 'r list" where
  "store_row key r rows = map (\<lambda>x. if key x = key r then r else x) rows"

lemma find_row_SomeD:
  assumes "find_row key i rows = Some r"
  shows "r \<in> set rows" and "key r = i"
  using assms by (auto simp: find_row_def find_Some_iff)

lemma find_SomeD: "find P xs = Some x \<Longrightarrow> x \<in> set xs \<and> P x"
  by (metis find_Some_iff nth_mem)

lemma filter_singletonD: "filter P xs = [x] \<Longrightarrow> x \<in> set xs \<and> P x"
  by (metis filter_eq_ConsD in_set_conv_decomp)

lemma find_unique: "x \<in> set xs \<Longrightarrow> P x \<Longrightarrow> (\<And>y. y \<in> set xs \<Longrightarrow> P y \<Longrightarrow> y = x) \<Longrightarrow> find P xs = Some x"
  by (metis find_None_iff find_SomeD not_Some_eq)

lemma find_row_None_iff: "find_row key i rows = None \<longleftrightarrow> (\<forall>r\<in>set rows. key r \<noteq> i)"
  by (auto simp: find_row_def find_None_iff)

lemma find_row_exists: "i \<in> key ` set rows \<Longrightarrow> \<exists>r. find_row key i rows = Some r"
  using find_row_None_iff [of key i rows] by (cases "find_row key i rows") auto

lemma find_row_key: "distinct (map key rows) \<Longrightarrow> r \<in> set rows \<Longrightarrow> find_row key (key r) rows = Some r"
  by (induction rows) (auto simp: find_row_def)

lemma find_row_unique:
  "distinct (map key rows) \<Longrightarrow> find_row key i rows = Some r \<longleftrightarrow> r \<in> set rows \<and> key r = i"
  by (auto simp: find_row_key dest: find_row_SomeD)

lemma map_key_store_row [row_simps, simp]: "map key (store_row key r rows) = map key rows"
  by (induction rows) (auto simp: store_row_def)

lemma map_store_row_other [row_simps]:
  "(\<And>x. x \<in> set rows \<Longrightarrow> key x = key r \<Longrightarrow> f x = f r)
   \<Longrightarrow> map f (store_row key r rows) = map f rows"
  by (induction rows) (auto simp: store_row_def)

lemma in_set_store_row:
  "x \<in> set (store_row key r rows)
   \<longleftrightarrow> (x = r \<and> key r \<in> key ` set rows) \<or> (x \<in> set rows \<and> key x \<noteq> key r)"
  unfolding store_row_def set_map image_iff by metis

lemma store_row_self: "r \<in> set (store_row key r rows) \<longleftrightarrow> key r \<in> key ` set rows"
  by (auto simp: in_set_store_row)

lemma find_row_store_row [row_simps]:
  "find_row key i (store_row key r rows)
   = (if i = key r \<and> key r \<in> key ` set rows then Some r else find_row key i rows)"
  by (induction rows) (auto simp: store_row_def find_row_def)

lemma find_row_append [row_simps]:
  "find_row key i (xs @ ys) = (case find_row key i xs of None \<Rightarrow> find_row key i ys | Some r \<Rightarrow> Some r)"
  by (induction xs) (auto simp: find_row_def)

lemma distinct_map_inj: "distinct (map f xs) \<Longrightarrow> x \<in> set xs \<Longrightarrow> y \<in> set xs \<Longrightarrow> f x = f y \<Longrightarrow> x = y"
  by (simp add: distinct_map inj_on_def)

lemma distinct_map_filter_store:
  assumes "distinct (map f (filter P rows))"
    and "\<And>x. x \<in> set rows \<Longrightarrow> key x = key r \<Longrightarrow> (P r \<longrightarrow> P x) \<and> f r = f x"
  shows "distinct (map f (filter P (store_row key r rows)))"
  using assms
proof (induction rows)
  case Nil
  then show ?case by (simp add: store_row_def)
next
  case (Cons y ys)
  have sub: "f ` set (filter P (store_row key r ys)) \<subseteq> f ` set (filter P ys)"
  proof
    fix v
    assume "v \<in> f ` set (filter P (store_row key r ys))"
    then obtain x where x: "x \<in> set (store_row key r ys)" "P x" "v = f x" by auto
    show "v \<in> f ` set (filter P ys)"
    proof (cases "x = r \<and> key r \<in> key ` set ys")
      case True
      then obtain z where "z \<in> set ys" "key z = key r" by auto
      with Cons.prems(2) [of z] True x show ?thesis by (auto intro!: image_eqI [of _ _ z])
    next
      case False
      with x show ?thesis by (auto simp: in_set_store_row)
    qed
  qed
  have tl: "distinct (map f (filter P (store_row key r ys)))"
    using Cons.IH Cons.prems by (simp split: if_splits)
  have hd: "P y \<Longrightarrow> f y \<notin> f ` set (filter P ys)"
    using Cons.prems(1) by simp
  have "store_row key r (y # ys) = (if key y = key r then r else y) # store_row key r ys"
    by (simp add: store_row_def)
  moreover have "key y = key r \<Longrightarrow> P r \<Longrightarrow> P y \<and> f r = f y"
    using Cons.prems(2) [of y] by simp
  ultimately show ?case using tl hd sub by (auto simp: image_iff)
qed

lemma map_insort_key: "map f (insort_key f x xs) = insort (f x) (map f xs)"
  by (induction xs) auto

lemma map_sort_key: "map f (sort_key f xs) = sort (map f xs)"
  by (induction xs) (auto simp: map_insort_key)

text \<open>The first occurrence of each element, as \<open>dict.fromkeys\<close> keeps it.\<close>

definition distinct_first :: "'a list \<Rightarrow> 'a list" where
  "distinct_first xs = rev (remdups (rev xs))"

lemma distinct_first_props [simp]: "set (distinct_first xs) = set xs" "distinct (distinct_first xs)"
  by (simp_all add: distinct_first_def)

lemma find_append: "find P (xs @ ys) = (case find P xs of None \<Rightarrow> find P ys | Some x \<Rightarrow> Some x)"
  by (induction xs) auto

lemma filter_store_row:
  "(\<And>y. y \<in> set rows \<Longrightarrow> key y = key x \<Longrightarrow> P y = P x) \<Longrightarrow>
     filter P (store_row key x rows) = store_row key x (filter P rows)"
  by (induction rows) (auto simp: store_row_def)

lemma uuid_hex_short: "length s \<noteq> 32 \<Longrightarrow> uuid_hex u \<noteq> s"
  by auto

lemma distinct_append_fresh:
  assumes "distinct (map f xs)" "map f ys = map g [0..<m]" "distinct (map g [0..<m])"
    "\<And>j. j < m \<Longrightarrow> g j \<notin> f ` set xs"
  shows "distinct (map f (xs @ ys))"
proof -
  have "set (map f xs) \<inter> set (map g [0..<m]) = {}"
  proof (rule equals0I)
    fix y
    assume "y \<in> set (map f xs) \<inter> set (map g [0..<m])"
    then obtain j where "j < m" "y = g j" by auto
    moreover have "y \<in> f ` set xs" using \<open>y \<in> _\<close> by simp
    ultimately show False using assms(4) by simp
  qed
  with assms(1,3) show ?thesis unfolding map_append assms(2) distinct_append by blast
qed

text \<open>A unique constraint over a nullable column ignores the rows where it is null.\<close>

definition unique_nullable :: "('r \<Rightarrow> 'v option) \<Rightarrow> 'r list \<Rightarrow> bool" where
  "unique_nullable f rows \<longleftrightarrow> distinct (List.map_filter f rows)"

section \<open>Python text\<close>

definition py_isspace :: "char \<Rightarrow> bool" where
  "py_isspace c = (let n = of_char c :: nat in
     (9 \<le> n \<and> n \<le> 13) \<or> (28 \<le> n \<and> n \<le> 32) \<or> n = 133 \<or> n = 160)"

definition py_strip :: "string \<Rightarrow> string" where
  "py_strip s = rev (dropWhile py_isspace (rev (dropWhile py_isspace s)))"

definition ascii_digit :: "char \<Rightarrow> bool" where
  "ascii_digit c = (let n = of_char c :: nat in 48 \<le> n \<and> n \<le> 57)"

definition ascii_upper :: "char \<Rightarrow> bool" where
  "ascii_upper c = (let n = of_char c :: nat in 65 \<le> n \<and> n \<le> 90)"

definition ascii_lower :: "char \<Rightarrow> bool" where
  "ascii_lower c = (let n = of_char c :: nat in 97 \<le> n \<and> n \<le> 122)"

definition ascii_alnum :: "char \<Rightarrow> bool" where
  "ascii_alnum c \<longleftrightarrow> ascii_digit c \<or> ascii_upper c \<or> ascii_lower c"

text \<open>\<open>str.isalnum\<close> on one character: beyond ASCII these are the Latin-1 letters, the
  feminine and masculine ordinals, the micro sign, the superscript digits and the vulgar
  fractions.\<close>

definition py_isalnum :: "char \<Rightarrow> bool" where
  "py_isalnum c = (let n = of_char c :: nat in
     ascii_alnum c \<or> n \<in> {170, 178, 179, 181, 185, 186, 188, 189, 190}
     \<or> (192 \<le> n \<and> n \<noteq> 215 \<and> n \<noteq> 247))"

text \<open>\<open>str.isdigit\<close> on one character: the decimal digits and the three superscripts.\<close>

definition py_isdigit :: "char \<Rightarrow> bool" where
  "py_isdigit c = (ascii_digit c \<or> (of_char c :: nat) \<in> {178, 179, 185})"

definition py_isprintable :: "char \<Rightarrow> bool" where
  "py_isprintable c = (let n = of_char c :: nat in
     (32 \<le> n \<and> n \<le> 126) \<or> (161 \<le> n \<and> n \<noteq> 173))"

definition py_isascii :: "char \<Rightarrow> bool" where
  "py_isascii c = ((of_char c :: nat) < 128)"

text \<open>\<open>_SAFE_IDENTIFIER\<close>: one ASCII letter or digit, then at most 127 of the letters, digits,
  dot, underscore and hyphen.\<close>

definition identifier_char :: "char \<Rightarrow> bool" where
  "identifier_char c \<longleftrightarrow> ascii_alnum c \<or> c \<in> set ''._-''"

fun identifier_text :: "nat \<Rightarrow> string \<Rightarrow> bool" where
  "identifier_text bound [] = False"
| "identifier_text bound (c # cs) = (ascii_alnum c \<and> length cs \<le> bound \<and> list_all identifier_char cs)"

end
