(* ===== verification/Interfaces.thy ===== *)
theory Interfaces
  imports Prelude
begin

text \<open>
  The contracts the components rely on, as locales.

  \<^item> \<open>lifecycle\<close>: a status graph whose final statuses have no exit and whose steps climb a
    bounded rank; every client gets acyclicity, absorption and a bound on the number of steps.
  \<^item> \<open>transactional\<close>: a service whose requests either raise, and are rolled back, or commit a
    state that keeps the service's invariant; every history of requests then keeps it.
  \<^item> \<open>transactional_trail\<close>: in addition every committed request moves the state up a
    preorder, for instance "the audit trail is a prefix of the later one".
  \<^item> \<open>version_order\<close>: a fallible three-way comparison that is total and consistent on the
    valid versions.

  Each is interpreted on the definitions of the components that provide it.
\<close>

section \<open>Status graphs\<close>

locale lifecycle =
  fixes step :: "'s \<Rightarrow> 's \<Rightarrow> bool"
    and final :: "'s \<Rightarrow> bool"
    and rank :: "'s \<Rightarrow> nat"
    and top :: nat
  assumes final_stuck: "final s \<Longrightarrow> \<not> step s t"
    and step_rank: "step s t \<Longrightarrow> rank s < rank t"
    and rank_top: "rank s \<le> top"
begin

lemma path_rank: "step\<^sup>*\<^sup>* s t \<Longrightarrow> rank s \<le> rank t"
  by (induction rule: rtranclp_induct) (auto dest: step_rank)

lemma path_strict: "step\<^sup>+\<^sup>+ s t \<Longrightarrow> rank s < rank t"
  by (induction rule: tranclp_induct) (auto dest: step_rank)

lemma no_return: "\<not> step\<^sup>+\<^sup>+ s s"
  using path_strict by blast

lemma no_back: "step\<^sup>+\<^sup>+ s t \<Longrightarrow> \<not> step\<^sup>*\<^sup>* t s"
  using path_strict path_rank by (metis not_le)

lemma final_path: "final s \<Longrightarrow> step\<^sup>*\<^sup>* s t \<Longrightarrow> t = s"
  by (erule converse_rtranclpE) (auto dest: final_stuck)

lemma path_climbs: "(step ^^ n) s t \<Longrightarrow> rank s + n \<le> rank t"
proof (induction n arbitrary: t)
  case 0
  then show ?case by simp
next
  case (Suc n)
  then obtain u where "(step ^^ n) s u" "step u t" by auto
  with Suc.IH [of u] step_rank [of u t] show ?case by simp
qed

lemma path_bounded: "(step ^^ n) s t \<Longrightarrow> n \<le> top"
  using path_climbs [of n s t] rank_top [of t] by simp

end

section \<open>Transactional services\<close>

text \<open>
  \<open>serve exec requests state\<close> runs the requests one after the other; a request that raises
  leaves the state as it was, which is what rolling its transaction back does.
\<close>

fun serve :: "('c \<Rightarrow> 'db \<Rightarrow> 'e + 'db) \<Rightarrow> 'c list \<Rightarrow> 'db \<Rightarrow> 'db" where
  "serve exec [] db = db"
| "serve exec (c # cs) db = serve exec cs (case exec c db of Inl _ \<Rightarrow> db | Inr db' \<Rightarrow> db')"

lemma serve_append: "serve exec (cs @ ds) db = serve exec ds (serve exec cs db)"
  by (induction cs arbitrary: db) auto

text \<open>The committed tables of a request that also has an answer.\<close>

definition without_answer :: "'e + ('db \<times> 'r) \<Rightarrow> 'e + 'db" where
  "without_answer r = bindE r (\<lambda>x. Inr (fst x))"

lemma without_answer_Inr [simp]: "without_answer r = Inr db' \<longleftrightarrow> (\<exists>x. r = Inr (db', x))"
  by (auto simp: without_answer_def)

locale transactional =
  fixes exec :: "'c \<Rightarrow> 'db \<Rightarrow> 'e + 'db"
    and inv :: "'db \<Rightarrow> bool"
  assumes exec_inv: "inv db \<Longrightarrow> exec c db = Inr db' \<Longrightarrow> inv db'"
begin

lemma commit_inv: "inv db \<Longrightarrow> inv (case exec c db of Inl _ \<Rightarrow> db | Inr db' \<Rightarrow> db')"
  by (auto split: sum.split dest: exec_inv)

lemma serve_inv: "inv db \<Longrightarrow> inv (serve exec cs db)"
  by (induction cs arbitrary: db) (auto simp: commit_inv)

end

locale transactional_trail = transactional +
  fixes le :: "'db \<Rightarrow> 'db \<Rightarrow> bool"
  assumes le_refl: "le db db"
    and le_trans: "le db db1 \<Longrightarrow> le db1 db2 \<Longrightarrow> le db db2"
    and exec_le: "inv db \<Longrightarrow> exec c db = Inr db' \<Longrightarrow> le db db'"
begin

lemma commit_le: "inv db \<Longrightarrow> le db (case exec c db of Inl _ \<Rightarrow> db | Inr db' \<Rightarrow> db')"
  by (auto split: sum.split intro: le_refl exec_le)

lemma serve_le: "inv db \<Longrightarrow> le db (serve exec cs db)"
proof (induction cs arbitrary: db)
  case Nil
  then show ?case by (simp add: le_refl)
next
  case (Cons c cs)
  let ?db = "case exec c db of Inl _ \<Rightarrow> db | Inr db' \<Rightarrow> db'"
  have "le ?db (serve exec cs ?db)"
    using Cons by (blast intro: commit_inv)
  with commit_le [OF Cons.prems, of c] show ?case
    by (auto intro: le_trans)
qed

end

section \<open>Version comparisons\<close>

locale version_order =
  fixes cmp :: "'v \<Rightarrow> 'v \<Rightarrow> int option"
    and valid :: "'v \<Rightarrow> bool"
  assumes cmp_total: "valid a \<Longrightarrow> valid b \<Longrightarrow> \<exists>c \<in> {-1, 0, 1}. cmp a b = Some c"
    and cmp_swap: "valid a \<Longrightarrow> valid b \<Longrightarrow> cmp a b = Some x \<Longrightarrow> cmp b a = Some (- x)"
    and cmp_trans: "valid a \<Longrightarrow> valid b \<Longrightarrow> valid c \<Longrightarrow>
      cmp a b = Some x \<Longrightarrow> cmp b c = Some y \<Longrightarrow> x < 0 \<Longrightarrow> y \<le> 0 \<Longrightarrow> cmp a c = Some (-1)"
begin

lemma cmp_refl: "valid a \<Longrightarrow> cmp a a = Some 0"
  using cmp_total [of a a] cmp_swap [of a a] by fastforce

lemma older_irrefl: "valid a \<Longrightarrow> cmp a a = Some x \<Longrightarrow> \<not> x < 0"
  using cmp_refl [of a] by simp

lemma older_asym: "valid a \<Longrightarrow> valid b \<Longrightarrow> cmp a b = Some x \<Longrightarrow> x < 0 \<Longrightarrow> cmp b a = Some 1"
  using cmp_total [of a b] cmp_swap [of a b x] by auto

text \<open>A chain in which every version is older than the one before it never comes back to its
  first version.\<close>

lemma descending_chain:
  assumes "list_all valid (v # vs)"
    and "successively (\<lambda>a b. \<exists>x<0. cmp b a = Some x) (v # vs)"
    and "w \<in> set vs"
  shows "cmp w v = Some (-1)"
  using assms
proof (induction vs arbitrary: v)
  case Nil
  then show ?case by simp
next
  case (Cons u us)
  from Cons.prems obtain x where x: "cmp u v = Some x" "x < 0" by auto
  have ok: "valid v" "valid u" "valid w"
    using Cons.prems by (auto simp: list_all_iff)
  from x ok cmp_total [of u v] have uv: "cmp u v = Some (-1)" by fastforce
  show ?case
  proof (cases "w = u")
    case True
    with uv show ?thesis by simp
  next
    case False
    with Cons have "cmp w u = Some (-1)" by simp
    from cmp_trans [OF ok(3) ok(2) ok(1) this uv] show ?thesis by simp
  qed
qed

end

end
