(* ===== verification/Semver.thy ===== *)
theory Semver
  imports Interfaces "HOL-Library.Product_Lexorder"
begin

text \<open>
  Semantic versions: the pattern \<open>_SEMVER_PATTERN\<close> of \<open>endpoint_contracts/updates.py\<close> and the
  comparison \<open>_semver_parts\<close>, \<open>_compare_semver\<close> of \<open>endpoint_server/updates/service.py\<close>.
  A \<open>ValueError\<close> (a part that is not an integer, not exactly three parts) is \<open>None\<close>.

  The comparison is shown to be the three-way comparison of a key in a linear order on every
  pair of valid versions, which is what makes "older than" a strict order there; the locale
  \<open>version_order\<close> is interpreted on it.
\<close>

section \<open>Text operations the parser uses\<close>

fun split_on :: "char \<Rightarrow> string \<Rightarrow> string list" where
  "split_on c [] = [[]]"
| "split_on c (x # xs) =
     (if x = c then [] # split_on c xs
      else (case split_on c xs of [] \<Rightarrow> [[x]] | y # ys \<Rightarrow> (x # y) # ys))"

definition before_char :: "char \<Rightarrow> string \<Rightarrow> string" where
  "before_char c s = takeWhile (\<lambda>x. x \<noteq> c) s"

definition after_char :: "char \<Rightarrow> string \<Rightarrow> string option" where
  "after_char c s = (case dropWhile (\<lambda>x. x \<noteq> c) s of [] \<Rightarrow> None | _ # rest \<Rightarrow> Some rest)"

definition digit_value :: "char \<Rightarrow> nat" where
  "digit_value c = of_char c - 48"

definition decimal_value :: "string \<Rightarrow> nat" where
  "decimal_value s = foldl (\<lambda>n c. 10 * n + digit_value c) 0 s"

text \<open>\<open>int(text)\<close>: surrounding white space, a sign, and single underscores between digits are
  accepted.\<close>

definition py_int :: "string \<Rightarrow> int option" where
  "py_int s =
     (let t = py_strip s;
          negative = (t \<noteq> [] \<and> hd t = CHR ''-'');
          body = (if t \<noteq> [] \<and> (hd t = CHR ''-'' \<or> hd t = CHR ''+'') then tl t else t)
      in if list_all (\<lambda>g. g \<noteq> [] \<and> list_all ascii_digit g) (split_on (CHR ''_'') body)
         then Some ((if negative then - 1 else 1) * int (decimal_value (filter ascii_digit body)))
         else None)"

section \<open>The version pattern\<close>

definition numeric_identifier :: "string \<Rightarrow> bool" where
  "numeric_identifier s \<longleftrightarrow>
     s = ''0'' \<or> (s \<noteq> [] \<and> list_all ascii_digit s \<and> hd s \<noteq> CHR ''0'')"

definition label_char :: "char \<Rightarrow> bool" where
  "label_char c \<longleftrightarrow> ascii_alnum c \<or> c = CHR ''-''"

definition prerelease_identifier :: "string \<Rightarrow> bool" where
  "prerelease_identifier s \<longleftrightarrow>
     numeric_identifier s \<or> (list_all label_char s \<and> list_ex (\<lambda>c. \<not> ascii_digit c) s)"

definition build_identifier_label :: "string \<Rightarrow> bool" where
  "build_identifier_label s \<longleftrightarrow> s \<noteq> [] \<and> list_all label_char s"

definition semver_pattern :: "string \<Rightarrow> bool" where
  "semver_pattern s =
     (let main = before_char (CHR ''+'') s;
          build = after_char (CHR ''+'') s;
          core = split_on (CHR ''.'') (before_char (CHR ''-'') main);
          pre = after_char (CHR ''-'') main
      in length core = 3 \<and> list_all numeric_identifier core
         \<and> (case pre of None \<Rightarrow> True
            | Some p \<Rightarrow> list_all prerelease_identifier (split_on (CHR ''.'') p))
         \<and> (case build of None \<Rightarrow> True
            | Some b \<Rightarrow> list_all build_identifier_label (split_on (CHR ''.'') b)))"

definition SemanticVersionV1 :: "string \<Rightarrow> bool" where
  "SemanticVersionV1 s \<longleftrightarrow> 5 \<le> length s \<and> length s \<le> 64 \<and> semver_pattern s"

section \<open>The comparison\<close>

type_synonym semver = "(int \<times> int \<times> int) \<times> string list option"

definition semver_parts :: "string \<Rightarrow> semver option" where
  "semver_parts value =
     (let without_build = hd (split_on (CHR ''+'') value);
          core = before_char (CHR ''-'') without_build;
          prerelease = after_char (CHR ''-'') without_build
      in case map py_int (split_on (CHR ''.'') core) of
           [Some major, Some minor, Some patch] \<Rightarrow>
             Some ((major, minor, patch), map_option (split_on (CHR ''.'')) prerelease)
         | _ \<Rightarrow> None)"

definition all_isdigit :: "string \<Rightarrow> bool" where
  "all_isdigit s \<longleftrightarrow> s \<noteq> [] \<and> list_all py_isdigit s"

fun compare_prerelease :: "string list \<Rightarrow> string list \<Rightarrow> int option" where
  "compare_prerelease [] [] = Some 0"
| "compare_prerelease [] (r # rs) = Some (- 1)"
| "compare_prerelease (l # ls) [] = Some 1"
| "compare_prerelease (l # ls) (r # rs) =
     (if l = r then compare_prerelease ls rs
      else if all_isdigit l \<and> all_isdigit r then
        (case (py_int l, py_int r) of
           (Some a, Some b) \<Rightarrow> Some (if a < b then - 1 else 1)
         | _ \<Rightarrow> None)
      else if all_isdigit l \<noteq> all_isdigit r then Some (if all_isdigit l then - 1 else 1)
      else Some (if l < r then - 1 else 1))"

definition compare_semver :: "string \<Rightarrow> string \<Rightarrow> int option" where
  "compare_semver left right =
     (case (semver_parts left, semver_parts right) of
        (Some (left_core, left_pre), Some (right_core, right_pre)) \<Rightarrow>
          if left_core \<noteq> right_core then Some (if left_core < right_core then - 1 else 1)
          else (case (left_pre, right_pre) of
                  (None, None) \<Rightarrow> Some 0
                | (None, Some _) \<Rightarrow> Some 1
                | (Some _, None) \<Rightarrow> Some (- 1)
                | (Some ls, Some rs) \<Rightarrow> compare_prerelease ls rs)
      | _ \<Rightarrow> None)"

section \<open>The reference order\<close>

text \<open>
  The key of a version: its core, then a release after every pre-release, then the
  pre-release identifiers in order, a numeric one by value and before every alphanumeric one.
\<close>

type_synonym item_key = "nat \<times> nat \<times> string"

definition item_key :: "string \<Rightarrow> item_key" where
  "item_key s = (if all_isdigit s then (0, decimal_value s, []) else (1, 0, s))"

definition version_key :: "semver \<Rightarrow> (int \<times> int \<times> int) \<times> nat \<times> item_key list" where
  "version_key v =
     (fst v, case snd v of None \<Rightarrow> (1, []) | Some items \<Rightarrow> (0, map item_key items))"

definition three_way :: "'a :: linorder \<Rightarrow> 'a \<Rightarrow> int" where
  "three_way a b = (if a < b then - 1 else if a = b then 0 else 1)"

lemma three_way_swap: "three_way b a = - three_way a b"
  by (auto simp: three_way_def)

lemma three_way_trans: "three_way a b < 0 \<Longrightarrow> three_way b c \<le> 0 \<Longrightarrow> three_way a c = - 1"
  by (auto simp: three_way_def split: if_splits)

section \<open>The comparison is the order of the keys\<close>

lemma split_on_ne [simp]: "split_on c s \<noteq> []"
  by (induction s) (auto split: list.splits)

lemma hd_split_on: "hd (split_on c s) = before_char c s"
  by (induction s) (auto simp: before_char_def split: list.splits)

lemma split_on_absent: "c \<notin> set s \<Longrightarrow> split_on c s = [s]"
  by (induction s) auto

lemma ascii_digit_simps:
  "ascii_digit c \<Longrightarrow> \<not> py_isspace c" "ascii_digit c \<Longrightarrow> c \<noteq> CHR ''-''"
  "ascii_digit c \<Longrightarrow> c \<noteq> CHR ''+''" "ascii_digit c \<Longrightarrow> c \<noteq> CHR ''_''"
  "ascii_digit c \<Longrightarrow> py_isdigit c"
  by (auto simp: ascii_digit_def py_isspace_def py_isdigit_def Let_def)

lemma strip_digits:
  assumes "list_all ascii_digit s"
  shows "py_strip s = s"
proof -
  have none: "x \<in> set s \<Longrightarrow> \<not> py_isspace x" for x
    using assms by (auto simp: list_all_iff ascii_digit_simps)
  then have "dropWhile py_isspace s = s" "dropWhile py_isspace (rev s) = rev s"
    by (metis dropWhile_eq_self_iff hd_in_set, metis dropWhile_eq_self_iff hd_in_set set_rev)
  then show ?thesis by (simp add: py_strip_def)
qed

lemma py_int_digits:
  assumes "list_all ascii_digit s" and "s \<noteq> []"
  shows "py_int s = Some (int (decimal_value s))"
proof -
  have hd: "ascii_digit (hd s)" using assms by (cases s) auto
  have "CHR ''_'' \<notin> set s"
    using assms by (auto simp: list_all_iff dest: ascii_digit_simps)
  moreover have "filter ascii_digit s = s"
    using assms by (simp add: list_all_iff)
  ultimately show ?thesis
    using assms hd ascii_digit_simps [OF hd]
    by (simp add: py_int_def Let_def strip_digits split_on_absent)
qed

lemma decimal_value_snoc: "decimal_value (s @ [c]) = 10 * decimal_value s + digit_value c"
  by (simp add: decimal_value_def)

lemma digit_value_bound: "ascii_digit c \<Longrightarrow> digit_value c < 10"
  by (auto simp: ascii_digit_def digit_value_def Let_def)

lemma digit_value_inj: "ascii_digit c \<Longrightarrow> ascii_digit d \<Longrightarrow> digit_value c = digit_value d \<Longrightarrow> c = d"
proof -
  assume "ascii_digit c" "ascii_digit d" "digit_value c = digit_value d"
  then have "(of_char c :: nat) = of_char d"
    unfolding ascii_digit_def digit_value_def Let_def by linarith
  then show "c = d" by simp
qed

lemma decimal_value_upper: "list_all ascii_digit s \<Longrightarrow> decimal_value s < 10 ^ length s"
proof (induction s rule: rev_induct)
  case Nil
  then show ?case by (simp add: decimal_value_def)
next
  case (snoc c s)
  then show ?case using digit_value_bound [of c] by (simp add: decimal_value_snoc)
qed

lemma decimal_value_lower:
  "list_all ascii_digit s \<Longrightarrow> s \<noteq> [] \<Longrightarrow> hd s \<noteq> CHR ''0'' \<Longrightarrow> 10 ^ (length s - 1) \<le> decimal_value s"
proof (induction s rule: rev_induct)
  case Nil
  then show ?case by simp
next
  case (snoc c s)
  show ?case
  proof (cases "s = []")
    case True
    with snoc.prems have "ascii_digit c" "c \<noteq> CHR ''0''" by auto
    then have "0 < digit_value c"
      using digit_value_inj [of c "CHR ''0''"] by (force simp: ascii_digit_def digit_value_def)
    with True show ?thesis by (simp add: decimal_value_def)
  next
    case False
    with snoc have "10 ^ (length s - 1) \<le> decimal_value s" by simp
    then have "10 * 10 ^ (length s - 1) \<le> 10 * decimal_value s" by simp
    with False show ?thesis
      by (simp add: decimal_value_snoc power_Suc [symmetric] del: power_Suc)
  qed
qed

lemma decimal_value_inj_len:
  "length s = length t \<Longrightarrow> list_all ascii_digit s \<Longrightarrow> list_all ascii_digit t \<Longrightarrow>
   decimal_value s = decimal_value t \<Longrightarrow> s = t"
proof (induction s arbitrary: t rule: rev_induct)
  case Nil
  then show ?case by simp
next
  case (snoc c s)
  from snoc.prems(1) obtain t' d where t: "t = t' @ [d]" by (cases t rule: rev_cases) auto
  have cd: "ascii_digit c" "ascii_digit d" using snoc.prems t by auto
  have "digit_value c < 10" "digit_value d < 10" using cd digit_value_bound by auto
  moreover from snoc.prems(4) t
  have "10 * decimal_value s + digit_value c = 10 * decimal_value t' + digit_value d"
    by (simp add: decimal_value_snoc)
  ultimately have "decimal_value s = decimal_value t'" "digit_value c = digit_value d"
    by presburger+
  with snoc t cd show ?case by (auto intro: digit_value_inj)
qed

lemma numeric_identifier_digits:
  "numeric_identifier s \<Longrightarrow> s \<noteq> [] \<and> list_all ascii_digit s"
  by (auto simp: numeric_identifier_def ascii_digit_def)

lemma numeric_identifier_inj:
  assumes s: "numeric_identifier s" and t: "numeric_identifier t"
    and eq: "decimal_value s = decimal_value t"
  shows "s = t"
proof (cases "s = ''0'' \<or> t = ''0''")
  case True
  then show ?thesis
    using s t eq decimal_value_lower [of s] decimal_value_lower [of t]
    by (auto simp: numeric_identifier_def decimal_value_def digit_value_def)
next
  case False
  let ?n = "length s" and ?m = "length t"
  have digs: "list_all ascii_digit s" "list_all ascii_digit t" "s \<noteq> []" "t \<noteq> []"
    using numeric_identifier_digits s t by blast+
  have low: "10 ^ (?n - 1) \<le> decimal_value s" "10 ^ (?m - 1) \<le> decimal_value t"
    using False s t digs decimal_value_lower by (auto simp: numeric_identifier_def)
  have up: "decimal_value s < 10 ^ ?n" "decimal_value t < 10 ^ ?m"
    using digs by (auto intro: decimal_value_upper)
  have "(10::nat) ^ (?n - 1) < 10 ^ ?m" "(10::nat) ^ (?m - 1) < 10 ^ ?n"
    using low up eq by linarith+
  then have "?n - 1 < ?m" "?m - 1 < ?n" by simp_all
  with digs have "?n = ?m" by (cases s; cases t) auto
  with digs eq show ?thesis by (blast intro: decimal_value_inj_len)
qed

lemma prerelease_numeric: "prerelease_identifier s \<Longrightarrow> all_isdigit s \<Longrightarrow> numeric_identifier s"
  by (force simp: prerelease_identifier_def all_isdigit_def list_all_iff list_ex_iff py_isdigit_def
      label_char_def ascii_alnum_def ascii_digit_def ascii_upper_def ascii_lower_def Let_def)

lemma compare_prerelease_key:
  assumes "list_all prerelease_identifier ls" and "list_all prerelease_identifier rs"
  shows "compare_prerelease ls rs = Some (three_way (map item_key ls) (map item_key rs))"
  using assms
proof (induction ls rs rule: compare_prerelease.induct)
  case (4 l ls r rs)
  have ids: "prerelease_identifier l" "prerelease_identifier r" using "4.prems" by auto
  show ?case
  proof (cases "l = r")
    case True
    with 4 show ?thesis by (auto simp: three_way_def)
  next
    case False
    have num: "all_isdigit x \<Longrightarrow> prerelease_identifier x \<Longrightarrow> py_int x = Some (int (decimal_value x))" for x
      using prerelease_numeric numeric_identifier_digits py_int_digits by blast
    have "all_isdigit l \<Longrightarrow> all_isdigit r \<Longrightarrow> decimal_value l \<noteq> decimal_value r"
      using False ids prerelease_numeric numeric_identifier_inj by blast
    with False ids show ?thesis
      by (auto simp: three_way_def item_key_def num)
  qed
qed (auto simp: three_way_def)

definition valid_parts :: "semver \<Rightarrow> bool" where
  "valid_parts v \<longleftrightarrow> (case snd v of None \<Rightarrow> True | Some ps \<Rightarrow> list_all prerelease_identifier ps)"

lemma semver_parts_valid:
  assumes "semver_pattern s"
  obtains v where "semver_parts s = Some v" and "valid_parts v"
proof -
  let ?main = "before_char (CHR ''+'') s"
  let ?core = "split_on (CHR ''.'') (before_char (CHR ''-'') ?main)"
  have core: "length ?core = 3" "list_all numeric_identifier ?core"
    and pre: "case after_char (CHR ''-'') ?main of None \<Rightarrow> True
      | Some p \<Rightarrow> list_all prerelease_identifier (split_on (CHR ''.'') p)"
    using assms by (auto simp: semver_pattern_def Let_def)
  from core(1) obtain a b c where abc: "?core = [a, b, c]"
    by (auto simp: numeral_3_eq_3 length_Suc_conv)
  have "py_int x = Some (int (decimal_value x))" if "x \<in> {a, b, c}" for x
    using that core(2) abc numeric_identifier_digits py_int_digits by auto
  then have "semver_parts s
      = Some ((int (decimal_value a), int (decimal_value b), int (decimal_value c)),
              map_option (split_on (CHR ''.'')) (after_char (CHR ''-'') ?main))"
    using abc by (simp add: semver_parts_def hd_split_on Let_def)
  moreover have "valid_parts ((int (decimal_value a), int (decimal_value b), int (decimal_value c)),
              map_option (split_on (CHR ''.'')) (after_char (CHR ''-'') ?main))"
    using pre by (auto simp: valid_parts_def split: option.splits)
  ultimately show ?thesis by (rule that)
qed

definition semver_key :: "string \<Rightarrow> (int \<times> int \<times> int) \<times> nat \<times> item_key list" where
  "semver_key s = version_key (case semver_parts s of Some v \<Rightarrow> v | None \<Rightarrow> ((0, 0, 0), None))"

lemma compare_semver_key:
  assumes "semver_pattern a" and "semver_pattern b"
  shows "compare_semver a b = Some (three_way (semver_key a) (semver_key b))"
proof -
  obtain va vb where v: "semver_parts a = Some va" "valid_parts va"
      "semver_parts b = Some vb" "valid_parts vb"
    using assms by (meson semver_parts_valid)
  obtain ca pa cb pb where "va = (ca, pa)" "vb = (cb, pb)" by fastforce
  with v show ?thesis
    by (auto simp: compare_semver_def semver_key_def version_key_def three_way_def valid_parts_def
        compare_prerelease_key split: option.splits)
qed

interpretation semver: version_order compare_semver semver_pattern
proof
  fix a b
  assume "semver_pattern a" "semver_pattern b"
  then show "\<exists>c \<in> {-1, 0, 1}. compare_semver a b = Some c"
    by (auto simp: compare_semver_key three_way_def)
next
  fix a b c
  assume "semver_pattern a" "semver_pattern b" "compare_semver a b = Some c"
  then show "compare_semver b a = Some (- c)"
    using three_way_swap [of "semver_key a" "semver_key b"] by (simp add: compare_semver_key)
next
  fix a b c x y
  assume "semver_pattern a" "semver_pattern b" "semver_pattern c"
    "compare_semver a b = Some x" "compare_semver b c = Some y" "x < 0" "y \<le> 0"
  then show "compare_semver a c = Some (-1)"
    using three_way_trans [of "semver_key a" "semver_key b" "semver_key c"]
    by (simp add: compare_semver_key)
qed

end
