(* ===== verification/Audit_Trail.thy ===== *)
theory Audit_Trail
  imports Prelude
begin

text \<open>
  The audit trail: \<open>endpoint_server/audit/service.py\<close> and \<open>endpoint_server/audit/redaction.py\<close>.
  An event carries its attribution, its time and its redacted details; \<open>append_audit_event\<close>
  refuses blank attribution and otherwise adds one event to the end of the trail of the
  caller's transaction. Details are JSON values without floats, which no caller of the
  modelled services passes.

  Shown here: a redacted value holds nothing but the placeholder under a sensitive key, at any
  depth, and redaction changes no key; appending keeps the trail as a prefix.
\<close>

section \<open>JSON values and redaction\<close>

datatype json =
    JNull
  | JBool bool
  | JInt int
  | JStr string
  | JList "json list"
  | JObj "(string \<times> json) list"

definition REDACTED :: string where
  "REDACTED = ''[REDACTED]''"

definition lower_char :: "char \<Rightarrow> char" where
  "lower_char c = (if ascii_upper c then char_of ((of_char c :: nat) + 32) else c)"

text \<open>\<open>str.casefold\<close> followed by the removal of every character outside \<open>[a-z0-9]\<close>: of the
  characters beyond ASCII only the sharp s folds into that range.\<close>

definition fold_key_char :: "char \<Rightarrow> string" where
  "fold_key_char c = (if of_char c = (223 :: nat) then ''ss'' else [lower_char c])"

definition normalized_key :: "string \<Rightarrow> string" where
  "normalized_key key =
     filter (\<lambda>c. ascii_lower c \<or> ascii_digit c) (concat (map fold_key_char key))"

fun contains_text :: "string \<Rightarrow> string \<Rightarrow> bool" where
  "contains_text p [] = (p = [])"
| "contains_text p (c # cs) = (take (length p) (c # cs) = p \<or> contains_text p cs)"

definition sensitive_key_parts :: "string list" where
  "sensitive_key_parts =
     [''password'', ''token'', ''authorization'', ''cookie'', ''secret'', ''bearer'']"

definition sensitive_exact_keys :: "string list" where
  "sensitive_exact_keys = [''campaign'', ''claim'', ''receipt'']"

definition is_sensitive_key :: "string \<Rightarrow> bool" where
  "is_sensitive_key key =
     (let normalized = normalized_key key in
      normalized \<in> set sensitive_exact_keys
      \<or> list_ex (\<lambda>part. contains_text part normalized) sensitive_key_parts)"

definition word_char :: "char \<Rightarrow> bool" where
  "word_char c \<longleftrightarrow> py_isalnum c \<or> c = CHR ''_''"

definition token_char :: "char \<Rightarrow> bool" where
  "token_char c \<longleftrightarrow> \<not> py_isspace c \<and> c \<noteq> CHR '','' \<and> c \<noteq> CHR '';''"

text \<open>One match of \<open>_BEARER_VALUE\<close> at the head of a text, as the text after the match.\<close>

definition match_bearer :: "string \<Rightarrow> string option" where
  "match_bearer s =
     (let rest = drop 6 s;
          gap = takeWhile py_isspace rest;
          after = drop (length gap) rest;
          token = takeWhile token_char after
      in if map lower_char (take 6 s) = ''bearer'' \<and> gap \<noteq> [] \<and> token \<noteq> []
         then Some (drop (length token) after) else None)"

lemma match_bearer_shorter: "match_bearer s = Some r \<Longrightarrow> length r < length s"
  by (cases "s = []") (auto simp: match_bearer_def Let_def split: if_splits)

text \<open>The flag says whether the character before the text is a word character; after a match the
  next character is white space, a comma or a semicolon, which starts no match.\<close>

function redact_bearer_values :: "bool \<Rightarrow> string \<Rightarrow> string" where
  "redact_bearer_values inside [] = []"
| "redact_bearer_values inside (c # cs) =
     (case (if inside then None else match_bearer (c # cs)) of
        Some rest \<Rightarrow> ''Bearer '' @ REDACTED @ redact_bearer_values False rest
      | None \<Rightarrow> c # redact_bearer_values (word_char c) cs)"
  by pat_completeness auto
termination
  by (relation "measure (\<lambda>(inside, s). length s)")
    (auto split: if_splits dest!: match_bearer_shorter)

lemma match_bearer_space: "match_bearer s = Some r \<Longrightarrow> \<exists>c\<in>set s. py_isspace c"
proof -
  assume "match_bearer s = Some r"
  then have "takeWhile py_isspace (drop 6 s) \<noteq> []" by (auto simp: match_bearer_def Let_def split: if_splits)
  then obtain c cs where "takeWhile py_isspace (drop 6 s) = c # cs" by (cases "takeWhile py_isspace (drop 6 s)") auto
  then have "c \<in> set (drop 6 s)" "py_isspace c" by (metis list.set_intros(1) set_takeWhileD)+
  then show ?thesis by (meson in_set_dropD)
qed

text \<open>A text without white space carries no bearer value.\<close>

lemma redact_no_space: "list_all (\<lambda>c. \<not> py_isspace c) s \<Longrightarrow> redact_bearer_values inside s = s"
proof (induction s arbitrary: inside)
  case (Cons c cs)
  then have "match_bearer (c # cs) = None"
    using match_bearer_space [of "c # cs"] by (cases "match_bearer (c # cs)") (auto simp: list_all_iff)
  with Cons show ?case by simp
qed simp

fun redact :: "json \<Rightarrow> json" where
  "redact JNull = JNull"
| "redact (JBool b) = JBool b"
| "redact (JInt n) = JInt n"
| "redact (JStr s) = JStr (redact_bearer_values False s)"
| "redact (JList vs) = JList (map redact vs)"
| "redact (JObj kvs) =
     JObj (map (\<lambda>(k, v). (k, if is_sensitive_key k then JStr REDACTED else redact v)) kvs)"

section \<open>The trail\<close>

record audit_event =
  a_id :: "uuid option"  \<comment> \<open>\<open>None\<close>: the default random key of the row, which no operation reads\<close>
  a_actor_kind :: string
  a_actor_identifier :: "string option"
  a_action :: string
  a_object_kind :: string
  a_object_identifier :: "string option"
  a_request_id :: string
  a_details :: json
  a_created_at :: instant

definition blank :: "string \<Rightarrow> bool" where
  "blank s \<longleftrightarrow> py_strip s = []"

definition append_audit_event :: "'e \<Rightarrow> audit_event \<Rightarrow> audit_event list \<Rightarrow> 'e + audit_event list" where
  "append_audit_event value_error event trail =
     (if blank (a_actor_kind event) \<or> blank (a_action event) \<or> blank (a_object_kind event)
         \<or> blank (a_request_id event)
      then Inl value_error
      else Inr (trail @ [event\<lparr>a_details := redact (a_details event)\<rparr>]))"

lemma append_audit_event_Inr_iff [simp]:
  "append_audit_event e ev trail = Inr trail' \<longleftrightarrow>
     \<not> blank (a_actor_kind ev) \<and> \<not> blank (a_action ev) \<and> \<not> blank (a_object_kind ev)
     \<and> \<not> blank (a_request_id ev) \<and> trail' = trail @ [ev\<lparr>a_details := redact (a_details ev)\<rparr>]"
  by (auto simp: append_audit_event_def)

lemma append_audit_event_prefix [audit_frames]:
  "append_audit_event e ev trail = Inr trail' \<Longrightarrow> prefix trail trail'"
  by auto

fun append_audit_events :: "'e \<Rightarrow> audit_event list \<Rightarrow> audit_event list \<Rightarrow> 'e + audit_event list" where
  "append_audit_events e [] trail = Inr trail"
| "append_audit_events e (ev # evs) trail =
     bindE (append_audit_event e ev trail) (append_audit_events e evs)"

definition audit :: "string \<Rightarrow> string option \<Rightarrow> string \<Rightarrow> string \<Rightarrow> string option \<Rightarrow> string
    \<Rightarrow> (string \<times> json) list \<Rightarrow> instant \<Rightarrow> audit_event" where
  "audit actor_kind actor_identifier action object_kind object_identifier request_id details occurred_at =
     \<lparr>a_id = None, a_actor_kind = actor_kind, a_actor_identifier = actor_identifier, a_action = action,
      a_object_kind = object_kind, a_object_identifier = object_identifier,
      a_request_id = request_id, a_details = JObj details, a_created_at = occurred_at\<rparr>"

lemma audit_fields [simp]:
  "a_actor_kind (audit ak ai ac ok oi rq ds t) = ak"
  "a_action (audit ak ai ac ok oi rq ds t) = ac"
  "a_object_kind (audit ak ai ac ok oi rq ds t) = ok"
  "a_request_id (audit ak ai ac ok oi rq ds t) = rq"
  "a_id (audit ak ai ac ok oi rq ds t) = None"
  by (simp_all add: audit_def)

definition attributed :: "audit_event \<Rightarrow> bool" where
  "attributed ev \<longleftrightarrow> \<not> blank (a_actor_kind ev) \<and> \<not> blank (a_action ev) \<and> \<not> blank (a_object_kind ev)
     \<and> \<not> blank (a_request_id ev)"

definition redacted :: "audit_event \<Rightarrow> audit_event" where
  "redacted ev = ev\<lparr>a_details := redact (a_details ev)\<rparr>"

lemma append_audit_events_Inr_iff:
  "append_audit_events e evs trail = Inr trail' \<longleftrightarrow>
     list_all attributed evs \<and> trail' = trail @ map redacted evs"
  by (induction evs arbitrary: trail) (auto simp: attributed_def redacted_def)

lemma append_audit_events_prefix [audit_frames]:
  "append_audit_events e evs trail = Inr trail' \<Longrightarrow> prefix trail trail'"
  by (auto simp: append_audit_events_Inr_iff)

declare append_audit_events.simps [simp del]

lemma blank_Cons: "\<not> py_isspace c \<Longrightarrow> \<not> blank (c # cs)"
  by (auto simp: blank_def py_strip_def dropWhile_eq_Nil_conv)

lemma identifier_not_blank: "identifier_text n s \<Longrightarrow> \<not> blank s"
  by (cases s) (auto intro!: blank_Cons simp: ascii_alnum_def ascii_digit_def ascii_upper_def
      ascii_lower_def py_isspace_def Let_def)

section \<open>What redaction guarantees\<close>

text \<open>Every entry under a sensitive key, at any depth, is the placeholder.\<close>

fun clean :: "json \<Rightarrow> bool" where
  "clean (JList vs) = list_all clean vs"
| "clean (JObj kvs) =
     list_all (\<lambda>(k, v). if is_sensitive_key k then v = JStr REDACTED else clean v) kvs"
| "clean _ = True"

fun json_keys :: "json \<Rightarrow> string list" where
  "json_keys (JObj kvs) = map fst kvs"
| "json_keys _ = []"

lemma redact_clean: "clean (redact v)"
  by (induction v rule: redact.induct) (auto simp: list_all_iff)

lemma redact_keys: "json_keys (redact v) = json_keys v"
  by (cases v) auto

text \<open>Structure under insensitive keys is kept: a path that meets no sensitive key leads to the
  redaction of what it led to.\<close>

fun json_at :: "string list \<Rightarrow> json \<Rightarrow> json option" where
  "json_at [] v = Some v"
| "json_at (k # ks) (JObj kvs) = (case map_of kvs k of None \<Rightarrow> None | Some v \<Rightarrow> json_at ks v)"
| "json_at (k # ks) _ = None"

lemma map_of_redact:
  "map_of (map (\<lambda>(k, v). (k, if is_sensitive_key k then JStr REDACTED else redact v)) kvs) k
   = map_option (\<lambda>v. if is_sensitive_key k then JStr REDACTED else redact v) (map_of kvs k)"
  by (induction kvs) auto

lemma redact_at:
  "list_all (\<lambda>k. \<not> is_sensitive_key k) ks \<Longrightarrow> json_at ks (redact v) = map_option redact (json_at ks v)"
proof (induction ks v rule: json_at.induct)
  case (2 k ks kvs)
  then show ?case
    by (cases "map_of kvs k") (auto simp: map_of_redact)
qed auto

end
