(* ===== verification/Update_Prose.thy ===== *)
theory Update_Prose
  imports Audit_Trail
begin

text \<open>
  The public prose boundary of the update service, \<open>endpoint_contracts/update_safety.py\<close>:
  free text that administrators attach to builds and rollouts must not carry credentials or
  diagnostics. The two dashes beyond code point 255 that the alphabet also admits lie outside
  the modelled text type.
\<close>

datatype py_error = PyValueError

definition safe_prose_punctuation :: string where
  "safe_prose_punctuation = '' .,:;()!?&#+%'' @ [CHR 0x27] @ ''-''"

definition opaque_char :: "char \<Rightarrow> bool" where
  "opaque_char c \<longleftrightarrow> ascii_alnum c \<or> c = CHR ''_'' \<or> c = CHR ''-''"

text \<open>\<open>_OPAQUE_32_BYTE_SECRET.search\<close>: 43 consecutive base64url characters.\<close>

fun opaque_secret :: "string \<Rightarrow> bool" where
  "opaque_secret [] = False"
| "opaque_secret (c # cs) =
     (43 \<le> length (takeWhile opaque_char (c # cs)) \<or> opaque_secret cs)"

definition marker_words :: "string list" where
  "marker_words =
     [''token'', ''secret'', ''bearer'', ''authorization'', ''password'', ''cookie'', ''log'',
      ''logs'', ''trace'', ''traceback'', ''stacktrace'', ''pending'', ''archive'', ''stdout'',
      ''stderr'']"

definition marker_pairs :: "(string \<times> string) list" where
  "marker_pairs =
     [(''access'', ''token''), (''log'', ''output''), (''stack'', ''trace''), (''pending'', ''update'')]"

definition marker_suffixes :: "string list" where
  "marker_suffixes = [''.zip'', ''.tar.gz'', ''.tgz'', ''.7z'']"

definition starts_ci :: "string \<Rightarrow> string \<Rightarrow> bool" where
  "starts_ci w s \<longleftrightarrow> map lower_char (take (length w) s) = w"

definition word_end :: "string \<Rightarrow> bool" where
  "word_end s \<longleftrightarrow> s = [] \<or> \<not> word_char (hd s)"

definition separator_char :: "char \<Rightarrow> bool" where
  "separator_char c \<longleftrightarrow> c \<in> set '' ._-''"

definition marker_at :: "bool \<Rightarrow> string \<Rightarrow> bool" where
  "marker_at inside s \<longleftrightarrow>
     (\<not> inside
      \<and> (list_ex (\<lambda>w. starts_ci w s \<and> word_end (drop (length w) s)) marker_words
         \<or> list_ex (\<lambda>(a, b).
              let r = drop (length a) s; gap = takeWhile separator_char r; t = drop (length gap) r
              in starts_ci a s \<and> gap \<noteq> [] \<and> starts_ci b t \<and> word_end (drop (length b) t))
            marker_pairs))
     \<or> list_ex (\<lambda>w. starts_ci w s \<and> word_end (drop (length w) s)) marker_suffixes"

fun diagnostic_marker :: "bool \<Rightarrow> string \<Rightarrow> bool" where
  "diagnostic_marker inside [] = False"
| "diagnostic_marker inside (c # cs) =
     (marker_at inside (c # cs) \<or> diagnostic_marker (word_char c) cs)"

definition validate_no_opaque_update_secret :: "string \<Rightarrow> py_error + string" where
  "validate_no_opaque_update_secret value =
     (if opaque_secret value then Inl PyValueError else Inr value)"

definition validate_public_update_prose ::
  "string option \<Rightarrow> nat \<Rightarrow> bool \<Rightarrow> bool \<Rightarrow> py_error + string option" where
  "validate_public_update_prose value max_length required allow_newlines =
     (case value of
        None \<Rightarrow> if required then Inl PyValueError else Inr None
      | Some v \<Rightarrow>
          let allowed = (if allow_newlines then CHR 0x0A # safe_prose_punctuation
                         else safe_prose_punctuation) in
          if v = [] \<or> v \<noteq> py_strip v \<or> max_length < length v
             \<or> list_ex (\<lambda>c. \<not> py_isalnum c \<and> c \<notin> set allowed) v
             \<or> opaque_secret v \<or> diagnostic_marker False v
          then Inl PyValueError else Inr (Some v))"

lemma validate_public_update_prose_same:
  "validate_public_update_prose v n r a = Inr w \<Longrightarrow> w = v"
  by (auto simp: validate_public_update_prose_def Let_def split: option.splits if_splits)

lemma validate_public_update_prose_bounds:
  "validate_public_update_prose v n r a = Inr (Some w) \<Longrightarrow> 0 < length w \<and> length w \<le> n"
  by (auto simp: validate_public_update_prose_def Let_def split: option.splits if_splits)

lemma validate_public_update_prose_required:
  "validate_public_update_prose v n True a = Inr w \<Longrightarrow> w \<noteq> None"
  by (auto simp: validate_public_update_prose_def Let_def split: option.splits if_splits)

lemma opaque_secret_append: "opaque_secret s \<Longrightarrow> opaque_secret (p @ s)"
  by (induction p) auto

lemma opaque_run: "43 \<le> length (takeWhile opaque_char s) \<Longrightarrow> opaque_secret s"
  by (cases s) auto

lemma opaque_secret_run:
  assumes "list_all opaque_char t" and "43 \<le> length t"
  shows "opaque_secret (p @ t @ q)"
proof -
  have "takeWhile opaque_char (t @ q) = t @ takeWhile opaque_char q"
    using assms(1) by (simp add: list_all_iff)
  with assms(2) show ?thesis
    by (intro opaque_secret_append opaque_run) simp
qed

end
