(* ===== verification/Update_Model.thy ===== *)
theory Update_Model
  imports Semver Update_Prose
begin

text \<open>
  Data of the update control plane: the tables of \<open>endpoint_server/db/models/updates.py\<close> with
  their constraints, the wire contracts of \<open>endpoint_contracts/updates.py\<close> and the input
  checks of \<open>endpoint_server/updates/service.py\<close>. A row's \<open>created_at\<close> is set by the database and
  read by no operation, so it is left out. An identity argument of type \<open>uuid option\<close> is what the
  constructor \<open>UUID\<close> makes of the caller's value, \<open>None\<close> when it rejects it.
\<close>

section \<open>Rows\<close>

datatype update_error =
    UpdateValidationError
  | UpdateNotFound
  | UpdateConflict
  | UpdateStateError
  | IntegrityError
  | UpdateValueError
  | AuthorizationRevoked
  | BudgetExhausted
  | ContractError

datatype rollout_mode = Canary | Bulk | Rollback

datatype rollout_status = RDraft | RActive | RPaused | RCompleted | RCancelled

datatype target_status = TAssigned | TRequested | TScheduled | TApplied | TFailed | TRolledBack | TCancelled

record build =
  b_id :: uuid
  b_build_identifier :: string
  b_version :: string
  b_minimum_launcher_version :: "string option"
  b_platform :: string
  b_channel :: string
  b_artifact_identifier :: string
  b_artifact_url :: string
  b_artifact_name :: string
  b_archive_type :: string
  b_sha256_digest :: string
  b_size :: int
  b_release_notes :: "string option"

record rollout =
  r_id :: uuid
  r_rollout_identifier :: string
  r_build_id :: uuid
  r_mode :: rollout_mode
  r_reason :: "string option"
  r_status :: rollout_status
  r_started_at :: "instant option"
  r_paused_at :: "instant option"
  r_completed_at :: "instant option"
  r_cancelled_at :: "instant option"

record target =
  t_id :: uuid
  t_rollout_id :: uuid
  t_device_id :: uuid
  t_target_identifier :: string
  t_operation_id :: uuid
  t_status :: target_status
  t_assigned_at :: instant
  t_requested_at :: "instant option"
  t_scheduled_at :: "instant option"
  t_terminal_at :: "instant option"
  t_safe_reason :: "string option"
  t_updated_at :: "instant option"

record update_report =
  p_id :: uuid
  p_update_target_id :: uuid
  p_device_id :: uuid
  p_report_identifier :: string
  p_report_key :: string
  p_reported_version :: string
  p_status :: target_status
  p_safe_code :: "string option"

record update_device =
  d_id :: uuid
  d_retired_at :: "instant option"

record device_instance =
  i_id :: uuid
  i_device_id :: uuid
  i_launcher_version :: "string option"
  i_last_seen_at :: "instant option"

record updates_db =
  u_builds :: "build list"
  u_rollouts :: "rollout list"
  u_targets :: "target list"
  u_reports :: "update_report list"
  u_devices :: "update_device list"
  u_instances :: "device_instance list"
  u_audits :: "audit_event list"

fun active_target_status :: "target_status \<Rightarrow> bool" where
  "active_target_status s = (s = TAssigned \<or> s = TRequested \<or> s = TScheduled)"

fun terminal_target_status :: "target_status \<Rightarrow> bool" where
  "terminal_target_status s = (s = TApplied \<or> s = TFailed \<or> s = TRolledBack \<or> s = TCancelled)"

lemma terminal_iff_not_active: "terminal_target_status s \<longleftrightarrow> \<not> active_target_status s"
  by (cases s) auto

section \<open>Table constraints\<close>

definition build_constraints :: "updates_db \<Rightarrow> bool" where
  "build_constraints db \<longleftrightarrow>
     distinct (map b_id (u_builds db))
     \<and> distinct (map b_build_identifier (u_builds db))
     \<and> distinct (map (\<lambda>b. (b_platform b, b_channel b, b_version b)) (u_builds db))
     \<and> list_all (\<lambda>b. 0 < b_size b) (u_builds db)"

definition rollout_constraints :: "updates_db \<Rightarrow> bool" where
  "rollout_constraints db \<longleftrightarrow>
     distinct (map r_id (u_rollouts db))
     \<and> distinct (map r_rollout_identifier (u_rollouts db))
     \<and> list_all (\<lambda>r. r_build_id r \<in> set (map b_id (u_builds db))) (u_rollouts db)"

definition target_constraints :: "updates_db \<Rightarrow> bool" where
  "target_constraints db \<longleftrightarrow>
     distinct (map t_id (u_targets db))
     \<and> distinct (map t_target_identifier (u_targets db))
     \<and> distinct (map t_operation_id (u_targets db))
     \<and> distinct (map (\<lambda>t. (t_rollout_id t, t_device_id t)) (u_targets db))
     \<and> distinct (map t_device_id (filter (\<lambda>t. active_target_status (t_status t)) (u_targets db)))
     \<and> list_all (\<lambda>t. t_rollout_id t \<in> set (map r_id (u_rollouts db))) (u_targets db)
     \<and> list_all (\<lambda>t. t_device_id t \<in> set (map d_id (u_devices db))) (u_targets db)"

definition report_constraints :: "updates_db \<Rightarrow> bool" where
  "report_constraints db \<longleftrightarrow>
     distinct (map p_id (u_reports db))
     \<and> distinct (map p_report_identifier (u_reports db))
     \<and> distinct (map (\<lambda>p. (p_update_target_id p, p_report_key p)) (u_reports db))
     \<and> list_all (\<lambda>p. p_update_target_id p \<in> set (map t_id (u_targets db))) (u_reports db)
     \<and> list_all (\<lambda>p. p_device_id p \<in> set (map d_id (u_devices db))) (u_reports db)"

definition updates_constraints :: "updates_db \<Rightarrow> bool" where
  "updates_constraints db \<longleftrightarrow>
     distinct (map d_id (u_devices db)) \<and> build_constraints db \<and> rollout_constraints db
     \<and> target_constraints db \<and> report_constraints db"

text \<open>\<open>session.flush()\<close>: the database checks its constraints; \<open>err\<close> is what the caller makes of
  the \<open>IntegrityError\<close>.\<close>

definition flush :: "update_error \<Rightarrow> updates_db \<Rightarrow> update_error + updates_db" where
  "flush err db = (if updates_constraints db then Inr db else Inl err)"

lemma flush_Inr_iff [simp]: "flush e db = Inr db' \<longleftrightarrow> updates_constraints db \<and> db' = db"
  by (auto simp: flush_def)

section \<open>Input checks\<close>

fun timestamp :: "instant \<Rightarrow> moment option \<Rightarrow> update_error + instant" where
  "timestamp clock None = Inr clock"
| "timestamp clock (Some (Aware t)) = Inr t"
| "timestamp clock (Some (Naive t)) = Inl UpdateValidationError"

definition request_identifier :: "string \<Rightarrow> update_error + string" where
  "request_identifier value =
     (if identifier_text 127 value then Inr value else Inl UpdateValidationError)"

text \<open>The actor is \<open>str\<close> of the acting user's identity, \<open>None\<close> when the object carries none.\<close>

definition actor_identifier :: "string option \<Rightarrow> update_error + string" where
  "actor_identifier actor =
     (let value = (case actor of Some v \<Rightarrow> v | None \<Rightarrow> []) in
      if identifier_text 127 value then Inr value else Inl UpdateValidationError)"

definition safe_reason :: "string option \<Rightarrow> bool \<Rightarrow> update_error + string option" where
  "safe_reason value required =
     (case validate_public_update_prose value 512 required False of
        Inl _ \<Rightarrow> Inl UpdateValidationError
      | Inr v \<Rightarrow> Inr v)"

definition as_uuid :: "uuid option \<Rightarrow> update_error + uuid" where
  "as_uuid value = require UpdateValidationError value"

section \<open>Contracts\<close>

record url_view =
  url_string :: string
  url_scheme :: string
  url_hostname :: "string option"
  url_username :: "string option"
  url_password :: "string option"
  url_fragment :: string
  url_query :: string

record manifest =
  m_build_identifier :: string
  m_version :: string
  m_minimum_launcher_version :: "string option"
  m_platform :: string
  m_channel :: string
  m_artifact_url :: string
  m_artifact_name :: string
  m_archive_type :: string
  m_sha256 :: string
  m_size :: int
  m_release_notes :: "string option"

definition hex_text :: "string \<Rightarrow> bool" where
  "hex_text s \<longleftrightarrow> list_all (\<lambda>c. ascii_digit c \<or> c \<in> set ''abcdef'') s"

definition Sha256V1 :: "string \<Rightarrow> bool" where
  "Sha256V1 s \<longleftrightarrow> length s = 64 \<and> hex_text s"

fun SafeCodeV1 :: "string \<Rightarrow> bool" where
  "SafeCodeV1 [] = False"
| "SafeCodeV1 (c # cs) =
     (ascii_lower c \<and> length cs \<le> 127
      \<and> list_all (\<lambda>x. ascii_lower x \<or> ascii_digit x \<or> x \<in> set ''._-'') cs)"

definition https_wire_form :: "string \<Rightarrow> bool" where
  "https_wire_form s =
     (let rest = drop 8 s;
          authority = takeWhile (\<lambda>c. c \<notin> set ''/?#@%'') rest;
          tail = drop (length authority) rest
      in map lower_char (take 8 s) = ''https://'' \<and> authority \<noteq> []
         \<and> (tail = [] \<or> (hd tail = CHR ''/''
              \<and> list_all (\<lambda>c. c \<noteq> CHR ''?'' \<and> c \<noteq> CHR ''#'' \<and> \<not> py_isspace c) (tl tail))))"

definition ends_with :: "string \<Rightarrow> string \<Rightarrow> bool" where
  "ends_with suf s \<longleftrightarrow> length suf \<le> length s \<and> drop (length s - length suf) s = suf"

text \<open>
  \<open>UpdateBuildManifestV1\<close>. The parameter \<open>any_url\<close> is pydantic's \<open>AnyUrl\<close> read through
  \<open>urlsplit\<close>: the canonical text and the parts of the URL, \<open>None\<close> when it is not one.
\<close>

definition artifact_url_valid :: "(string \<Rightarrow> url_view option) \<Rightarrow> string \<Rightarrow> bool" where
  "artifact_url_valid any_url value =
     (https_wire_form value
      \<and> (case any_url value of
           None \<Rightarrow> False
         | Some u \<Rightarrow> map lower_char (url_scheme u) = ''https''
             \<and> (case url_hostname u of None \<Rightarrow> False | Some h \<Rightarrow> h \<noteq> [])
             \<and> url_username u = None \<and> url_password u = None
             \<and> url_fragment u = [] \<and> url_query u = []))"

definition release_notes_valid :: "string option \<Rightarrow> bool" where
  "release_notes_valid notes = is_ok (validate_public_update_prose notes 4096 False True)"

definition manifest_valid :: "(string \<Rightarrow> url_view option) \<Rightarrow> manifest \<Rightarrow> bool" where
  "manifest_valid any_url m \<longleftrightarrow>
     identifier_text 127 (m_build_identifier m) \<and> SemanticVersionV1 (m_version m)
     \<and> m_platform m \<in> {''linux_amd64'', ''windows_amd64''}
     \<and> m_channel m \<in> {''stable'', ''canary''}
     \<and> artifact_url_valid any_url (m_artifact_url m)
     \<and> identifier_text 255 (m_artifact_name m)
     \<and> m_archive_type m \<in> {''zip'', ''tar.gz''}
     \<and> Sha256V1 (m_sha256 m) \<and> 0 < m_size m \<and> m_size m \<le> 2 ^ 63 - 1
     \<and> (case m_minimum_launcher_version m of None \<Rightarrow> True | Some v \<Rightarrow> SemanticVersionV1 v)
     \<and> release_notes_valid (m_release_notes m)
     \<and> (m_archive_type m = ''zip'' \<longrightarrow> ends_with ''.zip'' (m_artifact_name m))
     \<and> (m_archive_type m = ''tar.gz'' \<longrightarrow> ends_with ''.tar.gz'' (m_artifact_name m))"

definition checked_manifest :: "(string \<Rightarrow> url_view option) \<Rightarrow> manifest \<Rightarrow> update_error + manifest" where
  "checked_manifest any_url m =
     (if manifest_valid any_url m then Inr m else Inl UpdateValidationError)"

definition build_values :: "(string \<Rightarrow> url_view option) \<Rightarrow> uuid \<Rightarrow> manifest \<Rightarrow> update_error + build" where
  "build_values any_url identity m =
     (case validate_public_update_prose (m_release_notes m) 4096 False True of
        Inl _ \<Rightarrow> Inl UpdateValidationError
      | Inr release_notes \<Rightarrow> Inr
          \<lparr>b_id = identity, b_build_identifier = m_build_identifier m, b_version = m_version m,
           b_minimum_launcher_version = m_minimum_launcher_version m,
           b_platform = m_platform m, b_channel = m_channel m,
           b_artifact_identifier = m_artifact_name m,
           b_artifact_url = (case any_url (m_artifact_url m) of Some u \<Rightarrow> url_string u | None \<Rightarrow> m_artifact_url m),
           b_artifact_name = m_artifact_name m, b_archive_type = m_archive_type m,
           b_sha256_digest = m_sha256 m, b_size = m_size m, b_release_notes = release_notes\<rparr>)"

text \<open>\<open>_same_manifest\<close>: every column but the identity agrees.\<close>

definition same_manifest :: "build \<Rightarrow> build \<Rightarrow> bool" where
  "same_manifest existing vals \<longleftrightarrow> existing\<lparr>b_id := b_id vals\<rparr> = vals"

datatype ack_status = AckRequested | AckScheduled

datatype report_status = ReportApplied | ReportFailed | ReportRolledBack

record agent_report =
  q_report_key :: string
  q_status :: report_status
  q_reported_version :: string
  q_safe_code :: "string option"

definition checked_report :: "agent_report \<Rightarrow> update_error + agent_report" where
  "checked_report q =
     (if identifier_text 127 (q_report_key q) \<and> \<not> opaque_secret (q_report_key q)
         \<and> SemanticVersionV1 (q_reported_version q) \<and> \<not> opaque_secret (q_reported_version q)
         \<and> (case q_safe_code q of None \<Rightarrow> True | Some c \<Rightarrow> SafeCodeV1 c)
      then Inr q else Inl UpdateValidationError)"

fun reported_target_status :: "report_status \<Rightarrow> target_status" where
  "reported_target_status ReportApplied = TApplied"
| "reported_target_status ReportFailed = TFailed"
| "reported_target_status ReportRolledBack = TRolledBack"

fun mode_of_text :: "string \<Rightarrow> rollout_mode option" where
  "mode_of_text s =
     (if s = ''canary'' then Some Canary else if s = ''bulk'' then Some Bulk
      else if s = ''rollback'' then Some Rollback else None)"

fun mode_text :: "rollout_mode \<Rightarrow> string" where
  "mode_text Canary = ''canary''"
| "mode_text Bulk = ''bulk''"
| "mode_text Rollback = ''rollback''"

text \<open>\<open>UpdateRolloutCreateV1\<close>, built by \<open>_validate_rollout_input\<close>.\<close>

definition rollout_contract_valid :: "string \<Rightarrow> rollout_mode \<Rightarrow> uuid list \<Rightarrow> string option \<Rightarrow> bool" where
  "rollout_contract_valid build_ident mode ids reason \<longleftrightarrow>
     identifier_text 127 build_ident
     \<and> 1 \<le> length ids \<and> length ids \<le> 10000
     \<and> (case reason of None \<Rightarrow> True | Some s \<Rightarrow> 1 \<le> length s \<and> length s \<le> 512)
     \<and> distinct ids
     \<and> \<not> (mode = Rollback \<and> (reason = None \<or> reason = Some []))"

fun uuid_list :: "uuid option list \<Rightarrow> update_error + uuid list" where
  "uuid_list [] = Inr []"
| "uuid_list (i # is) = bindE (as_uuid i) (\<lambda>u. bindE (uuid_list is) (\<lambda>us. Inr (u # us)))"

definition validate_rollout_input ::
  "build \<Rightarrow> string \<Rightarrow> uuid option list \<Rightarrow> string option
   \<Rightarrow> update_error + (rollout_mode \<times> uuid list \<times> string option)" where
  "validate_rollout_input bld mode device_ids reason =
     bindE (safe_reason reason (mode = ''rollback'')) (\<lambda>normalized_reason.
     bindE (uuid_list device_ids) (\<lambda>ids.
     bindE (require UpdateValidationError (mode_of_text mode)) (\<lambda>m.
       if rollout_contract_valid (b_build_identifier bld) m ids normalized_reason
       then Inr (m, ids, normalized_reason) else Inl UpdateValidationError)))"

lemma safe_reason_Inr:
  "safe_reason v r = Inr w \<Longrightarrow> w = v \<and> (r \<longrightarrow> w \<noteq> None)
   \<and> (\<forall>s. w = Some s \<longrightarrow> 0 < length s \<and> length s \<le> 512)"
  by (auto simp: safe_reason_def split: sum.splits
      dest: validate_public_update_prose_same validate_public_update_prose_bounds
        validate_public_update_prose_required)

lemma validate_rollout_input_Inr:
  assumes "validate_rollout_input bld mode ds reason = Inr (m, ids, reason')"
  shows "mode_of_text mode = Some m" and "distinct ids" and "ids \<noteq> []" and "reason' = reason"
    and "length ids \<le> 10000"
  using assms
  by (auto simp: validate_rollout_input_def rollout_contract_valid_def Let_def split: if_splits
      dest: safe_reason_Inr)

end
