(* ===== verification/Update_Service.thy ===== *)
theory Update_Service
  imports Update_Model
begin

text \<open>
  The operations of \<open>endpoint_server/updates/service.py\<close>. Each takes the tables and the
  request and returns either the exception, after which the caller rolls the transaction
  back, or the new tables with the returned row.

  \<open>gen\<close> gives the values of the successive \<open>uuid4()\<close> calls of one operation, \<open>clock\<close> the value of
  \<open>datetime.now(UTC)\<close>, and \<open>revalidate\<close> the outcome of the optional authorization check
  (\<open>None\<close> when the caller passes none).
\<close>

section \<open>Builds\<close>

definition build_identity_matches :: "build \<Rightarrow> build \<Rightarrow> bool" where
  "build_identity_matches vals b \<longleftrightarrow>
     b_build_identifier b = b_build_identifier vals
     \<or> (b_platform b = b_platform vals \<and> b_channel b = b_channel vals \<and> b_version b = b_version vals)"

text \<open>\<open>artifact_root\<close> says whether the caller configured the directory of the artifacts and
  \<open>archive_ok\<close> is the outcome of the path check and of \<open>verify_windows_archive\<close> on the file.\<close>

definition register_build ::
  "(string \<Rightarrow> url_view option) \<Rightarrow> (manifest \<Rightarrow> bool) \<Rightarrow> bool \<Rightarrow> (nat \<Rightarrow> uuid) \<Rightarrow> instant
   \<Rightarrow> manifest \<Rightarrow> string option \<Rightarrow> string \<Rightarrow> moment option \<Rightarrow> updates_db
   \<Rightarrow> update_error + (updates_db \<times> build)" where
  "register_build any_url archive_ok artifact_root gen clock m actor request_id now db =
     bindE (checked_manifest any_url m) (\<lambda>validated.
     bindE (actor_identifier actor) (\<lambda>actor_id.
     bindE (request_identifier request_id) (\<lambda>correlation_id.
     bindE (timestamp clock now) (\<lambda>occurred_at.
     bindE (build_values any_url (gen 0) validated) (\<lambda>vals.
       let existing = filter (build_identity_matches vals) (u_builds db) in
       if existing \<noteq> [] then
         (if length existing = 1 \<and> same_manifest (hd existing) vals then Inr (db, hd existing)
          else Inl UpdateConflict)
       else if m_platform validated = ''windows_amd64''
               \<and> \<not> (artifact_root \<and> m_archive_type validated = ''zip'' \<and> archive_ok validated)
       then Inl UpdateValidationError
       else
         bindE (append_audit_event UpdateValueError
                 (audit ''admin'' (Some actor_id) ''updates.build_registered'' ''update_build''
                   (Some (uuid_text (b_id vals))) correlation_id
                   [(''build_identifier'', JStr (b_build_identifier vals)),
                    (''channel'', JStr (b_channel vals)), (''platform'', JStr (b_platform vals)),
                    (''version'', JStr (b_version vals))] occurred_at)
                 (u_audits db)) (\<lambda>audits.
         bindE (flush UpdateConflict (db\<lparr>u_builds := u_builds db @ [vals], u_audits := audits\<rparr>)) (\<lambda>db'.
           Inr (db', vals))))))))"

definition locked_build :: "updates_db \<Rightarrow> uuid option \<Rightarrow> update_error + build" where
  "locked_build db build_id =
     bindE (as_uuid build_id) (\<lambda>i. require UpdateNotFound (find_row b_id i (u_builds db)))"

definition locked_rollout :: "updates_db \<Rightarrow> uuid option \<Rightarrow> update_error + rollout" where
  "locked_rollout db rollout_id =
     bindE (as_uuid rollout_id) (\<lambda>i. require UpdateNotFound (find_row r_id i (u_rollouts db)))"

section \<open>Creating rollouts\<close>

definition assignable_devices :: "updates_db \<Rightarrow> uuid list \<Rightarrow> update_device list" where
  "assignable_devices db device_ids =
     filter (\<lambda>d. d_id d \<in> set device_ids \<and> d_retired_at d = None) (u_devices db)"

definition owning_targets :: "updates_db \<Rightarrow> uuid list \<Rightarrow> uuid option \<Rightarrow> target list" where
  "owning_targets db device_ids excluding =
     filter (\<lambda>t. t_device_id t \<in> set device_ids \<and> active_target_status (t_status t)
       \<and> Some (t_rollout_id t) \<noteq> excluding) (u_targets db)"

definition lock_assignable_devices :: "updates_db \<Rightarrow> uuid list \<Rightarrow> uuid option \<Rightarrow> update_error + unit" where
  "lock_assignable_devices db device_ids excluding =
     (if length (assignable_devices db device_ids) \<noteq> length device_ids then Inl UpdateNotFound
      else if owning_targets db device_ids excluding \<noteq> [] then Inl UpdateConflict
      else Inr ())"

definition require_completed_canary :: "updates_db \<Rightarrow> uuid \<Rightarrow> update_error + unit" where
  "require_completed_canary db build_id =
     ensure (list_ex (\<lambda>r. r_build_id r = build_id \<and> r_mode r = Canary \<and> r_status r = RCompleted)
              (u_rollouts db)) UpdateStateError"

definition optional_text :: "string option \<Rightarrow> json" where
  "optional_text v = (case v of None \<Rightarrow> JNull | Some s \<Rightarrow> JStr s)"

definition new_rollout :: "(nat \<Rightarrow> uuid) \<Rightarrow> build \<Rightarrow> rollout_mode \<Rightarrow> string option \<Rightarrow> instant \<Rightarrow> rollout" where
  "new_rollout gen bld mode reason now =
     \<lparr>r_id = gen 0, r_rollout_identifier = ''ur_'' @ uuid_hex (gen 1), r_build_id = b_id bld,
      r_mode = mode, r_reason = reason, r_status = RActive, r_started_at = Some now,
      r_paused_at = None, r_completed_at = None, r_cancelled_at = None\<rparr>"

definition new_target :: "(nat \<Rightarrow> uuid) \<Rightarrow> string option \<Rightarrow> instant \<Rightarrow> nat \<times> uuid \<Rightarrow> target" where
  "new_target gen reason now = (\<lambda>(j, device_id).
     \<lparr>t_id = gen (3 * j + 2), t_rollout_id = gen 0, t_device_id = device_id,
      t_target_identifier = ''ut_'' @ uuid_hex (gen (3 * j + 3)), t_operation_id = gen (3 * j + 4),
      t_status = TAssigned, t_assigned_at = now, t_requested_at = None, t_scheduled_at = None,
      t_terminal_at = None, t_safe_reason = reason, t_updated_at = Some now\<rparr>)"

definition new_targets :: "(nat \<Rightarrow> uuid) \<Rightarrow> uuid list \<Rightarrow> string option \<Rightarrow> instant \<Rightarrow> target list" where
  "new_targets gen device_ids reason now = map (new_target gen reason now) (enumerate 0 device_ids)"

definition target_assigned_event :: "rollout \<Rightarrow> string \<Rightarrow> string \<Rightarrow> instant \<Rightarrow> target \<Rightarrow> audit_event" where
  "target_assigned_event rol actor_id request_id now t =
     audit ''admin'' (Some actor_id) ''updates.target_assigned'' ''update_target''
       (Some (uuid_text (t_id t))) request_id
       [(''device_id'', JStr (uuid_text (t_device_id t))),
        (''rollout_identifier'', JStr (r_rollout_identifier rol)), (''status'', JStr ''assigned'')] now"

definition create_active_rollout ::
  "(nat \<Rightarrow> uuid) \<Rightarrow> build \<Rightarrow> rollout_mode \<Rightarrow> uuid list \<Rightarrow> string option \<Rightarrow> string \<Rightarrow> string \<Rightarrow> instant
   \<Rightarrow> updates_db \<Rightarrow> update_error + (updates_db \<times> rollout)" where
  "create_active_rollout gen bld mode device_ids reason actor_id request_id now db =
     bindE (lock_assignable_devices db device_ids None) (\<lambda>_.
       let rol = new_rollout gen bld mode reason now;
           added = new_targets gen device_ids reason now;
           events = audit ''admin'' (Some actor_id) ''updates.rollout_created'' ''update_rollout''
               (Some (uuid_text (r_id rol))) request_id
               [(''build_identifier'', JStr (b_build_identifier bld)), (''mode'', JStr (mode_text mode)),
                (''reason'', optional_text reason), (''status'', JStr ''active''),
                (''target_count'', JInt (int (length device_ids)))] now
             # map (target_assigned_event rol actor_id request_id now) added
       in bindE (append_audit_events UpdateValueError events (u_audits db)) (\<lambda>audits.
          bindE (flush UpdateConflict
                  (db\<lparr>u_rollouts := u_rollouts db @ [rol], u_targets := u_targets db @ added,
                      u_audits := audits\<rparr>)) (\<lambda>db'. Inr (db', rol))))"

definition create_rollout ::
  "(nat \<Rightarrow> uuid) \<Rightarrow> instant \<Rightarrow> uuid option \<Rightarrow> string \<Rightarrow> uuid option list \<Rightarrow> string option \<Rightarrow> string option
   \<Rightarrow> string \<Rightarrow> moment option \<Rightarrow> updates_db \<Rightarrow> update_error + (updates_db \<times> rollout)" where
  "create_rollout gen clock build_id mode device_ids reason actor request_id now db =
     (if mode = ''rollback'' then Inl UpdateStateError
      else bindE (locked_build db build_id) (\<lambda>bld.
        bindE (validate_rollout_input bld mode device_ids reason) (\<lambda>(m, ids, normalized_reason).
        bindE (if mode = ''bulk'' then require_completed_canary db (b_id bld) else Inr ()) (\<lambda>_.
        bindE (actor_identifier actor) (\<lambda>actor_id.
        bindE (request_identifier request_id) (\<lambda>rid.
        bindE (timestamp clock now) (\<lambda>at.
          create_active_rollout gen bld m ids normalized_reason actor_id rid at db)))))))"

section \<open>Pausing, resuming, completing\<close>

definition rollout_event :: "string \<Rightarrow> string \<Rightarrow> string \<Rightarrow> rollout \<Rightarrow> string \<Rightarrow> (string \<times> json) list \<Rightarrow> instant \<Rightarrow> audit_event" where
  "rollout_event actor_kind actor_id action rol request_id details at =
     audit actor_kind (Some actor_id) action ''update_rollout'' (Some (uuid_text (r_id rol)))
       request_id details at"

definition store_rollout :: "rollout \<Rightarrow> audit_event list \<Rightarrow> updates_db \<Rightarrow> updates_db" where
  "store_rollout rol audits db = db\<lparr>u_rollouts := store_row r_id rol (u_rollouts db), u_audits := audits\<rparr>"

text \<open>The end shared by the operations on one row: audit event, write-back, flush.\<close>

definition commit_rollout :: "audit_event \<Rightarrow> rollout \<Rightarrow> updates_db \<Rightarrow> update_error + (updates_db \<times> rollout)" where
  "commit_rollout event rol db =
     bindE (append_audit_event UpdateValueError event (u_audits db)) (\<lambda>audits.
     bindE (flush IntegrityError (store_rollout rol audits db)) (\<lambda>db'. Inr (db', rol)))"

definition rollout_targets :: "updates_db \<Rightarrow> uuid \<Rightarrow> target list" where
  "rollout_targets db rollout_id = filter (\<lambda>t. t_rollout_id t = rollout_id) (u_targets db)"

definition activate_rollout ::
  "instant \<Rightarrow> uuid option \<Rightarrow> string option \<Rightarrow> string \<Rightarrow> moment option \<Rightarrow> updates_db
   \<Rightarrow> update_error + (updates_db \<times> rollout)" where
  "activate_rollout clock rollout_id actor request_id now db =
     bindE (locked_rollout db rollout_id) (\<lambda>rol.
       if r_status rol = RActive then Inr (db, rol)
       else if r_status rol \<noteq> RPaused then Inl UpdateStateError
       else
         let device_ids = sort (map t_device_id
               (filter (\<lambda>t. active_target_status (t_status t)) (rollout_targets db (r_id rol)))) in
         if device_ids = [] then Inl UpdateStateError
         else bindE (lock_assignable_devices db device_ids (Some (r_id rol))) (\<lambda>_.
           let active_targets = filter (\<lambda>t. active_target_status (t_status t))
                 (sort_key t_device_id (rollout_targets db (r_id rol))) in
           if map t_device_id active_targets \<noteq> device_ids then Inl UpdateStateError
           else
             bindE (timestamp clock now) (\<lambda>occurred_at.
             bindE (actor_identifier actor) (\<lambda>actor_id.
             bindE (request_identifier request_id) (\<lambda>rid.
               let rol' = rol\<lparr>r_status := RActive,
                     r_started_at := (case r_started_at rol of None \<Rightarrow> Some occurred_at | Some t \<Rightarrow> Some t),
                     r_paused_at := None\<rparr>
               in commit_rollout
                     (rollout_event ''admin'' actor_id ''updates.rollout_activated'' rol' rid
                       [(''status'', JStr ''active'')] occurred_at) rol' db)))))"

definition pause_rollout ::
  "instant \<Rightarrow> uuid option \<Rightarrow> string option \<Rightarrow> string \<Rightarrow> moment option \<Rightarrow> updates_db
   \<Rightarrow> update_error + (updates_db \<times> rollout)" where
  "pause_rollout clock rollout_id actor request_id now db =
     bindE (locked_rollout db rollout_id) (\<lambda>rol.
       if r_status rol = RPaused then Inr (db, rol)
       else if r_status rol \<noteq> RActive then Inl UpdateStateError
       else
         bindE (timestamp clock now) (\<lambda>occurred_at.
         bindE (actor_identifier actor) (\<lambda>actor_id.
         bindE (request_identifier request_id) (\<lambda>rid.
           let rol' = rol\<lparr>r_status := RPaused, r_paused_at := Some occurred_at\<rparr>
           in commit_rollout
                 (rollout_event ''admin'' actor_id ''updates.rollout_paused'' rol' rid
                   [(''status'', JStr ''paused'')] occurred_at) rol' db))))"

definition all_targets_terminal :: "target list \<Rightarrow> bool" where
  "all_targets_terminal ts \<longleftrightarrow> ts \<noteq> [] \<and> list_all (\<lambda>t. terminal_target_status (t_status t)) ts"

definition completed_rollout :: "instant \<Rightarrow> rollout \<Rightarrow> rollout" where
  "completed_rollout at rol =
     rol\<lparr>r_status := RCompleted, r_completed_at := Some at, r_paused_at := None\<rparr>"

definition complete_rollout ::
  "instant \<Rightarrow> uuid option \<Rightarrow> string option \<Rightarrow> string \<Rightarrow> moment option \<Rightarrow> updates_db
   \<Rightarrow> update_error + (updates_db \<times> rollout)" where
  "complete_rollout clock rollout_id actor request_id now db =
     bindE (locked_rollout db rollout_id) (\<lambda>rol.
       if r_status rol = RCompleted then Inr (db, rol)
       else if r_status rol \<notin> {RActive, RPaused} then Inl UpdateStateError
       else
         let ts = rollout_targets db (r_id rol) in
         if \<not> all_targets_terminal ts then Inl UpdateStateError
         else
           bindE (timestamp clock now) (\<lambda>occurred_at.
           bindE (actor_identifier actor) (\<lambda>actor_id.
           bindE (request_identifier request_id) (\<lambda>rid.
             let rol' = completed_rollout occurred_at rol
             in commit_rollout
                   (rollout_event ''admin'' actor_id ''updates.rollout_completed'' rol' rid
                     [(''status'', JStr ''completed''), (''target_count'', JInt (int (length ts)))]
                     occurred_at) rol' db))))"

section \<open>Rolling back\<close>

definition rollback_reason :: "uuid \<Rightarrow> string \<Rightarrow> string" where
  "rollback_reason trigger_id reason = ''rollback of '' @ uuid_text trigger_id @ ''; '' @ reason"

definition target_for_device :: "target list \<Rightarrow> uuid \<Rightarrow> target option" where
  "target_for_device ts device_id = find (\<lambda>t. t_device_id t = device_id) (rev ts)"

definition create_rollback_rollout ::
  "(nat \<Rightarrow> uuid) \<Rightarrow> instant \<Rightarrow> uuid option \<Rightarrow> uuid option \<Rightarrow> uuid option list \<Rightarrow> string option
   \<Rightarrow> string option \<Rightarrow> string \<Rightarrow> moment option \<Rightarrow> updates_db \<Rightarrow> update_error + (updates_db \<times> rollout)" where
  "create_rollback_rollout gen clock triggering_rollout_id build_id device_ids reason actor request_id now db =
     bindE (as_uuid triggering_rollout_id) (\<lambda>trigger_id.
     bindE (as_uuid build_id) (\<lambda>rollback_build_id.
     bindE (require UpdateNotFound (find_row r_id trigger_id (u_rollouts db))) (\<lambda>trigger.
     bindE (require UpdateNotFound (find_row b_id (r_build_id trigger) (u_builds db))) (\<lambda>trigger_build.
     bindE (require UpdateNotFound (find_row b_id rollback_build_id (u_builds db))) (\<lambda>rollback_build.
       let trigger_targets = sort_key (\<lambda>t. (t_device_id t, t_id t)) (rollout_targets db (r_id trigger)) in
       if trigger_targets = [] then Inl UpdateStateError
       else if r_status trigger = RDraft then Inl UpdateStateError
       else if b_id rollback_build = b_id trigger_build then Inl UpdateStateError
       else if b_platform rollback_build \<noteq> b_platform trigger_build then Inl UpdateStateError
       else bindE (require UpdateValueError (compare_semver (b_version rollback_build) (b_version trigger_build)))
         (\<lambda>order. if 0 \<le> order then Inl UpdateStateError
          else bindE (safe_reason reason True) (\<lambda>safe.
            let combined = rollback_reason (r_id trigger) (case safe of Some s \<Rightarrow> s | None \<Rightarrow> []) in
            if 512 < length combined then Inl UpdateValidationError
            else bindE (validate_rollout_input rollback_build ''rollback'' device_ids (Some combined))
              (\<lambda>(m, ids, normalized_reason).
                if list_ex (\<lambda>d. target_for_device trigger_targets d = None) ids then Inl UpdateStateError
                else if list_ex (\<lambda>d. case target_for_device trigger_targets d of
                        None \<Rightarrow> True | Some t \<Rightarrow> \<not> terminal_target_status (t_status t)) ids
                then Inl UpdateStateError
                else bindE (actor_identifier actor) (\<lambda>actor_id.
                     bindE (request_identifier request_id) (\<lambda>rid.
                     bindE (timestamp clock now) (\<lambda>at.
                       create_active_rollout gen rollback_build m ids normalized_reason actor_id rid at db)))))))))))"

section \<open>Recommending a build to an agent\<close>

record recommendation =
  c_build_identifier :: string
  c_version :: string
  c_platform :: string
  c_channel :: string
  c_artifact_url :: string
  c_artifact_name :: string
  c_archive_type :: string
  c_sha256 :: string
  c_size :: int
  c_operation_id :: uuid
  c_reason :: "string option"

definition recommendation_row :: "updates_db \<Rightarrow> uuid \<Rightarrow> string \<Rightarrow> target \<Rightarrow> (target \<times> rollout \<times> build) option" where
  "recommendation_row db device_id platform t =
     (if t_device_id t = device_id \<and> active_target_status (t_status t) then
        (case find_row r_id (t_rollout_id t) (u_rollouts db) of
           None \<Rightarrow> None
         | Some rol \<Rightarrow> if r_status rol \<noteq> RActive then None
             else (case find_row b_id (r_build_id rol) (u_builds db) of
                     None \<Rightarrow> None
                   | Some bld \<Rightarrow> if b_platform bld = platform then Some (t, rol, bld) else None))
      else None)"

text \<open>\<open>latest_instance_order\<close>: the last contact first, unknown ones last, then the greater key.\<close>

definition instance_order :: "device_instance \<Rightarrow> nat \<times> int \<times> int" where
  "instance_order i =
     (case i_last_seen_at i of None \<Rightarrow> (1, 0, - int (i_id i)) | Some t \<Rightarrow> (0, - t, - int (i_id i)))"

definition latest_launcher_version :: "updates_db \<Rightarrow> uuid \<Rightarrow> string option" where
  "latest_launcher_version db device_id =
     (case sort_key instance_order (filter (\<lambda>i. i_device_id i = device_id) (u_instances db)) of
        [] \<Rightarrow> None
      | i # _ \<Rightarrow> i_launcher_version i)"

definition checked_version :: "string option \<Rightarrow> string option" where
  "checked_version v = (case v of None \<Rightarrow> None | Some s \<Rightarrow> if SemanticVersionV1 s then Some s else None)"

definition launcher_admits :: "updates_db \<Rightarrow> uuid \<Rightarrow> build \<Rightarrow> update_error + bool" where
  "launcher_admits db device_id bld =
     (case b_minimum_launcher_version bld of
        None \<Rightarrow> Inr True
      | Some required \<Rightarrow>
          (case (checked_version (latest_launcher_version db device_id), checked_version (Some required)) of
             (Some reported, Some minimum) \<Rightarrow>
               bindE (require UpdateValueError (compare_semver reported minimum)) (\<lambda>order. Inr (0 \<le> order))
           | _ \<Rightarrow> Inr False))"

definition recommendation_of :: "target \<Rightarrow> rollout \<Rightarrow> build \<Rightarrow> recommendation" where
  "recommendation_of t rol bld =
     \<lparr>c_build_identifier = b_build_identifier bld, c_version = b_version bld, c_platform = b_platform bld,
      c_channel = b_channel bld, c_artifact_url = b_artifact_url bld, c_artifact_name = b_artifact_name bld,
      c_archive_type = b_archive_type bld, c_sha256 = b_sha256_digest bld, c_size = b_size bld,
      c_operation_id = t_operation_id t,
      c_reason = (case t_safe_reason t of
          Some [] \<Rightarrow> r_reason rol | None \<Rightarrow> r_reason rol | Some s \<Rightarrow> Some s)\<rparr>"

text \<open>\<open>AgentUpdateRecommendationV1\<close>: the stored columns pass the contract again. \<open>ContractError\<close> is pydantic's
  \<open>ValidationError\<close>, which the query does not catch.\<close>

definition reason_contract :: "string option \<Rightarrow> bool" where
  "reason_contract reason = (case reason of None \<Rightarrow> True | Some s \<Rightarrow> 1 \<le> length s \<and> length s \<le> 512)"

definition recommendation_valid :: "(string \<Rightarrow> url_view option) \<Rightarrow> recommendation \<Rightarrow> bool" where
  "recommendation_valid any_url c \<longleftrightarrow>
     identifier_text 127 (c_build_identifier c) \<and> SemanticVersionV1 (c_version c)
     \<and> c_platform c \<in> {''linux_amd64'', ''windows_amd64''} \<and> c_channel c \<in> {''stable'', ''canary''}
     \<and> artifact_url_valid any_url (c_artifact_url c) \<and> identifier_text 255 (c_artifact_name c)
     \<and> c_archive_type c \<in> {''zip'', ''tar.gz''} \<and> Sha256V1 (c_sha256 c) \<and> 0 < c_size c \<and> c_size c \<le> 2 ^ 63 - 1
     \<and> reason_contract (c_reason c)
     \<and> (c_archive_type c = ''zip'' \<longrightarrow> ends_with ''.zip'' (c_artifact_name c))
     \<and> (c_archive_type c = ''tar.gz'' \<longrightarrow> ends_with ''.tar.gz'' (c_artifact_name c))"

definition checked_recommendation :: "(string \<Rightarrow> url_view option) \<Rightarrow> recommendation \<Rightarrow> update_error + recommendation" where
  "checked_recommendation any_url c =
     (if recommendation_valid any_url c
      then Inr (c\<lparr>c_artifact_url := (case any_url (c_artifact_url c) of Some u \<Rightarrow> url_string u | None \<Rightarrow> c_artifact_url c)\<rparr>)
      else Inl ContractError)"

definition recommendation_for_device ::
  "(string \<Rightarrow> url_view option) \<Rightarrow> instant \<Rightarrow> uuid option \<Rightarrow> string \<Rightarrow> moment option \<Rightarrow> updates_db \<Rightarrow> update_error + recommendation option" where
  "recommendation_for_device any_url clock device_id platform now db =
     bindE (timestamp clock now) (\<lambda>_.
       if platform \<notin> {''linux_amd64'', ''windows_amd64''} then Inr None
       else bindE (as_uuid device_id) (\<lambda>device.
         case List.map_filter (recommendation_row db device platform) (u_targets db) of
           [] \<Rightarrow> Inr None
         | (t, rol, bld) # _ \<Rightarrow>
             bindE (launcher_admits db (t_device_id t) bld) (\<lambda>admitted.
               if admitted then bindE (checked_recommendation any_url (recommendation_of t rol bld)) (\<lambda>c. Inr (Some c))
               else Inr None)))"

section \<open>Acknowledgements and reports\<close>

definition locked_target_context ::
  "updates_db \<Rightarrow> uuid option \<Rightarrow> uuid option \<Rightarrow> update_error + (target \<times> rollout \<times> build)" where
  "locked_target_context db device_id operation_id =
     bindE (as_uuid operation_id) (\<lambda>operation.
     bindE (as_uuid device_id) (\<lambda>device.
     bindE (require UpdateNotFound
             (find (\<lambda>t. t_operation_id t = operation \<and> t_device_id t = device) (u_targets db))) (\<lambda>t.
     bindE (require UpdateNotFound (find_row r_id (t_rollout_id t) (u_rollouts db))) (\<lambda>rol.
     bindE (require UpdateNotFound (find_row b_id (r_build_id rol) (u_builds db))) (\<lambda>bld.
       Inr (t, rol, bld))))))"

definition check_authorization :: "bool option \<Rightarrow> update_error + unit" where
  "check_authorization revalidate = ensure (revalidate \<noteq> Some False) AuthorizationRevoked"

definition store_target :: "target \<Rightarrow> audit_event list \<Rightarrow> updates_db \<Rightarrow> updates_db" where
  "store_target t audits db = db\<lparr>u_targets := store_row t_id t (u_targets db), u_audits := audits\<rparr>"

definition commit_target :: "audit_event \<Rightarrow> target \<Rightarrow> updates_db \<Rightarrow> update_error + (updates_db \<times> target)" where
  "commit_target event t db =
     bindE (append_audit_event UpdateValueError event (u_audits db)) (\<lambda>audits.
     bindE (flush IntegrityError (store_target t audits db)) (\<lambda>db'. Inr (db', t)))"

definition target_event :: "string \<Rightarrow> target \<Rightarrow> string \<Rightarrow> (string \<times> json) list \<Rightarrow> instant \<Rightarrow> audit_event" where
  "target_event action t request_id details at =
     audit ''agent'' (Some (uuid_text (t_device_id t))) action ''update_target''
       (Some (uuid_text (t_id t))) request_id details at"

fun ack_text :: "ack_status \<Rightarrow> string" where
  "ack_text AckRequested = ''requested''"
| "ack_text AckScheduled = ''scheduled''"

fun acknowledged :: "ack_status \<Rightarrow> instant \<Rightarrow> target \<Rightarrow> target" where
  "acknowledged AckRequested at t = t\<lparr>t_status := TRequested, t_updated_at := Some at, t_requested_at := Some at\<rparr>"
| "acknowledged AckScheduled at t = t\<lparr>t_status := TScheduled, t_updated_at := Some at, t_scheduled_at := Some at\<rparr>"

definition record_ack ::
  "instant \<Rightarrow> uuid option \<Rightarrow> uuid option \<Rightarrow> ack_status \<Rightarrow> string \<Rightarrow> moment option \<Rightarrow> bool option \<Rightarrow> updates_db
   \<Rightarrow> update_error + (updates_db \<times> target)" where
  "record_ack clock device_id operation_id desired request_id now revalidate db =
     bindE (locked_target_context db device_id operation_id) (\<lambda>(t, rol, bld).
     bindE (check_authorization revalidate) (\<lambda>_.
       if r_status rol \<noteq> RActive then Inl UpdateStateError
       else if desired = AckRequested \<and> t_status t \<in> {TRequested, TScheduled} then Inr (db, t)
       else if desired = AckRequested \<and> t_status t \<noteq> TAssigned then Inl UpdateStateError
       else if desired = AckScheduled \<and> t_status t = TScheduled then Inr (db, t)
       else if desired = AckScheduled \<and> t_status t \<noteq> TRequested then Inl UpdateStateError
       else
         bindE (timestamp clock now) (\<lambda>occurred_at.
         bindE (request_identifier request_id) (\<lambda>rid.
           let t' = acknowledged desired occurred_at t
           in commit_target
                 (target_event ''updates.target_acknowledged'' t' rid
                   [(''status'', JStr (ack_text desired))] occurred_at) t' db))))"

fun report_text :: "report_status \<Rightarrow> string" where
  "report_text ReportApplied = ''applied''"
| "report_text ReportFailed = ''failed''"
| "report_text ReportRolledBack = ''rolled_back''"

definition same_report :: "update_report \<Rightarrow> agent_report \<Rightarrow> bool" where
  "same_report existing q \<longleftrightarrow>
     p_report_key existing = q_report_key q
     \<and> p_status existing = reported_target_status (q_status q)
     \<and> p_reported_version existing = q_reported_version q
     \<and> p_safe_code existing = q_safe_code q"

definition new_report :: "(nat \<Rightarrow> uuid) \<Rightarrow> target \<Rightarrow> agent_report \<Rightarrow> update_report" where
  "new_report gen t q =
     \<lparr>p_id = gen 0, p_update_target_id = t_id t, p_device_id = t_device_id t,
      p_report_identifier = ''upr_'' @ uuid_hex (gen 1), p_report_key = q_report_key q,
      p_reported_version = q_reported_version q, p_status = reported_target_status (q_status q),
      p_safe_code = q_safe_code q\<rparr>"

definition reported_target :: "agent_report \<Rightarrow> instant \<Rightarrow> target \<Rightarrow> target" where
  "reported_target q at t =
     t\<lparr>t_status := reported_target_status (q_status q), t_terminal_at := Some at, t_updated_at := Some at\<rparr>"

text \<open>The guards on a first report, the write of it with the completion of the rollout it may
  bring about, and the handler. The query for the targets of the rollout flushes the pending rows before
  the handler of the last flush is in force, so a constraint they violate surfaces as it is.\<close>

definition report_permitted :: "agent_report \<Rightarrow> target \<Rightarrow> rollout \<Rightarrow> build \<Rightarrow> bool" where
  "report_permitted validated t rol bld \<longleftrightarrow>
     r_status rol \<in> {RActive, RPaused} \<and> active_target_status (t_status t)
     \<and> \<not> (q_status validated \<in> {ReportApplied, ReportRolledBack} \<and> t_status t \<noteq> TScheduled)
     \<and> \<not> (q_status validated = ReportApplied \<and> q_reported_version validated \<noteq> b_version bld)"

definition complete_if_terminal ::
  "instant \<Rightarrow> string \<Rightarrow> rollout \<Rightarrow> updates_db \<Rightarrow> update_error + updates_db" where
  "complete_if_terminal occurred_at rid rol db =
     (let ts = rollout_targets db (r_id rol) in
      if all_targets_terminal ts
      then let rol' = completed_rollout occurred_at rol
           in bindE (append_audit_event UpdateValueError
                (rollout_event ''system'' ''update-controller''
                  ''updates.rollout_completed'' rol' rid
                  [(''status'', JStr ''completed''),
                   (''target_count'', JInt (int (length ts)))] occurred_at)
                (u_audits db)) (\<lambda>audits'. Inr (store_rollout rol' audits' db))
      else Inr db)"

definition write_report ::
  "instant \<Rightarrow> string \<Rightarrow> agent_report \<Rightarrow> update_report \<Rightarrow> target \<Rightarrow> rollout \<Rightarrow> updates_db
   \<Rightarrow> update_error + (updates_db \<times> update_report)" where
  "write_report occurred_at rid validated p t rol db =
     (let t' = reported_target validated occurred_at t
      in bindE (append_audit_event UpdateValueError
            (target_event ''updates.target_reported'' t' rid
              [(''reported_version'', JStr (q_reported_version validated)),
               (''safe_code'', optional_text (q_safe_code validated)),
               (''status'', JStr (report_text (q_status validated)))] occurred_at)
            (u_audits db)) (\<lambda>audits.
         bindE (flush IntegrityError ((store_target t' audits db)\<lparr>u_reports := u_reports db @ [p]\<rparr>)) (\<lambda>db1.
         bindE (complete_if_terminal occurred_at rid rol db1) (\<lambda>db2.
         bindE (flush UpdateConflict db2) (\<lambda>db'. Inr (db', p))))))"

definition record_report ::
  "(nat \<Rightarrow> uuid) \<Rightarrow> instant \<Rightarrow> uuid option \<Rightarrow> uuid option \<Rightarrow> agent_report \<Rightarrow> string \<Rightarrow> moment option
   \<Rightarrow> bool option \<Rightarrow> updates_db \<Rightarrow> update_error + (updates_db \<times> update_report)" where
  "record_report gen clock device_id operation_id q request_id now revalidate db =
     bindE (checked_report q) (\<lambda>validated.
     bindE (locked_target_context db device_id operation_id) (\<lambda>(t, rol, bld).
     bindE (check_authorization revalidate) (\<lambda>_.
       case find (\<lambda>p. p_update_target_id p = t_id t \<and> p_report_key p = q_report_key validated)
              (u_reports db) of
         Some existing \<Rightarrow> if same_report existing validated then Inr (db, existing) else Inl UpdateConflict
       | None \<Rightarrow>
           if \<not> report_permitted validated t rol bld then Inl UpdateStateError
           else
             bindE (timestamp clock now) (\<lambda>occurred_at.
             bindE (request_identifier request_id) (\<lambda>rid.
               write_report occurred_at rid validated (new_report gen t validated) t rol db)))))"

end
