(* ===== verification/Update_Cancellation.thy ===== *)
theory Update_Cancellation
  imports Update_Service
begin

text \<open>
  Cancelling one paused singleton canary: \<open>rollout_cancellation_context\<close> and
  \<open>cancel_paused_singleton_rollout\<close> of \<open>endpoint_server/updates/service.py\<close> with the contracts of
  \<open>endpoint_server/updates/admin_contracts.py\<close>.

  Parameters for what is not in the repository: \<open>codec\<close> is pydantic's \<open>model_dump\<close> and
  \<open>model_validate\<close> for the two stored contracts, \<open>sha256_hex\<close> and \<open>receipt_key\<close> are the digest of
  the operation identity and the name-based UUID of the receipt. \<open>owned\<close> says whether the session
  is the budget's own, \<open>budget k\<close> whether the \<open>k\<close>-th explicit budget check passes, \<open>revalidate\<close>
  whether the administrator's authority still holds.
\<close>

section \<open>Contracts\<close>

record cancel_context =
  x_rollout_id :: uuid
  x_rollout_identifier :: string
  x_paused_at :: instant
  x_build_id :: uuid
  x_build_identifier :: string
  x_artifact_name :: string
  x_artifact_sha256 :: string
  x_target_id :: uuid
  x_target_identifier :: string
  x_device_id :: uuid
  x_operation_identity :: string
  x_target_status :: target_status

record cancel_request =
  y_cancellation_id :: uuid
  y_expected :: cancel_context
  y_run_id :: uuid
  y_evidence_sha256 :: string
  y_verified_at :: instant

record cancel_response =
  z_cancellation_id :: uuid
  z_rollout_id :: uuid
  z_rollout_identifier :: string
  z_build_id :: uuid
  z_build_identifier :: string
  z_target_id :: uuid
  z_target_identifier :: string
  z_device_id :: uuid
  z_operation_identity :: string
  z_artifact_sha256 :: string
  z_cancelled_at :: instant
  z_terminal_at :: instant

definition cancel_context_valid :: "cancel_context \<Rightarrow> bool" where
  "cancel_context_valid x \<longleftrightarrow>
     x_rollout_id x \<noteq> 0 \<and> identifier_text 127 (x_rollout_identifier x)
     \<and> x_build_id x \<noteq> 0 \<and> identifier_text 127 (x_build_identifier x)
     \<and> identifier_text 255 (x_artifact_name x) \<and> Sha256V1 (x_artifact_sha256 x)
     \<and> x_target_id x \<noteq> 0 \<and> identifier_text 127 (x_target_identifier x) \<and> x_device_id x \<noteq> 0
     \<and> Sha256V1 (x_operation_identity x) \<and> active_target_status (x_target_status x)"

definition cancel_request_valid :: "cancel_request \<Rightarrow> bool" where
  "cancel_request_valid y \<longleftrightarrow>
     y_cancellation_id y \<noteq> 0 \<and> cancel_context_valid (y_expected y) \<and> y_run_id y \<noteq> 0
     \<and> Sha256V1 (y_evidence_sha256 y)"

record cancel_codec =
  dump_request :: "cancel_request \<Rightarrow> json"
  load_request :: "json \<Rightarrow> cancel_request option"
  dump_response :: "cancel_response \<Rightarrow> json"
  load_response :: "json \<Rightarrow> cancel_response option"

section \<open>The context of a cancellation\<close>

definition operation_identity :: "(string \<Rightarrow> string) \<Rightarrow> uuid \<Rightarrow> update_error + string" where
  "operation_identity sha256_hex operation_id =
     (if operation_id = 0 then Inl UpdateConflict
      else Inr (sha256_hex (''endpoint-update-operation-identity-v1'' @ [CHR 0x00] @ uuid_text operation_id)))"

definition cancellation_context ::
  "(string \<Rightarrow> string) \<Rightarrow> build \<Rightarrow> rollout \<Rightarrow> target \<Rightarrow> target_status \<Rightarrow> update_error + cancel_context" where
  "cancellation_context sha256_hex bld rol t status =
     bindE (operation_identity sha256_hex (t_operation_id t)) (\<lambda>identity.
       case r_paused_at rol of
         None \<Rightarrow> Inl UpdateConflict
       | Some paused_at \<Rightarrow>
           let x = \<lparr>x_rollout_id = r_id rol, x_rollout_identifier = r_rollout_identifier rol,
                    x_paused_at = paused_at, x_build_id = b_id bld,
                    x_build_identifier = b_build_identifier bld, x_artifact_name = b_artifact_name bld,
                    x_artifact_sha256 = b_sha256_digest bld, x_target_id = t_id t,
                    x_target_identifier = t_target_identifier t, x_device_id = t_device_id t,
                    x_operation_identity = identity, x_target_status = status\<rparr>
           in if r_mode rol = Canary \<and> cancel_context_valid x then Inr x else Inl UpdateConflict)"

definition cancellable_rollout :: "rollout \<Rightarrow> bool" where
  "cancellable_rollout rol \<longleftrightarrow>
     r_mode rol = Canary \<and> r_status rol = RPaused \<and> r_paused_at rol \<noteq> None
     \<and> r_completed_at rol = None \<and> r_cancelled_at rol = None"

definition open_target :: "target \<Rightarrow> bool" where
  "open_target t \<longleftrightarrow> active_target_status (t_status t) \<and> t_terminal_at t = None"

definition rollout_cancellation_context ::
  "(string \<Rightarrow> string) \<Rightarrow> bool \<Rightarrow> (nat \<Rightarrow> bool) \<Rightarrow> uuid \<Rightarrow> updates_db \<Rightarrow> update_error + cancel_context" where
  "rollout_cancellation_context sha256_hex owned budget rollout_id db =
     (if \<not> owned then Inl UpdateValidationError
      else if \<not> budget 0 then Inl BudgetExhausted
      else bindE (require UpdateNotFound (find_row r_id rollout_id (u_rollouts db))) (\<lambda>rol.
           bindE (require UpdateNotFound (find_row b_id (r_build_id rol) (u_builds db))) (\<lambda>bld.
             case rollout_targets db (r_id rol) of
               [t] \<Rightarrow> if cancellable_rollout rol \<and> open_target t
                      then cancellation_context sha256_hex bld rol t (t_status t)
                      else Inl UpdateConflict
             | _ \<Rightarrow> Inl UpdateConflict)))"

section \<open>Cancelling\<close>

definition cancellation_response :: "cancel_request \<Rightarrow> instant \<Rightarrow> cancel_response" where
  "cancellation_response body occurred_at =
     (let expected = y_expected body in
      \<lparr>z_cancellation_id = y_cancellation_id body, z_rollout_id = x_rollout_id expected,
       z_rollout_identifier = x_rollout_identifier expected, z_build_id = x_build_id expected,
       z_build_identifier = x_build_identifier expected, z_target_id = x_target_id expected,
       z_target_identifier = x_target_identifier expected, z_device_id = x_device_id expected,
       z_operation_identity = x_operation_identity expected,
       z_artifact_sha256 = x_artifact_sha256 expected,
       z_cancelled_at = occurred_at, z_terminal_at = occurred_at\<rparr>)"

fun target_status_text :: "target_status \<Rightarrow> string" where
  "target_status_text TAssigned = ''assigned''"
| "target_status_text TRequested = ''requested''"
| "target_status_text TScheduled = ''scheduled''"
| "target_status_text TApplied = ''applied''"
| "target_status_text TFailed = ''failed''"
| "target_status_text TRolledBack = ''rolled_back''"
| "target_status_text TCancelled = ''cancelled''"

definition recovery_window :: "cancel_request \<Rightarrow> instant \<Rightarrow> bool" where
  "recovery_window body at \<longleftrightarrow>
     x_paused_at (y_expected body) \<le> y_verified_at body \<and> y_verified_at body \<le> at
     \<and> at - y_verified_at body \<le> seconds 1200"

definition receipt_details :: "cancel_codec \<Rightarrow> cancel_request \<Rightarrow> cancel_response \<Rightarrow> (string \<times> json) list" where
  "receipt_details codec body response =
     [(''version'', JInt 1), (''request'', dump_request codec body),
      (''response'', dump_response codec response), (''prior_rollout_status'', JStr ''paused''),
      (''prior_target_status'', JStr (target_status_text (x_target_status (y_expected body)))),
      (''target_count'', JInt 1)]"

definition json_field :: "string \<Rightarrow> json \<Rightarrow> json option" where
  "json_field k v = (case v of JObj kvs \<Rightarrow> map_of kvs k | _ \<Rightarrow> None)"

definition receipt_keys :: "string set" where
  "receipt_keys = {''version'', ''request'', ''response'', ''prior_rollout_status'',
                   ''prior_target_status'', ''target_count''}"

text \<open>The replay of a cancellation whose receipt is on file: the stored request and response must
  be the ones this request and the cancelled rows give.\<close>

definition replay_cancellation ::
  "cancel_codec \<Rightarrow> (string \<Rightarrow> string) \<Rightarrow> build \<Rightarrow> rollout \<Rightarrow> target \<Rightarrow> audit_event \<Rightarrow> cancel_request \<Rightarrow> string
   \<Rightarrow> update_error + cancel_response" where
  "replay_cancellation codec sha256_hex bld rol t receipt body actor_id =
     (let details = a_details receipt in
      case (json_field ''request'' details, json_field ''response'' details) of
        (Some request, Some response) \<Rightarrow>
          (case (load_request codec request, load_response codec response, r_cancelled_at rol) of
             (Some saved, Some resp, Some cancelled_at) \<Rightarrow>
               if set (json_keys details) \<noteq> receipt_keys
                  \<or> json_field ''version'' details \<noteq> Some (JInt 1)
                  \<or> json_field ''target_count'' details \<noteq> Some (JInt 1)
                  \<or> json_field ''prior_rollout_status'' details \<noteq> Some (JStr ''paused'')
                  \<or> json_field ''prior_target_status'' details
                     \<noteq> Some (JStr (target_status_text (x_target_status (y_expected saved))))
                  \<or> dump_request codec saved \<noteq> dump_request codec body
                  \<or> request \<noteq> dump_request codec saved
                  \<or> response \<noteq> dump_response codec resp
                  \<or> a_action receipt \<noteq> ''updates.rollout_cancelled'' \<or> a_actor_kind receipt \<noteq> ''admin''
                  \<or> a_actor_identifier receipt \<noteq> Some actor_id \<or> a_object_kind receipt \<noteq> ''update_rollout''
                  \<or> a_object_identifier receipt \<noteq> Some (uuid_text (r_id rol))
                  \<or> r_status rol \<noteq> RCancelled \<or> r_completed_at rol \<noteq> None
                  \<or> t_status t \<noteq> TCancelled
                  \<or> t_terminal_at t \<noteq> Some cancelled_at \<or> t_updated_at t \<noteq> Some cancelled_at
                  \<or> a_created_at receipt \<noteq> cancelled_at
                  \<or> \<not> recovery_window saved cancelled_at
                  \<or> cancellation_context sha256_hex bld rol t (x_target_status (y_expected saved))
                     \<noteq> Inr (y_expected saved)
               then Inl UpdateConflict
               else if resp \<noteq> cancellation_response saved cancelled_at then Inl UpdateConflict
               else Inr resp
           | _ \<Rightarrow> Inl UpdateConflict)
      | _ \<Rightarrow> Inl UpdateConflict)"

definition cancelled_target :: "instant \<Rightarrow> target \<Rightarrow> target" where
  "cancelled_target at t = t\<lparr>t_status := TCancelled, t_terminal_at := Some at, t_updated_at := Some at\<rparr>"

definition cancelled_rollout :: "instant \<Rightarrow> rollout \<Rightarrow> rollout" where
  "cancelled_rollout at rol = rol\<lparr>r_status := RCancelled, r_cancelled_at := Some at\<rparr>"

definition cancellation_ready ::
  "(string \<Rightarrow> string) \<Rightarrow> updates_db \<Rightarrow> build \<Rightarrow> rollout \<Rightarrow> target \<Rightarrow> cancel_request \<Rightarrow> bool" where
  "cancellation_ready sha256_hex db bld rol t body \<longleftrightarrow>
     (case find_row d_id (t_device_id t) (u_devices db) of None \<Rightarrow> False | Some d \<Rightarrow> d_retired_at d = None)
     \<and> map t_id (filter (\<lambda>u. t_device_id u = x_device_id (y_expected body)
          \<and> active_target_status (t_status u)) (u_targets db)) = [t_id t]
     \<and> \<not> list_ex (\<lambda>p. p_update_target_id p = x_target_id (y_expected body)
          \<and> p_status p \<in> {TApplied, TFailed, TRolledBack}) (u_reports db)
     \<and> open_target t
     \<and> cancellation_context sha256_hex bld rol t (t_status t) = Inr (y_expected body)"

definition execute_cancellation ::
  "cancel_codec \<Rightarrow> (uuid \<Rightarrow> uuid) \<Rightarrow> cancel_request \<Rightarrow> string \<Rightarrow> string \<Rightarrow> instant \<Rightarrow> rollout \<Rightarrow> target
   \<Rightarrow> updates_db \<Rightarrow> update_error + (updates_db \<times> cancel_response)" where
  "execute_cancellation codec receipt_key body actor_id correlation_id occurred_at rol t db =
     (if \<not> recovery_window body occurred_at then Inl UpdateConflict
      else
        let response = cancellation_response body occurred_at;
            details = receipt_details codec body response;
            event = (audit ''admin'' (Some actor_id) ''updates.rollout_cancelled''
              ''update_rollout'' (Some (uuid_text (r_id rol))) correlation_id details
              occurred_at)\<lparr>a_id := Some (receipt_key (r_id rol))\<rparr>
        in bindE (append_audit_event UpdateValueError event (u_audits db)) (\<lambda>audits.
           if redact (JObj details) \<noteq> JObj details then Inl UpdateValidationError
           else bindE (flush IntegrityError
                  (store_rollout (cancelled_rollout occurred_at rol) audits
                    (store_target (cancelled_target occurred_at t) audits db))) (\<lambda>db'.
             Inr (db', response))))"

definition cancel_paused_singleton_rollout ::
  "cancel_codec \<Rightarrow> (string \<Rightarrow> string) \<Rightarrow> (uuid \<Rightarrow> uuid) \<Rightarrow> bool \<Rightarrow> (nat \<Rightarrow> bool) \<Rightarrow> instant \<Rightarrow> uuid
   \<Rightarrow> cancel_request \<Rightarrow> string option \<Rightarrow> string \<Rightarrow> bool \<Rightarrow> moment option \<Rightarrow> updates_db
   \<Rightarrow> update_error + (updates_db \<times> cancel_response)" where
  "cancel_paused_singleton_rollout codec sha256_hex receipt_key owned budget clock rollout_id body actor
      request_id revalidate now db =
     (if \<not> owned then Inl UpdateValidationError
      else if \<not> budget 0 then Inl BudgetExhausted
      else if \<not> cancel_request_valid body then Inl UpdateValidationError
      else bindE (actor_identifier actor) (\<lambda>actor_id.
        bindE (request_identifier request_id) (\<lambda>correlation_id.
        if x_rollout_id (y_expected body) \<noteq> rollout_id then Inl UpdateConflict
        else bindE (require UpdateNotFound (find_row r_id rollout_id (u_rollouts db))) (\<lambda>rol.
        bindE (require UpdateConflict (find_row b_id (r_build_id rol) (u_builds db))) (\<lambda>bld.
          case rollout_targets db (r_id rol) of
            [t] \<Rightarrow>
              (case find (\<lambda>a. a_id a = Some (receipt_key (r_id rol))) (u_audits db) of
                 Some receipt \<Rightarrow>
                   if \<not> revalidate then Inl AuthorizationRevoked
                   else if \<not> budget 1 then Inl BudgetExhausted
                   else bindE (replay_cancellation codec sha256_hex bld rol t receipt body actor_id)
                          (\<lambda>response. Inr (db, response))
               | None \<Rightarrow>
                   if \<not> cancellable_rollout rol \<or> \<not> cancellation_ready sha256_hex db bld rol t body
                   then Inl UpdateConflict
                   else if \<not> revalidate then Inl AuthorizationRevoked
                   else if \<not> budget 1 then Inl BudgetExhausted
                   else bindE (timestamp clock now) (\<lambda>occurred_at.
                        bindE (execute_cancellation codec receipt_key body actor_id correlation_id
                                occurred_at rol t db) (\<lambda>outcome.
                          if \<not> budget 2 then Inl BudgetExhausted else Inr outcome)))
          | _ \<Rightarrow> Inl UpdateConflict)))))"

end
