(* ===== verification/Update_Laws.thy ===== *)
theory Update_Laws
  imports Update_Cancellation
begin

text \<open>
  What the operations of the update service do to the tables, as facts shared by the
  invariants and the properties: which write-backs keep the table constraints (so that no
  operation that only mutates rows can meet an \<open>IntegrityError\<close>), and for every operation
  the exact shape of its committed outcomes.
\<close>

section \<open>Write-backs keep the constraints\<close>

definition same_target_identity :: "target \<Rightarrow> target \<Rightarrow> bool" where
  "same_target_identity t t' \<longleftrightarrow>
     t_id t' = t_id t \<and> t_rollout_id t' = t_rollout_id t \<and> t_device_id t' = t_device_id t
     \<and> t_target_identifier t' = t_target_identifier t \<and> t_operation_id t' = t_operation_id t"

definition same_rollout_identity :: "rollout \<Rightarrow> rollout \<Rightarrow> bool" where
  "same_rollout_identity r r' \<longleftrightarrow>
     r_id r' = r_id r \<and> r_rollout_identifier r' = r_rollout_identifier r \<and> r_build_id r' = r_build_id r
     \<and> r_mode r' = r_mode r"

lemma store_row_image:
  assumes "\<And>x. x \<in> set rows \<Longrightarrow> key x = key r \<Longrightarrow> f x = f r"
  shows "f ` set (store_row key r rows) = f ` set rows"
  using arg_cong [OF map_store_row_other [of rows key r f, OF assms], of set] by simp

lemma constraints_store_target:
  assumes inv: "updates_constraints db" and t: "t \<in> set (u_targets db)"
    and same: "same_target_identity t t'"
    and act: "active_target_status (t_status t') \<Longrightarrow> active_target_status (t_status t)"
  shows "updates_constraints (store_target t' audits db)"
proof -
  have ids: "distinct (map t_id (u_targets db))"
    using inv by (simp add: updates_constraints_def target_constraints_def)
  have uniq: "x = t" if "x \<in> set (u_targets db)" "t_id x = t_id t'" for x
    using that t same distinct_map_inj [OF ids] by (auto simp: same_target_identity_def)
  have eqs: "f x = f t'" if "x \<in> set (u_targets db)" "t_id x = t_id t'" "f t = f t'" for x and f :: "target \<Rightarrow> 'b"
    using that uniq by blast
  have maps: "map f (store_row t_id t' (u_targets db)) = map f (u_targets db)" if "f t = f t'" for f :: "target \<Rightarrow> 'b"
    using eqs [OF _ _ that] by (rule map_store_row_other)
  have alls: "list_all P (store_row t_id t' (u_targets db))" if "list_all P (u_targets db)" "P t = P t'" for P
    using that maps [of P] t uniq by (auto simp: list_all_iff in_set_store_row)
  have dist: "distinct (map t_device_id (filter (\<lambda>t. active_target_status (t_status t)) (store_row t_id t' (u_targets db))))"
    using inv uniq same act
    by (intro distinct_map_filter_store)
      (auto simp: updates_constraints_def target_constraints_def same_target_identity_def)
  show ?thesis
    using inv same dist
    by (auto simp: updates_constraints_def build_constraints_def rollout_constraints_def report_constraints_def
        target_constraints_def store_target_def same_target_identity_def maps
        intro!: alls simp del: set_map simp: set_map [symmetric] )
qed

lemma constraints_store_rollout:
  assumes inv: "updates_constraints db" and r: "r \<in> set (u_rollouts db)" and same: "same_rollout_identity r r'"
  shows "updates_constraints (store_rollout r' audits db)"
proof -
  have ids: "distinct (map r_id (u_rollouts db))"
    using inv by (simp add: updates_constraints_def rollout_constraints_def)
  have uniq: "x = r" if "x \<in> set (u_rollouts db)" "r_id x = r_id r'" for x
    using that r same distinct_map_inj [OF ids] by (auto simp: same_rollout_identity_def)
  have maps: "map f (store_row r_id r' (u_rollouts db)) = map f (u_rollouts db)" if "f r = f r'" for f :: "rollout \<Rightarrow> 'b"
    using uniq that by (intro map_store_row_other) blast
  have alls: "list_all P (store_row r_id r' (u_rollouts db))" if "list_all P (u_rollouts db)" "P r = P r'" for P
    using that r uniq by (auto simp: list_all_iff in_set_store_row)
  show ?thesis
    using inv same
    by (auto simp: updates_constraints_def build_constraints_def rollout_constraints_def report_constraints_def
        target_constraints_def store_rollout_def same_rollout_identity_def maps
        intro!: alls simp del: set_map simp: set_map [symmetric])
qed

section \<open>Committed outcomes\<close>

lemma locked_rollout_Inr: "locked_rollout db i = Inr r \<Longrightarrow> r \<in> set (u_rollouts db) \<and> i = Some (r_id r)"
  by (auto simp: locked_rollout_def as_uuid_def dest: find_row_SomeD)

lemma locked_build_Inr: "locked_build db i = Inr b \<Longrightarrow> b \<in> set (u_builds db) \<and> i = Some (b_id b)"
  by (auto simp: locked_build_def as_uuid_def dest: find_row_SomeD)

lemma locked_target_context_Inr:
  "locked_target_context db dev oper = Inr (t, r, b) \<Longrightarrow>
     t \<in> set (u_targets db) \<and> r \<in> set (u_rollouts db) \<and> b \<in> set (u_builds db)
     \<and> r_id r = t_rollout_id t \<and> b_id b = r_build_id r
     \<and> dev = Some (t_device_id t) \<and> oper = Some (t_operation_id t)"
  by (auto simp: locked_target_context_def as_uuid_def find_Some_iff dest: find_row_SomeD)

lemma commit_rollout_Inr:
  "commit_rollout ev r db = Inr (db', x) \<Longrightarrow>
     x = r \<and> (\<exists>a. db' = store_rollout r a db \<and> prefix (u_audits db) a \<and> updates_constraints db')"
  by (auto simp: commit_rollout_def)

lemma commit_target_Inr:
  "commit_target ev t db = Inr (db', x) \<Longrightarrow>
     x = t \<and> (\<exists>a. db' = store_target t a db \<and> prefix (u_audits db) a \<and> updates_constraints db')"
  by (auto simp: commit_target_def)

lemma pause_rollout_Inr:
  assumes "pause_rollout clock i actor rid now db = Inr (db', r')"
  shows "(db' = db \<and> r' \<in> set (u_rollouts db) \<and> r_status r' = RPaused)
    \<or> (\<exists>r at a. r \<in> set (u_rollouts db) \<and> i = Some (r_id r) \<and> r_status r = RActive
          \<and> r' = r\<lparr>r_status := RPaused, r_paused_at := Some at\<rparr>
          \<and> db' = store_rollout r' a db \<and> prefix (u_audits db) a \<and> updates_constraints db')"
  using assms
  by (simp add: pause_rollout_def Let_def split: if_splits)
    (metis commit_rollout_Inr locked_rollout_Inr)+

lemma activate_rollout_Inr:
  assumes "activate_rollout clock i actor rid now db = Inr (db', r')"
  shows "(db' = db \<and> r' \<in> set (u_rollouts db) \<and> r_status r' = RActive)
    \<or> (\<exists>r at a. r \<in> set (u_rollouts db) \<and> i = Some (r_id r) \<and> r_status r = RPaused
          \<and> r' = r\<lparr>r_status := RActive,
               r_started_at := (case r_started_at r of None \<Rightarrow> Some at | Some t \<Rightarrow> Some t), r_paused_at := None\<rparr>
          \<and> filter (\<lambda>t. active_target_status (t_status t)) (rollout_targets db (r_id r)) \<noteq> []
          \<and> db' = store_rollout r' a db \<and> prefix (u_audits db) a \<and> updates_constraints db')"
proof -
  from assms obtain r where r: "locked_rollout db i = Inr r"
    by (auto simp: activate_rollout_def)
  show ?thesis
  proof (cases "r_status r = RActive")
    case True
    with assms r locked_rollout_Inr [OF r] show ?thesis
      by (simp add: activate_rollout_def)
  next
    case False
    with assms r have "r_status r = RPaused"
      "filter (\<lambda>t. active_target_status (t_status t)) (rollout_targets db (r_id r)) \<noteq> []"
      by (auto simp: activate_rollout_def Let_def split: if_splits)
    moreover from False assms r obtain ev at where
      "commit_rollout ev (r\<lparr>r_status := RActive,
         r_started_at := (case r_started_at r of None \<Rightarrow> Some at | Some t \<Rightarrow> Some t), r_paused_at := None\<rparr>) db
       = Inr (db', r')"
      by (auto simp: activate_rollout_def Let_def split: if_splits)
    ultimately show ?thesis
      using commit_rollout_Inr locked_rollout_Inr [OF r] by metis
  qed
qed

lemma complete_rollout_Inr:
  assumes "complete_rollout clock i actor rid now db = Inr (db', r')"
  shows "(db' = db \<and> r' \<in> set (u_rollouts db) \<and> r_status r' = RCompleted)
    \<or> (\<exists>r at a. r \<in> set (u_rollouts db) \<and> i = Some (r_id r) \<and> r_status r \<in> {RActive, RPaused}
          \<and> all_targets_terminal (rollout_targets db (r_id r))
          \<and> r' = completed_rollout at r
          \<and> db' = store_rollout r' a db \<and> prefix (u_audits db) a \<and> updates_constraints db')"
proof -
  from assms obtain r where r: "locked_rollout db i = Inr r"
    by (auto simp: complete_rollout_def)
  show ?thesis
  proof (cases "r_status r = RCompleted")
    case True
    with assms r locked_rollout_Inr [OF r] show ?thesis
      by (simp add: complete_rollout_def)
  next
    case False
    with assms r have "r_status r \<in> {RActive, RPaused}" "all_targets_terminal (rollout_targets db (r_id r))"
      by (auto simp: complete_rollout_def Let_def split: if_splits)
    moreover from False assms r obtain ev at where
      "commit_rollout ev (completed_rollout at r) db = Inr (db', r')"
      by (auto simp: complete_rollout_def Let_def split: if_splits)
    ultimately show ?thesis
      using commit_rollout_Inr locked_rollout_Inr [OF r] by metis
  qed
qed

lemma record_ack_Inr:
  assumes "record_ack clock dev oper ack rid now rv db = Inr (db', t')"
  shows "(db' = db \<and> t' \<in> set (u_targets db) \<and> dev = Some (t_device_id t') \<and> oper = Some (t_operation_id t')
          \<and> (t_status t' = TScheduled \<or> t_status t' = TRequested \<and> ack = AckRequested))
    \<or> (\<exists>t r at a. t \<in> set (u_targets db) \<and> r \<in> set (u_rollouts db) \<and> r_id r = t_rollout_id t
          \<and> dev = Some (t_device_id t) \<and> oper = Some (t_operation_id t)
          \<and> r_status r = RActive \<and> t_status t = (if ack = AckRequested then TAssigned else TRequested)
          \<and> t' = acknowledged ack at t
          \<and> db' = store_target t' a db \<and> prefix (u_audits db) a \<and> updates_constraints db')"
proof -
  from assms obtain t r b where ctx: "locked_target_context db dev oper = Inr (t, r, b)"
    by (auto simp: record_ack_def)
  note rows = locked_target_context_Inr [OF ctx]
  from assms ctx have act: "r_status r = RActive"
    by (auto simp: record_ack_def split: if_splits)
  from assms ctx consider
      "db' = db" "t' = t" "t_status t = TScheduled \<or> t_status t = TRequested \<and> ack = AckRequested"
    | ev at where "t_status t = (if ack = AckRequested then TAssigned else TRequested)"
        "commit_target ev (acknowledged ack at t) db = Inr (db', t')"
    by (cases ack) (auto simp: record_ack_def Let_def split: if_splits)
  then show ?thesis
  proof cases
    case 1
    with rows show ?thesis by auto
  next
    case 2
    with rows act commit_target_Inr [OF 2(2)] show ?thesis by metis
  qed
qed

lemma register_build_Inr:
  assumes "register_build any_url archive_ok root gen clock m actor rid now db = Inr (db', b)"
  shows "manifest_valid any_url m \<and> (\<exists>vals. build_values any_url (gen 0) m = Inr vals
    \<and> (db' = db \<and> filter (build_identity_matches vals) (u_builds db) = [b] \<and> same_manifest b vals
      \<or> (\<exists>a. b = vals \<and> filter (build_identity_matches vals) (u_builds db) = []
          \<and> (m_platform m = ''windows_amd64'' \<longrightarrow> root \<and> m_archive_type m = ''zip'' \<and> archive_ok m)
          \<and> db' = db\<lparr>u_builds := u_builds db @ [b], u_audits := a\<rparr> \<and> prefix (u_audits db) a
          \<and> updates_constraints db')))"
proof -
  from assms obtain vals where v: "manifest_valid any_url m" "build_values any_url (gen 0) m = Inr vals"
    by (auto simp: register_build_def checked_manifest_def split: if_splits)
  show ?thesis
  proof (cases "filter (build_identity_matches vals) (u_builds db) = []")
    case True
    with assms v show ?thesis
      by (auto simp: register_build_def checked_manifest_def Let_def split: if_splits)
  next
    case False
    with assms v have "db' = db" "b = hd (filter (build_identity_matches vals) (u_builds db))"
      "length (filter (build_identity_matches vals) (u_builds db)) = 1" "same_manifest b vals"
      by (auto simp: register_build_def checked_manifest_def Let_def split: if_splits)
    with False v show ?thesis
      by (cases "filter (build_identity_matches vals) (u_builds db)") auto
  qed
qed

lemma create_active_rollout_Inr:
  assumes "create_active_rollout gen bld m ids reason actor rid now db = Inr (db', r)"
  shows "lock_assignable_devices db ids None = Inr () \<and> r = new_rollout gen bld m reason now
    \<and> (\<exists>a. db' = db\<lparr>u_rollouts := u_rollouts db @ [r], u_targets := u_targets db @ new_targets gen ids reason now,
             u_audits := a\<rparr> \<and> prefix (u_audits db) a \<and> updates_constraints db')"
  using assms
  by (auto simp: create_active_rollout_def Let_def dest: append_audit_events_prefix)

lemma create_rollout_Inr:
  assumes "create_rollout gen clock bid mode ds reason actor rid now db = Inr (db', r)"
  shows "\<exists>bld m ids at. bld \<in> set (u_builds db) \<and> bid = Some (b_id bld)
    \<and> validate_rollout_input bld mode ds reason = Inr (m, ids, reason) \<and> m \<noteq> Rollback
    \<and> (m = Bulk \<longrightarrow> require_completed_canary db (b_id bld) = Inr ())
    \<and> create_active_rollout gen bld m ids reason (the actor) rid at db = Inr (db', r)"
proof -
  from assms obtain bld m ids reason' where b: "locked_build db bid = Inr bld"
    and v: "validate_rollout_input bld mode ds reason = Inr (m, ids, reason')" and "mode \<noteq> ''rollback''"
    by (auto simp: create_rollout_def split: if_splits)
  have vals: "mode_of_text mode = Some m" "reason' = reason"
    using validate_rollout_input_Inr [OF v] by simp_all
  have m: "m \<noteq> Rollback" "m = Bulk \<Longrightarrow> mode = ''bulk''"
    using vals(1) \<open>mode \<noteq> _\<close> by (auto split: if_splits)
  from assms b v obtain at aid where "actor_identifier actor = Inr aid"
      "create_active_rollout gen bld m ids reason' aid rid at db = Inr (db', r)"
      "mode = ''bulk'' \<longrightarrow> require_completed_canary db (b_id bld) = Inr ()"
    by (auto simp: create_rollout_def request_identifier_def split: if_splits)
  moreover from this(1) have "aid = the actor"
    by (cases actor) (auto simp: actor_identifier_def Let_def split: if_splits)
  ultimately show ?thesis
    using v vals m locked_build_Inr [OF b] by metis
qed

lemma target_for_device_Some: "target_for_device ts d = Some t \<Longrightarrow> t \<in> set ts \<and> t_device_id t = d"
  by (auto simp: target_for_device_def dest: find_SomeD)

lemma create_rollback_rollout_Inr:
  assumes "create_rollback_rollout gen clock trig bid ds reason actor rid now db = Inr (db', r)"
  shows "\<exists>trigger old new ids c s at.
      trigger \<in> set (u_rollouts db) \<and> trig = Some (r_id trigger)
    \<and> old \<in> set (u_builds db) \<and> b_id old = r_build_id trigger
    \<and> new \<in> set (u_builds db) \<and> bid = Some (b_id new) \<and> b_id new \<noteq> b_id old
    \<and> r_status trigger \<noteq> RDraft \<and> b_platform new = b_platform old
    \<and> compare_semver (b_version new) (b_version old) = Some c \<and> c < 0
    \<and> reason = Some s
    \<and> validate_rollout_input new ''rollback'' ds (Some (rollback_reason (r_id trigger) s))
        = Inr (Rollback, ids, Some (rollback_reason (r_id trigger) s))
    \<and> (\<forall>d\<in>set ids. \<exists>t\<in>set (u_targets db). t_rollout_id t = r_id trigger \<and> t_device_id t = d
          \<and> terminal_target_status (t_status t))
    \<and> create_active_rollout gen new Rollback ids (Some (rollback_reason (r_id trigger) s)) (the actor) rid at db
        = Inr (db', r)"
proof -
  from assms obtain tid rbid trigger old new where
      ids: "trig = Some tid" "bid = Some rbid"
    and rows: "find_row r_id tid (u_rollouts db) = Some trigger"
      "find_row b_id (r_build_id trigger) (u_builds db) = Some old"
      "find_row b_id rbid (u_builds db) = Some new"
    by (auto simp: create_rollback_rollout_def as_uuid_def)
  let ?ts = "sort_key (\<lambda>t. (t_device_id t, t_id t)) (rollout_targets db (r_id trigger))"
  from assms ids rows have guards: "r_status trigger \<noteq> RDraft" "b_id new \<noteq> b_id old"
      "b_platform new = b_platform old"
    by (auto simp: create_rollback_rollout_def as_uuid_def Let_def split: if_splits)
  from assms ids rows obtain c where c: "compare_semver (b_version new) (b_version old) = Some c" "c < 0"
    by (auto simp: create_rollback_rollout_def as_uuid_def Let_def split: if_splits)
  from assms ids rows c guards obtain safe where safe: "safe_reason reason True = Inr safe"
    by (auto simp: create_rollback_rollout_def as_uuid_def Let_def split: if_splits)
  then obtain s where s: "reason = Some s" "safe = Some s"
    by (auto dest!: safe_reason_Inr)
  let ?why = "Some (rollback_reason (r_id trigger) s)"
  from assms ids rows c guards safe s obtain m xs why' where
    v: "validate_rollout_input new ''rollback'' ds ?why = Inr (m, xs, why')"
    by (auto simp: create_rollback_rollout_def as_uuid_def Let_def split: if_splits)
  have mw: "m = Rollback" "why' = ?why"
    using validate_rollout_input_Inr [OF v] by simp_all
  from assms ids rows c guards safe s v mw obtain aid at where
      each: "\<not> list_ex (\<lambda>d. case target_for_device ?ts d of None \<Rightarrow> True
               | Some t \<Rightarrow> \<not> terminal_target_status (t_status t)) xs"
    and act: "actor_identifier actor = Inr aid"
    and new: "create_active_rollout gen new Rollback xs ?why aid rid at db = Inr (db', r)"
    by (auto simp: create_rollback_rollout_def as_uuid_def request_identifier_def Let_def split: if_splits)
  have aid: "aid = the actor"
    using act by (cases actor) (auto simp: actor_identifier_def Let_def split: if_splits)
  have "\<exists>t\<in>set (u_targets db). t_rollout_id t = r_id trigger \<and> t_device_id t = d
      \<and> terminal_target_status (t_status t)" if d: "d \<in> set xs" for d
  proof -
    from each d obtain t where t: "target_for_device ?ts d = Some t" "terminal_target_status (t_status t)"
      by (auto simp: list_ex_iff split: option.splits)
    from target_for_device_Some [OF t(1)] t(2) show ?thesis by (auto simp: rollout_targets_def)
  qed
  then show ?thesis
    using ids rows guards c s v mw new aid find_row_SomeD [OF rows(1)] find_row_SomeD [OF rows(2)]
      find_row_SomeD [OF rows(3)] by metis
qed

definition reported_db :: "update_report \<Rightarrow> target \<Rightarrow> audit_event list \<Rightarrow> updates_db \<Rightarrow> updates_db" where
  "reported_db p t' a db = (store_target t' a db)\<lparr>u_reports := u_reports db @ [p]\<rparr>"

lemma complete_if_terminal_Inr:
  assumes "complete_if_terminal at rid r db = Inr db'"
  shows "if all_targets_terminal (rollout_targets db (r_id r))
     then \<exists>a. prefix (u_audits db) a \<and> db' = store_rollout (completed_rollout at r) a db
     else db' = db"
proof (cases "all_targets_terminal (rollout_targets db (r_id r))")
  case True
  with assms obtain ev a where "append_audit_event UpdateValueError ev (u_audits db) = Inr a"
      "db' = store_rollout (completed_rollout at r) a db"
    by (auto simp: complete_if_terminal_def Let_def simp del: append_audit_event_Inr_iff)
  with True show ?thesis using append_audit_event_prefix by metis
next
  case False
  with assms show ?thesis by (simp add: complete_if_terminal_def Let_def)
qed

lemma write_report_Inr:
  assumes "write_report at rid q p t r db = Inr (db', p')"
  shows "p' = p \<and> updates_constraints db' \<and> (\<exists>a. prefix (u_audits db) a
     \<and> (let db1 = reported_db p (reported_target q at t) a db in
          if all_targets_terminal (rollout_targets db1 (r_id r))
          then \<exists>a'. prefix a a' \<and> db' = store_rollout (completed_rollout at r) a' db1
          else db' = db1))"
proof -
  from assms obtain ev a where ev: "append_audit_event UpdateValueError ev (u_audits db) = Inr a"
      and c: "complete_if_terminal at rid r (reported_db p (reported_target q at t) a db) = Inr db'"
      and ok: "updates_constraints db'" "p' = p"
    by (auto simp: write_report_def Let_def reported_db_def simp del: append_audit_event_Inr_iff)
  have "u_audits (reported_db p t' a db) = a" for t'
    by (simp add: reported_db_def store_target_def)
  with complete_if_terminal_Inr [OF c] ok append_audit_event_prefix [OF ev] show ?thesis
    by (metis (full_types))
qed

lemma record_report_Inr:
  assumes "record_report gen clock dev oper q rid now rv db = Inr (db', p)"
  shows "\<exists>t r b. locked_target_context db dev oper = Inr (t, r, b) \<and>
      (db' = db \<and> p \<in> set (u_reports db) \<and> p_update_target_id p = t_id t \<and> same_report p q
       \<or> (\<exists>at a. report_permitted q t r b \<and> p = new_report gen t q \<and> prefix (u_audits db) a
            \<and> (let db1 = reported_db p (reported_target q at t) a db in
                 if all_targets_terminal (rollout_targets db1 (r_id r))
                 then \<exists>a'. prefix a a' \<and> db' = store_rollout (completed_rollout at r) a' db1
                 else db' = db1)
            \<and> updates_constraints db'))"
proof -
  from assms obtain t r b where ctx: "locked_target_context db dev oper = Inr (t, r, b)"
    by (auto simp: record_report_def)
  let ?old = "find (\<lambda>p. p_update_target_id p = t_id t \<and> p_report_key p = q_report_key q) (u_reports db)"
  show ?thesis
  proof (cases ?old)
    case (Some e)
    with assms ctx have "db' = db" "p = e" "same_report e q"
      by (auto simp: record_report_def checked_report_def split: if_splits)
    with Some ctx show ?thesis by (auto dest: find_SomeD)
  next
    case None
    with assms ctx obtain at rid' where adm: "report_permitted q t r b"
        and w: "write_report at rid' q (new_report gen t q) t r db = Inr (db', p)"
      by (auto simp: record_report_def checked_report_def split: if_splits)
    from write_report_Inr [OF w] adm ctx show ?thesis by metis
  qed
qed

definition receipt_event ::
  "cancel_codec \<Rightarrow> (uuid \<Rightarrow> uuid) \<Rightarrow> cancel_request \<Rightarrow> string \<Rightarrow> string \<Rightarrow> instant \<Rightarrow> rollout \<Rightarrow> audit_event" where
  "receipt_event codec receipt_key body actor_id rid at r =
     (audit ''admin'' (Some actor_id) ''updates.rollout_cancelled'' ''update_rollout''
        (Some (uuid_text (r_id r))) rid (receipt_details codec body (cancellation_response body at)) at)
     \<lparr>a_id := Some (receipt_key (r_id r))\<rparr>"

lemma execute_cancellation_Inr:
  assumes "execute_cancellation codec receipt_key body actor_id rid at r t db = Inr (db', resp)"
  shows "recovery_window body at \<and> resp = cancellation_response body at \<and> updates_constraints db'
    \<and> (\<exists>a. a = u_audits db @ [receipt_event codec receipt_key body actor_id rid at r]
         \<and> db' = store_rollout (cancelled_rollout at r) a (store_target (cancelled_target at t) a db))"
  using assms
  by (auto simp: execute_cancellation_def receipt_event_def audit_def Let_def split: if_splits)

lemma cancel_Inr:
  assumes "cancel_paused_singleton_rollout codec sha key owned budget clock i body actor rid rv now db
           = Inr (db', resp)"
  shows "\<exists>r b t. r \<in> set (u_rollouts db) \<and> r_id r = i \<and> b \<in> set (u_builds db) \<and> b_id b = r_build_id r
    \<and> rollout_targets db (r_id r) = [t] \<and> rv
    \<and> (db' = db \<and> (\<exists>e\<in>set (u_audits db). a_id e = Some (key (r_id r))
           \<and> replay_cancellation codec sha b r t e body (the actor) = Inr resp)
       \<or> (\<exists>at a. cancellable_rollout r \<and> cancellation_ready sha db b r t body \<and> recovery_window body at
            \<and> resp = cancellation_response body at
            \<and> a = u_audits db @ [receipt_event codec key body (the actor) rid at r]
            \<and> find (\<lambda>e. a_id e = Some (key (r_id r))) (u_audits db) = None
            \<and> db' = store_rollout (cancelled_rollout at r) a (store_target (cancelled_target at t) a db)
            \<and> updates_constraints db'))"
proof -
  note defs = cancel_paused_singleton_rollout_def
  from assms obtain aid where aid: "actor_identifier actor = Inr aid"
    by (auto simp: defs split: if_splits)
  then have act: "the actor = aid"
    by (cases actor) (auto simp: actor_identifier_def Let_def split: if_splits)
  from assms have rid: "request_identifier rid = Inr rid"
    by (auto simp: defs request_identifier_def split: if_splits)
  from assms aid rid obtain r b where
      r: "find_row r_id i (u_rollouts db) = Some r" and b: "find_row b_id (r_build_id r) (u_builds db) = Some b"
    by (auto simp: defs split: if_splits)
  from assms aid rid r b obtain t where t: "rollout_targets db (r_id r) = [t]"
    by (auto simp: defs split: if_splits list.splits)
  have rv: rv using assms aid rid r b t
    by (auto simp: defs split: if_splits option.splits)
  note rows = find_row_SomeD [OF r] find_row_SomeD [OF b]
  show ?thesis
  proof (cases "find (\<lambda>e. a_id e = Some (key (r_id r))) (u_audits db)")
    case (Some e)
    with assms aid rid r b t have "db' = db" "replay_cancellation codec sha b r t e body aid = Inr resp"
      by (auto simp: defs split: if_splits)
    moreover have "e \<in> set (u_audits db)" "a_id e = Some (key (r_id r))"
      using find_SomeD [OF Some] by simp_all
    ultimately show ?thesis using rows t rv act by metis
  next
    case None
    with assms aid rid r b t have g: "cancellable_rollout r" "cancellation_ready sha db b r t body"
      by (auto simp: defs split: if_splits)
    from assms None aid rid r b t obtain at where
        x: "execute_cancellation codec key body aid rid at r t db = Inr (db', resp)"
      by (auto simp: defs split: if_splits)
    from execute_cancellation_Inr [OF x] None g rows t rv act show ?thesis by metis
  qed
qed

end
