(* ===== verification/Update_Invariants.thy ===== *)
theory Update_Invariants
  imports Update_Laws Interfaces
begin

text \<open>
  The update service as a transactional service: its requests as one datatype, the invariant
  of its tables, that every committed request keeps the invariant and only appends to the
  audit trail, and the status graph of the targets.
\<close>

section \<open>The service\<close>

text \<open>A request carries what the handler reads from outside: the values of its \<open>uuid4()\<close>
  calls, the clock, the outcome of the archive check and of the authorization check.
  \<open>OtherServices\<close> stands for the parts of the server that own the device tables: they add devices,
  retire them and refresh their instances, and never delete a device.\<close>

datatype update_request =
    RegisterBuild "string \<Rightarrow> url_view option" "manifest \<Rightarrow> bool" bool "nat \<Rightarrow> uuid" instant manifest
      "string option" string "moment option"
  | CreateRollout "nat \<Rightarrow> uuid" instant "uuid option" string "uuid option list" "string option"
      "string option" string "moment option"
  | ActivateRollout instant "uuid option" "string option" string "moment option"
  | PauseRollout instant "uuid option" "string option" string "moment option"
  | CompleteRollout instant "uuid option" "string option" string "moment option"
  | CreateRollback "nat \<Rightarrow> uuid" instant "uuid option" "uuid option" "uuid option list" "string option"
      "string option" string "moment option"
  | RecordAck instant "uuid option" "uuid option" ack_status string "moment option" "bool option"
  | RecordReport "nat \<Rightarrow> uuid" instant "uuid option" "uuid option" agent_report string "moment option"
      "bool option"
  | CancelRollout cancel_codec "string \<Rightarrow> string" "uuid \<Rightarrow> uuid" bool "nat \<Rightarrow> bool" instant uuid cancel_request
      "string option" string bool "moment option"
  | OtherServices "update_device list" "device_instance list"

definition dropped :: "'e + ('db \<times> 'r) \<Rightarrow> 'e + 'db" where
  "dropped r = bindE r (\<lambda>x. Inr (fst x))"

lemma dropped_Inr [simp]: "dropped r = Inr db' \<longleftrightarrow> (\<exists>x. r = Inr (db', x))"
  by (auto simp: dropped_def)

fun update_exec :: "update_request \<Rightarrow> updates_db \<Rightarrow> update_error + updates_db" where
  "update_exec (RegisterBuild any_url archive root gen clock m actor rid now) db =
     dropped (register_build any_url archive root gen clock m actor rid now db)"
| "update_exec (CreateRollout gen clock bid mode ds reason actor rid now) db =
     dropped (create_rollout gen clock bid mode ds reason actor rid now db)"
| "update_exec (ActivateRollout clock i actor rid now) db = dropped (activate_rollout clock i actor rid now db)"
| "update_exec (PauseRollout clock i actor rid now) db = dropped (pause_rollout clock i actor rid now db)"
| "update_exec (CompleteRollout clock i actor rid now) db = dropped (complete_rollout clock i actor rid now db)"
| "update_exec (CreateRollback gen clock trig bid ds reason actor rid now) db =
     dropped (create_rollback_rollout gen clock trig bid ds reason actor rid now db)"
| "update_exec (RecordAck clock dev oper ack rid now rv) db = dropped (record_ack clock dev oper ack rid now rv db)"
| "update_exec (RecordReport gen clock dev oper q rid now rv) db =
     dropped (record_report gen clock dev oper q rid now rv db)"
| "update_exec (CancelRollout codec sha key owned budget clock i body actor rid rv now) db =
     dropped (cancel_paused_singleton_rollout codec sha key owned budget clock i body actor rid rv now db)"
| "update_exec (OtherServices ds is) db =
     (if distinct (map d_id ds) \<and> list_all (\<lambda>d. d_id d \<in> set (map d_id ds)) (u_devices db)
      then Inr (db\<lparr>u_devices := ds, u_instances := is\<rparr>) else Inl IntegrityError)"

section \<open>The invariant\<close>

definition rollout_times :: "rollout \<Rightarrow> bool" where
  "rollout_times r \<longleftrightarrow>
     r_status r \<noteq> RDraft \<and> r_started_at r \<noteq> None
     \<and> (r_status r = RPaused \<longrightarrow> r_paused_at r \<noteq> None)
     \<and> (r_status r \<in> {RActive, RCompleted} \<longrightarrow> r_paused_at r = None)
     \<and> (r_status r = RCompleted \<longleftrightarrow> r_completed_at r \<noteq> None)
     \<and> (r_status r = RCancelled \<longleftrightarrow> r_cancelled_at r \<noteq> None)"

text \<open>A rollout is active or paused exactly as long as one of its targets is active.\<close>

definition rollout_open :: "target list \<Rightarrow> rollout \<Rightarrow> bool" where
  "rollout_open ts r \<longleftrightarrow>
     (r_status r \<in> {RActive, RPaused} \<longleftrightarrow>
        list_ex (\<lambda>t. t_rollout_id t = r_id r \<and> active_target_status (t_status t)) ts)"

definition canary_first :: "rollout list \<Rightarrow> rollout \<Rightarrow> bool" where
  "canary_first rs r \<longleftrightarrow>
     (r_mode r = Bulk \<longrightarrow>
        list_ex (\<lambda>c. r_build_id c = r_build_id r \<and> r_mode c = Canary \<and> r_status c = RCompleted) rs)"

definition target_times :: "target \<Rightarrow> bool" where
  "target_times t \<longleftrightarrow>
     (terminal_target_status (t_status t) \<longleftrightarrow> t_terminal_at t \<noteq> None)
     \<and> (t_status t = TRequested \<longrightarrow> t_requested_at t \<noteq> None)
     \<and> (t_status t = TAssigned \<longrightarrow> t_requested_at t = None)
     \<and> (t_status t \<in> {TAssigned, TRequested} \<longrightarrow> t_scheduled_at t = None)
     \<and> (t_status t \<in> {TScheduled, TApplied, TRolledBack} \<longrightarrow> t_scheduled_at t \<noteq> None)
     \<and> (t_scheduled_at t \<noteq> None \<longrightarrow> t_requested_at t \<noteq> None)"

text \<open>A target reached a reported status through a report on file, and no other way.\<close>

definition target_reported :: "update_report list \<Rightarrow> target \<Rightarrow> bool" where
  "target_reported ps t \<longleftrightarrow>
     map p_status (filter (\<lambda>p. p_update_target_id p = t_id t) ps)
     = (if t_status t \<in> {TApplied, TFailed, TRolledBack} then [t_status t] else [])"

definition report_truthful :: "updates_db \<Rightarrow> update_report \<Rightarrow> bool" where
  "report_truthful db p \<longleftrightarrow>
     list_ex (\<lambda>t. t_id t = p_update_target_id p \<and> t_device_id t = p_device_id p
       \<and> (p_status p = TApplied \<longrightarrow>
            list_ex (\<lambda>r. r_id r = t_rollout_id t
              \<and> list_ex (\<lambda>b. b_id b = r_build_id r \<and> b_version b = p_reported_version p) (u_builds db))
              (u_rollouts db))) (u_targets db)"

definition build_ok :: "build \<Rightarrow> bool" where
  "build_ok b \<longleftrightarrow> identifier_text 127 (b_build_identifier b) \<and> SemanticVersionV1 (b_version b)
     \<and> b_platform b \<in> {''linux_amd64'', ''windows_amd64''} \<and> b_channel b \<in> {''stable'', ''canary''}
     \<and> identifier_text 255 (b_artifact_name b) \<and> b_archive_type b \<in> {''zip'', ''tar.gz''}
     \<and> Sha256V1 (b_sha256_digest b) \<and> 0 < b_size b \<and> b_size b \<le> 2 ^ 63 - 1
     \<and> (b_archive_type b = ''zip'' \<longrightarrow> ends_with ''.zip'' (b_artifact_name b))
     \<and> (b_archive_type b = ''tar.gz'' \<longrightarrow> ends_with ''.tar.gz'' (b_artifact_name b))"

definition updates_rows :: "updates_db \<Rightarrow> bool" where
  "updates_rows db \<longleftrightarrow>
     list_all build_ok (u_builds db)
     \<and> list_all rollout_times (u_rollouts db)
     \<and> list_all (canary_first (u_rollouts db)) (u_rollouts db)
     \<and> list_all target_times (u_targets db)
     \<and> list_all (target_reported (u_reports db)) (u_targets db)
     \<and> list_all (report_truthful db) (u_reports db)"

definition updates_inv :: "updates_db \<Rightarrow> bool" where
  "updates_inv db \<longleftrightarrow> updates_constraints db \<and> updates_rows db \<and> list_all (rollout_open (u_targets db)) (u_rollouts db)"

lemmas row_defs = updates_rows_def list_all_iff list_ex_iff

section \<open>Write-backs keep the rows\<close>

lemma store_rollout_fields [simp]:
  "u_builds (store_rollout r a db) = u_builds db"
  "u_rollouts (store_rollout r a db) = store_row r_id r (u_rollouts db)"
  "u_targets (store_rollout r a db) = u_targets db"
  "u_reports (store_rollout r a db) = u_reports db"
  "u_devices (store_rollout r a db) = u_devices db"
  "u_audits (store_rollout r a db) = a"
  by (simp_all add: store_rollout_def)

lemma store_target_fields [simp]:
  "u_builds (store_target t a db) = u_builds db"
  "u_rollouts (store_target t a db) = u_rollouts db"
  "u_targets (store_target t a db) = store_row t_id t (u_targets db)"
  "u_reports (store_target t a db) = u_reports db"
  "u_devices (store_target t a db) = u_devices db"
  "u_audits (store_target t a db) = a"
  by (simp_all add: store_target_def)

lemma rollout_ids_unique:
  "updates_constraints db \<Longrightarrow> r \<in> set (u_rollouts db) \<Longrightarrow> s \<in> set (u_rollouts db) \<Longrightarrow> r_id r = r_id s \<Longrightarrow> r = s"
  by (rule distinct_map_inj [of r_id]) (simp_all add: updates_constraints_def rollout_constraints_def)

lemma target_ids_unique:
  "updates_constraints db \<Longrightarrow> s \<in> set (u_targets db) \<Longrightarrow> t \<in> set (u_targets db) \<Longrightarrow> t_id s = t_id t \<Longrightarrow> s = t"
  by (rule distinct_map_inj [of t_id]) (simp_all add: updates_constraints_def target_constraints_def)

lemma build_ids_unique:
  "updates_constraints db \<Longrightarrow> s \<in> set (u_builds db) \<Longrightarrow> t \<in> set (u_builds db) \<Longrightarrow> b_id s = b_id t \<Longrightarrow> s = t"
  by (rule distinct_map_inj [of b_id]) (simp_all add: updates_constraints_def build_constraints_def)

lemma in_store_rollout:
  assumes "distinct (map r_id (u_rollouts db))" "r \<in> set (u_rollouts db)" "r_id r' = r_id r"
  shows "x \<in> set (store_row r_id r' (u_rollouts db)) \<longleftrightarrow> x = r' \<or> (x \<in> set (u_rollouts db) \<and> x \<noteq> r)"
  using assms distinct_map_inj [OF assms(1) _ assms(2)] by (auto simp: in_set_store_row)

lemma in_store_target:
  assumes "updates_constraints db" "t \<in> set (u_targets db)" "t_id t' = t_id t"
  shows "x \<in> set (store_row t_id t' (u_targets db)) \<longleftrightarrow> x = t' \<or> (x \<in> set (u_targets db) \<and> x \<noteq> t)"
  using assms target_ids_unique [OF assms(1)] by (auto simp: in_set_store_row)

lemma rows_store_rollout:
  assumes c: "distinct (map r_id (u_rollouts db))" and rows: "updates_rows db" and r: "r \<in> set (u_rollouts db)"
    and same: "same_rollout_identity r r'" and times: "rollout_times r'" and open_: "r_status r \<noteq> RCompleted"
  shows "updates_rows (store_rollout r' a db)"
proof -
  have id: "r_id r' = r_id r" "r_mode r' = r_mode r" "r_build_id r' = r_build_id r"
    using same by (simp_all add: same_rollout_identity_def)
  note mem = in_store_rollout [OF c r id(1)]
  have done_kept: "x \<in> set (store_row r_id r' (u_rollouts db))"
    if "x \<in> set (u_rollouts db)" "r_status x = RCompleted" for x
    using that open_ mem by auto
  have can: "canary_first (store_row r_id r' (u_rollouts db)) x"
    if x: "x \<in> set (store_row r_id r' (u_rollouts db))" for x
  proof -
    obtain y where y: "y \<in> set (u_rollouts db)" "r_mode y = r_mode x" "r_build_id y = r_build_id x"
      using x mem r id by metis
    with rows have "canary_first (u_rollouts db) y" by (simp add: row_defs)
    with y done_kept show ?thesis by (auto simp: canary_first_def list_ex_iff)
  qed
  have true: "report_truthful (store_rollout r' a db) p" if p: "p \<in> set (u_reports db)" for p
  proof -
    have "\<exists>y \<in> set (store_row r_id r' (u_rollouts db)). r_id y = r_id x \<and> r_build_id y = r_build_id x"
      if "x \<in> set (u_rollouts db)" for x
      using that mem id by metis
    with p rows show ?thesis by (fastforce simp: row_defs report_truthful_def)
  qed
  show ?thesis
    using rows can true times mem by (auto simp: row_defs)
qed

lemma rows_store_target:
  assumes c: "updates_constraints db" and rows: "updates_rows db" and t: "t \<in> set (u_targets db)"
    and same: "same_target_identity t t'" and times: "target_times t'"
    and act: "active_target_status (t_status t)" and new: "t_status t' \<notin> {TApplied, TFailed, TRolledBack}"
  shows "updates_rows (store_target t' a db)"
proof -
  have id: "t_id t' = t_id t" "t_rollout_id t' = t_rollout_id t" "t_device_id t' = t_device_id t"
    using same by (simp_all add: same_target_identity_def)
  note mem = in_store_target [OF c t id(1)]
  have "target_reported (u_reports db) t" using rows t by (simp add: row_defs)
  then have rep: "target_reported (u_reports db) t'"
    using act new id by (auto simp: target_reported_def)
  have true: "report_truthful (store_target t' a db) p" if p: "p \<in> set (u_reports db)" for p
  proof -
    have "\<exists>y \<in> set (store_row t_id t' (u_targets db)). t_id y = t_id x \<and> t_rollout_id y = t_rollout_id x
        \<and> t_device_id y = t_device_id x"
      if "x \<in> set (u_targets db)" for x
      using that mem id by metis
    with p rows show ?thesis by (fastforce simp: row_defs report_truthful_def)
  qed
  show ?thesis
    using rows rep true times mem by (auto simp: row_defs)
qed

lemma reported_db_fields [simp]:
  "u_builds (reported_db p t a db) = u_builds db"
  "u_rollouts (reported_db p t a db) = u_rollouts db"
  "u_targets (reported_db p t a db) = store_row t_id t (u_targets db)"
  "u_reports (reported_db p t a db) = u_reports db @ [p]"
  "u_devices (reported_db p t a db) = u_devices db"
  "u_audits (reported_db p t a db) = a"
  by (simp_all add: reported_db_def)

lemma rows_reported:
  assumes c: "updates_constraints db" and rows: "updates_rows db" and t: "t \<in> set (u_targets db)"
    and r: "r \<in> set (u_rollouts db)" "r_id r = t_rollout_id t"
    and b: "b \<in> set (u_builds db)" "b_id b = r_build_id r"
    and perm: "report_permitted q t r b"
  shows "updates_rows (reported_db (new_report gen t q) (reported_target q at t) a db)"
proof -
  let ?t = "reported_target q at t" and ?p = "new_report gen t q"
  have id: "t_id ?t = t_id t" "t_rollout_id ?t = t_rollout_id t" "t_device_id ?t = t_device_id t"
    by (simp_all add: reported_target_def)
  note mem = in_store_target [OF c t id(1)]
  have act: "active_target_status (t_status t)"
    using perm by (simp add: report_permitted_def)
  have tt: "target_times t" and rt: "target_reported (u_reports db) t"
    using rows t by (simp_all add: row_defs)
  have times: "target_times ?t"
    using tt perm by (cases "q_status q") (auto simp: target_times_def reported_target_def report_permitted_def)
  have rep: "target_reported (u_reports db @ [?p]) x" if x: "x \<in> set (store_row t_id ?t (u_targets db))" for x
  proof (cases "x = ?t")
    case True
    then show ?thesis
      using rt act by (cases "q_status q") (auto simp: target_reported_def reported_target_def new_report_def)
  next
    case False
    with x mem target_ids_unique [OF c _ t] have "x \<in> set (u_targets db)" "t_id x \<noteq> t_id t" by auto
    with rows show ?thesis by (auto simp: row_defs target_reported_def new_report_def)
  qed
  have old: "report_truthful (reported_db ?p ?t a db) p" if p: "p \<in> set (u_reports db)" for p
  proof -
    have "\<exists>y \<in> set (store_row t_id ?t (u_targets db)). t_id y = t_id x \<and> t_rollout_id y = t_rollout_id x
        \<and> t_device_id y = t_device_id x"
      if "x \<in> set (u_targets db)" for x
      using that mem id by metis
    with p rows show ?thesis by (fastforce simp: row_defs report_truthful_def)
  qed
  have "report_truthful (reported_db ?p ?t a db) ?p"
  proof -
    have "p_status ?p = TApplied \<Longrightarrow> b_version b = p_reported_version ?p"
      using perm by (cases "q_status q") (simp_all add: report_permitted_def new_report_def)
    then have "p_status ?p = TApplied \<longrightarrow> (\<exists>r\<in>set (u_rollouts db). r_id r = t_rollout_id ?t
        \<and> (\<exists>b\<in>set (u_builds db). b_id b = r_build_id r \<and> b_version b = p_reported_version ?p))"
      using r b id(2) by metis
    moreover have "?t \<in> set (store_row t_id ?t (u_targets db))" using mem by simp
    moreover have "p_update_target_id ?p = t_id ?t" "p_device_id ?p = t_device_id ?t"
      using id by (simp_all add: new_report_def)
    ultimately show ?thesis
      unfolding report_truthful_def list_ex_iff reported_db_fields by (intro bexI [of _ ?t] conjI) simp_all
  qed
  then have "list_all (report_truthful (reported_db ?p ?t a db)) (u_reports db @ [?p])"
    using old by (auto simp: list_all_iff)
  moreover have "list_all target_times (store_row t_id ?t (u_targets db))"
    using rows times mem by (auto simp: row_defs)
  moreover have "list_all (target_reported (u_reports db @ [?p])) (store_row t_id ?t (u_targets db))"
    using rep by (simp add: list_all_iff)
  ultimately show ?thesis using rows by (simp add: updates_rows_def)
qed

section \<open>Which rollouts are open\<close>

definition others_open :: "uuid \<Rightarrow> updates_db \<Rightarrow> bool" where
  "others_open i db \<longleftrightarrow> (\<forall>r\<in>set (u_rollouts db). r_id r \<noteq> i \<longrightarrow> rollout_open (u_targets db) r)"

lemma others_open_store_target:
  assumes c: "updates_constraints db" and t: "t \<in> set (u_targets db)" and same: "same_target_identity t t'"
    and open_: "others_open (t_rollout_id t) db"
  shows "others_open (t_rollout_id t) (store_target t' a db)"
proof -
  have id: "t_id t' = t_id t" "t_rollout_id t' = t_rollout_id t"
    using same by (simp_all add: same_target_identity_def)
  note mem = in_store_target [OF c t id(1)]
  have "rollout_open (store_row t_id t' (u_targets db)) r"
    if "r_id r \<noteq> t_rollout_id t" "rollout_open (u_targets db) r" for r
  proof -
    have "list_ex (\<lambda>t. t_rollout_id t = r_id r \<and> active_target_status (t_status t))
         (store_row t_id t' (u_targets db))
       = list_ex (\<lambda>t. t_rollout_id t = r_id r \<and> active_target_status (t_status t)) (u_targets db)"
      using mem that(1) id unfolding list_ex_iff by metis
    with that(2) show ?thesis by (simp add: rollout_open_def)
  qed
  then show ?thesis using open_ by (simp add: others_open_def)
qed

lemma inv_store_rollout:
  assumes c: "updates_constraints (store_rollout r' a db)" and rows: "updates_rows db" and oth: "others_open (r_id r) db"
    and r: "r \<in> set (u_rollouts db)" and same: "same_rollout_identity r r'"
    and ok: "rollout_times r'" "r_status r \<noteq> RCompleted" "rollout_open (u_targets db) r'"
  shows "updates_inv (store_rollout r' a db)"
proof -
  have ids: "distinct (map r_id (u_rollouts db))"
    using c by (simp add: updates_constraints_def rollout_constraints_def)
  have id: "r_id r' = r_id r" using same by (simp add: same_rollout_identity_def)
  note mem = in_store_rollout [OF ids r id]
  have "rollout_open (u_targets db) x" if "x \<in> set (store_row r_id r' (u_rollouts db))" for x
    using that oth ok mem distinct_map_inj [OF ids _ r] by (auto simp: others_open_def)
  then show ?thesis
    using c rows_store_rollout [OF ids rows r same] ok by (simp add: updates_inv_def list_all_iff)
qed

lemma inv_others_open: "updates_inv db \<Longrightarrow> others_open i db"
  by (simp add: updates_inv_def others_open_def list_all_iff)

lemma inv_store_target:
  assumes inv: "updates_inv db" and t: "t \<in> set (u_targets db)" and same: "same_target_identity t t'"
    and times: "target_times t'" and act: "active_target_status (t_status t)" "active_target_status (t_status t')"
  shows "updates_inv (store_target t' a db)"
proof -
  have c: "updates_constraints db" and rows: "updates_rows db" using inv by (simp_all add: updates_inv_def)
  have id: "t_id t' = t_id t" "t_rollout_id t' = t_rollout_id t"
    using same by (simp_all add: same_target_identity_def)
  note mem = in_store_target [OF c t id(1)]
  have "rollout_open (store_row t_id t' (u_targets db)) r" if "r \<in> set (u_rollouts db)" for r
  proof -
    have "rollout_open (u_targets db) r" using inv that by (simp add: updates_inv_def list_all_iff)
    moreover have "list_ex (\<lambda>t. t_rollout_id t = r_id r \<and> active_target_status (t_status t))
         (store_row t_id t' (u_targets db))
       = list_ex (\<lambda>t. t_rollout_id t = r_id r \<and> active_target_status (t_status t)) (u_targets db)"
      using mem t id act unfolding list_ex_iff by metis
    ultimately show ?thesis by (simp add: rollout_open_def)
  qed
  moreover have "t_status t' \<notin> {TApplied, TFailed, TRolledBack}" using act(2) by auto
  ultimately show ?thesis
    using constraints_store_target [OF c t same] rows_store_target [OF c rows t same times] act
    by (simp add: updates_inv_def list_all_iff)
qed

section \<open>Every operation keeps the invariant\<close>

lemma inv_pause: "updates_inv db \<Longrightarrow> pause_rollout clock i actor rid now db = Inr (db', r') \<Longrightarrow> updates_inv db'"
proof -
  assume inv: "updates_inv db" and ok: "pause_rollout clock i actor rid now db = Inr (db', r')"
  show ?thesis
  proof (cases "db' = db")
    case False
    with pause_rollout_Inr [OF ok] obtain r at a where r: "r \<in> set (u_rollouts db)" "r_status r = RActive"
        and r': "r' = r\<lparr>r_status := RPaused, r_paused_at := Some at\<rparr>"
        and db': "db' = store_rollout r' a db" and c: "updates_constraints db'"
      by blast
    have "rollout_times r" "rollout_open (u_targets db) r"
      using inv r(1) by (simp_all add: updates_inv_def row_defs)
    with r have "rollout_times r'" "rollout_open (u_targets db) r'" "same_rollout_identity r r'"
      by (auto simp: r' rollout_times_def rollout_open_def same_rollout_identity_def)
    with inv r inv_others_open [OF inv] c show ?thesis
      unfolding db' by (intro inv_store_rollout [of r' a db r]) (auto simp: updates_inv_def)
  qed (use inv in simp)
qed

lemma inv_activate: "updates_inv db \<Longrightarrow> activate_rollout clock i actor rid now db = Inr (db', r') \<Longrightarrow> updates_inv db'"
proof -
  assume inv: "updates_inv db" and ok: "activate_rollout clock i actor rid now db = Inr (db', r')"
  show ?thesis
  proof (cases "db' = db")
    case False
    with activate_rollout_Inr [OF ok] obtain r at a where r: "r \<in> set (u_rollouts db)" "r_status r = RPaused"
        and r': "r' = r\<lparr>r_status := RActive,
          r_started_at := (case r_started_at r of None \<Rightarrow> Some at | Some t \<Rightarrow> Some t), r_paused_at := None\<rparr>"
        and db': "db' = store_rollout r' a db" and c: "updates_constraints db'"
      by blast
    have "rollout_times r" "rollout_open (u_targets db) r"
      using inv r(1) by (simp_all add: updates_inv_def row_defs)
    with r have "rollout_times r'" "rollout_open (u_targets db) r'" "same_rollout_identity r r'"
      by (auto simp: r' rollout_times_def rollout_open_def same_rollout_identity_def)
    with inv r inv_others_open [OF inv] c show ?thesis
      unfolding db' by (intro inv_store_rollout [of r' a db r]) (auto simp: updates_inv_def)
  qed (use inv in simp)
qed

lemma all_terminal_not_open:
  "all_targets_terminal (rollout_targets db i) \<Longrightarrow>
     \<not> list_ex (\<lambda>t. t_rollout_id t = i \<and> active_target_status (t_status t)) (u_targets db)"
  by (auto simp: all_targets_terminal_def rollout_targets_def list_ex_iff list_all_iff)

text \<open>An active or paused rollout has an active target, so completing by hand only ever replays.\<close>

lemma complete_replays:
  assumes inv: "updates_inv db" and ok: "complete_rollout clock i actor rid now db = Inr (db', r')"
  shows "db' = db \<and> r' \<in> set (u_rollouts db) \<and> r_status r' = RCompleted"
proof -
  have "\<not> (r \<in> set (u_rollouts db) \<and> r_status r \<in> {RActive, RPaused}
      \<and> all_targets_terminal (rollout_targets db (r_id r)))" for r
    using inv all_terminal_not_open [of db "r_id r"]
    by (auto simp: updates_inv_def list_all_iff rollout_open_def)
  with complete_rollout_Inr [OF ok] show ?thesis by blast
qed

lemma inv_ack: "updates_inv db \<Longrightarrow> record_ack clock dev oper ack rid now rv db = Inr (db', t') \<Longrightarrow> updates_inv db'"
proof -
  assume inv: "updates_inv db" and ok: "record_ack clock dev oper ack rid now rv db = Inr (db', t')"
  show ?thesis
  proof (cases "db' = db")
    case False
    with record_ack_Inr [OF ok] obtain t at a where t: "t \<in> set (u_targets db)"
        "t_status t = (if ack = AckRequested then TAssigned else TRequested)"
        and t': "t' = acknowledged ack at t" and db': "db' = store_target t' a db"
      by blast
    have "target_times t" using inv t(1) by (simp add: updates_inv_def row_defs)
    with t have "target_times t'" "same_target_identity t t'" "active_target_status (t_status t)"
        "active_target_status (t_status t')"
      by (cases ack; auto simp: t' target_times_def same_target_identity_def)+
    with inv t show ?thesis unfolding db' by (intro inv_store_target [of db t])
  qed (use inv in simp)
qed

text \<open>After a report the rollout of its target is completed exactly when it has to be.\<close>

lemma inv_reported:
  assumes inv: "updates_inv db" and c': "updates_constraints db'"
    and ctx: "t \<in> set (u_targets db)" "r \<in> set (u_rollouts db)" "r_id r = t_rollout_id t"
    and rows: "updates_rows (reported_db p (reported_target q at t) a db)" and st: "r_status r \<in> {RActive, RPaused}"
    and db': "let db1 = reported_db p (reported_target q at t) a db in
       if all_targets_terminal (rollout_targets db1 (r_id r))
       then \<exists>a'. prefix a a' \<and> db' = store_rollout (completed_rollout at r) a' db1
       else db' = db1"
  shows "updates_inv db'"
proof -
  let ?t = "reported_target q at t"
  let ?db = "reported_db p ?t a db"
  have c: "updates_constraints db" using inv by (simp add: updates_inv_def)
  have same: "same_target_identity t ?t" by (simp add: same_target_identity_def reported_target_def)
  have oth: "others_open (r_id r) ?db"
    using others_open_store_target [OF c ctx(1) same inv_others_open [OF inv]] ctx(3)
    by (simp add: others_open_def)
  have times: "rollout_times r" using inv ctx(2) by (simp add: updates_inv_def row_defs)
  show ?thesis
  proof (cases "all_targets_terminal (rollout_targets ?db (r_id r))")
    case True
    with db' obtain a' where db': "db' = store_rollout (completed_rollout at r) a' ?db"
      by (auto simp: Let_def)
    have "rollout_open (u_targets ?db) (completed_rollout at r)"
      using all_terminal_not_open [OF True] by (simp add: rollout_open_def completed_rollout_def)
    then show ?thesis
      using c' rows oth ctx(2) times st unfolding db'
      by (intro inv_store_rollout [of _ _ ?db r])
        (auto simp: same_rollout_identity_def completed_rollout_def rollout_times_def)
  next
    case False
    with db' have db': "db' = ?db" by (simp add: Let_def)
    have "?t \<in> set (rollout_targets ?db (r_id r))"
      using in_store_target [OF c ctx(1), of ?t] ctx(3) by (simp add: rollout_targets_def reported_target_def)
    with False have "rollout_open (u_targets ?db) r"
      using st by (auto simp: rollout_open_def all_targets_terminal_def rollout_targets_def list_ex_iff
          list_all_iff filter_empty_conv terminal_iff_not_active simp del: active_target_status.simps terminal_target_status.simps)
    then have "rollout_open (u_targets db') x" if "x \<in> set (u_rollouts db')" for x
      using that oth rollout_ids_unique [OF c _ ctx(2), of x] db' by (auto simp: others_open_def)
    then show ?thesis using rows c' db' by (simp add: updates_inv_def list_all_iff)
  qed
qed

lemma inv_report: "updates_inv db \<Longrightarrow> record_report gen clock dev oper q rid now rv db = Inr (db', p) \<Longrightarrow> updates_inv db'"
proof -
  assume inv: "updates_inv db" and ok: "record_report gen clock dev oper q rid now rv db = Inr (db', p)"
  show ?thesis
  proof (cases "db' = db")
    case False
    from record_report_Inr [OF ok] False obtain t r b at a where
        ctx: "locked_target_context db dev oper = Inr (t, r, b)"
        and perm: "report_permitted q t r b" and p: "p = new_report gen t q"
        and db': "let db1 = reported_db p (reported_target q at t) a db in
                 if all_targets_terminal (rollout_targets db1 (r_id r))
                 then \<exists>a'. prefix a a' \<and> db' = store_rollout (completed_rollout at r) a' db1
                 else db' = db1"
        and c': "updates_constraints db'" by metis
    note ctx = locked_target_context_Inr [OF ctx]
    have "updates_rows (reported_db p (reported_target q at t) a db)"
      unfolding p using inv ctx perm by (intro rows_reported [of db t r b]) (auto simp: updates_inv_def)
    with inv c' ctx perm db' show ?thesis
      by (intro inv_reported [of db db' t r p q at a]) (auto simp: report_permitted_def)
  qed (use inv in simp)
qed

lemma inv_cancel:
  assumes inv: "updates_inv db"
    and ok: "cancel_paused_singleton_rollout codec sha key owned budget clock i body actor rid rv now db = Inr (db', resp)"
  shows "updates_inv db'"
proof (cases "db' = db")
  case False
  from cancel_Inr [OF ok] False obtain r b t at a where r: "r \<in> set (u_rollouts db)" "cancellable_rollout r"
      and t: "rollout_targets db (r_id r) = [t]" and ready: "cancellation_ready sha db b r t body"
      and db': "db' = store_rollout (cancelled_rollout at r) a (store_target (cancelled_target at t) a db)"
      and c': "updates_constraints db'" by metis
  let ?t = "cancelled_target at t"
  let ?db = "store_target ?t a db"
  have c: "updates_constraints db" and rows: "updates_rows db" using inv by (simp_all add: updates_inv_def)
  have tm: "t \<in> set (u_targets db)" "t_rollout_id t = r_id r"
    using arg_cong [OF t, of set] by (auto simp: rollout_targets_def)
  have act: "active_target_status (t_status t)" using ready by (simp add: cancellation_ready_def open_target_def)
  have same: "same_target_identity t ?t" by (simp add: same_target_identity_def cancelled_target_def)
  have times: "target_times t" "rollout_times r" using rows tm r(1) by (simp_all add: row_defs)
  have rows1: "updates_rows ?db"
    using c rows tm(1) same times(1) act
    by (intro rows_store_target) (auto simp: target_times_def cancelled_target_def)
  have oth: "others_open (r_id r) ?db"
    using others_open_store_target [OF c tm(1) same inv_others_open [OF inv]] tm(2) by simp
  have "x = t" if "x \<in> set (u_targets db)" "t_rollout_id x = r_id r" for x
    using that arg_cong [OF t, of set] by (auto simp: rollout_targets_def)
  then have "rollout_open (u_targets ?db) (cancelled_rollout at r)"
    using in_store_target [OF c tm(1), of ?t]
    by (auto simp: rollout_open_def cancelled_rollout_def cancelled_target_def list_ex_iff)
  then show ?thesis
    using c' rows1 oth r times(2) unfolding db'
    by (intro inv_store_rollout [of _ _ ?db r])
      (auto simp: same_rollout_identity_def cancelled_rollout_def rollout_times_def cancellable_rollout_def)
qed (use inv in simp)

lemma report_truthful_mono:
  assumes "report_truthful db p" "set (u_builds db) \<subseteq> set (u_builds db')" "set (u_rollouts db) \<subseteq> set (u_rollouts db')"
    "set (u_targets db) \<subseteq> set (u_targets db')"
  shows "report_truthful db' p"
proof -
  from assms(1) obtain t where t: "t \<in> set (u_targets db)" "t_id t = p_update_target_id p" "t_device_id t = p_device_id p"
      and v: "p_status p = TApplied \<longrightarrow> (\<exists>r\<in>set (u_rollouts db). r_id r = t_rollout_id t
        \<and> (\<exists>b\<in>set (u_builds db). b_id b = r_build_id r \<and> b_version b = p_reported_version p))"
    by (auto simp: report_truthful_def list_ex_iff)
  from v assms(2,3) have "p_status p = TApplied \<longrightarrow> (\<exists>r\<in>set (u_rollouts db'). r_id r = t_rollout_id t
        \<and> (\<exists>b\<in>set (u_builds db'). b_id b = r_build_id r \<and> b_version b = p_reported_version p))"
    by blast
  with t assms(4) show ?thesis
    unfolding report_truthful_def list_ex_iff by (intro bexI [of _ t]) auto
qed

lemma build_values_ok:
  assumes "manifest_valid any_url m" "build_values any_url i m = Inr b"
  shows "build_ok b"
  using assms by (auto simp: build_values_def build_ok_def manifest_valid_def split: sum.splits)

lemma inv_register:
  assumes inv: "updates_inv db"
    and ok: "register_build any_url archive root gen clock m actor rid now db = Inr (db', b)"
  shows "updates_inv db'"
proof (cases "db' = db")
  case False
  with register_build_Inr [OF ok] obtain a where v: "manifest_valid any_url m" "build_values any_url (gen 0) m = Inr b"
      and db': "db' = db\<lparr>u_builds := u_builds db @ [b], u_audits := a\<rparr>" and c': "updates_constraints db'"
    by auto
  have "report_truthful db' p" if "p \<in> set (u_reports db)" for p
    using inv that by (intro report_truthful_mono [of db p db']) (auto simp: updates_inv_def row_defs db')
  then show ?thesis
    using inv c' build_values_ok [OF v] by (auto simp: updates_inv_def row_defs db')
qed (use inv in simp)

lemma inv_create_active:
  assumes inv: "updates_inv db"
    and ok: "create_active_rollout gen bld m ids reason actor rid now db = Inr (db', r)"
    and ids: "ids \<noteq> []"
    and can: "m = Bulk \<Longrightarrow> require_completed_canary db (b_id bld) = Inr ()"
  shows "updates_inv db'"
proof -
  from create_active_rollout_Inr [OF ok] obtain a where r: "r = new_rollout gen bld m reason now"
      and db': "db' = db\<lparr>u_rollouts := u_rollouts db @ [r], u_targets := u_targets db @ new_targets gen ids reason now,
             u_audits := a\<rparr>" and c': "updates_constraints db'" by blast
  let ?new = "new_targets gen ids reason now"
  have new: "t_rollout_id t = r_id r \<and> t_status t = TAssigned \<and> target_times t" if "t \<in> set ?new" for t
    using that by (auto simp: new_targets_def new_target_def r new_rollout_def target_times_def)
  have ne: "?new \<noteq> []" using ids by (cases ids) (simp_all add: new_targets_def)
  have fresh_r: "r_id s \<noteq> r_id r" if "s \<in> set (u_rollouts db)" for s
  proof -
    have "r_id r \<notin> r_id ` set (u_rollouts db)"
      using c' by (simp add: updates_constraints_def rollout_constraints_def db')
    with that show ?thesis by (metis imageI)
  qed
  have fresh_t: "t_id t \<noteq> p_update_target_id p" if "t \<in> set ?new" "p \<in> set (u_reports db)" for t p
  proof -
    have "t_id ` set (u_targets db) \<inter> t_id ` set ?new = {}"
      using c' by (simp add: updates_constraints_def target_constraints_def db')
    moreover have "p_update_target_id p \<in> t_id ` set (u_targets db)"
      using that(2) inv by (simp add: updates_inv_def updates_constraints_def report_constraints_def list_all_iff)
    ultimately show ?thesis using that(1) by (metis IntI emptyE imageI)
  qed
  have "rollout_open (u_targets db') s" if "s \<in> set (u_rollouts db')" for s
  proof (cases "s = r")
    case True
    with new ne show ?thesis
      by (cases ?new) (auto simp: rollout_open_def db' r new_rollout_def)
  next
    case False
    with that have s: "s \<in> set (u_rollouts db)" by (simp add: db')
    then have "rollout_open (u_targets db) s" using inv by (simp add: updates_inv_def list_all_iff)
    then show ?thesis using new fresh_r [OF s] by (auto simp: rollout_open_def list_ex_iff db')
  qed
  moreover have "report_truthful db' p" if "p \<in> set (u_reports db)" for p
    using inv that by (intro report_truthful_mono [of db p db']) (auto simp: updates_inv_def row_defs db')
  moreover have "target_reported (u_reports db) t" if "t \<in> set ?new" for t
    using new [OF that] fresh_t [OF that] by (fastforce simp: target_reported_def filter_empty_conv)
  moreover have "rollout_times r" "canary_first (u_rollouts db') r"
    using can by (auto simp: r new_rollout_def rollout_times_def canary_first_def db' require_completed_canary_def list_ex_iff)
  moreover have "canary_first (u_rollouts db') s" if "s \<in> set (u_rollouts db)" for s
    using inv that by (auto simp: updates_inv_def row_defs canary_first_def db')
  ultimately show ?thesis
    using inv c' new by (auto simp: updates_inv_def updates_rows_def list_all_iff db')
qed

lemma inv_create:
  assumes inv: "updates_inv db"
    and ok: "create_rollout gen clock bid mode ds reason actor rid now db = Inr (db', r)"
  shows "updates_inv db'"
proof -
  from create_rollout_Inr [OF ok] obtain bld m ids at where
      v: "validate_rollout_input bld mode ds reason = Inr (m, ids, reason)"
      and "m = Bulk \<longrightarrow> require_completed_canary db (b_id bld) = Inr ()"
      and "create_active_rollout gen bld m ids reason (the actor) rid at db = Inr (db', r)" by blast
  with inv validate_rollout_input_Inr(3) [OF v] show ?thesis by (blast intro: inv_create_active)
qed

lemma inv_rollback:
  assumes inv: "updates_inv db"
    and ok: "create_rollback_rollout gen clock trig bid ds reason actor rid now db = Inr (db', r)"
  shows "updates_inv db'"
proof -
  from create_rollback_rollout_Inr [OF ok] obtain new ids why at where
      v: "validate_rollout_input new ''rollback'' ds why = Inr (Rollback, ids, why)"
      and "create_active_rollout gen new Rollback ids why (the actor) rid at db = Inr (db', r)" by blast
  with inv validate_rollout_input_Inr(3) [OF v] show ?thesis by (blast intro: inv_create_active)
qed

lemma inv_others:
  assumes inv: "updates_inv db" and ok: "update_exec (OtherServices ds insts) db = Inr db'"
  shows "updates_inv db'"
proof -
  from ok have db': "db' = db\<lparr>u_devices := ds, u_instances := insts\<rparr>" and d: "distinct (map d_id ds)"
      and sub: "d_id ` set (u_devices db) \<subseteq> d_id ` set ds"
    by (auto simp: list_all_iff split: if_splits)
  have "updates_constraints db'"
    using inv d sub
    by (auto simp: updates_inv_def updates_constraints_def build_constraints_def rollout_constraints_def
        target_constraints_def report_constraints_def list_all_iff db' subset_eq)
  moreover have "report_truthful db' p" if "p \<in> set (u_reports db)" for p
    using inv that by (intro report_truthful_mono [of db p db']) (auto simp: updates_inv_def row_defs db')
  ultimately show ?thesis
    using inv by (simp add: updates_inv_def updates_rows_def list_all_iff db')
qed

lemmas op_invariants = inv_register inv_create inv_activate inv_pause inv_rollback inv_ack inv_report inv_cancel

lemma update_exec_inv: "updates_inv db \<Longrightarrow> update_exec c db = Inr db' \<Longrightarrow> updates_inv db'"
proof (cases c)
  case (CompleteRollout clock i actor rid now)
  assume "updates_inv db" "update_exec c db = Inr db'"
  with CompleteRollout show ?thesis by (auto dest: complete_replays)
next
  case (OtherServices ds insts)
  assume "updates_inv db" "update_exec c db = Inr db'"
  with OtherServices show ?thesis using inv_others by blast
qed (auto dest: op_invariants)

section \<open>The audit trail only grows\<close>

lemma create_active_audits:
  "create_active_rollout gen bld m ids reason actor rid now db = Inr (db', r) \<Longrightarrow> prefix (u_audits db) (u_audits db')"
  by (drule create_active_rollout_Inr) auto

lemma record_report_audits:
  assumes "record_report gen clock dev oper q rid now rv db = Inr (db', p)"
  shows "prefix (u_audits db) (u_audits db')"
proof (cases "db' = db")
  case False
  with record_report_Inr [OF assms] obtain t r at a where a: "prefix (u_audits db) a"
      and db': "let db1 = reported_db p (reported_target q at t) a db in
                 if all_targets_terminal (rollout_targets db1 (r_id r))
                 then \<exists>a'. prefix a a' \<and> db' = store_rollout (completed_rollout at r) a' db1
                 else db' = db1" by metis
  from db' have "prefix a (u_audits db')" by (auto simp: Let_def split: if_splits)
  with a show ?thesis by (rule prefix_order.trans)
qed simp

lemma update_exec_audits: "update_exec c db = Inr db' \<Longrightarrow> prefix (u_audits db) (u_audits db')"
proof (cases c)
  case (RegisterBuild)
  assume "update_exec c db = Inr db'"
  with RegisterBuild show ?thesis by (auto dest!: register_build_Inr)
next
  case (CreateRollout)
  assume "update_exec c db = Inr db'"
  with CreateRollout show ?thesis by (auto dest!: create_rollout_Inr dest: create_active_audits)
next
  case (CreateRollback)
  assume "update_exec c db = Inr db'"
  with CreateRollback show ?thesis by (auto dest!: create_rollback_rollout_Inr dest: create_active_audits)
next
  case (CancelRollout)
  assume "update_exec c db = Inr db'"
  with CancelRollout show ?thesis by (auto dest!: cancel_Inr)
next
  case (RecordReport)
  assume "update_exec c db = Inr db'"
  with RecordReport show ?thesis by (auto dest: record_report_audits)
qed (auto dest!: activate_rollout_Inr pause_rollout_Inr complete_rollout_Inr record_ack_Inr split: if_splits)

interpretation updates: transactional_trail update_exec updates_inv "\<lambda>a b. prefix (u_audits a) (u_audits b)"
  by unfold_locales (auto intro: update_exec_inv update_exec_audits prefix_order.trans)

end
