(* ===== verification/Update_Progress.thy ===== *)
theory Update_Progress
  imports Update_Invariants
begin

text \<open>
  How targets move: the status graph of the targets, that every committed request moves every
  target along it and keeps its identity, and that reports and their rows stay on file.
\<close>

section \<open>The status graph\<close>

inductive target_step :: "target_status \<Rightarrow> target_status \<Rightarrow> bool" where
  request: "target_step TAssigned TRequested"
| schedule: "target_step TRequested TScheduled"
| apply_: "target_step TScheduled TApplied"
| roll_back: "target_step TScheduled TRolledBack"
| fail: "active_target_status s \<Longrightarrow> target_step s TFailed"
| cancel: "active_target_status s \<Longrightarrow> target_step s TCancelled"

inductive_simps target_step_simps: "target_step s t"

fun target_rank :: "target_status \<Rightarrow> nat" where
  "target_rank TAssigned = 0"
| "target_rank TRequested = 1"
| "target_rank TScheduled = 2"
| "target_rank _ = 3"

interpretation target_life: lifecycle target_step terminal_target_status target_rank 3
proof
  show "\<not> target_step s t" if "terminal_target_status s" for s t
    using that by (auto simp: target_step_simps)
  show "target_rank s < target_rank t" if "target_step s t" for s t
    using that by (cases s) (auto simp: target_step_simps)
  show "target_rank s \<le> 3" for s by (cases s) auto
qed

section \<open>Progress of the tables\<close>

definition target_moved :: "target \<Rightarrow> target \<Rightarrow> bool" where
  "target_moved t t' \<longleftrightarrow> same_target_identity t t' \<and> target_step\<^sup>*\<^sup>* (t_status t) (t_status t')"

definition progress :: "updates_db \<Rightarrow> updates_db \<Rightarrow> bool" where
  "progress db db' \<longleftrightarrow>
     (\<forall>t\<in>set (u_targets db). \<exists>t'\<in>set (u_targets db'). target_moved t t')
     \<and> (\<forall>r\<in>set (u_rollouts db). \<exists>r'\<in>set (u_rollouts db'). same_rollout_identity r r'
          \<and> (r_status r \<in> {RCompleted, RCancelled} \<longrightarrow> r' = r))
     \<and> set (u_builds db) \<subseteq> set (u_builds db')
     \<and> prefix (u_reports db) (u_reports db')"

lemma target_moved_refl [simp]: "target_moved t t"
  by (simp add: target_moved_def same_target_identity_def)

lemma same_rollout_identity_refl [simp]: "same_rollout_identity r r"
  by (simp add: same_rollout_identity_def)

lemma progress_grow:
  assumes "set (u_targets db) \<subseteq> set (u_targets db')" "set (u_rollouts db) \<subseteq> set (u_rollouts db')"
    "set (u_builds db) \<subseteq> set (u_builds db')" "u_reports db' = u_reports db"
  shows "progress db db'"
proof -
  have "\<exists>t'\<in>set (u_targets db'). target_moved t t'" if "t \<in> set (u_targets db)" for t
    using that assms(1) by (intro bexI [of _ t]) auto
  moreover have "\<exists>r'\<in>set (u_rollouts db'). same_rollout_identity r r'
      \<and> (r_status r \<in> {RCompleted, RCancelled} \<longrightarrow> r' = r)" if "r \<in> set (u_rollouts db)" for r
    using that assms(2) by (intro bexI [of _ r]) auto
  ultimately show ?thesis using assms(3,4) by (simp add: progress_def)
qed

lemma progress_refl [simp]: "progress db db"
  by (simp add: progress_grow)

lemma target_moved_trans: "target_moved s t \<Longrightarrow> target_moved t u \<Longrightarrow> target_moved s u"
  by (auto simp: target_moved_def same_target_identity_def)

lemma progress_trans:
  assumes ab: "progress a b" and bc: "progress b c"
  shows "progress a c"
proof -
  have "\<exists>t'\<in>set (u_targets c). target_moved t t'" if "t \<in> set (u_targets a)" for t
    using that ab bc target_moved_trans unfolding progress_def by metis
  moreover have "\<exists>r'\<in>set (u_rollouts c). same_rollout_identity r r'
        \<and> (r_status r \<in> {RCompleted, RCancelled} \<longrightarrow> r' = r)" if r: "r \<in> set (u_rollouts a)" for r
  proof -
    from r ab obtain s where s: "s \<in> set (u_rollouts b)" "same_rollout_identity r s"
        "r_status r \<in> {RCompleted, RCancelled} \<longrightarrow> s = r" by (auto simp: progress_def)
    from s(1) bc obtain u where u: "u \<in> set (u_rollouts c)" "same_rollout_identity s u"
        "r_status s \<in> {RCompleted, RCancelled} \<longrightarrow> u = s" by (auto simp: progress_def)
    have "same_rollout_identity r u" using s(2) u(2) by (simp add: same_rollout_identity_def)
    with s u show ?thesis by metis
  qed
  ultimately show ?thesis
    using ab bc by (auto simp: progress_def intro: prefix_order.trans)
qed

lemma progress_store_rollout:
  assumes "r \<in> set (u_rollouts db)" "same_rollout_identity r r'" "r_status r \<in> {RActive, RPaused}"
    "distinct (map r_id (u_rollouts db))"
  shows "progress db (store_rollout r' a db)"
proof -
  have id: "r_id r' = r_id r" using assms(2) by (simp add: same_rollout_identity_def)
  note mem = in_store_rollout [OF assms(4,1) id]
  have "\<exists>s'\<in>set (store_row r_id r' (u_rollouts db)). same_rollout_identity s s'
      \<and> (r_status s \<in> {RCompleted, RCancelled} \<longrightarrow> s' = s)" if s: "s \<in> set (u_rollouts db)" for s
  proof (cases "s = r")
    case True
    with mem assms show ?thesis by (intro bexI [of _ r']) auto
  next
    case False
    with mem s show ?thesis by (intro bexI [of _ s]) auto
  qed
  moreover have "\<exists>t'\<in>set (u_targets db). target_moved t t'" if "t \<in> set (u_targets db)" for t
    using that by (intro bexI [of _ t]) auto
  ultimately show ?thesis by (simp add: progress_def)
qed

lemma progress_store_target:
  assumes c: "updates_constraints db" and t: "t \<in> set (u_targets db)" and move: "target_moved t t'"
    and f: "u_targets db' = store_row t_id t' (u_targets db)" "u_rollouts db' = u_rollouts db"
      "u_builds db' = u_builds db" "prefix (u_reports db) (u_reports db')"
  shows "progress db db'"
proof -
  have id: "t_id t' = t_id t" using move by (simp add: target_moved_def same_target_identity_def)
  note mem = in_store_target [OF c t id]
  have "\<exists>s'\<in>set (store_row t_id t' (u_targets db)). target_moved s s'" if s: "s \<in> set (u_targets db)" for s
    using mem s move target_moved_refl by metis
  moreover have "\<exists>r'\<in>set (u_rollouts db). same_rollout_identity r r'
      \<and> (r_status r \<in> {RCompleted, RCancelled} \<longrightarrow> r' = r)" if "r \<in> set (u_rollouts db)" for r
    using that by (intro bexI [of _ r]) auto
  ultimately show ?thesis using f by (simp add: progress_def)
qed

section \<open>Every request makes progress\<close>

lemma inv_rollout_ids: "updates_inv db \<Longrightarrow> distinct (map r_id (u_rollouts db))"
  by (simp add: updates_inv_def updates_constraints_def rollout_constraints_def)

lemma target_moved_step:
  "same_target_identity t t' \<Longrightarrow> target_step (t_status t) (t_status t') \<Longrightarrow> target_moved t t'"
  by (simp add: target_moved_def)

lemma progress_pause: "updates_inv db \<Longrightarrow> pause_rollout clock i actor rid now db = Inr (db', r') \<Longrightarrow> progress db db'"
  by (drule pause_rollout_Inr)
    (auto intro!: progress_store_rollout inv_rollout_ids simp: same_rollout_identity_def)

lemma progress_activate:
  "updates_inv db \<Longrightarrow> activate_rollout clock i actor rid now db = Inr (db', r') \<Longrightarrow> progress db db'"
  by (drule activate_rollout_Inr)
    (auto intro!: progress_store_rollout inv_rollout_ids simp: same_rollout_identity_def)

lemma progress_ack:
  assumes inv: "updates_inv db" and ok: "record_ack clock dev oper ack rid now rv db = Inr (db', t')"
  shows "progress db db'"
proof (cases "db' = db")
  case False
  with record_ack_Inr [OF ok] obtain t at a where t: "t \<in> set (u_targets db)"
      "t_status t = (if ack = AckRequested then TAssigned else TRequested)"
      and t': "t' = acknowledged ack at t" and db': "db' = store_target t' a db"
    by blast
  have "target_moved t t'"
    using t(2) by (cases ack) (auto simp: t' target_step_simps same_target_identity_def intro!: target_moved_step)
  with inv t(1) db' show ?thesis
    by (intro progress_store_target [of db t t']) (auto simp: updates_inv_def)
qed simp

lemma progress_reported:
  assumes inv: "updates_inv db" and t: "t \<in> set (u_targets db)" and perm: "report_permitted q t r b"
  shows "progress db (reported_db p (reported_target q at t) a db)"
proof -
  have "target_moved t (reported_target q at t)"
    using perm by (cases "q_status q")
      (auto simp: report_permitted_def reported_target_def target_step_simps same_target_identity_def
        intro!: target_moved_step)
  with inv t show ?thesis
    by (intro progress_store_target [of db t "reported_target q at t"]) (auto simp: updates_inv_def)
qed

lemma progress_report:
  assumes inv: "updates_inv db" and ok: "record_report gen clock dev oper q rid now rv db = Inr (db', p)"
  shows "progress db db'"
proof (cases "db' = db")
  case False
  with record_report_Inr [OF ok] obtain t r b at a where
      ctx: "locked_target_context db dev oper = Inr (t, r, b)" and perm: "report_permitted q t r b"
      and db': "let db1 = reported_db p (reported_target q at t) a db in
                 if all_targets_terminal (rollout_targets db1 (r_id r))
                 then \<exists>a'. prefix a a' \<and> db' = store_rollout (completed_rollout at r) a' db1
                 else db' = db1" by metis
  let ?db = "reported_db p (reported_target q at t) a db"
  note rows = locked_target_context_Inr [OF ctx]
  have one: "progress db ?db" using inv rows perm by (intro progress_reported) auto
  have "progress ?db (store_rollout (completed_rollout at r) a' ?db)" for a'
    using rows perm inv_rollout_ids [OF inv]
    by (intro progress_store_rollout) (auto simp: same_rollout_identity_def completed_rollout_def report_permitted_def)
  with db' one show ?thesis by (auto simp: Let_def intro: progress_trans split: if_splits)
qed simp

lemma progress_cancel:
  assumes inv: "updates_inv db"
    and ok: "cancel_paused_singleton_rollout codec sha key owned budget clock i body actor rid rv now db = Inr (db', resp)"
  shows "progress db db'"
proof (cases "db' = db")
  case False
  from cancel_Inr [OF ok] False obtain r b t at a where r: "r \<in> set (u_rollouts db)" "cancellable_rollout r"
      and t: "rollout_targets db (r_id r) = [t]" and ready: "cancellation_ready sha db b r t body"
      and db': "db' = store_rollout (cancelled_rollout at r) a (store_target (cancelled_target at t) a db)" by metis
  let ?db = "store_target (cancelled_target at t) a db"
  have tm: "t \<in> set (u_targets db)" using arg_cong [OF t, of set] by (auto simp: rollout_targets_def)
  have "target_moved t (cancelled_target at t)"
    using ready by (auto simp: cancellation_ready_def open_target_def cancelled_target_def target_step_simps
        same_target_identity_def intro!: target_moved_step)
  then have one: "progress db ?db"
    using inv tm by (intro progress_store_target [of db t "cancelled_target at t"]) (auto simp: updates_inv_def)
  have "progress ?db db'"
    unfolding db' using r inv_rollout_ids [OF inv]
    by (intro progress_store_rollout) (auto simp: same_rollout_identity_def cancelled_rollout_def cancellable_rollout_def)
  with one show ?thesis by (rule progress_trans)
qed simp

lemma progress_create_active:
  "create_active_rollout gen bld m ids reason actor rid now db = Inr (db', r) \<Longrightarrow> progress db db'"
  by (drule create_active_rollout_Inr) (auto intro!: progress_grow)

lemma progress_exec: "updates_inv db \<Longrightarrow> update_exec c db = Inr db' \<Longrightarrow> progress db db'"
proof (cases c)
  case (RegisterBuild)
  assume "update_exec c db = Inr db'"
  with RegisterBuild show ?thesis by (auto dest!: register_build_Inr intro!: progress_grow)
next
  case (CreateRollout)
  assume "update_exec c db = Inr db'"
  with CreateRollout show ?thesis by (auto dest!: create_rollout_Inr dest: progress_create_active)
next
  case (CreateRollback)
  assume "update_exec c db = Inr db'"
  with CreateRollback show ?thesis by (auto dest!: create_rollback_rollout_Inr dest: progress_create_active)
next
  case (OtherServices ds insts)
  assume "update_exec c db = Inr db'"
  with OtherServices show ?thesis by (auto intro!: progress_grow split: if_splits)
qed (auto dest: progress_pause progress_activate progress_ack progress_report progress_cancel complete_replays)

interpretation update_progress: transactional_trail update_exec updates_inv progress
  by unfold_locales (auto intro: update_exec_inv progress_exec progress_trans)

end
