(* ===== verification/Update_Totality.thy ===== *)
theory Update_Totality
  imports Update_Progress
begin

text \<open>
  When the operations of the update service succeed: that a target's rows are found, that a
  creation with fresh identities meets every table constraint, that the recommendation is
  determined, that no operation on existing rows can meet an \<open>IntegrityError\<close>, and that a
  cancellation finds its own receipt again.
\<close>

lemma locked_target_context_found:
  assumes inv: "updates_inv db" and t: "t \<in> set (u_targets db)"
  shows "\<exists>r b. locked_target_context db (Some (t_device_id t)) (Some (t_operation_id t)) = Inr (t, r, b)"
proof -
  have c: "updates_constraints db" using inv by (simp add: updates_inv_def)
  have "distinct (map t_operation_id (u_targets db))"
    using c by (simp add: updates_constraints_def target_constraints_def)
  then have "find (\<lambda>s. t_operation_id s = t_operation_id t \<and> t_device_id s = t_device_id t) (u_targets db) = Some t"
    using t by (intro find_unique) (auto dest: distinct_map_inj)
  moreover obtain r where r: "find_row r_id (t_rollout_id t) (u_rollouts db) = Some r"
    using c t find_row_exists [of "t_rollout_id t" r_id "u_rollouts db"]
    by (auto simp: updates_constraints_def target_constraints_def list_all_iff)
  moreover have "\<exists>b. find_row b_id (r_build_id r) (u_builds db) = Some b"
    using c find_row_SomeD(1) [OF r] find_row_exists [of "r_build_id r" b_id "u_builds db"]
    by (auto simp: updates_constraints_def rollout_constraints_def list_all_iff)
  ultimately show ?thesis by (auto simp: locked_target_context_def as_uuid_def)
qed

lemma report_context:
  assumes "record_report gen clock dev oper q rid now rv db = Inr (db', p)" and inv: "updates_inv db"
  shows "\<exists>t\<in>set (u_targets db'). dev = Some (t_device_id t) \<and> oper = Some (t_operation_id t)
     \<and> p \<in> set (u_reports db') \<and> p_update_target_id p = t_id t \<and> same_report p q \<and> is_ok (checked_report q)"
proof -
  have ck: "is_ok (checked_report q)" using assms(1) by (auto simp: record_report_def)
  from record_report_Inr [OF assms(1)] obtain t r b where ctx: "locked_target_context db dev oper = Inr (t, r, b)"
      and cases: "(db' = db \<and> p \<in> set (u_reports db) \<and> p_update_target_id p = t_id t \<and> same_report p q)
        \<or> p = new_report gen t q \<and> p \<in> set (u_reports db')"
    by (auto simp: Let_def split: if_splits)
  note rows = locked_target_context_Inr [OF ctx]
  from progress_report [OF inv assms(1)] rows obtain t' where t': "t' \<in> set (u_targets db')" "same_target_identity t t'"
    by (auto simp: progress_def target_moved_def)
  have "p \<in> set (u_reports db') \<and> p_update_target_id p = t_id t \<and> same_report p q"
    using cases by (auto simp: new_report_def same_report_def)
  with t' rows ck show ?thesis
    by (intro bexI [of _ t']) (auto simp: same_target_identity_def)
qed

definition fresh_uuids :: "(nat \<Rightarrow> uuid) \<Rightarrow> nat \<Rightarrow> updates_db \<Rightarrow> bool" where
  "fresh_uuids gen n db \<longleftrightarrow>
     distinct (map gen [0..<n])
     \<and> list_all (\<lambda>k. wf_uuid (gen k)
          \<and> gen k \<notin> set (map r_id (u_rollouts db)) \<union> set (map t_id (u_targets db)) \<union> set (map t_operation_id (u_targets db))
          \<and> ''ur_'' @ uuid_hex (gen k) \<notin> set (map r_rollout_identifier (u_rollouts db))
          \<and> ''ut_'' @ uuid_hex (gen k) \<notin> set (map t_target_identifier (u_targets db))) [0..<n]"

lemma fresh_uuids_distinct: "fresh_uuids gen n db \<Longrightarrow> distinct (map gen [0..<n])"
  by (simp add: fresh_uuids_def)

lemma fresh_uuidsD:
  assumes "fresh_uuids gen n db" "k < n"
  shows "gen k \<notin> r_id ` set (u_rollouts db)" "gen k \<notin> t_id ` set (u_targets db)"
    "gen k \<notin> t_operation_id ` set (u_targets db)" "wf_uuid (gen k)"
    "''ur_'' @ uuid_hex (gen k) \<notin> r_rollout_identifier ` set (u_rollouts db)"
    "''ut_'' @ uuid_hex (gen k) \<notin> t_target_identifier ` set (u_targets db)"
  using assms by (simp_all add: fresh_uuids_def list_all_iff)

lemma map_new_targets:
  "map f (new_targets gen ids reason now) = map (\<lambda>(j, d). f (new_target gen reason now (j, d))) (enumerate 0 ids)"
  by (simp add: new_targets_def split_def)

lemma enumerate_fst: "map (\<lambda>(j, d). g j) (enumerate 0 ids) = map g [0..<length ids]"
  by (simp add: enumerate_eq_zip split_def flip: map_map [unfolded comp_def, of g fst])

lemma enumerate_snd: "map (\<lambda>(j, d). d) (enumerate 0 ids) = ids"
  by (simp add: enumerate_eq_zip split_def)

lemma new_target_columns:
  "map t_id (new_targets gen ids reason now) = map (\<lambda>j. gen (3 * j + 2)) [0..<length ids]"
  "map t_operation_id (new_targets gen ids reason now) = map (\<lambda>j. gen (3 * j + 4)) [0..<length ids]"
  "map t_target_identifier (new_targets gen ids reason now) = map (\<lambda>j. ''ut_'' @ uuid_hex (gen (3 * j + 3))) [0..<length ids]"
  "map t_device_id (new_targets gen ids reason now) = ids"
  by (simp_all only: map_new_targets new_target_def prod.case target.simps enumerate_fst enumerate_snd)

lemma new_target_rows:
  "t \<in> set (new_targets gen ids reason now) \<Longrightarrow> t_rollout_id t = gen 0 \<and> t_status t = TAssigned"
  by (auto simp: new_targets_def new_target_def)

lemma distinct_gen:
  assumes "distinct (map gen [0..<n])" "inj_on f {0..<m}" "\<And>j. j < m \<Longrightarrow> f j < n"
  shows "distinct (map (\<lambda>j. gen (f j)) [0..<m])"
proof -
  have "inj_on gen {0..<n}" using assms(1) by (simp add: distinct_map)
  then have "inj_on gen (f ` {0..<m})" by (rule inj_on_subset) (use assms(3) in auto)
  from comp_inj_on [OF assms(2) this] show ?thesis by (simp add: distinct_map comp_def)
qed

lemma lock_assignable_devices_Inr:
  assumes "lock_assignable_devices db ids None = Inr ()" "distinct ids" "distinct (map d_id (u_devices db))"
  shows "set ids \<subseteq> d_id ` {d \<in> set (u_devices db). d_retired_at d = None}"
    and "\<forall>t\<in>set (u_targets db). active_target_status (t_status t) \<longrightarrow> t_device_id t \<notin> set ids"
proof -
  have len: "length (assignable_devices db ids) = length ids"
    using assms(1) by (simp add: lock_assignable_devices_def split: if_splits)
  have sub: "d_id ` set (assignable_devices db ids) \<subseteq> set ids" by (auto simp: assignable_devices_def)
  have "distinct (map d_id (assignable_devices db ids))"
    using assms(3) by (simp add: assignable_devices_def distinct_map_filter)
  then have "card (d_id ` set (assignable_devices db ids)) = length ids"
    using len distinct_card [of "map d_id (assignable_devices db ids)"] by simp
  then have eq: "d_id ` set (assignable_devices db ids) = set ids"
    using sub distinct_card [OF assms(2)] by (intro card_subset_eq) simp_all
  have "set (assignable_devices db ids) \<subseteq> {d \<in> set (u_devices db). d_retired_at d = None}"
    by (auto simp: assignable_devices_def)
  with eq show "set ids \<subseteq> d_id ` {d \<in> set (u_devices db). d_retired_at d = None}"
    by (metis image_mono)
  show "\<forall>t\<in>set (u_targets db). active_target_status (t_status t) \<longrightarrow> t_device_id t \<notin> set ids"
    using assms(1) by (auto simp: lock_assignable_devices_def owning_targets_def filter_empty_conv split: if_splits)
qed

lemma assignable_all:
  assumes "distinct (map d_id (u_devices db))" "distinct ids"
  shows "length (assignable_devices db ids) = length ids \<longleftrightarrow> (\<forall>d\<in>set ids. \<exists>x\<in>set (u_devices db). d_id x = d \<and> d_retired_at x = None)"
proof -
  let ?A = "assignable_devices db ids"
  have A: "d_id ` set ?A = {d \<in> set ids. \<exists>x\<in>set (u_devices db). d_id x = d \<and> d_retired_at x = None}"
    by (auto simp: assignable_devices_def)
  have "distinct (map d_id ?A)" using assms(1) by (simp add: assignable_devices_def distinct_map_filter)
  then have "length ?A = card (d_id ` set ?A)" using distinct_card [of "map d_id ?A"] by simp
  moreover have "card (d_id ` set ?A) = card (set ids) \<longleftrightarrow> d_id ` set ?A = set ids"
    using A by (metis (no_types, lifting) List.finite_set card_subset_eq mem_Collect_eq subsetI)
  ultimately show ?thesis using A distinct_card [OF assms(2)] by auto
qed

lemma active_status_iff: "active_target_status s \<longleftrightarrow> s \<in> {TAssigned, TRequested, TScheduled}"
  by simp

lemma updates_devices_distinct: "updates_constraints db \<Longrightarrow> distinct (map d_id (u_devices db))"
  by (simp add: updates_constraints_def)

lemma target_parents:
  assumes "updates_constraints db" "t \<in> set (u_targets db)"
  shows "t_rollout_id t \<in> r_id ` set (u_rollouts db)" "t_device_id t \<in> d_id ` set (u_devices db)"
  using assms by (simp_all add: updates_constraints_def target_constraints_def list_all_iff)

lemma created_constraints:
  assumes c: "updates_constraints db" and bld: "bld \<in> set (u_builds db)"
    and ids: "distinct ids" and lock: "lock_assignable_devices db ids None = Inr ()"
    and fresh: "fresh_uuids gen (3 * length ids + 2) db"
  shows "updates_constraints (db\<lparr>u_rollouts := u_rollouts db @ [new_rollout gen bld m why at],
           u_targets := u_targets db @ new_targets gen ids why at, u_audits := a\<rparr>)"
    (is "updates_constraints ?db")
proof -
  let ?new = "new_targets gen ids why at"
  note inj = fresh_uuids_distinct [OF fresh] and fr = fresh_uuidsD [OF fresh]
  note dev = lock_assignable_devices_Inr [OF lock ids, OF updates_devices_distinct [OF c]]
  have inj_hex: "distinct (map (\<lambda>j. ''ut_'' @ uuid_hex (gen (3 * j + 3))) [0..<length ids])"
  proof -
    have "distinct (map (\<lambda>j. gen (3 * j + 3)) [0..<length ids])"
      by (rule distinct_gen [OF inj]) (auto simp: inj_on_def)
    moreover have "wf_uuid (gen (3 * j + 3))" if "j < length ids" for j using that fr(4) by simp
    ultimately show ?thesis by (auto simp: distinct_map inj_on_def uuid_hex_inj)
  qed
  have old: "distinct (map t_id (u_targets db))" "distinct (map t_operation_id (u_targets db))"
      "distinct (map t_target_identifier (u_targets db))"
    using c by (simp_all add: updates_constraints_def target_constraints_def)
  have "distinct (map t_id (u_targets db @ ?new))"
    by (rule distinct_append_fresh [OF old(1) new_target_columns(1) distinct_gen [OF inj]])
      (auto simp: inj_on_def fr)
  moreover have "distinct (map t_operation_id (u_targets db @ ?new))"
    by (rule distinct_append_fresh [OF old(2) new_target_columns(2) distinct_gen [OF inj]])
      (auto simp: inj_on_def fr)
  moreover have "distinct (map t_target_identifier (u_targets db @ ?new))"
    by (rule distinct_append_fresh [OF old(3) new_target_columns(3) inj_hex]) (simp add: fr del: append.simps)
  ultimately have cols: "distinct (map t_id (u_targets db @ ?new))" "distinct (map t_operation_id (u_targets db @ ?new))"
      "distinct (map t_target_identifier (u_targets db @ ?new))" .
  have new: "t_rollout_id t = gen 0 \<and> t_status t = TAssigned \<and> t_device_id t \<in> set ids" if "t \<in> set ?new" for t
    using that new_target_rows [OF that] arg_cong [OF new_target_columns(4), of set gen ids why at] by auto
  have fresh_r: "gen 0 \<notin> r_id ` set (u_rollouts db)" by (simp add: fr)
  note old_r = target_parents [OF c]
  have pair: "distinct (map (\<lambda>t. (t_rollout_id t, t_device_id t)) (u_targets db @ ?new))"
  proof -
    have "distinct (map snd (map (\<lambda>t. (t_rollout_id t, t_device_id t)) ?new))"
      using ids new_target_columns(4) [of gen ids why at] by (simp add: comp_def)
    then have "distinct (map (\<lambda>t. (t_rollout_id t, t_device_id t)) ?new)" using distinct_map by blast
    moreover have "t_rollout_id t \<noteq> t_rollout_id u" if "t \<in> set (u_targets db)" "u \<in> set ?new" for t u
      using that new old_r(1) fresh_r by metis
    ultimately show ?thesis
      using c by (auto simp: updates_constraints_def target_constraints_def)
  qed
  have actv: "distinct (map t_device_id (filter (\<lambda>t. active_target_status (t_status t)) (u_targets db @ ?new)))"
  proof -
    have "filter (\<lambda>t. active_target_status (t_status t)) ?new = ?new" using new by (auto intro!: filter_True)
    then show ?thesis
      using c ids dev(2) new_target_columns(4) [of gen ids why at]
      by (auto simp: updates_constraints_def target_constraints_def)
  qed
  have "target_constraints ?db"
    using cols pair actv old_r new dev(1)
    by (auto simp: target_constraints_def list_all_iff new_rollout_def subset_eq)
  moreover have "rollout_constraints ?db"
    using c bld fresh_r fr(5) [of 1]
    by (auto simp: updates_constraints_def rollout_constraints_def new_rollout_def)
  ultimately show ?thesis
    using c by (auto simp: updates_constraints_def build_constraints_def report_constraints_def list_all_iff)
qed

lemma admin_audit_attributed:
  assumes "identifier_text n rid"
  shows "attributed (audit ''admin'' (Some aid) ''updates.rollout_created'' ''update_rollout'' x rid ds at)"
    and "attributed (target_assigned_event r aid rid at t)"
  using identifier_not_blank [OF assms]
  by (auto simp: attributed_def target_assigned_event_def intro!: blank_Cons; simp add: py_isspace_def)+

lemma create_active_succeeds:
  assumes c: "updates_constraints db" and bld: "bld \<in> set (u_builds db)"
    and ids: "distinct ids" and lock: "lock_assignable_devices db ids None = Inr ()"
    and fresh: "fresh_uuids gen (3 * length ids + 2) db" and rid: "identifier_text n rid"
  shows "\<exists>db'. create_active_rollout gen bld m ids why aid rid at db = Inr (db', new_rollout gen bld m why at)
     \<and> u_targets db' = u_targets db @ new_targets gen ids why at"
proof -
  let ?r = "new_rollout gen bld m why at"
  let ?events = "audit ''admin'' (Some aid) ''updates.rollout_created'' ''update_rollout''
      (Some (uuid_text (r_id ?r))) rid
      [(''build_identifier'', JStr (b_build_identifier bld)), (''mode'', JStr (mode_text m)),
       (''reason'', optional_text why), (''status'', JStr ''active''),
       (''target_count'', JInt (int (length ids)))] at
    # map (target_assigned_event ?r aid rid at) (new_targets gen ids why at)"
  obtain a where "append_audit_events UpdateValueError ?events (u_audits db) = Inr a"
    using admin_audit_attributed [OF rid] by (simp add: append_audit_events_Inr_iff list_all_iff)
  with created_constraints [OF c bld ids lock fresh] lock show ?thesis
    by (simp add: create_active_rollout_def Let_def)
qed

lemma recommendation_row_Some:
  assumes c: "updates_constraints db" and t: "t \<in> set (u_targets db)"
  shows "recommendation_row db d pl t = Some (t', r, b) \<longleftrightarrow>
     t' = t \<and> t_device_id t = d \<and> active_target_status (t_status t)
     \<and> r \<in> set (u_rollouts db) \<and> r_id r = t_rollout_id t \<and> r_status r = RActive
     \<and> b \<in> set (u_builds db) \<and> b_id b = r_build_id r \<and> b_platform b = pl"
proof -
  have "find_row r_id (t_rollout_id t) (u_rollouts db) = Some r \<longleftrightarrow> r \<in> set (u_rollouts db) \<and> r_id r = t_rollout_id t" for r
    using c by (intro find_row_unique) (simp add: updates_constraints_def rollout_constraints_def)
  moreover have "find_row b_id (r_build_id r) (u_builds db) = Some b \<longleftrightarrow> b \<in> set (u_builds db) \<and> b_id b = r_build_id r" for r b
    using c by (intro find_row_unique) (simp add: updates_constraints_def build_constraints_def)
  moreover have "recommendation_row db d pl t = Some (t', r, b) \<longleftrightarrow>
     t' = t \<and> t_device_id t = d \<and> active_target_status (t_status t)
     \<and> find_row r_id (t_rollout_id t) (u_rollouts db) = Some r \<and> r_status r = RActive
     \<and> find_row b_id (r_build_id r) (u_builds db) = Some b \<and> b_platform b = pl"
    by (auto simp: recommendation_row_def split: option.splits if_splits simp del: active_target_status.simps)
  ultimately show ?thesis by metis
qed

lemma active_target_unique:
  assumes "updates_constraints db" "s \<in> set (u_targets db)" "t \<in> set (u_targets db)"
    "active_target_status (t_status s)" "active_target_status (t_status t)" "t_device_id s = t_device_id t"
  shows "s = t"
  using assms distinct_map_inj [of t_device_id "filter (\<lambda>t. active_target_status (t_status t)) (u_targets db)" s t]
  by (simp add: updates_constraints_def target_constraints_def)

lemma recommendation_rows_unique:
  assumes c: "updates_constraints db"
    and x: "x \<in> set (List.map_filter (recommendation_row db d pl) (u_targets db))"
    and y: "y \<in> set (List.map_filter (recommendation_row db d pl) (u_targets db))"
  shows "x = y"
proof -
  obtain t r b t' r' b' where xy: "x = (t, r, b)" "y = (t', r', b')" by (metis prod_cases3)
  obtain s s' where s: "s \<in> set (u_targets db)" "recommendation_row db d pl s = Some (t, r, b)"
      "s' \<in> set (u_targets db)" "recommendation_row db d pl s' = Some (t', r', b')"
    using x y by (auto simp: xy List.map_filter_def image_iff)
  note R = s(2) [unfolded recommendation_row_Some [OF c s(1)]] s(4) [unfolded recommendation_row_Some [OF c s(3)]]
  have "t = t'" using active_target_unique [OF c s(1) s(3)] R by simp
  moreover from this R have "r = r'" using rollout_ids_unique [OF c] by metis
  moreover from this R have "b = b'" using build_ids_unique [OF c] by metis
  ultimately show ?thesis by (simp add: xy)
qed

lemma launcher_admits_total: "updates_inv db \<Longrightarrow> b \<in> set (u_builds db) \<Longrightarrow> \<exists>v. launcher_admits db d b = Inr v"
proof -
  have "\<exists>c. compare_semver x y = Some c" if "SemanticVersionV1 x" "SemanticVersionV1 y" for x y
    using that semver.cmp_total [of x y] by (auto simp: SemanticVersionV1_def)
  then show ?thesis
    by (fastforce simp: launcher_admits_def checked_version_def split: option.splits if_splits)
qed

lemma same_rollout_identity_updates [simp]:
  "same_rollout_identity r (r\<lparr>r_status := s, r_started_at := x, r_paused_at := y\<rparr>)"
  "same_rollout_identity r (r\<lparr>r_status := s, r_paused_at := y\<rparr>)"
  "same_rollout_identity r (completed_rollout at r)"
  "same_rollout_identity r (cancelled_rollout at r)"
  by (simp_all add: same_rollout_identity_def completed_rollout_def cancelled_rollout_def)

lemma same_target_identity_updates [simp]:
  "same_target_identity t (acknowledged ack at t)"
  "same_target_identity t (cancelled_target at t)"
  by (cases ack; simp add: same_target_identity_def cancelled_target_def)+

lemma commit_rollout_no_integrity:
  "updates_constraints db \<Longrightarrow> r \<in> set (u_rollouts db) \<Longrightarrow> same_rollout_identity r r' \<Longrightarrow>
     commit_rollout ev r' db \<noteq> Inl IntegrityError"
  using constraints_store_rollout
  by (auto simp: commit_rollout_def bindE_Inl_iff append_audit_event_def flush_def split: if_splits)

lemma commit_target_no_integrity:
  "updates_constraints db \<Longrightarrow> t \<in> set (u_targets db) \<Longrightarrow> same_target_identity t t' \<Longrightarrow>
     (active_target_status (t_status t') \<Longrightarrow> active_target_status (t_status t)) \<Longrightarrow>
     commit_target ev t' db \<noteq> Inl IntegrityError"
  using constraints_store_target
  by (auto simp: commit_target_def bindE_Inl_iff append_audit_event_def flush_def split: if_splits
      simp del: active_target_status.simps)

lemma timestamp_error: "timestamp clock now = Inl e \<Longrightarrow> e = UpdateValidationError"
  by (cases "(clock, now)" rule: timestamp.cases) auto

lemma input_errors [simp]:
  "timestamp clock now \<noteq> Inl IntegrityError" "actor_identifier actor \<noteq> Inl IntegrityError"
  "request_identifier rid \<noteq> Inl IntegrityError" "as_uuid i \<noteq> Inl IntegrityError"
  "locked_rollout db j \<noteq> Inl IntegrityError" "lock_assignable_devices db ids ex \<noteq> Inl IntegrityError"
  "locked_target_context db dev oper \<noteq> Inl IntegrityError" "check_authorization rv \<noteq> Inl IntegrityError"
  by (auto dest: timestamp_error simp: actor_identifier_def request_identifier_def as_uuid_def locked_rollout_def bindE_Inl_iff
      lock_assignable_devices_def locked_target_context_def check_authorization_def Let_def split: prod.splits)

lemma pause_no_integrity: "updates_constraints db \<Longrightarrow> pause_rollout clock i actor rid now db \<noteq> Inl IntegrityError"
  using commit_rollout_no_integrity
  by (auto simp: pause_rollout_def bindE_Inl_iff Let_def dest!: locked_rollout_Inr split: if_splits)

lemma activate_no_integrity: "updates_constraints db \<Longrightarrow> activate_rollout clock i actor rid now db \<noteq> Inl IntegrityError"
  using commit_rollout_no_integrity
  by (auto simp: activate_rollout_def bindE_Inl_iff Let_def dest!: locked_rollout_Inr split: if_splits)

lemma complete_no_integrity: "updates_constraints db \<Longrightarrow> complete_rollout clock i actor rid now db \<noteq> Inl IntegrityError"
  using commit_rollout_no_integrity
  by (auto simp: complete_rollout_def bindE_Inl_iff Let_def dest!: locked_rollout_Inr split: if_splits)

lemma ack_no_integrity: "updates_constraints db \<Longrightarrow> record_ack clock dev oper ack rid now rv db \<noteq> Inl IntegrityError"
proof
  assume c: "updates_constraints db" and bad: "record_ack clock dev oper ack rid now rv db = Inl IntegrityError"
  then obtain t r b where ctx: "locked_target_context db dev oper = Inr (t, r, b)"
    by (auto simp: record_ack_def bindE_Inl_iff)
  with bad obtain ev at where st: "t_status t = (if ack = AckRequested then TAssigned else TRequested)"
      and w: "commit_target ev (acknowledged ack at t) db = Inl IntegrityError"
    by (cases ack) (auto simp: record_ack_def bindE_Inl_iff Let_def split: if_splits)
  have "active_target_status (t_status t)" using st by simp
  with commit_target_no_integrity [OF c, of t "acknowledged ack at t" ev] w locked_target_context_Inr [OF ctx]
  show False by simp
qed

lemma cancellation_no_integrity:
  assumes c: "updates_constraints db" and r: "r \<in> set (u_rollouts db)" and t: "t \<in> set (u_targets db)"
  shows "execute_cancellation codec key body aid rid at r t db \<noteq> Inl IntegrityError"
proof -
  have "updates_constraints (store_rollout (cancelled_rollout at r) a (store_target (cancelled_target at t) a db))" for a
    using c r t by (intro constraints_store_rollout [of _ r] constraints_store_target [of _ t])
      (simp_all, simp add: cancelled_target_def)
  then show ?thesis
    by (auto simp: execute_cancellation_def bindE_Inl_iff append_audit_event_def flush_def Let_def split: if_splits)
qed

lemma replay_no_integrity: "replay_cancellation codec sha b r t e body aid \<noteq> Inl IntegrityError"
  by (auto simp: replay_cancellation_def Let_def split: option.splits)

lemma cancel_no_integrity:
  assumes c: "updates_constraints db"
  shows "cancel_paused_singleton_rollout codec sha key owned budget clock i body actor rid rv now db \<noteq> Inl IntegrityError"
proof
  assume bad: "cancel_paused_singleton_rollout codec sha key owned budget clock i body actor rid rv now db = Inl IntegrityError"
  note defs = cancel_paused_singleton_rollout_def
  from bad obtain aid rid' r b where ok: "actor_identifier actor = Inr aid" "request_identifier rid = Inr rid'"
      and r: "find_row r_id i (u_rollouts db) = Some r" and b: "find_row b_id (r_build_id r) (u_builds db) = Some b"
    by (auto simp: defs bindE_Inl_iff split: if_splits)
  from bad ok r b obtain t where t: "rollout_targets db (r_id r) = [t]"
    by (auto simp: defs bindE_Inl_iff split: if_splits list.splits)
  have "find (\<lambda>e. a_id e = Some (key (r_id r))) (u_audits db) = None"
    using bad ok r b t replay_no_integrity by (auto simp: defs bindE_Inl_iff split: if_splits option.splits)
  with bad ok r b t obtain at where x: "execute_cancellation codec key body aid rid' at r t db = Inl IntegrityError"
    by (auto simp: defs bindE_Inl_iff split: if_splits)
  have "t \<in> set (u_targets db)" using arg_cong [OF t, of set] by (auto simp: rollout_targets_def)
  with cancellation_no_integrity [OF c find_row_SomeD(1) [OF r]] x show False by blast
qed

lemma append_audit_events_error: "append_audit_events e evs trail = Inl x \<Longrightarrow> x = e"
  by (induction evs arbitrary: trail) (auto simp: append_audit_events.simps append_audit_event_def bindE_Inl_iff split: if_splits)

lemma uuid_list_error: "uuid_list xs = Inl e \<Longrightarrow> e = UpdateValidationError"
  by (induction xs) (auto simp: bindE_Inl_iff as_uuid_def)

lemma validate_rollout_input_error: "validate_rollout_input b m ds r = Inl e \<Longrightarrow> e = UpdateValidationError"
  by (auto simp: validate_rollout_input_def bindE_Inl_iff safe_reason_def dest: uuid_list_error split: sum.splits if_splits)

lemma create_active_no_integrity:
  "create_active_rollout gen bld m ids why aid rid at db \<noteq> Inl IntegrityError"
  by (auto simp: create_active_rollout_def bindE_Inl_iff flush_def Let_def dest: append_audit_events_error split: if_splits)

lemma inserting_no_integrity:
  "register_build any_url archive root gen clock m actor rid now db \<noteq> Inl IntegrityError"
  "create_rollout gen clock bid mode ds reason actor rid now db \<noteq> Inl IntegrityError"
  "create_rollback_rollout gen clock trig bid ds reason actor rid now db \<noteq> Inl IntegrityError"
  subgoal by (auto simp: register_build_def checked_manifest_def build_values_def bindE_Inl_iff append_audit_event_def
        flush_def Let_def split: if_splits sum.splits)
  subgoal by (auto simp: create_rollout_def locked_build_def require_completed_canary_def bindE_Inl_iff
        create_active_no_integrity dest: validate_rollout_input_error split: if_splits)
  subgoal by (auto simp: create_rollback_rollout_def bindE_Inl_iff safe_reason_def Let_def
        create_active_no_integrity dest: validate_rollout_input_error split: if_splits sum.splits)
  done

text \<open>The rows of a first report meet every constraint: its key is new for the target, its target and device exist,
  and its own identities are fresh.\<close>

lemma reported_constraints:
  assumes c: "updates_constraints db" and t: "t \<in> set (u_targets db)"
    and key: "find (\<lambda>p. p_update_target_id p = t_id t \<and> p_report_key p = q_report_key q) (u_reports db) = None"
    and fresh: "gen 0 \<notin> set (map p_id (u_reports db))" "''upr_'' @ uuid_hex (gen 1) \<notin> set (map p_report_identifier (u_reports db))"
  shows "updates_constraints (reported_db (new_report gen t q) (reported_target q at t) a db)"
proof -
  let ?t = "reported_target q at t"
  have same: "same_target_identity t ?t" by (simp add: same_target_identity_def reported_target_def)
  have "\<not> active_target_status (t_status ?t)" by (cases "q_status q") (simp_all add: reported_target_def)
  then have s: "updates_constraints (store_target ?t a db)" by (intro constraints_store_target [OF c t same]) blast
  have ids: "t_id ` set (store_row t_id ?t (u_targets db)) = t_id ` set (u_targets db)" by (metis list.set_map map_key_store_row)
  have known: "t_id t \<in> t_id ` set (u_targets db)" "t_device_id t \<in> d_id ` set (u_devices db)"
    using t target_parents(2) [OF c t] by simp_all
  have "report_constraints (reported_db (new_report gen t q) ?t a db)"
    using s fresh key
    by (auto simp: updates_constraints_def report_constraints_def reported_db_def new_report_def find_None_iff ids known)
  with s show ?thesis
    by (simp add: updates_constraints_def reported_db_def build_constraints_def rollout_constraints_def target_constraints_def)
qed

lemma report_no_integrity:
  assumes c: "updates_constraints db"
    and fresh: "gen 0 \<notin> set (map p_id (u_reports db))" "''upr_'' @ uuid_hex (gen 1) \<notin> set (map p_report_identifier (u_reports db))"
  shows "record_report gen clock dev oper q rid now rv db \<noteq> Inl IntegrityError"
proof
  assume bad: "record_report gen clock dev oper q rid now rv db = Inl IntegrityError"
  have ck: "checked_report q \<noteq> Inl IntegrityError" "checked_report q = Inr q' \<Longrightarrow> q' = q" for q'
    by (auto simp: checked_report_def split: if_splits)
  from bad obtain t r b where ctx: "locked_target_context db dev oper = Inr (t, r, b)"
    by (auto simp: record_report_def bindE_Inl_iff ck(1))
  note t = locked_target_context_Inr [OF ctx]
  from bad ctx obtain at rid' where
      key: "find (\<lambda>p. p_update_target_id p = t_id t \<and> p_report_key p = q_report_key q) (u_reports db) = None"
      and w: "write_report at rid' q (new_report gen t q) t r db = Inl IntegrityError"
    by (auto simp: record_report_def bindE_Inl_iff ck(1) dest: ck(2) split: option.splits if_splits)
  have "updates_constraints ((store_target (reported_target q at t) a db)\<lparr>u_reports := u_reports db @ [new_report gen t q]\<rparr>)" for a
    using reported_constraints [OF c _ key fresh, of at a] t by (simp add: reported_db_def)
  then show False
    using w by (auto simp: write_report_def complete_if_terminal_def bindE_Inl_iff append_audit_event_def flush_def Let_def split: if_splits)
qed

lemma store_rollout_twice:
  assumes "distinct (map r_id (u_rollouts db))" "r \<in> set (u_rollouts db)" "r_id r' = r_id r"
  shows "store_row r_id r (store_row r_id r' (u_rollouts db)) = u_rollouts db"
proof (unfold store_row_def map_map comp_def, rule map_idI)
  fix x
  assume "x \<in> set (u_rollouts db)"
  then have "r_id x = r_id r \<Longrightarrow> x = r" using distinct_map_inj [OF assms(1)] assms(2) by blast
  then show "(if r_id (if r_id x = r_id r' then r' else x) = r_id r then r else if r_id x = r_id r' then r' else x) = x"
    using assms(3) by auto
qed

lemma rollout_event_attributed:
  assumes "identifier_text n rid" "\<not> blank kind" "\<not> blank action"
  shows "attributed (rollout_event kind aid action r rid ds at)"
  using assms identifier_not_blank [OF assms(1)]
  by (auto simp: attributed_def rollout_event_def intro!: blank_Cons) (simp add: py_isspace_def)

lemma commit_rollout_succeeds:
  assumes "attributed ev" "\<And>a. updates_constraints (store_rollout r a db)"
  shows "\<exists>a. commit_rollout ev r db = Inr (store_rollout r a db, r)"
  using assms by (auto simp: commit_rollout_def attributed_def)

lemma lock_own_devices:
  assumes c: "updates_constraints db" and ids: "set ids = t_device_id ` set (filter (\<lambda>t. active_target_status (t_status t)) (rollout_targets db i))"
    and dist: "distinct ids"
    and live: "\<forall>t\<in>set (rollout_targets db i). \<exists>d\<in>set (u_devices db). d_id d = t_device_id t \<and> d_retired_at d = None"
  shows "lock_assignable_devices db ids (Some i) = Inr ()"
proof -
  have "d_id ` set (assignable_devices db ids) = set ids"
  proof (rule equalityI)
    show "set ids \<subseteq> d_id ` set (assignable_devices db ids)"
    proof
      fix x
      assume x: "x \<in> set ids"
      then obtain t where "t \<in> set (rollout_targets db i)" "t_device_id t = x" using ids by auto
      with live obtain d where "d \<in> set (u_devices db)" "d_id d = x" "d_retired_at d = None" by auto
      with x show "x \<in> d_id ` set (assignable_devices db ids)"
        by (intro image_eqI [of _ _ d]) (auto simp: assignable_devices_def)
    qed
  qed (auto simp: assignable_devices_def)
  moreover have "distinct (map d_id (assignable_devices db ids))"
    using c by (simp add: assignable_devices_def distinct_map_filter updates_constraints_def)
  ultimately have "length (assignable_devices db ids) = length ids"
    using distinct_card [OF dist] distinct_card [of "map d_id (assignable_devices db ids)"] by simp
  moreover have "owning_targets db ids (Some i) = []"
  proof -
    have False if "t \<in> set (u_targets db)" "active_target_status (t_status t)" "t_device_id t \<in> set ids" "t_rollout_id t \<noteq> i" for t
    proof -
      from that(3) ids obtain s where "s \<in> set (u_targets db)" "active_target_status (t_status s)" "t_rollout_id s = i"
          "t_device_id s = t_device_id t" by (auto simp: rollout_targets_def)
      with that active_target_unique [OF c, of s t] show False by auto
    qed
    then show ?thesis unfolding owning_targets_def filter_empty_conv by auto
  qed
  ultimately show ?thesis by (simp add: lock_assignable_devices_def)
qed

lemma pause_first:
  assumes c: "updates_constraints db" and r: "r \<in> set (u_rollouts db)" "r_status r = RActive"
    and ok: "pause_rollout clock (Some (r_id r)) actor rid now db = Inr (db1, r1)"
  shows "\<exists>at a. r1 = r\<lparr>r_status := RPaused, r_paused_at := Some at\<rparr> \<and> db1 = store_rollout r1 a db"
proof -
  have "locked_rollout db (Some (r_id r)) = Inr r"
    using c r(1) by (simp add: locked_rollout_def as_uuid_def find_row_key updates_constraints_def rollout_constraints_def)
  with ok r(2) obtain ev at where "commit_rollout ev (r\<lparr>r_status := RPaused, r_paused_at := Some at\<rparr>) db = Inr (db1, r1)"
    by (auto simp: pause_rollout_def Let_def)
  from commit_rollout_Inr [OF this] show ?thesis by blast
qed

lemma activate_after_pause:
  assumes inv: "updates_inv db" and r: "r \<in> set (u_rollouts db)" "r_status r = RActive"
    and pause: "pause_rollout clock (Some (r_id r)) actor rid now db = Inr (db1, r1)"
    and live: "\<forall>t\<in>set (rollout_targets db (r_id r)). \<exists>d\<in>set (u_devices db). d_id d = t_device_id t \<and> d_retired_at d = None"
    and ok: "is_ok (actor_identifier actor')" "is_ok (request_identifier rid')" "is_ok (timestamp clock' now')"
  shows "\<exists>a. activate_rollout clock' (Some (r_id r)) actor' rid' now' db1 = Inr (db\<lparr>u_audits := a\<rparr>, r)"
proof -
  have c: "updates_constraints db" using inv by (simp add: updates_inv_def)
  have inv1: "updates_inv db1" by (rule inv_pause [OF inv pause])
  then have c1: "updates_constraints db1" by (simp add: updates_inv_def)
  from pause_first [OF c r pause] obtain at a where
      r1: "r1 = r\<lparr>r_status := RPaused, r_paused_at := Some at\<rparr>" and db1: "db1 = store_rollout r1 a db" by blast
  have times: "r_started_at r \<noteq> None" "r_paused_at r = None"
    using inv r by (auto simp: updates_inv_def row_defs rollout_times_def)
  have ts: "rollout_targets db1 i = rollout_targets db i" for i by (simp add: db1 rollout_targets_def)
  have found: "locked_rollout db1 (Some (r_id r)) = Inr r1"
    using r by (auto simp: db1 r1 locked_rollout_def as_uuid_def row_simps)
  let ?act = "filter (\<lambda>t. active_target_status (t_status t)) (rollout_targets db (r_id r))"
  let ?ids = "sort (map t_device_id ?act)"
  have "list_ex (\<lambda>t. t_rollout_id t = r_id r \<and> active_target_status (t_status t)) (u_targets db)"
    using inv r by (auto simp: updates_inv_def list_all_iff rollout_open_def)
  then have ne: "?ids \<noteq> []"
    by (auto simp: list_ex_iff rollout_targets_def filter_empty_conv simp del: active_target_status.simps
        dest!: arg_cong [of "sort _" "[]" set])
  have "distinct (map t_device_id (filter (\<lambda>t. active_target_status (t_status t)) (u_targets db)))"
    using c by (simp add: updates_constraints_def target_constraints_def)
  then have dist: "distinct ?ids"
    unfolding distinct_sort rollout_targets_def filter_filter conj_commute [of "t_rollout_id _ = _"]
    unfolding filter_filter [symmetric] by (rule distinct_map_filter)
  have lock: "lock_assignable_devices db1 ?ids (Some (r_id r)) = Inr ()"
    using lock_own_devices [OF c1 _ dist, of "r_id r"] live by (simp add: ts) (simp add: db1)
  have sorted_ids: "map t_device_id (filter (\<lambda>t. active_target_status (t_status t))
      (sort_key t_device_id (rollout_targets db (r_id r)))) = ?ids"
    by (simp add: filter_sort map_sort_key)
  obtain aid at' where act: "actor_identifier actor' = Inr aid" "timestamp clock' now' = Inr at'"
      and rid: "request_identifier rid' = Inr rid'" "identifier_text 127 rid'"
    using ok by (auto simp: is_ok_iff request_identifier_def split: if_splits)
  have restored: "r1\<lparr>r_status := RActive, r_started_at := (case r_started_at r1 of None \<Rightarrow> Some x | Some t \<Rightarrow> Some t),
      r_paused_at := None\<rparr> = r" for x
    using r(2) times by (cases r) (auto simp: r1)
  have same: "same_rollout_identity r1 r" by (simp add: r1 same_rollout_identity_def)
  have fin: "store_rollout r a' db1 = db\<lparr>u_audits := a'\<rparr>" for a'
    using store_rollout_twice [OF inv_rollout_ids [OF inv] r(1), of r1] by (simp add: db1 store_rollout_def r1)
  have "r1 \<in> set (u_rollouts db1)" using locked_rollout_Inr [OF found] by simp
  then have "updates_constraints (store_rollout r a' db1)" for a'
    using constraints_store_rollout [OF c1 _ same] by blast
  then have "\<exists>a'. commit_rollout (rollout_event ''admin'' aid ''updates.rollout_activated'' r rid' ds at') r db1
      = Inr (db\<lparr>u_audits := a'\<rparr>, r)" for ds
    using commit_rollout_succeeds [of "rollout_event ''admin'' aid ''updates.rollout_activated'' r rid' ds at'" r db1]
      rollout_event_attributed [OF rid(2)] by (simp add: fin blank_Cons py_isspace_def)
  with found ne lock sorted_ids act rid restored show ?thesis
    by (auto simp: activate_rollout_def ts r1 Let_def)
qed

lemma pause_succeeds:
  assumes c: "updates_constraints db" and r: "r \<in> set (u_rollouts db)" "r_status r = RActive"
    and ok: "is_ok (actor_identifier actor)" "is_ok (request_identifier rid)" "is_ok (timestamp clock now)"
  shows "\<exists>db1 r1. pause_rollout clock (Some (r_id r)) actor rid now db = Inr (db1, r1) \<and> r_status r1 = RPaused"
proof -
  obtain aid at where act: "actor_identifier actor = Inr aid" "timestamp clock now = Inr at"
      and rid: "request_identifier rid = Inr rid" "identifier_text 127 rid"
    using ok by (auto simp: is_ok_iff request_identifier_def split: if_splits)
  let ?r = "r\<lparr>r_status := RPaused, r_paused_at := Some at\<rparr>"
  have "updates_constraints (store_rollout ?r a db)" for a
    using constraints_store_rollout [OF c r(1)] by simp
  then have "\<exists>a. commit_rollout (rollout_event ''admin'' aid ''updates.rollout_paused'' ?r rid
      [(''status'', JStr ''paused'')] at) ?r db = Inr (store_rollout ?r a db, ?r)"
    using rollout_event_attributed [OF rid(2)] by (intro commit_rollout_succeeds) (auto simp: blank_Cons py_isspace_def)
  moreover have "locked_rollout db (Some (r_id r)) = Inr r"
    using c r(1) by (simp add: locked_rollout_def as_uuid_def find_row_key updates_constraints_def rollout_constraints_def)
  ultimately show ?thesis
    using r(2) act rid by (auto simp: pause_rollout_def Let_def)
qed

lemma cancellation_context_cancelled:
  "cancellation_context sha b (cancelled_rollout at r) (cancelled_target at t) st = cancellation_context sha b r t st"
  by (simp add: cancellation_context_def cancelled_rollout_def cancelled_target_def cong del: option.case_cong_weak)

lemma cancellation_context_status: "cancellation_context sha b r t st = Inr x \<Longrightarrow> x_target_status x = st"
  by (auto simp: cancellation_context_def Let_def split: option.splits if_splits)

lemma replay_own_receipt:
  assumes "load_request codec (dump_request codec body) = Some body"
    and "load_response codec (dump_response codec (cancellation_response body at)) = Some (cancellation_response body at)"
    and ctx: "cancellation_context sha b r t (t_status t) = Inr (y_expected body)"
    and win: "recovery_window body at" and r: "cancellable_rollout r"
  shows "replay_cancellation codec sha b (cancelled_rollout at r) (cancelled_target at t)
     (receipt_event codec key body aid rid at r) body aid = Inr (cancellation_response body at)"
proof -
  have st: "x_target_status (y_expected body) = t_status t" by (rule cancellation_context_status [OF ctx])
  have same: "cancellation_context sha b (cancelled_rollout at r) (cancelled_target at t) (t_status t) = Inr (y_expected body)"
    by (simp add: cancellation_context_cancelled ctx)
  let ?d = "JObj (receipt_details codec body (cancellation_response body at))"
  have ev: "a_details (receipt_event codec key body aid rid at r) = ?d"
    by (simp add: receipt_event_def audit_def)
  have fields: "json_field ''request'' ?d = Some (dump_request codec body)"
      "json_field ''response'' ?d = Some (dump_response codec (cancellation_response body at))"
      "json_field ''version'' ?d = Some (JInt 1)" "json_field ''target_count'' ?d = Some (JInt 1)"
      "json_field ''prior_rollout_status'' ?d = Some (JStr ''paused'')"
      "json_field ''prior_target_status'' ?d = Some (JStr (target_status_text (t_status t)))"
      "fst ` set (receipt_details codec body (cancellation_response body at)) = receipt_keys"
    by (auto simp: json_field_def receipt_details_def receipt_keys_def st)
  have row: "r_cancelled_at (cancelled_rollout at r) = Some at" "r_status (cancelled_rollout at r) = RCancelled"
      "r_completed_at (cancelled_rollout at r) = None" "t_status (cancelled_target at t) = TCancelled"
      "t_terminal_at (cancelled_target at t) = Some at" "t_updated_at (cancelled_target at t) = Some at"
      "r_id (cancelled_rollout at r) = r_id r"
    using r by (simp_all add: cancelled_rollout_def cancelled_target_def cancellable_rollout_def)
  have attrs: "a_action (receipt_event codec key body aid rid at r) = ''updates.rollout_cancelled''"
      "a_actor_kind (receipt_event codec key body aid rid at r) = ''admin''"
      "a_actor_identifier (receipt_event codec key body aid rid at r) = Some aid"
      "a_object_kind (receipt_event codec key body aid rid at r) = ''update_rollout''"
      "a_object_identifier (receipt_event codec key body aid rid at r) = Some (uuid_text (r_id r))"
      "a_created_at (receipt_event codec key body aid rid at r) = at"
    by (simp_all add: receipt_event_def audit_def)
  show ?thesis
    by (simp add: replay_cancellation_def ev fields row attrs assms(1,2) win same st)
qed

lemma cancel_checks:
  assumes "cancel_paused_singleton_rollout codec sha key owned budget clock i body actor rid rv now db = Inr (db', resp)"
  shows "cancel_request_valid body" "x_rollout_id (y_expected body) = i" "actor_identifier actor = Inr (the actor)"
  using assms by (auto simp: cancel_paused_singleton_rollout_def actor_identifier_def Let_def split: if_splits option.splits)

lemma cancel_succeeds:
  assumes inv: "updates_inv db" and r: "r \<in> set (u_rollouts db)" and b: "b \<in> set (u_builds db)" "b_id b = r_build_id r"
    and t: "rollout_targets db (r_id r) = [t]" and first: "find (\<lambda>e. a_id e = Some (key (r_id r))) (u_audits db) = None"
    and ready: "cancellable_rollout r" "cancellation_ready sha db b r t body" "recovery_window body at"
    and valid: "cancel_request_valid body" "x_rollout_id (y_expected body) = r_id r"
    and args: "\<And>k. budget k" "actor_identifier actor = Inr aid" "identifier_text 127 rid" "timestamp clock now = Inr at"
    and kept: "redact (JObj (receipt_details codec body (cancellation_response body at)))
       = JObj (receipt_details codec body (cancellation_response body at))"
  shows "\<exists>db'. cancel_paused_singleton_rollout codec sha key True budget clock (r_id r) body actor rid True now db
     = Inr (db', cancellation_response body at)"
proof -
  have c: "updates_constraints db" using inv by (simp add: updates_inv_def)
  have tm: "t \<in> set (u_targets db)" using filter_singletonD t unfolding rollout_targets_def by fast
  have "updates_constraints (store_rollout (cancelled_rollout at r) a (store_target (cancelled_target at t) a db))" for a
    using c r tm by (intro constraints_store_rollout [of _ r] constraints_store_target [of _ t])
      (simp_all, simp add: cancelled_target_def)
  moreover have "\<not> blank rid" "\<not> blank ''admin''" "\<not> blank ''updates.rollout_cancelled''" "\<not> blank ''update_rollout''"
    using identifier_not_blank [OF args(3)] by (simp_all add: blank_Cons py_isspace_def)
  ultimately have "\<exists>db'. execute_cancellation codec key body aid rid at r t db = Inr (db', cancellation_response body at)"
    using ready(3) kept by (auto simp: execute_cancellation_def Let_def)
  moreover have "find_row r_id (r_id r) (u_rollouts db) = Some r" "find_row b_id (r_build_id r) (u_builds db) = Some b"
    using c r b find_row_key [of b_id "u_builds db" b]
    by (auto simp: updates_constraints_def rollout_constraints_def build_constraints_def find_row_key)
  ultimately show ?thesis
    using t first ready valid args by (auto simp: cancel_paused_singleton_rollout_def request_identifier_def)
qed

end
