(* ===== verification/Update_Contracts.thy ===== *)
theory Update_Contracts
  imports Update_Totality
begin

text \<open>
  The reasons stored with rollouts and targets fit the contract of a recommendation: they entered through the contract
  of a rollout and no request rewrites them. With the invariant on builds, a stored row can fail the contract of
  a recommendation by its URL alone.
\<close>

definition reasons_ok :: "updates_db \<Rightarrow> bool" where
  "reasons_ok db \<longleftrightarrow> list_all (\<lambda>r. reason_contract (r_reason r)) (u_rollouts db)
     \<and> list_all (\<lambda>t. reason_contract (t_safe_reason t)) (u_targets db)"

definition contract_inv :: "updates_db \<Rightarrow> bool" where
  "contract_inv db \<longleftrightarrow> updates_inv db \<and> reasons_ok db"

lemma reasons_store_rollout:
  "reasons_ok db \<Longrightarrow> r \<in> set (u_rollouts db) \<Longrightarrow> r_reason r' = r_reason r \<Longrightarrow> reasons_ok (store_rollout r' a db)"
  by (auto simp: reasons_ok_def list_all_iff in_set_store_row)

lemma reasons_store_target:
  "reasons_ok db \<Longrightarrow> t \<in> set (u_targets db) \<Longrightarrow> t_safe_reason t' = t_safe_reason t \<Longrightarrow> reasons_ok (store_target t' a db)"
  by (auto simp: reasons_ok_def list_all_iff in_set_store_row)

lemma reasons_create:
  assumes "reasons_ok db" "validate_rollout_input bld mode ds why = Inr (m, ids, why)"
    "create_active_rollout gen bld m ids why actor rid now db = Inr (db', r)"
  shows "reasons_ok db'"
proof -
  have "reason_contract why"
    using assms(2) by (auto simp: validate_rollout_input_def rollout_contract_valid_def reason_contract_def Let_def split: if_splits)
  moreover have "t_safe_reason t = why" if "t \<in> set (new_targets gen ids why now)" for t
    using that by (auto simp: new_targets_def new_target_def)
  ultimately show ?thesis
    using assms(1) create_active_rollout_Inr [OF assms(3)] by (auto simp: reasons_ok_def list_all_iff new_rollout_def)
qed

lemma reasons_report:
  assumes "reasons_ok db" "record_report gen clock dev oper q rid now rv db = Inr (db', p)"
  shows "reasons_ok db'"
proof (cases "db' = db")
  case False
  with record_report_Inr [OF assms(2)] obtain t r b at a where
      ctx: "locked_target_context db dev oper = Inr (t, r, b)"
      and db': "let db1 = reported_db p (reported_target q at t) a db in
                 if all_targets_terminal (rollout_targets db1 (r_id r))
                 then \<exists>a'. prefix a a' \<and> db' = store_rollout (completed_rollout at r) a' db1
                 else db' = db1" by metis
  let ?db = "reported_db p (reported_target q at t) a db"
  note rows = locked_target_context_Inr [OF ctx]
  have "reasons_ok (store_target (reported_target q at t) a db)"
    using rows by (intro reasons_store_target [OF assms(1), of t]) (simp_all add: reported_target_def)
  then have one: "reasons_ok ?db" by (simp add: reasons_ok_def reported_db_def)
  moreover have "reasons_ok (store_rollout (completed_rollout at r) a' ?db)" for a'
    using rows by (intro reasons_store_rollout [OF one, of r]) (simp_all add: reported_db_def completed_rollout_def)
  ultimately show ?thesis using db' by (auto simp: Let_def split: if_splits)
qed (use assms in simp)

lemma reasons_cancel:
  assumes "reasons_ok db"
    and "cancel_paused_singleton_rollout codec sha key owned budget clock i body actor rid rv now db = Inr (db', resp)"
  shows "reasons_ok db'"
proof (cases "db' = db")
  case False
  from cancel_Inr [OF assms(2)] False obtain r t at a where r: "r \<in> set (u_rollouts db)" and t: "rollout_targets db (r_id r) = [t]"
      and db': "db' = store_rollout (cancelled_rollout at r) a (store_target (cancelled_target at t) a db)" by metis
  have "t \<in> set (u_targets db)" using arg_cong [OF t, of set] by (auto simp: rollout_targets_def)
  then have "reasons_ok (store_target (cancelled_target at t) a db)"
    by (intro reasons_store_target [OF assms(1), of t]) (simp_all add: cancelled_target_def)
  then show ?thesis unfolding db' using r by (intro reasons_store_rollout [of _ r]) (simp_all add: cancelled_rollout_def)
qed (use assms in simp)

lemma reasons_ack: "reasons_ok db \<Longrightarrow> record_ack clock dev oper ack rid now rv db = Inr (db', t') \<Longrightarrow> reasons_ok db'"
  by (cases ack) (auto dest!: record_ack_Inr intro!: reasons_store_target)

lemma reasons_status:
  "reasons_ok db \<Longrightarrow> pause_rollout clock i actor rid now db = Inr (db', r') \<Longrightarrow> reasons_ok db'"
  "reasons_ok db \<Longrightarrow> activate_rollout clock i actor rid now db = Inr (db', r') \<Longrightarrow> reasons_ok db'"
  "reasons_ok db \<Longrightarrow> complete_rollout clock i actor rid now db = Inr (db', r') \<Longrightarrow> reasons_ok db'"
  by (auto dest!: pause_rollout_Inr activate_rollout_Inr complete_rollout_Inr intro!: reasons_store_rollout simp: completed_rollout_def)

lemma reasons_exec: "reasons_ok db \<Longrightarrow> update_exec c db = Inr db' \<Longrightarrow> reasons_ok db'"
proof (cases c)
  case (RegisterBuild)
  assume "reasons_ok db" "update_exec c db = Inr db'"
  with RegisterBuild show ?thesis by (auto dest!: register_build_Inr simp: reasons_ok_def)
next
  case (CreateRollout)
  assume "reasons_ok db" "update_exec c db = Inr db'"
  with CreateRollout show ?thesis by (auto dest!: create_rollout_Inr intro: reasons_create)
next
  case (CreateRollback)
  assume "reasons_ok db" "update_exec c db = Inr db'"
  with CreateRollback show ?thesis by (auto dest!: create_rollback_rollout_Inr intro: reasons_create)
next
  case (OtherServices ds insts)
  assume "reasons_ok db" "update_exec c db = Inr db'"
  with OtherServices show ?thesis by (auto simp: reasons_ok_def split: if_splits)
qed (auto dest: reasons_status reasons_ack reasons_report reasons_cancel)

interpretation update_contracts: transactional update_exec contract_inv
  by unfold_locales (auto simp: contract_inv_def intro: update_exec_inv reasons_exec)

lemma stored_reason_ok:
  assumes "reasons_ok db" "t \<in> set (u_targets db)" "r \<in> set (u_rollouts db)"
  shows "reason_contract (c_reason (recommendation_of t r b))"
  using assms by (auto simp: reasons_ok_def list_all_iff recommendation_of_def split: option.splits list.splits)

lemma stored_recommendation_valid:
  assumes "contract_inv db" "t \<in> set (u_targets db)" "r \<in> set (u_rollouts db)" "b \<in> set (u_builds db)"
  shows "recommendation_valid any_url (recommendation_of t r b) \<longleftrightarrow> artifact_url_valid any_url (b_artifact_url b)"
proof -
  have "build_ok b" using assms(1,4) by (simp add: contract_inv_def updates_inv_def row_defs)
  moreover have "reason_contract (c_reason (recommendation_of t r b))"
    by (rule stored_reason_ok) (use assms in \<open>simp_all add: contract_inv_def\<close>)
  ultimately show ?thesis by (auto simp: recommendation_valid_def recommendation_of_def build_ok_def)
qed

end
