(* ===== verification/Update_Scenario.thy ===== *)
theory Update_Scenario
  imports Update_Contracts
begin

text \<open>
  Concrete tables on which the witnesses of the update properties are evaluated: two builds of
  one platform, a completed canary rollout of the newer one with its report, and a bulk rollout
  of it under way on a second device, whose target has been scheduled.
\<close>

definition empty_updates :: updates_db where
  "empty_updates = \<lparr>u_builds = [], u_rollouts = [], u_targets = [], u_reports = [], u_devices = [],
     u_instances = [], u_audits = []\<rparr>"

lemma empty_updates_inv: "updates_inv empty_updates"
  by (simp add: updates_inv_def updates_constraints_def build_constraints_def rollout_constraints_def
      target_constraints_def report_constraints_def updates_rows_def empty_updates_def)

definition demo_build :: "uuid \<Rightarrow> string \<Rightarrow> string \<Rightarrow> build" where
  "demo_build i ident v = \<lparr>b_id = i, b_build_identifier = ident, b_version = v,
     b_minimum_launcher_version = None, b_platform = ''linux_amd64'', b_channel = ''stable'',
     b_artifact_identifier = ''a.tar.gz'', b_artifact_url = ''https://u.test/a'', b_artifact_name = ''a.tar.gz'',
     b_archive_type = ''tar.gz'', b_sha256_digest = replicate 64 CHR ''a'', b_size = 10, b_release_notes = None\<rparr>"

definition demo_canary :: rollout where
  "demo_canary = \<lparr>r_id = 30, r_rollout_identifier = ''ur_30'', r_build_id = 20, r_mode = Canary, r_reason = None,
     r_status = RCompleted, r_started_at = Some 10, r_paused_at = None, r_completed_at = Some 40,
     r_cancelled_at = None\<rparr>"

definition demo_bulk :: rollout where
  "demo_bulk = \<lparr>r_id = 50, r_rollout_identifier = ''ur_50'', r_build_id = 20, r_mode = Bulk, r_reason = None,
     r_status = RActive, r_started_at = Some 50, r_paused_at = None, r_completed_at = None,
     r_cancelled_at = None\<rparr>"

definition demo_applied :: target where
  "demo_applied = \<lparr>t_id = 31, t_rollout_id = 30, t_device_id = 1, t_target_identifier = ''ut_31'',
     t_operation_id = 32, t_status = TApplied, t_assigned_at = 10, t_requested_at = Some 20,
     t_scheduled_at = Some 30, t_terminal_at = Some 40, t_safe_reason = None, t_updated_at = Some 40\<rparr>"

definition demo_scheduled :: target where
  "demo_scheduled = \<lparr>t_id = 51, t_rollout_id = 50, t_device_id = 2, t_target_identifier = ''ut_51'',
     t_operation_id = 52, t_status = TScheduled, t_assigned_at = 50, t_requested_at = Some 60,
     t_scheduled_at = Some 70, t_terminal_at = None, t_safe_reason = None, t_updated_at = Some 70\<rparr>"

definition demo_report :: update_report where
  "demo_report = \<lparr>p_id = 33, p_update_target_id = 31, p_device_id = 1, p_report_identifier = ''upr_33'',
     p_report_key = ''k1'', p_reported_version = ''1.1.0'', p_status = TApplied, p_safe_code = None\<rparr>"

definition demo_db :: updates_db where
  "demo_db = \<lparr>u_builds = [demo_build 10 ''b1'' ''1.0.0'', demo_build 20 ''b2'' ''1.1.0''],
     u_rollouts = [demo_canary, demo_bulk], u_targets = [demo_applied, demo_scheduled],
     u_reports = [demo_report],
     u_devices = [\<lparr>d_id = 1, d_retired_at = None\<rparr>, \<lparr>d_id = 2, d_retired_at = None\<rparr>],
     u_instances = [], u_audits = []\<rparr>"

lemma demo_inv: "updates_inv demo_db"
  by code_simp

lemma demo_contract_inv: "contract_inv demo_db"
  by code_simp

section \<open>A rollout to cancel\<close>

definition demo_paused :: rollout where
  "demo_paused = \<lparr>r_id = 50, r_rollout_identifier = ''ur_50'', r_build_id = 20, r_mode = Canary, r_reason = None,
     r_status = RPaused, r_started_at = Some 50, r_paused_at = Some 75, r_completed_at = None,
     r_cancelled_at = None\<rparr>"

definition demo_paused_db :: updates_db where
  "demo_paused_db = demo_db\<lparr>u_rollouts := [demo_canary, demo_paused]\<rparr>"

lemma demo_paused_inv: "updates_inv demo_paused_db"
  by code_simp

fun status_of_text :: "string \<Rightarrow> target_status" where
  "status_of_text s = (if s = ''assigned'' then TAssigned else if s = ''requested'' then TRequested
     else if s = ''scheduled'' then TScheduled else if s = ''applied'' then TApplied
     else if s = ''failed'' then TFailed else if s = ''rolled_back'' then TRolledBack else TCancelled)"

fun jint :: "json \<Rightarrow> int" where
  "jint (JInt n) = n"
| "jint _ = 0"

fun jstr :: "json \<Rightarrow> string" where
  "jstr (JStr s) = s"
| "jstr _ = []"

fun jitems :: "json \<Rightarrow> json list" where
  "jitems (JList vs) = vs"
| "jitems _ = []"

definition load_demo_request :: "json \<Rightarrow> cancel_request option" where
  "load_demo_request v = (let w = jitems v; x = jitems (w ! 1) in
     Some \<lparr>y_cancellation_id = nat (jint (w ! 0)),
       y_expected = \<lparr>x_rollout_id = nat (jint (x ! 0)), x_rollout_identifier = jstr (x ! 1), x_paused_at = jint (x ! 2),
         x_build_id = nat (jint (x ! 3)), x_build_identifier = jstr (x ! 4), x_artifact_name = jstr (x ! 5),
         x_artifact_sha256 = jstr (x ! 6), x_target_id = nat (jint (x ! 7)), x_target_identifier = jstr (x ! 8),
         x_device_id = nat (jint (x ! 9)), x_operation_identity = jstr (x ! 10),
         x_target_status = status_of_text (jstr (x ! 11))\<rparr>,
       y_run_id = nat (jint (w ! 2)), y_evidence_sha256 = jstr (w ! 3), y_verified_at = jint (w ! 4)\<rparr>)"

definition load_demo_response :: "json \<Rightarrow> cancel_response option" where
  "load_demo_response v = (let w = jitems v in
     Some \<lparr>z_cancellation_id = nat (jint (w ! 0)), z_rollout_id = nat (jint (w ! 1)), z_rollout_identifier = jstr (w ! 2),
       z_build_id = nat (jint (w ! 3)), z_build_identifier = jstr (w ! 4), z_target_id = nat (jint (w ! 5)),
       z_target_identifier = jstr (w ! 6), z_device_id = nat (jint (w ! 7)), z_operation_identity = jstr (w ! 8),
       z_artifact_sha256 = jstr (w ! 9), z_cancelled_at = jint (w ! 10), z_terminal_at = jint (w ! 11)\<rparr>)"

text \<open>A codec that round-trips every request and response.\<close>

definition demo_codec :: cancel_codec where
  "demo_codec = \<lparr>
     dump_request = (\<lambda>y. let x = y_expected y in
       JList [JInt (int (y_cancellation_id y)),
         JList [JInt (int (x_rollout_id x)), JStr (x_rollout_identifier x), JInt (x_paused_at x), JInt (int (x_build_id x)),
           JStr (x_build_identifier x), JStr (x_artifact_name x), JStr (x_artifact_sha256 x), JInt (int (x_target_id x)),
           JStr (x_target_identifier x), JInt (int (x_device_id x)), JStr (x_operation_identity x),
           JStr (target_status_text (x_target_status x))],
         JInt (int (y_run_id y)), JStr (y_evidence_sha256 y), JInt (y_verified_at y)]),
     load_request = load_demo_request,
     dump_response = (\<lambda>z. JList [JInt (int (z_cancellation_id z)), JInt (int (z_rollout_id z)), JStr (z_rollout_identifier z),
       JInt (int (z_build_id z)), JStr (z_build_identifier z), JInt (int (z_target_id z)), JStr (z_target_identifier z),
       JInt (int (z_device_id z)), JStr (z_operation_identity z), JStr (z_artifact_sha256 z), JInt (z_cancelled_at z),
       JInt (z_terminal_at z)]),
     load_response = load_demo_response\<rparr>"

lemma status_of_text_inverse: "status_of_text (target_status_text s) = s"
  by (cases s) simp_all

lemma demo_codec_roundtrip:
  "load_request demo_codec (dump_request demo_codec y) = Some y"
  "load_response demo_codec (dump_response demo_codec z) = Some z"
  by (simp_all add: demo_codec_def load_demo_request_def load_demo_response_def Let_def status_of_text_inverse del: status_of_text.simps)

definition demo_cancel :: cancel_request where
  "demo_cancel = \<lparr>y_cancellation_id = 7, y_expected = \<lparr>x_rollout_id = 50, x_rollout_identifier = ''ur_50'', x_paused_at = 75,
       x_build_id = 20, x_build_identifier = ''b2'', x_artifact_name = ''a.tar.gz'', x_artifact_sha256 = replicate 64 CHR ''a'',
       x_target_id = 51, x_target_identifier = ''ut_51'', x_device_id = 2,
       x_operation_identity = replicate 64 CHR ''b'', x_target_status = TScheduled\<rparr>,
     y_run_id = 8, y_evidence_sha256 = replicate 64 CHR ''c'', y_verified_at = 80\<rparr>"

lemma demo_receipt_kept:
  "redact (JObj (receipt_details demo_codec demo_cancel (cancellation_response demo_cancel 90)))
   = JObj (receipt_details demo_codec demo_cancel (cancellation_response demo_cancel 90))"
proof -
  have keys: "\<not> is_sensitive_key ''version''" "\<not> is_sensitive_key ''request''" "\<not> is_sensitive_key ''response''"
      "\<not> is_sensitive_key ''prior_rollout_status''" "\<not> is_sensitive_key ''prior_target_status''"
      "\<not> is_sensitive_key ''target_count''"
    by code_simp+
  show ?thesis
    by (simp add: receipt_details_def keys demo_codec_def demo_cancel_def cancellation_response_def Let_def
        redact_no_space py_isspace_def list_all_iff del: redact_bearer_values.simps)
qed

end
