(* ===== verification/Update_Properties.thy ===== *)
theory Update_Properties
  imports Update_Scenario
begin

text \<open>
  The properties of the update control plane, over every history of requests and, for each
  operation, over every state the histories reach.
\<close>

section \<open>Histories\<close>

text \<open>C1. The check before an assignment decides exactly what the unique index on active targets needs. After any
  history, a list of distinct devices is refused as not found when one of them is not in service; otherwise it
  passes exactly when one new active target per device leaves every device with at most one active target, and is
  refused as a conflict when some device would get a second one: the index never has to decide.\<close>

theorem assignment_keeps_one_target:
  assumes "updates_inv db0" and "db = serve update_exec cs db0" and "distinct ids"
  shows "lock_assignable_devices db ids None =
    (if \<exists>d\<in>set ids. \<not> (\<exists>x\<in>set (u_devices db). d_id x = d \<and> d_retired_at x = None) then Inl UpdateNotFound
     else if distinct (map t_device_id (filter (\<lambda>t. t_status t \<in> {TAssigned, TRequested, TScheduled})
            (u_targets db @ new_targets gen ids reason now))) then Inr ()
     else Inl UpdateConflict)"
proof -
  have c: "updates_constraints db" using updates.serve_inv [OF assms(1), of cs] by (simp add: assms(2) updates_inv_def)
  note dev = updates_devices_distinct [OF c]
  let ?new = "new_targets gen ids reason now"
  have active: "(\<lambda>t. t_status t \<in> {TAssigned, TRequested, TScheduled}) = (\<lambda>t. active_target_status (t_status t))" by auto
  have "filter (\<lambda>t. active_target_status (t_status t)) ?new = ?new" using new_target_rows by (fastforce intro!: filter_True)
  then have index: "distinct (map t_device_id (filter (\<lambda>t. active_target_status (t_status t)) (u_targets db @ ?new)))
      \<longleftrightarrow> owning_targets db ids None = []"
    using c assms(3) new_target_columns(4) [of gen ids reason now]
    by (auto simp: updates_constraints_def target_constraints_def owning_targets_def filter_empty_conv simp del: active_target_status.simps)
  have "length (assignable_devices db ids) = length ids \<longleftrightarrow> (\<forall>d\<in>set ids. \<exists>x\<in>set (u_devices db). d_id x = d \<and> d_retired_at x = None)"
    by (rule assignable_all [OF dev assms(3)])
  then show ?thesis unfolding active index by (auto simp: lock_assignable_devices_def)
qed

theorem assignment_keeps_one_target_witness:
  "lock_assignable_devices (serve update_exec [] demo_db) [1] None = Inr ()
   \<and> lock_assignable_devices (serve update_exec [] demo_db) [2] None = Inl UpdateConflict
   \<and> lock_assignable_devices (serve update_exec [] demo_db) [3] None = Inl UpdateNotFound"
proof -
  note check = assignment_keeps_one_target [OF demo_inv refl, of _ "[]" "\<lambda>n. n" None 0]
  note rows = demo_db_def demo_applied_def demo_scheduled_def new_targets_def new_target_def
  show ?thesis using check [of "[1]"] check [of "[2]"] check [of "[3]"] by (simp add: rows)
qed

text \<open>C2. A bulk rollout only ever exists for a build that has a completed canary rollout.\<close>

theorem bulk_after_canary:
  assumes "updates_inv db" and "r \<in> set (u_rollouts (serve update_exec cs db))" and "r_mode r = Bulk"
  shows "\<exists>c\<in>set (u_rollouts (serve update_exec cs db)).
           r_build_id c = r_build_id r \<and> r_mode c = Canary \<and> r_status c = RCompleted"
  using updates.serve_inv [OF assms(1), of cs] assms(2,3)
  by (auto simp: updates_inv_def row_defs canary_first_def)

theorem bulk_after_canary_witness:
  "\<exists>c\<in>set (u_rollouts (serve update_exec [] demo_db)).
     r_build_id c = 20 \<and> r_mode c = Canary \<and> r_status c = RCompleted"
  using bulk_after_canary [OF demo_inv, of demo_bulk "[]"] by (simp add: demo_db_def demo_bulk_def)

text \<open>C3. A rollout is active or paused exactly as long as one of its targets is in progress, it is
  never left as a draft, and its completion and cancellation times are set exactly in those statuses.\<close>

theorem rollout_status_follows_targets:
  assumes "updates_inv db" and "r \<in> set (u_rollouts (serve update_exec cs db))"
  shows "(r_status r = RActive \<or> r_status r = RPaused)
           = (\<exists>t\<in>set (rollout_targets (serve update_exec cs db) (r_id r)). active_target_status (t_status t))
     \<and> r_status r \<noteq> RDraft
     \<and> (r_status r = RCompleted) = (r_completed_at r \<noteq> None)
     \<and> (r_status r = RCancelled) = (r_cancelled_at r \<noteq> None)"
proof -
  have inv: "updates_inv (serve update_exec cs db)" by (rule updates.serve_inv [OF assms(1)])
  then have "rollout_open (u_targets (serve update_exec cs db)) r" "rollout_times r"
    using assms(2) by (simp_all add: updates_inv_def row_defs)
  then show ?thesis
    by (auto simp: rollout_open_def rollout_times_def rollout_targets_def list_ex_iff)
qed

theorem rollout_status_follows_targets_witness:
  "\<exists>t\<in>set (rollout_targets (serve update_exec [] demo_db) 50). active_target_status (t_status t)"
  using rollout_status_follows_targets [OF demo_inv, of demo_bulk "[]"] by (simp add: demo_db_def demo_bulk_def)

text \<open>C4. A target is applied only on the strength of exactly one report on file, made by its own
  device, whose version is the version of the build that was rolled out.\<close>

theorem applied_means_reported:
  assumes "updates_inv db" and "t \<in> set (u_targets (serve update_exec cs db))" and "t_status t = TApplied"
  shows "\<exists>p r b. filter (\<lambda>p. p_update_target_id p = t_id t) (u_reports (serve update_exec cs db)) = [p]
     \<and> p_status p = TApplied \<and> p_device_id p = t_device_id t
     \<and> r \<in> set (u_rollouts (serve update_exec cs db)) \<and> r_id r = t_rollout_id t
     \<and> b \<in> set (u_builds (serve update_exec cs db)) \<and> b_id b = r_build_id r
     \<and> p_reported_version p = b_version b"
proof -
  let ?db = "serve update_exec cs db"
  have inv: "updates_inv ?db" by (rule updates.serve_inv [OF assms(1)])
  then have c: "updates_constraints ?db" by (simp add: updates_inv_def)
  have "target_reported (u_reports ?db) t" using inv assms(2) by (simp add: updates_inv_def row_defs)
  with assms(3) obtain p where p: "filter (\<lambda>p. p_update_target_id p = t_id t) (u_reports ?db) = [p]" "p_status p = TApplied"
    by (auto simp: target_reported_def)
  then have mem: "p \<in> set (u_reports ?db)" "p_update_target_id p = t_id t"
    using filter_singletonD [OF p(1)] by auto
  then have "report_truthful ?db p" using inv by (simp add: updates_inv_def row_defs)
  then obtain u where u: "u \<in> set (u_targets ?db)" "t_id u = p_update_target_id p" "t_device_id u = p_device_id p"
      and v: "\<exists>r\<in>set (u_rollouts ?db). r_id r = t_rollout_id u
        \<and> (\<exists>b\<in>set (u_builds ?db). b_id b = r_build_id r \<and> b_version b = p_reported_version p)"
    using p(2) by (auto simp: report_truthful_def list_ex_iff)
  have "u = t" using target_ids_unique [OF c u(1) assms(2)] u(2) mem(2) by simp
  with p u v show ?thesis by metis
qed

theorem applied_means_reported_witness:
  "\<exists>p r b. filter (\<lambda>p. p_update_target_id p = 31) (u_reports (serve update_exec [] demo_db)) = [p]
     \<and> p_status p = TApplied \<and> p_device_id p = 1
     \<and> r \<in> set (u_rollouts (serve update_exec [] demo_db)) \<and> r_id r = 30
     \<and> b \<in> set (u_builds (serve update_exec [] demo_db)) \<and> b_id b = r_build_id r
     \<and> p_reported_version p = b_version b"
proof -
  have "demo_applied \<in> set (u_targets (serve update_exec [] demo_db))" "t_status demo_applied = TApplied"
    by (simp_all add: demo_db_def demo_applied_def)
  from applied_means_reported [OF demo_inv this] show ?thesis by (simp add: demo_applied_def)
qed

text \<open>C5. Over any history a target keeps its identity, its status only moves along the status graph,
  and a terminal status is final.\<close>

theorem target_statuses_advance:
  assumes "updates_inv db" and "t \<in> set (u_targets db)"
  shows "\<exists>t'\<in>set (u_targets (serve update_exec cs db)). same_target_identity t t'
     \<and> target_step\<^sup>*\<^sup>* (t_status t) (t_status t')
     \<and> (terminal_target_status (t_status t) \<longrightarrow> t_status t' = t_status t)"
proof -
  from update_progress.serve_le [OF assms(1), of cs] assms(2)
  obtain t' where t': "t' \<in> set (u_targets (serve update_exec cs db))" "target_moved t t'"
    by (auto simp: progress_def)
  with target_life.final_path [of "t_status t" "t_status t'"] show ?thesis
    by (auto simp: target_moved_def simp del: terminal_target_status.simps)
qed

theorem target_statuses_advance_witness:
  "\<exists>t'\<in>set (u_targets (serve update_exec [PauseRollout 80 (Some 50) (Some ''admin'') ''q1'' None] demo_db)).
     same_target_identity demo_applied t' \<and> t_status t' = TApplied"
proof -
  have "demo_applied \<in> set (u_targets demo_db)" by (simp add: demo_db_def)
  moreover have "terminal_target_status (t_status demo_applied)" "t_status demo_applied = TApplied"
    by (simp_all add: demo_applied_def)
  ultimately show ?thesis using target_statuses_advance [OF demo_inv] by metis
qed

text \<open>C6. A report that was accepted once can be repeated after any history: it returns the same
  report and changes nothing.\<close>

theorem report_replays_forever:
  assumes "updates_inv db" and "record_report gen clock dev oper q rid now rv db = Inr (db', p)"
    and "rv' \<noteq> Some False"
  shows "record_report gen' clock' dev oper q rid' now' rv' (serve update_exec cs db')
     = Inr (serve update_exec cs db', p)"
proof -
  let ?db = "serve update_exec cs db'"
  have inv': "updates_inv db'" using assms by (auto intro: inv_report)
  have inv: "updates_inv ?db" by (rule updates.serve_inv [OF inv'])
  from report_context [OF assms(2,1)] obtain t where t: "t \<in> set (u_targets db')" "dev = Some (t_device_id t)"
      "oper = Some (t_operation_id t)" and p: "p \<in> set (u_reports db')" "p_update_target_id p = t_id t" "same_report p q"
      "checked_report q = Inr q"
    by (auto simp: checked_report_def split: if_splits)
  from update_progress.serve_le [OF inv', of cs] have prog: "progress db' ?db" .
  with t(1) obtain u where u: "u \<in> set (u_targets ?db)" "same_target_identity t u"
    by (auto simp: progress_def target_moved_def)
  from locked_target_context_found [OF inv u(1)] obtain r b where
    ctx: "locked_target_context ?db dev oper = Inr (u, r, b)"
    using t u(2) by (auto simp: same_target_identity_def)
  have pm: "p \<in> set (u_reports ?db)" using prog p(1) by (auto simp: progress_def dest: set_mono_prefix)
  have "distinct (map (\<lambda>p. (p_update_target_id p, p_report_key p)) (u_reports ?db))"
    using inv by (simp add: updates_inv_def updates_constraints_def report_constraints_def)
  then have "find (\<lambda>p. p_update_target_id p = t_id u \<and> p_report_key p = q_report_key q) (u_reports ?db) = Some p"
    using pm p u(2) by (intro find_unique) (auto simp: same_target_identity_def same_report_def dest: distinct_map_inj)
  with ctx p assms(3) show ?thesis
    by (simp add: record_report_def check_authorization_def ensure_def)
qed

theorem report_replays_forever_witness:
  "record_report (\<lambda>k. 70 + k) 900 (Some 1) (Some 32)
       \<lparr>q_report_key = ''k1'', q_status = ReportApplied, q_reported_version = ''1.1.0'', q_safe_code = None\<rparr>
       ''q9'' None None (serve update_exec [PauseRollout 80 (Some 50) (Some ''admin'') ''q1'' None] demo_db)
     = Inr (serve update_exec [PauseRollout 80 (Some 50) (Some ''admin'') ''q1'' None] demo_db, demo_report)"
proof -
  have "record_report (\<lambda>k. 90 + k) 80 (Some 1) (Some 32)
       \<lparr>q_report_key = ''k1'', q_status = ReportApplied, q_reported_version = ''1.1.0'', q_safe_code = None\<rparr>
       ''q8'' None None demo_db = Inr (demo_db, demo_report)" by code_simp
  from report_replays_forever [OF demo_inv this] show ?thesis by blast
qed

text \<open>The audit trail is append-only: the trail before any history is a prefix of the trail
  after it.\<close>

theorem audit_append_only:
  assumes "updates_inv db"
  shows "prefix (u_audits db) (u_audits (serve update_exec cs db))"
  by (rule updates.serve_le [OF assms])

theorem audit_append_only_witness:
  "prefix (u_audits demo_db) (u_audits (serve update_exec [PauseRollout 80 (Some 50) (Some ''admin'') ''q1'' None] demo_db))"
  by (rule audit_append_only [OF demo_inv])

section \<open>Operations\<close>

text \<open>C7. Creating a canary or bulk rollout with valid input, assignable devices and fresh
  identities succeeds: no table constraint can fail, and the new rollout is active with one assigned
  target per requested device, in the requested order.\<close>

theorem create_rollout_succeeds:
  assumes "updates_inv db" and "bld \<in> set (u_builds db)" and "mode \<noteq> ''rollback''"
    and "validate_rollout_input bld mode ds reason = Inr (m, ids, why)"
    and "mode = ''bulk'' \<longrightarrow> require_completed_canary db (b_id bld) = Inr ()"
    and "lock_assignable_devices db ids None = Inr ()"
    and "is_ok (actor_identifier actor)" and "is_ok (request_identifier rid)" and "is_ok (timestamp clock now)"
    and "fresh_uuids gen (3 * length ids + 2) db"
  shows "\<exists>db' r. create_rollout gen clock (Some (b_id bld)) mode ds reason actor rid now db = Inr (db', r)
     \<and> r_status r = RActive \<and> r_build_id r = b_id bld
     \<and> map t_device_id (rollout_targets db' (r_id r)) = ids
     \<and> list_all (\<lambda>t. t_status t = TAssigned) (rollout_targets db' (r_id r))"
proof -
  have c: "updates_constraints db" using assms(1) by (simp add: updates_inv_def)
  obtain aid at where act: "actor_identifier actor = Inr aid" and at: "timestamp clock now = Inr at"
    using assms(7,9) by (auto simp: is_ok_iff)
  have rid: "request_identifier rid = Inr rid" "identifier_text 127 rid"
    using assms(8) by (auto simp: request_identifier_def split: if_splits)
  have "distinct (map b_id (u_builds db))" using c by (simp add: updates_constraints_def build_constraints_def)
  then have b: "locked_build db (Some (b_id bld)) = Inr bld"
    using assms(2) by (simp add: locked_build_def as_uuid_def find_row_key)
  from create_active_succeeds [OF c assms(2) validate_rollout_input_Inr(2) [OF assms(4)] assms(6,10) rid(2)]
  obtain db' where db': "create_active_rollout gen bld m ids why aid rid at db = Inr (db', new_rollout gen bld m why at)"
      "u_targets db' = u_targets db @ new_targets gen ids why at" by blast
  have "gen 0 \<notin> r_id ` set (u_rollouts db)" using fresh_uuidsD(1) [OF assms(10)] by simp
  then have "filter (\<lambda>t. t_rollout_id t = gen 0) (u_targets db) = []"
    using target_parents(1) [OF c] unfolding filter_empty_conv by metis
  moreover have "filter (\<lambda>t. t_rollout_id t = gen 0) (new_targets gen ids why at) = new_targets gen ids why at"
    using new_target_rows by (auto intro!: filter_True)
  ultimately have "rollout_targets db' (gen 0) = new_targets gen ids why at"
    by (simp add: rollout_targets_def db'(2))
  with new_target_rows new_target_columns(4) [of gen ids why at] db'(1) assms(3-5) act at rid b show ?thesis
    by (auto simp: create_rollout_def new_rollout_def list_all_iff)
qed

lemma demo_fresh: "fresh_uuids (\<lambda>k. 60 + k) (3 * length [1::uuid] + 2) demo_db"
  by (simp add: fresh_uuids_def demo_db_def demo_canary_def demo_bulk_def demo_applied_def demo_scheduled_def
      wf_uuid_def uuid_hex_short upt_rec)

theorem create_rollout_succeeds_witness:
  "\<exists>db' r. create_rollout (\<lambda>k. 60 + k) 90 (Some (b_id (demo_build 20 ''b2'' ''1.1.0''))) ''bulk'' [Some 1] None (Some ''admin'') ''q1'' None demo_db = Inr (db', r)
     \<and> r_status r = RActive \<and> r_build_id r = b_id (demo_build 20 ''b2'' ''1.1.0'')
     \<and> map t_device_id (rollout_targets db' (r_id r)) = [1]
     \<and> list_all (\<lambda>t. t_status t = TAssigned) (rollout_targets db' (r_id r))"
proof (rule create_rollout_succeeds [OF demo_inv])
  show "validate_rollout_input (demo_build 20 ''b2'' ''1.1.0'') ''bulk'' [Some 1] None = Inr (Bulk, [1], None)"
    by code_simp
  show "fresh_uuids (\<lambda>k. 60 + k) (3 * length [1::uuid] + 2) demo_db" by (rule demo_fresh)
  show "lock_assignable_devices demo_db [1] None = Inr ()" by code_simp
  show "''bulk'' = ''bulk'' \<longrightarrow> require_completed_canary demo_db (b_id (demo_build 20 ''b2'' ''1.1.0'')) = Inr ()"
    by code_simp
qed (code_simp | simp add: demo_db_def)+


definition demo_url :: "string \<Rightarrow> url_view option" where
  "demo_url s = Some \<lparr>url_string = s, url_scheme = ''https'', url_hostname = Some ''u.test'', url_username = None, url_password = None,
     url_fragment = [], url_query = []\<rparr>"


text \<open>C9. A rollback rollout goes to a strictly older build of the same platform, only to devices
  whose target in the triggering rollout has ended, and starts active with assigned targets.\<close>

theorem rollback_strictly_older:
  assumes "updates_inv db"
    and "create_rollback_rollout gen clock trig bid ds reason actor rid now db = Inr (db', r)"
  shows "\<exists>trigger old new. trigger \<in> set (u_rollouts db) \<and> trig = Some (r_id trigger)
    \<and> old \<in> set (u_builds db) \<and> b_id old = r_build_id trigger
    \<and> new \<in> set (u_builds db) \<and> b_id new = r_build_id r \<and> b_platform new = b_platform old
    \<and> compare_semver (b_version new) (b_version old) = Some (-1)
    \<and> r_mode r = Rollback \<and> r_status r = RActive
    \<and> (\<forall>t\<in>set (u_targets db') - set (u_targets db). t_rollout_id t = r_id r \<and> t_status t = TAssigned
         \<and> (\<exists>s\<in>set (u_targets db). t_rollout_id s = r_id trigger \<and> t_device_id s = t_device_id t
              \<and> terminal_target_status (t_status s)))"
proof -
  from create_rollback_rollout_Inr [OF assms(2)] obtain trigger old new ids c s at where
      T: "trigger \<in> set (u_rollouts db)" "trig = Some (r_id trigger)"
        "old \<in> set (u_builds db)" "b_id old = r_build_id trigger" "new \<in> set (u_builds db)"
        "b_platform new = b_platform old" "compare_semver (b_version new) (b_version old) = Some c" "c < 0"
      and each: "\<forall>d\<in>set ids. \<exists>t\<in>set (u_targets db). t_rollout_id t = r_id trigger \<and> t_device_id t = d
          \<and> terminal_target_status (t_status t)"
      and mk: "create_active_rollout gen new Rollback ids (Some (rollback_reason (r_id trigger) s)) (the actor) rid at db
        = Inr (db', r)" by metis
  have "semver_pattern (b_version new)" "semver_pattern (b_version old)"
    using assms(1) T(3,5) by (auto simp: updates_inv_def row_defs build_ok_def SemanticVersionV1_def)
  with semver.cmp_total [of "b_version new" "b_version old"] T(7,8)
  have cmp: "compare_semver (b_version new) (b_version old) = Some (-1)" by auto
  from create_active_rollout_Inr [OF mk] have r: "r = new_rollout gen new Rollback (Some (rollback_reason (r_id trigger) s)) at"
      and ts: "u_targets db' = u_targets db @ new_targets gen ids (Some (rollback_reason (r_id trigger) s)) at" by auto
  have "t_rollout_id t = r_id r \<and> t_status t = TAssigned \<and> t_device_id t \<in> set ids"
    if "t \<in> set (new_targets gen ids why at)" for t why
    using that by (auto simp: new_targets_def new_target_def r new_rollout_def enumerate_eq_zip dest: set_zip_rightD)
  then have "\<forall>t\<in>set (u_targets db') - set (u_targets db). t_rollout_id t = r_id r \<and> t_status t = TAssigned
         \<and> (\<exists>s\<in>set (u_targets db). t_rollout_id s = r_id trigger \<and> t_device_id s = t_device_id t
              \<and> terminal_target_status (t_status s))"
    using each unfolding ts by fastforce
  moreover have "b_id new = r_build_id r" "r_mode r = Rollback" "r_status r = RActive"
    by (simp_all add: r new_rollout_def)
  ultimately show ?thesis using T(1-6) cmp by blast
qed

theorem rollback_strictly_older_witness:
  "\<exists>db' r. create_rollback_rollout (\<lambda>k. 60 + k) 90 (Some 30) (Some 10) [Some 1] (Some ''bad build'') (Some ''admin'') ''q1'' None demo_db
       = Inr (db', r) \<and> r_mode r = Rollback \<and> r_status r = RActive"
proof -
  let ?old = "demo_build 20 ''b2'' ''1.1.0''" and ?new = "demo_build 10 ''b1'' ''1.0.0''"
  let ?why = "Some (rollback_reason 30 ''bad build'')"
  have c: "updates_constraints demo_db" using demo_inv by (simp add: updates_inv_def)
  have new: "?new \<in> set (u_builds demo_db)" by (simp add: demo_db_def)
  have v: "validate_rollout_input ?new ''rollback'' [Some 1] ?why = Inr (Rollback, [1], ?why)" by code_simp
  have lock: "lock_assignable_devices demo_db [1] None = Inr ()" by code_simp
  obtain db' where mk: "create_active_rollout (\<lambda>k. 60 + k) ?new Rollback [1] ?why ''admin'' ''q1'' 90 demo_db
      = Inr (db', new_rollout (\<lambda>k. 60 + k) ?new Rollback ?why 90)"
    using create_active_succeeds [OF c new _ lock demo_fresh, of 127 "''q1''" Rollback ?why "''admin''" 90]
    by (auto simp: identifier_char_def ascii_alnum_def ascii_digit_def ascii_lower_def ascii_upper_def)
  have ok: "create_rollback_rollout (\<lambda>k. 60 + k) 90 (Some 30) (Some 10) [Some 1] (Some ''bad build'') (Some ''admin'') ''q1'' None demo_db
      = Inr (db', new_rollout (\<lambda>k. 60 + k) ?new Rollback ?why 90)"
  proof -
    have rows: "find_row r_id 30 (u_rollouts demo_db) = Some demo_canary" "find_row b_id 20 (u_builds demo_db) = Some ?old"
        "find_row b_id 10 (u_builds demo_db) = Some ?new" "r_build_id demo_canary = 20" "r_id demo_canary = 30"
        "r_status demo_canary = RCompleted" "b_id ?new = 10" "b_id ?old = 20" "b_platform ?new = b_platform ?old"
        "rollout_targets demo_db 30 = [demo_applied]" "t_device_id demo_applied = 1" "t_status demo_applied = TApplied"
      by (simp_all add: demo_db_def find_row_def demo_canary_def demo_build_def rollout_targets_def demo_applied_def
          demo_scheduled_def)
    have pre: "compare_semver (b_version ?new) (b_version ?old) = Some (-1)" "safe_reason (Some ''bad build'') True = Inr (Some ''bad build'')"
        "length (rollback_reason 30 ''bad build'') \<le> 512" "actor_identifier (Some ''admin'') = Inr ''admin''"
        "request_identifier ''q1'' = Inr ''q1''"
      by code_simp+
    show ?thesis
      by (simp add: create_rollback_rollout_def as_uuid_def rows pre v mk Let_def target_for_device_def not_less
          del: One_nat_def)
  qed
  from rollback_strictly_older [OF demo_inv ok] ok show ?thesis by blast
qed

text \<open>Pausing an active rollout and activating it again both succeed while its devices are in
  service, and restore every table but the audit trail.\<close>

theorem pause_activate_roundtrip:
  assumes "updates_inv db" and "r \<in> set (u_rollouts db)" and "r_status r = RActive"
    and "\<forall>t\<in>set (rollout_targets db (r_id r)). \<exists>d\<in>set (u_devices db). d_id d = t_device_id t \<and> d_retired_at d = None"
    and "is_ok (actor_identifier actor)" and "is_ok (request_identifier rid)" and "is_ok (timestamp clock now)"
    and "is_ok (actor_identifier actor')" and "is_ok (request_identifier rid')" and "is_ok (timestamp clock' now')"
  shows "\<exists>db1 r1 a. pause_rollout clock (Some (r_id r)) actor rid now db = Inr (db1, r1) \<and> r_status r1 = RPaused
     \<and> activate_rollout clock' (Some (r_id r)) actor' rid' now' db1 = Inr (db\<lparr>u_audits := a\<rparr>, r)"
proof -
  have "updates_constraints db" using assms(1) by (simp add: updates_inv_def)
  from pause_succeeds [OF this assms(2,3,5-7)] obtain db1 r1 where
    p: "pause_rollout clock (Some (r_id r)) actor rid now db = Inr (db1, r1)" "r_status r1 = RPaused" by blast
  from activate_after_pause [OF assms(1-3) p(1) assms(4,8-10)] p show ?thesis by blast
qed

theorem pause_activate_roundtrip_witness:
  "\<exists>db1 r1 a. pause_rollout 80 (Some (r_id demo_bulk)) (Some ''admin'') ''q1'' None demo_db = Inr (db1, r1) \<and> r_status r1 = RPaused
     \<and> activate_rollout 90 (Some (r_id demo_bulk)) (Some ''admin'') ''q2'' None db1 = Inr (demo_db\<lparr>u_audits := a\<rparr>, demo_bulk)"
proof (rule pause_activate_roundtrip [OF demo_inv])
  show "\<forall>t\<in>set (rollout_targets demo_db (r_id demo_bulk)). \<exists>d\<in>set (u_devices demo_db). d_id d = t_device_id t \<and> d_retired_at d = None"
    by (simp add: demo_db_def rollout_targets_def demo_bulk_def demo_applied_def demo_scheduled_def)
qed (simp add: demo_db_def | simp add: demo_bulk_def | code_simp)+

text \<open>Completing an active or paused rollout by hand is always refused: such a rollout still has
  a target in progress, because the last report completes it.\<close>

theorem complete_rollout_never_first:
  assumes "updates_inv db" and "r \<in> set (u_rollouts (serve update_exec cs db))"
    and "r_status r = RActive \<or> r_status r = RPaused"
  shows "complete_rollout clock (Some (r_id r)) actor rid now (serve update_exec cs db) = Inl UpdateStateError"
proof -
  let ?db = "serve update_exec cs db"
  have inv: "updates_inv ?db" by (rule updates.serve_inv [OF assms(1)])
  then have "find_row r_id (r_id r) (u_rollouts ?db) = Some r"
    using assms(2) by (intro find_row_key inv_rollout_ids)
  moreover have "\<not> all_targets_terminal (rollout_targets ?db (r_id r))"
    using inv assms all_terminal_not_open [of ?db "r_id r"]
    by (auto simp: updates_inv_def list_all_iff rollout_open_def)
  ultimately show ?thesis
    using assms(3) by (auto simp: complete_rollout_def locked_rollout_def as_uuid_def Let_def)
qed

theorem complete_rollout_never_first_witness:
  "complete_rollout 80 (Some 50) (Some ''admin'') ''q1'' None (serve update_exec [] demo_db) = Inl UpdateStateError"
proof -
  have "demo_bulk \<in> set (u_rollouts (serve update_exec [] demo_db))" "r_status demo_bulk = RActive \<or> r_status demo_bulk = RPaused"
    by (simp_all add: demo_db_def demo_bulk_def)
  from complete_rollout_never_first [OF demo_inv this] show ?thesis by (simp add: demo_bulk_def)
qed

text \<open>C10. No request surfaces a database \<open>IntegrityError\<close>: operations on existing rows keep every
  constraint, creations report a conflict instead, and a report, whose rows are flushed where the error would not be
  translated, meets every constraint as long as the two identifiers it draws are not on file.\<close>

theorem no_integrity_error:
  assumes "updates_inv db"
    and "\<And>gen clock dev oper q rid now rv. c = RecordReport gen clock dev oper q rid now rv \<Longrightarrow>
      gen 0 \<notin> set (map p_id (u_reports db)) \<and> ''upr_'' @ uuid_hex (gen 1) \<notin> set (map p_report_identifier (u_reports db))"
  shows "(\<exists>ds insts. c = OtherServices ds insts) \<or> update_exec c db \<noteq> Inl IntegrityError"
proof -
  have c: "updates_constraints db" using assms(1) by (simp add: updates_inv_def)
  have drop: "dropped x \<noteq> Inl IntegrityError" if "x \<noteq> Inl IntegrityError" for x :: "update_error + updates_db \<times> 'a"
    using that by (auto simp: dropped_def bindE_Inl_iff)
  show ?thesis
    using inserting_no_integrity c pause_no_integrity [OF c] activate_no_integrity [OF c] complete_no_integrity [OF c]
      ack_no_integrity [OF c] cancel_no_integrity [OF c] report_no_integrity [OF c] assms(2)
    by (cases c) (simp_all add: drop)
qed

theorem no_integrity_error_witness:
  "update_exec (RecordReport (\<lambda>n. 900 + n) 80 (Some 2) (Some 52) \<lparr>q_report_key = ''k1'', q_status = ReportApplied, q_reported_version = ''1.1.0'',
     q_safe_code = None\<rparr> ''q1'' None None) demo_db \<noteq> Inl IntegrityError"
proof -
  have "900 + 0 \<notin> set (map p_id (u_reports demo_db)) \<and> ''upr_'' @ uuid_hex (900 + 1) \<notin> set (map p_report_identifier (u_reports demo_db))"
    by code_simp
  then show ?thesis
    using no_integrity_error [OF demo_inv, of "RecordReport (\<lambda>n. 900 + n) 80 (Some 2) (Some 52) \<lparr>q_report_key = ''k1'', q_status = ReportApplied,
      q_reported_version = ''1.1.0'', q_safe_code = None\<rparr> ''q1'' None None"] by auto
qed

text \<open>A cancellation that committed can be repeated: the receipt on file answers with the same
  response and nothing changes, provided the receipt's JSON round-trips.\<close>

theorem cancellation_replays:
  assumes inv: "updates_inv db"
    and codec: "load_request codec (dump_request codec body) = Some body"
      "load_response codec (dump_response codec resp) = Some resp"
    and first: "find (\<lambda>e. a_id e = Some (key i)) (u_audits db) = None"
    and ok: "cancel_paused_singleton_rollout codec sha key owned budget clock i body actor rid rv now db = Inr (db', resp)"
    and again: "budget' 0" "budget' 1" "is_ok (request_identifier rid')"
  shows "cancel_paused_singleton_rollout codec sha key True budget' clock' i body actor rid' True now' db' = Inr (db', resp)"
proof -
  from cancel_Inr [OF ok] first obtain r b t at a where r: "r \<in> set (u_rollouts db)" "r_id r = i" "cancellable_rollout r"
      and b: "b \<in> set (u_builds db)" "b_id b = r_build_id r" and t: "rollout_targets db (r_id r) = [t]"
      and ready: "cancellation_ready sha db b r t body" and win: "recovery_window body at"
      and resp: "resp = cancellation_response body at"
      and a: "a = u_audits db @ [receipt_event codec key body (the actor) rid at r]"
      and db': "db' = store_rollout (cancelled_rollout at r) a (store_target (cancelled_target at t) a db)"
      and c': "updates_constraints db'"
    unfolding find_None_iff by metis
  have c: "updates_constraints db" using inv by (simp add: updates_inv_def)
  have tm: "t \<in> set (u_targets db)" using filter_singletonD t unfolding rollout_targets_def by fast
  have found: "find_row r_id i (u_rollouts db') = Some (cancelled_rollout at r)"
    using r by (auto simp: db' row_simps cancelled_rollout_def)
  have "distinct (map b_id (u_builds db))" using c by (simp add: updates_constraints_def build_constraints_def)
  then have bld: "find_row b_id (r_build_id (cancelled_rollout at r)) (u_builds db') = Some b"
    using b by (auto simp: db' find_row_unique cancelled_rollout_def)
  have one: "rollout_targets db' (r_id (cancelled_rollout at r)) = [cancelled_target at t]"
  proof -
    have "P u = P (cancelled_target at t)" if "u \<in> set (u_targets db)" "t_id u = t_id (cancelled_target at t)"
        "P = (\<lambda>t. t_rollout_id t = r_id r)" for u P
      using that target_ids_unique [OF c _ tm] by (auto simp: cancelled_target_def)
    then show ?thesis
      using t by (simp add: db' rollout_targets_def filter_store_row cancelled_rollout_def)
        (simp add: store_row_def cancelled_target_def)
  qed
  have rcpt: "find (\<lambda>e. a_id e = Some (key (r_id (cancelled_rollout at r)))) (u_audits db')
      = Some (receipt_event codec key body (the actor) rid at r)"
    using first r(2) by (simp add: db' a cancelled_rollout_def find_append receipt_event_def)
  have ctx: "cancellation_context sha b r t (t_status t) = Inr (y_expected body)"
    using ready by (simp add: cancellation_ready_def)
  note replay = replay_own_receipt [OF codec(1) codec(2) [unfolded resp] ctx win r(3), of key "the actor" rid]
  have rid': "request_identifier rid' = Inr rid'"
    using again(3) by (auto simp: request_identifier_def split: if_splits)
  show ?thesis
    using cancel_checks [OF ok] again rid' found bld one rcpt replay resp
    by (simp add: cancel_paused_singleton_rollout_def)
qed

theorem cancellation_replays_witness:
  "\<exists>db' resp. cancel_paused_singleton_rollout demo_codec (\<lambda>_. replicate 64 CHR ''b'') id True (\<lambda>_. True) 90 50 demo_cancel
       (Some ''admin'') ''q1'' True None demo_paused_db = Inr (db', resp)
     \<and> cancel_paused_singleton_rollout demo_codec (\<lambda>_. replicate 64 CHR ''b'') id True (\<lambda>_. True) 99 50 demo_cancel
       (Some ''admin'') ''q2'' True None db' = Inr (db', resp)"
proof -
  let ?sha = "\<lambda>_ :: string. replicate 64 CHR ''b''"
  have row: "r_id demo_paused = 50" by (simp add: demo_paused_def)
  have "\<exists>db'. cancel_paused_singleton_rollout demo_codec ?sha id True (\<lambda>_. True) 90 (r_id demo_paused) demo_cancel
      (Some ''admin'') ''q1'' True None demo_paused_db = Inr (db', cancellation_response demo_cancel 90)"
  proof (rule cancel_succeeds [OF demo_paused_inv, of _ "demo_build 20 ''b2'' ''1.1.0''" demo_scheduled _ _ _ _ _ _ "''admin''"])
    show "cancellation_ready ?sha demo_paused_db (demo_build 20 ''b2'' ''1.1.0'') demo_paused demo_scheduled demo_cancel"
      by code_simp
    show "rollout_targets demo_paused_db (r_id demo_paused) = [demo_scheduled]"
      by (simp add: demo_paused_db_def demo_db_def rollout_targets_def demo_paused_def demo_applied_def demo_scheduled_def)
    show "demo_paused \<in> set (u_rollouts demo_paused_db)" "demo_build 20 ''b2'' ''1.1.0'' \<in> set (u_builds demo_paused_db)"
      "b_id (demo_build 20 ''b2'' ''1.1.0'') = r_build_id demo_paused"
      by (simp_all add: demo_paused_db_def demo_db_def demo_paused_def demo_build_def)
    show "find (\<lambda>e. a_id e = Some (id (r_id demo_paused))) (u_audits demo_paused_db) = None"
      by (simp add: demo_paused_db_def demo_db_def)
  qed (simp | rule demo_receipt_kept | code_simp)+
  then obtain db' where run: "cancel_paused_singleton_rollout demo_codec ?sha id True (\<lambda>_. True) 90 50 demo_cancel
      (Some ''admin'') ''q1'' True None demo_paused_db = Inr (db', cancellation_response demo_cancel 90)"
    unfolding row by blast
  have "find (\<lambda>e. a_id e = Some (id 50)) (u_audits demo_paused_db) = None"
    by (simp add: demo_paused_db_def demo_db_def)
  moreover have "is_ok (request_identifier ''q2'')" by code_simp
  ultimately show ?thesis
    using cancellation_replays [OF demo_paused_inv demo_codec_roundtrip _ run, of "\<lambda>_. True" "''q2''" 99 None] run by blast
qed

end
