(* ===== verification/Plane_Model.thy ===== *)
theory Plane_Model
  imports Audit_Trail Interfaces "HOL-Library.Product_Lexorder"
begin

text \<open>
  The tables shared by the Endpoint operations (\<open>endpoint_server/operations\<close>), the Device Context
  collections (\<open>endpoint_server/context\<close>) and the command gateway (\<open>endpoint_server/gateway\<close>):
  \<open>db/models/operations.py\<close>, \<open>db/models/commands.py\<close>, \<open>context/models.py\<close> and the columns of
  \<open>db/models\<close> that the services read, with their constraints.
\<close>

section \<open>Rows\<close>

datatype work_status =
    Queued | Delivered | Acknowledged | Running | Succeeded | Failed | Canceled | Expired

fun terminal_work :: "work_status \<Rightarrow> bool" where
  "terminal_work s = (s = Succeeded \<or> s = Failed \<or> s = Canceled \<or> s = Expired)"

datatype collection_status =
    CRequested | CQueued | CDelivered | CCollecting | CResultReceived | CValidated
  | CCompleted | CFailed | CExpired

record service_client =
  sc_id :: uuid
  sc_client_identifier :: string
  sc_disabled_at :: "instant option"

record device =
  dv_id :: uuid
  dv_retired_at :: "instant option"

record operation =
  o_id :: uuid
  o_created_at :: instant
  o_client_id :: uuid
  o_device_id :: uuid
  o_idempotency_key :: string
  o_capability :: string
  o_parameters :: json
  o_correlation :: "json option"
  o_status :: work_status
  o_deadline_at :: instant
  o_completed_at :: "instant option"
  o_error_code :: "string option"
  o_collection_id :: "uuid option"
  o_command_id :: "uuid option"
  o_module_version_id :: "uuid option"
  o_module_inputs :: "json option"
  o_expected_step_count :: "int option"

record collection =
  k_id :: uuid
  k_created_at :: instant
  k_device_id :: uuid
  k_profile :: string
  k_requested_by :: string
  k_idempotency_key :: string
  k_command_id :: "uuid option"
  k_command_result_id :: "uuid option"
  k_operation_id :: "uuid option"
  k_status :: collection_status
  k_requested_at :: instant
  k_result_received_at :: "instant option"
  k_validated_at :: "instant option"
  k_completed_at :: "instant option"
  k_failed_at :: "instant option"
  k_expires_at :: "instant option"
  k_failure_code :: "string option"
  k_raw_result_payload :: "json option"

record module_step =
  s_id :: uuid
  s_operation_id :: uuid
  s_sequence :: int
  s_recipe_step_key :: string
  s_capability :: string
  s_status :: work_status
  s_command_id :: "uuid option"
  s_safe_result :: "json option"
  s_error_code :: "string option"
  s_started_at :: "instant option"
  s_completed_at :: "instant option"

record command =
  cm_id :: uuid
  cm_created_at :: instant
  cm_identifier :: string
  cm_device_id :: uuid
  cm_kind :: string
  cm_status :: work_status
  cm_expires_at :: "instant option"

record delivery =
  dl_id :: uuid
  dl_command_id :: uuid
  dl_session_id :: "uuid option"
  dl_identifier :: string
  dl_status :: work_status
  dl_acknowledged_at :: "instant option"

record command_result =
  rs_id :: uuid
  rs_command_id :: uuid
  rs_delivery_id :: "uuid option"
  rs_identifier :: string
  rs_status :: work_status
  rs_completed_at :: "instant option"
  rs_sequence :: "int option"
  rs_digest :: "string option"

record gateway_session =
  gs_id :: uuid
  gs_device_id :: uuid
  gs_instance_id :: uuid
  gs_closed_at :: "instant option"

record gateway_instance =
  gi_id :: uuid
  gi_device_id :: uuid
  gi_last_result_sequence :: int

record evidence =
  ev_id :: uuid
  ev_operation_id :: uuid
  ev_result_kind :: string
  ev_safe_payload :: "json option"
  ev_sha256 :: string
  ev_created_at :: instant
  ev_expires_at :: "instant option"
  ev_pinned_at :: "instant option"
  ev_pinned_by_kind :: "string option"
  ev_pinned_by :: "string option"
  ev_pin_reason :: "string option"
  ev_scrubbed_at :: "instant option"

record module_definition =
  md_id :: uuid
  md_module_key :: string
  md_display_name :: string

record module_version =
  mv_id :: uuid
  mv_definition_id :: uuid
  mv_version :: string
  mv_state :: string
  mv_recipe :: json

record validation_run =
  vr_version_id :: uuid
  vr_validator :: string
  vr_status :: string
  vr_error_codes :: "string list"
  vr_completed_at :: instant

record live_test =
  lt_version_id :: uuid
  lt_platform :: string
  lt_device_id :: uuid
  lt_operation_id :: uuid
  lt_status :: string
  lt_snapshot :: json
  lt_tested_at :: instant

record plane_db =
  g_clients :: "service_client list"
  g_devices :: "device list"
  g_operations :: "operation list"
  g_collections :: "collection list"
  g_steps :: "module_step list"
  g_commands :: "command list"
  g_deliveries :: "delivery list"
  g_results :: "command_result list"
  g_sessions :: "gateway_session list"
  g_instances :: "gateway_instance list"
  g_evidence :: "evidence list"
  g_definitions :: "module_definition list"
  g_versions :: "module_version list"
  g_validation_runs :: "validation_run list"
  g_live_tests :: "live_test list"
  g_audits :: "audit_event list"

section \<open>Table constraints\<close>

definition module_shape :: "operation \<Rightarrow> bool" where
  "module_shape p \<longleftrightarrow>
     (o_capability p = ''context.diagnostic.collect'' \<and> o_module_version_id p = None \<and> o_module_inputs p = None)
     \<or> (o_capability p = ''endpoint.module.recipe'' \<and> o_module_version_id p \<noteq> None \<and> o_module_inputs p \<noteq> None)"

definition operation_row_ok :: "operation \<Rightarrow> bool" where
  "operation_row_ok p \<longleftrightarrow>
     module_shape p \<and> o_created_at p < o_deadline_at p
     \<and> (case o_expected_step_count p of None \<Rightarrow> True | Some n \<Rightarrow> 1 \<le> n \<and> n \<le> 8)
     \<and> (terminal_work (o_status p) \<longleftrightarrow> o_completed_at p \<noteq> None)"

definition operations_constraints :: "plane_db \<Rightarrow> bool" where
  "operations_constraints db \<longleftrightarrow>
     distinct (map o_id (g_operations db))
     \<and> distinct (map (\<lambda>p. (o_client_id p, o_idempotency_key p)) (g_operations db))
     \<and> unique_nullable o_collection_id (g_operations db)
     \<and> unique_nullable o_command_id (g_operations db)
     \<and> list_all operation_row_ok (g_operations db)"

text \<open>The pair of deferred foreign keys between operations and collections.\<close>

definition identity_constraints :: "plane_db \<Rightarrow> bool" where
  "identity_constraints db \<longleftrightarrow>
     list_all (\<lambda>p. case o_collection_id p of None \<Rightarrow> True
        | Some i \<Rightarrow> list_ex (\<lambda>k. k_id k = i \<and> k_operation_id k = Some (o_id p)) (g_collections db)) (g_operations db)
     \<and> list_all (\<lambda>k. case k_operation_id k of None \<Rightarrow> True
        | Some i \<Rightarrow> list_ex (\<lambda>p. o_id p = i \<and> o_collection_id p = Some (k_id k)) (g_operations db)) (g_collections db)"

definition collections_constraints :: "plane_db \<Rightarrow> bool" where
  "collections_constraints db \<longleftrightarrow>
     distinct (map k_id (g_collections db))
     \<and> distinct (map (\<lambda>k. (k_device_id k, k_profile k, k_requested_by k, k_idempotency_key k)) (g_collections db))
     \<and> unique_nullable k_command_id (g_collections db)
     \<and> unique_nullable k_command_result_id (g_collections db)
     \<and> unique_nullable k_operation_id (g_collections db)"

text \<open>The names of \<open>MODULE_CAPABILITY_REGISTRY\<close>, which the check constraint of the steps lists.\<close>

definition module_step_capabilities :: "string list" where
  "module_step_capabilities =
     [''dns.resolve'', ''network.ping'', ''tcp.connect'', ''route.get'', ''adapter.list'', ''system.service_status'',
      ''system.resource_snapshot'', ''process.list'', ''process.find'', ''service.list'', ''service.status'',
      ''printer.list'', ''printer.status'', ''printer.queue.summary'', ''software.list'', ''software.find'',
      ''filesystem.free_space'', ''filesystem.path_exists'', ''filesystem.file_metadata'', ''eventlog.query'',
      ''eventlog.recent_errors'']"

definition steps_constraints :: "plane_db \<Rightarrow> bool" where
  "steps_constraints db \<longleftrightarrow>
     distinct (map s_id (g_steps db))
     \<and> distinct (map (\<lambda>s. (s_operation_id s, s_sequence s)) (g_steps db))
     \<and> distinct (map (\<lambda>s. (s_operation_id s, s_recipe_step_key s)) (g_steps db))
     \<and> unique_nullable s_command_id (g_steps db)
     \<and> list_all (\<lambda>s. 0 \<le> s_sequence s \<and> s_capability s \<in> set module_step_capabilities
          \<and> (terminal_work (s_status s) \<longleftrightarrow> s_completed_at s \<noteq> None)) (g_steps db)"

definition commands_constraints :: "plane_db \<Rightarrow> bool" where
  "commands_constraints db \<longleftrightarrow>
     distinct (map cm_id (g_commands db)) \<and> distinct (map cm_identifier (g_commands db))
     \<and> distinct (map dl_id (g_deliveries db)) \<and> distinct (map dl_identifier (g_deliveries db))
     \<and> distinct (map rs_id (g_results db)) \<and> distinct (map rs_identifier (g_results db))
     \<and> list_all (\<lambda>r. case rs_sequence r of None \<Rightarrow> True | Some n \<Rightarrow> 0 \<le> n) (g_results db)"

definition evidence_constraints :: "plane_db \<Rightarrow> bool" where
  "evidence_constraints db \<longleftrightarrow>
     distinct (map ev_id (g_evidence db)) \<and> distinct (map ev_operation_id (g_evidence db))
     \<and> list_all (\<lambda>e. ev_pinned_at e = None \<or> ev_expires_at e = None) (g_evidence db)"

definition plane_constraints :: "plane_db \<Rightarrow> bool" where
  "plane_constraints db \<longleftrightarrow>
     operations_constraints db \<and> identity_constraints db \<and> collections_constraints db
     \<and> steps_constraints db \<and> commands_constraints db \<and> evidence_constraints db"

definition flush_plane :: "'e \<Rightarrow> plane_db \<Rightarrow> 'e + plane_db" where
  "flush_plane integrity_error db = (if plane_constraints db then Inr db else Inl integrity_error)"

lemma flush_plane_Inr_iff [simp]: "flush_plane e db = Inr db' \<longleftrightarrow> plane_constraints db \<and> db' = db"
  by (auto simp: flush_plane_def)

section \<open>Write-backs\<close>

definition store_operation :: "operation \<Rightarrow> plane_db \<Rightarrow> plane_db" where
  "store_operation p db = db\<lparr>g_operations := store_row o_id p (g_operations db)\<rparr>"

definition store_collection :: "collection \<Rightarrow> plane_db \<Rightarrow> plane_db" where
  "store_collection k db = db\<lparr>g_collections := store_row k_id k (g_collections db)\<rparr>"

definition store_step :: "module_step \<Rightarrow> plane_db \<Rightarrow> plane_db" where
  "store_step s db = db\<lparr>g_steps := store_row s_id s (g_steps db)\<rparr>"

definition store_command :: "command \<Rightarrow> plane_db \<Rightarrow> plane_db" where
  "store_command c db = db\<lparr>g_commands := store_row cm_id c (g_commands db)\<rparr>"

definition store_delivery :: "delivery \<Rightarrow> plane_db \<Rightarrow> plane_db" where
  "store_delivery d db = db\<lparr>g_deliveries := store_row dl_id d (g_deliveries db)\<rparr>"

definition store_evidence :: "evidence \<Rightarrow> plane_db \<Rightarrow> plane_db" where
  "store_evidence e db = db\<lparr>g_evidence := store_row ev_id e (g_evidence db)\<rparr>"

lemmas store_defs = store_operation_def store_collection_def store_step_def store_command_def
  store_delivery_def store_evidence_def

end
