(* ===== verification/Operations.thy ===== *)
theory Operations
  imports Plane_Model
begin

text \<open>
  \<open>endpoint_server/operations/service.py\<close> and \<open>evidence.py\<close>: creating, reading, cancelling and
  expiring Endpoint operations, and the retention, pinning and scrubbing of their results.

  \<open>gen\<close> gives the values of the successive \<open>uuid4()\<close> calls, \<open>clock\<close> the value of
  \<open>datetime.now(UTC)\<close>; a row handed over by the caller is a row of the tables.
\<close>

section \<open>Input checks\<close>

datatype operation_error =
    OperationConflict string
  | OperationNotFound string
  | OperationValidationError
  | UnsupportedOperationCapability
  | EvidenceConflict
  | EvidenceValueError
  | OpIntegrityError

definition operation_uuid :: "uuid option \<Rightarrow> operation_error + uuid" where
  "operation_uuid value = require OperationValidationError value"

fun operation_now :: "instant \<Rightarrow> moment option \<Rightarrow> operation_error + instant" where
  "operation_now clock None = Inr clock"
| "operation_now clock (Some (Aware t)) = Inr t"
| "operation_now clock (Some (Naive t)) = Inl OperationValidationError"

definition idempotency_key :: "string \<Rightarrow> operation_error + string" where
  "idempotency_key value =
     (if 8 \<le> length value \<and> length value \<le> 128 \<and> value = py_strip value \<and> list_all py_isprintable value
      then Inr value else Inl OperationValidationError)"

text \<open>\<open>EndpointOperationCreateV1\<close>: a capability and the parameters of a diagnostic collection.\<close>

record operation_create =
  oc_capability :: string
  oc_reason :: string

definition normalized_request :: "operation_create \<Rightarrow> string \<times> json" where
  "normalized_request request = (oc_capability request, JObj [(''reason'', JStr (oc_reason request))])"

definition capability_profiles :: "(string \<times> string) list" where
  "capability_profiles = [(''context.diagnostic.collect'', ''diagnostic_v1'')]"

definition profile_for_capability :: "string \<Rightarrow> operation_error + string" where
  "profile_for_capability capability =
     require UnsupportedOperationCapability (map_of capability_profiles capability)"

definition operation_ttl :: int where
  "operation_ttl = minutes 15"

fun work_text :: "work_status \<Rightarrow> string" where
  "work_text Queued = ''queued''"
| "work_text Delivered = ''delivered''"
| "work_text Acknowledged = ''acknowledged''"
| "work_text Running = ''running''"
| "work_text Succeeded = ''succeeded''"
| "work_text Failed = ''failed''"
| "work_text Canceled = ''canceled''"
| "work_text Expired = ''expired''"

definition audit_request_id :: "uuid \<Rightarrow> string" where
  "audit_request_id operation_id = ''operation-'' @ uuid_hex operation_id"

definition append_operation_audit ::
  "operation \<Rightarrow> string \<Rightarrow> string \<Rightarrow> string option \<Rightarrow> instant \<Rightarrow> plane_db \<Rightarrow> operation_error + plane_db" where
  "append_operation_audit p action actor_kind actor_ident occurred_at db =
     bindE (append_audit_event OperationValidationError
             (audit actor_kind actor_ident action ''endpoint_operation'' (Some (uuid_text (o_id p)))
               (audit_request_id (o_id p))
               [(''capability'', JStr (o_capability p)), (''device_id'', JStr (uuid_text (o_device_id p))),
                (''status'', JStr (work_text (o_status p)))] occurred_at) (g_audits db))
       (\<lambda>audits. Inr (db\<lparr>g_audits := audits\<rparr>))"

section \<open>Creating and reading\<close>

definition new_operation ::
  "(nat \<Rightarrow> uuid) \<Rightarrow> uuid \<Rightarrow> uuid \<Rightarrow> string \<Rightarrow> string \<Rightarrow> json \<Rightarrow> instant \<Rightarrow> operation" where
  "new_operation gen client_id device_id key capability parameters occurred_at =
     \<lparr>o_id = gen 0, o_created_at = occurred_at, o_client_id = client_id, o_device_id = device_id,
      o_idempotency_key = key, o_capability = capability, o_parameters = parameters, o_correlation = None, o_status = Queued,
      o_deadline_at = occurred_at + operation_ttl, o_completed_at = None, o_error_code = None,
      o_collection_id = Some (gen 1), o_command_id = None, o_module_version_id = None,
      o_module_inputs = None, o_expected_step_count = None\<rparr>"

definition new_collection ::
  "(nat \<Rightarrow> uuid) \<Rightarrow> uuid \<Rightarrow> uuid \<Rightarrow> string \<Rightarrow> string \<Rightarrow> instant \<Rightarrow> collection" where
  "new_collection gen client_id device_id key profile occurred_at =
     \<lparr>k_id = gen 1, k_created_at = occurred_at, k_device_id = device_id, k_profile = profile,
      k_requested_by = ''endpoint-operation:'' @ uuid_hex client_id, k_idempotency_key = key,
      k_command_id = None, k_command_result_id = None, k_operation_id = Some (gen 0),
      k_status = CRequested, k_requested_at = occurred_at, k_result_received_at = None, k_validated_at = None,
      k_completed_at = None, k_failed_at = None, k_expires_at = Some (occurred_at + operation_ttl),
      k_failure_code = None, k_raw_result_payload = None\<rparr>"

definition create_operation_outcome ::
  "(nat \<Rightarrow> uuid) \<Rightarrow> instant \<Rightarrow> operation_create \<Rightarrow> uuid option \<Rightarrow> uuid option \<Rightarrow> string \<Rightarrow> moment option \<Rightarrow> plane_db
   \<Rightarrow> operation_error + (plane_db \<times> operation \<times> bool)" where
  "create_operation_outcome gen clock request service_client_id device_id key now db =
     bindE (operation_uuid service_client_id) (\<lambda>client_id.
     bindE (operation_uuid device_id) (\<lambda>device.
     bindE (idempotency_key key) (\<lambda>checked_key.
     let (capability, parameters) = normalized_request request in
     bindE (profile_for_capability capability) (\<lambda>profile.
     bindE (operation_now clock now) (\<lambda>occurred_at.
     bindE (require (OperationNotFound ''endpoint_operation_service_not_found'')
             (find_row sc_id client_id (g_clients db))) (\<lambda>client.
       case find (\<lambda>p. o_client_id p = client_id \<and> o_idempotency_key p = checked_key) (g_operations db) of
         Some existing \<Rightarrow>
           if o_device_id existing \<noteq> device \<or> o_capability existing \<noteq> capability
              \<or> o_parameters existing \<noteq> parameters
           then Inl (OperationConflict ''endpoint_operation_idempotency_conflict'')
           else bindE (append_operation_audit existing ''endpoint.operation_replayed'' ''service''
                        (Some (sc_client_identifier client)) occurred_at db) (\<lambda>db1.
                bindE (flush_plane OpIntegrityError db1) (\<lambda>db'. Inr (db', existing, False)))
       | None \<Rightarrow>
           bindE (require (OperationNotFound ''endpoint_operation_device_not_found'')
                   (find (\<lambda>d. dv_id d = device \<and> dv_retired_at d = None) (g_devices db))) (\<lambda>_.
             let p = new_operation gen client_id device checked_key capability parameters occurred_at;
                 k = new_collection gen client_id device checked_key profile occurred_at
             in bindE (append_operation_audit p ''endpoint.operation_created'' ''service''
                        (Some (sc_client_identifier client)) occurred_at
                        (db\<lparr>g_operations := g_operations db @ [p], g_collections := g_collections db @ [k]\<rparr>)) (\<lambda>db1.
                bindE (flush_plane OpIntegrityError db1) (\<lambda>db'. Inr (db', p, True))))))))))"

definition owned_operation :: "uuid \<Rightarrow> uuid \<Rightarrow> plane_db \<Rightarrow> operation_error + operation" where
  "owned_operation operation_id client_id db =
     require (OperationNotFound ''endpoint_operation_not_found'')
       (find (\<lambda>p. o_id p = operation_id \<and> o_client_id p = client_id) (g_operations db))"

definition read_operation_for_service ::
  "instant \<Rightarrow> uuid option \<Rightarrow> uuid option \<Rightarrow> moment option \<Rightarrow> plane_db \<Rightarrow> operation_error + (plane_db \<times> operation)" where
  "read_operation_for_service clock operation_id service_client_id now db =
     bindE (operation_uuid operation_id) (\<lambda>oid.
     bindE (operation_uuid service_client_id) (\<lambda>client_id.
     bindE (owned_operation oid client_id db) (\<lambda>p.
     bindE (require (OperationNotFound ''endpoint_operation_not_found'') (find_row sc_id client_id (g_clients db))) (\<lambda>client.
     bindE (operation_now clock now) (\<lambda>at.
     bindE (append_operation_audit p ''endpoint.operation_read'' ''service'' (Some (sc_client_identifier client)) at db) (\<lambda>db1.
     bindE (flush_plane OpIntegrityError db1) (\<lambda>db'. Inr (db', p))))))))"

section \<open>Cancelling\<close>

definition canceled_operation :: "instant \<Rightarrow> operation \<Rightarrow> operation" where
  "canceled_operation at p = p\<lparr>o_status := Canceled, o_completed_at := Some at\<rparr>"

definition canceled_collection :: "instant \<Rightarrow> collection \<Rightarrow> collection" where
  "canceled_collection at k =
     k\<lparr>k_status := CExpired, k_failed_at := Some at, k_failure_code := Some ''operation_canceled''\<rparr>"

definition cancel_queued_operation ::
  "operation \<Rightarrow> instant \<Rightarrow> string \<Rightarrow> string \<Rightarrow> plane_db \<Rightarrow> operation_error + (plane_db \<times> operation)" where
  "cancel_queued_operation p canceled_at actor_kind actor_ident db =
     (if o_status p = Canceled then Inr (db, p)
      else if o_status p \<noteq> Queued \<or> o_command_id p \<noteq> None
      then Inl (OperationConflict ''operation_cancel_not_supported'')
      else
        case find (\<lambda>k. Some (k_id k) = o_collection_id p \<and> k_operation_id k = Some (o_id p)) (g_collections db) of
          None \<Rightarrow> Inl OperationValidationError
        | Some k \<Rightarrow>
            if k_command_id k \<noteq> None \<or> k_status k \<noteq> CRequested then Inl OperationValidationError
            else
              let p' = canceled_operation canceled_at p;
                  k' = canceled_collection canceled_at k
              in bindE (append_operation_audit p' ''endpoint.operation_canceled'' actor_kind (Some actor_ident)
                         canceled_at (store_collection k' (store_operation p' db))) (\<lambda>db1.
                 bindE (flush_plane OpIntegrityError db1) (\<lambda>db'. Inr (db', p'))))"

definition cancel_operation_for_service ::
  "instant \<Rightarrow> uuid option \<Rightarrow> uuid option \<Rightarrow> moment option \<Rightarrow> plane_db \<Rightarrow> operation_error + (plane_db \<times> operation)" where
  "cancel_operation_for_service clock operation_id service_client_id now db =
     bindE (operation_uuid operation_id) (\<lambda>oid.
     bindE (operation_uuid service_client_id) (\<lambda>client_id.
     bindE (operation_now clock now) (\<lambda>canceled_at.
     bindE (owned_operation oid client_id db) (\<lambda>p.
     bindE (require (OperationNotFound ''endpoint_operation_not_found'') (find_row sc_id client_id (g_clients db))) (\<lambda>client.
       cancel_queued_operation p canceled_at ''service'' (sc_client_identifier client) db)))))"

definition cancel_operation_for_admin ::
  "instant \<Rightarrow> uuid option \<Rightarrow> uuid option \<Rightarrow> moment option \<Rightarrow> plane_db \<Rightarrow> operation_error + (plane_db \<times> operation)" where
  "cancel_operation_for_admin clock operation_id admin_user_id now db =
     bindE (operation_uuid operation_id) (\<lambda>oid.
     bindE (operation_uuid admin_user_id) (\<lambda>admin_id.
     bindE (require (OperationNotFound ''endpoint_operation_not_found'') (find_row o_id oid (g_operations db))) (\<lambda>p.
       if o_capability p \<noteq> ''context.diagnostic.collect''
       then Inl (OperationConflict ''operation_cancel_not_supported'')
       else bindE (operation_now clock now) (\<lambda>canceled_at.
         cancel_queued_operation p canceled_at ''admin'' (uuid_text admin_id) db))))"

definition append_operation_terminal_audit ::
  "operation \<Rightarrow> moment \<Rightarrow> plane_db \<Rightarrow> operation_error + plane_db" where
  "append_operation_terminal_audit p occurred_at db =
     (if \<not> terminal_work (o_status p) then Inl OperationValidationError
      else bindE (operation_now 0 (Some occurred_at)) (\<lambda>at.
        append_operation_audit p (''endpoint.operation_'' @ work_text (o_status p)) ''device''
          (Some (uuid_text (o_device_id p))) at db))"

section \<open>Expiring\<close>

definition expire_command :: "uuid \<Rightarrow> uuid \<Rightarrow> plane_db \<Rightarrow> plane_db" where
  "expire_command command_id device_id db =
     (case find (\<lambda>c. cm_id c = command_id \<and> cm_device_id c = device_id) (g_commands db) of
        None \<Rightarrow> db
      | Some c \<Rightarrow> if terminal_work (cm_status c) then db else store_command (c\<lparr>cm_status := Expired\<rparr>) db)"

definition expire_delivery :: "uuid \<Rightarrow> plane_db \<Rightarrow> plane_db" where
  "expire_delivery command_id db =
     (case find (\<lambda>d. dl_command_id d = command_id) (g_deliveries db) of
        None \<Rightarrow> db
      | Some d \<Rightarrow> if terminal_work (dl_status d) then db else store_delivery (d\<lparr>dl_status := Expired\<rparr>) db)"

definition expire_transport :: "uuid option \<Rightarrow> uuid \<Rightarrow> plane_db \<Rightarrow> plane_db" where
  "expire_transport command_id device_id db =
     (case command_id of None \<Rightarrow> db | Some i \<Rightarrow> expire_delivery i (expire_command i device_id db))"

definition expire_step :: "instant \<Rightarrow> uuid \<Rightarrow> module_step \<Rightarrow> plane_db \<Rightarrow> plane_db" where
  "expire_step at device_id s db =
     (if terminal_work (s_status s) then db
      else expire_transport (s_command_id s) device_id
        (store_step (s\<lparr>s_status := Expired, s_error_code := Some ''operation_expired'',
                       s_completed_at := Some at\<rparr>) db))"

definition expired_operation :: "instant \<Rightarrow> operation \<Rightarrow> operation" where
  "expired_operation at p =
     p\<lparr>o_status := Expired, o_completed_at := Some at, o_error_code := Some ''operation_expired''\<rparr>"

definition expire_collection :: "instant \<Rightarrow> collection option \<Rightarrow> plane_db \<Rightarrow> plane_db" where
  "expire_collection at k db =
     (case k of
        None \<Rightarrow> db
      | Some k \<Rightarrow>
          if k_status k \<in> {CCompleted, CFailed, CExpired} then db
          else store_collection (k\<lparr>k_status := CExpired, k_failed_at := Some at,
                 k_failure_code := Some ''operation_expired''\<rparr>) db)"

definition operation_due :: "instant \<Rightarrow> operation \<Rightarrow> bool" where
  "operation_due at p \<longleftrightarrow> \<not> terminal_work (o_status p) \<and> o_deadline_at p \<le> at"

definition expire_module_operation :: "operation \<Rightarrow> instant \<Rightarrow> plane_db \<Rightarrow> operation_error + plane_db" where
  "expire_module_operation p expired_at db =
     (let steps = filter (\<lambda>s. s_operation_id s = o_id p) (g_steps db) in
      if steps = [] then Inl OperationValidationError
      else
        let p' = expired_operation expired_at p;
            db1 = fold (expire_step expired_at (o_device_id p)) steps (store_operation p' db)
        in bindE (append_audit_event OperationValidationError
                   (audit ''system'' None ''endpoint.module_operation_expired'' ''endpoint_operation''
                     (Some (uuid_text (o_id p))) (''module-operation-'' @ uuid_hex (o_id p))
                     [(''status'', JStr (work_text (o_status p')))] expired_at) (g_audits db1)) (\<lambda>audits.
           flush_plane OpIntegrityError (db1\<lparr>g_audits := audits\<rparr>)))"

definition expire_diagnostic_operation ::
  "operation \<Rightarrow> instant \<Rightarrow> collection option \<Rightarrow> plane_db \<Rightarrow> operation_error + plane_db" where
  "expire_diagnostic_operation p expired_at k db =
     (let p' = expired_operation expired_at p;
          db1 = store_operation p' db;
          found = (case k of
                     None \<Rightarrow> Inr (find (\<lambda>k. k_operation_id k = Some (o_id p)) (g_collections db))
                   | Some k \<Rightarrow> if Some (k_id k) \<noteq> o_collection_id p \<or> k_operation_id k \<noteq> Some (o_id p)
                       then Inl OperationValidationError else Inr (Some k))
      in bindE found (\<lambda>target.
         let db2 = expire_transport (o_command_id p) (o_device_id p) (expire_collection expired_at target db1)
         in bindE (append_operation_audit p' ''endpoint.operation_expired'' ''system'' None expired_at db2)
              (flush_plane OpIntegrityError)))"

definition expire_operation_if_due ::
  "instant \<Rightarrow> operation \<Rightarrow> moment option \<Rightarrow> collection option \<Rightarrow> plane_db \<Rightarrow> operation_error + (plane_db \<times> bool)" where
  "expire_operation_if_due clock p now k db =
     bindE (operation_now clock now) (\<lambda>expired_at.
       if \<not> operation_due expired_at p then Inr (db, False)
       else if o_capability p = ''endpoint.module.recipe'' then
         (if k \<noteq> None \<or> o_command_id p \<noteq> None then Inl OperationValidationError
          else bindE (expire_module_operation p expired_at db) (\<lambda>db'. Inr (db', True)))
       else bindE (expire_diagnostic_operation p expired_at k db) (\<lambda>db'. Inr (db', True)))"

fun expire_each :: "instant \<Rightarrow> operation list \<Rightarrow> plane_db \<Rightarrow> operation_error + plane_db" where
  "expire_each at [] db = Inr db"
| "expire_each at (p # ps) db =
     bindE (expire_operation_if_due at p (Some (Aware at)) None db) (\<lambda>(db', _). expire_each at ps db')"

definition due_operations :: "instant \<Rightarrow> nat \<Rightarrow> plane_db \<Rightarrow> operation list" where
  "due_operations at limit db =
     take limit (sort_key (\<lambda>p. (o_deadline_at p, o_id p)) (filter (operation_due at) (g_operations db)))"

definition expire_operations ::
  "instant \<Rightarrow> moment option \<Rightarrow> int \<Rightarrow> plane_db \<Rightarrow> operation_error + (plane_db \<times> nat)" where
  "expire_operations clock now limit db =
     (if \<not> (1 \<le> limit \<and> limit \<le> 100) then Inl OperationValidationError
      else bindE (operation_now clock now) (\<lambda>expired_at.
        let due = due_operations expired_at (nat limit) db
        in bindE (expire_each expired_at due db) (\<lambda>db'. Inr (db', length due))))"

section \<open>Evidence\<close>

definition operation_result_ttl :: int where
  "operation_result_ttl = hours 24"

fun evidence_utc :: "moment \<Rightarrow> operation_error + instant" where
  "evidence_utc (Aware t) = Inr t"
| "evidence_utc (Naive t) = Inl EvidenceValueError"

text \<open>\<open>rendered\<close> is the length of \<open>json.dumps\<close> of a payload in bytes, \<open>None\<close> when it does not
  serialize, and \<open>digest\<close> the SHA-256 of its canonical encoding.\<close>

definition create_operation_evidence ::
  "(json \<Rightarrow> nat option) \<Rightarrow> (json \<Rightarrow> string) \<Rightarrow> uuid \<Rightarrow> operation \<Rightarrow> string \<Rightarrow> json \<Rightarrow> moment \<Rightarrow> plane_db
   \<Rightarrow> operation_error + (plane_db \<times> evidence)" where
  "create_operation_evidence rendered digest identity p result_kind safe_payload created_at db =
     (if result_kind \<noteq> ''diagnostic'' \<and> result_kind \<noteq> ''module'' then Inl EvidenceValueError
      else bindE (require EvidenceValueError (rendered safe_payload)) (\<lambda>size.
        if 65536 < size then Inl EvidenceValueError
        else bindE (evidence_utc created_at) (\<lambda>when.
          if list_ex (\<lambda>e. ev_operation_id e = o_id p) (g_evidence db) then Inl EvidenceConflict
          else
            let e = \<lparr>ev_id = identity, ev_operation_id = o_id p, ev_result_kind = result_kind,
                     ev_safe_payload = Some safe_payload, ev_sha256 = digest safe_payload,
                     ev_created_at = when, ev_expires_at = Some (when + operation_result_ttl),
                     ev_pinned_at = None, ev_pinned_by_kind = None, ev_pinned_by = None,
                     ev_pin_reason = None, ev_scrubbed_at = None\<rparr>
            in bindE (flush_plane OpIntegrityError (db\<lparr>g_evidence := g_evidence db @ [e]\<rparr>)) (\<lambda>db'. Inr (db', e)))))"

definition pinned_evidence :: "instant \<Rightarrow> string \<Rightarrow> string \<Rightarrow> string option \<Rightarrow> evidence \<Rightarrow> evidence" where
  "pinned_evidence when actor_kind actor_ident safe_reason e =
     e\<lparr>ev_pinned_at := Some when, ev_expires_at := None, ev_pinned_by_kind := Some actor_kind,
       ev_pinned_by := Some (take 128 actor_ident), ev_pin_reason := safe_reason\<rparr>"

definition optional_json :: "string option \<Rightarrow> json" where
  "optional_json v = (case v of None \<Rightarrow> JNull | Some s \<Rightarrow> JStr s)"

text \<open>\<open>sanitize\<close> is \<open>sanitize_agent_public_text\<close> with the limit 256.\<close>

definition pin_operation_evidence ::
  "(string \<Rightarrow> string) \<Rightarrow> instant \<Rightarrow> uuid \<Rightarrow> string \<Rightarrow> string \<Rightarrow> string \<Rightarrow> string option \<Rightarrow> moment option \<Rightarrow> plane_db
   \<Rightarrow> operation_error + (plane_db \<times> evidence)" where
  "pin_operation_evidence sanitize clock operation_id actor_kind actor_ident request_id reason now db =
     (if (case reason of None \<Rightarrow> False | Some r \<Rightarrow> 256 < length r) then Inl EvidenceValueError
      else
        let safe_reason = map_option sanitize reason in
        bindE (evidence_utc (case now of None \<Rightarrow> Aware clock | Some m \<Rightarrow> m)) (\<lambda>when.
        case find (\<lambda>e. ev_operation_id e = operation_id) (g_evidence db) of
          None \<Rightarrow> Inl EvidenceConflict
        | Some e \<Rightarrow>
            if ev_safe_payload e = None \<or> ev_scrubbed_at e \<noteq> None then Inl EvidenceConflict
            else if ev_pinned_at e \<noteq> None then Inr (db, e)
            else if (case ev_expires_at e of None \<Rightarrow> True | Some expiry \<Rightarrow> expiry \<le> when) then Inl EvidenceConflict
            else bindE (require EvidenceConflict (find_row o_id operation_id (g_operations db))) (\<lambda>p.
              let e' = pinned_evidence when actor_kind actor_ident safe_reason e
              in bindE (append_audit_event EvidenceValueError
                         (audit actor_kind (Some actor_ident) ''operation_evidence.pinned'' ''endpoint_operation''
                           (Some (uuid_text operation_id)) request_id
                           [(''operation_id'', JStr (uuid_text operation_id)),
                            (''device_id'', JStr (uuid_text (o_device_id p))),
                            (''reason'', optional_json safe_reason)] when) (g_audits db)) (\<lambda>audits.
                 bindE (flush_plane OpIntegrityError ((store_evidence e' db)\<lparr>g_audits := audits\<rparr>)) (\<lambda>db'.
                   Inr (db', e'))))))"

definition scrub_due :: "instant \<Rightarrow> evidence \<Rightarrow> bool" where
  "scrub_due when e \<longleftrightarrow>
     (case ev_expires_at e of None \<Rightarrow> False | Some expiry \<Rightarrow> expiry \<le> when)
     \<and> ev_safe_payload e \<noteq> None \<and> ev_pinned_at e = None"

definition scrub_steps :: "(module_step \<Rightarrow> bool) \<Rightarrow> plane_db \<Rightarrow> plane_db" where
  "scrub_steps chosen db =
     db\<lparr>g_steps := map (\<lambda>s. if chosen s then s\<lparr>s_safe_result := None\<rparr> else s) (g_steps db)\<rparr>"

definition scrub_evidence :: "instant \<Rightarrow> evidence \<Rightarrow> plane_db \<Rightarrow> plane_db" where
  "scrub_evidence when e db =
     scrub_steps (\<lambda>s. s_operation_id s = ev_operation_id e)
       (store_evidence (e\<lparr>ev_safe_payload := None, ev_scrubbed_at := Some when\<rparr>) db)"

fun expiry_order :: "evidence \<Rightarrow> int \<times> nat" where
  "expiry_order e = ((case ev_expires_at e of None \<Rightarrow> 0 | Some t \<Rightarrow> t), ev_id e)"

definition cleanup_operation_results ::
  "instant \<Rightarrow> moment option \<Rightarrow> int \<Rightarrow> plane_db \<Rightarrow> operation_error + (plane_db \<times> nat)" where
  "cleanup_operation_results clock now limit db =
     (if \<not> (1 \<le> limit \<and> limit \<le> 1000) then Inl EvidenceValueError
      else bindE (evidence_utc (case now of None \<Rightarrow> Aware clock | Some m \<Rightarrow> m)) (\<lambda>when.
        let rows = take (nat limit) (sort_key expiry_order (filter (scrub_due when) (g_evidence db)))
        in bindE (flush_plane OpIntegrityError (fold (scrub_evidence when) rows db)) (\<lambda>db'.
             Inr (db', length rows))))"

definition step_scrub_due :: "instant \<Rightarrow> module_step \<Rightarrow> bool" where
  "step_scrub_due cutoff s \<longleftrightarrow>
     (case s_completed_at s of None \<Rightarrow> False | Some t \<Rightarrow> t < cutoff) \<and> s_safe_result s \<noteq> None"

definition cleanup_module_step_results ::
  "instant \<Rightarrow> moment option \<Rightarrow> int \<Rightarrow> plane_db \<Rightarrow> operation_error + (plane_db \<times> nat)" where
  "cleanup_module_step_results clock now limit db =
     (if \<not> (1 \<le> limit \<and> limit \<le> 1000) then Inl EvidenceValueError
      else bindE (evidence_utc (case now of None \<Rightarrow> Aware clock | Some m \<Rightarrow> m)) (\<lambda>when.
        let cutoff = when - operation_result_ttl;
            rows = take (nat limit) (sort_key (\<lambda>s. (case s_completed_at s of None \<Rightarrow> 0 | Some t \<Rightarrow> t, s_id s))
              (filter (step_scrub_due cutoff) (g_steps db)))
        in bindE (flush_plane OpIntegrityError (scrub_steps (\<lambda>s. s_id s \<in> set (map s_id rows)) db)) (\<lambda>db'.
             Inr (db', length rows))))"

end
