(* ===== verification/Operation_Laws.thy ===== *)
theory Operation_Laws
  imports Operations
begin

text \<open>
  What the operations of \<open>Operations\<close> do to the tables: which columns each write-back leaves
  alone, the committed outcomes, and the order \<open>plane_le\<close> every committed request moves up in.
\<close>

section \<open>Frames\<close>

lemma store_fields [simp]:
  "g_operations (store_collection k db) = g_operations db" "g_evidence (store_collection k db) = g_evidence db"
  "g_audits (store_collection k db) = g_audits db" "g_collections (store_operation p db) = g_collections db"
  "g_evidence (store_operation p db) = g_evidence db" "g_audits (store_operation p db) = g_audits db"
  "g_operations (store_operation p db) = store_row o_id p (g_operations db)"
  "g_collections (store_collection k db) = store_row k_id k (g_collections db)"
  "g_operations (store_step s db) = g_operations db" "g_evidence (store_step s db) = g_evidence db"
  "g_audits (store_step s db) = g_audits db" "g_collections (store_step s db) = g_collections db"
  "g_operations (store_command c db) = g_operations db" "g_evidence (store_command c db) = g_evidence db"
  "g_audits (store_command c db) = g_audits db" "g_collections (store_command c db) = g_collections db"
  "g_operations (store_delivery d db) = g_operations db" "g_evidence (store_delivery d db) = g_evidence db"
  "g_audits (store_delivery d db) = g_audits db" "g_collections (store_delivery d db) = g_collections db"
  "g_operations (store_evidence e db) = g_operations db" "g_audits (store_evidence e db) = g_audits db"
  "g_collections (store_evidence e db) = g_collections db"
  "g_evidence (store_evidence e db) = store_row ev_id e (g_evidence db)"
  by (simp_all add: store_defs)

definition core :: "plane_db \<Rightarrow> operation list \<times> collection list \<times> evidence list \<times> audit_event list" where
  "core db = (g_operations db, g_collections db, g_evidence db, g_audits db)"

lemma expire_command_core [simp]: "core (expire_command i d db) = core db"
  by (auto simp: expire_command_def core_def split: option.splits)

lemma expire_delivery_core [simp]: "core (expire_delivery i db) = core db"
  by (auto simp: expire_delivery_def core_def split: option.splits)

lemma expire_transport_core [simp]: "core (expire_transport i d db) = core db"
  by (auto simp: expire_transport_def split: option.splits)

lemma expire_step_core [simp]: "core (expire_step at d s db) = core db"
  by (auto simp: expire_step_def) (simp add: core_def)

lemma expire_steps_core [simp]: "core (fold (expire_step at d) ss db) = core db"
  by (induction ss arbitrary: db) simp_all

lemma core_fields:
  "core a = core b \<Longrightarrow> g_operations a = g_operations b"
  "core a = core b \<Longrightarrow> g_collections a = g_collections b"
  "core a = core b \<Longrightarrow> g_evidence a = g_evidence b"
  "core a = core b \<Longrightarrow> g_audits a = g_audits b"
  by (simp_all add: core_def)

lemmas transport_frames [simp] = core_fields [OF expire_transport_core] core_fields [OF expire_steps_core]

lemma expire_collection_frames [simp]:
  "g_operations (expire_collection at k db) = g_operations db"
  "g_evidence (expire_collection at k db) = g_evidence db"
  "g_audits (expire_collection at k db) = g_audits db"
  by (auto simp: expire_collection_def split: option.splits)

lemma append_operation_audit_Inr:
  "append_operation_audit p action kind who at db = Inr db' \<Longrightarrow>
     \<exists>a. db' = db\<lparr>g_audits := a\<rparr> \<and> prefix (g_audits db) a"
  by (auto simp: append_operation_audit_def)

lemma flushed_Inr_iff:
  "bindE r (\<lambda>db1. bindE (flush_plane e db1) (\<lambda>d. Inr (d, x))) = Inr (db', y) \<longleftrightarrow>
     r = Inr db' \<and> plane_constraints db' \<and> y = x"
  by auto

section \<open>Committed outcomes\<close>

lemma create_operation_Inr:
  assumes "create_operation_outcome gen clock req cid did key now db = Inr (db', p, fresh)"
  shows "\<exists>client device at. cid = Some client \<and> did = Some device
    \<and> o_client_id p = client \<and> o_idempotency_key p = key \<and> o_device_id p = device
    \<and> (o_capability p, o_parameters p) = normalized_request req \<and> idempotency_key key = Inr key
    \<and> oc_capability req = ''context.diagnostic.collect''
    \<and> plane_constraints db'
    \<and> (\<exists>a. prefix (g_audits db) a \<and>
         (if fresh then p = new_operation gen client device key (o_capability p) (o_parameters p) at
              \<and> find (\<lambda>p. o_client_id p = client \<and> o_idempotency_key p = key) (g_operations db) = None
              \<and> db' = db\<lparr>g_operations := g_operations db @ [p],
                   g_collections := g_collections db @ [new_collection gen client device key ''diagnostic_v1'' at], g_audits := a\<rparr>
          else p \<in> set (g_operations db) \<and> db' = db\<lparr>g_audits := a\<rparr>))"
proof -
  from assms obtain client device at sc where ids: "cid = Some client" "did = Some device"
      and key: "idempotency_key key = Inr key" and at: "operation_now clock now = Inr at"
      and prof: "profile_for_capability (oc_capability req) = Inr ''diagnostic_v1''" "oc_capability req = ''context.diagnostic.collect''"
      and sc: "find_row sc_id client (g_clients db) = Some sc"
    by (auto simp: create_operation_outcome_def operation_uuid_def idempotency_key_def normalized_request_def
        profile_for_capability_def capability_profiles_def split: if_splits)
  show ?thesis
  proof (cases "find (\<lambda>p. o_client_id p = client \<and> o_idempotency_key p = key) (g_operations db)")
    case (Some e)
    have same: "o_device_id e = device" "(o_capability e, o_parameters e) = normalized_request req"
      using Some assms ids key at prof sc
      by (auto simp: create_operation_outcome_def operation_uuid_def normalized_request_def split: if_splits)
    have "bindE (append_operation_audit e ''endpoint.operation_replayed'' ''service''
          (Some (sc_client_identifier sc)) at db) (\<lambda>db1. bindE (flush_plane OpIntegrityError db1) (\<lambda>db'. Inr (db', e, False)))
        = Inr (db', p, fresh)"
      using Some assms ids key at prof sc same
      by (simp add: create_operation_outcome_def operation_uuid_def normalized_request_def del: bindE_Inr_iff)
    then have au: "append_operation_audit e ''endpoint.operation_replayed'' ''service''
          (Some (sc_client_identifier sc)) at db = Inr db'" and rest: "plane_constraints db'" "p = e" "\<not> fresh"
      unfolding flushed_Inr_iff by simp_all
    from append_operation_audit_Inr [OF au] have "\<exists>a. prefix (g_audits db) a \<and> db' = db\<lparr>g_audits := a\<rparr>" by blast
    moreover have "e \<in> set (g_operations db)" "o_client_id e = client" "o_idempotency_key e = key"
      using find_SomeD [OF Some] by simp_all
    ultimately show ?thesis using rest same ids key prof by simp
  next
    case None
    let ?p = "new_operation gen client device key (oc_capability req) (snd (normalized_request req)) at"
    let ?db = "db\<lparr>g_operations := g_operations db @ [?p],
        g_collections := g_collections db @ [new_collection gen client device key ''diagnostic_v1'' at]\<rparr>"
    have "\<exists>d. find (\<lambda>d. dv_id d = device \<and> dv_retired_at d = None) (g_devices db) = Some d"
      using None assms ids key at prof sc
      by (auto simp: create_operation_outcome_def operation_uuid_def normalized_request_def)
    then have "bindE (append_operation_audit ?p ''endpoint.operation_created'' ''service''
          (Some (sc_client_identifier sc)) at ?db) (\<lambda>db1. bindE (flush_plane OpIntegrityError db1) (\<lambda>db'. Inr (db', ?p, True)))
        = Inr (db', p, fresh)"
      using None assms ids key at prof sc
      by (auto simp: create_operation_outcome_def operation_uuid_def normalized_request_def Let_def simp del: bindE_Inr_iff)
    then have au: "append_operation_audit ?p ''endpoint.operation_created'' ''service''
          (Some (sc_client_identifier sc)) at ?db = Inr db'" and rest: "plane_constraints db'" "p = ?p" fresh
      unfolding flushed_Inr_iff by simp_all
    from append_operation_audit_Inr [OF au] have "\<exists>a. prefix (g_audits db) a \<and> db' = ?db\<lparr>g_audits := a\<rparr>" by simp blast
    moreover have "o_client_id ?p = client" "o_idempotency_key ?p = key" "o_device_id ?p = device"
        "(o_capability ?p, o_parameters ?p) = normalized_request req"
        "?p = new_operation gen client device key (o_capability ?p) (o_parameters ?p) at"
      by (simp_all add: new_operation_def normalized_request_def)
    ultimately show ?thesis using rest None ids key prof by auto
  qed
qed

lemma cancel_queued_Inr:
  assumes "cancel_queued_operation p at kind who db = Inr (db', p')"
  shows "(db' = db \<and> p' = p \<and> o_status p = Canceled)
    \<or> (\<exists>k a. o_status p = Queued \<and> o_command_id p = None \<and> p' = canceled_operation at p
         \<and> k \<in> set (g_collections db) \<and> Some (k_id k) = o_collection_id p \<and> k_operation_id k = Some (o_id p)
         \<and> k_status k = CRequested \<and> prefix (g_audits db) a
         \<and> db' = (store_collection (canceled_collection at k) (store_operation p' db))\<lparr>g_audits := a\<rparr>
         \<and> plane_constraints db')"
proof (cases "o_status p = Canceled")
  case True
  with assms show ?thesis by (simp add: cancel_queued_operation_def)
next
  case False
  with assms have q: "o_status p = Queued" "o_command_id p = None"
    by (auto simp: cancel_queued_operation_def split: if_splits)
  with assms obtain k where k: "find (\<lambda>k. Some (k_id k) = o_collection_id p \<and> k_operation_id k = Some (o_id p)) (g_collections db) = Some k"
    by (auto simp: cancel_queued_operation_def split: if_splits option.splits)
  have st: "k_command_id k = None" "k_status k = CRequested"
    using assms q k by (simp_all add: cancel_queued_operation_def split: if_splits)
  have "bindE (append_operation_audit (canceled_operation at p) ''endpoint.operation_canceled'' kind (Some who)
        at (store_collection (canceled_collection at k) (store_operation (canceled_operation at p) db)))
      (\<lambda>db1. bindE (flush_plane OpIntegrityError db1) (\<lambda>db'. Inr (db', canceled_operation at p))) = Inr (db', p')"
    using assms q k st by (simp only: cancel_queued_operation_def Let_def) auto
  then have au: "append_operation_audit (canceled_operation at p) ''endpoint.operation_canceled'' kind (Some who)
        at (store_collection (canceled_collection at k) (store_operation (canceled_operation at p) db)) = Inr db'"
      and rest: "plane_constraints db'" "p' = canceled_operation at p" unfolding flushed_Inr_iff by simp_all
  from append_operation_audit_Inr [OF au] obtain a where "prefix (g_audits db) a"
      "db' = (store_collection (canceled_collection at k) (store_operation (canceled_operation at p) db))\<lparr>g_audits := a\<rparr>"
    by auto
  with rest q st find_SomeD [OF k] show ?thesis by blast
qed

definition closed_collection :: "collection \<Rightarrow> bool" where
  "closed_collection k \<longleftrightarrow> k_status k \<in> {CCompleted, CFailed, CExpired}"

lemma expire_collection_rows:
  "g_collections (expire_collection at k db) =
     (case k of None \<Rightarrow> g_collections db
      | Some k \<Rightarrow> if closed_collection k then g_collections db
          else store_row k_id (k\<lparr>k_status := CExpired, k_failed_at := Some at,
                 k_failure_code := Some ''operation_expired''\<rparr>) (g_collections db))"
  by (auto simp: expire_collection_def closed_collection_def split: option.splits)

lemma expire_module_Inr:
  assumes "expire_module_operation p at db = Inr db'"
  shows "g_operations db' = store_row o_id (expired_operation at p) (g_operations db)
    \<and> g_collections db' = g_collections db \<and> g_evidence db' = g_evidence db \<and> prefix (g_audits db) (g_audits db')
    \<and> plane_constraints db'"
  using assms by (auto simp: expire_module_operation_def Let_def split: if_splits)

lemma expire_diagnostic_Inr:
  assumes "expire_diagnostic_operation p at k db = Inr db'"
  shows "\<exists>target. (case k of None \<Rightarrow> target = find (\<lambda>k. k_operation_id k = Some (o_id p)) (g_collections db)
        | Some k \<Rightarrow> target = Some k \<and> Some (k_id k) = o_collection_id p \<and> k_operation_id k = Some (o_id p))
    \<and> g_operations db' = store_row o_id (expired_operation at p) (g_operations db)
    \<and> g_collections db' = g_collections (expire_collection at target db)
    \<and> g_evidence db' = g_evidence db \<and> prefix (g_audits db) (g_audits db') \<and> plane_constraints db'"
proof -
  let ?db2 = "\<lambda>target. expire_transport (o_command_id p) (o_device_id p)
      (expire_collection at target (store_operation (expired_operation at p) db))"
  from assms obtain target db1 where t: "case k of None \<Rightarrow> target = find (\<lambda>k. k_operation_id k = Some (o_id p)) (g_collections db)
        | Some k \<Rightarrow> target = Some k \<and> Some (k_id k) = o_collection_id p \<and> k_operation_id k = Some (o_id p)"
      and a: "append_operation_audit (expired_operation at p) ''endpoint.operation_expired'' ''system'' None at (?db2 target) = Inr db1"
      and f: "flush_plane OpIntegrityError db1 = Inr db'"
    by (cases k) (auto simp: expire_diagnostic_operation_def Let_def simp del: flush_plane_Inr_iff split: if_splits)
  from append_operation_audit_Inr [OF a] obtain a where "db1 = (?db2 target)\<lparr>g_audits := a\<rparr>" "prefix (g_audits db) a" by auto
  with f have "g_operations db' = store_row o_id (expired_operation at p) (g_operations db)"
      "g_collections db' = g_collections (expire_collection at target db)" "g_evidence db' = g_evidence db"
      "prefix (g_audits db) (g_audits db')" "plane_constraints db'"
    by (auto simp: expire_collection_rows split: option.splits)
  with t show ?thesis by blast
qed

lemma expire_if_due_Inr:
  assumes "expire_operation_if_due clock p now k db = Inr (db', hit)"
  shows "\<exists>at. operation_now clock now = Inr at \<and> hit = operation_due at p
    \<and> (if hit then g_operations db' = store_row o_id (expired_operation at p) (g_operations db)
         \<and> g_evidence db' = g_evidence db \<and> prefix (g_audits db) (g_audits db') \<and> plane_constraints db'
       else db' = db)"
proof -
  from assms obtain at where at: "operation_now clock now = Inr at" by (auto simp: expire_operation_if_due_def)
  show ?thesis
  proof (cases "operation_due at p")
    case True
    with assms at have "hit \<and> (expire_module_operation p at db = Inr db' \<or> expire_diagnostic_operation p at k db = Inr db')"
      by (auto simp: expire_operation_if_due_def split: if_splits)
    with True at show ?thesis
      using expire_module_Inr [of p at db db'] expire_diagnostic_Inr [of p at k db db'] by auto
  next
    case False
    with assms at show ?thesis by (simp add: expire_operation_if_due_def)
  qed
qed

lemma expire_each_Inr:
  assumes "expire_each at ps db = Inr db'" and "list_all (operation_due at) ps"
  shows "g_operations db' = fold (\<lambda>p. store_row o_id (expired_operation at p)) ps (g_operations db)
    \<and> g_evidence db' = g_evidence db \<and> prefix (g_audits db) (g_audits db')
    \<and> (plane_constraints db \<longrightarrow> plane_constraints db')"
  using assms
proof (induction ps arbitrary: db)
  case (Cons p ps)
  from Cons.prems obtain db1 hit where one: "expire_operation_if_due at p (Some (Aware at)) None db = Inr (db1, hit)"
      and rest: "expire_each at ps db1 = Inr db'" by auto
  have hit: "hit" using expire_if_due_Inr [OF one] Cons.prems(2) by auto
  have "g_operations db1 = store_row o_id (expired_operation at p) (g_operations db)" "g_evidence db1 = g_evidence db"
      "prefix (g_audits db) (g_audits db1)" "plane_constraints db1"
    using expire_if_due_Inr [OF one] hit by auto
  with Cons.IH [OF rest] Cons.prems(2) show ?case by (auto intro: prefix_order.trans)
qed simp

lemma fold_store_rows:
  assumes "distinct (map key ps)" "\<And>p. key (f p) = key p"
  shows "fold (\<lambda>p. store_row key (f p)) ps rows
     = map (\<lambda>x. case find (\<lambda>p. key p = key x) ps of None \<Rightarrow> x | Some p \<Rightarrow> f p) rows"
  using assms(1)
proof (induction ps arbitrary: rows)
  case (Cons p ps)
  have none: "find (\<lambda>q. key q = key p) ps = None"
  proof -
    have "key p \<notin> key ` set ps" using Cons.prems by simp
    then show ?thesis unfolding find_None_iff by (metis imageI)
  qed
  have "(case find (\<lambda>q. key q = key (if key x = key (f p) then f p else x)) ps of
          None \<Rightarrow> if key x = key (f p) then f p else x | Some q \<Rightarrow> f q)
      = (case find (\<lambda>q. key q = key x) (p # ps) of None \<Rightarrow> x | Some q \<Rightarrow> f q)" for x
    using assms(2) none by auto
  with Cons show ?case by (simp add: store_row_def comp_def)
qed simp

lemma store_chosen_rows:
  assumes "distinct (map key rows)" "set es \<subseteq> set rows" "distinct (map key es)" "\<And>p. key (f p) = key p"
  shows "fold (\<lambda>e. store_row key (f e)) es rows = map (\<lambda>x. if x \<in> set es then f x else x) rows"
proof -
  have "(case find (\<lambda>e. key e = key x) es of None \<Rightarrow> x | Some e \<Rightarrow> f e)
      = (if x \<in> set es then f x else x)" if x: "x \<in> set rows" for x
  proof (cases "x \<in> set es")
    case True
    then have "find (\<lambda>e. key e = key x) es = Some x"
      using distinct_map_inj [OF assms(3)] by (intro find_unique) auto
    with True show ?thesis by simp
  next
    case False
    have "find (\<lambda>e. key e = key x) es = None"
      unfolding find_None_iff using False x assms(2) distinct_map_inj [OF assms(1)] by blast
    with False show ?thesis by simp
  qed
  then show ?thesis
    by (subst fold_store_rows [OF assms(3,4)]) auto
qed

section \<open>Progress\<close>

definition same_operation :: "operation \<Rightarrow> operation \<Rightarrow> bool" where
  "same_operation p p' \<longleftrightarrow>
     o_id p' = o_id p \<and> o_created_at p' = o_created_at p \<and> o_client_id p' = o_client_id p
     \<and> o_device_id p' = o_device_id p \<and> o_idempotency_key p' = o_idempotency_key p
     \<and> o_capability p' = o_capability p \<and> o_parameters p' = o_parameters p \<and> o_deadline_at p' = o_deadline_at p
     \<and> o_collection_id p' = o_collection_id p"

definition evidence_kept :: "evidence \<Rightarrow> evidence \<Rightarrow> bool" where
  "evidence_kept e e' \<longleftrightarrow>
     ev_id e' = ev_id e \<and> ev_operation_id e' = ev_operation_id e \<and> ev_sha256 e' = ev_sha256 e
     \<and> (ev_pinned_at e \<noteq> None \<longrightarrow> e' = e)
     \<and> (ev_safe_payload e' = ev_safe_payload e \<or> ev_safe_payload e' = None)"

definition plane_le :: "plane_db \<Rightarrow> plane_db \<Rightarrow> bool" where
  "plane_le db db' \<longleftrightarrow>
     (\<forall>p\<in>set (g_operations db). \<exists>p'\<in>set (g_operations db').
        same_operation p p' \<and> (terminal_work (o_status p) \<longrightarrow> p' = p))
     \<and> (\<forall>e\<in>set (g_evidence db). \<exists>e'\<in>set (g_evidence db'). evidence_kept e e')
     \<and> prefix (g_audits db) (g_audits db')"

lemma same_operation_refl [simp]: "same_operation p p"
  by (simp add: same_operation_def)

lemma evidence_kept_refl [simp]: "evidence_kept e e"
  by (simp add: evidence_kept_def)

lemma plane_le_grow:
  assumes "set (g_operations db) \<subseteq> set (g_operations db')" "set (g_evidence db) \<subseteq> set (g_evidence db')"
    "prefix (g_audits db) (g_audits db')"
  shows "plane_le db db'"
proof -
  have "\<exists>p'\<in>set (g_operations db'). same_operation p p' \<and> (terminal_work (o_status p) \<longrightarrow> p' = p)"
    if "p \<in> set (g_operations db)" for p using that assms(1) by (intro bexI [of _ p]) auto
  moreover have "\<exists>e'\<in>set (g_evidence db'). evidence_kept e e'" if "e \<in> set (g_evidence db)" for e
    using that assms(2) by (intro bexI [of _ e]) auto
  ultimately show ?thesis using assms(3) by (simp add: plane_le_def)
qed

lemma plane_le_refl: "plane_le db db"
  by (simp add: plane_le_grow)

lemma evidence_kept_trans: "evidence_kept a b \<Longrightarrow> evidence_kept b c \<Longrightarrow> evidence_kept a c"
  unfolding evidence_kept_def by (metis (no_types))

lemma plane_le_trans:
  assumes ab: "plane_le a b" and bc: "plane_le b c"
  shows "plane_le a c"
proof -
  have "\<exists>r\<in>set (g_operations c). same_operation p r \<and> (terminal_work (o_status p) \<longrightarrow> r = p)"
    if p: "p \<in> set (g_operations a)" for p
  proof -
    from p ab obtain q where q: "q \<in> set (g_operations b)" "same_operation p q" "terminal_work (o_status p) \<longrightarrow> q = p"
      unfolding plane_le_def by blast
    from q(1) bc obtain r where r: "r \<in> set (g_operations c)" "same_operation q r" "terminal_work (o_status q) \<longrightarrow> r = q"
      unfolding plane_le_def by blast
    have "same_operation p r" using q(2) r(2) by (simp add: same_operation_def)
    with q r show ?thesis by metis
  qed
  moreover have "\<exists>e'\<in>set (g_evidence c). evidence_kept e e'" if "e \<in> set (g_evidence a)" for e
    using that ab bc evidence_kept_trans unfolding plane_le_def by metis
  ultimately show ?thesis using ab bc by (auto simp: plane_le_def intro: prefix_order.trans)
qed

lemma plane_le_store_operation:
  assumes "distinct (map o_id (g_operations db))" "p \<in> set (g_operations db)" "same_operation p p'" "\<not> terminal_work (o_status p)"
    and "g_operations db' = store_row o_id p' (g_operations db)" "g_evidence db' = g_evidence db"
      "prefix (g_audits db) (g_audits db')"
  shows "plane_le db db'"
proof -
  have id: "o_id p' = o_id p" using assms(3) by (simp add: same_operation_def)
  have mem: "x \<in> set (g_operations db') \<longleftrightarrow> x = p' \<or> (x \<in> set (g_operations db) \<and> x \<noteq> p)" for x
    using assms(2,5) id distinct_map_inj [OF assms(1) _ assms(2)] by (auto simp: in_set_store_row)
  have "\<exists>r\<in>set (g_operations db'). same_operation q r \<and> (terminal_work (o_status q) \<longrightarrow> r = q)"
    if "q \<in> set (g_operations db)" for q
    using that mem assms(3,4) same_operation_refl by metis
  moreover have "\<exists>e'\<in>set (g_evidence db'). evidence_kept e e'" if "e \<in> set (g_evidence db)" for e
    using that assms(6) by (intro bexI [of _ e]) auto
  ultimately show ?thesis using assms(7) by (simp add: plane_le_def)
qed

lemma plane_le_store_evidence:
  assumes "distinct (map ev_id (g_evidence db))" "e \<in> set (g_evidence db)" "evidence_kept e e'"
    and "g_evidence db' = store_row ev_id e' (g_evidence db)" "g_operations db' = g_operations db"
      "prefix (g_audits db) (g_audits db')"
  shows "plane_le db db'"
proof -
  have id: "ev_id e' = ev_id e" using assms(3) by (simp add: evidence_kept_def)
  have mem: "x \<in> set (g_evidence db') \<longleftrightarrow> x = e' \<or> (x \<in> set (g_evidence db) \<and> x \<noteq> e)" for x
    using assms(2,4) id distinct_map_inj [OF assms(1) _ assms(2)] by (auto simp: in_set_store_row)
  have "\<exists>f'\<in>set (g_evidence db'). evidence_kept f f'" if "f \<in> set (g_evidence db)" for f
    using that mem assms(3) evidence_kept_refl by metis
  moreover have "\<exists>r\<in>set (g_operations db'). same_operation q r \<and> (terminal_work (o_status q) \<longrightarrow> r = q)"
    if "q \<in> set (g_operations db)" for q
    using that assms(5) by (intro bexI [of _ q]) auto
  ultimately show ?thesis using assms(6) by (simp add: plane_le_def)
qed

end
