(* ===== verification/Operation_Invariants.thy ===== *)
theory Operation_Invariants
  imports Operation_Laws
begin

text \<open>
  The Endpoint operations as a transactional service: an operation and its private collection
  are closed together, and every committed request moves the tables up \<open>plane_le\<close>.
\<close>

definition operations_inv :: "plane_db \<Rightarrow> bool" where
  "operations_inv db \<longleftrightarrow>
     plane_constraints db
     \<and> list_all (\<lambda>p. o_capability p = ''endpoint.module.recipe'' \<longrightarrow> o_collection_id p = None) (g_operations db)
     \<and> list_all (\<lambda>p. list_all (\<lambda>k. k_operation_id k = Some (o_id p) \<longrightarrow>
           (terminal_work (o_status p) \<longleftrightarrow> closed_collection k)) (g_collections db)) (g_operations db)"

lemma operations_invI:
  assumes "plane_constraints db"
    and "\<And>p. p \<in> set (g_operations db) \<Longrightarrow> o_capability p = ''endpoint.module.recipe'' \<Longrightarrow> o_collection_id p = None"
    and "\<And>p k. p \<in> set (g_operations db) \<Longrightarrow> k \<in> set (g_collections db) \<Longrightarrow> k_operation_id k = Some (o_id p) \<Longrightarrow>
       terminal_work (o_status p) = closed_collection k"
  shows "operations_inv db"
  using assms by (simp add: operations_inv_def list_all_iff)

lemma operations_invD:
  assumes "operations_inv db"
  shows "plane_constraints db"
    and "p \<in> set (g_operations db) \<Longrightarrow> o_capability p = ''endpoint.module.recipe'' \<Longrightarrow> o_collection_id p = None"
    and "p \<in> set (g_operations db) \<Longrightarrow> k \<in> set (g_collections db) \<Longrightarrow> k_operation_id k = Some (o_id p) \<Longrightarrow>
       terminal_work (o_status p) = closed_collection k"
  using assms by (simp_all add: operations_inv_def list_all_iff)

lemma plane_constraintsD:
  assumes "plane_constraints db"
  shows "distinct (map o_id (g_operations db))" and "distinct (map k_id (g_collections db))"
    and "distinct (map ev_id (g_evidence db))"
    and "distinct (map (\<lambda>p. (o_client_id p, o_idempotency_key p)) (g_operations db))"
    and "k \<in> set (g_collections db) \<Longrightarrow> k_operation_id k = Some i \<Longrightarrow>
       \<exists>p\<in>set (g_operations db). o_id p = i \<and> o_collection_id p = Some (k_id k)"
  using assms by (auto simp: plane_constraints_def operations_constraints_def collections_constraints_def
      evidence_constraints_def identity_constraints_def list_all_iff list_ex_iff split: option.splits)

text \<open>The collection of an operation is determined by it.\<close>

lemma collection_unique:
  assumes c: "plane_constraints db" and k: "k \<in> set (g_collections db)" "k' \<in> set (g_collections db)"
    and o: "k_operation_id k = Some i" "k_operation_id k' = Some i"
  shows "k = k'"
proof -
  from plane_constraintsD(5) [OF c k(1) o(1)] obtain p where p: "p \<in> set (g_operations db)" "o_id p = i" "o_collection_id p = Some (k_id k)" by blast
  from plane_constraintsD(5) [OF c k(2) o(2)] obtain q where q: "q \<in> set (g_operations db)" "o_id q = i" "o_collection_id q = Some (k_id k')" by blast
  have "p = q" using distinct_map_inj [OF plane_constraintsD(1) [OF c] p(1) q(1)] p q by simp
  with p q show ?thesis using distinct_map_inj [OF plane_constraintsD(2) [OF c] k] by simp
qed

text \<open>Writing a closed operation back together with its collection.\<close>

lemma inv_close:
  assumes inv: "operations_inv db" and c': "plane_constraints db'"
    and p: "p \<in> set (g_operations db)" "o_id p' = o_id p" "o_capability p' = o_capability p"
      "o_collection_id p' = o_collection_id p" "terminal_work (o_status p')"
    and ops: "g_operations db' = store_row o_id p' (g_operations db)"
    and ks: "\<And>k. k \<in> set (g_collections db') \<Longrightarrow> k_operation_id k = Some (o_id p) \<Longrightarrow> closed_collection k"
    and others: "\<And>k. k \<in> set (g_collections db') \<Longrightarrow> k_operation_id k \<noteq> Some (o_id p) \<Longrightarrow> k \<in> set (g_collections db)"
  shows "operations_inv db'"
proof (rule operations_invI [OF c'])
  have c: "plane_constraints db" by (rule operations_invD(1) [OF inv])
  have mem: "x \<in> set (g_operations db') \<longleftrightarrow> x = p' \<or> (x \<in> set (g_operations db) \<and> x \<noteq> p)" for x
    using p(1,2) distinct_map_inj [OF plane_constraintsD(1) [OF c] _ p(1)] by (auto simp: ops in_set_store_row)
  fix q
  assume q: "q \<in> set (g_operations db')"
  show "o_collection_id q = None" if "o_capability q = ''endpoint.module.recipe''"
    using q that mem p operations_invD(2) [OF inv] by metis
  fix k
  assume k: "k \<in> set (g_collections db')" "k_operation_id k = Some (o_id q)"
  show "terminal_work (o_status q) = closed_collection k"
  proof (cases "q = p'")
    case True
    with k ks p show ?thesis by simp
  next
    case False
    with q mem have q': "q \<in> set (g_operations db)" "q \<noteq> p" by auto
    then have "o_id q \<noteq> o_id p" using distinct_map_inj [OF plane_constraintsD(1) [OF c] _ p(1)] by blast
    with k others q' show ?thesis by (intro operations_invD(3) [OF inv]) auto
  qed
qed

lemma inv_frame:
  assumes "operations_inv db" "plane_constraints db'" "g_operations db' = g_operations db" "g_collections db' = g_collections db"
  shows "operations_inv db'"
  using assms by (auto simp: operations_inv_def)

section \<open>Every operation keeps the invariant\<close>

lemma inv_create_operation:
  assumes inv: "operations_inv db" and ok: "create_operation_outcome gen clock req cid did key now db = Inr (db', p, fresh)"
  shows "operations_inv db' \<and> plane_le db db'"
proof -
  from create_operation_Inr [OF ok] obtain client device at a where cap: "oc_capability req = ''context.diagnostic.collect''"
      "(o_capability p, o_parameters p) = normalized_request req" and c': "plane_constraints db'" and pre: "prefix (g_audits db) a"
      and sh: "if fresh then p = new_operation gen client device key (o_capability p) (o_parameters p) at
              \<and> find (\<lambda>p. o_client_id p = client \<and> o_idempotency_key p = key) (g_operations db) = None
              \<and> db' = db\<lparr>g_operations := g_operations db @ [p],
                   g_collections := g_collections db @ [new_collection gen client device key ''diagnostic_v1'' at], g_audits := a\<rparr>
          else p \<in> set (g_operations db) \<and> db' = db\<lparr>g_audits := a\<rparr>"
    by blast
  show ?thesis
  proof (cases fresh)
    case False
    with sh have db': "db' = db\<lparr>g_audits := a\<rparr>" by simp
    have "operations_inv db'" by (rule inv_frame [OF inv c']) (simp_all add: db')
    moreover have "plane_le db db'" using pre by (intro plane_le_grow) (simp_all add: db')
    ultimately show ?thesis by simp
  next
    case True
    let ?k = "new_collection gen client device key ''diagnostic_v1'' at"
    have sh: "p = new_operation gen client device key (o_capability p) (o_parameters p) at"
        "db' = db\<lparr>g_operations := g_operations db @ [p], g_collections := g_collections db @ [?k], g_audits := a\<rparr>"
      using sh True by simp_all
    have id: "o_id p = gen 0" "o_status p = Queued" by (subst sh(1), simp add: new_operation_def)+
    have k: "k_operation_id ?k = Some (gen 0)" "\<not> closed_collection ?k" by (simp_all add: new_collection_def closed_collection_def)
    have cap': "o_capability p = ''context.diagnostic.collect''" using cap by (simp add: normalized_request_def)
    have fresh: "o_id q \<noteq> gen 0" if "q \<in> set (g_operations db)" for q
    proof -
      have "o_id p \<notin> o_id ` set (g_operations db)" using plane_constraintsD(1) [OF c'] by (simp add: sh(2))
      with that id show ?thesis by (metis imageI)
    qed
    have old: "k_operation_id x \<noteq> Some (gen 0)" if "x \<in> set (g_collections db)" for x
      using that fresh plane_constraintsD(5) [OF operations_invD(1) [OF inv] that] by blast
    have "operations_inv db'"
    proof (rule operations_invI [OF c'])
      fix q
      assume q: "q \<in> set (g_operations db')"
      show "o_collection_id q = None" if "o_capability q = ''endpoint.module.recipe''"
        using q that cap' operations_invD(2) [OF inv] by (auto simp: sh(2))
      fix x
      assume x: "x \<in> set (g_collections db')" "k_operation_id x = Some (o_id q)"
      have "q \<in> set (g_operations db) \<or> q = p" "x \<in> set (g_collections db) \<or> x = ?k"
        using q x(1) by (auto simp: sh(2))
      then consider "q \<in> set (g_operations db)" "x \<in> set (g_collections db)" | "q = p" "x = ?k"
        using x(2) id(1) k(1) fresh old by fastforce
      then show "terminal_work (o_status q) = closed_collection x"
        using x(2) id k operations_invD(3) [OF inv] by cases auto
    qed
    moreover have "plane_le db db'" using pre by (intro plane_le_grow) (auto simp: sh(2))
    ultimately show ?thesis by simp
  qed
qed

lemma inv_cancel_queued:
  assumes inv: "operations_inv db" and p: "p \<in> set (g_operations db)"
    and ok: "cancel_queued_operation p at kind who db = Inr (db', p')"
  shows "operations_inv db' \<and> plane_le db db'"
proof (cases "db' = db")
  case True
  with inv show ?thesis by (simp add: plane_le_refl)
next
  case False
  with cancel_queued_Inr [OF ok] obtain k a where q: "o_status p = Queued" and p': "p' = canceled_operation at p"
      and k: "k \<in> set (g_collections db)" "k_operation_id k = Some (o_id p)" and pre: "prefix (g_audits db) a"
      and db': "db' = (store_collection (canceled_collection at k) (store_operation p' db))\<lparr>g_audits := a\<rparr>"
      and c': "plane_constraints db'" by blast
  have c: "plane_constraints db" by (rule operations_invD(1) [OF inv])
  have mem: "x \<in> set (g_collections db') \<longleftrightarrow> x = canceled_collection at k \<or> (x \<in> set (g_collections db) \<and> x \<noteq> k)" for x
    using k(1) distinct_map_inj [OF plane_constraintsD(2) [OF c] _ k(1)]
    by (auto simp: db' in_set_store_row canceled_collection_def)
  have "operations_inv db'"
  proof (rule inv_close [OF inv c' p])
    show "o_id p' = o_id p" "o_capability p' = o_capability p" "o_collection_id p' = o_collection_id p"
        "terminal_work (o_status p')" "g_operations db' = store_row o_id p' (g_operations db)"
      by (simp_all add: p' canceled_operation_def db')
    show "closed_collection x" if "x \<in> set (g_collections db')" "k_operation_id x = Some (o_id p)" for x
      using that mem collection_unique [OF c _ k(1) _ k(2)] by (auto simp: closed_collection_def canceled_collection_def)
    show "x \<in> set (g_collections db)" if "x \<in> set (g_collections db')" "k_operation_id x \<noteq> Some (o_id p)" for x
      using that mem k(2) by (auto simp: canceled_collection_def)
  qed
  moreover have "plane_le db db'"
    using q pre by (intro plane_le_store_operation [OF plane_constraintsD(1) [OF c] p, of p'])
      (simp_all add: p' canceled_operation_def same_operation_def db')
  ultimately show ?thesis by simp
qed

lemma expired_collections:
  assumes inv: "operations_inv db" and p: "p \<in> set (g_operations db)" and at: "operation_now clock now = Inr at"
    and due: "operation_due at p" and ok: "expire_operation_if_due clock p now None db = Inr (db', hit)"
    and k: "k \<in> set (g_collections db')"
  shows "(closed_collection k \<or> k_operation_id k \<noteq> Some (o_id p)) \<and> (k_operation_id k \<noteq> Some (o_id p) \<longrightarrow> k \<in> set (g_collections db))"
proof -
  have c: "plane_constraints db" by (rule operations_invD(1) [OF inv])
  show ?thesis
  proof (cases "o_capability p = ''endpoint.module.recipe''")
    case True
    then have "expire_module_operation p at db = Inr db'"
      using ok at due by (auto simp: expire_operation_if_due_def split: if_splits)
    then have same: "g_collections db' = g_collections db" by (auto dest: expire_module_Inr)
    have "o_collection_id p = None" by (rule operations_invD(2) [OF inv p True])
    then have "k_operation_id k \<noteq> Some (o_id p)"
      using plane_constraintsD(5) [OF c] k same distinct_map_inj [OF plane_constraintsD(1) [OF c] _ p] by fastforce
    with k same show ?thesis by simp
  next
    case False
    then have "expire_diagnostic_operation p at None db = Inr db'"
      using ok at due by (auto simp: expire_operation_if_due_def split: if_splits)
    then have rows: "g_collections db' = g_collections (expire_collection at (find (\<lambda>k. k_operation_id k = Some (o_id p)) (g_collections db)) db)"
      by (auto dest: expire_diagnostic_Inr)
    show ?thesis
    proof (cases "find (\<lambda>k. k_operation_id k = Some (o_id p)) (g_collections db)")
      case None
      with k rows show ?thesis by (auto simp: expire_collection_rows find_None_iff)
    next
      case (Some t)
      then have t: "t \<in> set (g_collections db)" "k_operation_id t = Some (o_id p)" using find_SomeD by fastforce+
      have only: "x = t" if "x \<in> set (g_collections db)" "k_operation_id x = Some (o_id p)" for x
        using collection_unique [OF c that(1) t(1) that(2) t(2)] .
      have "k = t\<lparr>k_status := CExpired, k_failed_at := Some at, k_failure_code := Some ''operation_expired''\<rparr> \<or> k \<in> set (g_collections db)"
        using k rows Some by (auto simp: expire_collection_rows in_set_store_row split: if_splits)
      moreover have "closed_collection t \<or> k \<noteq> t"
      proof (cases "closed_collection t")
        case False
        then have "t\<lparr>k_status := CExpired, k_failed_at := Some at, k_failure_code := Some ''operation_expired''\<rparr> \<noteq> t"
          by (cases t) (auto simp: closed_collection_def)
        with False show ?thesis using k rows Some by (auto simp: expire_collection_rows in_set_store_row)
      qed simp
      moreover have "closed_collection (t\<lparr>k_status := CExpired, k_failed_at := Some at, k_failure_code := Some ''operation_expired''\<rparr>)"
          "k_operation_id (t\<lparr>k_status := CExpired, k_failed_at := Some at, k_failure_code := Some ''operation_expired''\<rparr>) = Some (o_id p)"
        using t(2) by (simp_all add: closed_collection_def)
      ultimately show ?thesis using only by metis
    qed
  qed
qed

lemma inv_expire_one:
  assumes inv: "operations_inv db" and p: "p \<in> set (g_operations db)"
    and ok: "expire_operation_if_due clock p now None db = Inr (db', hit)"
  shows "operations_inv db' \<and> plane_le db db'"
proof -
  from expire_if_due_Inr [OF ok] obtain at where at: "operation_now clock now = Inr at" "hit = operation_due at p"
      and sh: "if hit then g_operations db' = store_row o_id (expired_operation at p) (g_operations db)
         \<and> g_evidence db' = g_evidence db \<and> prefix (g_audits db) (g_audits db') \<and> plane_constraints db'
       else db' = db" by blast
  show ?thesis
  proof (cases hit)
    case False
    with sh inv show ?thesis by (simp add: plane_le_refl)
  next
    case True
    let ?p = "expired_operation at p"
    have c: "plane_constraints db" by (rule operations_invD(1) [OF inv])
    have c': "plane_constraints db'" and ops: "g_operations db' = store_row o_id ?p (g_operations db)"
        and rest: "g_evidence db' = g_evidence db" "prefix (g_audits db) (g_audits db')"
      using sh True by simp_all
    have due: "operation_due at p" using at True by simp
    have ks: "(closed_collection k \<or> k_operation_id k \<noteq> Some (o_id p)) \<and> (k_operation_id k \<noteq> Some (o_id p) \<longrightarrow> k \<in> set (g_collections db))"
      if "k \<in> set (g_collections db')" for k
      by (rule expired_collections [OF inv p at(1) due ok that])
    have "operations_inv db'"
      by (rule inv_close [OF inv c' p _ _ _ _ ops]) (use ks in \<open>auto simp: expired_operation_def\<close>)
    moreover have "plane_le db db'"
      using due rest by (intro plane_le_store_operation [OF plane_constraintsD(1) [OF c] p _ _ ops])
        (simp_all add: expired_operation_def same_operation_def operation_due_def)
    ultimately show ?thesis by simp
  qed
qed

lemma inv_expire_each:
  assumes "operations_inv db" and "set ps \<subseteq> set (g_operations db)" and "distinct (map o_id ps)"
    and "expire_each at ps db = Inr db'"
  shows "operations_inv db' \<and> plane_le db db'"
  using assms
proof (induction ps arbitrary: db)
  case Nil
  then show ?case by (simp add: plane_le_refl)
next
  case (Cons p ps)
  from Cons.prems obtain db1 hit where one: "expire_operation_if_due at p (Some (Aware at)) None db = Inr (db1, hit)"
      and rest: "expire_each at ps db1 = Inr db'" by auto
  have step: "operations_inv db1" "plane_le db db1"
    using inv_expire_one [OF Cons.prems(1) _ one] Cons.prems(2) by auto
  have "set ps \<subseteq> set (g_operations db1)"
  proof
    fix q
    assume q: "q \<in> set ps"
    moreover have "o_id p \<notin> o_id ` set ps" using Cons.prems(3) by simp
    ultimately have "o_id q \<noteq> o_id p" by (metis imageI)
    with q Cons.prems(2) expire_if_due_Inr [OF one] show "q \<in> set (g_operations db1)"
      by (auto simp: in_set_store_row expired_operation_def split: if_splits)
  qed
  with Cons.IH [OF step(1) _ _ rest] Cons.prems(3) step(2) show ?case by (auto intro: plane_le_trans)
qed

section \<open>Evidence\<close>

definition scrubbed :: "instant \<Rightarrow> evidence \<Rightarrow> evidence" where
  "scrubbed w e = e\<lparr>ev_safe_payload := None, ev_scrubbed_at := Some w\<rparr>"

lemma scrub_fold:
  "g_evidence (fold (scrub_evidence w) es db) = fold (\<lambda>e. store_row ev_id (scrubbed w e)) es (g_evidence db)
   \<and> g_operations (fold (scrub_evidence w) es db) = g_operations db
   \<and> g_collections (fold (scrub_evidence w) es db) = g_collections db
   \<and> g_audits (fold (scrub_evidence w) es db) = g_audits db"
  by (induction es arbitrary: db) (simp_all add: scrub_evidence_def scrub_steps_def scrubbed_def)

lemma scrub_rows:
  assumes "distinct (map ev_id rows)" "set es \<subseteq> set rows" "distinct (map ev_id es)"
  shows "fold (\<lambda>e. store_row ev_id (scrubbed w e)) es rows = map (\<lambda>x. if x \<in> set es then scrubbed w x else x) rows"
  by (rule store_chosen_rows [OF assms]) (simp add: scrubbed_def)

lemma cleanup_Inr:
  assumes inv: "operations_inv db" and ok: "cleanup_operation_results clock now limit db = Inr (db', n)"
  shows "\<exists>w es. set es \<subseteq> {e \<in> set (g_evidence db). scrub_due w e} \<and> distinct es \<and> n = length es
    \<and> g_evidence db' = map (\<lambda>x. if x \<in> set es then scrubbed w x else x) (g_evidence db)
    \<and> g_operations db' = g_operations db \<and> g_collections db' = g_collections db \<and> g_audits db' = g_audits db
    \<and> plane_constraints db'"
proof -
  have d: "distinct (map ev_id (g_evidence db))" by (rule plane_constraintsD(3) [OF operations_invD(1) [OF inv]])
  from ok obtain w where
    f: "plane_constraints (fold (scrub_evidence w) (take (nat limit) (sort_key expiry_order (filter (scrub_due w) (g_evidence db)))) db)"
      "db' = fold (scrub_evidence w) (take (nat limit) (sort_key expiry_order (filter (scrub_due w) (g_evidence db)))) db"
      "n = length (take (nat limit) (sort_key expiry_order (filter (scrub_due w) (g_evidence db))))"
    by (auto simp: cleanup_operation_results_def Let_def split: if_splits)
  define es where "es = take (nat limit) (sort_key expiry_order (filter (scrub_due w) (g_evidence db)))"
  note f = f [folded es_def]
  have sub: "set es \<subseteq> {e \<in> set (g_evidence db). scrub_due w e}"
    using set_take_subset [of "nat limit" "sort_key expiry_order (filter (scrub_due w) (g_evidence db))"]
    by (auto simp: es_def)
  have "distinct (filter (scrub_due w) (g_evidence db))" using d by (simp add: distinct_map)
  then have de: "distinct es" by (simp add: es_def)
  have "inj_on ev_id (set es)"
    by (rule inj_on_subset [of _ "set (g_evidence db)"]) (use d sub in \<open>auto simp: distinct_map\<close>)
  with de have "distinct (map ev_id es)" by (simp add: distinct_map)
  then have "g_evidence db' = map (\<lambda>x. if x \<in> set es then scrubbed w x else x) (g_evidence db)"
    using scrub_fold [of w es db] scrub_rows [OF d, of es w] sub f(2) by auto
  moreover have "g_operations db' = g_operations db" "g_collections db' = g_collections db" "g_audits db' = g_audits db"
      "plane_constraints db'"
    using f(1) scrub_fold [of w es db] by (simp_all add: f(2))
  ultimately show ?thesis using f(3) sub de by blast
qed

lemma inv_cleanup:
  assumes inv: "operations_inv db" and ok: "cleanup_operation_results clock now limit db = Inr (db', n)"
  shows "operations_inv db' \<and> plane_le db db'"
proof -
  from cleanup_Inr [OF assms] obtain w es where sub: "set es \<subseteq> {e \<in> set (g_evidence db). scrub_due w e}"
      and ev: "g_evidence db' = map (\<lambda>x. if x \<in> set es then scrubbed w x else x) (g_evidence db)"
      and same: "g_operations db' = g_operations db" "g_collections db' = g_collections db" "g_audits db' = g_audits db"
      and c': "plane_constraints db'" by blast
  have "\<exists>e'\<in>set (g_evidence db'). evidence_kept e e'" if e: "e \<in> set (g_evidence db)" for e
  proof (rule bexI)
    show "(if e \<in> set es then scrubbed w e else e) \<in> set (g_evidence db')" using e by (auto simp: ev)
    show "evidence_kept e (if e \<in> set es then scrubbed w e else e)"
      using sub by (auto simp: evidence_kept_def scrubbed_def scrub_due_def)
  qed
  moreover have "\<exists>p'\<in>set (g_operations db'). same_operation p p' \<and> (terminal_work (o_status p) \<longrightarrow> p' = p)"
    if "p \<in> set (g_operations db)" for p using that same(1) by (intro bexI [of _ p]) auto
  ultimately have "plane_le db db'" using same(3) by (simp add: plane_le_def)
  then show ?thesis using inv_frame [OF inv c' same(1,2)] by simp
qed

lemma inv_cleanup_steps:
  assumes inv: "operations_inv db" and ok: "cleanup_module_step_results clock now limit db = Inr (db', n)"
  shows "operations_inv db' \<and> plane_le db db'"
proof -
  from ok have "plane_constraints db' \<and> g_operations db' = g_operations db \<and> g_collections db' = g_collections db
      \<and> g_evidence db' = g_evidence db \<and> g_audits db' = g_audits db"
    by (auto simp: cleanup_module_step_results_def scrub_steps_def Let_def split: if_splits)
  then show ?thesis using inv_frame [OF inv, of db'] by (simp add: plane_le_grow)
qed

lemma pin_evidence_Inr:
  assumes "pin_operation_evidence sanitize clock oid kind who rid reason now db = Inr (db', e')"
  shows "(db' = db \<and> e' \<in> set (g_evidence db) \<and> ev_operation_id e' = oid \<and> ev_pinned_at e' \<noteq> None \<and> ev_safe_payload e' \<noteq> None)
    \<or> (\<exists>e w expiry a. e \<in> set (g_evidence db) \<and> ev_operation_id e = oid \<and> ev_pinned_at e = None
         \<and> ev_safe_payload e \<noteq> None \<and> ev_expires_at e = Some expiry \<and> w < expiry
         \<and> e' = pinned_evidence w kind who (map_option sanitize reason) e
         \<and> db' = (store_evidence e' db)\<lparr>g_audits := a\<rparr> \<and> prefix (g_audits db) a \<and> plane_constraints db')"
proof -
  from assms obtain w where w: "evidence_utc (case now of None \<Rightarrow> Aware clock | Some m \<Rightarrow> m) = Inr w"
    by (auto simp: pin_operation_evidence_def Let_def split: if_splits)
  with assms obtain e where e: "find (\<lambda>e. ev_operation_id e = oid) (g_evidence db) = Some e"
    by (auto simp: pin_operation_evidence_def Let_def split: if_splits option.splits)
  have live: "ev_safe_payload e \<noteq> None" "ev_scrubbed_at e = None"
    using assms w e by (auto simp: pin_operation_evidence_def Let_def split: if_splits)
  show ?thesis
  proof (cases "ev_pinned_at e = None")
    case False
    with assms w e live have "db' = db \<and> e' = e"
      by (auto simp: pin_operation_evidence_def Let_def split: if_splits)
    with False live find_SomeD [OF e] show ?thesis by auto
  next
    case True
    with assms w e live obtain expiry where x: "ev_expires_at e = Some expiry" "w < expiry"
      by (cases "ev_expires_at e") (auto simp: pin_operation_evidence_def Let_def split: if_splits)
    have e': "e' = pinned_evidence w kind who (map_option sanitize reason) e"
      using True assms w e live x by (auto simp: pin_operation_evidence_def Let_def split: if_splits)
    have "\<exists>a. db' = (store_evidence e' db)\<lparr>g_audits := a\<rparr> \<and> prefix (g_audits db) a \<and> plane_constraints db'"
      using True assms w e live x unfolding e' by (auto simp: pin_operation_evidence_def Let_def split: if_splits)
    with True live x e' find_SomeD [OF e] show ?thesis by blast
  qed
qed

lemma inv_pin:
  assumes inv: "operations_inv db" and ok: "pin_operation_evidence sanitize clock oid kind who rid reason now db = Inr (db', e')"
  shows "operations_inv db' \<and> plane_le db db'"
proof (cases "db' = db")
  case True
  with inv show ?thesis by (simp add: plane_le_refl)
next
  case False
  with pin_evidence_Inr [OF ok] obtain e w a where e: "e \<in> set (g_evidence db)" "ev_pinned_at e = None"
      and e': "e' = pinned_evidence w kind who (map_option sanitize reason) e"
      and db': "db' = (store_evidence e' db)\<lparr>g_audits := a\<rparr>" "prefix (g_audits db) a" "plane_constraints db'" by blast
  have "plane_le db db'"
    using e db' by (intro plane_le_store_evidence [OF plane_constraintsD(3) [OF operations_invD(1) [OF inv]] e(1), of e'])
      (auto simp: evidence_kept_def e' pinned_evidence_def)
  moreover have "operations_inv db'" by (rule inv_frame [OF inv db'(3)]) (simp_all add: db'(1))
  ultimately show ?thesis by simp
qed

lemma inv_record_evidence:
  assumes inv: "operations_inv db" and ok: "create_operation_evidence rendered digest i p kind payload at db = Inr (db', e)"
  shows "operations_inv db' \<and> plane_le db db'"
proof -
  from ok obtain e where db': "db' = db\<lparr>g_evidence := g_evidence db @ [e]\<rparr>" "plane_constraints db'"
    by (auto simp: create_operation_evidence_def Let_def split: if_splits)
  have "operations_inv db'" by (rule inv_frame [OF inv db'(2)]) (simp_all add: db'(1))
  moreover have "plane_le db db'" by (rule plane_le_grow) (auto simp: db'(1))
  ultimately show ?thesis by simp
qed

lemma inv_read:
  assumes inv: "operations_inv db" and ok: "read_operation_for_service clock oid cid now db = Inr (db', p)"
  shows "operations_inv db' \<and> plane_le db db'"
proof -
  from ok obtain p ac ki wh at where "append_operation_audit p ac ki wh at db = Inr db'" "plane_constraints db'"
    by (auto simp: read_operation_for_service_def)
  with append_operation_audit_Inr obtain a where db': "db' = db\<lparr>g_audits := a\<rparr>" "prefix (g_audits db) a" "plane_constraints db'"
    by blast
  have "operations_inv db'" by (rule inv_frame [OF inv db'(3)]) (simp_all add: db'(1))
  moreover have "plane_le db db'" by (rule plane_le_grow) (auto simp: db')
  ultimately show ?thesis by simp
qed

lemma due_operations_rows:
  assumes "plane_constraints db"
  shows "set (due_operations at n db) \<subseteq> set (g_operations db)" and "distinct (map o_id (due_operations at n db))"
    and "list_all (operation_due at) (due_operations at n db)"
proof -
  let ?all = "sort_key (\<lambda>p. (o_deadline_at p, o_id p)) (filter (operation_due at) (g_operations db))"
  show sub: "set (due_operations at n db) \<subseteq> set (g_operations db)"
    using set_take_subset [of n ?all] by (auto simp: due_operations_def)
  show "list_all (operation_due at) (due_operations at n db)"
    using set_take_subset [of n ?all] by (auto simp: due_operations_def list_all_iff)
  have d: "distinct (map o_id (g_operations db))" by (rule plane_constraintsD(1) [OF assms])
  have "inj_on o_id (set (due_operations at n db))"
    by (rule inj_on_subset [OF _ sub]) (use d in \<open>simp add: distinct_map\<close>)
  moreover have "distinct (due_operations at n db)"
    using d by (simp add: due_operations_def distinct_map)
  ultimately show "distinct (map o_id (due_operations at n db))" by (simp add: distinct_map)
qed

lemma inv_expire_operations:
  assumes inv: "operations_inv db" and ok: "expire_operations clock now limit db = Inr (db', n)"
  shows "operations_inv db' \<and> plane_le db db'"
proof -
  from ok obtain at where e: "expire_each at (due_operations at (nat limit) db) db = Inr db'"
    by (auto simp: expire_operations_def Let_def split: if_splits)
  with due_operations_rows [OF operations_invD(1) [OF inv]] inv_expire_each [OF inv] show ?thesis by blast
qed

section \<open>The service\<close>

datatype operation_request =
    CreateOperation "nat \<Rightarrow> uuid" instant operation_create "uuid option" "uuid option" string "moment option"
  | ReadOperation instant "uuid option" "uuid option" "moment option"
  | CancelForService instant "uuid option" "uuid option" "moment option"
  | CancelForAdmin instant "uuid option" "uuid option" "moment option"
  | ExpireOperations instant "moment option" int
  | RecordEvidence "json \<Rightarrow> nat option" "json \<Rightarrow> string" uuid uuid string json moment
  | PinEvidence "string \<Rightarrow> string" instant uuid string string string "string option" "moment option"
  | CleanupResults instant "moment option" int
  | CleanupSteps instant "moment option" int

fun operation_exec :: "operation_request \<Rightarrow> plane_db \<Rightarrow> operation_error + plane_db" where
  "operation_exec (CreateOperation gen clock req cid did key now) db =
     without_answer (create_operation_outcome gen clock req cid did key now db)"
| "operation_exec (ReadOperation clock oid cid now) db = without_answer (read_operation_for_service clock oid cid now db)"
| "operation_exec (CancelForService clock oid cid now) db = without_answer (cancel_operation_for_service clock oid cid now db)"
| "operation_exec (CancelForAdmin clock oid aid now) db = without_answer (cancel_operation_for_admin clock oid aid now db)"
| "operation_exec (ExpireOperations clock now limit) db = without_answer (expire_operations clock now limit db)"
| "operation_exec (RecordEvidence rendered digest i oid kind payload at) db =
     bindE (require EvidenceConflict (find_row o_id oid (g_operations db))) (\<lambda>p.
       without_answer (create_operation_evidence rendered digest i p kind payload at db))"
| "operation_exec (PinEvidence sanitize clock oid kind who rid reason now) db =
     without_answer (pin_operation_evidence sanitize clock oid kind who rid reason now db)"
| "operation_exec (CleanupResults clock now limit) db = without_answer (cleanup_operation_results clock now limit db)"
| "operation_exec (CleanupSteps clock now limit) db = without_answer (cleanup_module_step_results clock now limit db)"

lemma inv_cancel_service:
  assumes "operations_inv db" "cancel_operation_for_service clock oid cid now db = Inr (db', p)"
  shows "operations_inv db' \<and> plane_le db db'"
proof -
  from assms(2) obtain i c q at who where "owned_operation i c db = Inr q" "cancel_queued_operation q at ''service'' who db = Inr (db', p)"
    by (auto simp: cancel_operation_for_service_def)
  then show ?thesis using inv_cancel_queued [OF assms(1)] by (auto simp: owned_operation_def dest: find_SomeD)
qed

lemma inv_cancel_admin:
  assumes "operations_inv db" "cancel_operation_for_admin clock oid aid now db = Inr (db', p)"
  shows "operations_inv db' \<and> plane_le db db'"
proof -
  from assms(2) obtain i q at who where "find_row o_id i (g_operations db) = Some q" "cancel_queued_operation q at ''admin'' who db = Inr (db', p)"
    by (auto simp: cancel_operation_for_admin_def split: if_splits)
  then show ?thesis using inv_cancel_queued [OF assms(1)] find_row_SomeD by metis
qed

lemma operation_exec_inv: "operations_inv db \<Longrightarrow> operation_exec c db = Inr db' \<Longrightarrow> operations_inv db' \<and> plane_le db db'"
  by (cases c) (auto dest: inv_create_operation inv_read inv_cancel_service inv_cancel_admin inv_expire_operations
      inv_record_evidence inv_pin inv_cleanup inv_cleanup_steps)

interpretation operations: transactional_trail operation_exec operations_inv plane_le
  by unfold_locales (auto dest: operation_exec_inv intro: plane_le_refl plane_le_trans)

end
