(* ===== verification/Operation_Frames.thy ===== *)
theory Operation_Frames
  imports Operation_Invariants
begin

text \<open>
  The audit events of the Endpoint operations, the tables no operation request writes, and the
  keys the table constraints read: write-backs that keep the keys keep the constraints.
\<close>

section \<open>Audit events of an operation\<close>

definition operation_event :: "operation \<Rightarrow> string \<Rightarrow> string \<Rightarrow> string option \<Rightarrow> instant \<Rightarrow> audit_event" where
  "operation_event p action kind who at = redacted
     (audit kind who action ''endpoint_operation'' (Some (uuid_text (o_id p))) (audit_request_id (o_id p))
       [(''capability'', JStr (o_capability p)), (''device_id'', JStr (uuid_text (o_device_id p))),
        (''status'', JStr (work_text (o_status p)))] at)"

lemma operation_request_id: "\<not> blank (audit_request_id i)" "\<not> blank ''endpoint_operation''"
  by (simp_all add: audit_request_id_def blank_Cons py_isspace_def)

lemma append_operation_audit_ok:
  "\<not> blank action \<Longrightarrow> \<not> blank kind \<Longrightarrow>
     append_operation_audit p action kind who at db
     = Inr (db\<lparr>g_audits := g_audits db @ [operation_event p action kind who at]\<rparr>)"
  by (simp add: append_operation_audit_def append_audit_event_def operation_request_id operation_event_def redacted_def)

lemma plane_constraints_audits [simp]: "plane_constraints (db\<lparr>g_audits := a\<rparr>) = plane_constraints db"
  by (simp add: plane_constraints_def operations_constraints_def identity_constraints_def
      collections_constraints_def steps_constraints_def commands_constraints_def evidence_constraints_def
      cong: option.case_cong)

section \<open>The directory\<close>

text \<open>No operation request writes the tables of service clients and devices.\<close>

lemma store_directory [simp]:
  "g_clients (store_operation p db) = g_clients db" "g_clients (store_collection k db) = g_clients db"
  "g_clients (store_step s db) = g_clients db" "g_clients (store_command c db) = g_clients db"
  "g_clients (store_delivery d db) = g_clients db" "g_clients (store_evidence e db) = g_clients db"
  by (simp_all add: store_defs)

lemma expire_directory [simp]:
  "g_clients (expire_collection at k db) = g_clients db"
  "g_clients (expire_transport i d db) = g_clients db"
  by (auto simp: expire_collection_def expire_transport_def expire_command_def expire_delivery_def split: option.splits)

lemma expire_steps_directory [simp]: "g_clients (fold (expire_step at d) ss db) = g_clients db"
  by (induction ss arbitrary: db) (simp_all add: expire_step_def)

lemma append_operation_audit_directory:
  "append_operation_audit p ac ki wh at db = Inr db' \<Longrightarrow> g_clients db' = g_clients db"
  by (auto dest: append_operation_audit_Inr)

lemma expire_each_directory: "expire_each at ps db = Inr db' \<Longrightarrow> g_clients db' = g_clients db"
proof (induction ps arbitrary: db)
  case (Cons p ps)
  then obtain db1 hit where one: "expire_operation_if_due at p (Some (Aware at)) None db = Inr (db1, hit)"
      and rest: "expire_each at ps db1 = Inr db'" by auto
  have "g_clients db1 = g_clients db"
    using one by (auto simp: expire_operation_if_due_def expire_module_operation_def expire_diagnostic_operation_def
        Let_def dest: append_operation_audit_directory split: if_splits)
  with Cons.IH [OF rest] show ?case by simp
qed simp

lemma scrub_directory: "g_clients (fold (scrub_evidence w) es db) = g_clients db"
  by (induction es arbitrary: db) (simp_all add: scrub_evidence_def scrub_steps_def)

lemma cancel_queued_directory: "cancel_queued_operation p at kind who db = Inr (db', p') \<Longrightarrow> g_clients db' = g_clients db"
  by (auto dest!: cancel_queued_Inr)

lemma create_directory:
  "create_operation_outcome gen clock req cid did key now db = Inr (db', p, fresh) \<Longrightarrow> g_clients db' = g_clients db"
  by (drule create_operation_Inr) (auto split: if_splits)

lemma pin_directory:
  "pin_operation_evidence sanitize clock oid kind who rid reason now db = Inr (db', e) \<Longrightarrow> g_clients db' = g_clients db"
  by (auto dest!: pin_evidence_Inr)

lemma operation_exec_directory: "operation_exec c db = Inr db' \<Longrightarrow> g_clients db' = g_clients db"
  by (cases c)
    (auto simp: read_operation_for_service_def cancel_operation_for_service_def cancel_operation_for_admin_def
      expire_operations_def create_operation_evidence_def cleanup_operation_results_def cleanup_module_step_results_def
      scrub_steps_def scrub_directory Let_def
      dest: append_operation_audit_directory expire_each_directory cancel_queued_directory create_directory pin_directory
      split: if_splits)

interpretation operation_directory: transactional operation_exec "\<lambda>db. g_clients db = clients" for clients
  by unfold_locales (simp add: operation_exec_directory)

end
