(* ===== verification/Operation_Sweeps.thy ===== *)
theory Operation_Sweeps
  imports Operation_Frames
begin

text \<open>
  The expiry sweep returns: no write of the sweep changes a column the table constraints read
  except the status columns, whose rows stay well formed.
\<close>

section \<open>Keys\<close>

definition operation_keys :: "operation \<Rightarrow> uuid \<times> uuid \<times> string \<times> uuid option \<times> uuid option" where
  "operation_keys p = (o_id p, o_client_id p, o_idempotency_key p, o_collection_id p, o_command_id p)"

definition collection_keys ::
  "collection \<Rightarrow> uuid \<times> uuid \<times> string \<times> string \<times> string \<times> uuid option \<times> uuid option \<times> uuid option" where
  "collection_keys k = (k_id k, k_device_id k, k_profile k, k_requested_by k, k_idempotency_key k,
     k_command_id k, k_command_result_id k, k_operation_id k)"

definition step_keys :: "module_step \<Rightarrow> uuid \<times> uuid \<times> int \<times> string \<times> string \<times> uuid option" where
  "step_keys s = (s_id s, s_operation_id s, s_sequence s, s_recipe_step_key s, s_capability s, s_command_id s)"

definition plane_keys where
  "plane_keys db = (map operation_keys (g_operations db), map collection_keys (g_collections db),
     map step_keys (g_steps db), map (\<lambda>c. (cm_id c, cm_identifier c)) (g_commands db),
     map (\<lambda>d. (dl_id d, dl_identifier d)) (g_deliveries db), g_results db, g_evidence db)"

definition plane_rows_ok :: "plane_db \<Rightarrow> bool" where
  "plane_rows_ok db \<longleftrightarrow> list_all operation_row_ok (g_operations db)
     \<and> list_all (\<lambda>s. terminal_work (s_status s) \<longleftrightarrow> s_completed_at s \<noteq> None) (g_steps db)"

lemma map_filter_map: "List.map_filter f xs = List.map_filter id (map f xs)"
  by (induction xs) (simp_all add: List.map_filter_simps split: option.split)

text \<open>A function of the keys of a row.\<close>

definition through :: "('a \<Rightarrow> 'b) \<Rightarrow> ('a \<Rightarrow> 'c) \<Rightarrow> bool" where
  "through f g \<longleftrightarrow> (\<forall>x y. f x = f y \<longrightarrow> g x = g y)"

lemma operation_through:
  "through operation_keys o_id" "through operation_keys (\<lambda>p. (o_client_id p, o_idempotency_key p))"
  "through operation_keys o_collection_id" "through operation_keys o_command_id"
  by (auto simp: through_def operation_keys_def)

lemma collection_through:
  "through collection_keys k_id" "through collection_keys k_command_id" "through collection_keys k_command_result_id"
  "through collection_keys (\<lambda>k. (k_device_id k, k_profile k, k_requested_by k, k_idempotency_key k))"
  "through collection_keys k_operation_id"
  by (auto simp: through_def collection_keys_def)

lemma step_through:
  "through step_keys s_id" "through step_keys (\<lambda>s. (s_operation_id s, s_sequence s))"
  "through step_keys (\<lambda>s. (s_operation_id s, s_recipe_step_key s))" "through step_keys s_command_id"
  by (auto simp: through_def step_keys_def)

lemma map_through: "map f xs = map f ys \<Longrightarrow> through f g \<Longrightarrow> map g xs = map g ys"
proof (induction xs ys rule: list_induct2')
  case (4 x xs y ys)
  then have "f x = f y" "map f xs = map f ys" by simp_all
  moreover from this 4 have "g x = g y" unfolding through_def by blast
  ultimately show ?case using 4 by simp
qed simp_all

lemma unique_through: "map f xs = map f ys \<Longrightarrow> through f g \<Longrightarrow> unique_nullable g xs = unique_nullable g ys"
  using map_through [of f xs ys g] map_filter_map [of g xs] map_filter_map [of g ys]
  unfolding unique_nullable_def by metis

lemma list_all_through: "map f xs = map f ys \<Longrightarrow> through f P \<Longrightarrow> list_all P xs = list_all P ys"
proof -
  assume "map f xs = map f ys" "through f P"
  then have "map P xs = map P ys" by (rule map_through)
  moreover have "list_all P zs = list_all id (map P zs)" for zs by (simp add: list_all_iff)
  ultimately show ?thesis by simp
qed

lemma list_ex_through: "map f xs = map f ys \<Longrightarrow> through f P \<Longrightarrow> list_ex P xs = list_ex P ys"
proof -
  assume a: "map f xs = map f ys" and "through f P"
  then have "through f (\<lambda>x. \<not> P x)" unfolding through_def by blast
  from list_all_through [OF a this] show ?thesis by (auto simp: list_all_iff list_ex_iff)
qed

lemma identity_by_keys:
  assumes "map operation_keys (g_operations db') = map operation_keys (g_operations db)"
    "map collection_keys (g_collections db') = map collection_keys (g_collections db)"
  shows "identity_constraints db' = identity_constraints db"
proof -
  have ks: "list_ex (\<lambda>k. k_id k = i \<and> k_operation_id k = j) (g_collections db')
      = list_ex (\<lambda>k. k_id k = i \<and> k_operation_id k = j) (g_collections db)" for i j
    by (rule list_ex_through [OF assms(2)]) (auto simp: through_def collection_keys_def)
  have ps: "list_ex (\<lambda>p. o_id p = i \<and> o_collection_id p = j) (g_operations db')
      = list_ex (\<lambda>p. o_id p = i \<and> o_collection_id p = j) (g_operations db)" for i j
    by (rule list_ex_through [OF assms(1)]) (auto simp: through_def operation_keys_def)
  show ?thesis unfolding identity_constraints_def ks ps
    by (intro conj_cong list_all_through [OF assms(1)] list_all_through [OF assms(2)])
      (auto simp: through_def operation_keys_def collection_keys_def cong: option.case_cong)
qed

lemma operations_by_keys:
  assumes "map operation_keys (g_operations db') = map operation_keys (g_operations db)" "operations_constraints db"
    "list_all operation_row_ok (g_operations db')"
  shows "operations_constraints db'"
  using assms(2,3) map_through [OF assms(1) operation_through(1)] map_through [OF assms(1) operation_through(2)]
    unique_through [OF assms(1) operation_through(3)] unique_through [OF assms(1) operation_through(4)]
  by (simp only: operations_constraints_def)

lemma collections_by_keys:
  assumes "map collection_keys (g_collections db') = map collection_keys (g_collections db)" "collections_constraints db"
  shows "collections_constraints db'"
  using assms(2) map_through [OF assms(1) collection_through(1)] unique_through [OF assms(1) collection_through(2)]
    unique_through [OF assms(1) collection_through(3)] map_through [OF assms(1) collection_through(4)]
    unique_through [OF assms(1) collection_through(5)]
  by (simp only: collections_constraints_def)

lemma steps_by_keys:
  assumes "map step_keys (g_steps db') = map step_keys (g_steps db)" "steps_constraints db"
    "list_all (\<lambda>s. terminal_work (s_status s) \<longleftrightarrow> s_completed_at s \<noteq> None) (g_steps db')"
  shows "steps_constraints db'"
proof -
  have "list_all (\<lambda>s. 0 \<le> s_sequence s \<and> s_capability s \<in> set module_step_capabilities) (g_steps db')
      = list_all (\<lambda>s. 0 \<le> s_sequence s \<and> s_capability s \<in> set module_step_capabilities) (g_steps db)"
    by (rule list_all_through [OF assms(1)]) (auto simp: through_def step_keys_def)
  then have "list_all (\<lambda>s. 0 \<le> s_sequence s \<and> s_capability s \<in> set module_step_capabilities \<and> (terminal_work (s_status s) \<longleftrightarrow> s_completed_at s \<noteq> None)) (g_steps db')"
    using assms(2,3) by (auto simp: steps_constraints_def list_all_iff)
  then show ?thesis
    using assms(2) map_through [OF assms(1) step_through(1)] map_through [OF assms(1) step_through(2)]
      map_through [OF assms(1) step_through(3)] unique_through [OF assms(1) step_through(4)]
    by (simp only: steps_constraints_def)
qed

lemma constraints_by_keys:
  assumes keys: "plane_keys db' = plane_keys db" and c: "plane_constraints db" and rows: "plane_rows_ok db'"
  shows "plane_constraints db'"
proof -
  have cm: "map (\<lambda>c. (cm_id c, cm_identifier c)) (g_commands db') = map (\<lambda>c. (cm_id c, cm_identifier c)) (g_commands db)"
      and dl: "map (\<lambda>d. (dl_id d, dl_identifier d)) (g_deliveries db') = map (\<lambda>d. (dl_id d, dl_identifier d)) (g_deliveries db)"
      and rest: "g_results db' = g_results db" "g_evidence db' = g_evidence db"
    using keys by (simp_all add: plane_keys_def)
  have "map cm_id (g_commands db') = map cm_id (g_commands db)" "map cm_identifier (g_commands db') = map cm_identifier (g_commands db)"
    by (rule map_through [OF cm]; simp add: through_def)+
  moreover have "map dl_id (g_deliveries db') = map dl_id (g_deliveries db)" "map dl_identifier (g_deliveries db') = map dl_identifier (g_deliveries db)"
    by (rule map_through [OF dl]; simp add: through_def)+
  ultimately have "commands_constraints db' = commands_constraints db" "evidence_constraints db' = evidence_constraints db"
    by (simp_all add: commands_constraints_def evidence_constraints_def rest)
  then show ?thesis
    using keys c rows operations_by_keys [of db' db] collections_by_keys [of db' db] steps_by_keys [of db' db]
      identity_by_keys [of db' db]
    by (simp add: plane_constraints_def plane_keys_def plane_rows_ok_def)
qed

lemma constraints_rows_ok: "plane_constraints db \<Longrightarrow> plane_rows_ok db"
  by (auto simp: plane_constraints_def operations_constraints_def steps_constraints_def plane_rows_ok_def list_all_iff)

section \<open>The writes of the sweep\<close>

lemma map_key_store:
  assumes "distinct (map key rows)" "f r \<in> f ` set rows" "through f key"
  shows "map f (store_row key r rows) = map f rows"
proof (rule map_store_row_other)
  from assms(2) obtain y where y: "y \<in> set rows" "f y = f r" by auto
  fix x
  assume "x \<in> set rows" "key x = key r"
  moreover have "key y = key r" using y(2) assms(3) unfolding through_def by blast
  ultimately have "x = y" using distinct_map_inj [OF assms(1) _ y(1)] by simp
  with y show "f x = f r" by simp
qed

lemma plane_distinct:
  assumes "plane_constraints db"
  shows "distinct (map s_id (g_steps db))" "distinct (map cm_id (g_commands db))" "distinct (map dl_id (g_deliveries db))"
  using assms by (simp_all add: plane_constraints_def steps_constraints_def commands_constraints_def)

lemma keep_constraints:
  assumes "plane_constraints db" "plane_keys db' = plane_keys db" "plane_rows_ok db \<Longrightarrow> plane_rows_ok db'"
  shows "plane_constraints db' \<and> plane_keys db' = plane_keys db"
  using assms constraints_by_keys constraints_rows_ok by blast

lemma expire_command_ok:
  assumes c: "plane_constraints db"
  shows "plane_constraints (expire_command i d db) \<and> plane_keys (expire_command i d db) = plane_keys db"
proof (cases "find (\<lambda>c. cm_id c = i \<and> cm_device_id c = d) (g_commands db)")
  case None
  with c show ?thesis by (simp add: expire_command_def)
next
  case (Some x)
  have "map (\<lambda>c. (cm_id c, cm_identifier c)) (store_row cm_id (x\<lparr>cm_status := Expired\<rparr>) (g_commands db))
      = map (\<lambda>c. (cm_id c, cm_identifier c)) (g_commands db)"
    using find_SomeD [OF Some] by (intro map_key_store [OF plane_distinct(2) [OF c]]) (auto simp: through_def intro!: image_eqI [of _ _ x])
  with c Some show ?thesis
    by (intro keep_constraints [OF c]) (auto simp: expire_command_def plane_keys_def plane_rows_ok_def store_command_def)
qed

lemma expire_delivery_ok:
  assumes c: "plane_constraints db"
  shows "plane_constraints (expire_delivery i db) \<and> plane_keys (expire_delivery i db) = plane_keys db"
proof (cases "find (\<lambda>d. dl_command_id d = i) (g_deliveries db)")
  case None
  with c show ?thesis by (simp add: expire_delivery_def)
next
  case (Some x)
  have "map (\<lambda>c. (dl_id c, dl_identifier c)) (store_row dl_id (x\<lparr>dl_status := Expired\<rparr>) (g_deliveries db))
      = map (\<lambda>c. (dl_id c, dl_identifier c)) (g_deliveries db)"
    using find_SomeD [OF Some] by (intro map_key_store [OF plane_distinct(3) [OF c]]) (auto simp: through_def intro!: image_eqI [of _ _ x])
  with c Some show ?thesis
    by (intro keep_constraints [OF c]) (auto simp: expire_delivery_def plane_keys_def plane_rows_ok_def store_delivery_def)
qed

lemma expire_transport_ok:
  assumes c: "plane_constraints db"
  shows "plane_constraints (expire_transport i d db) \<and> plane_keys (expire_transport i d db) = plane_keys db"
  using c expire_command_ok expire_delivery_ok by (auto simp: expire_transport_def split: option.split)

lemma expire_step_ok:
  assumes c: "plane_constraints db" and s: "step_keys s \<in> step_keys ` set (g_steps db)"
  shows "plane_constraints (expire_step at d s db) \<and> plane_keys (expire_step at d s db) = plane_keys db"
proof (cases "terminal_work (s_status s)")
  case True
  with c show ?thesis by (simp add: expire_step_def)
next
  case False
  let ?s = "s\<lparr>s_status := Expired, s_error_code := Some ''operation_expired'', s_completed_at := Some at\<rparr>"
  have "step_keys ?s = step_keys s" by (simp add: step_keys_def)
  then have "map step_keys (store_row s_id ?s (g_steps db)) = map step_keys (g_steps db)"
    using s by (intro map_key_store [OF plane_distinct(1) [OF c]]) (auto simp: step_through)
  moreover have "plane_rows_ok (store_step ?s db)"
    using constraints_rows_ok [OF c] by (auto simp: plane_rows_ok_def store_step_def list_all_iff in_set_store_row)
  ultimately have "plane_constraints (store_step ?s db) \<and> plane_keys (store_step ?s db) = plane_keys db"
    by (intro keep_constraints [OF c]) (auto simp: plane_keys_def store_step_def)
  with False expire_transport_ok [of "store_step ?s db"] show ?thesis by (simp add: expire_step_def)
qed

lemma plane_keys_steps:
  assumes "plane_keys db' = plane_keys db"
  shows "step_keys ` set (g_steps db') = step_keys ` set (g_steps db)"
proof -
  have "map step_keys (g_steps db') = map step_keys (g_steps db)" using assms by (simp add: plane_keys_def)
  then have "set (map step_keys (g_steps db')) = set (map step_keys (g_steps db))" by (rule arg_cong)
  then show ?thesis by simp
qed

lemma expire_steps_ok:
  assumes "plane_constraints db" "step_keys ` set ss \<subseteq> step_keys ` set (g_steps db)"
  shows "plane_constraints (fold (expire_step at d) ss db) \<and> plane_keys (fold (expire_step at d) ss db) = plane_keys db"
  using assms
proof (induction ss arbitrary: db)
  case (Cons s ss)
  have "plane_constraints (expire_step at d s db) \<and> plane_keys (expire_step at d s db) = plane_keys db"
    using Cons.prems by (intro expire_step_ok) auto
  with Cons.IH [of "expire_step at d s db"] Cons.prems(2) plane_keys_steps [of "expire_step at d s db" db] show ?case by simp
qed simp

lemma expire_collection_ok:
  assumes c: "plane_constraints db" and k: "\<And>x. k = Some x \<Longrightarrow> x \<in> set (g_collections db)"
  shows "plane_constraints (expire_collection at k db) \<and> plane_keys (expire_collection at k db) = plane_keys db"
proof (cases k)
  case None
  with c show ?thesis by (simp add: expire_collection_def)
next
  case (Some x)
  let ?x = "x\<lparr>k_status := CExpired, k_failed_at := Some at, k_failure_code := Some ''operation_expired''\<rparr>"
  have "collection_keys ?x = collection_keys x" by (simp add: collection_keys_def)
  then have "map collection_keys (store_row k_id ?x (g_collections db)) = map collection_keys (g_collections db)"
    using k [OF Some] by (intro map_key_store [OF plane_constraintsD(2) [OF c]]) (auto simp: collection_through)
  with c Some show ?thesis
    by (intro keep_constraints [OF c]) (auto simp: expire_collection_def plane_keys_def plane_rows_ok_def store_collection_def)
qed

lemma store_expired_ok:
  assumes c: "plane_constraints db" and p: "p \<in> set (g_operations db)"
  shows "plane_constraints (store_operation (expired_operation at p) db)
     \<and> plane_keys (store_operation (expired_operation at p) db) = plane_keys db"
proof (rule keep_constraints [OF c])
  have "operation_keys (expired_operation at p) = operation_keys p" by (simp add: operation_keys_def expired_operation_def)
  then have "map operation_keys (store_row o_id (expired_operation at p) (g_operations db)) = map operation_keys (g_operations db)"
    using p by (intro map_key_store [OF plane_constraintsD(1) [OF c]]) (auto simp: operation_through)
  then show "plane_keys (store_operation (expired_operation at p) db) = plane_keys db"
    by (simp add: plane_keys_def store_operation_def)
  have "operation_row_ok (expired_operation at p)"
    using constraints_rows_ok [OF c] p by (auto simp: plane_rows_ok_def list_all_iff operation_row_ok_def module_shape_def expired_operation_def)
  then show "plane_rows_ok (store_operation (expired_operation at p) db)"
    using constraints_rows_ok [OF c] by (auto simp: plane_rows_ok_def store_operation_def list_all_iff in_set_store_row)
qed

section \<open>The sweep returns\<close>

text \<open>A recipe operation the expiry refuses: it has a command of its own or no steps.\<close>

definition expiry_refused :: "plane_db \<Rightarrow> operation \<Rightarrow> bool" where
  "expiry_refused db p \<longleftrightarrow> o_capability p = ''endpoint.module.recipe''
     \<and> (o_command_id p \<noteq> None \<or> \<not> list_ex (\<lambda>s. s_operation_id s = o_id p) (g_steps db))"

lemma expire_module_total:
  assumes c: "plane_constraints db" and p: "p \<in> set (g_operations db)" and s: "list_ex (\<lambda>s. s_operation_id s = o_id p) (g_steps db)"
  shows "\<exists>db'. expire_module_operation p at db = Inr db' \<and> plane_constraints db' \<and> plane_keys db' = plane_keys db"
proof -
  let ?ss = "filter (\<lambda>s. s_operation_id s = o_id p) (g_steps db)"
  let ?db = "store_operation (expired_operation at p) db"
  have "?ss \<noteq> []" using s by (auto simp: list_ex_iff filter_empty_conv)
  moreover have "plane_constraints (fold (expire_step at (o_device_id p)) ?ss ?db)
      \<and> plane_keys (fold (expire_step at (o_device_id p)) ?ss ?db) = plane_keys db"
    using expire_steps_ok [of ?db ?ss] store_expired_ok [OF c p, of at] plane_keys_steps [of ?db db] by auto
  moreover have "\<not> blank (''module-operation-'' @ uuid_hex (o_id p))" "\<not> blank ''system''" "\<not> blank ''endpoint.module_operation_expired''"
      "\<not> blank ''endpoint_operation''"
    by (simp_all add: blank_Cons py_isspace_def)
  ultimately show ?thesis
    by (simp add: expire_module_operation_def Let_def append_audit_event_def flush_plane_def) (simp add: plane_keys_def)
qed

lemma expire_diagnostic_total:
  assumes c: "plane_constraints db" and p: "p \<in> set (g_operations db)"
  shows "\<exists>db'. expire_diagnostic_operation p at None db = Inr db' \<and> plane_constraints db' \<and> plane_keys db' = plane_keys db"
proof -
  let ?db = "store_operation (expired_operation at p) db"
  let ?k = "find (\<lambda>k. k_operation_id k = Some (o_id p)) (g_collections db)"
  have 1: "plane_constraints ?db" "plane_keys ?db = plane_keys db" using store_expired_ok [OF c p] by auto
  have 2: "plane_constraints (expire_collection at ?k ?db) \<and> plane_keys (expire_collection at ?k ?db) = plane_keys ?db"
    by (rule expire_collection_ok [OF 1(1)]) (auto dest: find_SomeD)
  then have "plane_constraints (expire_transport (o_command_id p) (o_device_id p) (expire_collection at ?k ?db))
      \<and> plane_keys (expire_transport (o_command_id p) (o_device_id p) (expire_collection at ?k ?db)) = plane_keys db"
    using expire_transport_ok 1 by simp
  moreover have "\<not> blank ''endpoint.operation_expired''" "\<not> blank ''system''" by (simp_all add: blank_Cons py_isspace_def)
  ultimately show ?thesis
    by (simp add: expire_diagnostic_operation_def Let_def append_operation_audit_ok flush_plane_def) (simp add: plane_keys_def)
qed

lemma keys_steps_ex:
  assumes "plane_keys db' = plane_keys db"
  shows "list_ex (\<lambda>s. s_operation_id s = i) (g_steps db') = list_ex (\<lambda>s. s_operation_id s = i) (g_steps db)"
  by (rule list_ex_through [of step_keys]) (use assms in \<open>auto simp: plane_keys_def through_def step_keys_def\<close>)

lemma expire_one:
  assumes "plane_constraints db" "p \<in> set (g_operations db)" "operation_due at p"
  shows "if expiry_refused db p then expire_operation_if_due at p (Some (Aware at)) None db = Inl OperationValidationError
    else \<exists>db1. expire_operation_if_due at p (Some (Aware at)) None db = Inr (db1, True) \<and> plane_constraints db1 \<and> plane_keys db1 = plane_keys db"
proof (cases "o_capability p = ''endpoint.module.recipe''")
  case True
  show ?thesis
  proof (cases "o_command_id p = None \<and> list_ex (\<lambda>s. s_operation_id s = o_id p) (g_steps db)")
    case ready: True
    with True assms expire_module_total [OF assms(1,2)] show ?thesis by (auto simp: expire_operation_if_due_def expiry_refused_def)
  next
    case False
    with True assms(3) show ?thesis
      by (auto simp: expire_operation_if_due_def expire_module_operation_def expiry_refused_def list_ex_iff Let_def filter_empty_conv)
  qed
next
  case False
  with assms expire_diagnostic_total [OF assms(1,2)] show ?thesis by (auto simp: expire_operation_if_due_def expiry_refused_def)
qed

lemma expire_each_outcome:
  assumes "plane_constraints db" "set ps \<subseteq> set (g_operations db)" "distinct (map o_id ps)" "list_all (operation_due at) ps"
  shows "if \<exists>p\<in>set ps. expiry_refused db p then expire_each at ps db = Inl OperationValidationError
    else \<exists>db'. expire_each at ps db = Inr db'"
  using assms
proof (induction ps arbitrary: db)
  case (Cons p ps)
  have p: "p \<in> set (g_operations db)" "operation_due at p" using Cons.prems by simp_all
  note once = expire_one [OF Cons.prems(1) p]
  show ?case
  proof (cases "expiry_refused db p")
    case True
    with once show ?thesis by simp
  next
    case False
    with once obtain db1 where one: "expire_operation_if_due at p (Some (Aware at)) None db = Inr (db1, True)"
        and c1: "plane_constraints db1" and k1: "plane_keys db1 = plane_keys db" by auto
    have "set ps \<subseteq> set (g_operations db1)"
    proof
      fix q
      assume q: "q \<in> set ps"
      moreover have "o_id p \<notin> o_id ` set ps" using Cons.prems(3) by simp
      ultimately have "o_id q \<noteq> o_id p" by (metis imageI)
      with q Cons.prems(2) expire_if_due_Inr [OF one] show "q \<in> set (g_operations db1)"
        by (auto simp: in_set_store_row expired_operation_def split: if_splits)
    qed
    moreover have "expiry_refused db1 q = expiry_refused db q" for q by (simp add: expiry_refused_def keys_steps_ex [OF k1])
    ultimately show ?thesis using Cons.IH [OF c1] Cons.prems(3,4) one False by auto
  qed
qed simp

end
