(* ===== verification/Operation_Properties.thy ===== *)
theory Operation_Properties
  imports Operation_Sweeps
begin

text \<open>
  The properties of the Endpoint operations: what a caller may rely on after any history of
  requests, and what the expiry and retention sweeps do.
\<close>

section \<open>A state for the witnesses\<close>

definition demo_client :: service_client where
  "demo_client = \<lparr>sc_id = 7, sc_client_identifier = ''svc'', sc_disabled_at = None\<rparr>"

definition demo_operation :: operation where
  "demo_operation = \<lparr>o_id = 1, o_created_at = 0, o_client_id = 7, o_device_id = 9, o_idempotency_key = ''key-0001'',
     o_capability = ''context.diagnostic.collect'', o_parameters = JObj [(''reason'', JStr ''check'')], o_correlation = None,
     o_status = Queued, o_deadline_at = 100, o_completed_at = None, o_error_code = None,
     o_collection_id = Some 2, o_command_id = None, o_module_version_id = None, o_module_inputs = None,
     o_expected_step_count = None\<rparr>"

definition demo_collection :: collection where
  "demo_collection = \<lparr>k_id = 2, k_created_at = 0, k_device_id = 9, k_profile = ''diagnostic_v1'', k_requested_by = ''svc'',
     k_idempotency_key = ''key-0001'', k_command_id = None, k_command_result_id = None, k_operation_id = Some 1,
     k_status = CRequested, k_requested_at = 0, k_result_received_at = None, k_validated_at = None,
     k_completed_at = None, k_failed_at = None, k_expires_at = Some 100, k_failure_code = None, k_raw_result_payload = None\<rparr>"

definition demo_evidence :: evidence where
  "demo_evidence = \<lparr>ev_id = 3, ev_operation_id = 4, ev_result_kind = ''diagnostic'', ev_safe_payload = Some (JObj []),
     ev_sha256 = ''00'', ev_created_at = 0, ev_expires_at = Some 50, ev_pinned_at = None, ev_pinned_by_kind = None,
     ev_pinned_by = None, ev_pin_reason = None, ev_scrubbed_at = None\<rparr>"

definition demo_done :: operation where
  "demo_done = demo_operation\<lparr>o_id := 4, o_idempotency_key := ''key-0002'', o_status := Succeeded,
     o_completed_at := Some 40, o_collection_id := None\<rparr>"

definition demo_plane :: plane_db where
  "demo_plane = \<lparr>g_clients = [demo_client], g_devices = [\<lparr>dv_id = 9, dv_retired_at = None\<rparr>],
     g_operations = [demo_operation, demo_done], g_collections = [demo_collection], g_steps = [], g_commands = [],
     g_deliveries = [], g_results = [], g_sessions = [], g_instances = [], g_evidence = [demo_evidence],
     g_definitions = [], g_versions = [], g_validation_runs = [], g_live_tests = [], g_audits = []\<rparr>"

lemma demo_plane_inv: "operations_inv demo_plane"
  by code_simp

section \<open>Histories\<close>

text \<open>Whatever requests the operation service has served, an operation that has a private
  collection has exactly one, and the two are closed together: the operation is succeeded, failed,
  cancelled or expired exactly when its collection is completed, failed or expired.\<close>

theorem operation_and_collection_close_together:
  assumes "operations_inv db" and "p \<in> set (g_operations (serve operation_exec cs db))" and "o_collection_id p = Some i"
  shows "\<exists>!k. k \<in> set (g_collections (serve operation_exec cs db)) \<and> k_operation_id k = Some (o_id p)
           \<and> k_id k = i \<and> terminal_work (o_status p) = closed_collection k"
proof -
  have inv: "operations_inv (serve operation_exec cs db)" by (rule operations.serve_inv [OF assms(1)])
  note c = operations_invD(1) [OF inv]
  have "list_ex (\<lambda>k. k_id k = i \<and> k_operation_id k = Some (o_id p)) (g_collections (serve operation_exec cs db))"
    using c assms(2,3) by (auto simp: plane_constraints_def identity_constraints_def list_all_iff split: option.splits)
  then obtain k where k: "k \<in> set (g_collections (serve operation_exec cs db))" "k_id k = i" "k_operation_id k = Some (o_id p)"
    by (auto simp: list_ex_iff)
  with operations_invD(3) [OF inv assms(2) k(1)] collection_unique [OF c _ k(1) _ k(3)] show ?thesis by blast
qed

theorem operation_and_collection_close_together_witness:
  "\<exists>!k. k \<in> set (g_collections (serve operation_exec [] demo_plane)) \<and> k_operation_id k = Some (o_id demo_operation)
     \<and> k_id k = 2 \<and> terminal_work (o_status demo_operation) = closed_collection k"
  using operation_and_collection_close_together [OF demo_plane_inv, of demo_operation "[]" 2]
  by (simp add: demo_plane_def demo_operation_def)

text \<open>An operation that has ended is final: after any history its row is still there, unchanged
  in every column, and the identity of an open operation (client, device, key, capability,
  parameters, deadline) never changes.\<close>

theorem ended_operations_are_final:
  assumes "operations_inv db" and "p \<in> set (g_operations db)"
  shows "\<exists>p'\<in>set (g_operations (serve operation_exec cs db)).
           same_operation p p' \<and> (terminal_work (o_status p) \<longrightarrow> p' = p)"
  using operations.serve_le [OF assms(1), of cs] assms(2) unfolding plane_le_def by blast

theorem ended_operations_are_final_witness:
  "demo_done \<in> set (g_operations (serve operation_exec [ExpireOperations 500 None 10, CleanupResults 500 None 5] demo_plane))"
  using ended_operations_are_final [OF demo_plane_inv, of demo_done "[ExpireOperations 500 None 10, CleanupResults 500 None 5]"]
  by (auto simp: demo_plane_def demo_done_def)

section \<open>Creating\<close>

lemma create_operation_replay:
  assumes "idempotency_key key = Inr key" "oc_capability req = ''context.diagnostic.collect''" "operation_now clock now = Inr at"
    and "find_row sc_id c (g_clients db) = Some sc"
    and "find (\<lambda>p. o_client_id p = c \<and> o_idempotency_key p = key) (g_operations db) = Some p"
    and "o_device_id p = d" "o_capability p = oc_capability req" "o_parameters p = JObj [(''reason'', JStr (oc_reason req))]"
    and "plane_constraints db"
  shows "create_operation_outcome gen clock req (Some c) (Some d) key now db
    = Inr (db\<lparr>g_audits := g_audits db @ [operation_event p ''endpoint.operation_replayed'' ''service'' (Some (sc_client_identifier sc)) at]\<rparr>, p, False)"
proof -
  have prof: "profile_for_capability (oc_capability req) = Inr ''diagnostic_v1''"
    by (simp add: assms(2) profile_for_capability_def capability_profiles_def)
  have nb: "\<not> blank ''endpoint.operation_replayed''" "\<not> blank ''service''" by (simp_all add: blank_Cons py_isspace_def)
  show ?thesis using assms prof
    by (simp add: create_operation_outcome_def operation_uuid_def normalized_request_def append_operation_audit_ok [OF nb] flush_plane_def)
qed

lemma create_operation_member:
  assumes "create_operation_outcome gen clock req (Some c) (Some d) key now db = Inr (db1, p, fresh)"
  shows "p \<in> set (g_operations db1)" and "o_client_id p = c" and "o_idempotency_key p = key" and "o_device_id p = d"
    and "(o_capability p, o_parameters p) = normalized_request req" and "idempotency_key key = Inr key"
    and "oc_capability req = ''context.diagnostic.collect''"
proof -
  from create_operation_Inr [OF assms] obtain a at where
    sh: "if fresh then p = new_operation gen c d key (o_capability p) (o_parameters p) at
              \<and> find (\<lambda>p. o_client_id p = c \<and> o_idempotency_key p = key) (g_operations db) = None
              \<and> db1 = db\<lparr>g_operations := g_operations db @ [p],
                   g_collections := g_collections db @ [new_collection gen c d key ''diagnostic_v1'' at], g_audits := a\<rparr>
          else p \<in> set (g_operations db) \<and> db1 = db\<lparr>g_audits := a\<rparr>"
    and ids: "o_client_id p = c" "o_idempotency_key p = key" "o_device_id p = d"
      "(o_capability p, o_parameters p) = normalized_request req" "idempotency_key key = Inr key"
      "oc_capability req = ''context.diagnostic.collect''"
    by blast
  show "p \<in> set (g_operations db1)"
  proof (cases fresh)
    case True
    define k where "k = new_collection gen c d key ''diagnostic_v1'' at"
    from sh True have "db1 = db\<lparr>g_operations := g_operations db @ [p], g_collections := g_collections db @ [k], g_audits := a\<rparr>"
      unfolding k_def [symmetric] by (simp only: if_True)
    then have "g_operations db1 = g_operations db @ [p]" by simp
    then show ?thesis by simp
  next
    case False
    with sh have "p \<in> set (g_operations db)" "g_operations db1 = g_operations db" by simp_all
    then show ?thesis by simp
  qed
qed (use create_operation_Inr [OF assms] in blast)+

lemma created_operation_found:
  assumes inv: "operations_inv db" and ok: "create_operation_outcome gen clock req (Some c) (Some d) key now db = Inr (db1, p, fresh)"
  shows "\<exists>p'. find (\<lambda>p. o_client_id p = c \<and> o_idempotency_key p = key) (g_operations (serve operation_exec cs db1)) = Some p'
    \<and> same_operation p p'"
proof -
  have inv1: "operations_inv db1" using inv_create_operation [OF inv ok] by simp
  note p = create_operation_member [OF ok]
  from operations.serve_le [OF inv1, of cs] p(1) obtain p' where p': "p' \<in> set (g_operations (serve operation_exec cs db1))" "same_operation p p'"
    unfolding plane_le_def by blast
  have d: "distinct (map (\<lambda>p. (o_client_id p, o_idempotency_key p)) (g_operations (serve operation_exec cs db1)))"
    by (rule plane_constraintsD(4) [OF operations_invD(1) [OF operations.serve_inv [OF inv1]]])
  have "find (\<lambda>p. o_client_id p = c \<and> o_idempotency_key p = key) (g_operations (serve operation_exec cs db1)) = Some p'"
  proof (rule find_unique [OF p'(1)])
    show k': "o_client_id p' = c \<and> o_idempotency_key p' = key" using p'(2) p(2,3) by (simp add: same_operation_def)
    show "y = p'" if "y \<in> set (g_operations (serve operation_exec cs db1))" "o_client_id y = c \<and> o_idempotency_key y = key" for y
      using distinct_map_inj [OF d that(1) p'(1)] that(2) k' by simp
  qed
  with p'(2) show ?thesis by blast
qed

text \<open>C11. Creation is idempotent for ever: once a client has created an operation under a key, then after
  any history the same request under that key answers with that operation and writes nothing but one
  audit event, and a request under the same key for another device or with another reason is refused
  as a conflict.\<close>

theorem create_operation_idempotent:
  assumes "operations_inv db" and "create_operation_outcome gen clock req (Some c) (Some d) key now db = Inr (db1, p, fresh)"
    and "operation_now clock' now' = Inr at"
  shows "\<exists>p' ev. same_operation p p'
     \<and> create_operation_outcome gen' clock' req (Some c) (Some d) key now' (serve operation_exec cs db1)
       = Inr ((serve operation_exec cs db1)\<lparr>g_audits := g_audits (serve operation_exec cs db1) @ [ev]\<rparr>, p', False)
     \<and> (\<forall>d' reason. d' \<noteq> d \<or> reason \<noteq> oc_reason req \<longrightarrow>
          create_operation_outcome gen' clock' (req\<lparr>oc_reason := reason\<rparr>) (Some c) (Some d') key now' (serve operation_exec cs db1)
          = Inl (OperationConflict ''endpoint_operation_idempotency_conflict''))"
proof -
  let ?db = "serve operation_exec cs db1"
  from created_operation_found [OF assms(1,2), of cs] obtain p' where
    f: "find (\<lambda>p. o_client_id p = c \<and> o_idempotency_key p = key) (g_operations ?db) = Some p'" and s: "same_operation p p'" by blast
  have inv1: "operations_inv db1" using inv_create_operation [OF assms(1,2)] by simp
  have cd: "plane_constraints ?db" by (rule operations_invD(1) [OF operations.serve_inv [OF inv1]])
  have dir: "g_clients ?db = g_clients db"
    by (rule operation_directory.serve_inv) (rule create_directory [OF assms(2)])
  have key: "idempotency_key key = Inr key" and cap: "oc_capability req = ''context.diagnostic.collect''"
      and same: "o_device_id p' = d" "o_capability p' = oc_capability req" "o_parameters p' = JObj [(''reason'', JStr (oc_reason req))]"
    using create_operation_member [OF assms(2)] s by (simp_all add: same_operation_def normalized_request_def)
  obtain sc where sc: "find_row sc_id c (g_clients db) = Some sc"
    using assms(2) by (auto simp: create_operation_outcome_def operation_uuid_def normalized_request_def)
  have prof: "profile_for_capability (oc_capability req) = Inr ''diagnostic_v1''"
    by (simp add: cap profile_for_capability_def capability_profiles_def)
  have "create_operation_outcome gen' clock' req (Some c) (Some d) key now' ?db
      = Inr (?db\<lparr>g_audits := g_audits ?db @ [operation_event p' ''endpoint.operation_replayed'' ''service'' (Some (sc_client_identifier sc)) at]\<rparr>, p', False)"
    using sc dir same by (intro create_operation_replay [OF key cap assms(3) _ f _ _ _ cd]) simp_all
  moreover have "create_operation_outcome gen' clock' (req\<lparr>oc_reason := reason\<rparr>) (Some c) (Some d') key now' ?db
      = Inl (OperationConflict ''endpoint_operation_idempotency_conflict'')" if "d' \<noteq> d \<or> reason \<noteq> oc_reason req" for d' reason
    using that f key prof assms(3) sc dir same
    by (auto simp: create_operation_outcome_def operation_uuid_def normalized_request_def)
  ultimately show ?thesis using s by blast
qed

definition demo_request :: operation_create where
  "demo_request = \<lparr>oc_capability = ''context.diagnostic.collect'', oc_reason = ''check''\<rparr>"

lemma demo_key: "idempotency_key ''key-0001'' = Inr ''key-0001''"
  by code_simp

lemma demo_replay:
  "create_operation_outcome (\<lambda>n. 20 + n) 10 demo_request (Some 7) (Some 9) ''key-0001'' None demo_plane
   = Inr (demo_plane\<lparr>g_audits := [operation_event demo_operation ''endpoint.operation_replayed'' ''service'' (Some ''svc'') 10]\<rparr>,
       demo_operation, False)"
proof -
  have f: "find_row sc_id 7 (g_clients demo_plane) = Some demo_client"
      "find (\<lambda>p. o_client_id p = 7 \<and> o_idempotency_key p = ''key-0001'') (g_operations demo_plane) = Some demo_operation"
    by code_simp+
  have g: "g_audits demo_plane @ [x] = [x]" "sc_client_identifier demo_client = ''svc''" for x
    by (simp_all add: demo_plane_def demo_client_def)
  have "operation_now 10 None = Inr 10" "oc_capability demo_request = ''context.diagnostic.collect''"
      "o_device_id demo_operation = 9" "o_capability demo_operation = oc_capability demo_request"
      "o_parameters demo_operation = JObj [(''reason'', JStr (oc_reason demo_request))]"
    by (simp_all add: demo_request_def demo_operation_def)
  from create_operation_replay [OF demo_key this(2,1) f this(3-5) operations_invD(1) [OF demo_plane_inv]]
  show ?thesis unfolding g .
qed

theorem create_operation_idempotent_witness:
  "\<exists>p' ev. same_operation demo_operation p'
     \<and> create_operation_outcome (\<lambda>n. 30 + n) 20 demo_request (Some 7) (Some 9) ''key-0001'' None
         (serve operation_exec [] (demo_plane\<lparr>g_audits := [operation_event demo_operation ''endpoint.operation_replayed'' ''service'' (Some ''svc'') 10]\<rparr>))
       = Inr (demo_plane\<lparr>g_audits := [operation_event demo_operation ''endpoint.operation_replayed'' ''service'' (Some ''svc'') 10] @ [ev]\<rparr>, p', False)"
proof -
  define a where "a = [operation_event demo_operation ''endpoint.operation_replayed'' ''service'' (Some ''svc'') 10]"
  have "operation_now 20 None = Inr 20" by simp
  from create_operation_idempotent [OF demo_plane_inv demo_replay this, of "\<lambda>n. 30 + n" "[]"]
  obtain p' ev where "same_operation demo_operation p'"
      and "create_operation_outcome (\<lambda>n. 30 + n) 20 demo_request (Some 7) (Some 9) ''key-0001'' None
        (serve operation_exec [] (demo_plane\<lparr>g_audits := a\<rparr>))
      = Inr ((serve operation_exec [] (demo_plane\<lparr>g_audits := a\<rparr>))\<lparr>g_audits := g_audits (serve operation_exec [] (demo_plane\<lparr>g_audits := a\<rparr>)) @ [ev]\<rparr>, p', False)"
    unfolding a_def [symmetric] by blast
  then show ?thesis unfolding a_def [symmetric] by (intro exI [of _ p'] exI [of _ ev]) simp
qed

section \<open>Cancelling\<close>

lemma owned_serve:
  assumes inv: "operations_inv db" and p: "p \<in> set (g_operations db)" and t: "terminal_work (o_status p)"
  shows "owned_operation (o_id p) c (serve operation_exec cs db)
       = (if c = o_client_id p then Inr p else Inl (OperationNotFound ''endpoint_operation_not_found''))"
proof -
  let ?db = "serve operation_exec cs db"
  from operations.serve_le [OF inv, of cs] p t have p': "p \<in> set (g_operations ?db)" unfolding plane_le_def by blast
  have d: "distinct (map o_id (g_operations ?db))"
    by (rule plane_constraintsD(1) [OF operations_invD(1) [OF operations.serve_inv [OF inv]]])
  have only: "q = p" if "q \<in> set (g_operations ?db)" "o_id q = o_id p" for q
    by (rule distinct_map_inj [OF d that(1) p' that(2)])
  show ?thesis
  proof (cases "c = o_client_id p")
    case True
    have "find (\<lambda>q. o_id q = o_id p \<and> o_client_id q = c) (g_operations ?db) = Some p"
      by (rule find_unique [OF p']) (use True only in auto)
    with True show ?thesis by (simp add: owned_operation_def)
  next
    case False
    have "find (\<lambda>q. o_id q = o_id p \<and> o_client_id q = c) (g_operations ?db) = None"
      unfolding find_None_iff using False only by blast
    with False show ?thesis by (simp add: owned_operation_def)
  qed
qed

lemma cancel_for_service_Inr:
  assumes inv: "operations_inv db" and ok: "cancel_operation_for_service clock (Some i) (Some c) now db = Inr (db1, p)"
  shows "operations_inv db1" and "p \<in> set (g_operations db1)" and "o_id p = i" and "o_client_id p = c"
    and "o_status p = Canceled" and "g_clients db1 = g_clients db" and "\<exists>sc. find_row sc_id c (g_clients db) = Some sc"
proof -
  from ok obtain q at who where q: "owned_operation i c db = Inr q" and x: "cancel_queued_operation q at ''service'' who db = Inr (db1, p)"
      and sc: "\<exists>sc. find_row sc_id c (g_clients db) = Some sc"
    by (auto simp: cancel_operation_for_service_def operation_uuid_def)
  have mem: "q \<in> set (g_operations db)" "o_id q = i" "o_client_id q = c" using q by (auto simp: owned_operation_def dest: find_SomeD)
  show "operations_inv db1" using inv_cancel_queued [OF inv mem(1) x] by simp
  show "g_clients db1 = g_clients db" by (rule cancel_queued_directory [OF x])
  show "\<exists>sc. find_row sc_id c (g_clients db) = Some sc" by (rule sc)
  consider "db1 = db" "p = q" "o_status q = Canceled"
    | k a where "p = canceled_operation at q" "db1 = (store_collection (canceled_collection at k) (store_operation p db))\<lparr>g_audits := a\<rparr>"
    using cancel_queued_Inr [OF x] by blast
  then have "p \<in> set (g_operations db1) \<and> o_id p = i \<and> o_client_id p = c \<and> o_status p = Canceled"
  proof cases
    case (2 k a)
    then have "g_operations db1 = store_row o_id p (g_operations db)" "o_id p = o_id q" by (simp_all add: canceled_operation_def)
    with mem(1) have "p \<in> set (g_operations db1)" by (simp add: store_row_self)
    with mem 2(1) show ?thesis by (simp add: canceled_operation_def)
  qed (use mem in simp)
  then show "p \<in> set (g_operations db1)" "o_id p = i" "o_client_id p = c" "o_status p = Canceled" by simp_all
qed

text \<open>C12. A cancelled operation stays cancelled and cancelling is idempotent and private: after any history
  the owner may repeat the request, which answers with the cancelled row and changes nothing, while
  every other client is told that the operation does not exist.\<close>

theorem cancel_idempotent_and_private:
  assumes "operations_inv db" and "cancel_operation_for_service clock (Some i) (Some c) now db = Inr (db1, p)"
    and "operation_now clock' now' = Inr at"
  shows "o_status p = Canceled
     \<and> cancel_operation_for_service clock' (Some i) (Some c) now' (serve operation_exec cs db1) = Inr (serve operation_exec cs db1, p)
     \<and> (\<forall>c'. c' \<noteq> c \<longrightarrow> cancel_operation_for_service clock' (Some i) (Some c') now' (serve operation_exec cs db1)
          = Inl (OperationNotFound ''endpoint_operation_not_found''))"
proof -
  note r = cancel_for_service_Inr [OF assms(1,2)]
  have t: "terminal_work (o_status p)" using r(5) by simp
  have "owned_operation i x (serve operation_exec cs db1)
      = (if x = c then Inr p else Inl (OperationNotFound ''endpoint_operation_not_found''))" for x
    using owned_serve [OF r(1,2) t, of x cs] r(3,4) by simp
  moreover have "g_clients (serve operation_exec cs db1) = g_clients db"
    by (rule operation_directory.serve_inv) (rule r(6))
  ultimately show ?thesis
    using assms(3) r(5,7) by (auto simp: cancel_operation_for_service_def operation_uuid_def cancel_queued_operation_def)
qed

definition demo_canceled_plane :: plane_db where
  "demo_canceled_plane = demo_plane\<lparr>g_operations := [demo_operation\<lparr>o_status := Canceled, o_completed_at := Some 5\<rparr>, demo_done],
     g_collections := [demo_collection\<lparr>k_status := CExpired\<rparr>]\<rparr>"

lemma demo_canceled_inv: "operations_inv demo_canceled_plane"
  by code_simp

lemma demo_canceled:
  "cancel_operation_for_service 6 (Some 1) (Some 7) None demo_canceled_plane
   = Inr (demo_canceled_plane, demo_operation\<lparr>o_status := Canceled, o_completed_at := Some 5\<rparr>)"
  by (simp add: cancel_operation_for_service_def operation_uuid_def owned_operation_def demo_canceled_plane_def demo_plane_def
      find_row_def demo_client_def demo_operation_def cancel_queued_operation_def)

theorem cancel_idempotent_and_private_witness:
  "cancel_operation_for_service 8 (Some 1) (Some 8) None demo_canceled_plane = Inl (OperationNotFound ''endpoint_operation_not_found'')"
  using cancel_idempotent_and_private [OF demo_canceled_inv demo_canceled, of 8 None 8 "[]"] by simp

section \<open>The sweeps\<close>

text \<open>C13. What the expiry sweep does, for every database: it takes the first operations, at most the limit, that are
  not in a final status and whose deadline has passed, in the order of deadline and identity. When one of them is a
  recipe operation with a command of its own or without steps, the sweep raises and nothing is committed. Otherwise it
  returns their number, exactly those operations are expired, every other one is as it was, and when it reports
  fewer than the limit no open operation is past its deadline any more.\<close>

theorem expiry_sweep_exact:
  assumes "operations_inv db" and "1 \<le> limit" and "limit \<le> 100" and "operation_now clock now = Inr at"
    and "due = take (nat limit) (sort_key (\<lambda>p. (o_deadline_at p, o_id p))
       (filter (\<lambda>p. o_status p \<in> {Queued, Delivered, Acknowledged, Running} \<and> o_deadline_at p \<le> at) (g_operations db)))"
  shows "if \<exists>p\<in>set due. o_capability p = ''endpoint.module.recipe''
         \<and> (o_command_id p \<noteq> None \<or> \<not> (\<exists>s\<in>set (g_steps db). s_operation_id s = o_id p))
    then expire_operations clock now limit db = Inl OperationValidationError
    else \<exists>db'. expire_operations clock now limit db = Inr (db', length due)
     \<and> g_operations db' = map (\<lambda>p. if p \<in> set due
         then p\<lparr>o_status := Expired, o_completed_at := Some at, o_error_code := Some ''operation_expired''\<rparr> else p) (g_operations db)
     \<and> (length due < nat limit \<longrightarrow>
          (\<forall>p\<in>set (g_operations db'). o_status p \<in> {Succeeded, Failed, Canceled, Expired} \<or> at < o_deadline_at p))"
proof -
  have "operation_due at p \<longleftrightarrow> o_status p \<in> {Queued, Delivered, Acknowledged, Running} \<and> o_deadline_at p \<le> at" for p
    by (cases "o_status p") (simp_all add: operation_due_def)
  then have literal: "operation_due at = (\<lambda>p. o_status p \<in> {Queued, Delivered, Acknowledged, Running} \<and> o_deadline_at p \<le> at)" by (rule ext)
  have due: "due = due_operations at (nat limit) db" unfolding assms(5) due_operations_def literal ..
  note c = operations_invD(1) [OF assms(1)]
  note rows = due_operations_rows [OF c, of at "nat limit", folded due]
  have run: "expire_operations clock now limit db = bindE (expire_each at due db) (\<lambda>db'. Inr (db', length due))"
    using assms(2-4) by (simp add: expire_operations_def Let_def due)
  show ?thesis
  proof (cases "\<exists>p\<in>set due. expiry_refused db p")
    case True
    then show ?thesis using expire_each_outcome [OF c rows] by (auto simp: run expiry_refused_def list_ex_iff)
  next
    case False
    then obtain db' where e: "expire_each at due db = Inr db'" using expire_each_outcome [OF c rows] by auto
    from expire_each_Inr [OF e rows(3)]
    have "g_operations db' = fold (\<lambda>p. store_row o_id (expired_operation at p)) due (g_operations db)" by simp
    also have "\<dots> = map (\<lambda>p. if p \<in> set due then expired_operation at p else p) (g_operations db)"
      by (rule store_chosen_rows [OF plane_constraintsD(1) [OF c] rows(1,2)]) (simp add: expired_operation_def)
    finally have ops: "g_operations db' = map (\<lambda>p. if p \<in> set due then expired_operation at p else p) (g_operations db)" .
    have "\<forall>p\<in>set (g_operations db'). \<not> operation_due at p" if short: "length due < nat limit"
    proof -
      have "set due = set (filter (operation_due at) (g_operations db))" using short by (simp add: due due_operations_def)
      then show ?thesis by (auto simp: ops operation_due_def expired_operation_def)
    qed
    then have "\<forall>p\<in>set (g_operations db'). o_status p \<in> {Succeeded, Failed, Canceled, Expired} \<or> at < o_deadline_at p" if "length due < nat limit"
      using that by (auto simp: operation_due_def not_le)
    moreover have "\<not> (\<exists>p\<in>set due. o_capability p = ''endpoint.module.recipe''
         \<and> (o_command_id p \<noteq> None \<or> \<not> (\<exists>s\<in>set (g_steps db). s_operation_id s = o_id p)))"
      using False by (auto simp: expiry_refused_def list_ex_iff)
    ultimately show ?thesis using ops by (simp add: run e expired_operation_def)
  qed
qed

text \<open>One open diagnostic operation and one open recipe operation, with its step and without.\<close>

definition recipe_operation :: operation where
  "recipe_operation = demo_operation\<lparr>o_id := 5, o_idempotency_key := ''key-0005'', o_capability := ''endpoint.module.recipe'', o_collection_id := None,
     o_module_version_id := Some 8, o_module_inputs := Some (JObj []), o_expected_step_count := Some 1\<rparr>"

definition recipe_step :: module_step where
  "recipe_step = \<lparr>s_id = 6, s_operation_id = 5, s_sequence = 0, s_recipe_step_key = ''probe'', s_capability = ''network.ping'',
     s_status = Queued, s_command_id = None, s_safe_result = None, s_error_code = None, s_started_at = None, s_completed_at = None\<rparr>"

definition recipe_plane :: "module_step list \<Rightarrow> plane_db" where
  "recipe_plane steps = demo_plane\<lparr>g_operations := [demo_operation, demo_done, recipe_operation], g_steps := steps\<rparr>"

lemma recipe_plane_inv: "operations_inv (recipe_plane [recipe_step])" "operations_inv (recipe_plane [])"
  by code_simp+

theorem expiry_sweep_exact_witness:
  "(\<exists>db'. expire_operations 200 None 5 (recipe_plane [recipe_step]) = Inr (db', 2))
   \<and> expire_operations 200 None 5 (recipe_plane []) = Inl OperationValidationError"
proof -
  let ?due = "\<lambda>db. take (nat 5) (sort_key (\<lambda>p. (o_deadline_at p, o_id p))
     (filter (\<lambda>p. o_status p \<in> {Queued, Delivered, Acknowledged, Running} \<and> o_deadline_at p \<le> 200) (g_operations db)))"
  have due: "length (?due (recipe_plane s)) = 2" "set (?due (recipe_plane s)) = {demo_operation, recipe_operation}" for s
    by (simp_all add: recipe_plane_def demo_plane_def demo_operation_def demo_done_def recipe_operation_def insert_commute)
  have sets: "o_capability demo_operation \<noteq> ''endpoint.module.recipe''" "o_capability recipe_operation = ''endpoint.module.recipe''"
      "o_command_id recipe_operation = None" "o_id recipe_operation = 5" "g_steps (recipe_plane s) = s" "s_operation_id recipe_step = 5" for s
    by (simp_all add: recipe_operation_def demo_operation_def recipe_plane_def recipe_step_def)
  have "operation_now 200 None = Inr 200" by simp
  note run = expiry_sweep_exact [OF _ _ _ this refl, of _ 5]
  show ?thesis
    using run [OF recipe_plane_inv(1)] run [OF recipe_plane_inv(2)] unfolding due sets by (simp add: sets due) blast
qed

text \<open>C14. Pinned evidence is kept for ever: once an operation's evidence is pinned, every later history of
  requests, retention sweeps included, leaves its row with the payload and the digest as it was.\<close>

theorem pinned_evidence_kept:
  assumes "operations_inv db" and "pin_operation_evidence sanitize clock i kind who rid reason now db = Inr (db1, e)"
  shows "e \<in> set (g_evidence (serve operation_exec cs db1)) \<and> ev_operation_id e = i \<and> ev_safe_payload e \<noteq> None"
proof -
  have inv: "operations_inv db1" using inv_pin [OF assms] by simp
  have "e \<in> set (g_evidence db1) \<and> ev_operation_id e = i \<and> ev_pinned_at e \<noteq> None \<and> ev_safe_payload e \<noteq> None"
    using pin_evidence_Inr [OF assms(2)]
  proof
    assume "\<exists>e0 w expiry a. e0 \<in> set (g_evidence db) \<and> ev_operation_id e0 = i \<and> ev_pinned_at e0 = None
         \<and> ev_safe_payload e0 \<noteq> None \<and> ev_expires_at e0 = Some expiry \<and> w < expiry
         \<and> e = pinned_evidence w kind who (map_option sanitize reason) e0
         \<and> db1 = (store_evidence e db)\<lparr>g_audits := a\<rparr> \<and> prefix (g_audits db) a \<and> plane_constraints db1"
    then obtain e0 w a where e0: "e0 \<in> set (g_evidence db)" "ev_operation_id e0 = i" "ev_safe_payload e0 \<noteq> None"
        and e: "e = pinned_evidence w kind who (map_option sanitize reason) e0" and db1: "db1 = (store_evidence e db)\<lparr>g_audits := a\<rparr>" by blast
    have "ev_id e = ev_id e0" "ev_operation_id e = i" "ev_safe_payload e \<noteq> None" "ev_pinned_at e \<noteq> None"
      using e0 by (simp_all add: e pinned_evidence_def)
    with e0(1) show ?thesis by (auto simp: db1 in_set_store_row)
  qed simp
  moreover from operations.serve_le [OF inv, of cs] this have "\<exists>e'\<in>set (g_evidence (serve operation_exec cs db1)). evidence_kept e e'"
    unfolding plane_le_def by blast
  ultimately show ?thesis by (auto simp: evidence_kept_def)
qed

definition demo_pinned :: evidence where
  "demo_pinned = demo_evidence\<lparr>ev_pinned_at := Some 20, ev_expires_at := None\<rparr>"

definition demo_pinned_plane :: plane_db where
  "demo_pinned_plane = demo_plane\<lparr>g_evidence := [demo_pinned]\<rparr>"

lemma demo_pinned_inv: "operations_inv demo_pinned_plane"
  by code_simp

theorem pinned_evidence_kept_witness:
  "demo_pinned \<in> set (g_evidence (serve operation_exec [CleanupResults 900 None 10] demo_pinned_plane))"
proof -
  have "pin_operation_evidence (\<lambda>s. s) 30 4 ''admin'' ''a'' ''r'' None None demo_pinned_plane = Inr (demo_pinned_plane, demo_pinned)"
    by (simp add: pin_operation_evidence_def demo_pinned_plane_def demo_plane_def demo_pinned_def demo_evidence_def)
  from pinned_evidence_kept [OF demo_pinned_inv this, of "[CleanupResults 900 None 10]"] show ?thesis by simp
qed

text \<open>C15. The retention sweep scrubs only payloads whose retention has ended and that are not pinned, at most the
  limit, keeps every digest, touches neither operations nor the audit trail, and when it reports fewer
  than the limit every payload that is left is pinned, kept without a limit or not yet expired.\<close>

theorem retention_sweep_exact:
  assumes "operations_inv db" and "cleanup_operation_results clock (Some (Aware at)) limit db = Inr (db', n)"
  shows "n \<le> nat limit \<and> g_operations db' = g_operations db \<and> g_audits db' = g_audits db
     \<and> map ev_sha256 (g_evidence db') = map ev_sha256 (g_evidence db)
     \<and> list_all2 (\<lambda>e e'. e' = e \<or> (\<exists>expiry. ev_expires_at e = Some expiry \<and> expiry \<le> at) \<and> ev_pinned_at e = None
          \<and> ev_safe_payload e \<noteq> None \<and> e' = e\<lparr>ev_safe_payload := None, ev_scrubbed_at := Some at\<rparr>) (g_evidence db) (g_evidence db')
     \<and> (n < nat limit \<longrightarrow> (\<forall>e\<in>set (g_evidence db'). ev_safe_payload e = None \<or> ev_pinned_at e \<noteq> None
          \<or> ev_expires_at e = None \<or> (\<exists>expiry. ev_expires_at e = Some expiry \<and> at < expiry)))"
proof -
  have literal: "scrub_due at e \<longleftrightarrow> (\<exists>expiry. ev_expires_at e = Some expiry \<and> expiry \<le> at) \<and> ev_pinned_at e = None \<and> ev_safe_payload e \<noteq> None" for e
    by (auto simp: scrub_due_def split: option.splits)
  have d: "distinct (map ev_id (g_evidence db))" by (rule plane_constraintsD(3) [OF operations_invD(1) [OF assms(1)]])
  define es where "es = take (nat limit) (sort_key expiry_order (filter (scrub_due at) (g_evidence db)))"
  have f: "db' = fold (scrub_evidence at) es db" "n = length es"
    using assms(2) by (auto simp: cleanup_operation_results_def es_def Let_def split: if_splits)
  have sub: "set es \<subseteq> {e \<in> set (g_evidence db). scrub_due at e}"
    using set_take_subset [of "nat limit" "sort_key expiry_order (filter (scrub_due at) (g_evidence db))"] by (auto simp: es_def)
  have "distinct es" using d by (simp add: es_def distinct_map)
  moreover have "inj_on ev_id (set es)"
    by (rule inj_on_subset [of _ "set (g_evidence db)"]) (use d sub in \<open>auto simp: distinct_map\<close>)
  ultimately have "distinct (map ev_id es)" by (simp add: distinct_map)
  then have ev: "g_evidence db' = map (\<lambda>x. if x \<in> set es then scrubbed at x else x) (g_evidence db)"
    using scrub_fold [of at es db] scrub_rows [OF d, of es at] sub f(1) by auto
  have "\<forall>e\<in>set (g_evidence db'). \<not> scrub_due at e" if "n < nat limit"
  proof -
    have "set es = set (filter (scrub_due at) (g_evidence db))" using that by (simp add: f(2) es_def)
    then show ?thesis by (auto simp: ev scrub_due_def scrubbed_def)
  qed
  then have "\<forall>e\<in>set (g_evidence db'). ev_safe_payload e = None \<or> ev_pinned_at e \<noteq> None
      \<or> ev_expires_at e = None \<or> (\<exists>expiry. ev_expires_at e = Some expiry \<and> at < expiry)" if "n < nat limit"
    using that by (fastforce simp: literal not_le)
  moreover have "list_all2 (\<lambda>e e'. e' = e \<or> (\<exists>expiry. ev_expires_at e = Some expiry \<and> expiry \<le> at) \<and> ev_pinned_at e = None
      \<and> ev_safe_payload e \<noteq> None \<and> e' = e\<lparr>ev_safe_payload := None, ev_scrubbed_at := Some at\<rparr>) (g_evidence db) (g_evidence db')"
    using sub by (auto simp: ev list_all2_conv_all_nth subset_iff literal scrubbed_def)
  moreover have "map ev_sha256 (g_evidence db') = map ev_sha256 (g_evidence db)" by (simp add: ev scrubbed_def)
  ultimately show ?thesis using scrub_fold [of at es db] by (simp add: f es_def)
qed

theorem retention_sweep_exact_witness:
  "\<exists>db'. cleanup_operation_results 0 (Some (Aware 60)) 10 demo_plane = Inr (db', 1)
     \<and> list_all (\<lambda>e. ev_safe_payload e = None \<or> ev_pinned_at e \<noteq> None \<or> ev_expires_at e = None \<or> 60 < the (ev_expires_at e)) (g_evidence db')"
proof -
  have "case cleanup_operation_results 0 (Some (Aware 60)) 10 demo_plane of Inl _ \<Rightarrow> False | Inr (_, n) \<Rightarrow> n = 1"
    by code_simp
  then obtain db' where "cleanup_operation_results 0 (Some (Aware 60)) 10 demo_plane = Inr (db', 1)"
    by (auto split: sum.splits)
  with retention_sweep_exact [OF demo_plane_inv this] show ?thesis by (fastforce simp: list_all_iff)
qed

end
