(* ===== verification/Enroll_Secrets.thy ===== *)
theory Enroll_Secrets
  imports Audit_Trail Interfaces
begin

text \<open>
  The secrets of an enrollment: \<open>enrollment/credentials.py\<close> (retry envelopes and the rotation of a
  device credential), \<open>derive_enrollment_receipt\<close> of \<open>enrollment/delivery.py\<close> and the keyed
  digests of \<open>enrollment/campaigns.py\<close> and \<open>enrollment/requests.py\<close>.

  A byte string is a \<open>string\<close>. HMAC-SHA-256, AES-GCM and \<open>datetime.isoformat\<close> are the parameters
  of type \<open>crypto\<close>; random bytes are arguments.
\<close>

section \<open>Bytes\<close>

definition nul :: string where
  "nul = [CHR 0x00]"

definition utf8_char :: "char \<Rightarrow> string" where
  "utf8_char c = (let n = of_char c :: nat in
     if n < 128 then [c] else [char_of (192 + n div 64), char_of (128 + n mod 64)])"

definition utf8 :: "string \<Rightarrow> string" where
  "utf8 s = concat (map utf8_char s)"

definition hexdigest :: "string \<Rightarrow> string" where
  "hexdigest bytes = concat (map (\<lambda>c. let n = of_char c :: nat in [hex_digit (n div 16), hex_digit (n mod 16)]) bytes)"

fun big_endian :: "nat \<Rightarrow> nat \<Rightarrow> string" where
  "big_endian 0 n = []"
| "big_endian (Suc w) n = big_endian w (n div 256) @ [char_of (n mod 256)]"

definition b64_char :: "nat \<Rightarrow> char" where
  "b64_char n = (if n < 26 then char_of (65 + n) else if n < 52 then char_of (71 + n)
     else if n < 62 then char_of (n - 4) else if n = 62 then CHR ''-'' else CHR ''_'')"

text \<open>\<open>urlsafe_b64encode\<close> without the padding.\<close>

fun b64_url :: "string \<Rightarrow> string" where
  "b64_url [] = []"
| "b64_url [a] = (let x = of_char a :: nat in [b64_char (x div 4), b64_char (x mod 4 * 16)])"
| "b64_url [a, b] = (let x = of_char a :: nat; y = of_char b :: nat in
     [b64_char (x div 4), b64_char (x mod 4 * 16 + y div 16), b64_char (y mod 16 * 4)])"
| "b64_url (a # b # c # rest) = (let x = of_char a :: nat; y = of_char b :: nat; z = of_char c :: nat in
     b64_char (x div 4) # b64_char (x mod 4 * 16 + y div 16) # b64_char (y mod 16 * 4 + z div 64)
     # b64_char (z mod 64) # b64_url rest)"

section \<open>Keyed digests\<close>

datatype enroll_error =
    EnrollmentDenied string
  | EnValueError
  | RequestTransitionError
  | HttpError nat string
  | EnIntegrityError
  | EnOtherError  \<comment> \<open>a \<open>TypeError\<close> or \<open>AttributeError\<close>, which no handler expects\<close>

record crypto =
  hmac_sha256 :: "string \<Rightarrow> string \<Rightarrow> string"
  aes_encrypt :: "string \<Rightarrow> string \<Rightarrow> string \<Rightarrow> string \<Rightarrow> string"
  aes_decrypt :: "string \<Rightarrow> string \<Rightarrow> string \<Rightarrow> string \<Rightarrow> string option"
  isoformat :: "instant \<Rightarrow> string"

definition keyed_digest :: "crypto \<Rightarrow> string \<Rightarrow> string \<Rightarrow> string \<Rightarrow> enroll_error + string" where
  "keyed_digest cr value pepper ctx =
     (if value = [] \<or> pepper = [] then Inl EnValueError
      else Inr (hexdigest (hmac_sha256 cr pepper (ctx @ utf8 value))))"

definition campaign_context :: string where
  "campaign_context = ''endpoint-enrollment-campaign-v1'' @ nul"

definition claim_context :: string where
  "claim_context = ''endpoint-install-claim-v1'' @ nul"

definition install_session_context :: string where
  "install_session_context = ''endpoint-install-session-v1'' @ nul"

definition fingerprint_context :: string where
  "fingerprint_context = ''endpoint-enrollment-fingerprint-v1'' @ nul"

definition receipt_digest_context :: string where
  "receipt_digest_context = ''endpoint-enrollment-receipt-v1'' @ nul"

definition request_capability_context :: string where
  "request_capability_context = ''endpoint-enrollment-request-capability-v1'' @ nul"

definition installation_id_context :: string where
  "installation_id_context = ''endpoint-enrollment-request-installation-v1'' @ nul"

definition request_fingerprint_context :: string where
  "request_fingerprint_context = ''endpoint-enrollment-request-fingerprint-v1'' @ nul"

definition device_identifier_context :: string where
  "device_identifier_context = ''endpoint-device-identity-v1'' @ nul"

definition envelope_key_context :: string where
  "envelope_key_context = ''endpoint-enrollment-envelope-key-v1''"

definition delivery_receipt_context :: string where
  "delivery_receipt_context = ''endpoint-enrollment-delivery-receipt-v1'' @ nul"

definition campaign_token_digest :: "crypto \<Rightarrow> string \<Rightarrow> string \<Rightarrow> enroll_error + string" where
  "campaign_token_digest cr token pepper = keyed_digest cr token pepper campaign_context"

definition claim_token_digest :: "crypto \<Rightarrow> string \<Rightarrow> string \<Rightarrow> enroll_error + string" where
  "claim_token_digest cr token pepper = keyed_digest cr token pepper claim_context"

definition retry_receipt_digest :: "crypto \<Rightarrow> string \<Rightarrow> string \<Rightarrow> enroll_error + string" where
  "retry_receipt_digest cr receipt pepper = keyed_digest cr receipt pepper receipt_digest_context"

definition binding_digest :: "crypto \<Rightarrow> string \<Rightarrow> string \<Rightarrow> string \<Rightarrow> enroll_error + string" where
  "binding_digest cr value pepper ctx = keyed_digest cr value pepper ctx"

text \<open>The ASCII encodings raise \<open>UnicodeEncodeError\<close>, which is a \<open>ValueError\<close>.\<close>

definition request_capability_digest :: "crypto \<Rightarrow> string \<Rightarrow> string \<Rightarrow> enroll_error + string" where
  "request_capability_digest cr capability pepper =
     (if capability = [] \<or> pepper = [] \<or> \<not> list_all py_isascii capability then Inl EnValueError
      else Inr (hexdigest (hmac_sha256 cr pepper (request_capability_context @ capability))))"

definition request_capability_matches :: "crypto \<Rightarrow> string \<Rightarrow> string \<Rightarrow> string \<Rightarrow> bool" where
  "request_capability_matches cr capability expected_digest pepper =
     (case request_capability_digest cr capability pepper of Inl _ \<Rightarrow> False | Inr d \<Rightarrow> d = expected_digest)"

definition device_token_digest :: "crypto \<Rightarrow> string \<Rightarrow> string \<Rightarrow> enroll_error + string" where
  "device_token_digest cr token pepper =
     (if token = [] \<or> pepper = [] \<or> \<not> list_all py_isascii token then Inl EnValueError
      else Inr (hexdigest (hmac_sha256 cr pepper token)))"

definition device_token_matches :: "crypto \<Rightarrow> string \<Rightarrow> string \<Rightarrow> string \<Rightarrow> bool" where
  "device_token_matches cr token expected_digest pepper =
     (expected_digest \<noteq> []
      \<and> (case device_token_digest cr token pepper of Inl _ \<Rightarrow> False | Inr d \<Rightarrow> d = expected_digest))"

section \<open>Retry envelopes\<close>

record retry_envelope =
  en_receipt_digest :: string
  en_fingerprint_digest :: string
  en_encrypted_token :: string
  en_nonce :: string
  en_expires_at :: moment

definition default_envelope_lifetime :: int where
  "default_envelope_lifetime = minutes 5"

definition max_envelope_lifetime :: int where
  "max_envelope_lifetime = minutes 15"

definition default_rotation_overlap :: int where
  "default_rotation_overlap = minutes 10"

definition envelope_key :: "crypto \<Rightarrow> string \<Rightarrow> enroll_error + string" where
  "envelope_key cr session_secret =
     (if session_secret = [] then Inl EnValueError else Inr (hmac_sha256 cr session_secret envelope_key_context))"

definition envelope_aad :: "crypto \<Rightarrow> string \<Rightarrow> string \<Rightarrow> instant \<Rightarrow> enroll_error + string" where
  "envelope_aad cr receipt_digest fingerprint_digest expires_at =
     (let text = receipt_digest @ nul @ fingerprint_digest @ nul @ isoformat cr expires_at
      in if list_all py_isascii text then Inr text else Inl EnValueError)"

definition aware_now :: "instant \<Rightarrow> moment option \<Rightarrow> enroll_error + instant" where
  "aware_now clock now =
     (case now of None \<Rightarrow> Inr clock | Some (Aware t) \<Rightarrow> Inr t | Some (Naive _) \<Rightarrow> Inl EnValueError)"

definition seal_retry_envelope ::
  "crypto \<Rightarrow> string \<Rightarrow> string \<Rightarrow> instant \<Rightarrow> string \<Rightarrow> string \<Rightarrow> string \<Rightarrow> string \<Rightarrow> string option \<Rightarrow> moment option \<Rightarrow> int
   \<Rightarrow> enroll_error + (string \<times> retry_envelope)" where
  "seal_retry_envelope cr random_receipt nonce clock token hardware_fingerprint pepper session_secret receipt now lifetime =
     bindE (aware_now clock now) (\<lambda>issued_at.
       if lifetime \<le> 0 \<or> max_envelope_lifetime < lifetime then Inl EnValueError
       else if \<not> list_all py_isascii token then Inl EnValueError
       else if token = [] \<or> hardware_fingerprint = [] then Inl EnValueError
       else
         let delivery_receipt = (case receipt of None \<Rightarrow> random_receipt | Some r \<Rightarrow> r) in
         bindE (retry_receipt_digest cr delivery_receipt pepper) (\<lambda>receipt_digest.
         bindE (keyed_digest cr hardware_fingerprint pepper fingerprint_context) (\<lambda>fingerprint_digest.
         bindE (envelope_key cr session_secret) (\<lambda>key.
         bindE (envelope_aad cr receipt_digest fingerprint_digest (issued_at + lifetime)) (\<lambda>aad.
           Inr (delivery_receipt,
                \<lparr>en_receipt_digest = receipt_digest, en_fingerprint_digest = fingerprint_digest,
                 en_encrypted_token = aes_encrypt cr key nonce token aad, en_nonce = nonce,
                 en_expires_at = Aware (issued_at + lifetime)\<rparr>))))))"

definition retry_envelope_proof_matches :: "crypto \<Rightarrow> string \<Rightarrow> string \<Rightarrow> retry_envelope \<Rightarrow> string \<Rightarrow> bool" where
  "retry_envelope_proof_matches cr receipt hardware_fingerprint envelope pepper =
     (case (keyed_digest cr receipt pepper receipt_digest_context,
            keyed_digest cr hardware_fingerprint pepper fingerprint_context) of
        (Inr r, Inr f) \<Rightarrow> r = en_receipt_digest envelope \<and> f = en_fingerprint_digest envelope
      | _ \<Rightarrow> False)"

definition recover_retry_token ::
  "crypto \<Rightarrow> instant \<Rightarrow> string \<Rightarrow> string \<Rightarrow> retry_envelope \<Rightarrow> string \<Rightarrow> string \<Rightarrow> moment option \<Rightarrow> string option" where
  "recover_retry_token cr clock receipt hardware_fingerprint envelope pepper session_secret now =
     (case (aware_now clock now, en_expires_at envelope) of
        (Inr checked_at, Aware expires_at) \<Rightarrow>
          if expires_at \<le> checked_at \<or> \<not> retry_envelope_proof_matches cr receipt hardware_fingerprint envelope pepper
          then None
          else
            (case (envelope_key cr session_secret,
                   envelope_aad cr (en_receipt_digest envelope) (en_fingerprint_digest envelope) expires_at) of
               (Inr key, Inr aad) \<Rightarrow>
                 (case aes_decrypt cr key (en_nonce envelope) (en_encrypted_token envelope) aad of
                    None \<Rightarrow> None
                  | Some token \<Rightarrow> if list_all py_isascii token then Some token else None)
             | _ \<Rightarrow> None)
      | _ \<Rightarrow> None)"

section \<open>The rotation of a device credential\<close>

record credential =
  c_id :: uuid
  c_device_id :: uuid
  c_identifier :: string
  c_token_digest :: string
  c_pending_token_digest :: "string option"
  c_overlap_expires_at :: "moment option"
  c_expires_at :: "moment option"
  c_revoked_at :: "instant option"

definition credential_expired :: "credential \<Rightarrow> instant \<Rightarrow> bool" where
  "credential_expired c at =
     (case c_expires_at c of None \<Rightarrow> False | Some (Naive _) \<Rightarrow> True | Some (Aware t) \<Rightarrow> t \<le> at)"

definition begin_device_credential_rotation ::
  "crypto \<Rightarrow> string \<Rightarrow> instant \<Rightarrow> credential \<Rightarrow> string \<Rightarrow> moment option \<Rightarrow> int \<Rightarrow> enroll_error + (credential \<times> string)" where
  "begin_device_credential_rotation cr random_token clock c pepper now overlap =
     bindE (aware_now clock now) (\<lambda>started_at.
       if overlap \<le> 0 then Inl EnValueError
       else if c_revoked_at c \<noteq> None then Inl EnValueError
       else if credential_expired c started_at then Inl EnValueError
       else if c_pending_token_digest c \<noteq> None then Inl EnValueError
       else bindE (device_token_digest cr random_token pepper) (\<lambda>d.
         Inr (c\<lparr>c_pending_token_digest := Some d, c_overlap_expires_at := Some (Aware (started_at + overlap))\<rparr>,
              random_token)))"

definition device_credential_accepts_token ::
  "crypto \<Rightarrow> instant \<Rightarrow> credential \<Rightarrow> string \<Rightarrow> string \<Rightarrow> moment option \<Rightarrow> bool" where
  "device_credential_accepts_token cr clock c token pepper now =
     (case aware_now clock now of
        Inl _ \<Rightarrow> False
      | Inr checked_at \<Rightarrow>
          if c_revoked_at c \<noteq> None \<or> credential_expired c checked_at then False
          else
            (case c_pending_token_digest c of
               None \<Rightarrow> device_token_matches cr token (c_token_digest c) pepper
             | Some pending \<Rightarrow>
                 device_token_matches cr token pending pepper
                 \<or> (case c_overlap_expires_at c of
                      Some (Aware deadline) \<Rightarrow> checked_at < deadline \<and> device_token_matches cr token (c_token_digest c) pepper
                    | _ \<Rightarrow> False)))"

definition activate_pending_device_credential ::
  "crypto \<Rightarrow> instant \<Rightarrow> credential \<Rightarrow> string \<Rightarrow> string \<Rightarrow> moment option \<Rightarrow> credential \<times> bool" where
  "activate_pending_device_credential cr clock c token pepper now =
     (case (aware_now clock now, c_pending_token_digest c) of
        (Inr activated_at, Some pending) \<Rightarrow>
          if c_revoked_at c \<noteq> None \<or> credential_expired c activated_at
             \<or> \<not> device_token_matches cr token pending pepper
          then (c, False)
          else (c\<lparr>c_token_digest := pending, c_pending_token_digest := None, c_overlap_expires_at := None\<rparr>, True)
      | _ \<Rightarrow> (c, False))"

section \<open>The delivery receipt\<close>

definition length_prefixed :: "string \<Rightarrow> enroll_error + string" where
  "length_prefixed value =
     (if 2 ^ 32 - 1 < int (length value) then Inl EnValueError else Inr (big_endian 4 (length value) @ value))"

fun length_prefixed_all :: "string list \<Rightarrow> enroll_error + string" where
  "length_prefixed_all [] = Inr []"
| "length_prefixed_all (v # vs) =
     bindE (length_prefixed v) (\<lambda>x. bindE (length_prefixed_all vs) (\<lambda>y. Inr (x @ y)))"

definition urlsafe_char :: "char \<Rightarrow> bool" where
  "urlsafe_char c \<longleftrightarrow> ascii_alnum c \<or> c = CHR ''-'' \<or> c = CHR ''_''"

definition uuid_bytes :: "uuid \<Rightarrow> string" where
  "uuid_bytes u = big_endian 16 u"

definition receipt_message ::
  "crypto \<Rightarrow> string \<Rightarrow> string \<Rightarrow> uuid \<Rightarrow> uuid option \<Rightarrow> string \<Rightarrow> moment \<Rightarrow> enroll_error + string" where
  "receipt_message cr delivery_nonce device_identifier campaign_id claim_id platform requested_at =
     (if length delivery_nonce \<noteq> 43 \<or> \<not> list_all py_isascii delivery_nonce \<or> \<not> list_all urlsafe_char delivery_nonce
      then Inl EnValueError
      else case requested_at of
        Naive _ \<Rightarrow> Inl EnValueError
      | Aware at \<Rightarrow>
          if \<not> (list_all py_isascii device_identifier \<and> list_all py_isascii platform
                \<and> list_all py_isascii (isoformat cr at)) then Inl EnValueError
          else bindE (length_prefixed_all
                 [delivery_nonce, device_identifier, uuid_bytes campaign_id,
                  case claim_id of None \<Rightarrow> [] | Some i \<Rightarrow> uuid_bytes i, platform, isoformat cr at])
                 (\<lambda>fields. Inr (delivery_receipt_context @ fields)))"

definition derive_enrollment_receipt ::
  "crypto \<Rightarrow> string \<Rightarrow> string \<Rightarrow> string \<Rightarrow> uuid \<Rightarrow> uuid option \<Rightarrow> string \<Rightarrow> moment \<Rightarrow> enroll_error + string" where
  "derive_enrollment_receipt cr session_secret delivery_nonce device_identifier campaign_id claim_id platform requested_at =
     (if session_secret = [] then Inl EnValueError
      else bindE (receipt_message cr delivery_nonce device_identifier campaign_id claim_id platform requested_at)
             (\<lambda>message. Inr (b64_url (hmac_sha256 cr session_secret message))))"

end
