(* ===== verification/Ip_Network.thy ===== *)
theory Ip_Network
  imports Semver
begin

text \<open>
  What \<open>enrollment/campaigns.py\<close> uses of Python's \<open>ipaddress\<close>: \<open>ip_network(value, strict=True)\<close>,
  the canonical text of a network, and the test \<open>address in network\<close>.

  An address is its version and its number; a network is its version, the number of its network
  address, its prefix length and, for IPv6, the scope the text carried.
\<close>

section \<open>Addresses\<close>

datatype ip_address = V4 int | V6 int

record ip_net =
  n_version :: nat
  n_base :: int
  n_prefix :: nat
  n_scope :: "string option"

definition ip_width :: "nat \<Rightarrow> nat" where
  "ip_width version = (if version = 4 then 32 else 128)"

definition ascii_digits :: "string \<Rightarrow> bool" where
  "ascii_digits s \<longleftrightarrow> s \<noteq> [] \<and> list_all ascii_digit s"

definition decimal_int :: "string \<Rightarrow> int" where
  "decimal_int s = foldl (\<lambda>n c. 10 * n + int (digit_value c)) 0 s"

definition parse_octet :: "string \<Rightarrow> int option" where
  "parse_octet s =
     (if ascii_digits s \<and> length s \<le> 3 \<and> (s = ''0'' \<or> hd s \<noteq> CHR ''0'') \<and> decimal_int s \<le> 255
      then Some (decimal_int s) else None)"

definition parse_v4 :: "string \<Rightarrow> int option" where
  "parse_v4 s =
     (case map parse_octet (split_on (CHR ''.'') s) of
        [Some a, Some b, Some c, Some d] \<Rightarrow> Some (((a * 256 + b) * 256 + c) * 256 + d)
      | _ \<Rightarrow> None)"

definition hex_value :: "char \<Rightarrow> int option" where
  "hex_value c = (let n = int (of_char c) in
     if 48 \<le> n \<and> n \<le> 57 then Some (n - 48)
     else if 97 \<le> n \<and> n \<le> 102 then Some (n - 87)
     else if 65 \<le> n \<and> n \<le> 70 then Some (n - 55)
     else None)"

fun hex_number :: "int \<Rightarrow> string \<Rightarrow> int option" where
  "hex_number acc [] = Some acc"
| "hex_number acc (c # cs) = (case hex_value c of None \<Rightarrow> None | Some d \<Rightarrow> hex_number (acc * 16 + d) cs)"

definition parse_hextet :: "string \<Rightarrow> int option" where
  "parse_hextet s = (if s = [] \<or> 4 < length s then None else hex_number 0 s)"

fun hextets :: "int \<Rightarrow> string list \<Rightarrow> int option" where
  "hextets acc [] = Some acc"
| "hextets acc (p # ps) = (case parse_hextet p of None \<Rightarrow> None | Some h \<Rightarrow> hextets (acc * 65536 + h) ps)"

fun hex_short :: "int \<Rightarrow> string" where
  "hex_short n = (if n < 16 then [hex_digit (nat n)] else hex_short (n div 16) @ [hex_digit (nat (n mod 16))])"

text \<open>A dotted last part stands for two groups.\<close>

definition v6_groups :: "string \<Rightarrow> string list option" where
  "v6_groups s =
     (let parts = split_on (CHR '':'') s in
      if length parts < 3 then None
      else if CHR ''.'' \<in> set (last parts)
      then (case parse_v4 (last parts) of
              None \<Rightarrow> None
            | Some n \<Rightarrow> Some (butlast parts @ [hex_short (n div 65536), hex_short (n mod 65536)]))
      else Some parts)"

definition empty_groups :: "string list \<Rightarrow> nat list" where
  "empty_groups parts = filter (\<lambda>i. parts ! i = []) [1..<length parts - 1]"

definition parse_v6_groups :: "string list \<Rightarrow> int option" where
  "parse_v6_groups parts =
     (if 9 < length parts then None
      else case empty_groups parts of
        [] \<Rightarrow> if length parts \<noteq> 8 then None else hextets 0 parts
      | [i] \<Rightarrow>
          (let hi = (if hd parts = [] then i - 1 else i);
               lo = (if last parts = [] then length parts - i - 2 else length parts - i - 1)
           in if (hd parts = [] \<and> hi \<noteq> 0) \<or> (last parts = [] \<and> lo \<noteq> 0) \<or> 8 \<le> hi + lo then None
              else (case hextets 0 (take hi parts) of
                      None \<Rightarrow> None
                    | Some high \<Rightarrow> hextets (high * 65536 ^ (8 - (hi + lo))) (drop (length parts - lo) parts)))
      | _ \<Rightarrow> None)"

text \<open>The scope follows a percent sign and is neither empty nor has another one.\<close>

definition parse_v6 :: "string \<Rightarrow> (int \<times> string option) option" where
  "parse_v6 s =
     (let address = before_char (CHR ''%'') s; scope = after_char (CHR ''%'') s in
      if (case scope of None \<Rightarrow> False | Some z \<Rightarrow> z = [] \<or> CHR ''%'' \<in> set z) \<or> CHR ''/'' \<in> set s then None
      else (case v6_groups address of
              None \<Rightarrow> None
            | Some parts \<Rightarrow> map_option (\<lambda>n. (n, scope)) (parse_v6_groups parts)))"

section \<open>Networks\<close>

definition parse_prefix :: "nat \<Rightarrow> string \<Rightarrow> nat option" where
  "parse_prefix width s = (if ascii_digits s \<and> decimal_int s \<le> int width then Some (nat (decimal_int s)) else None)"

definition netmask_prefix :: "int \<Rightarrow> nat option" where
  "netmask_prefix m = find (\<lambda>p. m = 2 ^ 32 - 2 ^ (32 - p)) [0..<33]"

definition v4_prefix :: "string \<Rightarrow> nat option" where
  "v4_prefix s =
     (case parse_prefix 32 s of
        Some p \<Rightarrow> Some p
      | None \<Rightarrow>
          (case parse_v4 s of
             None \<Rightarrow> None
           | Some m \<Rightarrow> (case netmask_prefix m of Some p \<Rightarrow> Some p | None \<Rightarrow> netmask_prefix (2 ^ 32 - 1 - m))))"

definition host_bits_clear :: "ip_net \<Rightarrow> bool" where
  "host_bits_clear net \<longleftrightarrow> n_base net mod 2 ^ (ip_width (n_version net) - n_prefix net) = 0"

definition split_prefix :: "string \<Rightarrow> (string \<times> string option) option" where
  "split_prefix s =
     (case split_on (CHR ''/'') s of
        [a] \<Rightarrow> Some (a, None)
      | [a, p] \<Rightarrow> Some (a, Some p)
      | _ \<Rightarrow> None)"

definition v4_network :: "string \<Rightarrow> ip_net option" where
  "v4_network s =
     (case split_prefix s of
        None \<Rightarrow> None
      | Some (a, p) \<Rightarrow>
          (case (parse_v4 a, case p of None \<Rightarrow> Some 32 | Some t \<Rightarrow> v4_prefix t) of
             (Some n, Some l) \<Rightarrow> Some \<lparr>n_version = 4, n_base = n, n_prefix = l, n_scope = None\<rparr>
           | _ \<Rightarrow> None))"

definition v6_network :: "string \<Rightarrow> ip_net option" where
  "v6_network s =
     (case split_prefix s of
        None \<Rightarrow> None
      | Some (a, p) \<Rightarrow>
          (case (parse_v6 a, case p of None \<Rightarrow> Some 128 | Some t \<Rightarrow> parse_prefix 128 t) of
             (Some (n, z), Some l) \<Rightarrow> Some \<lparr>n_version = 6, n_base = n, n_prefix = l, n_scope = z\<rparr>
           | _ \<Rightarrow> None))"

text \<open>\<open>None\<close> is the \<open>ValueError\<close> of a text that is no network or has host bits set.\<close>

definition ip_network :: "string \<Rightarrow> ip_net option" where
  "ip_network s =
     (case (case v4_network s of Some n \<Rightarrow> Some n | None \<Rightarrow> v6_network s) of
        None \<Rightarrow> None
      | Some n \<Rightarrow> if host_bits_clear n then Some n else None)"

section \<open>Text\<close>

fun decimal_text :: "int \<Rightarrow> string" where
  "decimal_text n = (if n < 10 then [hex_digit (nat n)] else decimal_text (n div 10) @ [hex_digit (nat (n mod 10))])"

declare decimal_text.simps [simp del] hex_short.simps [simp del]

definition join :: "string \<Rightarrow> string list \<Rightarrow> string" where
  "join sep parts = (case parts of [] \<Rightarrow> [] | p # ps \<Rightarrow> p @ concat (map (\<lambda>q. sep @ q) ps))"

definition v4_text :: "int \<Rightarrow> string" where
  "v4_text n = join ''.'' (map (\<lambda>k. decimal_text (n div 256 ^ k mod 256)) [3, 2, 1, 0])"

text \<open>The longest run of at least two zero groups, the first of several, is written \<open>::\<close>.\<close>

definition zero_run :: "int list \<Rightarrow> nat \<Rightarrow> nat" where
  "zero_run hs i = length (takeWhile (\<lambda>h. h = 0) (drop i hs))"

definition longest_run :: "int list \<Rightarrow> nat \<times> nat" where
  "longest_run hs =
     foldl (\<lambda>(i, l) j. if l < zero_run hs j then (j, zero_run hs j) else (i, l)) (0, 0) [0..<length hs]"

definition v6_text :: "int \<Rightarrow> string" where
  "v6_text n =
     (let hs = map (\<lambda>k. n div 65536 ^ k mod 65536) [7, 6, 5, 4, 3, 2, 1, 0];
          (i, l) = longest_run hs
      in if l < 2 then join '':'' (map hex_short hs)
         else join '':'' (map hex_short (take i hs)) @ ''::'' @ join '':'' (map hex_short (drop (i + l) hs)))"

definition network_text :: "ip_net \<Rightarrow> string" where
  "network_text net =
     (if n_version net = 4 then v4_text (n_base net)
      else v6_text (n_base net) @ (case n_scope net of None \<Rightarrow> [] | Some z \<Rightarrow> ''%'' @ z))
     @ ''/'' @ decimal_text (int (n_prefix net))"

section \<open>Membership\<close>

text \<open>\<open>address in network\<close>: the versions agree and the address, masked to the prefix, is the
  network address.\<close>

fun net_contains :: "ip_net \<Rightarrow> ip_address \<Rightarrow> bool" where
  "net_contains net (V4 a) = (n_version net = 4 \<and> a div 2 ^ (32 - n_prefix net) * 2 ^ (32 - n_prefix net) = n_base net)"
| "net_contains net (V6 a) = (n_version net = 6 \<and> a div 2 ^ (128 - n_prefix net) * 2 ^ (128 - n_prefix net) = n_base net)"

lemma masked_interval:
  assumes "b mod m = 0" "0 < (m :: int)"
  shows "a div m * m = b \<longleftrightarrow> b \<le> a \<and> a < b + m"
proof
  assume "a div m * m = b"
  then show "b \<le> a \<and> a < b + m"
    using div_mult_mod_eq [of a m] pos_mod_bound [OF assms(2), of a] pos_mod_sign [OF assms(2), of a] by linarith
next
  assume ab: "b \<le> a \<and> a < b + m"
  have "a = (b div m) * m + (a - b)" using assms(1) div_mult_mod_eq [of b m] by simp
  then have "a div m = b div m" using ab assms(2) by (intro int_div_pos_eq [of a m "b div m" "a - b"]) (auto simp: mult.commute)
  then show "a div m * m = b" using assms(1) div_mult_mod_eq [of b m] by simp
qed

lemma net_contains_interval:
  assumes "host_bits_clear net"
  shows "net_contains net (V4 a) \<longleftrightarrow> n_version net = 4 \<and> n_base net \<le> a \<and> a < n_base net + 2 ^ (32 - n_prefix net)"
    and "net_contains net (V6 a) \<longleftrightarrow> n_version net = 6 \<and> n_base net \<le> a \<and> a < n_base net + 2 ^ (128 - n_prefix net)"
  using assms masked_interval [of "n_base net" "2 ^ (32 - n_prefix net)" a]
    masked_interval [of "n_base net" "2 ^ (128 - n_prefix net)" a]
  by (auto simp: host_bits_clear_def ip_width_def)

lemma ip_network_clear: "ip_network s = Some net \<Longrightarrow> host_bits_clear net"
  by (auto simp: ip_network_def split: option.splits if_splits)

end
