(* ===== verification/Enroll_Model.thy ===== *)
theory Enroll_Model
  imports Enroll_Secrets Ip_Network
begin

text \<open>
  The tables of the enrollment (\<open>db/models/enrollment.py\<close>, \<open>db/models/devices.py\<close>) with their unique
  constraints, and the input checks of \<open>endpoint_contracts/identity.py\<close>, \<open>json_types.py\<close> and
  \<open>enrollment.py\<close> that the enrollment services call.
\<close>

section \<open>Rows\<close>

record campaign =
  ca_id :: uuid
  ca_identifier :: string
  ca_token_digest :: string
  ca_expires_at :: "moment option"
  ca_disabled_at :: "instant option"
  ca_max_uses :: int
  ca_use_count :: int
  ca_allowed_cidrs :: "string list"
  ca_target_platform :: string
  ca_policy :: json
  ca_label :: "string option"
  ca_site :: "string option"
  ca_revoked_at :: "instant option"

record claim =
  cl_id :: uuid
  cl_campaign_id :: uuid
  cl_request_id :: "uuid option"
  cl_identifier :: string
  cl_digest :: string
  cl_session_digest :: string
  cl_fingerprint_digest :: string
  cl_expires_at :: moment
  cl_device_id :: "uuid option"
  cl_claimed_at :: "instant option"

datatype request_status =
    SCreated | SValidating | SAutoApproved | SWaitingApproval | SReviewRequired | SApproved | SClaimIssued
  | SEnrolling | SDeviceRegistered | SWaitingWss | SCompleted | SDenied | SFailed | SCancelled | SExpired

record enrollment_request =
  rq_id :: uuid
  rq_created_at :: moment
  rq_installation_digest :: string
  rq_fingerprint_digest :: string
  rq_capability_digest :: string
  rq_platform :: string
  rq_hostname :: string
  rq_manufacturer :: "string option"
  rq_model :: "string option"
  rq_serial :: "string option"
  rq_product_uuid :: "string option"
  rq_macs :: "string list"
  rq_source_address :: string
  rq_installer_version :: string
  rq_installer_release_id :: string
  rq_selected_campaign_id :: "uuid option"
  rq_status :: request_status
  rq_decision_reason :: "string option"
  rq_decided_at :: "instant option"
  rq_decided_by :: "uuid option"
  rq_device_id :: "uuid option"
  rq_updated_at :: instant
  rq_expires_at :: instant

record claim_envelope =
  ce_id :: uuid
  ce_request_id :: uuid
  ce_claim_id :: uuid
  ce_envelope :: retry_envelope

record delivery_envelope =
  de_id :: uuid
  de_credential_id :: uuid
  de_envelope :: retry_envelope

record enrollment_event =
  ee_id :: uuid
  ee_campaign_id :: "uuid option"
  ee_claim_id :: "uuid option"
  ee_kind :: string
  ee_remote_identifier :: "string option"

record enrolled_device =
  vd_id :: uuid
  vd_identifier :: string
  vd_display_name :: "string option"
  vd_retired_at :: "instant option"

record enroll_db =
  e_campaigns :: "campaign list"
  e_claims :: "claim list"
  e_requests :: "enrollment_request list"
  e_claim_envelopes :: "claim_envelope list"
  e_deliveries :: "delivery_envelope list"
  e_credentials :: "credential list"
  e_devices :: "enrolled_device list"
  e_events :: "enrollment_event list"
  e_audits :: "audit_event list"

section \<open>Constraints\<close>

text \<open>The statuses of the partial unique index \<open>uq_enrollment_requests_active_installation\<close>.\<close>

definition indexed_status :: "request_status \<Rightarrow> bool" where
  "indexed_status s \<longleftrightarrow>
     s \<in> {SCreated, SValidating, SAutoApproved, SWaitingApproval, SReviewRequired, SClaimIssued, SEnrolling,
          SDeviceRegistered, SWaitingWss}"

definition campaigns_unique :: "campaign list \<Rightarrow> bool" where
  "campaigns_unique rows \<longleftrightarrow>
     distinct (map ca_id rows) \<and> distinct (map ca_identifier rows) \<and> distinct (map ca_token_digest rows)"

definition claims_unique :: "claim list \<Rightarrow> bool" where
  "claims_unique rows \<longleftrightarrow>
     distinct (map cl_id rows) \<and> distinct (map cl_identifier rows) \<and> distinct (map cl_digest rows)
     \<and> unique_nullable cl_request_id rows"

definition requests_unique :: "enrollment_request list \<Rightarrow> bool" where
  "requests_unique rows \<longleftrightarrow>
     distinct (map rq_id rows)
     \<and> distinct (map rq_installation_digest (filter (\<lambda>r. indexed_status (rq_status r)) rows))"

definition claim_envelopes_unique :: "claim_envelope list \<Rightarrow> bool" where
  "claim_envelopes_unique rows \<longleftrightarrow>
     distinct (map ce_id rows) \<and> distinct (map ce_request_id rows) \<and> distinct (map ce_claim_id rows)
     \<and> distinct (map (\<lambda>r. en_receipt_digest (ce_envelope r)) rows)"

definition deliveries_unique :: "delivery_envelope list \<Rightarrow> bool" where
  "deliveries_unique rows \<longleftrightarrow>
     distinct (map de_id rows) \<and> distinct (map de_credential_id rows)
     \<and> distinct (map (\<lambda>r. en_receipt_digest (de_envelope r)) rows)"

definition credentials_unique :: "credential list \<Rightarrow> bool" where
  "credentials_unique rows \<longleftrightarrow>
     distinct (map c_id rows) \<and> distinct (map (\<lambda>r. (c_device_id r, c_identifier r)) rows)
     \<and> distinct (map c_token_digest rows) \<and> unique_nullable c_pending_token_digest rows"

definition devices_unique :: "enrolled_device list \<Rightarrow> bool" where
  "devices_unique rows \<longleftrightarrow> distinct (map vd_id rows) \<and> distinct (map vd_identifier rows)"

definition enroll_constraints :: "enroll_db \<Rightarrow> bool" where
  "enroll_constraints db \<longleftrightarrow>
     campaigns_unique (e_campaigns db) \<and> claims_unique (e_claims db) \<and> requests_unique (e_requests db)
     \<and> claim_envelopes_unique (e_claim_envelopes db) \<and> deliveries_unique (e_deliveries db)
     \<and> credentials_unique (e_credentials db) \<and> devices_unique (e_devices db)
     \<and> distinct (map ee_id (e_events db))"

definition commit_enroll :: "enroll_db \<Rightarrow> enroll_error + enroll_db" where
  "commit_enroll db = (if enroll_constraints db then Inr db else Inl EnIntegrityError)"

lemma commit_enroll_Inr_iff [simp]: "commit_enroll db = Inr db' \<longleftrightarrow> enroll_constraints db \<and> db' = db"
  by (auto simp: commit_enroll_def)

definition store_campaign :: "campaign \<Rightarrow> enroll_db \<Rightarrow> enroll_db" where
  "store_campaign c db = db\<lparr>e_campaigns := store_row ca_id c (e_campaigns db)\<rparr>"

definition store_claim :: "claim \<Rightarrow> enroll_db \<Rightarrow> enroll_db" where
  "store_claim c db = db\<lparr>e_claims := store_row cl_id c (e_claims db)\<rparr>"

definition store_request :: "enrollment_request \<Rightarrow> enroll_db \<Rightarrow> enroll_db" where
  "store_request r db = db\<lparr>e_requests := store_row rq_id r (e_requests db)\<rparr>"

definition enroll_audit :: "audit_event \<Rightarrow> enroll_db \<Rightarrow> enroll_error + enroll_db" where
  "enroll_audit event db =
     bindE (append_audit_event EnValueError event (e_audits db)) (\<lambda>a. Inr (db\<lparr>e_audits := a\<rparr>))"

section \<open>Input checks\<close>

definition fingerprint_first :: "char \<Rightarrow> bool" where
  "fingerprint_first c \<longleftrightarrow> ascii_lower c \<or> ascii_digit c"

definition fingerprint_rest :: "char \<Rightarrow> bool" where
  "fingerprint_rest c \<longleftrightarrow> fingerprint_first c \<or> c \<in> set ''._-''"

definition fingerprint_pattern :: "string \<Rightarrow> bool" where
  "fingerprint_pattern s \<longleftrightarrow>
     take 7 s = ''sha256:''
     \<and> (case drop 7 s of [] \<Rightarrow> False
        | c # rest \<Rightarrow> fingerprint_first c \<and> 1 \<le> length rest \<and> length rest \<le> 248 \<and> list_all fingerprint_rest rest)"

definition normalize_hardware_fingerprint :: "string \<Rightarrow> enroll_error + string" where
  "normalize_hardware_fingerprint value =
     (let canonical = map lower_char value
      in if fingerprint_pattern canonical then Inr canonical else Inl EnValueError)"

definition printable_ascii :: "char \<Rightarrow> bool" where
  "printable_ascii c \<longleftrightarrow> 32 \<le> (of_char c :: nat) \<and> (of_char c :: nat) \<le> 126"

definition normalize_install_session_id :: "string \<Rightarrow> enroll_error + string" where
  "normalize_install_session_id value =
     (if value = [] \<or> 128 < length value \<or> value \<noteq> py_strip value \<or> \<not> list_all printable_ascii value
      then Inl EnValueError else Inr value)"

text \<open>The bounds of \<open>validate_bounded_json\<close>: the depth, the number of nodes (keys count too), the
  sizes, and the bytes of the compact serialization.\<close>

fun json_shape_ok :: "nat \<Rightarrow> json \<Rightarrow> bool" where
  "json_shape_ok d (JStr s) = (d \<le> 8 \<and> length s \<le> 4096)"
| "json_shape_ok d (JList vs) = (d \<le> 8 \<and> length vs \<le> 32 \<and> list_all (json_shape_ok (Suc d)) vs)"
| "json_shape_ok d (JObj kvs) =
     (d \<le> 8 \<and> length kvs \<le> 32 \<and> list_all (\<lambda>(k, v). d < 8 \<and> length k \<le> 4096 \<and> json_shape_ok (Suc d) v) kvs)"
| "json_shape_ok d _ = (d \<le> 8)"

fun json_nodes :: "json \<Rightarrow> nat" where
  "json_nodes (JList vs) = Suc (sum_list (map json_nodes vs))"
| "json_nodes (JObj kvs) = Suc (sum_list (map (\<lambda>(k, v). Suc (json_nodes v)) kvs))"
| "json_nodes _ = 1"

definition json_char_bytes :: "char \<Rightarrow> nat" where
  "json_char_bytes c = (let n = of_char c :: nat in
     if n = 34 \<or> n = 92 \<or> n = 8 \<or> n = 9 \<or> n = 10 \<or> n = 12 \<or> n = 13 then 2
     else if n < 32 then 6 else if n < 128 then 1 else 2)"

definition json_string_bytes :: "string \<Rightarrow> nat" where
  "json_string_bytes s = 2 + sum_list (map json_char_bytes s)"

fun json_bytes :: "json \<Rightarrow> nat" where
  "json_bytes JNull = 4"
| "json_bytes (JBool b) = (if b then 4 else 5)"
| "json_bytes (JInt n) = length (decimal_text \<bar>n\<bar>) + (if n < 0 then 1 else 0)"
| "json_bytes (JStr s) = json_string_bytes s"
| "json_bytes (JList vs) = 2 + (length vs - 1) + sum_list (map json_bytes vs)"
| "json_bytes (JObj kvs) =
     2 + (length kvs - 1) + sum_list (map (\<lambda>(k, v). json_string_bytes k + 1 + json_bytes v) kvs)"

definition validate_bounded_json :: "json \<Rightarrow> enroll_error + unit" where
  "validate_bounded_json value =
     ensure (json_shape_ok 0 value \<and> json_nodes value \<le> 1024 \<and> json_bytes value \<le> 65536) EnValueError"

section \<open>The Windows policy of a campaign\<close>

datatype enrollment_mode = AutoMode | ManualMode

record windows_policy =
  wp_policy_id :: string
  wp_mode :: enrollment_mode
  wp_releases :: "string list"

definition policy_id_ok :: "string \<Rightarrow> bool" where
  "policy_id_ok s \<longleftrightarrow>
     1 \<le> length s \<and> length s \<le> 128 \<and> fingerprint_first (hd s) \<and> list_all fingerprint_rest (tl s)"

definition release_ok :: "string \<Rightarrow> bool" where
  "release_ok s \<longleftrightarrow>
     1 \<le> length s \<and> length s \<le> 128 \<and> ascii_alnum (hd s) \<and> list_all (\<lambda>c. ascii_alnum c \<or> c \<in> set ''._+-'') (tl s)"

fun json_text :: "json \<Rightarrow> string option" where
  "json_text (JStr s) = Some s"
| "json_text _ = None"

fun json_texts :: "json list \<Rightarrow> string list option" where
  "json_texts [] = Some []"
| "json_texts (v # vs) =
     (case (json_text v, json_texts vs) of (Some s, Some ss) \<Rightarrow> Some (s # ss) | _ \<Rightarrow> None)"

fun policy_mode :: "json \<Rightarrow> enrollment_mode option" where
  "policy_mode (JStr s) = (if s = ''auto'' then Some AutoMode else if s = ''manual'' then Some ManualMode else None)"
| "policy_mode _ = None"

fun policy_releases :: "json \<Rightarrow> string list option" where
  "policy_releases (JList vs) =
     (case json_texts vs of
        None \<Rightarrow> None
      | Some rs \<Rightarrow> if 1 \<le> length rs \<and> length rs \<le> 64 \<and> list_all release_ok rs \<and> distinct rs then Some rs else None)"
| "policy_releases _ = None"

fun parse_windows_enrollment_policy :: "json \<Rightarrow> windows_policy option" where
  "parse_windows_enrollment_policy (JObj kvs) =
     (if \<not> list_all (\<lambda>(k, v). k \<in> {''policy_id'', ''enrollment_mode'', ''allowed_installer_releases''}) kvs then None
      else
        (case (map_of kvs ''policy_id'', map_of kvs ''enrollment_mode'', map_of kvs ''allowed_installer_releases'') of
           (Some (JStr i), Some m, Some r) \<Rightarrow>
             (case (policy_mode m, policy_releases r) of
                (Some mode, Some releases) \<Rightarrow>
                  if policy_id_ok i then Some \<lparr>wp_policy_id = i, wp_mode = mode, wp_releases = releases\<rparr> else None
              | _ \<Rightarrow> None)
         | _ \<Rightarrow> None))"
| "parse_windows_enrollment_policy _ = None"

end
