(* ===== verification/Enroll_Campaigns.thy ===== *)
theory Enroll_Campaigns
  imports Enroll_Model
begin

text \<open>
  \<open>enrollment/campaigns.py\<close>: issuing campaigns and install claims, reserving a use, revoking, and
  consuming a claim; with the routes that call them, \<open>create_campaign\<close>, \<open>update_campaign\<close> and
  \<open>revoke_enrollment_campaign\<close> of \<open>admin_routes.py\<close> and \<open>issue_provisioning_install_claim\<close> of
  \<open>provisioning_routes.py\<close>.

  The caller's transaction is the result: \<open>Inl\<close> is a raise, after which nothing is committed.
  Random identifiers and secrets and the value of \<open>uuid4()\<close> are arguments.
\<close>

section \<open>Tokens\<close>

definition issue_token :: "string \<Rightarrow> string \<Rightarrow> string \<Rightarrow> string \<times> string" where
  "issue_token marker identifier secret = (identifier, marker @ identifier @ ''.'' @ secret)"

definition hardware_fingerprint_digest :: "crypto \<Rightarrow> string \<Rightarrow> string \<Rightarrow> enroll_error + string" where
  "hardware_fingerprint_digest cr hardware_fingerprint pepper =
     bindE (normalize_hardware_fingerprint hardware_fingerprint) (\<lambda>f. keyed_digest cr f pepper fingerprint_context)"

definition install_claim_bindings_match :: "crypto \<Rightarrow> claim \<Rightarrow> string \<Rightarrow> string \<Rightarrow> string \<Rightarrow> bool" where
  "install_claim_bindings_match cr cl pepper installation_session hardware_fingerprint =
     (case (keyed_digest cr installation_session pepper install_session_context,
            hardware_fingerprint_digest cr hardware_fingerprint pepper) of
        (Inr s, Inr f) \<Rightarrow> s = cl_session_digest cl \<and> f = cl_fingerprint_digest cl
      | _ \<Rightarrow> False)"

section \<open>Issuing\<close>

definition canonical_cidr :: "string \<Rightarrow> bool" where
  "canonical_cidr v = (case ip_network v of None \<Rightarrow> False | Some net \<Rightarrow> network_text net = v)"

definition normalized_cidrs :: "string list \<Rightarrow> enroll_error + string list" where
  "normalized_cidrs values =
     (if values = [] \<or> \<not> list_all canonical_cidr values then Inl EnValueError else Inr (sort (remdups values)))"

definition text_ok :: "nat \<Rightarrow> bool \<Rightarrow> string \<Rightarrow> bool" where
  "text_ok maximum ascii_only v \<longleftrightarrow>
     v \<noteq> [] \<and> v = py_strip v \<and> list_all py_isprintable v \<and> (ascii_only \<longrightarrow> list_all py_isascii v)
     \<and> length v \<le> maximum \<and> list_all (\<lambda>c. 32 \<le> (of_char c :: nat)) v"

definition validated_text :: "nat \<Rightarrow> bool \<Rightarrow> bool \<Rightarrow> string option \<Rightarrow> enroll_error + string option" where
  "validated_text maximum required ascii_only value =
     (case value of
        None \<Rightarrow> if required then Inl EnValueError else Inr None
      | Some v \<Rightarrow> if text_ok maximum ascii_only v then Inr (Some v) else Inl EnValueError)"

definition validate_campaign_display_text :: "nat \<Rightarrow> string option \<Rightarrow> enroll_error + string option" where
  "validate_campaign_display_text maximum value = validated_text maximum False False value"

definition expiry_utc :: "moment \<Rightarrow> enroll_error + instant" where
  "expiry_utc m = (case m of Aware t \<Rightarrow> Inr t | Naive _ \<Rightarrow> Inl EnValueError)"

record campaign_input =
  ci_expires_at :: moment
  ci_max_uses :: int
  ci_allowed_cidrs :: "string list"
  ci_target_platform :: string
  ci_policy :: json
  ci_label :: "string option"
  ci_site :: "string option"

definition policy_acceptable :: "string \<Rightarrow> json \<Rightarrow> bool" where
  "policy_acceptable platform policy \<longleftrightarrow>
     validate_bounded_json policy = Inr () \<and> (platform = ''windows'' \<longrightarrow> parse_windows_enrollment_policy policy \<noteq> None)"

definition issue_campaign ::
  "crypto \<Rightarrow> uuid \<Rightarrow> string \<Rightarrow> string \<Rightarrow> instant \<Rightarrow> string \<Rightarrow> campaign_input \<Rightarrow> moment option \<Rightarrow> enroll_error + (string \<times> campaign)" where
  "issue_campaign cr identity random_identifier random_secret clock pepper inp now =
     bindE (aware_now clock now) (\<lambda>issued_at.
     bindE (expiry_utc (ci_expires_at inp)) (\<lambda>expiry.
       if expiry \<le> issued_at then Inl EnValueError
       else if ci_max_uses inp \<le> 0 then Inl EnValueError
       else if \<not> text_ok 64 True (ci_target_platform inp) then Inl EnValueError
       else if \<not> policy_acceptable (ci_target_platform inp) (ci_policy inp) then Inl EnValueError
       else
         let (identifier, token) = issue_token ''ec_'' random_identifier random_secret in
         bindE (campaign_token_digest cr token pepper) (\<lambda>digest.
         bindE (normalized_cidrs (ci_allowed_cidrs inp)) (\<lambda>cidrs.
         bindE (validate_campaign_display_text 256 (ci_label inp)) (\<lambda>label.
         bindE (validate_campaign_display_text 128 (ci_site inp)) (\<lambda>site.
           Inr (token,
             \<lparr>ca_id = identity, ca_identifier = identifier, ca_token_digest = digest, ca_expires_at = Some (Aware expiry),
              ca_disabled_at = None, ca_max_uses = ci_max_uses inp, ca_use_count = 0, ca_allowed_cidrs = cidrs,
              ca_target_platform = ci_target_platform inp, ca_policy = ci_policy inp, ca_label = label, ca_site = site,
              ca_revoked_at = None\<rparr>)))))))"

text \<open>A campaign that is neither revoked, disabled nor expired.\<close>

definition campaign_live :: "campaign \<Rightarrow> instant \<Rightarrow> bool" where
  "campaign_live c at \<longleftrightarrow>
     ca_revoked_at c = None \<and> ca_disabled_at c = None
     \<and> (case ca_expires_at c of Some (Aware t) \<Rightarrow> at < t | _ \<Rightarrow> False)"

definition issue_install_claim ::
  "crypto \<Rightarrow> uuid \<Rightarrow> string \<Rightarrow> string \<Rightarrow> instant \<Rightarrow> campaign \<Rightarrow> string \<Rightarrow> string \<Rightarrow> string \<Rightarrow> moment \<Rightarrow> moment option
   \<Rightarrow> enroll_error + (string \<times> claim)" where
  "issue_install_claim cr identity random_identifier random_secret clock c pepper installation_session hardware_fingerprint expires_at now =
     bindE (aware_now clock now) (\<lambda>issued_at.
     bindE (expiry_utc expires_at) (\<lambda>expiry.
       if expiry \<le> issued_at then Inl EnValueError
       else if \<not> (campaign_live c issued_at \<and> ca_use_count c < ca_max_uses c) then Inl (EnrollmentDenied ''Enrollment denied'')
       else if (case ca_expires_at c of Some (Aware t) \<Rightarrow> t < expiry | _ \<Rightarrow> False) then Inl EnValueError
       else
         bindE (normalize_hardware_fingerprint hardware_fingerprint) (\<lambda>canonical.
         let (identifier, token) = issue_token ''ic_'' random_identifier random_secret in
         bindE (claim_token_digest cr token pepper) (\<lambda>digest.
         bindE (keyed_digest cr installation_session pepper install_session_context) (\<lambda>session_digest.
         bindE (hardware_fingerprint_digest cr canonical pepper) (\<lambda>fingerprint_digest.
           Inr (token,
             \<lparr>cl_id = identity, cl_campaign_id = ca_id c, cl_request_id = None, cl_identifier = identifier, cl_digest = digest,
              cl_session_digest = session_digest, cl_fingerprint_digest = fingerprint_digest, cl_expires_at = Aware expiry,
              cl_device_id = None, cl_claimed_at = None\<rparr>)))))))"

section \<open>Matching a request\<close>

fun parse_networks :: "string list \<Rightarrow> ip_net list option" where
  "parse_networks [] = Some []"
| "parse_networks (v # vs) =
     (case (ip_network v, parse_networks vs) of (Some n, Some ns) \<Rightarrow> Some (n # ns) | _ \<Rightarrow> None)"

definition campaign_request_matches :: "campaign \<Rightarrow> instant \<Rightarrow> ip_address \<Rightarrow> string \<Rightarrow> bool" where
  "campaign_request_matches c now source_address platform \<longleftrightarrow>
     campaign_live c now \<and> platform = ca_target_platform c
     \<and> (case parse_networks (ca_allowed_cidrs c) of
          None \<Rightarrow> False
        | Some networks \<Rightarrow> list_ex (\<lambda>net. net_contains net source_address) networks)"

definition campaign_allows :: "campaign \<Rightarrow> instant \<Rightarrow> ip_address \<Rightarrow> string \<Rightarrow> bool" where
  "campaign_allows c now source_address platform \<longleftrightarrow>
     ca_use_count c < ca_max_uses c \<and> campaign_request_matches c now source_address platform"

fun address_text :: "ip_address \<Rightarrow> string" where
  "address_text (V4 n) = v4_text n"
| "address_text (V6 n) = v6_text n"

definition used :: "campaign \<Rightarrow> campaign" where
  "used c = c\<lparr>ca_use_count := ca_use_count c + 1\<rparr>"

definition reserve_campaign_use ::
  "crypto \<Rightarrow> instant \<Rightarrow> string \<Rightarrow> string \<Rightarrow> ip_address \<Rightarrow> string \<Rightarrow> string \<Rightarrow> string option \<Rightarrow> string \<Rightarrow> moment option \<Rightarrow> enroll_db
   \<Rightarrow> enroll_error + (enroll_db \<times> campaign)" where
  "reserve_campaign_use cr clock token pepper source_address platform actor_kind actor_ident request_id now db =
     bindE (aware_now clock now) (\<lambda>checked_at.
       case campaign_token_digest cr token pepper of
         Inl _ \<Rightarrow> Inl (EnrollmentDenied ''Enrollment denied'')
       | Inr digest \<Rightarrow>
           (case find (\<lambda>c. ca_token_digest c = digest) (e_campaigns db) of
              None \<Rightarrow> Inl (EnrollmentDenied ''Enrollment denied'')
            | Some c \<Rightarrow>
                if \<not> campaign_allows c checked_at source_address platform
                then Inl (EnrollmentDenied ''Enrollment denied'')
                else bindE (enroll_audit
                       (audit actor_kind actor_ident ''enrollment_campaign.use_reserved'' ''enrollment_campaign''
                         (Some (uuid_text (ca_id c))) request_id
                         [(''platform'', JStr platform), (''source_address'', JStr (address_text source_address))] checked_at)
                       (store_campaign (used c) db)) (\<lambda>db'. Inr (db', used c))))"

definition revoke_campaign ::
  "instant \<Rightarrow> uuid \<Rightarrow> string \<Rightarrow> string \<Rightarrow> moment option \<Rightarrow> enroll_db \<Rightarrow> enroll_error + (enroll_db \<times> campaign)" where
  "revoke_campaign clock campaign_id actor_ident request_id now db =
     bindE (aware_now clock now) (\<lambda>revoked_at.
       case find_row ca_id campaign_id (e_campaigns db) of
         None \<Rightarrow> Inl (EnrollmentDenied ''Enrollment campaign not found'')
       | Some c \<Rightarrow>
           if ca_revoked_at c \<noteq> None then Inr (db, c)
           else
             let c' = c\<lparr>ca_revoked_at := Some revoked_at\<rparr>
             in bindE (enroll_audit
                  (audit ''admin'' (Some actor_ident) ''enrollment_campaign.revoked'' ''enrollment_campaign''
                    (Some (uuid_text (ca_id c))) request_id [] revoked_at) (store_campaign c' db)) (\<lambda>db'. Inr (db', c')))"

definition claim_consumable :: "crypto \<Rightarrow> claim \<Rightarrow> instant \<Rightarrow> string \<Rightarrow> string \<Rightarrow> string \<Rightarrow> bool" where
  "claim_consumable cr cl at pepper installation_session hardware_fingerprint \<longleftrightarrow>
     cl_claimed_at cl = None \<and> (case cl_expires_at cl of Naive _ \<Rightarrow> False | Aware t \<Rightarrow> at < t)
     \<and> install_claim_bindings_match cr cl pepper installation_session hardware_fingerprint"

definition consume_install_claim ::
  "crypto \<Rightarrow> instant \<Rightarrow> string \<Rightarrow> string \<Rightarrow> string \<Rightarrow> string \<Rightarrow> ip_address \<Rightarrow> string \<Rightarrow> string \<Rightarrow> string option \<Rightarrow> string
   \<Rightarrow> moment option \<Rightarrow> enroll_db \<Rightarrow> enroll_error + (enroll_db \<times> claim)" where
  "consume_install_claim cr clock token pepper installation_session hardware_fingerprint source_address platform
      actor_kind actor_ident request_id now db =
     bindE (aware_now clock now) (\<lambda>checked_at.
       case claim_token_digest cr token pepper of
         Inl _ \<Rightarrow> Inl (EnrollmentDenied ''Enrollment denied'')
       | Inr digest \<Rightarrow>
           (case find (\<lambda>c. cl_digest c = digest) (e_claims db) of
              None \<Rightarrow> Inl (EnrollmentDenied ''Enrollment denied'')
            | Some cl \<Rightarrow>
                if \<not> claim_consumable cr cl checked_at pepper installation_session hardware_fingerprint
                then Inl (EnrollmentDenied ''Enrollment denied'')
                else
                  (case find_row ca_id (cl_campaign_id cl) (e_campaigns db) of
                     None \<Rightarrow> Inl (EnrollmentDenied ''Enrollment denied'')
                   | Some c \<Rightarrow>
                       if \<not> campaign_allows c checked_at source_address platform
                       then Inl (EnrollmentDenied ''Enrollment denied'')
                       else
                         let cl' = cl\<lparr>cl_claimed_at := Some checked_at\<rparr>
                         in bindE (enroll_audit
                              (audit actor_kind actor_ident ''enrollment_claim.consumed'' ''enrollment_claim''
                                (Some (uuid_text (cl_id cl))) request_id [] checked_at)
                              (store_campaign (used c) (store_claim cl' db))) (\<lambda>db'. Inr (db', cl')))))"

section \<open>Administration\<close>

definition invalid_campaign :: "enroll_error + 'a \<Rightarrow> enroll_error + 'a" where
  "invalid_campaign r = (if r = Inl EnValueError then Inl (HttpError 422 ''Invalid enrollment campaign'') else r)"

definition create_campaign ::
  "crypto \<Rightarrow> uuid \<Rightarrow> string \<Rightarrow> string \<Rightarrow> instant \<Rightarrow> instant \<Rightarrow> string \<Rightarrow> string \<Rightarrow> string \<Rightarrow> campaign_input \<Rightarrow> enroll_db
   \<Rightarrow> enroll_error + (enroll_db \<times> string \<times> campaign)" where
  "create_campaign cr identity random_identifier random_secret clock audited_at pepper admin request_id inp db =
     bindE (invalid_campaign (issue_campaign cr identity random_identifier random_secret clock pepper inp None)) (\<lambda>(token, c).
     bindE (enroll_audit
       (audit ''admin'' (Some admin) ''enrollment_campaign.created'' ''enrollment_campaign'' (Some (uuid_text (ca_id c))) request_id
         [(''allowed_cidrs'', JList (map JStr (ca_allowed_cidrs c))),
          (''expires_at'', JStr (case ca_expires_at c of Some (Aware t) \<Rightarrow> isoformat cr t | _ \<Rightarrow> [])),
          (''label'', (case ca_label c of None \<Rightarrow> JNull | Some l \<Rightarrow> JStr l)), (''max_uses'', JInt (ca_max_uses c)),
          (''site'', (case ca_site c of None \<Rightarrow> JNull | Some l \<Rightarrow> JStr l)), (''target_platform'', JStr (ca_target_platform c))]
         audited_at)
       (db\<lparr>e_campaigns := e_campaigns db @ [c]\<rparr>)) (\<lambda>db1.
     bindE (commit_enroll db1) (\<lambda>db'. Inr (db', token, c))))"

text \<open>A patch and the names of the fields it sets, \<open>model_fields_set\<close>.\<close>

record campaign_patch =
  cp_fields :: "string list"
  cp_expires_at :: "moment option"
  cp_max_uses :: "int option"
  cp_allowed_cidrs :: "string list option"
  cp_policy :: "json option"
  cp_label :: "string option"
  cp_site :: "string option"

definition patched_bounds :: "instant \<Rightarrow> campaign_patch \<Rightarrow> campaign \<Rightarrow> enroll_error + campaign" where
  "patched_bounds now p c =
     (let policy = (case cp_policy p of None \<Rightarrow> ca_policy c | Some v \<Rightarrow> v) in
      if \<not> policy_acceptable (ca_target_platform c) policy then Inl EnValueError
      else if (case cp_expires_at p of Some (Naive _) \<Rightarrow> True | _ \<Rightarrow> False) then Inl EnOtherError
      else if (case cp_expires_at p of Some (Aware t) \<Rightarrow> t \<le> now | _ \<Rightarrow> False) then Inl EnValueError
      else if (case cp_max_uses p of Some n \<Rightarrow> n < ca_use_count c | None \<Rightarrow> False) then Inl EnValueError
      else Inr (c\<lparr>ca_policy := policy,
                  ca_expires_at := (case cp_expires_at p of None \<Rightarrow> ca_expires_at c | Some m \<Rightarrow> Some m),
                  ca_max_uses := (case cp_max_uses p of None \<Rightarrow> ca_max_uses c | Some n \<Rightarrow> n)\<rparr>))"

definition patched_cidrs :: "crypto \<Rightarrow> uuid \<Rightarrow> string \<Rightarrow> string \<Rightarrow> string \<Rightarrow> instant \<Rightarrow> campaign_patch \<Rightarrow> campaign \<Rightarrow> enroll_error + campaign" where
  "patched_cidrs cr identity random_identifier random_secret pepper now p c =
     (case cp_allowed_cidrs p of
        None \<Rightarrow> Inr c
      | Some cidrs \<Rightarrow>
          (case ca_expires_at c of
             None \<Rightarrow> Inl EnOtherError
           | Some expires \<Rightarrow>
               bindE (issue_campaign cr identity random_identifier random_secret now pepper
                 \<lparr>ci_expires_at = expires, ci_max_uses = ca_max_uses c, ci_allowed_cidrs = cidrs,
                  ci_target_platform = ca_target_platform c, ci_policy = ca_policy c, ci_label = ca_label c,
                  ci_site = ca_site c\<rparr> (Some (Aware now)))
                 (\<lambda>(_, v). Inr (c\<lparr>ca_allowed_cidrs := ca_allowed_cidrs v\<rparr>))))"

definition patched_texts :: "campaign_patch \<Rightarrow> campaign \<Rightarrow> enroll_error + campaign" where
  "patched_texts p c =
     bindE (if ''label'' \<in> set (cp_fields p) then validate_campaign_display_text 256 (cp_label p) else Inr (ca_label c)) (\<lambda>label.
     bindE (if ''site'' \<in> set (cp_fields p) then validate_campaign_display_text 128 (cp_site p) else Inr (ca_site c)) (\<lambda>site.
       Inr (c\<lparr>ca_label := label, ca_site := site\<rparr>)))"

definition update_campaign ::
  "crypto \<Rightarrow> uuid \<Rightarrow> string \<Rightarrow> string \<Rightarrow> instant \<Rightarrow> instant \<Rightarrow> string \<Rightarrow> string \<Rightarrow> string \<Rightarrow> uuid \<Rightarrow> campaign_patch \<Rightarrow> enroll_db
   \<Rightarrow> enroll_error + (enroll_db \<times> unit)" where
  "update_campaign cr identity random_identifier random_secret now audited_at pepper admin request_id campaign_id p db =
     (case find_row ca_id campaign_id (e_campaigns db) of
        None \<Rightarrow> Inl (HttpError 404 ''Enrollment campaign not found'')
      | Some c \<Rightarrow>
          bindE (invalid_campaign
            (bindE (patched_bounds now p c) (\<lambda>c1.
             bindE (patched_cidrs cr identity random_identifier random_secret pepper now p c1) (patched_texts p)))) (\<lambda>c'.
          bindE (enroll_audit
            (audit ''admin'' (Some admin) ''enrollment_campaign.updated'' ''enrollment_campaign'' (Some (uuid_text (ca_id c))) request_id
              [(''changed_fields'', JList (map JStr (sort (cp_fields p))))] audited_at) (store_campaign c' db)) (\<lambda>db1.
          bindE (commit_enroll db1) (\<lambda>db'. Inr (db', ())))))"

definition revoke_enrollment_campaign ::
  "instant \<Rightarrow> uuid \<Rightarrow> string \<Rightarrow> string \<Rightarrow> enroll_db \<Rightarrow> enroll_error + (enroll_db \<times> unit)" where
  "revoke_enrollment_campaign clock campaign_id admin request_id db =
     (case revoke_campaign clock campaign_id admin request_id None db of
        Inl (EnrollmentDenied _) \<Rightarrow> Inl (HttpError 404 ''Enrollment campaign not found'')
      | Inl e \<Rightarrow> Inl e
      | Inr (db1, _) \<Rightarrow> bindE (commit_enroll db1) (\<lambda>db'. Inr (db', ())))"

section \<open>Provisioning\<close>

definition install_claim_lifetime :: int where
  "install_claim_lifetime = minutes 15"

text \<open>\<open>binding_ok\<close> is the outcome of the pilot credential check of the route.\<close>

definition issue_provisioning_install_claim ::
  "crypto \<Rightarrow> uuid \<Rightarrow> string \<Rightarrow> string \<Rightarrow> instant \<Rightarrow> string \<Rightarrow> string \<Rightarrow> string \<Rightarrow> bool \<Rightarrow> uuid \<Rightarrow> string \<Rightarrow> string \<Rightarrow> enroll_db
   \<Rightarrow> enroll_error + (enroll_db \<times> string \<times> claim)" where
  "issue_provisioning_install_claim cr identity random_identifier random_secret issued_at pepper service request_id binding_ok
      campaign_id install_session hardware_fingerprint db =
     (case (normalize_install_session_id install_session, normalize_hardware_fingerprint hardware_fingerprint) of
        (Inr session_id, Inr fingerprint) \<Rightarrow>
          if \<not> binding_ok then Inl (HttpError 403 ''Test-pilot credential binding is missing'')
          else
            (case find_row ca_id campaign_id (e_campaigns db) of
               None \<Rightarrow> Inl (HttpError 404 ''Enrollment campaign not found'')
             | Some c \<Rightarrow>
                 (case ca_expires_at c of
                    Some (Aware expiry) \<Rightarrow>
                      if expiry \<le> issued_at then Inl (HttpError 404 ''Enrollment campaign not found'')
                      else
                        (case issue_install_claim cr identity random_identifier random_secret issued_at c pepper session_id fingerprint
                                (Aware (min (issued_at + install_claim_lifetime) expiry)) (Some (Aware issued_at)) of
                           Inl (EnrollmentDenied _) \<Rightarrow> Inl (HttpError 404 ''Enrollment campaign not found'')
                         | Inl _ \<Rightarrow> Inl (HttpError 422 ''Invalid provisioning install claim'')
                         | Inr (token, cl) \<Rightarrow>
                             bindE (enroll_audit
                               (audit ''service'' (Some service) ''provisioning_install_claim.issued'' ''enrollment_claim''
                                 (Some (uuid_text (cl_id cl))) request_id
                                 [(''campaign_id'', JStr (uuid_text (ca_id c))),
                                  (''expires_at'', JStr (case cl_expires_at cl of Aware t \<Rightarrow> isoformat cr t | Naive _ \<Rightarrow> []))] issued_at)
                               (db\<lparr>e_claims := e_claims db @ [cl]\<rparr>)) (\<lambda>db1.
                             bindE (commit_enroll db1) (\<lambda>db'. Inr (db', token, cl))))
                  | _ \<Rightarrow> Inl (HttpError 404 ''Enrollment campaign not found'')))
      | _ \<Rightarrow> Inl (HttpError 422 ''Invalid provisioning install claim''))"

end
