(* ===== verification/Enroll_Requests.thy ===== *)
theory Enroll_Requests
  imports Enroll_Campaigns
begin

text \<open>
  \<open>enrollment/requests.py\<close>: the status graph of an enrollment request, the choice of its campaign and
  its record; with the routes on it: \<open>create_enrollment_request\<close>, \<open>enrollment_request_status\<close> and
  \<open>handoff_enrollment_request_claim\<close> of \<open>request_routes.py\<close>, \<open>approve_request\<close> and \<open>deny_request\<close> of
  \<open>admin_request_routes.py\<close>.

  A route that commits and then raises returns the committed tables with the error as its answer.
\<close>

section \<open>The status graph\<close>

fun allowed_transitions :: "request_status \<Rightarrow> request_status list" where
  "allowed_transitions SCreated = [SValidating, SDenied, SFailed, SCancelled, SExpired]"
| "allowed_transitions SValidating = [SAutoApproved, SWaitingApproval, SReviewRequired, SDenied, SFailed, SExpired]"
| "allowed_transitions SAutoApproved = [SClaimIssued, SDenied, SExpired, SFailed]"
| "allowed_transitions SWaitingApproval = [SApproved, SDenied, SExpired, SCancelled]"
| "allowed_transitions SReviewRequired = [SApproved, SDenied, SExpired, SCancelled]"
| "allowed_transitions SApproved = [SClaimIssued, SDenied, SExpired, SFailed]"
| "allowed_transitions SClaimIssued = [SEnrolling, SDenied, SExpired, SFailed]"
| "allowed_transitions SEnrolling = [SDeviceRegistered, SFailed, SExpired]"
| "allowed_transitions SDeviceRegistered = [SWaitingWss, SFailed, SExpired]"
| "allowed_transitions SWaitingWss = [SCompleted, SFailed, SExpired]"
| "allowed_transitions _ = []"

definition transition_request_status :: "request_status \<Rightarrow> request_status \<Rightarrow> enroll_error + bool" where
  "transition_request_status current next_status =
     (if next_status \<in> set (allowed_transitions current) then Inr True else Inl RequestTransitionError)"

fun status_text :: "request_status \<Rightarrow> string" where
  "status_text SCreated = ''created''"
| "status_text SValidating = ''validating''"
| "status_text SAutoApproved = ''auto_approved''"
| "status_text SWaitingApproval = ''waiting_approval''"
| "status_text SReviewRequired = ''review_required''"
| "status_text SApproved = ''approved''"
| "status_text SClaimIssued = ''claim_issued''"
| "status_text SEnrolling = ''enrolling''"
| "status_text SDeviceRegistered = ''device_registered''"
| "status_text SWaitingWss = ''waiting_wss''"
| "status_text SCompleted = ''completed''"
| "status_text SDenied = ''denied''"
| "status_text SFailed = ''failed''"
| "status_text SCancelled = ''cancelled''"
| "status_text SExpired = ''expired''"

section \<open>Choosing a campaign\<close>

record campaign_selection =
  sl_status :: request_status
  sl_campaign :: "campaign option"
  sl_reason :: string
  sl_policy_id :: "string option"
  sl_mode :: "enrollment_mode option"
  sl_source_network_match :: bool
  sl_release_match :: bool
  sl_identity_conflict :: bool

definition campaign_eligible :: "instant \<Rightarrow> ip_address \<Rightarrow> string \<Rightarrow> campaign \<Rightarrow> bool" where
  "campaign_eligible now source_address release c \<longleftrightarrow>
     (case parse_windows_enrollment_policy (ca_policy c) of
        None \<Rightarrow> False
      | Some policy \<Rightarrow>
          release \<in> set (wp_releases policy)
          \<and> campaign_request_matches c now source_address ''windows'' \<and> ca_use_count c < ca_max_uses c)"

definition evaluate_campaign_selection ::
  "campaign list \<Rightarrow> ip_address \<Rightarrow> string \<Rightarrow> instant \<Rightarrow> bool \<Rightarrow> campaign_selection" where
  "evaluate_campaign_selection campaigns source_address release now conflict =
     (case filter (campaign_eligible now source_address release) campaigns of
        [] \<Rightarrow> \<lparr>sl_status = SDenied, sl_campaign = None, sl_reason = ''NO_MATCHING_CAMPAIGN'', sl_policy_id = None,
              sl_mode = None, sl_source_network_match = False, sl_release_match = False, sl_identity_conflict = False\<rparr>
      | [c] \<Rightarrow>
          (case parse_windows_enrollment_policy (ca_policy c) of
             None \<Rightarrow> \<lparr>sl_status = SDenied, sl_campaign = None, sl_reason = ''NO_MATCHING_CAMPAIGN'', sl_policy_id = None,
                     sl_mode = None, sl_source_network_match = False, sl_release_match = False, sl_identity_conflict = False\<rparr>
           | Some policy \<Rightarrow>
               let (status, reason) =
                     (if conflict then (SReviewRequired, ''DUPLICATE_IDENTITY'')
                      else if wp_mode policy = ManualMode then (SWaitingApproval, ''MANUAL_POLICY'')
                      else (SAutoApproved, ''AUTO_POLICY''))
               in \<lparr>sl_status = status, sl_campaign = Some c, sl_reason = reason, sl_policy_id = Some (wp_policy_id policy),
                   sl_mode = Some (wp_mode policy), sl_source_network_match = True, sl_release_match = True,
                   sl_identity_conflict = conflict\<rparr>)
      | _ \<Rightarrow> \<lparr>sl_status = SReviewRequired, sl_campaign = None, sl_reason = ''AMBIGUOUS_CAMPAIGN'', sl_policy_id = None,
             sl_mode = None, sl_source_network_match = True, sl_release_match = True, sl_identity_conflict = conflict\<rparr>)"

section \<open>The record\<close>

record request_body =
  rb_installation_id :: string
  rb_hardware_fingerprint :: string
  rb_request_capability :: string
  rb_installer_version :: string
  rb_installer_release_id :: string
  rb_hostname :: string
  rb_manufacturer :: "string option"
  rb_model :: "string option"
  rb_serial :: "string option"
  rb_product_uuid :: "string option"
  rb_macs :: "string list"

definition request_lifetime :: int where
  "request_lifetime = hours 24"

definition build_enrollment_request ::
  "crypto \<Rightarrow> uuid \<Rightarrow> request_body \<Rightarrow> ip_address \<Rightarrow> campaign_selection \<Rightarrow> string \<Rightarrow> instant \<Rightarrow> enroll_error + enrollment_request" where
  "build_enrollment_request cr identity body source_address selection pepper now =
     bindE (binding_digest cr (rb_installation_id body) pepper installation_id_context) (\<lambda>installation.
     bindE (binding_digest cr (rb_hardware_fingerprint body) pepper request_fingerprint_context) (\<lambda>fingerprint.
     bindE (request_capability_digest cr (rb_request_capability body) pepper) (\<lambda>capability.
       Inr \<lparr>rq_id = identity, rq_created_at = Aware now, rq_installation_digest = installation,
            rq_fingerprint_digest = fingerprint, rq_capability_digest = capability, rq_platform = ''windows'',
            rq_hostname = rb_hostname body, rq_manufacturer = rb_manufacturer body, rq_model = rb_model body,
            rq_serial = rb_serial body, rq_product_uuid = rb_product_uuid body, rq_macs = rb_macs body,
            rq_source_address = address_text source_address, rq_installer_version = rb_installer_version body,
            rq_installer_release_id = rb_installer_release_id body,
            rq_selected_campaign_id = map_option ca_id (sl_campaign selection), rq_status = sl_status selection,
            rq_decision_reason = Some (sl_reason selection),
            rq_decided_at = (if sl_status selection \<in> {SAutoApproved, SDenied, SReviewRequired} then Some now else None),
            rq_decided_by = None, rq_device_id = None, rq_updated_at = now, rq_expires_at = now + request_lifetime\<rparr>)))"

definition request_bindings_match :: "crypto \<Rightarrow> enrollment_request \<Rightarrow> string \<Rightarrow> string \<Rightarrow> string \<Rightarrow> bool" where
  "request_bindings_match cr r installation_id hardware_fingerprint pepper =
     (case (binding_digest cr installation_id pepper installation_id_context,
            binding_digest cr hardware_fingerprint pepper request_fingerprint_context) of
        (Inr i, Inr f) \<Rightarrow> i = rq_installation_digest r \<and> f = rq_fingerprint_digest r
      | _ \<Rightarrow> False)"

definition count_if :: "('a \<Rightarrow> bool) \<Rightarrow> 'a list \<Rightarrow> nat" where
  "count_if P xs = length (filter P xs)"

definition created_since :: "instant \<Rightarrow> enrollment_request \<Rightarrow> bool" where
  "created_since cutoff r = (case rq_created_at r of Naive _ \<Rightarrow> False | Aware t \<Rightarrow> cutoff \<le> t)"

definition enrollment_request_rate_limited :: "enrollment_request list \<Rightarrow> enrollment_request \<Rightarrow> instant \<Rightarrow> bool" where
  "enrollment_request_rate_limited records candidate now =
     (let recent = filter (created_since (now - hours 1)) records
      in 30 \<le> count_if (\<lambda>r. rq_source_address r = rq_source_address candidate) recent
         \<or> 3 \<le> count_if (\<lambda>r. rq_installation_digest r = rq_installation_digest candidate) recent
         \<or> 3 \<le> count_if (\<lambda>r. rq_fingerprint_digest r = rq_fingerprint_digest candidate) recent)"

definition optional_uuid :: "uuid option \<Rightarrow> json" where
  "optional_uuid i = (case i of None \<Rightarrow> JNull | Some u \<Rightarrow> JStr (uuid_text u))"

fun mode_json :: "enrollment_mode option \<Rightarrow> json" where
  "mode_json None = JNull"
| "mode_json (Some AutoMode) = JStr ''auto''"
| "mode_json (Some ManualMode) = JStr ''manual''"

definition request_event :: "enrollment_request \<Rightarrow> string \<Rightarrow> string \<Rightarrow> string \<Rightarrow> string option \<Rightarrow> (string \<times> json) list \<Rightarrow> instant \<Rightarrow> audit_event" where
  "request_event r action request_id actor_kind actor_ident details now =
     audit actor_kind actor_ident action ''enrollment_request'' (Some (uuid_text (rq_id r))) request_id details now"

definition persist_enrollment_request ::
  "enrollment_request \<Rightarrow> campaign_selection \<Rightarrow> string \<Rightarrow> instant \<Rightarrow> enroll_db \<Rightarrow> enroll_error + enroll_db" where
  "persist_enrollment_request r selection request_id now db =
     bindE (enroll_audit
       (request_event r ''enrollment_request.created'' request_id ''installer'' None
         [(''installer_release_id'', JStr (rq_installer_release_id r)), (''platform'', JStr (rq_platform r)),
          (''selected_campaign_id'', optional_uuid (rq_selected_campaign_id r)),
          (''source_address'', JStr (rq_source_address r)), (''status'', JStr (status_text (rq_status r)))] now)
       (db\<lparr>e_requests := e_requests db @ [r]\<rparr>)) (\<lambda>db1.
     if sl_status selection \<notin> {SAutoApproved, SWaitingApproval, SReviewRequired, SDenied} then Inl EnOtherError
     else enroll_audit
       (request_event r (''enrollment_request.'' @ status_text (sl_status selection)) request_id ''installer'' None
         [(''identity_conflict'', JBool (sl_identity_conflict selection)),
          (''installer_release_id'', JStr (rq_installer_release_id r)), (''mode'', mode_json (sl_mode selection)),
          (''platform'', JStr (rq_platform r)),
          (''policy_id'', (case sl_policy_id selection of None \<Rightarrow> JNull | Some i \<Rightarrow> JStr i)),
          (''reason'', JStr (sl_reason selection)), (''release_match'', JBool (sl_release_match selection)),
          (''selected_campaign_id'', optional_uuid (rq_selected_campaign_id r)),
          (''source_network_match'', JBool (sl_source_network_match selection))] now) db1)"

section \<open>Transitions of a record\<close>

definition parse_address :: "string \<Rightarrow> ip_address option" where
  "parse_address s =
     (case parse_v4 s of Some n \<Rightarrow> Some (V4 n)
      | None \<Rightarrow> (case parse_v6 s of Some (n, _) \<Rightarrow> Some (V6 n) | None \<Rightarrow> None))"

definition selected_campaign_still_allows_request :: "enrollment_request \<Rightarrow> campaign \<Rightarrow> instant \<Rightarrow> bool" where
  "selected_campaign_still_allows_request r c now =
     (case parse_address (rq_source_address r) of
        None \<Rightarrow> False
      | Some source_address \<Rightarrow>
          rq_selected_campaign_id r = Some (ca_id c)
          \<and> (case parse_windows_enrollment_policy (ca_policy c) of
               None \<Rightarrow> False
             | Some policy \<Rightarrow> rq_installer_release_id r \<in> set (wp_releases policy))
          \<and> ca_use_count c < ca_max_uses c
          \<and> campaign_request_matches c now source_address ''windows'')"

definition approve_enrollment_request :: "enrollment_request \<Rightarrow> campaign \<Rightarrow> instant \<Rightarrow> enroll_error + enrollment_request" where
  "approve_enrollment_request r c now =
     bindE (transition_request_status (rq_status r) SApproved) (\<lambda>_.
       if \<not> selected_campaign_still_allows_request r c now then Inl RequestTransitionError
       else Inr (r\<lparr>rq_status := SApproved, rq_decision_reason := Some ''MANUALLY_APPROVED'', rq_decided_at := Some now,
                    rq_updated_at := now\<rparr>))"

definition deny_enrollment_request :: "enrollment_request \<Rightarrow> string \<Rightarrow> instant \<Rightarrow> enroll_error + enrollment_request" where
  "deny_enrollment_request r reason now =
     bindE (transition_request_status (rq_status r) SDenied) (\<lambda>_.
       Inr (r\<lparr>rq_status := SDenied, rq_decision_reason := Some reason, rq_decided_at := Some now, rq_updated_at := now\<rparr>))"

definition mark_request_claim_issued :: "enrollment_request \<Rightarrow> campaign \<Rightarrow> instant \<Rightarrow> enroll_error + enrollment_request" where
  "mark_request_claim_issued r c now =
     bindE (transition_request_status (rq_status r) SClaimIssued) (\<lambda>_.
       if \<not> selected_campaign_still_allows_request r c now then Inl RequestTransitionError
       else Inr (r\<lparr>rq_status := SClaimIssued, rq_updated_at := now\<rparr>))"

definition mark_request_enrolling :: "enrollment_request \<Rightarrow> instant \<Rightarrow> enroll_error + enrollment_request" where
  "mark_request_enrolling r now =
     bindE (transition_request_status (rq_status r) SEnrolling) (\<lambda>_.
       Inr (r\<lparr>rq_status := SEnrolling, rq_updated_at := now\<rparr>))"

definition mark_request_device_registered :: "enrollment_request \<Rightarrow> uuid \<Rightarrow> instant \<Rightarrow> enroll_error + enrollment_request" where
  "mark_request_device_registered r device_id now =
     bindE (transition_request_status (rq_status r) SDeviceRegistered) (\<lambda>_.
       Inr (r\<lparr>rq_status := SDeviceRegistered, rq_device_id := Some device_id, rq_updated_at := now\<rparr>))"

section \<open>The public routes\<close>

definition identity_conflict :: "string \<Rightarrow> enroll_db \<Rightarrow> bool" where
  "identity_conflict fingerprint_digest db \<longleftrightarrow>
     list_ex (\<lambda>cl. cl_fingerprint_digest cl = fingerprint_digest \<and> cl_device_id cl \<noteq> None) (e_claims db)"

definition create_enrollment_request ::
  "crypto \<Rightarrow> uuid \<Rightarrow> string \<Rightarrow> string \<Rightarrow> instant \<Rightarrow> ip_address \<Rightarrow> request_body \<Rightarrow> enroll_db
   \<Rightarrow> enroll_error + (enroll_db \<times> enrollment_request)" where
  "create_enrollment_request cr identity pepper request_id now source_address body db =
     bindE (hardware_fingerprint_digest cr (rb_hardware_fingerprint body) pepper) (\<lambda>fingerprint_digest.
     let selection = evaluate_campaign_selection (e_campaigns db) source_address (rb_installer_release_id body) now
           (identity_conflict fingerprint_digest db) in
     bindE (build_enrollment_request cr identity body source_address selection pepper now) (\<lambda>r.
       if enrollment_request_rate_limited (filter (created_since (now - hours 1)) (e_requests db)) r now
       then Inl (HttpError 429 ''Enrollment request rate limited'')
       else bindE (persist_enrollment_request r selection request_id now db) (\<lambda>db1.
            bindE (commit_enroll db1) (\<lambda>db'. Inr (db', r)))))"

definition expired_request :: "instant \<Rightarrow> enrollment_request \<Rightarrow> enrollment_request" where
  "expired_request now r = r\<lparr>rq_status := SExpired, rq_decision_reason := Some ''REQUEST_EXPIRED'', rq_updated_at := now\<rparr>"

definition request_overdue :: "instant \<Rightarrow> enrollment_request \<Rightarrow> bool" where
  "request_overdue now r \<longleftrightarrow> rq_expires_at r \<le> now \<and> rq_status r \<notin> {SDenied, SExpired, SFailed, SCancelled}"

definition expire_request :: "string \<Rightarrow> instant \<Rightarrow> enrollment_request \<Rightarrow> enroll_db \<Rightarrow> enroll_error + enroll_db" where
  "expire_request request_id now r db =
     bindE (enroll_audit
       (request_event (expired_request now r) ''enrollment_request.expired'' request_id ''installer'' None
         [(''status'', JStr (status_text SExpired))] now) (store_request (expired_request now r) db)) commit_enroll"

definition request_not_found :: enroll_error where
  "request_not_found = HttpError 404 ''Enrollment request not found''"

definition enrollment_request_status ::
  "crypto \<Rightarrow> string \<Rightarrow> string \<Rightarrow> instant \<Rightarrow> uuid \<Rightarrow> string \<Rightarrow> enroll_db \<Rightarrow> enroll_error + (enroll_db \<times> enrollment_request)" where
  "enrollment_request_status cr pepper audit_id now request_id capability db =
     (case find_row rq_id request_id (e_requests db) of
        None \<Rightarrow> Inl request_not_found
      | Some r \<Rightarrow>
          if \<not> request_capability_matches cr capability (rq_capability_digest r) pepper then Inl request_not_found
          else if request_overdue now r
          then bindE (expire_request audit_id now r db) (\<lambda>db'. Inr (db', expired_request now r))
          else Inr (db, r))"

definition load_proven_request ::
  "crypto \<Rightarrow> string \<Rightarrow> uuid \<Rightarrow> string \<Rightarrow> string \<Rightarrow> string \<Rightarrow> enroll_db \<Rightarrow> enroll_error + enrollment_request" where
  "load_proven_request cr pepper request_id capability installation_id hardware_fingerprint db =
     (case find_row rq_id request_id (e_requests db) of
        None \<Rightarrow> Inl request_not_found
      | Some r \<Rightarrow>
          if request_capability_matches cr capability (rq_capability_digest r) pepper
             \<and> request_bindings_match cr r installation_id hardware_fingerprint pepper
          then Inr r else Inl request_not_found)"

definition deny_invalid_selected_campaign :: "string \<Rightarrow> instant \<Rightarrow> enrollment_request \<Rightarrow> enroll_db \<Rightarrow> enroll_error + enroll_db" where
  "deny_invalid_selected_campaign audit_id now r db =
     bindE (deny_enrollment_request r ''SELECTED_CAMPAIGN_INVALID'' now) (\<lambda>r'.
       enroll_audit
         (request_event r' ''enrollment_request.denied'' audit_id ''installer'' None
           [(''reason'', JStr ''SELECTED_CAMPAIGN_INVALID''), (''status'', JStr (status_text (rq_status r')))] now)
         (store_request r' db))"

record secrets =
  sk_claim_id :: uuid
  sk_envelope_id :: uuid
  sk_identifier :: string
  sk_secret :: string
  sk_nonce :: string

definition not_eligible :: enroll_error where
  "not_eligible = HttpError 409 ''Enrollment request is no longer eligible''"

text \<open>The branch that issues a fresh claim, up to the commit.\<close>

definition issue_request_claim ::
  "crypto \<Rightarrow> secrets \<Rightarrow> string \<Rightarrow> string \<Rightarrow> string \<Rightarrow> instant \<Rightarrow> enrollment_request \<Rightarrow> campaign \<Rightarrow> string \<Rightarrow> string \<Rightarrow> string \<Rightarrow> enroll_db
   \<Rightarrow> enroll_error + (enroll_db \<times> string \<times> claim)" where
  "issue_request_claim cr sk pepper session_secret audit_id now r c capability installation_id hardware_fingerprint db =
     (case ca_expires_at c of
        Some (Aware campaign_expiry) \<Rightarrow>
          let expires_at = min (now + install_claim_lifetime) (min campaign_expiry (rq_expires_at r)) in
          bindE (issue_install_claim cr (sk_claim_id sk) (sk_identifier sk) (sk_secret sk) now c pepper installation_id
                  hardware_fingerprint (Aware expires_at) (Some (Aware now))) (\<lambda>(token, cl0).
          let cl = cl0\<lparr>cl_request_id := Some (rq_id r)\<rparr> in
          bindE (seal_retry_envelope cr [] (sk_nonce sk) now token hardware_fingerprint pepper session_secret
                  (Some capability) (Some (Aware now)) (expires_at - now)) (\<lambda>(_, sealed).
          bindE (mark_request_claim_issued r c now) (\<lambda>r'.
          bindE (enroll_audit
            (request_event r' ''enrollment_request.claim_issued'' audit_id ''installer'' None
              [(''campaign_id'', JStr (uuid_text (ca_id c))), (''expires_at'', JStr (isoformat cr expires_at)),
               (''status'', JStr (status_text (rq_status r')))] now)
            ((store_request r' db)\<lparr>e_claims := e_claims db @ [cl],
               e_claim_envelopes := e_claim_envelopes db
                 @ [\<lparr>ce_id = sk_envelope_id sk, ce_request_id = rq_id r, ce_claim_id = cl_id cl, ce_envelope = sealed\<rparr>]\<rparr>)) (\<lambda>db1.
          bindE (commit_enroll db1) (\<lambda>db'. Inr (db', token, cl))))))
      | _ \<Rightarrow> Inl EnOtherError)"

fun handoff_error :: "enroll_error \<Rightarrow> enroll_error" where
  "handoff_error (EnrollmentDenied _) = not_eligible"
| "handoff_error EnValueError = not_eligible"
| "handoff_error RequestTransitionError = not_eligible"
| "handoff_error e = e"

definition with_error :: "('e \<Rightarrow> 'e) \<Rightarrow> 'e + 'a \<Rightarrow> 'e + 'a" where
  "with_error f r = (case r of Inl e \<Rightarrow> Inl (f e) | Inr x \<Rightarrow> Inr x)"

definition replay_request_claim ::
  "crypto \<Rightarrow> string \<Rightarrow> string \<Rightarrow> instant \<Rightarrow> enrollment_request \<Rightarrow> string \<Rightarrow> string \<Rightarrow> enroll_db \<Rightarrow> enroll_error + (string \<times> moment)" where
  "replay_request_claim cr pepper session_secret now r capability hardware_fingerprint db =
     (case find (\<lambda>e. ce_request_id e = rq_id r) (e_claim_envelopes db) of
        None \<Rightarrow> Inl (HttpError 410 ''Enrollment claim is no longer available'')
      | Some e \<Rightarrow>
          (case recover_retry_token cr now capability hardware_fingerprint (ce_envelope e) pepper session_secret (Some (Aware now)) of
             None \<Rightarrow> Inl (HttpError 410 ''Enrollment claim is no longer available'')
           | Some token \<Rightarrow> Inr (token, en_expires_at (ce_envelope e))))"

definition eligible_campaign :: "enrollment_request \<Rightarrow> instant \<Rightarrow> enroll_db \<Rightarrow> campaign option" where
  "eligible_campaign r now db =
     (case rq_selected_campaign_id r of
        None \<Rightarrow> None
      | Some i \<Rightarrow>
          (case find_row ca_id i (e_campaigns db) of
             None \<Rightarrow> None
           | Some c \<Rightarrow> if selected_campaign_still_allows_request r c now then Some c else None))"

definition handoff_enrollment_request_claim ::
  "crypto \<Rightarrow> secrets \<Rightarrow> string \<Rightarrow> string \<Rightarrow> string \<Rightarrow> instant \<Rightarrow> uuid \<Rightarrow> string \<Rightarrow> string \<Rightarrow> string \<Rightarrow> enroll_db
   \<Rightarrow> enroll_error + (enroll_db \<times> (enroll_error + (string \<times> moment)))" where
  "handoff_enrollment_request_claim cr sk pepper session_secret audit_id now request_id capability installation_id hardware_fingerprint db =
     (case (normalize_install_session_id installation_id, normalize_hardware_fingerprint hardware_fingerprint) of
        (Inr install, Inr fingerprint) \<Rightarrow>
          bindE (load_proven_request cr pepper request_id capability install fingerprint db) (\<lambda>r.
            if rq_expires_at r \<le> now then
              (if request_overdue now r
               then bindE (with_error handoff_error (expire_request audit_id now r db)) (\<lambda>db'.
                      Inr (db', Inl (HttpError 410 ''Enrollment request expired'')))
               else Inl (HttpError 410 ''Enrollment request expired''))
            else if rq_status r \<notin> {SAutoApproved, SApproved, SClaimIssued} \<or> rq_selected_campaign_id r = None
            then Inl (HttpError 409 ''Enrollment request is not approved'')
            else
              (case eligible_campaign r now db of
                 None \<Rightarrow>
                   bindE (with_error handoff_error
                     (bindE (deny_invalid_selected_campaign audit_id now r db) commit_enroll)) (\<lambda>db'.
                       Inr (db', Inl not_eligible))
               | Some c \<Rightarrow>
                   if rq_status r = SClaimIssued
                   then bindE (replay_request_claim cr pepper session_secret now r capability fingerprint db) (\<lambda>x. Inr (db, Inr x))
                   else
                     bindE (with_error handoff_error
                       (issue_request_claim cr sk pepper session_secret audit_id now r c capability install fingerprint db))
                       (\<lambda>(db', token, cl). Inr (db', Inr (token, cl_expires_at cl)))))
      | _ \<Rightarrow> Inl (HttpError 422 ''Invalid enrollment request claim proof''))"

section \<open>The review routes\<close>

definition append_decision_audit ::
  "enrollment_request \<Rightarrow> string \<Rightarrow> string \<Rightarrow> uuid \<Rightarrow> instant \<Rightarrow> enroll_db \<Rightarrow> enroll_error + enroll_db" where
  "append_decision_audit r action audit_id admin now db =
     enroll_audit
       (request_event r action audit_id ''admin'' (Some (uuid_text admin))
         [(''reason'', (case rq_decision_reason r of None \<Rightarrow> JNull | Some x \<Rightarrow> JStr x)),
          (''status'', JStr (status_text (rq_status r)))] now) db"

definition decision_conflict :: enroll_error where
  "decision_conflict = HttpError 409 ''Enrollment request cannot be approved in its current state''"

definition record_decision ::
  "enrollment_request \<Rightarrow> string \<Rightarrow> string \<Rightarrow> uuid \<Rightarrow> instant \<Rightarrow> enroll_db \<Rightarrow> enroll_error + enroll_db" where
  "record_decision r action audit_id admin now db =
     (let r' = r\<lparr>rq_decided_by := Some admin\<rparr>
      in bindE (append_decision_audit r' action audit_id admin now (store_request r' db)) commit_enroll)"

definition approve_request ::
  "string \<Rightarrow> uuid \<Rightarrow> instant \<Rightarrow> uuid \<Rightarrow> enroll_db \<Rightarrow> enroll_error + (enroll_db \<times> (enroll_error + unit))" where
  "approve_request audit_id admin now request_id db =
     (case find_row rq_id request_id (e_requests db) of
        None \<Rightarrow> Inl request_not_found
      | Some r \<Rightarrow>
          (case rq_selected_campaign_id r of
             None \<Rightarrow> Inl decision_conflict
           | Some i \<Rightarrow>
               (case find_row ca_id i (e_campaigns db) of
                  None \<Rightarrow>
                    bindE (deny_enrollment_request r ''SELECTED_CAMPAIGN_INVALID'' now) (\<lambda>r'.
                    bindE (record_decision r' ''enrollment_request.denied'' audit_id admin now db) (\<lambda>db'.
                      Inr (db', Inl decision_conflict)))
                | Some c \<Rightarrow>
                    (case approve_enrollment_request r c now of
                       Inr r' \<Rightarrow>
                         bindE (record_decision r' ''enrollment_request.manually_approved'' audit_id admin now db) (\<lambda>db'.
                           Inr (db', Inr ()))
                     | Inl RequestTransitionError \<Rightarrow>
                         if rq_status r \<in> {SWaitingApproval, SReviewRequired}
                         then bindE (deny_enrollment_request r ''SELECTED_CAMPAIGN_INVALID'' now) (\<lambda>r'.
                              bindE (record_decision r' ''enrollment_request.denied'' audit_id admin now db) (\<lambda>db'.
                                Inr (db', Inl decision_conflict)))
                         else Inl decision_conflict
                     | Inl e \<Rightarrow> Inl e))))"

definition deny_request ::
  "string \<Rightarrow> uuid \<Rightarrow> instant \<Rightarrow> uuid \<Rightarrow> string \<Rightarrow> enroll_db \<Rightarrow> enroll_error + (enroll_db \<times> unit)" where
  "deny_request audit_id admin now request_id reason db =
     (case find_row rq_id request_id (e_requests db) of
        None \<Rightarrow> Inl request_not_found
      | Some r \<Rightarrow>
          if rq_status r = SDenied then Inr (db, ())
          else
            (case deny_enrollment_request r reason now of
               Inl RequestTransitionError \<Rightarrow> Inl decision_conflict
             | Inl e \<Rightarrow> Inl e
             | Inr r' \<Rightarrow>
                 bindE (record_decision r' ''enrollment_request.denied'' audit_id admin now db) (\<lambda>db'. Inr (db', ()))))"

section \<open>Verification\<close>

text \<open>What the route reads of the latest session of the device: whether it is closed and when it was
  last seen; \<open>baseline\<close> says whether the device has a current baseline snapshot.\<close>

record session_view =
  sv_closed_at :: "instant option"
  sv_last_seen_at :: "instant option"

definition fresh_presence :: "instant \<Rightarrow> session_view option \<Rightarrow> bool" where
  "fresh_presence now latest =
     (case latest of
        None \<Rightarrow> False
      | Some s \<Rightarrow> sv_closed_at s = None
          \<and> (case sv_last_seen_at s of None \<Rightarrow> False | Some t \<Rightarrow> t \<le> now \<and> now - t \<le> seconds 90))"

definition await_wss :: "instant \<Rightarrow> enrollment_request \<Rightarrow> enroll_db \<Rightarrow> enroll_error + (enroll_db \<times> enrollment_request)" where
  "await_wss now r db =
     (if rq_status r = SDeviceRegistered
      then bindE (transition_request_status (rq_status r) SWaitingWss) (\<lambda>_.
             let r' = r\<lparr>rq_status := SWaitingWss, rq_updated_at := now\<rparr>
             in bindE (commit_enroll (store_request r' db)) (\<lambda>db'. Inr (db', r')))
      else Inr (db, r))"

definition complete_request :: "string \<Rightarrow> instant \<Rightarrow> enrollment_request \<Rightarrow> enroll_db \<Rightarrow> enroll_error + (enroll_db \<times> enrollment_request)" where
  "complete_request audit_id now r db =
     bindE (if rq_status r = SDeviceRegistered then transition_request_status (rq_status r) SWaitingWss else Inr True) (\<lambda>_.
     bindE (transition_request_status (if rq_status r = SDeviceRegistered then SWaitingWss else rq_status r) SCompleted) (\<lambda>_.
       let r' = r\<lparr>rq_status := SCompleted, rq_updated_at := now\<rparr>
       in bindE (enroll_audit
            (request_event r' ''installer_wss_verified'' audit_id ''installer'' None
              [(''device_id'', optional_uuid (rq_device_id r)), (''status'', JStr (status_text SCompleted))] now)
            (store_request r' db)) (\<lambda>db1.
          bindE (commit_enroll db1) (\<lambda>db'. Inr (db', r')))))"

definition verify_enrollment_completion ::
  "crypto \<Rightarrow> string \<Rightarrow> string \<Rightarrow> instant \<Rightarrow> session_view option \<Rightarrow> bool \<Rightarrow> uuid \<Rightarrow> string \<Rightarrow> enroll_db
   \<Rightarrow> enroll_error + (enroll_db \<times> enrollment_request)" where
  "verify_enrollment_completion cr pepper audit_id now latest_session baseline request_id capability db =
     (case find_row rq_id request_id (e_requests db) of
        None \<Rightarrow> Inl request_not_found
      | Some r \<Rightarrow>
          if \<not> request_capability_matches cr capability (rq_capability_digest r) pepper then Inl request_not_found
          else if rq_status r \<in> {SClaimIssued, SEnrolling} then Inr (db, r)
          else if rq_device_id r = None \<or> rq_status r \<notin> {SDeviceRegistered, SWaitingWss, SCompleted}
          then Inl (HttpError 409 ''Enrollment request is not ready'')
          else if rq_status r = SCompleted then Inr (db, r)
          else if \<not> fresh_presence now latest_session \<or> \<not> baseline then await_wss now r db
          else complete_request audit_id now r db)"

end
