(* ===== verification/Enroll_Agent.thy ===== *)
theory Enroll_Agent
  imports Enroll_Requests
begin

text \<open>
  \<open>enrollment/agent_routes.py\<close> (enrolling a device, recovering and acknowledging the delivery of its
  credential, rotating and activating a credential) and the cleanup of \<open>enrollment/delivery.py\<close>.

  \<open>clock n\<close> is the value of the \<open>n\<close>-th call of \<open>datetime.now(UTC)\<close> in the request; the address the
  server observed and the bearer token are arguments, \<open>cidrs\<close> the setting \<open>allowed_agent_cidrs\<close>.
\<close>

section \<open>Authority and identity\<close>

definition denied :: enroll_error where
  "denied = EnrollmentDenied ''Enrollment denied''"

definition http_denied :: enroll_error where
  "http_denied = HttpError 403 ''Enrollment denied''"

definition delivery_unavailable :: enroll_error where
  "delivery_unavailable = HttpError 403 ''Enrollment delivery unavailable''"

definition invalid_device_credential :: enroll_error where
  "invalid_device_credential = HttpError 401 ''Invalid device credential''"

definition observed_allowed :: "ip_net list \<Rightarrow> ip_address \<Rightarrow> bool" where
  "observed_allowed cidrs source = list_ex (\<lambda>net. net_contains net source) cidrs"

definition device_identifier :: "crypto \<Rightarrow> string \<Rightarrow> string \<Rightarrow> string \<Rightarrow> string" where
  "device_identifier cr installation_id hardware_fingerprint pepper =
     ''dev_'' @ hexdigest (hmac_sha256 cr pepper
       (device_identifier_context @ utf8 (installation_id @ nul @ hardware_fingerprint)))"

definition policy_id :: "json \<Rightarrow> string \<Rightarrow> string" where
  "policy_id policy campaign_identifier =
     (case policy of
        JObj kvs \<Rightarrow>
          (case map_of kvs ''policy_id'' of
             Some (JStr s) \<Rightarrow>
               if s \<noteq> [] \<and> s = py_strip s \<and> length s \<le> 256 \<and> list_all printable_ascii s then s else campaign_identifier
           | _ \<Rightarrow> campaign_identifier)
      | _ \<Rightarrow> campaign_identifier)"

definition validated_delivery_policy :: "campaign \<Rightarrow> enroll_error + json" where
  "validated_delivery_policy c =
     (if validate_bounded_json (ca_policy c) = Inr () then Inr (ca_policy c) else Inl denied)"

definition load_enrollment_authority ::
  "crypto \<Rightarrow> string \<Rightarrow> string \<Rightarrow> enroll_db \<Rightarrow> enroll_error + (campaign \<times> claim option)" where
  "load_enrollment_authority cr token pepper db =
     (if take 3 token = ''ec_'' then
        (case campaign_token_digest cr token pepper of
           Inl _ \<Rightarrow> Inl denied
         | Inr digest \<Rightarrow>
             (case find (\<lambda>c. ca_token_digest c = digest) (e_campaigns db) of
                None \<Rightarrow> Inl denied
              | Some c \<Rightarrow> Inr (c, None)))
      else if take 3 token = ''ic_'' then
        (case claim_token_digest cr token pepper of
           Inl _ \<Rightarrow> Inl denied
         | Inr digest \<Rightarrow>
             (case find (\<lambda>c. cl_digest c = digest) (e_claims db) of
                None \<Rightarrow> Inl denied
              | Some cl \<Rightarrow>
                  (case find_row ca_id (cl_campaign_id cl) (e_campaigns db) of
                     None \<Rightarrow> Inl denied
                   | Some c \<Rightarrow> Inr (c, Some cl))))
      else Inl denied)"

text \<open>\<open>scalar_one_or_none\<close> raises when there are several rows.\<close>

fun one_or_none :: "'r list \<Rightarrow> enroll_error + 'r option" where
  "one_or_none [] = Inr None"
| "one_or_none [r] = Inr (Some r)"
| "one_or_none _ = Inl EnOtherError"

definition enrolled_event :: "enrolled_device \<Rightarrow> enroll_db \<Rightarrow> enroll_error + enrollment_event option" where
  "enrolled_event d db =
     one_or_none (filter (\<lambda>e. ee_remote_identifier e = Some (uuid_text (vd_id d)) \<and> ee_kind e = ''device_enrolled'') (e_events db))"

definition existing_enrollment_matches :: "enrolled_device \<Rightarrow> campaign \<Rightarrow> claim option \<Rightarrow> enroll_db \<Rightarrow> enroll_error + bool" where
  "existing_enrollment_matches d c cl db =
     bindE (enrolled_event d db) (\<lambda>event.
       Inr (case event of None \<Rightarrow> False
            | Some e \<Rightarrow> ee_campaign_id e = Some (ca_id c) \<and> ee_claim_id e = map_option cl_id cl))"

section \<open>The delivery of a credential\<close>

datatype delivery_failure =
    DeliveryDenied
  | DeliveryExpired delivery_envelope instant
  | DeliveryRaised enroll_error

record loaded_delivery =
  ld_envelope :: delivery_envelope
  ld_credential :: credential
  ld_device :: enrolled_device
  ld_campaign :: campaign
  ld_event :: enrollment_event
  ld_token :: string

definition delivery_expired_at :: "delivery_envelope \<Rightarrow> instant \<Rightarrow> bool" where
  "delivery_expired_at e at = (case en_expires_at (de_envelope e) of Naive _ \<Rightarrow> True | Aware t \<Rightarrow> t \<le> at)"

definition raise_if_delivery_expired :: "delivery_envelope \<Rightarrow> instant \<Rightarrow> delivery_failure + unit" where
  "raise_if_delivery_expired e at = ensure (\<not> delivery_expired_at e at) (DeliveryExpired e at)"

definition delivered_credential ::
  "crypto \<Rightarrow> instant \<Rightarrow> string \<Rightarrow> string \<Rightarrow> string \<Rightarrow> string \<Rightarrow> delivery_envelope \<Rightarrow> enroll_db \<Rightarrow> delivery_failure + (credential \<times> string)" where
  "delivered_credential cr at receipt hardware_fingerprint pepper session_secret e db =
     (case find_row c_id (de_credential_id e) (e_credentials db) of
        None \<Rightarrow> bindE (raise_if_delivery_expired e at) (\<lambda>_. Inl DeliveryDenied)
      | Some c \<Rightarrow>
          bindE (raise_if_delivery_expired e at) (\<lambda>_.
            if c_pending_token_digest c \<noteq> None then Inl DeliveryDenied
            else
              (case recover_retry_token cr at receipt hardware_fingerprint (de_envelope e) pepper session_secret (Some (Aware at)) of
                 None \<Rightarrow> Inl DeliveryDenied
               | Some token \<Rightarrow>
                   if device_token_matches cr token (c_token_digest c) pepper
                      \<and> device_credential_accepts_token cr at c token pepper (Some (Aware at))
                   then Inr (c, token) else Inl DeliveryDenied)))"

definition load_delivery ::
  "crypto \<Rightarrow> (nat \<Rightarrow> instant) \<Rightarrow> string \<Rightarrow> string \<Rightarrow> string \<Rightarrow> string \<Rightarrow> enroll_db \<Rightarrow> delivery_failure + loaded_delivery" where
  "load_delivery cr clock receipt hardware_fingerprint pepper session_secret db =
     (case retry_receipt_digest cr receipt pepper of
        Inl _ \<Rightarrow> Inl DeliveryDenied
      | Inr digest \<Rightarrow>
          (case find (\<lambda>e. en_receipt_digest (de_envelope e) = digest) (e_deliveries db) of
             None \<Rightarrow> Inl DeliveryDenied
           | Some e \<Rightarrow>
               if \<not> retry_envelope_proof_matches cr receipt hardware_fingerprint (de_envelope e) pepper then Inl DeliveryDenied
               else
                 bindE (raise_if_delivery_expired e (clock 0)) (\<lambda>_.
                 bindE (delivered_credential cr (clock 1) receipt hardware_fingerprint pepper session_secret e db) (\<lambda>(c, token).
                 (case find_row vd_id (c_device_id c) (e_devices db) of
                    None \<Rightarrow> Inl DeliveryDenied
                  | Some d \<Rightarrow>
                      (case enrolled_event d db of
                         Inl x \<Rightarrow> Inl (DeliveryRaised x)
                       | Inr None \<Rightarrow> Inl DeliveryDenied
                       | Inr (Some ev) \<Rightarrow>
                           (case ee_campaign_id ev of
                              None \<Rightarrow> Inl DeliveryDenied
                            | Some i \<Rightarrow>
                                bindE (raise_if_delivery_expired e (clock 2)) (\<lambda>_.
                                  (case find_row ca_id i (e_campaigns db) of
                                     None \<Rightarrow> Inl DeliveryDenied
                                   | Some ca \<Rightarrow>
                                       if vd_retired_at d \<noteq> None
                                          \<or> \<not> device_credential_accepts_token cr (clock 2) c token pepper (Some (Aware (clock 2)))
                                          \<or> \<not> campaign_live ca (clock 2)
                                          \<or> validate_bounded_json (ca_policy ca) \<noteq> Inr ()
                                       then Inl DeliveryDenied
                                       else Inr \<lparr>ld_envelope = e, ld_credential = c, ld_device = d, ld_campaign = ca,
                                                 ld_event = ev, ld_token = token\<rparr>))))))))) "

definition remove_delivery :: "delivery_envelope \<Rightarrow> enroll_db \<Rightarrow> enroll_db" where
  "remove_delivery e db = db\<lparr>e_deliveries := filter (\<lambda>x. de_id x \<noteq> de_id e) (e_deliveries db)\<rparr>"

definition destroy_observed_expired_delivery ::
  "delivery_envelope \<Rightarrow> string \<Rightarrow> ip_address \<Rightarrow> string \<Rightarrow> instant \<Rightarrow> enroll_db \<Rightarrow> enroll_error + enroll_db" where
  "destroy_observed_expired_delivery e request_id source_address source occurred_at db =
     bindE (enroll_audit
       (audit ''agent'' None ''enrollment.delivery_expired'' ''enrollment_retry_envelope'' (Some (uuid_text (de_id e))) request_id
         [(''source'', JStr source), (''source_address'', JStr (address_text source_address))] occurred_at)
       (remove_delivery e db)) commit_enroll"

section \<open>Enrolling\<close>

record agent_body =
  ab_installation_id :: string
  ab_hardware_fingerprint :: string
  ab_delivery_nonce :: string
  ab_platform :: string
  ab_requested_at :: moment

record enrollment_delivery =
  ed_device_id :: uuid
  ed_policy_id :: string
  ed_policy :: json
  ed_receipt :: string
  ed_token :: string
  ed_issued_at :: instant

record agent_secrets =
  as_device_id :: uuid
  as_credential_id :: uuid
  as_envelope_id :: uuid
  as_event_id :: uuid
  as_credential_identifier :: string
  as_token :: string
  as_nonce :: string

text \<open>The reservation or the consumed claim, with the rows as they are after it.\<close>

definition take_use ::
  "crypto \<Rightarrow> string \<Rightarrow> string \<Rightarrow> string \<Rightarrow> ip_address \<Rightarrow> agent_body \<Rightarrow> instant \<Rightarrow> campaign \<Rightarrow> claim option \<Rightarrow> enroll_db
   \<Rightarrow> enroll_error + (enroll_db \<times> campaign \<times> claim option)" where
  "take_use cr token pepper request_id source_address body issued_at c cl db =
     (case cl of
        None \<Rightarrow>
          bindE (reserve_campaign_use cr issued_at token pepper source_address (ab_platform body) ''agent'' None request_id
                  (Some (Aware issued_at)) db) (\<lambda>(db1, c1). Inr (db1, c1, None))
      | Some _ \<Rightarrow>
          bindE (consume_install_claim cr issued_at token pepper (ab_installation_id body) (ab_hardware_fingerprint body)
                  source_address (ab_platform body) ''agent'' None request_id (Some (Aware issued_at)) db) (\<lambda>(db1, cl1).
            Inr (db1, used c, Some cl1)))"

definition enrolling_request :: "campaign \<Rightarrow> claim option \<Rightarrow> instant \<Rightarrow> enroll_db \<Rightarrow> enroll_error + enrollment_request option" where
  "enrolling_request c cl issued_at db =
     (case cl of
        None \<Rightarrow> Inr None
      | Some cl \<Rightarrow>
          (case cl_request_id cl of
             None \<Rightarrow> Inr None
           | Some i \<Rightarrow>
               (case find_row rq_id i (e_requests db) of
                  None \<Rightarrow> Inl denied
                | Some r \<Rightarrow>
                    if rq_selected_campaign_id r \<noteq> Some (ca_id c) then Inl denied
                    else bindE (mark_request_enrolling r issued_at) (\<lambda>r'. Inr (Some r')))))"

definition new_credential :: "agent_secrets \<Rightarrow> string \<Rightarrow> credential" where
  "new_credential sk digest =
     \<lparr>c_id = as_credential_id sk, c_device_id = as_device_id sk, c_identifier = as_credential_identifier sk,
      c_token_digest = digest, c_pending_token_digest = None, c_overlap_expires_at = None, c_expires_at = None,
      c_revoked_at = None\<rparr>"

definition enrolled_db ::
  "agent_secrets \<Rightarrow> string \<Rightarrow> campaign \<Rightarrow> claim option \<Rightarrow> string \<Rightarrow> retry_envelope \<Rightarrow> enroll_db \<Rightarrow> enroll_db" where
  "enrolled_db sk identifier c cl digest sealed db =
     (let db1 = (case cl of None \<Rightarrow> db | Some x \<Rightarrow> store_claim (x\<lparr>cl_device_id := Some (as_device_id sk)\<rparr>) db)
      in db1\<lparr>e_devices := e_devices db
               @ [\<lparr>vd_id = as_device_id sk, vd_identifier = identifier, vd_display_name = ca_label c, vd_retired_at = None\<rparr>],
             e_credentials := e_credentials db @ [new_credential sk digest],
             e_deliveries := e_deliveries db
               @ [\<lparr>de_id = as_envelope_id sk, de_credential_id = as_credential_id sk, de_envelope = sealed\<rparr>],
             e_events := e_events db
               @ [\<lparr>ee_id = as_event_id sk, ee_campaign_id = Some (ca_id c), ee_claim_id = map_option cl_id cl,
                   ee_kind = ''device_enrolled'', ee_remote_identifier = Some (uuid_text (as_device_id sk))\<rparr>]\<rparr>)"

definition register_request ::
  "uuid \<Rightarrow> string \<Rightarrow> instant \<Rightarrow> campaign \<Rightarrow> enrollment_request option \<Rightarrow> enroll_db \<Rightarrow> enroll_error + enroll_db" where
  "register_request device_id request_id issued_at c r db =
     (case r of
        None \<Rightarrow> Inr db
      | Some r \<Rightarrow>
          bindE (mark_request_device_registered r device_id issued_at) (\<lambda>r'.
            enroll_audit
              (request_event r' ''enrollment_request.device_registered'' request_id ''agent'' (Some (uuid_text device_id))
                [(''campaign_id'', JStr (uuid_text (ca_id c))), (''status'', JStr (status_text (rq_status r')))] issued_at)
              (store_request r' db)))"

definition enroll_new_device ::
  "crypto \<Rightarrow> agent_secrets \<Rightarrow> string \<Rightarrow> string \<Rightarrow> string \<Rightarrow> string \<Rightarrow> ip_address \<Rightarrow> agent_body \<Rightarrow> instant \<Rightarrow> string \<Rightarrow> string
   \<Rightarrow> json \<Rightarrow> campaign \<Rightarrow> claim option \<Rightarrow> enroll_db \<Rightarrow> enroll_error + (enroll_db \<times> enrollment_delivery)" where
  "enroll_new_device cr sk token pepper session_secret request_id source_address body issued_at identifier receipt policy c cl db =
     bindE (take_use cr token pepper request_id source_address body issued_at c cl db) (\<lambda>(db1, c1, cl1).
     bindE (enrolling_request c1 cl1 issued_at db1) (\<lambda>r.
     bindE (device_token_digest cr (as_token sk) pepper) (\<lambda>digest.
     bindE (seal_retry_envelope cr [] (as_nonce sk) issued_at (as_token sk) (ab_hardware_fingerprint body) pepper session_secret
             (Some receipt) (Some (Aware issued_at)) default_envelope_lifetime) (\<lambda>(_, sealed).
     bindE (enroll_audit
       (audit ''agent'' (Some (uuid_text (as_device_id sk))) ''device.enrolled'' ''device'' (Some (uuid_text (as_device_id sk))) request_id
         [(''campaign_id'', JStr (uuid_text (ca_id c1))), (''platform'', JStr (ab_platform body)),
          (''source_address'', JStr (address_text source_address))] issued_at)
       (enrolled_db sk identifier c1 cl1 digest sealed db1)) (\<lambda>db2.
     bindE (register_request (as_device_id sk) request_id issued_at c1 r db2) (\<lambda>db3.
     bindE (commit_enroll db3) (\<lambda>db'.
       Inr (db', \<lparr>ed_device_id = as_device_id sk, ed_policy_id = policy_id policy (ca_identifier c1), ed_policy = policy,
                   ed_receipt = receipt, ed_token = as_token sk, ed_issued_at = issued_at\<rparr>))))))))"

definition delivery_matches :: "loaded_delivery \<Rightarrow> enrolled_device \<Rightarrow> campaign \<Rightarrow> claim option \<Rightarrow> bool" where
  "delivery_matches ld d c cl \<longleftrightarrow>
     vd_id (ld_device ld) = vd_id d \<and> ca_id (ld_campaign ld) = ca_id c \<and> ee_claim_id (ld_event ld) = map_option cl_id cl"

definition delivery_of :: "loaded_delivery \<Rightarrow> json \<Rightarrow> string \<Rightarrow> enrollment_delivery" where
  "delivery_of ld policy receipt =
     \<lparr>ed_device_id = vd_id (ld_device ld), ed_policy_id = policy_id policy (ca_identifier (ld_campaign ld)), ed_policy = policy,
      ed_receipt = receipt, ed_token = ld_token ld,
      ed_issued_at = (case en_expires_at (de_envelope (ld_envelope ld)) of Aware t \<Rightarrow> t | Naive t \<Rightarrow> t) - default_envelope_lifetime\<rparr>"

definition redeliver ::
  "crypto \<Rightarrow> (nat \<Rightarrow> instant) \<Rightarrow> string \<Rightarrow> string \<Rightarrow> string \<Rightarrow> ip_address \<Rightarrow> string \<Rightarrow> json \<Rightarrow> enrolled_device \<Rightarrow> campaign
   \<Rightarrow> claim option \<Rightarrow> string \<Rightarrow> enroll_db \<Rightarrow> enroll_error + (enroll_db \<times> (enroll_error + enrollment_delivery))" where
  "redeliver cr clock pepper session_secret request_id source_address hardware_fingerprint policy d c cl receipt db =
     (case load_delivery cr clock receipt hardware_fingerprint pepper session_secret db of
        Inl (DeliveryExpired e at) \<Rightarrow>
          bindE (destroy_observed_expired_delivery e request_id source_address ''observed_enroll_retry'' at db) (\<lambda>db'.
            Inr (db', Inl delivery_unavailable))
      | Inl DeliveryDenied \<Rightarrow> Inl delivery_unavailable
      | Inl (DeliveryRaised x) \<Rightarrow> Inl x
      | Inr ld \<Rightarrow> if delivery_matches ld d c cl then Inr (db, Inr (delivery_of ld policy receipt)) else Inl delivery_unavailable)"

definition http_of_denied :: "enroll_error \<Rightarrow> enroll_error" where
  "http_of_denied e = (case e of EnrollmentDenied _ \<Rightarrow> http_denied | _ \<Rightarrow> e)"

definition claim_allows_enrollment :: "claim option \<Rightarrow> instant \<Rightarrow> bool" where
  "claim_allows_enrollment cl now =
     (case cl of None \<Rightarrow> True | Some c \<Rightarrow> (case cl_expires_at c of Naive _ \<Rightarrow> False | Aware t \<Rightarrow> now < t))"

definition enroll_agent ::
  "crypto \<Rightarrow> agent_secrets \<Rightarrow> (nat \<Rightarrow> instant) \<Rightarrow> ip_net list \<Rightarrow> string \<Rightarrow> string \<Rightarrow> string \<Rightarrow> ip_address \<Rightarrow> string \<Rightarrow> agent_body \<Rightarrow> enroll_db
   \<Rightarrow> enroll_error + (enroll_db \<times> (enroll_error + enrollment_delivery))" where
  "enroll_agent cr sk clock cidrs pepper session_secret request_id source_address token body db =
     (if \<not> observed_allowed cidrs source_address then Inl http_denied
      else with_error http_of_denied
        (bindE (load_enrollment_authority cr token pepper db) (\<lambda>(c, cl).
           if \<not> campaign_request_matches c (clock 0) source_address (ab_platform body) then Inl denied
           else
             bindE (validated_delivery_policy c) (\<lambda>policy.
             let identifier = device_identifier cr (ab_installation_id body) (ab_hardware_fingerprint body) pepper in
             bindE (derive_enrollment_receipt cr session_secret (ab_delivery_nonce body) identifier (ca_id c)
                     (map_option cl_id cl) (ab_platform body) (ab_requested_at body)) (\<lambda>receipt.
             if \<not> campaign_request_matches c (clock 1) source_address (ab_platform body)
                \<or> \<not> claim_allows_enrollment cl (clock 1) then Inl denied
             else
               (case find (\<lambda>d. vd_identifier d = identifier) (e_devices db) of
                  Some d \<Rightarrow>
                    if (case cl of None \<Rightarrow> True
                        | Some x \<Rightarrow> cl_device_id x = Some (vd_id d)
                            \<and> install_claim_bindings_match cr x pepper (ab_installation_id body) (ab_hardware_fingerprint body))
                    then bindE (existing_enrollment_matches d c cl db) (\<lambda>same.
                           if same then redeliver cr (\<lambda>n. clock (n + 2)) pepper session_secret request_id source_address
                                          (ab_hardware_fingerprint body) policy d c cl receipt db
                           else Inl denied)
                    else Inl denied
                | None \<Rightarrow>
                    bindE (enroll_new_device cr sk token pepper session_secret request_id source_address body (clock 1)
                            identifier receipt policy c cl db) (\<lambda>(db', delivery). Inr (db', Inr delivery)))))))) "

definition retry_enrollment_delivery ::
  "crypto \<Rightarrow> (nat \<Rightarrow> instant) \<Rightarrow> ip_net list \<Rightarrow> string \<Rightarrow> string \<Rightarrow> string \<Rightarrow> ip_address \<Rightarrow> string \<Rightarrow> string \<Rightarrow> enroll_db
   \<Rightarrow> enroll_error + (enroll_db \<times> (enroll_error + enrollment_delivery))" where
  "retry_enrollment_delivery cr clock cidrs pepper session_secret request_id source_address receipt hardware_fingerprint db =
     (if \<not> observed_allowed cidrs source_address then Inl http_denied
      else case load_delivery cr clock receipt hardware_fingerprint pepper session_secret db of
        Inl (DeliveryExpired e at) \<Rightarrow>
          bindE (destroy_observed_expired_delivery e request_id source_address ''observed_retry'' at db) (\<lambda>db'.
            Inr (db', Inl delivery_unavailable))
      | Inl DeliveryDenied \<Rightarrow> Inl delivery_unavailable
      | Inl (DeliveryRaised x) \<Rightarrow> Inl x
      | Inr ld \<Rightarrow> Inr (db, Inr (delivery_of ld (ca_policy (ld_campaign ld)) receipt)))"

definition acknowledge_enrollment_delivery ::
  "crypto \<Rightarrow> (nat \<Rightarrow> instant) \<Rightarrow> ip_net list \<Rightarrow> string \<Rightarrow> string \<Rightarrow> string \<Rightarrow> ip_address \<Rightarrow> string \<Rightarrow> string \<Rightarrow> enroll_db
   \<Rightarrow> enroll_error + (enroll_db \<times> (enroll_error + unit))" where
  "acknowledge_enrollment_delivery cr clock cidrs pepper session_secret request_id source_address receipt hardware_fingerprint db =
     (if \<not> observed_allowed cidrs source_address then Inl http_denied
      else case load_delivery cr clock receipt hardware_fingerprint pepper session_secret db of
        Inl (DeliveryExpired e at) \<Rightarrow>
          bindE (destroy_observed_expired_delivery e request_id source_address ''observed_ack'' at db) (\<lambda>db'.
            Inr (db', Inl delivery_unavailable))
      | Inl DeliveryDenied \<Rightarrow> Inl delivery_unavailable
      | Inl (DeliveryRaised x) \<Rightarrow> Inl x
      | Inr ld \<Rightarrow>
          bindE (enroll_audit
            (audit ''agent'' (Some (uuid_text (vd_id (ld_device ld)))) ''enrollment.delivery_acknowledged'' ''device''
              (Some (uuid_text (vd_id (ld_device ld)))) request_id
              [(''source_address'', JStr (address_text source_address))] (clock 3))
            (remove_delivery (ld_envelope ld) db)) (\<lambda>db1.
          bindE (commit_enroll db1) (\<lambda>db'. Inr (db', Inr ()))))"

section \<open>Rotation routes\<close>

definition store_credential :: "credential \<Rightarrow> enroll_db \<Rightarrow> enroll_db" where
  "store_credential c db = db\<lparr>e_credentials := store_row c_id c (e_credentials db)\<rparr>"

definition credential_event :: "credential \<Rightarrow> string \<Rightarrow> string \<Rightarrow> (string \<times> json) list \<Rightarrow> instant \<Rightarrow> audit_event" where
  "credential_event c action request_id details now =
     audit ''agent'' (Some (uuid_text (c_device_id c))) action ''device_credential'' (Some (uuid_text (c_id c))) request_id details now"

definition rotate_device_credential ::
  "crypto \<Rightarrow> string \<Rightarrow> instant \<Rightarrow> ip_net list \<Rightarrow> string \<Rightarrow> string \<Rightarrow> ip_address \<Rightarrow> string \<Rightarrow> enroll_db \<Rightarrow> enroll_error + (enroll_db \<times> string)" where
  "rotate_device_credential cr random_token now cidrs pepper request_id source_address token db =
     (if \<not> observed_allowed cidrs source_address then Inl http_denied
      else case device_token_digest cr token pepper of
        Inl _ \<Rightarrow> Inl invalid_device_credential
      | Inr digest \<Rightarrow>
          (case find (\<lambda>c. c_token_digest c = digest) (e_credentials db) of
             None \<Rightarrow> Inl invalid_device_credential
           | Some c \<Rightarrow>
               if \<not> device_token_matches cr token (c_token_digest c) pepper
                  \<or> \<not> device_credential_accepts_token cr now c token pepper (Some (Aware now))
               then Inl invalid_device_credential
               else
                 (case begin_device_credential_rotation cr random_token now c pepper (Some (Aware now)) default_rotation_overlap of
                    Inl _ \<Rightarrow>
                      if c_pending_token_digest c \<noteq> None then Inl (HttpError 409 ''Credential rotation already pending'')
                      else Inl invalid_device_credential
                  | Inr (c', issued) \<Rightarrow>
                      bindE (enroll_audit
                        (credential_event c' ''device_credential.rotation_started'' request_id
                          [(''overlap_expires_at'', JStr (isoformat cr (now + default_rotation_overlap)))] now)
                        (store_credential c' db)) (\<lambda>db1.
                      bindE (commit_enroll db1) (\<lambda>db'. Inr (db', issued))))))"

definition activate_device_credential ::
  "crypto \<Rightarrow> instant \<Rightarrow> ip_net list \<Rightarrow> string \<Rightarrow> string \<Rightarrow> ip_address \<Rightarrow> string \<Rightarrow> enroll_db \<Rightarrow> enroll_error + (enroll_db \<times> unit)" where
  "activate_device_credential cr now cidrs pepper request_id source_address token db =
     (if \<not> observed_allowed cidrs source_address then Inl http_denied
      else case device_token_digest cr token pepper of
        Inl _ \<Rightarrow> Inl invalid_device_credential
      | Inr digest \<Rightarrow>
          (case find (\<lambda>c. c_pending_token_digest c = Some digest) (e_credentials db) of
             None \<Rightarrow> Inl invalid_device_credential
           | Some c \<Rightarrow>
               (case activate_pending_device_credential cr now c token pepper (Some (Aware now)) of
                  (_, False) \<Rightarrow> Inl invalid_device_credential
                | (c', True) \<Rightarrow>
                    bindE (enroll_audit (credential_event c' ''device_credential.rotation_activated'' request_id [] now)
                      (store_credential c' db)) (\<lambda>db1.
                    bindE (commit_enroll db1) (\<lambda>db'. Inr (db', ()))))))"

section \<open>Cleanup\<close>

definition expiry_instant :: "delivery_envelope \<Rightarrow> instant" where
  "expiry_instant e = (case en_expires_at (de_envelope e) of Aware t \<Rightarrow> t | Naive t \<Rightarrow> t)"

definition expired_deliveries :: "instant \<Rightarrow> nat \<Rightarrow> enroll_db \<Rightarrow> delivery_envelope list" where
  "expired_deliveries at limit db =
     take limit (sort_key (\<lambda>e. (expiry_instant e, de_id e)) (filter (\<lambda>e. expiry_instant e \<le> at) (e_deliveries db)))"

fun delete_expired :: "string \<Rightarrow> instant \<Rightarrow> delivery_envelope list \<Rightarrow> enroll_db \<Rightarrow> enroll_error + enroll_db" where
  "delete_expired request_id at [] db = Inr db"
| "delete_expired request_id at (e # es) db =
     bindE (enroll_audit
       (audit ''system'' None ''enrollment.delivery_expired'' ''enrollment_retry_envelope'' (Some (uuid_text (de_id e))) request_id
         [(''source'', JStr ''periodic_cleanup'')] at) (remove_delivery e db)) (delete_expired request_id at es)"

definition cleanup_expired_retry_envelopes ::
  "string \<Rightarrow> instant \<Rightarrow> moment option \<Rightarrow> int \<Rightarrow> enroll_db \<Rightarrow> enroll_error + (enroll_db \<times> nat)" where
  "cleanup_expired_retry_envelopes request_id clock now limit db =
     (if \<not> (1 \<le> limit \<and> limit \<le> 100) then Inl EnValueError
      else bindE (aware_now clock now) (\<lambda>cleaned_at.
        if blank request_id then Inl EnValueError
        else
          let es = expired_deliveries cleaned_at (nat limit) db
          in bindE (delete_expired request_id cleaned_at es db) (\<lambda>db'. Inr (db', length es))))"

end
