(* ===== verification/Enroll_Ledger.thy ===== *)
theory Enroll_Ledger
  imports Enroll_Agent
begin

text \<open>
  What an enrollment history may do, as a step relation on a ledger: campaigns with their quota, install
  claims with their campaign, and the admitted devices with the campaign and the claim that admitted
  them. Every committed request of the enrollment routes is a step of the ledger of its tables.
\<close>

section \<open>The ledger\<close>

record quota =
  qu_used :: int
  qu_max :: int
  qu_revoked :: bool

record ledger =
  lg_quota :: "uuid \<Rightarrow> quota option"
  lg_claim :: "uuid \<Rightarrow> (uuid \<times> bool) option"
  lg_admitted :: "(uuid option \<times> uuid option) list"

definition admitted_by :: "uuid \<Rightarrow> ledger \<Rightarrow> nat" where
  "admitted_by i l = count_list (map fst (lg_admitted l)) (Some i)"

definition admitted_with :: "uuid \<Rightarrow> ledger \<Rightarrow> nat" where
  "admitted_with j l = count_list (map snd (lg_admitted l)) (Some j)"

inductive ledger_step :: "ledger \<Rightarrow> ledger \<Rightarrow> bool" where
  keep: "ledger_step l l"
| open_campaign:
    "lg_quota l i = None \<Longrightarrow> 0 < m \<Longrightarrow>
     ledger_step l (l\<lparr>lg_quota := (lg_quota l)(i \<mapsto> \<lparr>qu_used = 0, qu_max = m, qu_revoked = False\<rparr>)\<rparr>)"
| resize_campaign:
    "lg_quota l i = Some q \<Longrightarrow> qu_used q \<le> m \<or> m = qu_max q \<Longrightarrow>
     ledger_step l (l\<lparr>lg_quota := (lg_quota l)(i \<mapsto> q\<lparr>qu_max := m\<rparr>)\<rparr>)"
| revoke:
    "lg_quota l i = Some q \<Longrightarrow> \<not> qu_revoked q \<Longrightarrow>
     ledger_step l (l\<lparr>lg_quota := (lg_quota l)(i \<mapsto> q\<lparr>qu_revoked := True\<rparr>)\<rparr>)"
| issue_claim:
    "lg_quota l i = Some q \<Longrightarrow> \<not> qu_revoked q \<Longrightarrow> qu_used q < qu_max q \<Longrightarrow> lg_claim l j = None \<Longrightarrow>
     ledger_step l (l\<lparr>lg_claim := (lg_claim l)(j \<mapsto> (i, False))\<rparr>)"
| admit_by_campaign:
    "lg_quota l i = Some q \<Longrightarrow> \<not> qu_revoked q \<Longrightarrow> qu_used q < qu_max q \<Longrightarrow>
     ledger_step l (l\<lparr>lg_quota := (lg_quota l)(i \<mapsto> q\<lparr>qu_used := qu_used q + 1\<rparr>),
                      lg_admitted := lg_admitted l @ [(Some i, None)]\<rparr>)"
| admit_by_claim:
    "lg_quota l i = Some q \<Longrightarrow> \<not> qu_revoked q \<Longrightarrow> qu_used q < qu_max q \<Longrightarrow> lg_claim l j = Some (i, False) \<Longrightarrow>
     ledger_step l (l\<lparr>lg_quota := (lg_quota l)(i \<mapsto> q\<lparr>qu_used := qu_used q + 1\<rparr>),
                      lg_claim := (lg_claim l)(j \<mapsto> (i, True)),
                      lg_admitted := lg_admitted l @ [(Some i, Some j)]\<rparr>)"

definition quota_ok :: "ledger \<Rightarrow> uuid \<Rightarrow> bool" where
  "quota_ok l i =
     (case lg_quota l i of
        None \<Rightarrow> admitted_by i l = 0
      | Some q \<Rightarrow> qu_used q \<le> qu_max q \<and> int (admitted_by i l) = qu_used q)"

definition claim_ok :: "ledger \<Rightarrow> uuid \<Rightarrow> bool" where
  "claim_ok l j =
     (case lg_claim l j of
        None \<Rightarrow> admitted_with j l = 0
      | Some (i, claimed) \<Rightarrow> lg_quota l i \<noteq> None \<and> admitted_with j l = (if claimed then 1 else 0))"

definition ledger_ok :: "ledger \<Rightarrow> bool" where
  "ledger_ok l \<longleftrightarrow> (\<forall>i. quota_ok l i) \<and> (\<forall>j. claim_ok l j)"

text \<open>What a step never takes back: revocations, consumed claims, admissions, and the uses of a revoked
  campaign.\<close>

definition ledger_le :: "ledger \<Rightarrow> ledger \<Rightarrow> bool" where
  "ledger_le l l' \<longleftrightarrow>
     (\<forall>i q. lg_quota l i = Some q \<longrightarrow>
        (\<exists>q'. lg_quota l' i = Some q' \<and> qu_used q \<le> qu_used q'
          \<and> (qu_revoked q \<longrightarrow> qu_revoked q' \<and> qu_used q' = qu_used q)))
     \<and> (\<forall>j i b. lg_claim l j = Some (i, b) \<longrightarrow> (\<exists>b'. lg_claim l' j = Some (i, b') \<and> (b \<longrightarrow> b')))
     \<and> (\<forall>j i b q. lg_claim l j = None \<and> lg_claim l' j = Some (i, b) \<and> lg_quota l i = Some q \<longrightarrow> \<not> qu_revoked q)
     \<and> (\<exists>new. lg_admitted l' = lg_admitted l @ new)"

lemma ledger_step_quota: "ledger_step l l' \<Longrightarrow> quota_ok l i \<Longrightarrow> quota_ok l' i"
  by (induction rule: ledger_step.induct) (auto simp: quota_ok_def admitted_by_def split: option.splits)

lemma ledger_step_claim: "ledger_step l l' \<Longrightarrow> claim_ok l j \<Longrightarrow> claim_ok l' j"
  by (induction rule: ledger_step.induct) (auto simp: claim_ok_def admitted_with_def split: option.splits prod.splits)

lemma ledger_step_ok: "ledger_step l l' \<Longrightarrow> ledger_ok l \<Longrightarrow> ledger_ok l'"
  by (simp add: ledger_ok_def ledger_step_quota ledger_step_claim)

lemma ledger_le_refl: "ledger_le l l"
  by (auto simp: ledger_le_def)

lemma ledger_leD_quota:
  "ledger_le l l' \<Longrightarrow> lg_quota l i = Some q \<Longrightarrow>
     \<exists>q'. lg_quota l' i = Some q' \<and> qu_used q \<le> qu_used q' \<and> (qu_revoked q \<longrightarrow> qu_revoked q' \<and> qu_used q' = qu_used q)"
  by (simp add: ledger_le_def)

lemma ledger_le_trans:
  assumes "ledger_le l l1" "ledger_le l1 l2"
  shows "ledger_le l l2"
  unfolding ledger_le_def
proof (intro conjI allI impI)
  fix i q
  assume q: "lg_quota l i = Some q"
  from ledger_leD_quota [OF assms(1) q] obtain q1 where
    q1: "lg_quota l1 i = Some q1" "qu_used q \<le> qu_used q1" "qu_revoked q \<longrightarrow> qu_revoked q1 \<and> qu_used q1 = qu_used q" by blast
  from ledger_leD_quota [OF assms(2) q1(1)] q1(2,3)
  show "\<exists>q'. lg_quota l2 i = Some q' \<and> qu_used q \<le> qu_used q' \<and> (qu_revoked q \<longrightarrow> qu_revoked q' \<and> qu_used q' = qu_used q)"
    by auto
next
  fix j i b
  assume "lg_claim l j = Some (i, b)"
  with assms show "\<exists>b'. lg_claim l2 j = Some (i, b') \<and> (b \<longrightarrow> b')"
    unfolding ledger_le_def by metis
next
  fix j i b q
  assume new: "lg_claim l j = None \<and> lg_claim l2 j = Some (i, b) \<and> lg_quota l i = Some q"
  show "\<not> qu_revoked q"
  proof (cases "lg_claim l1 j")
    case None
    with new assms show ?thesis unfolding ledger_le_def by metis
  next
    case (Some x)
    then obtain i' b' where x: "lg_claim l1 j = Some (i', b')" by (cases x) simp
    with new assms(2) have "i' = i" unfolding ledger_le_def by fastforce
    with x new assms(1) show ?thesis unfolding ledger_le_def by blast
  qed
next
  show "\<exists>new. lg_admitted l2 = lg_admitted l @ new"
    using assms unfolding ledger_le_def by (metis append_assoc)
qed

lemma ledger_step_le: "ledger_step l l' \<Longrightarrow> ledger_le l l'"
  by (induction rule: ledger_step.induct) (auto simp: ledger_le_def)

end
