(* ===== verification/Enroll_Frames.thy ===== *)
theory Enroll_Frames
  imports Enroll_Ledger
begin

text \<open>
  What each enrollment route leaves of the tables: which routes touch no campaign, claim or admission,
  and how the status of a request moves.
\<close>

section \<open>Requests only move forward\<close>

text \<open>What one call may do to the status of a request: a transition of the table; two of them at once, when an
  enrollment registers the device and when a completion skips the wait; and the expiry of a completed request, which
  the code performs although the table lacks it.\<close>

definition request_step :: "request_status \<Rightarrow> request_status \<Rightarrow> bool" where
  "request_step s t \<longleftrightarrow> t \<in> set (allowed_transitions s)
     \<or> (s, t) \<in> {(SClaimIssued, SDeviceRegistered), (SDeviceRegistered, SCompleted), (SCompleted, SExpired)}"

definition same_request :: "enrollment_request \<Rightarrow> enrollment_request \<Rightarrow> bool" where
  "same_request r r' \<longleftrightarrow>
     rq_id r' = rq_id r \<and> rq_installation_digest r' = rq_installation_digest r
     \<and> rq_fingerprint_digest r' = rq_fingerprint_digest r \<and> rq_capability_digest r' = rq_capability_digest r
     \<and> rq_selected_campaign_id r' = rq_selected_campaign_id r \<and> rq_expires_at r' = rq_expires_at r"

definition request_advances :: "enrollment_request \<Rightarrow> enrollment_request \<Rightarrow> bool" where
  "request_advances r r' \<longleftrightarrow> same_request r r' \<and> (rq_status r' = rq_status r \<or> request_step (rq_status r) (rq_status r'))"

definition requests_move :: "enrollment_request list \<Rightarrow> enrollment_request list \<Rightarrow> bool" where
  "requests_move rows rows' \<longleftrightarrow>
     rows' = rows \<or> (\<exists>r. rows' = rows @ [r])
     \<or> (\<exists>r r'. r \<in> set rows \<and> rows' = store_row rq_id r' rows \<and> request_advances r r')"

definition same_ledger :: "enroll_db \<Rightarrow> enroll_db \<Rightarrow> bool" where
  "same_ledger db db' \<longleftrightarrow> e_campaigns db' = e_campaigns db \<and> e_claims db' = e_claims db \<and> e_events db' = e_events db"

definition route_frame :: "enroll_db \<Rightarrow> enroll_db \<Rightarrow> bool" where
  "route_frame db db' \<longleftrightarrow> same_ledger db db' \<and> requests_move (e_requests db) (e_requests db')
     \<and> (db' = db \<or> enroll_constraints db')"

lemma route_frame_refl [simp]: "route_frame db db"
  by (simp add: route_frame_def same_ledger_def requests_move_def)

lemma enroll_audit_Inr: "enroll_audit e db = Inr db' \<Longrightarrow> \<exists>a. db' = db\<lparr>e_audits := a\<rparr>"
  by (auto simp: enroll_audit_def)

lemma transition_Inr [simp]: "transition_request_status s t = Inr b \<longleftrightarrow> t \<in> set (allowed_transitions s) \<and> b"
  by (auto simp: transition_request_status_def)

lemma advances_status:
  "t \<in> set (allowed_transitions (rq_status r)) \<Longrightarrow> same_request r r' \<Longrightarrow> rq_status r' = t \<Longrightarrow> request_advances r r'"
  by (simp add: request_advances_def request_step_def)

lemma expired_advances: "request_overdue now r \<Longrightarrow> request_advances r (expired_request now r)"
  by (cases "rq_status r") (auto simp: request_advances_def same_request_def expired_request_def request_overdue_def request_step_def)

lemma frame_store:
  assumes "r \<in> set (e_requests db)" "request_advances r r'" "db' = (store_request r' db)\<lparr>e_audits := a\<rparr>" "enroll_constraints db'"
  shows "route_frame db db'"
  using assms by (auto simp: route_frame_def same_ledger_def requests_move_def store_request_def)

lemma frame_expire:
  assumes "expire_request i now r db = Inr db'" "r \<in> set (e_requests db)" "request_overdue now r"
  shows "route_frame db db'"
  using assms by (auto simp: expire_request_def dest!: enroll_audit_Inr intro: frame_store [OF _ expired_advances])

lemma frame_status: "enrollment_request_status cr pepper aid now rid cap db = Inr (db', r) \<Longrightarrow> route_frame db db'"
  by (auto simp: enrollment_request_status_def split: option.splits if_splits dest: find_row_SomeD intro: frame_expire)

lemma frame_create_request: "create_enrollment_request cr i pepper rid now src body db = Inr (db', r) \<Longrightarrow> route_frame db db'"
  by (auto simp: create_enrollment_request_def persist_enrollment_request_def Let_def route_frame_def same_ledger_def requests_move_def
      split: if_splits dest!: enroll_audit_Inr)

lemma deny_Inr: "deny_enrollment_request r reason now = Inr r' \<Longrightarrow> request_advances r r'"
  by (auto simp: deny_enrollment_request_def same_request_def intro!: advances_status)

lemma approve_Inr: "approve_enrollment_request r c now = Inr r' \<Longrightarrow> request_advances r r'"
  by (auto simp: approve_enrollment_request_def same_request_def split: if_splits intro!: advances_status)

lemma claim_issued_Inr: "mark_request_claim_issued r c now = Inr r' \<Longrightarrow> request_advances r r'"
  by (auto simp: mark_request_claim_issued_def same_request_def split: if_splits intro!: advances_status)

lemma decided_advances: "request_advances r r' \<Longrightarrow> request_advances r (r'\<lparr>rq_decided_by := a\<rparr>)"
  by (simp add: request_advances_def same_request_def)

lemma frame_decision:
  assumes "record_decision r' action aid admin now db = Inr db'" "r \<in> set (e_requests db)" "request_advances r r'"
  shows "route_frame db db'"
  using assms
  by (auto simp: record_decision_def append_decision_audit_def Let_def dest!: enroll_audit_Inr intro: frame_store [OF _ decided_advances])

lemma frame_approve: "approve_request aid admin now rid db = Inr (db', x) \<Longrightarrow> route_frame db db'"
  by (auto simp: approve_request_def split: option.splits sum.splits enroll_error.splits if_splits dest: find_row_SomeD deny_Inr approve_Inr
      intro: frame_decision)

lemma frame_deny: "deny_request aid admin now rid reason db = Inr (db', x) \<Longrightarrow> route_frame db db'"
  by (auto simp: deny_request_def split: option.splits sum.splits enroll_error.splits if_splits dest: find_row_SomeD deny_Inr
      intro: frame_decision)

lemma frame_await:
  assumes "await_wss now r db = Inr (db', x)" "r \<in> set (e_requests db)"
  shows "route_frame db db'"
proof (cases "rq_status r = SDeviceRegistered")
  case True
  let ?r = "r\<lparr>rq_status := SWaitingWss, rq_updated_at := now\<rparr>"
  have adv: "request_advances r ?r"
    by (rule advances_status) (simp_all add: True same_request_def)
  have "db' = (store_request ?r db)\<lparr>e_audits := e_audits db\<rparr>" "enroll_constraints db'"
    using assms(1) True by (auto simp: await_wss_def Let_def store_request_def)
  then show ?thesis by (rule frame_store [OF assms(2) adv])
next
  case False
  with assms(1) show ?thesis by (auto simp: await_wss_def)
qed

lemma frame_complete:
  assumes "complete_request aid now r db = Inr (db', x)" "r \<in> set (e_requests db)"
    "rq_status r \<in> {SDeviceRegistered, SWaitingWss}"
  shows "route_frame db db'"
proof -
  have "request_advances r (r\<lparr>rq_status := SCompleted, rq_updated_at := now\<rparr>)"
    using assms(3) by (auto simp: request_advances_def same_request_def request_step_def)
  with assms show ?thesis
    by (auto simp: complete_request_def Let_def split: if_splits dest!: enroll_audit_Inr intro: frame_store)
qed

lemma frame_verify:
  assumes "verify_enrollment_completion cr pepper aid now latest baseline rid cap db = Inr (db', x)"
  shows "route_frame db db'"
proof -
  from assms obtain r where r: "r \<in> set (e_requests db)"
    and "db' = db \<or> await_wss now r db = Inr (db', x)
      \<or> complete_request aid now r db = Inr (db', x) \<and> rq_status r \<in> {SDeviceRegistered, SWaitingWss}"
    by (auto simp: verify_enrollment_completion_def split: option.splits if_splits dest: find_row_SomeD)
  with frame_await [OF _ r] frame_complete [OF _ r] show ?thesis by auto
qed

section \<open>Deliveries and credentials\<close>

lemma frame_destroy: "destroy_observed_expired_delivery e rid src s at db = Inr db' \<Longrightarrow> route_frame db db'"
  by (auto simp: destroy_observed_expired_delivery_def remove_delivery_def route_frame_def same_ledger_def requests_move_def
      dest!: enroll_audit_Inr)

lemma frame_redeliver: "redeliver cr clock pepper secret rid src fp policy d c cl receipt db = Inr (db', x) \<Longrightarrow> route_frame db db'"
  by (auto simp: redeliver_def split: sum.splits delivery_failure.splits if_splits intro: frame_destroy)

lemma frame_retry: "retry_enrollment_delivery cr clock cidrs pepper secret rid src receipt fp db = Inr (db', x) \<Longrightarrow> route_frame db db'"
  by (auto simp: retry_enrollment_delivery_def split: sum.splits delivery_failure.splits if_splits intro: frame_destroy)

lemma frame_acknowledge:
  "acknowledge_enrollment_delivery cr clock cidrs pepper secret rid src receipt fp db = Inr (db', x) \<Longrightarrow> route_frame db db'"
  by (auto simp: acknowledge_enrollment_delivery_def remove_delivery_def route_frame_def same_ledger_def requests_move_def
      split: sum.splits delivery_failure.splits if_splits dest!: enroll_audit_Inr
      dest: frame_destroy [unfolded route_frame_def same_ledger_def requests_move_def])

lemma frame_rotate: "rotate_device_credential cr tok now cidrs pepper rid src token db = Inr (db', x) \<Longrightarrow> route_frame db db'"
  by (auto simp: rotate_device_credential_def store_credential_def route_frame_def same_ledger_def requests_move_def
      split: sum.splits option.splits if_splits dest!: enroll_audit_Inr)

lemma frame_activate: "activate_device_credential cr now cidrs pepper rid src token db = Inr (db', x) \<Longrightarrow> route_frame db db'"
  by (auto simp: activate_device_credential_def store_credential_def route_frame_def same_ledger_def requests_move_def
      split: sum.splits option.splits if_splits prod.splits bool.splits dest!: enroll_audit_Inr)

lemma delete_expired_frame: "delete_expired rid at es db = Inr db' \<Longrightarrow>
  same_ledger db db' \<and> e_requests db' = e_requests db \<and> e_devices db' = e_devices db \<and> e_credentials db' = e_credentials db
  \<and> e_claim_envelopes db' = e_claim_envelopes db"
proof (induction es arbitrary: db)
  case (Cons e es)
  then obtain a where "delete_expired rid at es ((remove_delivery e db)\<lparr>e_audits := a\<rparr>) = Inr db'"
    by (auto dest!: enroll_audit_Inr)
  from Cons.IH [OF this] show ?case by (simp add: same_ledger_def remove_delivery_def)
qed (simp add: same_ledger_def)

end
