(* ===== verification/Enroll_Refinement.thy ===== *)
theory Enroll_Refinement
  imports Enroll_Frames
begin

text \<open>
  The ledger of the enrollment tables, and that every route that touches a campaign, a claim or an
  admission takes a step of it.
\<close>

definition quota_of :: "campaign \<Rightarrow> quota" where
  "quota_of c = \<lparr>qu_used = ca_use_count c, qu_max = ca_max_uses c, qu_revoked = (ca_revoked_at c \<noteq> None)\<rparr>"

definition claim_of :: "claim \<Rightarrow> uuid \<times> bool" where
  "claim_of cl = (cl_campaign_id cl, cl_claimed_at cl \<noteq> None)"

definition admission_of :: "enrollment_event \<Rightarrow> uuid option \<times> uuid option" where
  "admission_of e = (ee_campaign_id e, ee_claim_id e)"

definition admissions :: "enroll_db \<Rightarrow> enrollment_event list" where
  "admissions db = filter (\<lambda>e. ee_kind e = ''device_enrolled'') (e_events db)"

definition ledger_of :: "enroll_db \<Rightarrow> ledger" where
  "ledger_of db =
     \<lparr>lg_quota = (\<lambda>i. map_option quota_of (find_row ca_id i (e_campaigns db))),
      lg_claim = (\<lambda>j. map_option claim_of (find_row cl_id j (e_claims db))),
      lg_admitted = map admission_of (admissions db)\<rparr>"

lemma ledger_same: "same_ledger db db' \<Longrightarrow> ledger_of db' = ledger_of db"
  by (simp add: same_ledger_def ledger_of_def admissions_def)

lemma ledger_frame: "route_frame db db' \<Longrightarrow> ledger_step (ledger_of db) (ledger_of db')"
  using ledger_same [of db db'] by (simp add: route_frame_def ledger_step.keep)

lemma ledger_of_audits [simp]: "ledger_of (db\<lparr>e_audits := a\<rparr>) = ledger_of db"
  by (simp add: ledger_of_def admissions_def)

lemma ledger_of_store_request [simp]: "ledger_of (store_request r db) = ledger_of db"
  by (simp add: ledger_of_def admissions_def store_request_def)

lemma ledger_of_envelopes [simp]: "ledger_of (db\<lparr>e_claim_envelopes := x\<rparr>) = ledger_of db"
  by (simp add: ledger_of_def admissions_def)

lemma ledger_of_deliveries [simp]: "ledger_of (db\<lparr>e_deliveries := x\<rparr>) = ledger_of db"
  by (simp add: ledger_of_def admissions_def)

lemma ledger_of_devices [simp]: "ledger_of (db\<lparr>e_devices := x\<rparr>) = ledger_of db"
  by (simp add: ledger_of_def admissions_def)

lemma ledger_of_credentials [simp]: "ledger_of (db\<lparr>e_credentials := x\<rparr>) = ledger_of db"
  by (simp add: ledger_of_def admissions_def)

lemma find_row_put:
  "find_row key (key r) rows \<noteq> None \<Longrightarrow> find_row key i (store_row key r rows) = (if i = key r then Some r else find_row key i rows)"
  by (simp add: find_row_store_row find_row_None_iff) (metis imageI)

lemma find_row_new:
  "find_row key (key r) rows = None \<Longrightarrow> find_row key i (rows @ [r]) = (if i = key r then Some r else find_row key i rows)"
  by (auto simp: find_row_def find_append split: option.splits)

lemma ledger_of_store_campaign:
  "find_row ca_id (ca_id c) (e_campaigns db) \<noteq> None \<Longrightarrow>
     ledger_of (store_campaign c db) = (ledger_of db)\<lparr>lg_quota := (lg_quota (ledger_of db))(ca_id c \<mapsto> quota_of c)\<rparr>"
  by (auto simp: ledger_of_def store_campaign_def admissions_def find_row_put fun_eq_iff)

lemma ledger_of_new_campaign:
  "find_row ca_id (ca_id c) (e_campaigns db) = None \<Longrightarrow>
     ledger_of (db\<lparr>e_campaigns := e_campaigns db @ [c]\<rparr>)
     = (ledger_of db)\<lparr>lg_quota := (lg_quota (ledger_of db))(ca_id c \<mapsto> quota_of c)\<rparr>"
  by (auto simp: ledger_of_def admissions_def find_row_new fun_eq_iff)

lemma ledger_of_store_claim:
  "find_row cl_id (cl_id c) (e_claims db) \<noteq> None \<Longrightarrow>
     ledger_of (store_claim c db) = (ledger_of db)\<lparr>lg_claim := (lg_claim (ledger_of db))(cl_id c \<mapsto> claim_of c)\<rparr>"
  by (auto simp: ledger_of_def store_claim_def admissions_def find_row_put fun_eq_iff)

lemma ledger_of_new_claim:
  "find_row cl_id (cl_id c) (e_claims db) = None \<Longrightarrow>
     ledger_of (db\<lparr>e_claims := e_claims db @ [c]\<rparr>)
     = (ledger_of db)\<lparr>lg_claim := (lg_claim (ledger_of db))(cl_id c \<mapsto> claim_of c)\<rparr>"
  by (auto simp: ledger_of_def admissions_def find_row_new fun_eq_iff)

lemma ledger_of_event:
  "ledger_of (db\<lparr>e_events := e_events db @ [e]\<rparr>)
   = (if ee_kind e = ''device_enrolled''
      then (ledger_of db)\<lparr>lg_admitted := lg_admitted (ledger_of db) @ [admission_of e]\<rparr> else ledger_of db)"
  by (simp add: ledger_of_def admissions_def)

lemma quota_find: "find_row ca_id i (e_campaigns db) = Some c \<Longrightarrow> lg_quota (ledger_of db) i = Some (quota_of c)"
  by (simp add: ledger_of_def)

lemma claim_find: "find_row cl_id i (e_claims db) = Some c \<Longrightarrow> lg_claim (ledger_of db) i = Some (claim_of c)"
  by (simp add: ledger_of_def)

lemma fresh_append: "distinct (map key (rows @ [r])) \<Longrightarrow> find_row key (key r) rows = None"
  by (auto simp: find_row_None_iff) (metis imageI)

section \<open>Campaigns\<close>

lemma issue_campaign_Inr:
  "issue_campaign cr i ri rs clock pepper inp now = Inr (token, c) \<Longrightarrow>
     ca_use_count c = 0 \<and> 0 < ca_max_uses c \<and> ca_revoked_at c = None"
  by (auto simp: issue_campaign_def issue_token_def split: if_splits)

lemma invalid_campaign_Inr [simp]: "invalid_campaign r = Inr x \<longleftrightarrow> r = Inr x"
  by (auto simp: invalid_campaign_def)

lemma step_create_campaign:
  assumes "create_campaign cr i ri rs clock at pepper admin rid inp db = Inr (db', x)"
  shows "ledger_step (ledger_of db) (ledger_of db') \<and> e_requests db' = e_requests db \<and> enroll_constraints db'"
proof -
  from assms obtain token c a where c: "issue_campaign cr i ri rs clock pepper inp None = Inr (token, c)"
    and db': "db' = (db\<lparr>e_campaigns := e_campaigns db @ [c]\<rparr>)\<lparr>e_audits := a\<rparr>" and ok: "enroll_constraints db'"
    by (auto simp: create_campaign_def dest!: enroll_audit_Inr)
  have "distinct (map ca_id (e_campaigns db @ [c]))"
    using ok by (simp add: db' enroll_constraints_def campaigns_unique_def)
  then have fresh: "find_row ca_id (ca_id c) (e_campaigns db) = None" by (rule fresh_append)
  have led: "ledger_of db' = (ledger_of db)\<lparr>lg_quota := (lg_quota (ledger_of db))(ca_id c \<mapsto> quota_of c)\<rparr>"
    unfolding db' ledger_of_audits by (rule ledger_of_new_campaign [OF fresh])
  have "quota_of c = \<lparr>qu_used = 0, qu_max = ca_max_uses c, qu_revoked = False\<rparr>" "0 < ca_max_uses c"
    using issue_campaign_Inr [OF c] by (simp_all add: quota_of_def)
  moreover have "lg_quota (ledger_of db) (ca_id c) = None" using fresh by (simp add: ledger_of_def)
  ultimately show ?thesis
    unfolding led using ok by (simp add: ledger_step.open_campaign db')
qed

lemma patched_bounds_Inr: "patched_bounds now p c = Inr c1 \<Longrightarrow>
  ca_id c1 = ca_id c \<and> ca_use_count c1 = ca_use_count c \<and> ca_revoked_at c1 = ca_revoked_at c
  \<and> (ca_use_count c \<le> ca_max_uses c1 \<or> ca_max_uses c1 = ca_max_uses c)"
  by (cases "cp_max_uses p") (auto simp: patched_bounds_def Let_def split: if_splits)

lemma patched_cidrs_Inr: "patched_cidrs cr i ri rs pepper now p c = Inr c1 \<Longrightarrow> \<exists>x. c1 = c\<lparr>ca_allowed_cidrs := x\<rparr>"
proof (cases "cp_allowed_cidrs p")
  case None
  assume "patched_cidrs cr i ri rs pepper now p c = Inr c1"
  with None have "c1 = c\<lparr>ca_allowed_cidrs := ca_allowed_cidrs c\<rparr>" by (simp add: patched_cidrs_def)
  then show ?thesis by blast
qed (auto simp: patched_cidrs_def split: option.splits)

lemma patched_texts_Inr: "patched_texts p c = Inr c1 \<Longrightarrow> \<exists>l s. c1 = c\<lparr>ca_label := l, ca_site := s\<rparr>"
  unfolding patched_texts_def bindE_Inr_iff by blast

lemma patched_Inr:
  assumes "patched_bounds now p c = Inr c1" "patched_cidrs cr i ri rs pepper now p c1 = Inr c2" "patched_texts p c2 = Inr c'"
  shows "ca_id c' = ca_id c \<and> ca_use_count c' = ca_use_count c \<and> ca_revoked_at c' = ca_revoked_at c
    \<and> (ca_use_count c \<le> ca_max_uses c' \<or> ca_max_uses c' = ca_max_uses c)"
  using patched_bounds_Inr [OF assms(1)] patched_cidrs_Inr [OF assms(2)] patched_texts_Inr [OF assms(3)] by auto

lemma step_update_campaign:
  assumes "update_campaign cr i ri rs now at pepper admin rid cid p db = Inr (db', x)"
  shows "ledger_step (ledger_of db) (ledger_of db') \<and> e_requests db' = e_requests db \<and> enroll_constraints db'"
proof -
  from assms obtain c c1 c2 c' a where c: "find_row ca_id cid (e_campaigns db) = Some c"
    and "patched_bounds now p c = Inr c1" "patched_cidrs cr i ri rs pepper now p c1 = Inr c2" "patched_texts p c2 = Inr c'"
    and db': "db' = (store_campaign c' db)\<lparr>e_audits := a\<rparr>" and ok: "enroll_constraints db'"
    by (auto simp: update_campaign_def split: option.splits dest!: enroll_audit_Inr)
  then have same: "ca_id c' = ca_id c \<and> ca_use_count c' = ca_use_count c \<and> ca_revoked_at c' = ca_revoked_at c
    \<and> (ca_use_count c \<le> ca_max_uses c' \<or> ca_max_uses c' = ca_max_uses c)" using patched_Inr by metis
  have id: "ca_id c = cid" using c by (rule find_row_SomeD)
  have "ledger_of db' = (ledger_of db)\<lparr>lg_quota := (lg_quota (ledger_of db))(cid \<mapsto> (quota_of c)\<lparr>qu_max := ca_max_uses c'\<rparr>)\<rparr>"
    using ledger_of_store_campaign [of c' db] same c id by (simp add: db' quota_of_def)
  moreover have "qu_used (quota_of c) \<le> ca_max_uses c' \<or> ca_max_uses c' = qu_max (quota_of c)"
    using same by (simp add: quota_of_def)
  ultimately show ?thesis
    using ok quota_find [OF c] by (simp add: ledger_step.resize_campaign db' store_campaign_def)
qed

lemma revoke_campaign_Inr:
  assumes "revoke_campaign clock cid admin rid now db = Inr (db', c')"
  shows "\<exists>c. find_row ca_id cid (e_campaigns db) = Some c
    \<and> ((ca_revoked_at c \<noteq> None \<and> db' = db \<and> c' = c)
      \<or> (\<exists>t a. ca_revoked_at c = None \<and> c' = c\<lparr>ca_revoked_at := Some t\<rparr> \<and> db' = (store_campaign c' db)\<lparr>e_audits := a\<rparr>))"
proof (cases "find_row ca_id cid (e_campaigns db)")
  case None
  with assms show ?thesis by (simp add: revoke_campaign_def)
next
  case (Some c)
  then show ?thesis
    using assms by (cases "ca_revoked_at c") (auto simp: revoke_campaign_def Let_def dest!: enroll_audit_Inr)
qed

lemma step_revoke_campaign:
  assumes "revoke_enrollment_campaign clock cid admin rid db = Inr (db', x)"
  shows "ledger_step (ledger_of db) (ledger_of db') \<and> e_requests db' = e_requests db \<and> enroll_constraints db'"
proof -
  from assms obtain c' where rev: "revoke_campaign clock cid admin rid None db = Inr (db', c')" and ok: "enroll_constraints db'"
    by (auto simp: revoke_enrollment_campaign_def split: sum.splits enroll_error.splits)
  from revoke_campaign_Inr [OF rev] obtain c where c: "find_row ca_id cid (e_campaigns db) = Some c"
    and alt: "(ca_revoked_at c \<noteq> None \<and> db' = db)
      \<or> (\<exists>t a. ca_revoked_at c = None \<and> db' = (store_campaign (c\<lparr>ca_revoked_at := Some t\<rparr>) db)\<lparr>e_audits := a\<rparr>)" by blast
  have id: "ca_id c = cid" using c by (rule find_row_SomeD)
  from alt show ?thesis
  proof (elim disjE exE conjE)
    assume "db' = db"
    with ok show ?thesis by (simp add: ledger_step.keep)
  next
    fix t a
    assume live: "ca_revoked_at c = None" and db': "db' = (store_campaign (c\<lparr>ca_revoked_at := Some t\<rparr>) db)\<lparr>e_audits := a\<rparr>"
    have "ledger_of db' = (ledger_of db)\<lparr>lg_quota := (lg_quota (ledger_of db))(cid \<mapsto> (quota_of c)\<lparr>qu_revoked := True\<rparr>)\<rparr>"
      using ledger_of_store_campaign [of "c\<lparr>ca_revoked_at := Some t\<rparr>" db] c id by (simp add: db' quota_of_def)
    moreover have "\<not> qu_revoked (quota_of c)" using live by (simp add: quota_of_def)
    ultimately show ?thesis
      using ok ledger_step.revoke [OF quota_find [OF c]] by (simp add: db' store_campaign_def)
  qed
qed

section \<open>Claims\<close>

lemma issue_install_claim_Inr:
  "issue_install_claim cr i ri rs clock c pepper session fp expires now = Inr (token, cl) \<Longrightarrow>
     cl_id cl = i \<and> cl_campaign_id cl = ca_id c \<and> cl_claimed_at cl = None \<and> cl_device_id cl = None \<and> cl_request_id cl = None
     \<and> ca_revoked_at c = None \<and> ca_use_count c < ca_max_uses c"
  by (auto simp: issue_install_claim_def issue_token_def campaign_live_def Let_def split: if_splits)

lemma step_new_claim:
  assumes "find_row ca_id i (e_campaigns db) = Some c" "cl_campaign_id cl = ca_id c" "cl_claimed_at cl = None"
    "ca_revoked_at c = None" "ca_use_count c < ca_max_uses c" "distinct (map cl_id (e_claims db @ [cl]))"
  shows "ledger_step (ledger_of db) (ledger_of (db\<lparr>e_claims := e_claims db @ [cl]\<rparr>))"
proof -
  have fresh: "find_row cl_id (cl_id cl) (e_claims db) = None" by (rule fresh_append [OF assms(6)])
  have id: "ca_id c = i" using assms(1) by (rule find_row_SomeD)
  have "claim_of cl = (i, False)" using assms(2,3) id by (simp add: claim_of_def)
  moreover have "lg_claim (ledger_of db) (cl_id cl) = None" using fresh by (simp add: ledger_of_def)
  ultimately show ?thesis
    using quota_find [OF assms(1)] assms(4,5) unfolding ledger_of_new_claim [OF fresh]
    by (auto intro!: ledger_step.issue_claim simp: quota_of_def)
qed

lemma step_provisioning_claim:
  assumes "issue_provisioning_install_claim cr i ri rs at pepper service rid ok cid session fp db = Inr (db', x)"
  shows "ledger_step (ledger_of db) (ledger_of db') \<and> e_requests db' = e_requests db \<and> enroll_constraints db'"
proof -
  from assms obtain c s f e n token cl a where c: "find_row ca_id cid (e_campaigns db) = Some c"
    and cl: "issue_install_claim cr i ri rs at c pepper s f e n = Inr (token, cl)"
    and db': "db' = (db\<lparr>e_claims := e_claims db @ [cl]\<rparr>)\<lparr>e_audits := a\<rparr>" and ok: "enroll_constraints db'"
    by (auto simp: issue_provisioning_install_claim_def split: sum.splits option.splits moment.splits if_splits enroll_error.splits
        dest!: enroll_audit_Inr)
  have "distinct (map cl_id (e_claims db @ [cl]))"
    using ok by (simp add: db' enroll_constraints_def claims_unique_def)
  with issue_install_claim_Inr [OF cl] c have "ledger_step (ledger_of db) (ledger_of (db\<lparr>e_claims := e_claims db @ [cl]\<rparr>))"
    by (intro step_new_claim [of cid]) auto
  with ok show ?thesis by (simp add: db')
qed

lemma issue_request_claim_Inr:
  assumes "issue_request_claim cr sk pepper secret aid now r c cap install fp db = Inr (db', x)"
  shows "\<exists>cl r' a envs. db' = ((store_request r' db)\<lparr>e_claims := e_claims db @ [cl], e_claim_envelopes := envs\<rparr>)\<lparr>e_audits := a\<rparr>
    \<and> request_advances r r' \<and> rq_status r' = SClaimIssued \<and> cl_campaign_id cl = ca_id c \<and> cl_claimed_at cl = None \<and> ca_revoked_at c = None
    \<and> ca_use_count c < ca_max_uses c \<and> enroll_constraints db'"
proof -
  from assms obtain e token cl0 r' a sealed where cl: "issue_install_claim cr (sk_claim_id sk) (sk_identifier sk) (sk_secret sk) now c pepper install fp
        (Aware e) (Some (Aware now)) = Inr (token, cl0)"
    and r': "mark_request_claim_issued r c now = Inr r'" and ok: "enroll_constraints db'"
    and db': "db' = ((store_request r' db)\<lparr>e_claims := e_claims db @ [cl0\<lparr>cl_request_id := Some (rq_id r)\<rparr>],
        e_claim_envelopes := e_claim_envelopes db @ [\<lparr>ce_id = sk_envelope_id sk, ce_request_id = rq_id r, ce_claim_id = cl_id cl0, ce_envelope = sealed\<rparr>]\<rparr>)\<lparr>e_audits := a\<rparr>"
    by (auto simp: issue_request_claim_def Let_def split: option.splits moment.splits dest!: enroll_audit_Inr)
  have "cl_campaign_id (cl0\<lparr>cl_request_id := Some (rq_id r)\<rparr>) = ca_id c" "cl_claimed_at (cl0\<lparr>cl_request_id := Some (rq_id r)\<rparr>) = None"
    "ca_revoked_at c = None" "ca_use_count c < ca_max_uses c"
    using issue_install_claim_Inr [OF cl] by auto
  moreover have "rq_status r' = SClaimIssued" using r' by (auto simp: mark_request_claim_issued_def split: if_splits)
  ultimately show ?thesis using claim_issued_Inr [OF r'] ok db' by blast
qed

lemma eligible_find: "eligible_campaign r now db = Some c \<Longrightarrow> find_row ca_id (ca_id c) (e_campaigns db) = Some c"
  by (auto simp: eligible_campaign_def split: option.splits if_splits dest: find_row_SomeD)

lemma step_issue_request_claim:
  assumes "issue_request_claim cr sk pepper secret aid now r c cap install fp db = Inr (db', x)"
    and "r \<in> set (e_requests db)" "find_row ca_id (ca_id c) (e_campaigns db) = Some c"
  shows "ledger_step (ledger_of db) (ledger_of db') \<and> requests_move (e_requests db) (e_requests db') \<and> enroll_constraints db'"
proof -
  from issue_request_claim_Inr [OF assms(1)] obtain cl r' a envs where
    db': "db' = ((store_request r' db)\<lparr>e_claims := e_claims db @ [cl], e_claim_envelopes := envs\<rparr>)\<lparr>e_audits := a\<rparr>"
    and cl: "request_advances r r'" "cl_campaign_id cl = ca_id c" "cl_claimed_at cl = None" "ca_revoked_at c = None"
      "ca_use_count c < ca_max_uses c" "enroll_constraints db'" by blast
  have "distinct (map cl_id (e_claims db @ [cl]))"
    using cl(6) by (simp add: db' enroll_constraints_def claims_unique_def)
  from step_new_claim [OF assms(3) cl(2,3,4,5) this]
  have "ledger_step (ledger_of db) (ledger_of (db\<lparr>e_claims := e_claims db @ [cl]\<rparr>))" .
  moreover have "ledger_of db' = ledger_of (db\<lparr>e_claims := e_claims db @ [cl]\<rparr>)"
    by (simp add: db' ledger_of_def admissions_def store_request_def)
  moreover have "e_requests db' = store_row rq_id r' (e_requests db)" by (simp add: db' store_request_def)
  ultimately show ?thesis using cl(1,6) assms(2) by (auto simp: requests_move_def)
qed

lemma frame_deny_selected:
  assumes "deny_invalid_selected_campaign aid now r db = Inr db1" "enroll_constraints db1" "r \<in> set (e_requests db)"
  shows "route_frame db db1"
  using assms by (auto simp: deny_invalid_selected_campaign_def dest!: enroll_audit_Inr intro: frame_store deny_Inr)

lemma with_error_Inr [simp]: "with_error f r = Inr x \<longleftrightarrow> r = Inr x"
  by (cases r) (auto simp: with_error_def)

lemma load_proven_mem: "load_proven_request cr pepper rid cap install fp db = Inr r \<Longrightarrow> r \<in> set (e_requests db)"
  by (auto simp: load_proven_request_def split: option.splits if_splits dest: find_row_SomeD)

definition route_step :: "enroll_db \<Rightarrow> enroll_db \<Rightarrow> bool" where
  "route_step db db' \<longleftrightarrow> ledger_step (ledger_of db) (ledger_of db') \<and> requests_move (e_requests db) (e_requests db')
     \<and> (db' = db \<or> enroll_constraints db')"

lemma frame_step: "route_frame db db' \<Longrightarrow> route_step db db'"
  using ledger_frame [of db db'] by (simp add: route_frame_def route_step_def)

lemma campaign_step:
  "ledger_step (ledger_of db) (ledger_of db') \<and> e_requests db' = e_requests db \<and> enroll_constraints db' \<Longrightarrow> route_step db db'"
  by (simp add: route_step_def requests_move_def)

lemma step_handoff:
  assumes "handoff_enrollment_request_claim cr sk pepper secret aid now rid cap install fp db = Inr (db', x)"
  shows "route_step db db'"
proof -
  from assms obtain i f r where r: "load_proven_request cr pepper rid cap i f db = Inr r"
    and alt: "db' = db \<or> (request_overdue now r \<and> expire_request aid now r db = Inr db')
      \<or> (deny_invalid_selected_campaign aid now r db = Inr db' \<and> enroll_constraints db')
      \<or> (\<exists>c y. eligible_campaign r now db = Some c \<and> issue_request_claim cr sk pepper secret aid now r c cap i f db = Inr (db', y))"
    by (auto simp: handoff_enrollment_request_claim_def split: sum.splits option.splits if_splits)
  note mem = load_proven_mem [OF r]
  from alt show ?thesis
  proof (elim disjE exE conjE)
    assume "request_overdue now r" "expire_request aid now r db = Inr db'"
    with mem show ?thesis by (blast intro: frame_step frame_expire)
  next
    assume "deny_invalid_selected_campaign aid now r db = Inr db'" "enroll_constraints db'"
    with mem show ?thesis by (blast intro: frame_step frame_deny_selected)
  next
    fix c y
    assume "eligible_campaign r now db = Some c" "issue_request_claim cr sk pepper secret aid now r c cap i f db = Inr (db', y)"
    with mem show ?thesis unfolding route_step_def by (blast dest: eligible_find step_issue_request_claim)
  qed (simp add: frame_step)
qed

section \<open>Admission\<close>

lemma reserve_Inr:
  assumes "reserve_campaign_use cr clock token pepper src platform kind who rid now db = Inr (db1, c1)"
  shows "\<exists>c a. c \<in> set (e_campaigns db) \<and> ca_revoked_at c = None \<and> ca_use_count c < ca_max_uses c
    \<and> c1 = used c \<and> db1 = (store_campaign (used c) db)\<lparr>e_audits := a\<rparr>"
proof -
  from assms obtain t where "aware_now clock now = Inr t" by (auto simp: reserve_campaign_use_def)
  with assms obtain d c where c: "find (\<lambda>c. ca_token_digest c = d) (e_campaigns db) = Some c" "campaign_allows c t src platform" and
    c1: "c1 = used c" and aud: "\<exists>e. enroll_audit e (store_campaign (used c) db) = Inr db1"
    by (auto simp: reserve_campaign_use_def Let_def split: sum.splits option.splits if_splits)
  from c(2) have "ca_revoked_at c = None" "ca_use_count c < ca_max_uses c"
    by (simp_all add: campaign_allows_def campaign_request_matches_def campaign_live_def)
  with find_SomeD [OF c(1)] c1 aud show ?thesis by (blast dest: enroll_audit_Inr)
qed

lemma consume_Inr:
  assumes "consume_install_claim cr clock token pepper session fp src platform kind who rid now db = Inr (db1, cl1)"
  shows "\<exists>c cl a t d. claim_token_digest cr token pepper = Inr d \<and> find (\<lambda>c. cl_digest c = d) (e_claims db) = Some cl
    \<and> cl_claimed_at cl = None \<and> find_row ca_id (cl_campaign_id cl) (e_campaigns db) = Some c
    \<and> ca_revoked_at c = None \<and> ca_use_count c < ca_max_uses c \<and> cl1 = cl\<lparr>cl_claimed_at := Some t\<rparr>
    \<and> db1 = (store_campaign (used c) (store_claim cl1 db))\<lparr>e_audits := a\<rparr>"
proof -
  from assms obtain t where "aware_now clock now = Inr t" by (auto simp: consume_install_claim_def)
  with assms obtain d cl c where d: "claim_token_digest cr token pepper = Inr d" and
    cl: "find (\<lambda>c. cl_digest c = d) (e_claims db) = Some cl" "claim_consumable cr cl t pepper session fp" and
    c: "find_row ca_id (cl_campaign_id cl) (e_campaigns db) = Some c" "campaign_allows c t src platform" and
    cl1: "cl1 = cl\<lparr>cl_claimed_at := Some t\<rparr>" and
    aud: "\<exists>e. enroll_audit e (store_campaign (used c) (store_claim cl1 db)) = Inr db1"
    by (auto simp: consume_install_claim_def Let_def split: sum.splits option.splits if_splits)
  from cl(2) c(2) have "cl_claimed_at cl = None" "ca_revoked_at c = None" "ca_use_count c < ca_max_uses c"
    by (simp_all add: claim_consumable_def campaign_allows_def campaign_request_matches_def campaign_live_def)
  with d cl(1) c(1) cl1 aud show ?thesis by (blast dest: enroll_audit_Inr)
qed

lemma step_admit_campaign:
  assumes "c \<in> set (e_campaigns db)" "distinct (map ca_id (e_campaigns db))" "ca_revoked_at c = None" "ca_use_count c < ca_max_uses c"
    and "ledger_of db' = (ledger_of (store_campaign (used c) db))\<lparr>lg_admitted := lg_admitted (ledger_of db) @ [(Some (ca_id c), None)]\<rparr>"
  shows "ledger_step (ledger_of db) (ledger_of db')"
proof -
  have c: "find_row ca_id (ca_id c) (e_campaigns db) = Some c" by (rule find_row_key [OF assms(2,1)])
  have "ledger_of (store_campaign (used c) db)
      = (ledger_of db)\<lparr>lg_quota := (lg_quota (ledger_of db))(ca_id c \<mapsto> (quota_of c)\<lparr>qu_used := qu_used (quota_of c) + 1\<rparr>)\<rparr>"
    using ledger_of_store_campaign [of "used c" db] c by (simp add: used_def quota_of_def)
  with assms(5) have "ledger_of db' = (ledger_of db)\<lparr>lg_quota := (lg_quota (ledger_of db))(ca_id c \<mapsto> (quota_of c)\<lparr>qu_used := qu_used (quota_of c) + 1\<rparr>),
      lg_admitted := lg_admitted (ledger_of db) @ [(Some (ca_id c), None)]\<rparr>" by simp
  moreover have "\<not> qu_revoked (quota_of c)" "qu_used (quota_of c) < qu_max (quota_of c)"
    using assms(3,4) by (simp_all add: quota_of_def)
  ultimately show ?thesis using ledger_step.admit_by_campaign [OF quota_find [OF c]] by simp
qed

lemma step_admit_claim:
  assumes "find_row ca_id (cl_campaign_id cl) (e_campaigns db) = Some c" "find_row cl_id (cl_id cl) (e_claims db) = Some cl"
    and "cl_claimed_at cl = None" "ca_revoked_at c = None" "ca_use_count c < ca_max_uses c"
    and "lg_quota (ledger_of db') = (lg_quota (ledger_of db))(ca_id c \<mapsto> quota_of (used c))"
    and "lg_claim (ledger_of db') = (lg_claim (ledger_of db))(cl_id cl \<mapsto> (ca_id c, True))"
    and "lg_admitted (ledger_of db') = lg_admitted (ledger_of db) @ [(Some (ca_id c), Some (cl_id cl))]"
  shows "ledger_step (ledger_of db) (ledger_of db')"
proof -
  have id: "cl_campaign_id cl = ca_id c" using find_row_SomeD(2) [OF assms(1)] by simp
  have used: "quota_of (used c) = (quota_of c)\<lparr>qu_used := qu_used (quota_of c) + 1\<rparr>" by (simp add: used_def quota_of_def)
  have q: "lg_quota (ledger_of db) (ca_id c) = Some (quota_of c)" using quota_find [OF assms(1)] id by simp
  have "lg_claim (ledger_of db) (cl_id cl) = Some (ca_id c, False)"
    using claim_find [OF assms(2)] assms(3) id by (simp add: claim_of_def)
  moreover have "\<not> qu_revoked (quota_of c)" "qu_used (quota_of c) < qu_max (quota_of c)"
    using assms(4,5) by (simp_all add: quota_of_def)
  ultimately have "ledger_step (ledger_of db) ((ledger_of db)\<lparr>lg_quota := (lg_quota (ledger_of db))(ca_id c \<mapsto> quota_of (used c)),
      lg_claim := (lg_claim (ledger_of db))(cl_id cl \<mapsto> (ca_id c, True)),
      lg_admitted := lg_admitted (ledger_of db) @ [(Some (ca_id c), Some (cl_id cl))]\<rparr>)"
    using ledger_step.admit_by_claim [OF q] unfolding used by simp
  moreover have "ledger_of db' = (ledger_of db)\<lparr>lg_quota := (lg_quota (ledger_of db))(ca_id c \<mapsto> quota_of (used c)),
      lg_claim := (lg_claim (ledger_of db))(cl_id cl \<mapsto> (ca_id c, True)),
      lg_admitted := lg_admitted (ledger_of db) @ [(Some (ca_id c), Some (cl_id cl))]\<rparr>"
    using assms(6,7,8) by (cases "ledger_of db'", cases "ledger_of db") simp
  ultimately show ?thesis by simp
qed

lemma authority_claim:
  assumes "load_enrollment_authority cr token pepper db = Inr (c, Some cl)" "claim_token_digest cr token pepper = Inr d"
  shows "find (\<lambda>x. cl_digest x = d) (e_claims db) = Some cl \<and> find_row ca_id (cl_campaign_id cl) (e_campaigns db) = Some c"
  using assms by (auto simp: load_enrollment_authority_def split: if_splits sum.splits option.splits)

lemma register_Inr:
  assumes "register_request d rid at c r db = Inr db'"
  shows "(r = None \<and> db' = db)
    \<or> (\<exists>r1 r2 a. r = Some r1 \<and> mark_request_device_registered r1 d at = Inr r2 \<and> db' = (store_request r2 db)\<lparr>e_audits := a\<rparr>)"
  using assms by (cases r) (auto simp: register_request_def dest!: enroll_audit_Inr)

lemma enrolling_Inr:
  assumes "enrolling_request c cl at db = Inr (Some r1)"
  shows "\<exists>r. r \<in> set (e_requests db) \<and> mark_request_enrolling r at = Inr r1 \<and> rq_selected_campaign_id r = Some (ca_id c)
    \<and> (\<exists>x. cl = Some x \<and> cl_request_id x = Some (rq_id r))"
  using assms by (auto simp: enrolling_request_def split: option.splits if_splits dest: find_row_SomeD)

lemma only_claimed_enrolls: "SEnrolling \<in> set (allowed_transitions s) \<Longrightarrow> s = SClaimIssued"
  by (cases s) simp_all

lemma registered_advances:
  assumes "mark_request_enrolling r at = Inr r1" "mark_request_device_registered r1 d at = Inr r2"
  shows "request_advances r r2"
proof -
  have "same_request r r1" "rq_status r = SClaimIssued"
    using assms(1) by (auto simp: mark_request_enrolling_def same_request_def dest: only_claimed_enrolls)
  moreover have "same_request r1 r2" "rq_status r2 = SDeviceRegistered"
    using assms(2) by (auto simp: mark_request_device_registered_def same_request_def)
  ultimately show ?thesis by (auto simp: request_advances_def same_request_def request_step_def)
qed

lemma enrolled_db_fields [simp]:
  "e_requests (enrolled_db sk ident c cl digest sealed db) = e_requests db"
  "e_campaigns (enrolled_db sk ident c cl digest sealed db) = e_campaigns db"
  "admissions (enrolled_db sk ident c cl digest sealed db) = admissions db
     @ [\<lparr>ee_id = as_event_id sk, ee_campaign_id = Some (ca_id c), ee_claim_id = map_option cl_id cl,
         ee_kind = ''device_enrolled'', ee_remote_identifier = Some (uuid_text (as_device_id sk))\<rparr>]"
  by (simp_all add: enrolled_db_def Let_def store_claim_def admissions_def split: option.split)

lemma enrolled_db_claims [simp]:
  "e_claims (enrolled_db sk ident c cl digest sealed db)
   = (case cl of None \<Rightarrow> e_claims db | Some x \<Rightarrow> store_row cl_id (x\<lparr>cl_device_id := Some (as_device_id sk)\<rparr>) (e_claims db))"
  by (simp add: enrolled_db_def Let_def store_claim_def split: option.split)

lemma new_device_Inr:
  assumes "enroll_new_device cr sk token pepper secret rid src body at ident receipt policy c cl db = Inr (db', delivery)"
  shows "\<exists>db1 c1 cl1 digest sealed. take_use cr token pepper rid src body at c cl db = Inr (db1, c1, cl1) \<and> enroll_constraints db'
    \<and> ledger_of db' = ledger_of (enrolled_db sk ident c1 cl1 digest sealed db1)
    \<and> requests_move (e_requests db1) (e_requests db')"
proof -
  from assms obtain db1 c1 cl1 r digest sealed db2 e where
    use: "take_use cr token pepper rid src body at c cl db = Inr (db1, c1, cl1)" and
    r: "enrolling_request c1 cl1 at db1 = Inr r" and
    aud: "enroll_audit e (enrolled_db sk ident c1 cl1 digest sealed db1) = Inr db2" and
    reg: "register_request (as_device_id sk) rid at c1 r db2 = Inr db'" and ok: "enroll_constraints db'"
    unfolding enroll_new_device_def by (fastforce split: prod.splits)
  from aud obtain a where db2: "db2 = (enrolled_db sk ident c1 cl1 digest sealed db1)\<lparr>e_audits := a\<rparr>"
    by (blast dest: enroll_audit_Inr)
  have "ledger_of db' = ledger_of (enrolled_db sk ident c1 cl1 digest sealed db1) \<and> requests_move (e_requests db1) (e_requests db')"
    using register_Inr [OF reg]
  proof (elim disjE exE conjE)
    assume "db' = db2"
    then show ?thesis by (simp add: db2 requests_move_def)
  next
    fix r1 r2 b
    assume "r = Some r1" and r2: "mark_request_device_registered r1 (as_device_id sk) at = Inr r2"
      and db': "db' = (store_request r2 db2)\<lparr>e_audits := b\<rparr>"
    with r obtain r0 where r0: "r0 \<in> set (e_requests db1)" "mark_request_enrolling r0 at = Inr r1"
      by (blast dest: enrolling_Inr)
    have "e_requests db' = store_row rq_id r2 (e_requests db1)" by (simp add: db' db2 store_request_def)
    with r0 registered_advances [OF r0(2) r2] show ?thesis by (auto simp: db' db2 requests_move_def)
  qed
  with use ok show ?thesis by blast
qed

lemma step_new_device:
  assumes new: "enroll_new_device cr sk token pepper secret rid src body at ident receipt policy c cl db = Inr (db', delivery)"
    and auth: "load_enrollment_authority cr token pepper db = Inr (c, cl)" and inv: "enroll_constraints db"
  shows "route_step db db'"
proof -
  from new_device_Inr [OF new] obtain db1 c1 cl1 digest sealed where
    use: "take_use cr token pepper rid src body at c cl db = Inr (db1, c1, cl1)" and ok: "enroll_constraints db'" and
    led: "ledger_of db' = ledger_of (enrolled_db sk ident c1 cl1 digest sealed db1)" and
    req: "requests_move (e_requests db1) (e_requests db')" by blast
  have ids: "distinct (map ca_id (e_campaigns db))" "distinct (map cl_id (e_claims db))"
    using inv by (simp_all add: enroll_constraints_def campaigns_unique_def claims_unique_def)
  show ?thesis
  proof (cases cl)
    case None
    with use have res: "reserve_campaign_use cr at token pepper src (ab_platform body) ''agent'' None rid (Some (Aware at)) db = Inr (db1, c1)"
      "cl1 = None" by (auto simp: take_use_def)
    from reserve_Inr [OF res(1)] obtain c0 a where c0: "c0 \<in> set (e_campaigns db)" "ca_revoked_at c0 = None" "ca_use_count c0 < ca_max_uses c0"
      "c1 = used c0" and db1: "db1 = (store_campaign (used c0) db)\<lparr>e_audits := a\<rparr>" by blast
    have "ledger_of db' = (ledger_of (store_campaign (used c0) db))\<lparr>lg_admitted := lg_admitted (ledger_of db) @ [(Some (ca_id c0), None)]\<rparr>"
      unfolding led
      by (simp add: ledger_of_def db1 res(2) c0(4) used_def admission_of_def) (simp add: admissions_def store_campaign_def)
    from step_admit_campaign [OF c0(1) ids(1) c0(2,3) this] req ok show ?thesis
      by (simp add: route_step_def db1 store_campaign_def)
  next
    case (Some cl0)
    with use have con: "consume_install_claim cr at token pepper (ab_installation_id body) (ab_hardware_fingerprint body)
        src (ab_platform body) ''agent'' None rid (Some (Aware at)) db = Inr (db1, the cl1)" "cl1 = Some (the cl1)" "c1 = used c"
      by (auto simp: take_use_def)
    from consume_Inr [OF con(1)] obtain c' cl' a t d where
      d: "claim_token_digest cr token pepper = Inr d" "find (\<lambda>c. cl_digest c = d) (e_claims db) = Some cl'" and
      cl': "cl_claimed_at cl' = None" "find_row ca_id (cl_campaign_id cl') (e_campaigns db) = Some c'"
        "ca_revoked_at c' = None" "ca_use_count c' < ca_max_uses c'" "the cl1 = cl'\<lparr>cl_claimed_at := Some t\<rparr>" and
      db1: "db1 = (store_campaign (used c') (store_claim (the cl1) db))\<lparr>e_audits := a\<rparr>" by blast
    have cl1: "cl1 = Some (cl'\<lparr>cl_claimed_at := Some t\<rparr>)" using con(2) cl'(5) by simp
    from authority_claim [OF auth [unfolded Some] d(1)] d(2) cl'(2) have same: "cl' = cl0" "c' = c" by auto
    have mem: "find_row cl_id (cl_id cl') (e_claims db) = Some cl'"
      using find_SomeD [OF d(2)] ids(2) by (simp add: find_row_key)
    have id: "cl_campaign_id cl' = ca_id c'" using find_row_SomeD(2) [OF cl'(2)] by simp
    have cf: "find_row ca_id (ca_id c') (e_campaigns db) = Some c'" using cl'(2) id by simp
    have "lg_quota (ledger_of db') = (lg_quota (ledger_of db))(ca_id c' \<mapsto> quota_of (used c'))"
      unfolding led using cf by (simp add: ledger_of_def db1 store_campaign_def store_claim_def find_row_put used_def fun_eq_iff)
    moreover have "lg_claim (ledger_of db') = (lg_claim (ledger_of db))(cl_id cl' \<mapsto> (ca_id c', True))"
      unfolding led using mem id
      by (auto simp: ledger_of_def db1 cl1 store_campaign_def store_claim_def find_row_put fun_eq_iff claim_of_def)
    moreover have "lg_admitted (ledger_of db') = lg_admitted (ledger_of db) @ [(Some (ca_id c'), Some (cl_id cl'))]"
      unfolding led using same
      by (simp add: ledger_of_def db1 cl1 con(3) admission_of_def used_def) (simp add: admissions_def store_campaign_def store_claim_def)
    ultimately have "ledger_step (ledger_of db) (ledger_of db')" by (rule step_admit_claim [OF cl'(2) mem cl'(1,3,4)])
    with req ok show ?thesis by (simp add: route_step_def db1 store_campaign_def store_claim_def)
  qed
qed

lemma step_enroll_agent:
  assumes run: "enroll_agent cr sk clock cidrs pepper secret rid src token body db = Inr (db', x)" and inv: "enroll_constraints db"
  shows "route_step db db'"
proof -
  have "(\<exists>c cl ident receipt policy at delivery. load_enrollment_authority cr token pepper db = Inr (c, cl)
      \<and> enroll_new_device cr sk token pepper secret rid src body at ident receipt policy c cl db = Inr (db', delivery))
    \<or> (\<exists>clk fp policy d c cl receipt. redeliver cr clk pepper secret rid src fp policy d c cl receipt db = Inr (db', x))"
    using run unfolding enroll_agent_def Let_def by (fastforce split: if_splits option.splits prod.splits)
  then show ?thesis
    using step_new_device [OF _ _ inv] frame_step [OF frame_redeliver] by metis
qed

end
