(* ===== verification/Enroll_Histories.thy ===== *)
theory Enroll_Histories
  imports Enroll_Refinement
begin

text \<open>
  Histories of enrollment requests. One constructor per route; the settings are fixed. Every committed
  request is a step of the ledger, so the quota invariant and the order on ledgers hold of every history.
\<close>

section \<open>Calls\<close>

record enroll_settings =
  es_pepper :: string
  es_session_secret :: string
  es_cidrs :: "ip_net list"

datatype enroll_call =
    CreateCampaign uuid string string instant instant string string campaign_input
  | UpdateCampaign uuid string string instant instant string string uuid campaign_patch
  | RevokeCampaign instant uuid string string
  | IssueClaim uuid string string instant string string bool uuid string string
  | CreateRequest uuid string instant ip_address request_body
  | RequestStatus string instant uuid string
  | HandoffClaim secrets string instant uuid string string string
  | ApproveRequest string uuid instant uuid
  | DenyRequest string uuid instant uuid string
  | VerifyCompletion string instant "session_view option" bool uuid string
  | EnrollAgent agent_secrets "nat \<Rightarrow> instant" string ip_address string agent_body
  | RetryDelivery "nat \<Rightarrow> instant" string ip_address string string
  | AcknowledgeDelivery "nat \<Rightarrow> instant" string ip_address string string
  | RotateCredential string instant string ip_address string
  | ActivateCredential instant string ip_address string
  | CleanupDeliveries string instant "moment option" int

fun enroll_exec :: "crypto \<Rightarrow> enroll_settings \<Rightarrow> enroll_call \<Rightarrow> enroll_db \<Rightarrow> enroll_error + enroll_db" where
  "enroll_exec cr st (CreateCampaign i ri rs clock at admin rid inp) db =
     without_answer (create_campaign cr i ri rs clock at (es_pepper st) admin rid inp db)"
| "enroll_exec cr st (UpdateCampaign i ri rs now at admin rid cid p) db =
     without_answer (update_campaign cr i ri rs now at (es_pepper st) admin rid cid p db)"
| "enroll_exec cr st (RevokeCampaign clock cid admin rid) db =
     without_answer (revoke_enrollment_campaign clock cid admin rid db)"
| "enroll_exec cr st (IssueClaim i ri rs at service rid bound cid session fp) db =
     without_answer (issue_provisioning_install_claim cr i ri rs at (es_pepper st) service rid bound cid session fp db)"
| "enroll_exec cr st (CreateRequest i rid now src body) db =
     without_answer (create_enrollment_request cr i (es_pepper st) rid now src body db)"
| "enroll_exec cr st (RequestStatus aid now rid cap) db =
     without_answer (enrollment_request_status cr (es_pepper st) aid now rid cap db)"
| "enroll_exec cr st (HandoffClaim sk aid now rid cap install fp) db =
     without_answer (handoff_enrollment_request_claim cr sk (es_pepper st) (es_session_secret st) aid now rid cap install fp db)"
| "enroll_exec cr st (ApproveRequest aid admin now rid) db = without_answer (approve_request aid admin now rid db)"
| "enroll_exec cr st (DenyRequest aid admin now rid reason) db = without_answer (deny_request aid admin now rid reason db)"
| "enroll_exec cr st (VerifyCompletion aid now latest baseline rid cap) db =
     without_answer (verify_enrollment_completion cr (es_pepper st) aid now latest baseline rid cap db)"
| "enroll_exec cr st (EnrollAgent sk clock rid src token body) db =
     without_answer (enroll_agent cr sk clock (es_cidrs st) (es_pepper st) (es_session_secret st) rid src token body db)"
| "enroll_exec cr st (RetryDelivery clock rid src receipt fp) db =
     without_answer (retry_enrollment_delivery cr clock (es_cidrs st) (es_pepper st) (es_session_secret st) rid src receipt fp db)"
| "enroll_exec cr st (AcknowledgeDelivery clock rid src receipt fp) db =
     without_answer (acknowledge_enrollment_delivery cr clock (es_cidrs st) (es_pepper st) (es_session_secret st) rid src receipt fp db)"
| "enroll_exec cr st (RotateCredential tok now rid src token) db =
     without_answer (rotate_device_credential cr tok now (es_cidrs st) (es_pepper st) rid src token db)"
| "enroll_exec cr st (ActivateCredential now rid src token) db =
     without_answer (activate_device_credential cr now (es_cidrs st) (es_pepper st) rid src token db)"
| "enroll_exec cr st (CleanupDeliveries rid clock now limit) db =
     bindE (without_answer (cleanup_expired_retry_envelopes rid clock now limit db)) commit_enroll"

lemma frame_cleanup:
  assumes "cleanup_expired_retry_envelopes rid clock now limit db = Inr (db', n)" "enroll_constraints db'"
  shows "route_frame db db'"
proof -
  from assms(1) obtain at es where "delete_expired rid at es db = Inr db'"
    by (auto simp: cleanup_expired_retry_envelopes_def Let_def split: if_splits)
  from delete_expired_frame [OF this] assms(2) show ?thesis by (simp add: route_frame_def requests_move_def)
qed

lemma enroll_exec_step:
  assumes inv: "enroll_constraints db" and ok: "enroll_exec cr st c db = Inr db'"
  shows "route_step db db'"
proof (cases c)
  case (CreateCampaign i ri rs clock at admin rid inp)
  with ok show ?thesis by (auto intro: campaign_step dest: step_create_campaign)
next
  case (UpdateCampaign i ri rs now at admin rid cid p)
  with ok show ?thesis by (auto intro: campaign_step dest: step_update_campaign)
next
  case (RevokeCampaign clock cid admin rid)
  with ok show ?thesis by (auto intro: campaign_step dest: step_revoke_campaign)
next
  case (IssueClaim i ri rs at service rid bound cid session fp)
  with ok show ?thesis by (auto intro: campaign_step dest: step_provisioning_claim)
next
  case (HandoffClaim sk aid now rid cap install fp)
  with ok show ?thesis by (auto intro: step_handoff)
next
  case (EnrollAgent sk clock rid src token body)
  with ok inv show ?thesis by (auto intro: step_enroll_agent)
next
  case (CleanupDeliveries rid clock now limit)
  with ok show ?thesis by (auto intro: frame_step frame_cleanup)
qed (use ok in \<open>auto intro: frame_step frame_create_request frame_status frame_approve frame_deny frame_verify frame_retry
   frame_acknowledge frame_rotate frame_activate\<close>)

section \<open>Invariant and order\<close>

definition enroll_inv :: "enroll_db \<Rightarrow> bool" where
  "enroll_inv db \<longleftrightarrow> enroll_constraints db \<and> ledger_ok (ledger_of db)"

text \<open>The same request later on: its status has moved along the steps of calls.\<close>

definition request_trail :: "enrollment_request \<Rightarrow> enrollment_request \<Rightarrow> bool" where
  "request_trail r r' \<longleftrightarrow> same_request r r' \<and> request_step\<^sup>*\<^sup>* (rq_status r) (rq_status r')"

definition requests_le :: "enrollment_request list \<Rightarrow> enrollment_request list \<Rightarrow> bool" where
  "requests_le rows rows' \<longleftrightarrow> (\<forall>r\<in>set rows. \<exists>r'\<in>set rows'. request_trail r r')"

definition enroll_le :: "enroll_db \<Rightarrow> enroll_db \<Rightarrow> bool" where
  "enroll_le db db' \<longleftrightarrow> ledger_le (ledger_of db) (ledger_of db') \<and> requests_le (e_requests db) (e_requests db')"

lemma request_advances_refl [simp]: "request_advances r r"
  by (simp add: request_advances_def same_request_def)

lemma advances_trail: "request_advances r r' \<Longrightarrow> request_trail r r'"
  by (auto simp: request_advances_def request_trail_def)

lemma request_trail_trans: "request_trail r s \<Longrightarrow> request_trail s t \<Longrightarrow> request_trail r t"
  by (auto simp: request_trail_def same_request_def)

text \<open>Every row after a call comes from the row of the same request before it.\<close>

lemma requests_move_rows:
  assumes "requests_move rows rows'" "distinct (map rq_id rows)" "x \<in> set rows"
  shows "\<exists>y\<in>set rows'. request_advances x y"
  using assms(1) unfolding requests_move_def
proof (elim disjE exE conjE)
  fix r r'
  assume r: "r \<in> set rows" "rows' = store_row rq_id r' rows" "request_advances r r'"
  then have id: "rq_id r' = rq_id r" by (simp add: request_advances_def same_request_def)
  show ?thesis
  proof (cases "rq_id x = rq_id r")
    case True
    then have "x = r" using assms(3) r(1) assms(2) by (metis distinct_map_inj)
    moreover have "r' \<in> set rows'" using r(1,2) id by (auto simp: store_row_self)
    ultimately show ?thesis using r(3) by blast
  next
    case False
    then have "x \<in> set rows'" using assms(3) r(2) id by (simp add: in_set_store_row)
    then show ?thesis using request_advances_refl by blast
  qed
next
  fix r
  assume "rows' = rows @ [r]"
  then show ?thesis using assms(3) by (intro bexI [of _ x]) simp_all
next
  assume "rows' = rows"
  then show ?thesis using assms(3) by (intro bexI [of _ x]) simp_all
qed

lemma requests_move_le: "requests_move rows rows' \<Longrightarrow> distinct (map rq_id rows) \<Longrightarrow> requests_le rows rows'"
  unfolding requests_le_def using requests_move_rows advances_trail by blast

interpretation enrollment: transactional_trail "enroll_exec cr st" enroll_inv enroll_le for cr st
proof unfold_locales
  show "enroll_inv db'" if "enroll_inv db" "enroll_exec cr st c db = Inr db'" for db c db'
    using enroll_exec_step [of db cr st c db'] that ledger_step_ok by (auto simp: enroll_inv_def route_step_def)
next
  show "enroll_le db db'" if "enroll_inv db" "enroll_exec cr st c db = Inr db'" for db c db'
    using enroll_exec_step [of db cr st c db'] that
    by (auto simp: enroll_inv_def route_step_def enroll_le_def ledger_step_le enroll_constraints_def requests_unique_def
        intro: requests_move_le)
next
  show "enroll_le db db" for db by (auto simp: enroll_le_def ledger_le_refl requests_le_def intro: advances_trail [OF request_advances_refl])
next
  show "enroll_le db db2" if "enroll_le db db1" "enroll_le db1 db2" for db db1 db2
    using that unfolding enroll_le_def requests_le_def by (blast intro: ledger_le_trans request_trail_trans)
qed

definition empty_enroll_db :: enroll_db where
  "empty_enroll_db = \<lparr>e_campaigns = [], e_claims = [], e_requests = [], e_claim_envelopes = [], e_deliveries = [],
     e_credentials = [], e_devices = [], e_events = [], e_audits = []\<rparr>"

lemma enroll_inv_empty: "enroll_inv empty_enroll_db"
  by (simp add: enroll_inv_def empty_enroll_db_def enroll_constraints_def campaigns_unique_def claims_unique_def requests_unique_def
      claim_envelopes_unique_def deliveries_unique_def credentials_unique_def devices_unique_def unique_nullable_def map_filter_simps
      ledger_ok_def quota_ok_def claim_ok_def ledger_of_def admissions_def admitted_by_def admitted_with_def find_row_def)

section \<open>The status graph\<close>

fun status_rank :: "request_status \<Rightarrow> nat" where
  "status_rank SCreated = 0"
| "status_rank SValidating = 1"
| "status_rank SAutoApproved = 2"
| "status_rank SWaitingApproval = 2"
| "status_rank SReviewRequired = 2"
| "status_rank SApproved = 3"
| "status_rank SClaimIssued = 4"
| "status_rank SEnrolling = 5"
| "status_rank SDeviceRegistered = 6"
| "status_rank SWaitingWss = 7"
| "status_rank SCompleted = 8"
| "status_rank _ = 9"

definition closed_status :: "request_status \<Rightarrow> bool" where
  "closed_status s \<longleftrightarrow> s \<in> {SDenied, SFailed, SCancelled, SExpired}"

interpretation request_graph: lifecycle "\<lambda>s t. t \<in> set (allowed_transitions s)" "\<lambda>s. closed_status s \<or> s = SCompleted" status_rank 9
proof unfold_locales
  show "t \<notin> set (allowed_transitions s)" if "closed_status s \<or> s = SCompleted" for s t
    using that by (cases s) (auto simp: closed_status_def)
  show "status_rank s < status_rank t" if "t \<in> set (allowed_transitions s)" for s t
    using that by (cases s) auto
  show "status_rank s \<le> 9" for s by (cases s) auto
qed

interpretation request_moves: lifecycle request_step closed_status status_rank 9
proof unfold_locales
  show "\<not> request_step s t" if "closed_status s" for s t
    using that by (cases s) (auto simp: closed_status_def request_step_def)
  show "status_rank s < status_rank t" if "request_step s t" for s t
    using that request_graph.step_rank [of t s] by (auto simp: request_step_def)
  show "status_rank s \<le> 9" for s by (rule request_graph.rank_top)
qed

end
