(* ===== verification/Enroll_Secret_Laws.thy ===== *)
theory Enroll_Secret_Laws
  imports Enroll_Secrets
begin

text \<open>
  Facts about the secrets: the canonical message of a receipt and the messages of the keyed digests
  determine their fields, a sealed envelope opens to its token, and what each state of a credential
  accepts.
\<close>

section \<open>Encodings\<close>

lemma length_big_endian [simp]: "length (big_endian w n) = w"
  by (induction w arbitrary: n) auto

lemma big_endian_inj: "a < 256 ^ w \<Longrightarrow> b < 256 ^ w \<Longrightarrow> big_endian w a = big_endian w b \<Longrightarrow> a = b"
proof (induction w arbitrary: a b)
  case (Suc w)
  have "(char_of (a mod 256) :: char) = char_of (b mod 256)" using Suc.prems(3) by simp
  then have low: "a mod 256 = b mod 256" by (metis of_char_of mod_mod_trivial)
  have "a div 256 = b div 256"
    using Suc.prems by (intro Suc.IH) (auto simp: less_mult_imp_div_less mult.commute)
  with low show ?case by (metis div_mult_mod_eq)
qed simp

lemma uuid_bytes_inj: "wf_uuid a \<Longrightarrow> wf_uuid b \<Longrightarrow> uuid_bytes a = uuid_bytes b \<Longrightarrow> a = b"
  using big_endian_inj [of a 16 b] by (simp add: wf_uuid_def uuid_bytes_def)

lemma length_prefixed_all_inj:
  "length vs = length ws \<Longrightarrow> length_prefixed_all vs = Inr m \<Longrightarrow> length_prefixed_all ws = Inr m \<Longrightarrow> vs = ws"
proof (induction vs ws arbitrary: m rule: list_induct2)
  case (Cons v vs w ws)
  from Cons.prems obtain y z where
    y: "length_prefixed_all vs = Inr y" "m = (big_endian 4 (length v) @ v) @ y" "int (length v) \<le> 2 ^ 32 - 1"
    and z: "length_prefixed_all ws = Inr z" "m = (big_endian 4 (length w) @ w) @ z" "int (length w) \<le> 2 ^ 32 - 1"
    by (auto simp: length_prefixed_def not_less split: if_splits)
  have eq: "big_endian 4 (length v) @ (v @ y) = big_endian 4 (length w) @ (w @ z)" using y(2) z(2) by simp
  then have parts: "big_endian 4 (length v) = big_endian 4 (length w) \<and> v @ y = w @ z"
    by (subst (asm) append_eq_append_conv) simp_all
  then have rest: "v @ y = w @ z" by simp
  have "length v = length w" using y(3) z(3) parts by (intro big_endian_inj [of _ 4]) auto
  with rest have "v = w" "y = z" by simp_all
  with Cons.IH y(1) z(1) show ?case by simp
qed simp

section \<open>Separation of the digests\<close>

definition digest_contexts :: "string list" where
  "digest_contexts =
     [campaign_context, claim_context, install_session_context, fingerprint_context, receipt_digest_context,
      request_capability_context, installation_id_context, request_fingerprint_context, device_identifier_context]"

lemma nul_terminated:
  assumes "CHR 0x00 \<notin> set a" "CHR 0x00 \<notin> set b" "(a @ nul) @ x = (b @ nul) @ y"
  shows "a = b \<and> x = y"
proof -
  have "takeWhile (\<lambda>c. c \<noteq> CHR 0x00) ((a @ nul) @ x) = a" "takeWhile (\<lambda>c. c \<noteq> CHR 0x00) ((b @ nul) @ y) = b"
    using assms(1,2) by (simp_all add: nul_def takeWhile_append2 [where P = "\<lambda>c. c \<noteq> CHR 0x00"] takeWhile_append)
  with assms(3) have "a = b" by metis
  with assms(3) show ?thesis by simp
qed

lemma digest_context_form: "c \<in> set digest_contexts \<Longrightarrow> \<exists>a. c = a @ nul \<and> CHR 0x00 \<notin> set a"
  by (auto simp: digest_contexts_def campaign_context_def claim_context_def install_session_context_def
      fingerprint_context_def receipt_digest_context_def request_capability_context_def installation_id_context_def
      request_fingerprint_context_def device_identifier_context_def)

lemma digest_contexts_prefix_free:
  "c \<in> set digest_contexts \<Longrightarrow> d \<in> set digest_contexts \<Longrightarrow> c @ x = d @ y \<Longrightarrow> c = d \<and> x = y"
  using digest_context_form nul_terminated by metis

lemma utf8_char_cases:
  obtains (one) "utf8_char c = [c]" "of_char c < (128 :: nat)"
  | (two) "utf8_char c = [char_of (192 + of_char c div 64 :: nat), char_of (128 + of_char c mod 64 :: nat)]" "128 \<le> (of_char c :: nat)"
  by (cases "of_char c < (128 :: nat)") (auto simp: utf8_char_def Let_def)

lemma utf8_inj: "utf8 a = utf8 b \<Longrightarrow> a = b"
proof (induction a arbitrary: b)
  case Nil
  then show ?case by (cases b) (auto simp: utf8_def utf8_char_def Let_def split: if_splits)
next
  case (Cons c cs)
  from Cons.prems obtain d ds where b: "b = d # ds"
    by (cases b) (auto simp: utf8_def utf8_char_def Let_def split: if_splits)
  have eq: "utf8_char c @ utf8 cs = utf8_char d @ utf8 ds" using Cons.prems by (simp add: b utf8_def)
  have lead: "(of_char (char_of (192 + of_char x div 64 :: nat) :: char) :: nat) = 192 + of_char x div 64"
      "(of_char (char_of (128 + of_char x mod 64 :: nat) :: char) :: nat) = 128 + of_char x mod 64" for x :: char
  proof -
    have "(of_char x :: nat) div 64 < 4" using nat_of_char_less_256 [of x] by (simp add: less_mult_imp_div_less)
    then show "(of_char (char_of (192 + of_char x div 64 :: nat) :: char) :: nat) = 192 + of_char x div 64" by simp
  qed simp
  have "utf8_char c = utf8_char d \<and> c = d"
  proof (cases c rule: utf8_char_cases)
    case one
    then show ?thesis
    proof (cases d rule: utf8_char_cases)
      case two
      with one eq have "c = char_of (192 + of_char d div 64 :: nat)" by simp
      then have "of_char c = 192 + (of_char d div 64 :: nat)" using lead(1) [of d] by simp
      with one show ?thesis by simp
    qed (use eq one in simp)
  next
    case two
    show ?thesis
    proof (cases d rule: utf8_char_cases)
      case one
      with two eq have "d = char_of (192 + of_char c div 64 :: nat)" by simp
      then have "of_char d = 192 + (of_char c div 64 :: nat)" using lead(1) [of c] by simp
      with one show ?thesis by simp
    next
      case two': two
      have "(char_of (192 + of_char c div 64 :: nat) :: char) = char_of (192 + of_char d div 64 :: nat)"
          "(char_of (128 + of_char c mod 64 :: nat) :: char) = char_of (128 + of_char d mod 64 :: nat)"
        using eq unfolding two(1) two'(1) append_Cons list.inject by blast+
      then have "192 + of_char c div 64 = 192 + (of_char d div 64 :: nat)" "128 + of_char c mod 64 = 128 + (of_char d mod 64 :: nat)"
        using lead [of c] lead [of d] by presburger+
      then have "(of_char c :: nat) = of_char d" by (metis add_left_imp_eq div_mult_mod_eq)
      then show ?thesis by simp
    qed
  qed
  with eq b Cons.IH [of ds] show ?case by simp
qed

section \<open>Envelopes\<close>

text \<open>What the code relies on of AES-GCM: decrypting with the same key, nonce and associated data
  gives the plaintext back.\<close>

definition aead_correct :: "crypto \<Rightarrow> bool" where
  "aead_correct cr \<longleftrightarrow> (\<forall>k n p a. aes_decrypt cr k n (aes_encrypt cr k n p a) a = Some p)"

lemma seal_Inr:
  assumes "seal_retry_envelope cr rr nonce clock token fp pepper secret receipt now lifetime = Inr (r, e)"
  shows "\<exists>at key aad. aware_now clock now = Inr at \<and> 0 < lifetime \<and> lifetime \<le> max_envelope_lifetime
    \<and> list_all py_isascii token \<and> token \<noteq> [] \<and> r = (case receipt of None \<Rightarrow> rr | Some x \<Rightarrow> x)
    \<and> keyed_digest cr r pepper receipt_digest_context = Inr (en_receipt_digest e)
    \<and> keyed_digest cr fp pepper fingerprint_context = Inr (en_fingerprint_digest e)
    \<and> envelope_key cr secret = Inr key
    \<and> envelope_aad cr (en_receipt_digest e) (en_fingerprint_digest e) (at + lifetime) = Inr aad
    \<and> en_encrypted_token e = aes_encrypt cr key (en_nonce e) token aad \<and> en_expires_at e = Aware (at + lifetime)"
  using assms by (auto simp: seal_retry_envelope_def retry_receipt_digest_def Let_def split: if_splits)

lemma recover_sealed:
  assumes aead: "aead_correct cr"
    and ok: "seal_retry_envelope cr rr nonce clock token fp pepper secret receipt now lifetime = Inr (r, e)"
    and at: "aware_now clock now = Inr at"
  shows "recover_retry_token cr c r fp e pepper secret (Some (Aware t)) = (if t < at + lifetime then Some token else None)"
  using seal_Inr [OF ok] at aead
  by (auto simp: recover_retry_token_def aware_now_def [of c] retry_envelope_proof_matches_def aead_correct_def)

lemma recover_needs_proof:
  assumes "recover_retry_token cr c receipt fp e pepper secret now = Some token"
  shows "keyed_digest cr receipt pepper receipt_digest_context = Inr (en_receipt_digest e)
    \<and> keyed_digest cr fp pepper fingerprint_context = Inr (en_fingerprint_digest e)"
  using assms by (auto simp: recover_retry_token_def retry_envelope_proof_matches_def split: sum.splits moment.splits if_splits)

section \<open>Credentials\<close>

lemma begin_rotation_Inr:
  assumes "begin_device_credential_rotation cr tok clock c pepper now overlap = Inr (c', t)"
  shows "\<exists>at d. aware_now clock now = Inr at \<and> 0 < overlap \<and> c_revoked_at c = None \<and> \<not> credential_expired c at
    \<and> c_pending_token_digest c = None \<and> t = tok \<and> device_token_digest cr tok pepper = Inr d
    \<and> c' = c\<lparr>c_pending_token_digest := Some d, c_overlap_expires_at := Some (Aware (at + overlap))\<rparr>"
  using assms by (auto simp: begin_device_credential_rotation_def split: if_splits)

lemma credential_expired_updates [simp]:
  "credential_expired (c\<lparr>c_pending_token_digest := p\<rparr>) at = credential_expired c at"
  "credential_expired (c\<lparr>c_overlap_expires_at := m\<rparr>) at = credential_expired c at"
  "credential_expired (c\<lparr>c_token_digest := d\<rparr>) at = credential_expired c at"
  by (simp_all add: credential_expired_def)

lemma device_token_matches_own:
  "device_token_digest cr tok pepper = Inr d \<Longrightarrow> d \<noteq> [] \<Longrightarrow> device_token_matches cr tok d pepper"
  by (simp add: device_token_matches_def)

end
