(* ===== verification/Enroll_Properties.thy ===== *)
theory Enroll_Properties
  imports Enroll_Histories Enroll_Secret_Laws "HOL-Library.Code_Target_Nat" "HOL-Library.Multiset"
begin

text \<open>
  The properties of the enrollment: quotas, claims and revocation over every history, the life of a
  request, and what the two request routes and the rate limit do.
\<close>

section \<open>States for the witnesses\<close>

definition plain_crypto :: crypto where
  "plain_crypto = \<lparr>hmac_sha256 = (\<lambda>k m. drop (length m - 4) m), aes_encrypt = (\<lambda>k n t a. t), aes_decrypt = (\<lambda>k n c a. Some c), isoformat = (\<lambda>t. ''t'')\<rparr>"

definition demo_settings :: enroll_settings where
  "demo_settings = \<lparr>es_pepper = ''p'', es_session_secret = ''s'', es_cidrs = [\<lparr>n_version = 4, n_base = 167772160, n_prefix = 8, n_scope = None\<rparr>]\<rparr>"

definition demo_policy :: json where
  "demo_policy = JObj [(''policy_id'', JStr ''p1''), (''enrollment_mode'', JStr ''auto''), (''allowed_installer_releases'', JList [JStr ''r1''])]"

definition demo_input :: campaign_input where
  "demo_input = \<lparr>ci_expires_at = Aware 1000000000000, ci_max_uses = 2, ci_allowed_cidrs = [''10.0.0.0/8''], ci_target_platform = ''windows'',
     ci_policy = demo_policy, ci_label = None, ci_site = None\<rparr>"

definition demo_open :: enroll_call where
  "demo_open = CreateCampaign 1 ''a'' ''b'' 0 0 ''adm'' ''rq'' demo_input"

definition demo_secrets :: agent_secrets where
  "demo_secrets = \<lparr>as_device_id = 20, as_credential_id = 21, as_envelope_id = 22, as_event_id = 23, as_credential_identifier = ''k'',
     as_token = ''tok'', as_nonce = ''n''\<rparr>"

definition demo_body :: agent_body where
  "demo_body = \<lparr>ab_installation_id = ''i'', ab_hardware_fingerprint = ''sha256:ab'', ab_delivery_nonce = replicate 43 CHR ''x'',
     ab_platform = ''windows'', ab_requested_at = Aware 0\<rparr>"

definition demo_enroll :: enroll_call where
  "demo_enroll = EnrollAgent demo_secrets (\<lambda>n. 10) ''rq'' (V4 167772161) ''ec_a.b'' demo_body"

definition demo_calls :: "enroll_call list" where
  "demo_calls = [demo_open, demo_enroll]"

lemma demo_calls_result:
  "case e_campaigns (serve (enroll_exec plain_crypto demo_settings) demo_calls empty_enroll_db) of
     [c] \<Rightarrow> ca_id c = 1 \<and> ca_use_count c = 1 \<and> ca_max_uses c = 2 | _ \<Rightarrow> False"
  by code_simp

section \<open>Quotas, claims and revocation\<close>

definition admitted_by_campaign :: "enroll_db \<Rightarrow> uuid \<Rightarrow> nat" where
  "admitted_by_campaign db i = length (filter (\<lambda>e. ee_campaign_id e = Some i) (admissions db))"

definition admitted_by_claim :: "enroll_db \<Rightarrow> uuid \<Rightarrow> nat" where
  "admitted_by_claim db j = length (filter (\<lambda>e. ee_claim_id e = Some j) (admissions db))"

lemma count_list_filter: "count_list (map f xs) y = length (filter (\<lambda>x. f x = y) xs)"
  by (induction xs) auto

lemma admitted_by_ledger: "admitted_by i (ledger_of db) = admitted_by_campaign db i"
  by (simp add: admitted_by_def ledger_of_def admitted_by_campaign_def comp_def admission_of_def count_list_filter)

lemma admitted_with_ledger: "admitted_with j (ledger_of db) = admitted_by_claim db j"
  by (simp add: admitted_with_def ledger_of_def admitted_by_claim_def comp_def admission_of_def count_list_filter)

lemma inv_keys:
  assumes "enroll_inv db"
  shows "distinct (map ca_id (e_campaigns db))" "distinct (map cl_id (e_claims db))" "distinct (map rq_id (e_requests db))"
  using assms by (simp_all add: enroll_inv_def enroll_constraints_def campaigns_unique_def claims_unique_def requests_unique_def)

lemma inv_campaign:
  assumes "enroll_inv db" "c \<in> set (e_campaigns db)"
  shows "int (admitted_by_campaign db (ca_id c)) = ca_use_count c \<and> ca_use_count c \<le> ca_max_uses c"
proof -
  have "lg_quota (ledger_of db) (ca_id c) = Some (quota_of c)"
    by (rule quota_find [OF find_row_key [OF inv_keys(1) [OF assms(1)] assms(2)]])
  moreover have "quota_ok (ledger_of db) (ca_id c)" using assms(1) by (simp add: enroll_inv_def ledger_ok_def)
  ultimately show ?thesis by (simp add: quota_ok_def admitted_by_ledger quota_of_def)
qed

lemma inv_claim:
  assumes "enroll_inv db" "cl \<in> set (e_claims db)"
  shows "admitted_by_claim db (cl_id cl) = (if cl_claimed_at cl = None then 0 else 1)"
proof -
  have "lg_claim (ledger_of db) (cl_id cl) = Some (claim_of cl)"
    by (rule claim_find [OF find_row_key [OF inv_keys(2) [OF assms(1)] assms(2)]])
  moreover have "claim_ok (ledger_of db) (cl_id cl)" using assms(1) by (simp add: enroll_inv_def ledger_ok_def)
  ultimately show ?thesis by (simp add: claim_ok_def admitted_with_ledger claim_of_def split: if_splits)
qed

text \<open>C16. Whatever requests the enrollment routes have served since an empty database, the number of
  devices a campaign has admitted is exactly its use count, and no more than its maximum.\<close>

theorem admissions_within_quota:
  assumes "db = serve (enroll_exec cr st) cs empty_enroll_db" and "c \<in> set (e_campaigns db)"
  shows "int (admitted_by_campaign db (ca_id c)) = ca_use_count c \<and> ca_use_count c \<le> ca_max_uses c"
  using assms inv_campaign enrollment.serve_inv [OF enroll_inv_empty] by blast

theorem admissions_within_quota_witness:
  "admitted_by_campaign (serve (enroll_exec plain_crypto demo_settings) demo_calls empty_enroll_db) 1 = 1"
proof -
  obtain c where "e_campaigns (serve (enroll_exec plain_crypto demo_settings) demo_calls empty_enroll_db) = [c]"
    "ca_id c = 1" "ca_use_count c = 1"
    using demo_calls_result by (auto split: list.splits)
  with admissions_within_quota [OF refl, of c plain_crypto demo_settings demo_calls] show ?thesis by simp
qed

text \<open>C17. An install claim admits one device at most, forever: after any history the devices admitted with
  it number one if it is marked claimed and none otherwise, and a claim that is marked stays so in every
  continuation, for the same campaign.\<close>

theorem install_claim_admits_once:
  assumes "db = serve (enroll_exec cr st) cs empty_enroll_db" and "cl \<in> set (e_claims db)"
  shows "admitted_by_claim db (cl_id cl) = (if cl_claimed_at cl = None then 0 else 1)
    \<and> (\<exists>cl'\<in>set (e_claims (serve (enroll_exec cr st) ds db)).
         cl_id cl' = cl_id cl \<and> cl_campaign_id cl' = cl_campaign_id cl \<and> (cl_claimed_at cl \<noteq> None \<longrightarrow> cl_claimed_at cl' \<noteq> None))"
proof -
  have inv: "enroll_inv db" using assms(1) enrollment.serve_inv [OF enroll_inv_empty] by blast
  let ?db = "serve (enroll_exec cr st) ds db"
  have "lg_claim (ledger_of db) (cl_id cl) = Some (cl_campaign_id cl, cl_claimed_at cl \<noteq> None)"
    using claim_find [OF find_row_key [OF inv_keys(2) [OF inv] assms(2)]] by (simp add: claim_of_def)
  then obtain b where "lg_claim (ledger_of ?db) (cl_id cl) = Some (cl_campaign_id cl, b)" "cl_claimed_at cl \<noteq> None \<longrightarrow> b"
    using enrollment.serve_le [OF inv, of cr st ds] unfolding enroll_le_def ledger_le_def by meson
  then obtain cl' where "find_row cl_id (cl_id cl) (e_claims ?db) = Some cl'" "cl_campaign_id cl' = cl_campaign_id cl"
    "cl_claimed_at cl \<noteq> None \<longrightarrow> cl_claimed_at cl' \<noteq> None"
    by (auto simp: ledger_of_def claim_of_def)
  with inv_claim [OF inv assms(2)] find_row_SomeD show ?thesis by metis
qed

definition demo_claim_calls :: "enroll_call list" where
  "demo_claim_calls = [demo_open, IssueClaim 5 ''c'' ''d'' 5 ''svc'' ''rq'' True 1 ''i'' ''sha256:ab'',
     EnrollAgent demo_secrets (\<lambda>n. 10) ''rq'' (V4 167772161) ''ic_c.d'' demo_body]"

lemma demo_claim_result:
  "case e_claims (serve (enroll_exec plain_crypto demo_settings) demo_claim_calls empty_enroll_db) of
     [cl] \<Rightarrow> cl_id cl = 5 \<and> cl_claimed_at cl = Some 10 | _ \<Rightarrow> False"
  by code_simp

theorem install_claim_admits_once_witness:
  "admitted_by_claim (serve (enroll_exec plain_crypto demo_settings) demo_claim_calls empty_enroll_db) 5 = 1"
proof -
  obtain cl where "e_claims (serve (enroll_exec plain_crypto demo_settings) demo_claim_calls empty_enroll_db) = [cl]"
    "cl_id cl = 5" "cl_claimed_at cl = Some 10"
    using demo_claim_result by (auto split: list.splits)
  with install_claim_admits_once [OF refl, of cl plain_crypto demo_settings demo_claim_calls "[]"] show ?thesis by simp
qed

text \<open>C18. A revoked campaign admits nothing more: whatever is served after its revocation, it stays revoked,
  the devices it admitted are the same, and no new install claim names it.\<close>

theorem revoked_campaign_admits_nothing:
  assumes "db = serve (enroll_exec cr st) cs empty_enroll_db" and "c \<in> set (e_campaigns db)" and "ca_revoked_at c \<noteq> None"
    and "db' = serve (enroll_exec cr st) ds db"
  shows "(\<exists>c'\<in>set (e_campaigns db'). ca_id c' = ca_id c \<and> ca_revoked_at c' \<noteq> None)
    \<and> admitted_by_campaign db' (ca_id c) = admitted_by_campaign db (ca_id c)
    \<and> (\<forall>cl\<in>set (e_claims db'). cl_campaign_id cl = ca_id c \<longrightarrow> cl_id cl \<in> cl_id ` set (e_claims db))"
proof -
  have inv: "enroll_inv db" using assms(1) enrollment.serve_inv [OF enroll_inv_empty] by blast
  have inv': "enroll_inv db'" unfolding assms(4) by (rule enrollment.serve_inv [OF inv])
  have le: "ledger_le (ledger_of db) (ledger_of db')"
    using enrollment.serve_le [OF inv] unfolding assms(4) enroll_le_def by blast
  have q: "lg_quota (ledger_of db) (ca_id c) = Some (quota_of c)"
    by (rule quota_find [OF find_row_key [OF inv_keys(1) [OF inv] assms(2)]])
  from ledger_leD_quota [OF le q] assms(3) obtain q' where
    q': "lg_quota (ledger_of db') (ca_id c) = Some q'" "qu_revoked q'" "qu_used q' = ca_use_count c"
    by (auto simp: quota_of_def)
  then obtain c' where c': "find_row ca_id (ca_id c) (e_campaigns db') = Some c'" "q' = quota_of c'"
    by (auto simp: ledger_of_def)
  have c'_in: "c' \<in> set (e_campaigns db')" "ca_id c' = ca_id c" using find_row_SomeD [OF c'(1)] by auto
  have "admitted_by_campaign db' (ca_id c) = admitted_by_campaign db (ca_id c)"
    using inv_campaign [OF inv' c'_in(1)] inv_campaign [OF inv assms(2)] q'(3) c'(2) c'_in(2) by (simp add: quota_of_def)
  moreover have "cl_id cl \<in> cl_id ` set (e_claims db)" if cl: "cl \<in> set (e_claims db')" "cl_campaign_id cl = ca_id c" for cl
  proof (rule ccontr)
    assume "cl_id cl \<notin> cl_id ` set (e_claims db)"
    then have "lg_claim (ledger_of db) (cl_id cl) = None" by (auto simp: ledger_of_def find_row_None_iff) (metis imageI)
    moreover have "lg_claim (ledger_of db') (cl_id cl) = Some (ca_id c, cl_claimed_at cl \<noteq> None)"
      using claim_find [OF find_row_key [OF inv_keys(2) [OF inv'] cl(1)]] cl(2) by (simp add: claim_of_def)
    ultimately have "\<not> qu_revoked (quota_of c)" using le q unfolding ledger_le_def by blast
    with assms(3) show False by (simp add: quota_of_def)
  qed
  moreover have "ca_revoked_at c' \<noteq> None" using q'(2) c'(2) by (simp add: quota_of_def)
  ultimately show ?thesis using c'_in by blast
qed

definition demo_revoked_calls :: "enroll_call list" where
  "demo_revoked_calls = [demo_open, RevokeCampaign 6 1 ''adm'' ''rq'']"

lemma demo_revoked_result:
  "case e_campaigns (serve (enroll_exec plain_crypto demo_settings) demo_revoked_calls empty_enroll_db) of
     [c] \<Rightarrow> ca_id c = 1 \<and> ca_use_count c = 0 \<and> ca_revoked_at c = Some 6 | _ \<Rightarrow> False"
  by code_simp

theorem revoked_campaign_admits_nothing_witness:
  "admitted_by_campaign (serve (enroll_exec plain_crypto demo_settings) [demo_enroll]
     (serve (enroll_exec plain_crypto demo_settings) demo_revoked_calls empty_enroll_db)) 1 = 0"
proof -
  let ?db = "serve (enroll_exec plain_crypto demo_settings) demo_revoked_calls empty_enroll_db"
  obtain c where c: "e_campaigns ?db = [c]" "ca_id c = 1" "ca_use_count c = 0" "ca_revoked_at c = Some 6"
    using demo_revoked_result by (auto split: list.splits)
  then have "admitted_by_campaign ?db 1 = 0"
    using inv_campaign [OF enrollment.serve_inv [OF enroll_inv_empty], of c plain_crypto demo_settings demo_revoked_calls] by simp
  with revoked_campaign_admits_nothing [OF refl _ _ refl, of c plain_crypto demo_settings demo_revoked_calls "[demo_enroll]"] c
  show ?thesis by simp
qed

section \<open>The life of a request\<close>

text \<open>C19. How the status of a request moves. A call that commits leaves every request with its installation, fingerprint,
  capability, campaign and deadline, and its status is the same or one the status before it allows: in particular a
  claim is issued only to an approved or automatically approved request, a device is registered only after its
  claim, and a request waiting for a decision can only be approved, denied, cancelled or expire. The moves are those of
  the table, two of them in one call when the device is registered or the completion skips the wait, and the expiry of a
  completed request. Over any later history no request goes back: its status is the same or of a higher rank, and a
  denied, failed, cancelled or expired request keeps its status.\<close>

theorem request_never_goes_back:
  assumes "db = serve (enroll_exec cr st) cs empty_enroll_db" and "r \<in> set (e_requests db)" and "enroll_exec cr st c db = Inr db'"
  shows "(\<exists>r'\<in>set (e_requests db'). same_request r r' \<and> (rq_status r' = rq_status r \<or> rq_status r' \<in> (case rq_status r of
        SCreated \<Rightarrow> {SValidating, SDenied, SFailed, SCancelled, SExpired}
      | SValidating \<Rightarrow> {SAutoApproved, SWaitingApproval, SReviewRequired, SDenied, SFailed, SExpired}
      | SAutoApproved \<Rightarrow> {SClaimIssued, SDenied, SExpired, SFailed}
      | SWaitingApproval \<Rightarrow> {SApproved, SDenied, SExpired, SCancelled}
      | SReviewRequired \<Rightarrow> {SApproved, SDenied, SExpired, SCancelled}
      | SApproved \<Rightarrow> {SClaimIssued, SDenied, SExpired, SFailed}
      | SClaimIssued \<Rightarrow> {SEnrolling, SDeviceRegistered, SDenied, SExpired, SFailed}
      | SEnrolling \<Rightarrow> {SDeviceRegistered, SFailed, SExpired}
      | SDeviceRegistered \<Rightarrow> {SWaitingWss, SCompleted, SFailed, SExpired}
      | SWaitingWss \<Rightarrow> {SCompleted, SFailed, SExpired}
      | SCompleted \<Rightarrow> {SExpired}
      | _ \<Rightarrow> {})))
    \<and> (\<exists>r'\<in>set (e_requests (serve (enroll_exec cr st) ds db)). same_request r r'
        \<and> (rq_status r' = rq_status r \<or> status_rank (rq_status r) < status_rank (rq_status r'))
        \<and> (rq_status r \<in> {SDenied, SFailed, SCancelled, SExpired} \<longrightarrow> rq_status r' = rq_status r))" (is "?once \<and> ?later")
proof
  have inv: "enroll_inv db" using assms(1) enrollment.serve_inv [OF enroll_inv_empty] by blast
  from inv have ids: "distinct (map rq_id (e_requests db))" by (simp add: enroll_inv_def enroll_constraints_def requests_unique_def)
  have "requests_move (e_requests db) (e_requests db')"
    using enroll_exec_step [of db cr st c db'] assms(3) inv by (auto simp: enroll_inv_def route_step_def)
  from requests_move_rows [OF this ids assms(2)] obtain r' where
    r': "r' \<in> set (e_requests db')" "same_request r r'" "rq_status r' = rq_status r \<or> request_step (rq_status r) (rq_status r')"
    by (auto simp: request_advances_def)
  show ?once
    using r' by (intro bexI [of _ r']) (cases "rq_status r"; auto simp: request_step_def)+
next
  have inv: "enroll_inv db" using assms(1) enrollment.serve_inv [OF enroll_inv_empty] by blast
  from enrollment.serve_le [OF inv, of cr st ds] assms(2) obtain r' where
    r': "r' \<in> set (e_requests (serve (enroll_exec cr st) ds db))" "same_request r r'" "request_step\<^sup>*\<^sup>* (rq_status r) (rq_status r')"
    unfolding enroll_le_def requests_le_def request_trail_def by blast
  have "rq_status r' = rq_status r \<or> status_rank (rq_status r) < status_rank (rq_status r')"
    using r'(3) request_moves.path_strict by (metis rtranclpD)
  moreover have "rq_status r' = rq_status r" if "rq_status r \<in> {SDenied, SFailed, SCancelled, SExpired}"
    by (rule request_moves.final_path [OF _ r'(3)]) (use that in \<open>simp add: closed_status_def\<close>)
  ultimately show ?later using r'(1,2) by blast
qed

definition demo_request_body :: request_body where
  "demo_request_body = \<lparr>rb_installation_id = ''i1'', rb_hardware_fingerprint = ''sha256:ab'', rb_request_capability = ''cap1'',
     rb_installer_version = ''1'', rb_installer_release_id = ''r1'', rb_hostname = ''h'', rb_manufacturer = None, rb_model = None,
     rb_serial = None, rb_product_uuid = None, rb_macs = []\<rparr>"

definition demo_request_calls :: "enroll_call list" where
  "demo_request_calls = [demo_open, CreateRequest 7 ''rq'' 20 (V4 167772161) demo_request_body, DenyRequest ''rq'' 30 40 7 ''NO'']"

lemma demo_request_result:
  "case e_requests (serve (enroll_exec plain_crypto demo_settings) demo_request_calls empty_enroll_db) of
     [r] \<Rightarrow> rq_id r = 7 \<and> rq_status r = SDenied | _ \<Rightarrow> False"
  by code_simp

lemma demo_status_commits:
  "is_ok (enroll_exec plain_crypto demo_settings (RequestStatus ''rq'' 900000000000 7 ''cap1'')
     (serve (enroll_exec plain_crypto demo_settings) demo_request_calls empty_enroll_db))"
  by code_simp

theorem request_never_goes_back_witness:
  "\<exists>r\<in>set (e_requests (serve (enroll_exec plain_crypto demo_settings) [RequestStatus ''rq'' 900000000000 7 ''cap1'']
     (serve (enroll_exec plain_crypto demo_settings) demo_request_calls empty_enroll_db))). rq_id r = 7 \<and> rq_status r = SDenied"
proof -
  obtain r where r: "e_requests (serve (enroll_exec plain_crypto demo_settings) demo_request_calls empty_enroll_db) = [r]"
    "rq_id r = 7" "rq_status r = SDenied"
    using demo_request_result by (auto split: list.splits)
  obtain db' where db': "enroll_exec plain_crypto demo_settings (RequestStatus ''rq'' 900000000000 7 ''cap1'')
     (serve (enroll_exec plain_crypto demo_settings) demo_request_calls empty_enroll_db) = Inr db'"
    using demo_status_commits by (auto simp: is_ok_iff)
  have "r \<in> set (e_requests (serve (enroll_exec plain_crypto demo_settings) demo_request_calls empty_enroll_db))" using r(1) by simp
  from request_never_goes_back [OF refl this db', of "[RequestStatus ''rq'' 900000000000 7 ''cap1'']"] r show ?thesis
    by (auto simp: same_request_def)
qed

text \<open>C20. A completed request does not stay completed: when its capability is presented to the status route at
  its deadline or later, the row is rewritten to expired, a move that \<open>allowed_transitions\<close> does not have.\<close>

theorem completed_request_expires:
  assumes "find_row rq_id i (e_requests db) = Some r" and "rq_status r = SCompleted" and "rq_expires_at r \<le> now"
    and "request_capability_matches cr cap (rq_capability_digest r) pepper" and "\<not> blank aid" and "enroll_constraints db"
  shows "\<exists>db'. enrollment_request_status cr pepper aid now i cap db = Inr (db', expired_request now r)
    \<and> find_row rq_id i (e_requests db') = Some (expired_request now r) \<and> rq_status (expired_request now r) = SExpired
    \<and> SExpired \<notin> set (allowed_transitions SCompleted)"
proof -
  let ?r = "expired_request now r"
  have id: "rq_id ?r = i" using find_row_SomeD(2) [OF assms(1)] by (simp add: expired_request_def)
  have over: "request_overdue now r" using assms(2,3) by (simp add: request_overdue_def)
  obtain a where a: "enroll_audit (request_event ?r ''enrollment_request.expired'' aid ''installer'' None
      [(''status'', JStr (status_text SExpired))] now) (store_request ?r db) = Inr ((store_request ?r db)\<lparr>e_audits := a\<rparr>)"
    using assms(5)
    by (auto simp: enroll_audit_def append_audit_event_def request_event_def audit_def blank_Cons py_isspace_def store_request_def)
  have "distinct (map rq_installation_digest (filter (\<lambda>r. indexed_status (rq_status r)) (store_row rq_id ?r (e_requests db))))"
  proof (rule distinct_map_filter_store)
    show "distinct (map rq_installation_digest (filter (\<lambda>r. indexed_status (rq_status r)) (e_requests db)))"
      using assms(6) by (simp add: enroll_constraints_def requests_unique_def)
    fix x assume "x \<in> set (e_requests db)" "rq_id x = rq_id ?r"
    moreover have "distinct (map rq_id (e_requests db))" using assms(6) by (simp add: enroll_constraints_def requests_unique_def)
    ultimately have "x = r" using find_row_SomeD [OF assms(1)] id by (metis distinct_map_inj)
    then show "(indexed_status (rq_status ?r) \<longrightarrow> indexed_status (rq_status x)) \<and> rq_installation_digest ?r = rq_installation_digest x"
      by (simp add: expired_request_def indexed_status_def)
  qed
  then have ok: "enroll_constraints ((store_request ?r db)\<lparr>e_audits := a\<rparr>)"
    using assms(6) by (simp add: enroll_constraints_def requests_unique_def store_request_def)
  have "find_row rq_id i (e_requests ((store_request ?r db)\<lparr>e_audits := a\<rparr>)) = Some ?r"
    using assms(1) id by (simp add: store_request_def find_row_put)
  then show ?thesis
    using assms over a ok by (simp add: enrollment_request_status_def expire_request_def commit_enroll_def) (simp add: expired_request_def)
qed

definition demo_completed :: enrollment_request where
  "demo_completed = \<lparr>rq_id = 7, rq_created_at = Aware 0, rq_installation_digest = ''d'', rq_fingerprint_digest = ''f'',
     rq_capability_digest = ''63617031'', rq_platform = ''windows'', rq_hostname = ''h'', rq_manufacturer = None, rq_model = None,
     rq_serial = None, rq_product_uuid = None, rq_macs = [], rq_source_address = ''10.0.0.1'', rq_installer_version = ''1'',
     rq_installer_release_id = ''r1'', rq_selected_campaign_id = Some 1, rq_status = SCompleted, rq_decision_reason = None,
     rq_decided_at = None, rq_decided_by = None, rq_device_id = Some 20, rq_updated_at = 50, rq_expires_at = 100\<rparr>"

definition demo_completed_db :: enroll_db where
  "demo_completed_db = empty_enroll_db\<lparr>e_requests := [demo_completed]\<rparr>"

theorem completed_request_expires_witness:
  "\<exists>db'. enrollment_request_status plain_crypto ''p'' ''rq'' 100 7 ''cap1'' demo_completed_db = Inr (db', expired_request 100 demo_completed)"
proof -
  have "find_row rq_id 7 (e_requests demo_completed_db) = Some demo_completed" "rq_status demo_completed = SCompleted"
    "rq_expires_at demo_completed \<le> 100" by (simp_all add: demo_completed_db_def demo_completed_def find_row_def)
  moreover have "request_capability_matches plain_crypto ''cap1'' (rq_capability_digest demo_completed) ''p''" by code_simp
  moreover have "\<not> blank ''rq''" by code_simp
  moreover have "enroll_constraints demo_completed_db" by code_simp
  ultimately show ?thesis using completed_request_expires by blast
qed

text \<open>C21. An approved request is outside the index of active requests, so its installation can open another
  one; while that other request is active, the approved one never gets its claim.\<close>

theorem approved_request_shadowed:
  assumes "find_row rq_id i (e_requests db) = Some r" and "rq_status r = SApproved"
    and "s \<in> set (e_requests db)" and "rq_id s \<noteq> i" and "indexed_status (rq_status s)"
    and "rq_installation_digest s = rq_installation_digest r"
  shows "handoff_enrollment_request_claim cr sk pepper secret aid now i cap install fp db \<noteq> Inr (db', Inr claim)"
proof
  assume ok: "handoff_enrollment_request_claim cr sk pepper secret aid now i cap install fp db = Inr (db', Inr claim)"
  then obtain x f c y where "load_proven_request cr pepper i cap x f db = Inr r"
    and "rq_status r = SClaimIssued \<or> issue_request_claim cr sk pepper secret aid now r c cap x f db = Inr (db', y)"
    using assms(1)
    by (auto simp: handoff_enrollment_request_claim_def load_proven_request_def split: sum.splits option.splits if_splits)
  with assms(2) have "issue_request_claim cr sk pepper secret aid now r c cap x f db = Inr (db', y)" by simp
  from issue_request_claim_Inr [OF this] obtain r' where
    r': "e_requests db' = store_row rq_id r' (e_requests db)" "request_advances r r'" "rq_status r' = SClaimIssued" "enroll_constraints db'"
    by (auto simp: store_request_def)
  have r: "r \<in> set (e_requests db)" "rq_id r = i" using find_row_SomeD [OF assms(1)] by auto
  have same: "rq_id r' = i" "rq_installation_digest r' = rq_installation_digest r"
    using r'(2) r(2) by (simp_all add: request_advances_def same_request_def)
  have "r' \<in> set (e_requests db')" "s \<in> set (e_requests db')"
    using r r'(1) same assms(3,4) by (auto simp: in_set_store_row)
  moreover have "indexed_status (rq_status r')" using r'(3) by (simp add: indexed_status_def)
  ultimately have "r' \<in> set (filter (\<lambda>r. indexed_status (rq_status r)) (e_requests db'))"
    "s \<in> set (filter (\<lambda>r. indexed_status (rq_status r)) (e_requests db'))" using assms(5) by simp_all
  moreover have "distinct (map rq_installation_digest (filter (\<lambda>r. indexed_status (rq_status r)) (e_requests db')))"
    using r'(4) by (simp add: enroll_constraints_def requests_unique_def)
  ultimately have "s = r'" using assms(6) same(2) by (metis distinct_map_inj)
  with assms(4) same(1) show False by simp
qed

definition demo_manual :: json where
  "demo_manual = JObj [(''policy_id'', JStr ''p1''), (''enrollment_mode'', JStr ''manual''), (''allowed_installer_releases'', JList [JStr ''r1''])]"

definition demo_shadow_calls :: "enroll_call list" where
  "demo_shadow_calls =
     [CreateCampaign 1 ''a'' ''b'' 0 0 ''adm'' ''rq'' (demo_input\<lparr>ci_policy := demo_manual\<rparr>),
      CreateRequest 7 ''rq'' 20 (V4 167772161) demo_request_body, ApproveRequest ''rq'' 30 40 7,
      CreateRequest 8 ''rq'' 50 (V4 167772161) demo_request_body]"

definition demo_shadow_db :: enroll_db where
  "demo_shadow_db = serve (enroll_exec plain_crypto demo_settings) demo_shadow_calls empty_enroll_db"

lemma demo_shadow_rows:
  "case e_requests demo_shadow_db of
     [r, s] \<Rightarrow> rq_id r = 7 \<and> rq_status r = SApproved \<and> rq_id s = 8 \<and> rq_status s = SWaitingApproval
       \<and> rq_installation_digest s = rq_installation_digest r
   | _ \<Rightarrow> False"
  by code_simp

theorem approved_request_shadowed_witness:
  "handoff_enrollment_request_claim plain_crypto \<lparr>sk_claim_id = 9, sk_envelope_id = 10, sk_identifier = ''c'', sk_secret = ''d'', sk_nonce = ''n''\<rparr>
     ''p'' ''s'' ''rq'' 60 7 ''cap1'' ''i1'' ''sha256:ab'' demo_shadow_db \<noteq> Inr (empty_enroll_db, Inr (''t'', Aware 0))"
proof -
  obtain r s where "e_requests demo_shadow_db = [r, s]" "rq_id r = 7" "rq_status r = SApproved" "rq_id s = 8"
    "rq_status s = SWaitingApproval" "rq_installation_digest s = rq_installation_digest r"
    using demo_shadow_rows by (auto split: list.splits)
  then show ?thesis by (intro approved_request_shadowed [of 7 _ r s]) (simp_all add: find_row_def indexed_status_def)
qed

section \<open>Choosing a campaign and limiting requests\<close>

lemma filter_eq_single: "distinct xs \<Longrightarrow> filter P xs = [c] \<longleftrightarrow> {x \<in> set xs. P x} = {c}"
proof
  assume d: "distinct xs" and e: "{x \<in> set xs. P x} = {c}"
  have "distinct (filter P xs)" "set (filter P xs) = {c}" using d e by auto
  then have "length (filter P xs) = 1" by (metis distinct_card is_singletonI is_singleton_altdef)
  then obtain y where y: "filter P xs = [y]" by (auto simp: length_Suc_conv)
  with \<open>set (filter P xs) = {c}\<close> show "filter P xs = [c]" by (metis list.set_intros(1) singletonD)
next
  assume "filter P xs = [c]"
  then show "{x \<in> set xs. P x} = {c}" by (metis empty_set list.simps(15) set_filter)
qed

lemma selection_single:
  assumes "filter (campaign_eligible now src rel) cs = [c]"
  shows "\<exists>p. parse_windows_enrollment_policy (ca_policy c) = Some p"
  using filter_singletonD [OF assms] by (auto simp: campaign_eligible_def split: option.splits)

text \<open>C22. The campaign of a request is chosen by the set of eligible campaigns alone. None eligible: the request is
  denied. Exactly one: it is selected, and the request goes to review on an identity conflict, waits for approval
  under a manual policy and is approved automatically under an automatic one. Several: no campaign is selected and the
  request goes to review. The order of the campaigns does not matter.\<close>

theorem selection_exact:
  assumes "distinct cs" and "sel = evaluate_campaign_selection cs src rel now conflict"
    and "E = {c \<in> set cs. campaign_eligible now src rel c}"
  shows "(E = {} \<longrightarrow> sl_status sel = SDenied \<and> sl_campaign sel = None)
    \<and> (E = {c} \<longrightarrow> sl_campaign sel = Some c
        \<and> (\<exists>p. parse_windows_enrollment_policy (ca_policy c) = Some p \<and> sl_mode sel = Some (wp_mode p)
            \<and> sl_status sel = (if conflict then SReviewRequired else if wp_mode p = ManualMode then SWaitingApproval else SAutoApproved)))
    \<and> (2 \<le> card E \<longrightarrow> sl_status sel = SReviewRequired \<and> sl_campaign sel = None)
    \<and> (mset ds = mset cs \<longrightarrow> evaluate_campaign_selection ds src rel now conflict = sel)"
proof -
  let ?f = "filter (campaign_eligible now src rel)"
  have E: "E = set (?f cs)" using assms(3) by auto
  have sing: "?f cs = [x] \<longleftrightarrow> E = {x}" for x using filter_eq_single [OF assms(1)] assms(3) by blast
  have perm: "evaluate_campaign_selection ds src rel now conflict = sel" if "mset ds = mset cs"
  proof -
    have m: "mset (?f ds) = mset (?f cs)" using that by (simp add: mset_filter)
    then have len: "length (?f ds) = length (?f cs)" by (rule mset_eq_length)
    show ?thesis
    proof (cases "length (?f cs) < 2")
      case True
      with m len have "?f ds = ?f cs" by (cases "?f cs"; cases "?f ds") auto
      then show ?thesis by (simp add: assms(2) evaluate_campaign_selection_def)
    next
      case False
      then obtain a b r where 1: "?f cs = a # b # r" by (metis One_nat_def length_Cons list.exhaust list.size(3) not_less_eq numeral_2_eq_2 zero_less_Suc)
      from False len obtain a' b' r' where 2: "?f ds = a' # b' # r'" by (metis One_nat_def length_Cons list.exhaust list.size(3) not_less_eq numeral_2_eq_2 zero_less_Suc)
      from 1 2 show ?thesis by (simp add: assms(2) evaluate_campaign_selection_def)
    qed
  qed
  consider (none) "?f cs = []" | (one) x where "?f cs = [x]" | (many) a b r where "?f cs = a # b # r"
    by (metis list.exhaust)
  then show ?thesis
  proof cases
    case none
    then have "E = {}" using E by simp
    with none perm show ?thesis by (simp add: assms(2) evaluate_campaign_selection_def)
  next
    case (one x)
    then have Ex: "E = {x}" using sing by simp
    from selection_single [OF one] obtain p where p: "parse_windows_enrollment_policy (ca_policy x) = Some p" by blast
    from one p Ex perm show ?thesis by (auto simp: assms(2) evaluate_campaign_selection_def)
  next
    case (many a b r)
    then have "E \<noteq> {}" "\<not> (\<exists>c. E = {c})" using E sing by auto
    with many perm show ?thesis by (auto simp: assms(2) evaluate_campaign_selection_def)
  qed
qed

definition demo_campaign :: campaign where
  "demo_campaign = \<lparr>ca_id = 1, ca_identifier = ''a'', ca_token_digest = ''d'', ca_expires_at = Some (Aware 1000), ca_disabled_at = None,
     ca_max_uses = 2, ca_use_count = 1, ca_allowed_cidrs = [''10.0.0.0/8''], ca_target_platform = ''windows'', ca_policy = demo_policy,
     ca_label = None, ca_site = None, ca_revoked_at = None\<rparr>"

lemma demo_campaign_eligible: "campaign_eligible 10 (V4 167772161) ''r1'' demo_campaign"
  by code_simp

theorem selection_exact_witness:
  "sl_campaign (evaluate_campaign_selection [demo_campaign] (V4 167772161) ''r1'' 10 True) = Some demo_campaign
   \<and> sl_status (evaluate_campaign_selection [demo_campaign] (V4 167772161) ''r1'' 10 True) = SReviewRequired"
proof -
  have "{c \<in> set [demo_campaign]. campaign_eligible 10 (V4 167772161) ''r1'' c} = {demo_campaign}" using demo_campaign_eligible by auto
  then show ?thesis
    using selection_exact [of "[demo_campaign]" _ "V4 167772161" "''r1''" 10 True _ demo_campaign, OF _ refl refl] by auto
qed

lemma create_request_Inr:
  assumes "create_enrollment_request cr i pepper rid now src body db = Inr (db', r)"
  shows "e_requests db' = e_requests db @ [r] \<and> rq_created_at r = Aware now
    \<and> \<not> enrollment_request_rate_limited (filter (created_since (now - hours 1)) (e_requests db)) r now"
  using assms
  by (auto simp: create_enrollment_request_def persist_enrollment_request_def build_enrollment_request_def Let_def
      split: if_splits dest!: enroll_audit_Inr)

text \<open>C23. Whenever a request is accepted, the requests of the last hour, the new one included, number at most
  thirty of its source address, three of its installation and three of its fingerprint.\<close>

theorem request_rate_bounded:
  assumes "create_enrollment_request cr i pepper rid now src body db = Inr (db', r)"
    and "recent = filter (created_since (now - hours 1)) (e_requests db')"
  shows "count_if (\<lambda>x. rq_source_address x = rq_source_address r) recent \<le> 30
    \<and> count_if (\<lambda>x. rq_installation_digest x = rq_installation_digest r) recent \<le> 3
    \<and> count_if (\<lambda>x. rq_fingerprint_digest x = rq_fingerprint_digest r) recent \<le> 3"
proof -
  note c = create_request_Inr [OF assms(1)]
  have "recent = filter (created_since (now - hours 1)) (e_requests db) @ [r]"
    using c by (simp add: assms(2) created_since_def hours_def minutes_def seconds_def)
  with c show ?thesis
    by (auto simp: enrollment_request_rate_limited_def Let_def count_if_def)
qed

lemma demo_create_ok: "is_ok (create_enrollment_request plain_crypto 7 ''p'' ''rq'' 20 (V4 167772161) demo_request_body empty_enroll_db)"
  by code_simp

theorem request_rate_bounded_witness:
  "\<exists>db' r. create_enrollment_request plain_crypto 7 ''p'' ''rq'' 20 (V4 167772161) demo_request_body empty_enroll_db = Inr (db', r)
     \<and> count_if (\<lambda>x. rq_installation_digest x = rq_installation_digest r) (filter (created_since (20 - hours 1)) (e_requests db')) \<le> 3"
proof -
  obtain db' r where "create_enrollment_request plain_crypto 7 ''p'' ''rq'' 20 (V4 167772161) demo_request_body empty_enroll_db = Inr (db', r)"
    using demo_create_ok by (auto simp: is_ok_iff)
  with request_rate_bounded [OF this refl] show ?thesis by blast
qed

end
