(* ===== verification/Module_Recipes.thy ===== *)
theory Module_Recipes
  imports Audit_Trail Ip_Network "HOL-Library.Monad_Syntax"
begin

text \<open>
  Declarative module recipes: the registry of primitives (\<open>endpoint_contracts/capabilities.py\<close>), the parameter
  contracts of the primitives, the static validation of a recipe (\<open>modules/recipes.py\<close>) and its expansion into
  typed commands (\<open>modules/recipe_engine.py\<close>). Dictionaries are association lists with distinct keys; the
  Russian display names are left out.
\<close>

section \<open>The registry\<close>

datatype parameter_type = PString | PInteger | PEnum

record parameter_descriptor =
  pd_name :: string
  pd_type :: parameter_type
  pd_sources :: "string list"
  pd_enum :: "string list option"
  pd_minimum :: "int option"
  pd_maximum :: "int option"
  pd_default :: "json option"

record capability_descriptor =
  cd_capability :: string
  cd_category :: string
  cd_parameter_schema :: string
  cd_result_schema :: string
  cd_minimum_version :: string
  cd_feature_flag :: string
  cd_policy :: string
  cd_parameters :: "parameter_descriptor list"
  cd_risk :: string
  cd_timeout :: int
  cd_max_items :: int
  cd_platforms :: "string list"

definition parameter ::
  "string \<Rightarrow> parameter_type \<Rightarrow> string list \<Rightarrow> string list option \<Rightarrow> int option \<Rightarrow> int option \<Rightarrow> parameter_descriptor" where
  "parameter name type sources enum minimum maximum =
     \<lparr>pd_name = name, pd_type = type, pd_sources = sources, pd_enum = enum, pd_minimum = minimum, pd_maximum = maximum,
      pd_default = None\<rparr>"

definition descriptor ::
  "string \<Rightarrow> string \<Rightarrow> string \<Rightarrow> string \<Rightarrow> string \<Rightarrow> string \<Rightarrow> string \<Rightarrow> parameter_descriptor list \<Rightarrow> string \<Rightarrow> int \<Rightarrow> int
   \<Rightarrow> string list \<Rightarrow> capability_descriptor" where
  "descriptor capability category parameters_schema result_schema version flag policy parameters risk timeout items platforms =
     \<lparr>cd_capability = capability, cd_category = category, cd_parameter_schema = parameters_schema, cd_result_schema = result_schema,
      cd_minimum_version = version, cd_feature_flag = flag, cd_policy = policy, cd_parameters = parameters, cd_risk = risk,
      cd_timeout = timeout, cd_max_items = items, cd_platforms = platforms\<rparr>"

definition module_capability_registry :: "capability_descriptor list" where
  "module_capability_registry =
     [descriptor ''dns.resolve'' ''network'' ''dns_resolve_parameters_v1'' ''dns_resolve_result_v1''
        ''3.2.27'' ''endpoint_network_primitives_enabled'' ''network_target_policy''
        [parameter ''target'' PString [''input'', ''literal''] None None None,
         parameter ''family'' PEnum [''input'', ''literal''] (Some [''any'', ''ipv4'', ''ipv6'']) None None] ''safe_read'' 10 1 [''linux_amd64'', ''windows_amd64''],
      descriptor ''network.ping'' ''network'' ''network_ping_parameters_v1'' ''network_ping_result_v1''
        ''3.2.27'' ''endpoint_network_primitives_enabled'' ''network_target_policy''
        [parameter ''target'' PString [''input'', ''literal''] None None None,
         parameter ''count'' PInteger [''input'', ''literal''] None (Some 1) (Some 5),
         parameter ''timeout_ms'' PInteger [''input'', ''literal''] None (Some 100) (Some 5000)] ''safe_read'' 10 1 [''linux_amd64'', ''windows_amd64''],
      descriptor ''tcp.connect'' ''network'' ''tcp_connect_parameters_v1'' ''tcp_connect_result_v1''
        ''3.2.27'' ''endpoint_network_primitives_enabled'' ''network_target_policy''
        [parameter ''target'' PString [''input'', ''literal''] None None None,
         parameter ''port'' PInteger [''input'', ''literal''] None (Some 1) (Some 65535),
         parameter ''timeout_ms'' PInteger [''input'', ''literal''] None (Some 100) (Some 10000)] ''safe_read'' 10 1 [''linux_amd64'', ''windows_amd64''],
      descriptor ''route.get'' ''network'' ''route_get_parameters_v1'' ''route_get_result_v1''
        ''3.2.29'' ''endpoint_read_only_primitives_enabled'' ''network_target_policy''
        [parameter ''target'' PString [''input'', ''literal''] None None None,
         parameter ''port'' PInteger [''input'', ''literal''] None (Some 1) (Some 65535),
         parameter ''family'' PEnum [''input'', ''literal''] (Some [''any'', ''ipv4'', ''ipv6'']) None None,
         parameter ''timeout_ms'' PInteger [''input'', ''literal''] None (Some 100) (Some 5000)] ''safe_read'' 10 1 [''linux_amd64'', ''windows_amd64''],
      descriptor ''adapter.list'' ''network'' ''adapter_list_parameters_v1'' ''adapter_list_result_v1''
        ''3.2.29'' ''endpoint_read_only_primitives_enabled'' ''none''
        [] ''safe_read'' 10 32 [''linux_amd64'', ''windows_amd64''],
      descriptor ''system.service_status'' ''service'' ''service_status_parameters_v1'' ''service_status_result_v1''
        ''3.2.29'' ''endpoint_read_only_primitives_enabled'' ''none''
        [parameter ''service_key'' PEnum [''literal''] (Some [''endpoint_agent'', ''endpoint_agent_updater'']) None None] ''safe_read'' 10 1 [''linux_amd64'', ''windows_amd64''],
      descriptor ''system.resource_snapshot'' ''system'' ''system_resource_snapshot_parameters_v1'' ''system_resource_snapshot_result_v1''
        ''3.2.67'' ''endpoint_system_primitives_enabled'' ''none''
        [] ''safe_read'' 10 1 [''linux_amd64'', ''windows_amd64''],
      descriptor ''process.list'' ''process'' ''process_list_parameters_v1'' ''process_list_result_v1''
        ''3.2.67'' ''endpoint_process_primitives_enabled'' ''process_metadata''
        [] ''controlled_read'' 10 32 [''linux_amd64'', ''windows_amd64''],
      descriptor ''process.find'' ''process'' ''process_find_parameters_v1'' ''process_find_result_v1''
        ''3.2.67'' ''endpoint_process_primitives_enabled'' ''process_metadata''
        [parameter ''name'' PString [''input'', ''literal''] None None None] ''safe_read'' 10 20 [''linux_amd64'', ''windows_amd64''],
      descriptor ''service.list'' ''service'' ''service_list_parameters_v1'' ''service_list_result_v1''
        ''3.2.67'' ''endpoint_system_primitives_enabled'' ''service_catalog''
        [] ''controlled_read'' 10 3 [''linux_amd64'', ''windows_amd64''],
      descriptor ''service.status'' ''service'' ''service_status_v2_parameters_v1'' ''service_status_v2_result_v1''
        ''3.2.67'' ''endpoint_system_primitives_enabled'' ''service_catalog''
        [parameter ''service_key'' PEnum [''literal''] (Some [''endpoint_agent'', ''endpoint_agent_updater'', ''print_service'']) None None] ''safe_read'' 10 1 [''linux_amd64'', ''windows_amd64''],
      descriptor ''printer.list'' ''printer'' ''printer_list_parameters_v1'' ''printer_list_result_v1''
        ''3.2.67'' ''endpoint_printer_primitives_enabled'' ''local_printers''
        [] ''controlled_read'' 10 16 [''linux_amd64'', ''windows_amd64''],
      descriptor ''printer.status'' ''printer'' ''printer_status_parameters_v1'' ''printer_status_result_v1''
        ''3.2.67'' ''endpoint_printer_primitives_enabled'' ''local_printers''
        [parameter ''printer_name'' PString [''input'', ''literal''] None None None] ''safe_read'' 10 1 [''linux_amd64'', ''windows_amd64''],
      descriptor ''printer.queue.summary'' ''printer'' ''printer_queue_summary_parameters_v1'' ''printer_queue_summary_result_v1''
        ''3.2.67'' ''endpoint_printer_primitives_enabled'' ''local_printers''
        [] ''controlled_read'' 10 1 [''linux_amd64'', ''windows_amd64''],
      descriptor ''software.list'' ''software'' ''software_list_parameters_v1'' ''software_list_result_v1''
        ''3.2.67'' ''endpoint_software_primitives_enabled'' ''machine_software''
        [] ''controlled_read'' 10 32 [''linux_amd64'', ''windows_amd64''],
      descriptor ''software.find'' ''software'' ''software_find_parameters_v1'' ''software_find_result_v1''
        ''3.2.67'' ''endpoint_software_primitives_enabled'' ''machine_software''
        [parameter ''name'' PString [''input'', ''literal''] None None None] ''safe_read'' 10 20 [''linux_amd64'', ''windows_amd64''],
      descriptor ''filesystem.free_space'' ''filesystem'' ''filesystem_free_space_parameters_v1'' ''filesystem_free_space_result_v1''
        ''3.2.67'' ''endpoint_filesystem_primitives_enabled'' ''local_volumes''
        [] ''safe_read'' 10 16 [''linux_amd64'', ''windows_amd64''],
      descriptor ''filesystem.path_exists'' ''filesystem'' ''filesystem_path_exists_parameters_v1'' ''filesystem_path_exists_result_v1''
        ''3.2.67'' ''endpoint_filesystem_primitives_enabled'' ''logical_paths''
        [parameter ''path_key'' PEnum [''literal''] (Some [''endpoint_install_root'', ''endpoint_data_root'', ''endpoint_runtime_manifest'']) None None] ''controlled_read'' 10 1 [''linux_amd64'', ''windows_amd64''],
      descriptor ''filesystem.file_metadata'' ''filesystem'' ''filesystem_file_metadata_parameters_v1'' ''filesystem_file_metadata_result_v1''
        ''3.2.67'' ''endpoint_filesystem_primitives_enabled'' ''logical_paths''
        [parameter ''path_key'' PEnum [''literal''] (Some [''endpoint_runtime_manifest'']) None None] ''controlled_read'' 10 1 [''linux_amd64'', ''windows_amd64''],
      descriptor ''eventlog.query'' ''eventlog'' ''eventlog_query_parameters_v1'' ''eventlog_query_result_v1''
        ''3.2.67'' ''endpoint_eventlog_primitives_enabled'' ''event_profile''
        [parameter ''profile'' PEnum [''literal''] (Some [''system'', ''application'', ''print'', ''endpoint'']) None None,
         parameter ''lookback_minutes'' PInteger [''input'', ''literal''] None (Some 1) (Some 60),
         parameter ''severity'' PEnum [''literal''] (Some [''error'', ''warning'', ''information'']) None None,
         parameter ''max_events'' PInteger [''input'', ''literal''] None (Some 1) (Some 32)] ''controlled_read'' 20 32 [''linux_amd64'', ''windows_amd64''],
      descriptor ''eventlog.recent_errors'' ''eventlog'' ''eventlog_recent_errors_parameters_v1'' ''eventlog_recent_errors_result_v1''
        ''3.2.67'' ''endpoint_eventlog_primitives_enabled'' ''event_profile''
        [parameter ''profile'' PEnum [''literal''] (Some [''system'', ''application'', ''print'', ''endpoint'']) None None,
         parameter ''lookback_minutes'' PInteger [''input'', ''literal''] None (Some 1) (Some 60)] ''controlled_read'' 20 20 [''linux_amd64'', ''windows_amd64'']]"


text \<open>The validators of the two descriptor contracts.\<close>

definition default_ok :: "parameter_descriptor \<Rightarrow> bool" where
  "default_ok d \<longleftrightarrow>
     (case pd_default d of
        None \<Rightarrow> True
      | Some (JInt n) \<Rightarrow> pd_type d = PInteger
      | Some (JStr s) \<Rightarrow> pd_type d = PString \<or> pd_type d = PEnum \<and> (case pd_enum d of None \<Rightarrow> False | Some vs \<Rightarrow> s \<in> set vs)
      | _ \<Rightarrow> False)"

definition validate_descriptor_shape :: "parameter_descriptor \<Rightarrow> bool" where
  "validate_descriptor_shape d \<longleftrightarrow>
     distinct (pd_sources d)
     \<and> (if pd_type d = PEnum
        then (case pd_enum d of None \<Rightarrow> False | Some vs \<Rightarrow> vs \<noteq> [] \<and> distinct vs) \<and> pd_minimum d = None \<and> pd_maximum d = None
        else pd_enum d = None)
     \<and> (pd_type d = PInteger \<or> pd_minimum d = None \<and> pd_maximum d = None)
     \<and> (case (pd_minimum d, pd_maximum d) of (Some a, Some b) \<Rightarrow> a \<le> b | _ \<Rightarrow> True)
     \<and> default_ok d"

definition validate_parameter_names :: "capability_descriptor \<Rightarrow> bool" where
  "validate_parameter_names c \<longleftrightarrow> distinct (map pd_name (cd_parameters c))"

definition module_capability_descriptor :: "string \<Rightarrow> capability_descriptor option" where
  "module_capability_descriptor capability = find (\<lambda>c. cd_capability c = capability) module_capability_registry"

section \<open>Parameter contracts\<close>

definition label_ok :: "string \<Rightarrow> bool" where
  "label_ok s \<longleftrightarrow> 1 \<le> length s \<and> length s \<le> 63 \<and> list_all (\<lambda>c. ascii_alnum c \<or> c = CHR ''-'') s \<and> ascii_alnum (hd s) \<and> ascii_alnum (last s)"

text \<open>\<open>_HOSTNAME_PATTERN\<close>: labels joined by dots, with at most one more dot at the end.\<close>

definition hostname_pattern :: "string \<Rightarrow> bool" where
  "hostname_pattern s \<longleftrightarrow>
     1 \<le> length s \<and> length s \<le> 253
     \<and> list_all label_ok (split_on (CHR ''.'') (if last s = CHR ''.'' then butlast s else s))"

definition control_char :: "char \<Rightarrow> bool" where
  "control_char c \<longleftrightarrow> (of_char c :: nat) < 32 \<or> (of_char c :: nat) = 127"

definition ip_address_text :: "string \<Rightarrow> ip_address option" where
  "ip_address_text s =
     (case parse_v4 s of Some n \<Rightarrow> Some (V4 n) | None \<Rightarrow> map_option (\<lambda>(n, scope). V6 n) (parse_v6 s))"

definition validate_target :: "string \<Rightarrow> bool" where
  "validate_target value \<longleftrightarrow>
     value = py_strip value \<and> \<not> list_ex control_char value \<and> \<not> contains_text ''://'' value
     \<and> CHR ''/'' \<notin> set value \<and> CHR ''@'' \<notin> set value
     \<and> (ip_address_text value \<noteq> None \<or> hostname_pattern value)"

datatype field_type = FInt int int | FLiteral "string list" | FTarget | FText | FPlainText

fun field_ok :: "field_type \<Rightarrow> json \<Rightarrow> bool" where
  "field_ok (FInt lo hi) (JInt n) = (lo \<le> n \<and> n \<le> hi)"
| "field_ok (FLiteral vs) (JStr s) = (s \<in> set vs)"
| "field_ok FTarget (JStr s) = (1 \<le> length s \<and> length s \<le> 253 \<and> validate_target s)"
| "field_ok FText (JStr s) = (1 \<le> length s \<and> length s \<le> 128 \<and> \<not> list_ex control_char s)"
| "field_ok FPlainText (JStr s) =
     (1 \<le> length s \<and> length s \<le> 128 \<and> \<not> list_ex control_char s \<and> \<not> list_ex (\<lambda>c. c \<in> set ''*?[]'') s)"
| "field_ok _ _ = False"

text \<open>The fields of the parameter model of each primitive, without its schema version.\<close>

definition families :: field_type where
  "families = FLiteral [''any'', ''ipv4'', ''ipv6'']"

definition event_profiles :: field_type where
  "event_profiles = FLiteral [''system'', ''application'', ''print'', ''endpoint'']"

definition network_models :: "(string \<times> (string \<times> field_type) list) list" where
  "network_models =
     [(''dns.resolve'', [(''target'', FTarget), (''family'', families)]),
      (''network.ping'', [(''target'', FTarget), (''count'', FInt 1 5), (''timeout_ms'', FInt 100 5000)]),
      (''tcp.connect'', [(''target'', FTarget), (''port'', FInt 1 65535), (''timeout_ms'', FInt 100 10000)])]"

definition read_only_models :: "(string \<times> (string \<times> field_type) list) list" where
  "read_only_models =
     [(''route.get'', [(''target'', FTarget), (''port'', FInt 1 65535), (''family'', families), (''timeout_ms'', FInt 100 5000)]),
      (''adapter.list'', []),
      (''system.service_status'', [(''service_key'', FLiteral [''endpoint_agent'', ''endpoint_agent_updater''])])]"

definition system_process_models :: "(string \<times> (string \<times> field_type) list) list" where
  "system_process_models = [(''system.resource_snapshot'', []), (''process.list'', []), (''process.find'', [(''name'', FText)])]"

definition service_printer_models :: "(string \<times> (string \<times> field_type) list) list" where
  "service_printer_models =
     [(''service.list'', []),
      (''service.status'', [(''service_key'', FLiteral [''endpoint_agent'', ''endpoint_agent_updater'', ''print_service''])]),
      (''printer.list'', []), (''printer.status'', [(''printer_name'', FText)]), (''printer.queue.summary'', [])]"

definition software_models :: "(string \<times> (string \<times> field_type) list) list" where
  "software_models = [(''software.list'', []), (''software.find'', [(''name'', FPlainText)])]"

definition filesystem_models :: "(string \<times> (string \<times> field_type) list) list" where
  "filesystem_models =
     [(''filesystem.free_space'', []),
      (''filesystem.path_exists'', [(''path_key'', FLiteral [''endpoint_install_root'', ''endpoint_data_root'', ''endpoint_runtime_manifest''])]),
      (''filesystem.file_metadata'', [(''path_key'', FLiteral [''endpoint_runtime_manifest''])])]"

definition eventlog_models :: "(string \<times> (string \<times> field_type) list) list" where
  "eventlog_models =
     [(''eventlog.query'',
        [(''profile'', event_profiles), (''lookback_minutes'', FInt 1 60),
         (''severity'', FLiteral [''error'', ''warning'', ''information'']), (''max_events'', FInt 1 32)]),
      (''eventlog.recent_errors'', [(''profile'', event_profiles), (''lookback_minutes'', FInt 1 60)])]"

definition parameter_models :: "(string \<times> (string \<times> field_type) list) list" where
  "parameter_models = network_models @ read_only_models @ system_process_models @ service_printer_models
     @ software_models @ filesystem_models @ eventlog_models"

definition schema_field_ok :: "capability_descriptor \<Rightarrow> (string \<times> json) list \<Rightarrow> bool" where
  "schema_field_ok c parameters \<longleftrightarrow>
     (case map_of parameters ''schema_version'' of None \<Rightarrow> True | Some v \<Rightarrow> v = JStr (cd_parameter_schema c))"

definition fields_ok :: "(string \<times> field_type) list \<Rightarrow> (string \<times> json) list \<Rightarrow> bool" where
  "fields_ok model parameters \<longleftrightarrow>
     list_all (\<lambda>(n, v). n = ''schema_version'' \<or> n \<in> set (map fst model)) parameters
     \<and> list_all (\<lambda>(n, t). case map_of parameters n of None \<Rightarrow> False | Some v \<Rightarrow> field_ok t v) model"

datatype recipe_error = CatalogValueError | ParameterValidationError | RecipeValidationError | RecipeExecutionError

definition validate_module_capability_parameters :: "string \<Rightarrow> (string \<times> json) list \<Rightarrow> recipe_error + (string \<times> json) list" where
  "validate_module_capability_parameters capability parameters =
     (case (module_capability_descriptor capability, map_of parameter_models capability) of
        (Some c, Some model) \<Rightarrow>
          if schema_field_ok c parameters \<and> fields_ok model parameters
          then Inr (map (\<lambda>(n, t). (n, the (map_of parameters n))) model) else Inl ParameterValidationError
      | _ \<Rightarrow> Inl CatalogValueError)"

section \<open>Recipes\<close>

datatype binding = InputBinding string | LiteralBinding json

record recipe_step =
  rp_step_id :: string
  rp_capability :: string
  rp_parameters :: "(string \<times> binding) list"

record recipe_spec =
  rc_module_key :: string
  rc_platforms :: "string list"
  rc_inputs :: "(string \<times> parameter_type) list"
  rc_steps :: "recipe_step list"

definition recipe_input_type :: "parameter_type \<Rightarrow> parameter_type" where
  "recipe_input_type t = (if t = PEnum then PString else t)"

fun has_python_type :: "parameter_type \<Rightarrow> json \<Rightarrow> bool" where
  "has_python_type PString (JStr s) = True"
| "has_python_type PInteger (JInt n) = True"
| "has_python_type _ _ = False"

definition placeholder_for_input :: "parameter_descriptor \<Rightarrow> json" where
  "placeholder_for_input d =
     (if pd_name d = ''target'' then JStr ''api.example.test''
      else case pd_enum d of
        Some (v # vs) \<Rightarrow> JStr v
      | _ \<Rightarrow>
          (case pd_default d of
             Some v \<Rightarrow> v
           | None \<Rightarrow>
               if pd_type d = PInteger then JInt (case pd_minimum d of None \<Rightarrow> 1 | Some n \<Rightarrow> if n = 0 then 1 else n)
               else JStr ''Example''))"

definition literal_or_placeholder :: "capability_descriptor \<Rightarrow> string \<times> binding \<Rightarrow> string \<times> json" where
  "literal_or_placeholder c entry =
     (fst entry, case snd entry of
        LiteralBinding v \<Rightarrow> v
      | InputBinding _ \<Rightarrow> (case find (\<lambda>d. pd_name d = fst entry) (cd_parameters c) of None \<Rightarrow> JNull | Some d \<Rightarrow> placeholder_for_input d))"

definition validate_literal_parameter_bounds :: "capability_descriptor \<Rightarrow> recipe_step \<Rightarrow> recipe_error + unit" where
  "validate_literal_parameter_bounds c s =
     (case validate_module_capability_parameters (rp_capability s) (map (literal_or_placeholder c) (rp_parameters s)) of
        Inl e \<Rightarrow> Inl RecipeValidationError | Inr v \<Rightarrow> Inr ())"

definition binding_ok :: "(string \<times> parameter_type) list \<Rightarrow> recipe_step \<Rightarrow> parameter_descriptor \<Rightarrow> bool" where
  "binding_ok input_types s d \<longleftrightarrow>
     (case map_of (rp_parameters s) (pd_name d) of
        None \<Rightarrow> False
      | Some (InputBinding name) \<Rightarrow>
          ''input'' \<in> set (pd_sources d) \<and> map_of input_types name = Some (recipe_input_type (pd_type d))
      | Some (LiteralBinding v) \<Rightarrow> ''literal'' \<in> set (pd_sources d) \<and> has_python_type (recipe_input_type (pd_type d)) v)"

definition validate_recipe_step :: "(string \<times> parameter_type) list \<Rightarrow> recipe_step \<Rightarrow> recipe_error + unit" where
  "validate_recipe_step input_types s =
     (case module_capability_descriptor (rp_capability s) of
        None \<Rightarrow> Inl CatalogValueError
      | Some c \<Rightarrow>
          if set (map fst (rp_parameters s)) \<noteq> set (map pd_name (cd_parameters c)) then Inl RecipeValidationError
          else if \<not> list_all (binding_ok input_types s) (cd_parameters c) then Inl RecipeValidationError
          else validate_literal_parameter_bounds c s)"

fun validate_steps :: "(string \<times> parameter_type) list \<Rightarrow> recipe_step list \<Rightarrow> recipe_error + unit" where
  "validate_steps input_types [] = Inr ()"
| "validate_steps input_types (s # ss) = bindE (validate_recipe_step input_types s) (\<lambda>_. validate_steps input_types ss)"

definition validate_recipe_spec :: "recipe_spec \<Rightarrow> recipe_error + unit" where
  "validate_recipe_spec r = validate_steps (rc_inputs r) (rc_steps r)"

section \<open>Plans\<close>

record plan_item =
  pi_sequence :: int
  pi_step_id :: string
  pi_capability :: string
  pi_parameters :: "(string \<times> json) list"

definition validate_runtime_inputs :: "recipe_spec \<Rightarrow> (string \<times> json) list \<Rightarrow> recipe_error + unit" where
  "validate_runtime_inputs r inputs =
     (if set (map fst inputs) \<noteq> set (map fst (rc_inputs r)) then Inl RecipeExecutionError
      else if list_all (\<lambda>(name, t). case map_of inputs name of None \<Rightarrow> False | Some v \<Rightarrow> has_python_type t v) (rc_inputs r)
      then Inr () else Inl RecipeExecutionError)"

definition primitive_value :: "json \<Rightarrow> bool" where
  "primitive_value v \<longleftrightarrow> has_python_type PString v \<or> has_python_type PInteger v"

definition resolve_binding :: "(string \<times> json) list \<Rightarrow> binding \<Rightarrow> recipe_error + json" where
  "resolve_binding inputs b =
     bindE (case b of InputBinding name \<Rightarrow> require RecipeExecutionError (map_of inputs name) | LiteralBinding v \<Rightarrow> Inr v) (\<lambda>v.
       if primitive_value v then Inr v else Inl RecipeExecutionError)"

fun resolve_parameters :: "(string \<times> json) list \<Rightarrow> (string \<times> binding) list \<Rightarrow> recipe_error + (string \<times> json) list" where
  "resolve_parameters inputs [] = Inr []"
| "resolve_parameters inputs ((name, b) # bs) =
     bindE (resolve_binding inputs b) (\<lambda>v. bindE (resolve_parameters inputs bs) (\<lambda>vs. Inr ((name, v) # vs)))"

definition validate_primitive_parameters :: "string \<Rightarrow> (string \<times> json) list \<Rightarrow> recipe_error + (string \<times> json) list" where
  "validate_primitive_parameters capability parameters =
     (case validate_module_capability_parameters capability parameters of
        Inl ParameterValidationError \<Rightarrow> Inl RecipeExecutionError
      | Inl e \<Rightarrow> Inl e
      | Inr validated \<Rightarrow> Inr (filter (\<lambda>(n, v). primitive_value v) validated))"

fun plan_steps :: "(string \<times> json) list \<Rightarrow> int \<Rightarrow> recipe_step list \<Rightarrow> recipe_error + plan_item list" where
  "plan_steps inputs n [] = Inr []"
| "plan_steps inputs n (s # ss) =
     bindE (resolve_parameters inputs (rp_parameters s)) (\<lambda>parameters.
     bindE (validate_primitive_parameters (rp_capability s) parameters) (\<lambda>checked.
     bindE (plan_steps inputs (n + 1) ss) (\<lambda>rest.
       Inr (\<lparr>pi_sequence = n, pi_step_id = rp_step_id s, pi_capability = rp_capability s, pi_parameters = checked\<rparr> # rest))))"

definition build_recipe_command_plan :: "recipe_spec \<Rightarrow> (string \<times> json) list \<Rightarrow> recipe_error + plan_item list" where
  "build_recipe_command_plan r inputs =
     bindE (case validate_recipe_spec r of Inl RecipeValidationError \<Rightarrow> Inl RecipeExecutionError | x \<Rightarrow> x) (\<lambda>_.
     bindE (validate_runtime_inputs r inputs) (\<lambda>_.
       plan_steps inputs 0 (rc_steps r)))"

section \<open>The recipe contract\<close>

definition lower_or_digit :: "char \<Rightarrow> bool" where
  "lower_or_digit c \<longleftrightarrow> ascii_lower c \<or> ascii_digit c"

definition module_name_pattern :: "string \<Rightarrow> bool" where
  "module_name_pattern s \<longleftrightarrow>
     (case s of [] \<Rightarrow> False
      | c # cs \<Rightarrow> ascii_lower c \<and> length cs \<le> 63 \<and> list_all (\<lambda>d. lower_or_digit d \<or> d = CHR ''_'') cs)"

definition module_key_pattern :: "string \<Rightarrow> bool" where
  "module_key_pattern s \<longleftrightarrow>
     3 \<le> length s \<and> length s \<le> 128
     \<and> (let labels = split_on (CHR ''.'') s in
          2 \<le> length labels \<and> length labels \<le> 8
          \<and> list_all (\<lambda>l. case l of [] \<Rightarrow> False | c # cs \<Rightarrow> ascii_lower c \<and> list_all lower_or_digit cs) labels)"

definition recipe_step_ok :: "recipe_step \<Rightarrow> bool" where
  "recipe_step_ok s \<longleftrightarrow>
     module_name_pattern (rp_step_id s) \<and> rp_capability s \<in> set (map cd_capability module_capability_registry)
     \<and> length (rp_parameters s) \<le> 4 \<and> distinct (map fst (rp_parameters s))
     \<and> list_all (\<lambda>(n, b). module_name_pattern n
          \<and> (case b of InputBinding i \<Rightarrow> module_name_pattern i | LiteralBinding v \<Rightarrow> primitive_value v)) (rp_parameters s)"

text \<open>What \<open>EndpointRecipeModuleSpecV1\<close> accepts, its validator of unique names included.\<close>

definition recipe_spec_ok :: "recipe_spec \<Rightarrow> bool" where
  "recipe_spec_ok r \<longleftrightarrow>
     module_key_pattern (rc_module_key r)
     \<and> set (rc_platforms r) \<subseteq> {''linux_amd64'', ''windows_amd64''} \<and> rc_platforms r \<noteq> [] \<and> length (rc_platforms r) \<le> 2
     \<and> distinct (rc_platforms r)
     \<and> length (rc_inputs r) \<le> 8 \<and> list_all (\<lambda>(n, t). module_name_pattern n \<and> t \<noteq> PEnum) (rc_inputs r)
     \<and> distinct (map fst (rc_inputs r))
     \<and> rc_steps r \<noteq> [] \<and> length (rc_steps r) \<le> 8 \<and> list_all recipe_step_ok (rc_steps r)
     \<and> distinct (map rp_step_id (rc_steps r))"

fun closed_object :: "string list \<Rightarrow> json \<Rightarrow> (string \<times> json) list option" where
  "closed_object names (JObj m) = (if set (map fst m) \<subseteq> set names then Some m else None)"
| "closed_object names _ = None"

fun text_value :: "json option \<Rightarrow> string option" where
  "text_value (Some (JStr s)) = Some s"
| "text_value _ = None"

fun list_value :: "json option \<Rightarrow> json list option" where
  "list_value (Some (JList vs)) = Some vs"
| "list_value _ = None"

fun object_value :: "json option \<Rightarrow> (string \<times> json) list option" where
  "object_value (Some (JObj m)) = Some m"
| "object_value _ = None"

definition value_type_of :: "string \<Rightarrow> parameter_type option" where
  "value_type_of t = (if t = ''string'' then Some PString else if t = ''integer'' then Some PInteger else None)"

definition recipe_input_of :: "json \<Rightarrow> (string \<times> parameter_type) option" where
  "recipe_input_of j = do {
     m \<leftarrow> closed_object [''name'', ''value_type''] j;
     name \<leftarrow> text_value (map_of m ''name'');
     t \<leftarrow> Option.bind (text_value (map_of m ''value_type'')) value_type_of;
     Some (name, t) }"

definition binding_of :: "json \<Rightarrow> binding option" where
  "binding_of j = do {
     m \<leftarrow> closed_object [''kind'', ''name'', ''value''] j;
     kind \<leftarrow> text_value (map_of m ''kind'');
     if kind = ''input'' \<and> map_of m ''value'' = None then map_option InputBinding (text_value (map_of m ''name''))
     else if kind = ''literal'' \<and> map_of m ''name'' = None then map_option LiteralBinding (map_of m ''value'')
     else None }"

definition recipe_step_of :: "json \<Rightarrow> recipe_step option" where
  "recipe_step_of j = do {
     m \<leftarrow> closed_object [''step_id'', ''capability'', ''parameters''] j;
     step_id \<leftarrow> text_value (map_of m ''step_id'');
     capability \<leftarrow> text_value (map_of m ''capability'');
     ps \<leftarrow> object_value (map_of m ''parameters'');
     bs \<leftarrow> those (map (\<lambda>(n, v). map_option (Pair n) (binding_of v)) ps);
     Some \<lparr>rp_step_id = step_id, rp_capability = capability, rp_parameters = bs\<rparr> }"

definition recipe_of :: "json \<Rightarrow> recipe_spec option" where
  "recipe_of j = do {
     m \<leftarrow> closed_object [''schema_version'', ''module_key'', ''supported_platforms'', ''inputs'', ''steps''] j;
     version \<leftarrow> text_value (map_of m ''schema_version'');
     key \<leftarrow> text_value (map_of m ''module_key'');
     platforms \<leftarrow> Option.bind (list_value (map_of m ''supported_platforms'')) (\<lambda>vs. those (map (\<lambda>v. text_value (Some v)) vs));
     inputs \<leftarrow> (case map_of m ''inputs'' of None \<Rightarrow> Some [] | Some v \<Rightarrow>
                  Option.bind (list_value (Some v)) (\<lambda>vs. those (map recipe_input_of vs)));
     steps \<leftarrow> Option.bind (list_value (map_of m ''steps'')) (\<lambda>vs. those (map recipe_step_of vs));
     let r = \<lparr>rc_module_key = key, rc_platforms = platforms, rc_inputs = inputs, rc_steps = steps\<rparr> in
     if version = ''endpoint_recipe_module_v1'' \<and> recipe_spec_ok r then Some r else None }"

text \<open>\<open>model_dump(mode="json")\<close> of a recipe.\<close>

fun binding_json :: "binding \<Rightarrow> json" where
  "binding_json (InputBinding name) = JObj [(''kind'', JStr ''input''), (''name'', JStr name)]"
| "binding_json (LiteralBinding v) = JObj [(''kind'', JStr ''literal''), (''value'', v)]"

definition recipe_input_json :: "string \<times> parameter_type \<Rightarrow> json" where
  "recipe_input_json i =
     JObj [(''name'', JStr (fst i)), (''value_type'', JStr (if snd i = PInteger then ''integer'' else ''string''))]"

definition recipe_step_json :: "recipe_step \<Rightarrow> json" where
  "recipe_step_json s =
     JObj [(''step_id'', JStr (rp_step_id s)), (''capability'', JStr (rp_capability s)),
           (''parameters'', JObj (map (\<lambda>(n, b). (n, binding_json b)) (rp_parameters s)))]"

definition recipe_json :: "recipe_spec \<Rightarrow> json" where
  "recipe_json r =
     JObj [(''schema_version'', JStr ''endpoint_recipe_module_v1''), (''module_key'', JStr (rc_module_key r)),
           (''supported_platforms'', JList (map JStr (rc_platforms r))), (''inputs'', JList (map recipe_input_json (rc_inputs r))),
           (''steps'', JList (map recipe_step_json (rc_steps r)))]"

end
