(* ===== verification/Network_Targets.thy ===== *)
theory Network_Targets
  imports Module_Recipes
begin

text \<open>\<open>policy/network_targets.py\<close>: the fail-closed policy on the targets of network probes.\<close>

section \<open>The policy\<close>

datatype target_error = TargetDenied string | TargetValueError

record target_policy =
  tp_cidrs :: "ip_net list"
  tp_suffixes :: "string list"

definition policy_cidrs :: "string list \<Rightarrow> target_error + ip_net list" where
  "policy_cidrs values = require TargetValueError (those (map ip_network values))"

definition suffix_pattern :: "string \<Rightarrow> bool" where
  "suffix_pattern s \<longleftrightarrow> (case s of [] \<Rightarrow> False | c # rest \<Rightarrow> c = CHR ''.'' \<and> list_all label_ok (split_on (CHR ''.'') rest))"

definition lower_text :: "string \<Rightarrow> string" where
  "lower_text s = map lower_char s"

definition normalized_suffix :: "string \<Rightarrow> string option" where
  "normalized_suffix value =
     (if value \<noteq> py_strip value \<or> \<not> suffix_pattern (lower_text value) then None else Some (lower_text value))"

definition normalized_suffixes :: "string list \<Rightarrow> target_error + string list" where
  "normalized_suffixes values = map_sum id distinct_first (require TargetValueError (those (map normalized_suffix values)))"

definition policy_from_values :: "string list \<Rightarrow> string list \<Rightarrow> target_error + target_policy" where
  "policy_from_values allowed_cidrs allowed_suffixes =
     bindE (policy_cidrs allowed_cidrs) (\<lambda>nets.
     bindE (normalized_suffixes allowed_suffixes) (\<lambda>suffixes. Inr \<lparr>tp_cidrs = nets, tp_suffixes = suffixes\<rparr>))"

datatype parsed_target = TAddress ip_address | THost string

definition strip_dots :: "string \<Rightarrow> string" where
  "strip_dots s = rev (dropWhile (\<lambda>c. c = CHR ''.'') (rev s))"

definition parse_target :: "string \<Rightarrow> target_error + parsed_target" where
  "parse_target value =
     (if value \<noteq> py_strip value \<or> contains_text ''://'' value \<or> CHR ''/'' \<in> set value \<or> CHR ''@'' \<in> set value
      then Inl (TargetDenied ''network_target_invalid'')
      else case ip_address_text value of
        Some a \<Rightarrow> Inr (TAddress a)
      | None \<Rightarrow>
          if \<not> hostname_pattern value then Inl (TargetDenied ''network_target_invalid'')
          else Inr (THost (strip_dots (lower_text value))))"

text \<open>The address tests are those of the \<open>ipaddress\<close> module of Python 3.12: an IPv4-mapped IPv6 address is unspecified,
  multicast or link local when the address it maps is, but it is loopback only as an IPv6 address, so never.\<close>

definition ipv4_mapped :: "int \<Rightarrow> int option" where
  "ipv4_mapped a = (if a div 2 ^ 32 = 65535 then Some (a mod 2 ^ 32) else None)"

fun is_forbidden_address :: "ip_address \<Rightarrow> bool" where
  "is_forbidden_address (V4 a) =
     (a div 2 ^ 24 = 127 \<or> a = 0 \<or> a div 2 ^ 28 = 14 \<or> a div 2 ^ 16 = 43518 \<or> a = 4294967295)"
| "is_forbidden_address (V6 a) =
     (a = 1
      \<or> (case ipv4_mapped a of
           Some m \<Rightarrow> m = 0 \<or> m div 2 ^ 28 = 14 \<or> m div 2 ^ 16 = 43518
         | None \<Rightarrow> a = 0 \<or> a div 2 ^ 120 = 255 \<or> a div 2 ^ 118 = 1018))"

definition has_suffix :: "string \<Rightarrow> string \<Rightarrow> bool" where
  "has_suffix s e \<longleftrightarrow> length e \<le> length s \<and> drop (length s - length e) s = e"

definition require_allowed :: "target_policy \<Rightarrow> string \<Rightarrow> target_error + unit" where
  "require_allowed p target =
     (if tp_cidrs p = [] \<and> tp_suffixes p = [] then Inl (TargetDenied ''network_target_policy_not_configured'')
      else bindE (parse_target target) (\<lambda>parsed.
        case parsed of
          TAddress a \<Rightarrow>
            if is_forbidden_address a then Inl (TargetDenied ''network_target_forbidden_address'')
            else if list_ex (\<lambda>net. net_contains net a) (tp_cidrs p) then Inr ()
            else Inl (TargetDenied ''network_target_disallowed'')
        | THost host \<Rightarrow>
            if list_ex (\<lambda>e. has_suffix host e \<and> host \<noteq> tl e) (tp_suffixes p) then Inr ()
            else Inl (TargetDenied ''network_target_disallowed'')))"

section \<open>Label boundaries\<close>

text \<open>A host passes by a suffix exactly when it is a proper subdomain of the suffix's domain: more labels
  in front of the same labels.\<close>

definition labels :: "string \<Rightarrow> string list" where
  "labels s = split_on (CHR ''.'') s"

definition proper_subdomain :: "string \<Rightarrow> string \<Rightarrow> bool" where
  "proper_subdomain host domain \<longleftrightarrow> (\<exists>front. front \<noteq> [] \<and> labels host = front @ labels domain)"

end
