(* ===== verification/Context_Canonical.thy ===== *)
theory Context_Canonical
  imports Audit_Trail Ip_Network
begin

text \<open>
  The semantic identity of a Device Context snapshot: \<open>context/canonicalize.py\<close>, \<open>semantic_hash.py\<close>,
  \<open>diff.py\<close> and \<open>events.py\<close>. Snapshots are JSON values.

  \<open>digest\<close> is the SHA-256 of the sorted compact \<open>json.dumps\<close>, \<open>container_text\<close> is \<open>str\<close> of a list or a
  dictionary. A list of addresses holds texts only, as the contract of the network envelope demands.
\<close>

section \<open>Reading untrusted JSON\<close>

fun mapping_of :: "json \<Rightarrow> (string \<times> json) list" where
  "mapping_of (JObj kvs) = kvs"
| "mapping_of _ = []"

fun is_mapping :: "json \<Rightarrow> bool" where
  "is_mapping (JObj kvs) = True"
| "is_mapping _ = False"

definition get_field :: "(string \<times> json) list \<Rightarrow> string \<Rightarrow> json" where
  "get_field m name = (case map_of m name of None \<Rightarrow> JNull | Some v \<Rightarrow> v)"

definition get_default :: "(string \<times> json) list \<Rightarrow> string \<Rightarrow> json \<Rightarrow> json" where
  "get_default m name fallback = (case map_of m name of None \<Rightarrow> fallback | Some v \<Rightarrow> v)"

definition int_text :: "int \<Rightarrow> string" where
  "int_text n = (if n < 0 then ''-'' @ decimal_text (- n) else decimal_text n)"

fun py_str :: "(json \<Rightarrow> string) \<Rightarrow> json \<Rightarrow> string" where
  "py_str container_text JNull = ''None''"
| "py_str container_text (JBool b) = (if b then ''True'' else ''False'')"
| "py_str container_text (JInt n) = int_text n"
| "py_str container_text (JStr s) = s"
| "py_str container_text v = container_text v"

text \<open>Equality of Python values: the order of the keys of a dictionary does not matter and a boolean
  equals its integer. The keys of a dictionary are distinct.\<close>

function (sequential) py_eq :: "json \<Rightarrow> json \<Rightarrow> bool" where
  "py_eq JNull JNull = True"
| "py_eq (JBool a) (JBool b) = (a = b)"
| "py_eq (JBool a) (JInt n) = (n = (if a then 1 else 0))"
| "py_eq (JInt n) (JBool b) = (n = (if b then 1 else 0))"
| "py_eq (JInt m) (JInt n) = (m = n)"
| "py_eq (JStr s) (JStr t) = (s = t)"
| "py_eq (JList []) (JList []) = True"
| "py_eq (JList (v # vs)) (JList (w # ws)) = (py_eq v w \<and> py_eq (JList vs) (JList ws))"
| "py_eq (JObj []) (JObj kws) = (kws = [])"
| "py_eq (JObj ((k, v) # kvs)) (JObj kws) =
     (case map_of kws k of
        None \<Rightarrow> False
      | Some w \<Rightarrow> py_eq v w \<and> py_eq (JObj kvs) (JObj (filter (\<lambda>p. fst p \<noteq> k) kws)))"
| "py_eq _ _ = False"
  by pat_completeness auto
termination
  by (relation "measure (\<lambda>(v, w). size v)") auto

section \<open>Canonical forms\<close>

definition sort_text :: "(json \<Rightarrow> string) \<Rightarrow> json \<Rightarrow> string" where
  "sort_text container_text v = (if v = JNull then [] else py_str container_text v)"

definition stable_sorted :: "(json \<Rightarrow> string) \<Rightarrow> json \<Rightarrow> string list \<Rightarrow> json" where
  "stable_sorted container_text items names =
     (case items of
        JList vs \<Rightarrow>
          JList (map (\<lambda>values. JObj (zip names values))
            (sort_key (map (sort_text container_text))
              (map (\<lambda>item. map (get_field (mapping_of item)) names) (filter is_mapping vs))))
      | _ \<Rightarrow> JList [])"

definition section_of :: "json \<Rightarrow> (string \<times> json) list" where
  "section_of snapshot = mapping_of (get_field (mapping_of snapshot) ''sections'')"

definition pick :: "json \<Rightarrow> string list \<Rightarrow> json" where
  "pick source names = JObj (map (\<lambda>n. (n, get_field (mapping_of source) n)) names)"

definition has_profile :: "json \<Rightarrow> string \<Rightarrow> bool" where
  "has_profile snapshot profile \<longleftrightarrow> get_field (mapping_of snapshot) ''profile'' = JStr profile"

definition canonicalize_baseline :: "(json \<Rightarrow> string) \<Rightarrow> json \<Rightarrow> json option" where
  "canonicalize_baseline container_text snapshot =
     (if \<not> has_profile snapshot ''baseline_v1'' then None
      else
        let sections = section_of snapshot in
        Some (JObj
          [(''schema_version'', JStr ''device_context_baseline_canonical_v1''),
           (''profile'', JStr ''baseline_v1''),
           (''collected_at'', JNull),
           (''sections'', JObj
             [(''system'', pick (get_field sections ''system'') [''architecture'', ''distribution'', ''platform'']),
              (''hardware'', pick (get_field sections ''hardware'') [''cpu_model'', ''manufacturer'', ''memory_bytes'', ''model'']),
              (''storage'', stable_sorted container_text (get_field sections ''storage'') [''stable_key'', ''model'', ''size_bytes'']),
              (''interfaces'', stable_sorted container_text (get_field sections ''interfaces'') [''stable_key'', ''name'', ''link_type'']),
              (''software'', stable_sorted container_text (get_field sections ''software'') [''name'', ''source'', ''version''])])]))"

definition canonicalize_inventory :: "(json \<Rightarrow> string) \<Rightarrow> json \<Rightarrow> json option" where
  "canonicalize_inventory container_text snapshot =
     (if \<not> has_profile snapshot ''inventory_v1'' then None
      else
        let sections = section_of snapshot;
            memory = mapping_of (get_field sections ''memory'') in
        Some (JObj
          [(''schema_version'', JStr ''device_context_inventory_canonical_v1''),
           (''profile'', JStr ''inventory_v1''),
           (''collected_at'', JNull),
           (''sections'', JObj
             [(''system'', JObj (mapping_of (get_field sections ''system''))),
              (''hardware'', JObj (mapping_of (get_field sections ''hardware''))),
              (''memory'', JObj
                [(''total_bytes'', get_field memory ''total_bytes''),
                 (''memory_type'', get_field memory ''memory_type''),
                 (''modules'', stable_sorted container_text (get_field memory ''modules'')
                    [''slot'', ''serial'', ''capacity_bytes'', ''speed_mt_s'', ''memory_type''])]),
              (''storage'', stable_sorted container_text (get_field (mapping_of (get_field sections ''storage'')) ''physical_devices'')
                 [''stable_key'', ''model'', ''serial'', ''size_bytes'', ''media_type'', ''bus_type'']),
              (''interfaces'', stable_sorted container_text (get_field sections ''interfaces'')
                 [''stable_key'', ''mac'', ''name'', ''link_type'', ''operational_state''])])]))"

definition canonicalize_session :: "json \<Rightarrow> json option" where
  "canonicalize_session snapshot =
     (if \<not> has_profile snapshot ''session_v1'' then None
      else
        let sections = section_of snapshot in
        Some (JObj
          [(''profile'', JStr ''session_v1''),
           (''current_user_login'', get_field sections ''current_user_login''),
           (''interactive_session_present'', get_field sections ''interactive_session_present'')]))"

fun texts_of :: "json \<Rightarrow> string list" where
  "texts_of (JList vs) = concat (map (\<lambda>v. case v of JStr s \<Rightarrow> [s] | _ \<Rightarrow> []) vs)"
| "texts_of _ = []"

definition network_item :: "(json \<Rightarrow> string) \<Rightarrow> json \<Rightarrow> (string \<times> string list) \<times> json" where
  "network_item container_text interface =
     (let name = get_field (mapping_of interface) ''name'';
          addresses = sort (texts_of (get_field (mapping_of interface) ''addresses''))
      in ((py_str container_text name, addresses), JObj [(''name'', name), (''addresses'', JList (map JStr addresses))]))"

definition canonicalize_network :: "(json \<Rightarrow> string) \<Rightarrow> json \<Rightarrow> json option" where
  "canonicalize_network container_text snapshot =
     (if \<not> has_profile snapshot ''network_v1'' then None
      else
        let sections = section_of snapshot;
            route = mapping_of (get_field sections ''default_route'');
            items = (case get_field sections ''interfaces'' of
                       JList vs \<Rightarrow> map (network_item container_text) (filter is_mapping vs) | _ \<Rightarrow> [])
        in Some (JObj
          [(''profile'', JStr ''network_v1''),
           (''default_route'', JObj [(''interface'', get_field route ''interface''), (''gateway'', get_field route ''gateway'')]),
           (''interfaces'', JList (map snd (sort_key (\<lambda>item. fst (fst item) # snd (fst item)) items)))]))"

section \<open>Hashes\<close>

definition snapshot_semantic_hash :: "(json \<Rightarrow> string) \<Rightarrow> (json \<Rightarrow> string) \<Rightarrow> string \<Rightarrow> json \<Rightarrow> string option option" where
  "snapshot_semantic_hash digest container_text profile projection =
     (if profile = ''baseline_v1'' then map_option (\<lambda>c. Some (digest c)) (canonicalize_baseline container_text projection)
      else if profile = ''inventory_v1'' then map_option (\<lambda>c. Some (digest c)) (canonicalize_inventory container_text projection)
      else if profile = ''session_v1'' then map_option (\<lambda>c. Some (digest c)) (canonicalize_session projection)
      else if profile = ''network_v1'' then map_option (\<lambda>c. Some (digest c)) (canonicalize_network container_text projection)
      else Some None)"

section \<open>Comparing two snapshots\<close>

definition change_fields :: "(string \<times> string \<times> string) list" where
  "change_fields =
     [(''PLATFORM_CHANGED'', ''system'', ''Platform changed''), (''HARDWARE_CHANGED'', ''hardware'', ''Hardware changed''),
      (''STORAGE_CHANGED'', ''storage'', ''Storage changed''), (''NETWORK_CHANGED'', ''interfaces'', ''Network interfaces changed''),
      (''SOFTWARE_CHANGED'', ''software'', ''Software changed''), (''AGENT_CHANGED'', ''agent'', ''Agent changed'')]"

definition inventory_change_fields :: "(string \<times> string \<times> string) list" where
  "inventory_change_fields =
     [(''HARDWARE_CHANGED'', ''hardware'', ''Hardware changed''), (''RAM_CHANGED'', ''memory'', ''RAM configuration changed''),
      (''STORAGE_CHANGED'', ''storage'', ''Storage changed''),
      (''NETWORK_ADAPTER_CHANGED'', ''interfaces'', ''Network interfaces changed'')]"

record snapshot_diff =
  sd_profile :: string
  sd_from_hash :: string
  sd_to_hash :: string
  sd_changes :: "(string \<times> string) list"

definition field_changes :: "(string \<times> string \<times> string) list \<Rightarrow> (string \<times> json) list \<Rightarrow> (string \<times> json) list \<Rightarrow> (string \<times> string) list" where
  "field_changes entries before after =
     concat (map (\<lambda>(code, name, summary). if py_eq (get_field before name) (get_field after name) then [] else [(code, summary)]) entries)"

definition system_changes :: "(string \<times> json) list \<Rightarrow> (string \<times> json) list \<Rightarrow> (string \<times> string) list" where
  "system_changes before after =
     (case (get_field before ''system'', get_field after ''system'') of
        (JObj b, JObj a) \<Rightarrow>
          (if py_eq (get_field b ''hostname'') (get_field a ''hostname'') then [] else [(''HOSTNAME_CHANGED'', ''Hostname changed'')])
          @ (if list_all (\<lambda>n. py_eq (get_field b n) (get_field a n)) [''platform'', ''os_name'', ''os_version'', ''os_build'', ''architecture'']
             then [] else [(''OS_CHANGED'', ''Operating system changed'')])
      | _ \<Rightarrow> [])"

definition compare_snapshots :: "(json \<Rightarrow> string) \<Rightarrow> (json \<Rightarrow> string) \<Rightarrow> json \<Rightarrow> json \<Rightarrow> snapshot_diff option" where
  "compare_snapshots digest container_text before after =
     (if has_profile before ''baseline_v1'' \<and> has_profile after ''baseline_v1'' then
        (case (canonicalize_baseline container_text before, canonicalize_baseline container_text after) of
           (Some b, Some a) \<Rightarrow>
             Some \<lparr>sd_profile = ''baseline_v1'', sd_from_hash = digest b, sd_to_hash = digest a,
                   sd_changes = field_changes change_fields (section_of b) (section_of a)\<rparr>
         | _ \<Rightarrow> None)
      else if has_profile before ''inventory_v1'' \<and> has_profile after ''inventory_v1'' then
        (case (canonicalize_inventory container_text before, canonicalize_inventory container_text after) of
           (Some b, Some a) \<Rightarrow>
             Some \<lparr>sd_profile = ''inventory_v1'', sd_from_hash = digest b, sd_to_hash = digest a,
                   sd_changes = system_changes (section_of b) (section_of a)
                     @ field_changes inventory_change_fields (section_of b) (section_of a)\<rparr>
         | _ \<Rightarrow> None)
      else None)"

text \<open>The codes of the events of a change.\<close>

fun truthy :: "json \<Rightarrow> bool" where
  "truthy JNull = False"
| "truthy (JBool b) = b"
| "truthy (JInt n) = (n \<noteq> 0)"
| "truthy (JStr s) = (s \<noteq> [])"
| "truthy (JList vs) = (vs \<noteq> [])"
| "truthy (JObj kvs) = (kvs \<noteq> [])"

definition session_codes :: "json \<Rightarrow> json \<Rightarrow> string list" where
  "session_codes before after =
     (case (get_default (mapping_of before) ''sections'' (JObj []), get_default (mapping_of after) ''sections'' (JObj [])) of
        (JObj b, JObj a) \<Rightarrow>
          let was = truthy (get_field b ''interactive_session_present''); now = truthy (get_field a ''interactive_session_present'')
          in if \<not> was \<and> now then [''SESSION_STARTED'']
             else if was \<and> \<not> now then [''SESSION_ENDED'']
             else if \<not> py_eq (get_field b ''current_user_login'') (get_field a ''current_user_login'') then [''SESSION_USER_CHANGED'']
             else []
      | _ \<Rightarrow> [])"

text \<open>The event codes of a change, without repetitions, in the order of their first occurrence.\<close>

definition change_codes :: "string \<Rightarrow> json \<Rightarrow> json \<Rightarrow> snapshot_diff option \<Rightarrow> string list" where
  "change_codes profile before after diff =
     distinct_first
       (if profile = ''baseline_v1'' \<or> profile = ''inventory_v1'' then (case diff of None \<Rightarrow> [] | Some d \<Rightarrow> map fst (sd_changes d))
        else if profile = ''network_v1'' then [''NETWORK_CHANGED'']
        else if profile = ''session_v1'' then session_codes before after
        else [])"

end
