(* ===== verification/Module_Operations.thy ===== *)
theory Module_Operations
  imports Operations Network_Targets Context_Canonical
begin

text \<open>
  \<open>modules/operation_service.py\<close>: the creation of a module operation with all its queued steps. \<open>gen\<close> gives the
  successive \<open>uuid4()\<close> values, the operation's first. The creation holds the advisory lock of its key, so the
  branch for a lost race is not reached.
\<close>

datatype module_error =
    ModuleOperationError
  | ModuleOperationConflict
  | ModuleOperationNotFound
  | ModuleServiceError
  | ModuleLifecycleError
  | ModuleValueError
  | ModuleIntegrityError

definition module_operation_ttl :: int where
  "module_operation_ttl = seconds 90"

fun module_now :: "instant \<Rightarrow> moment option \<Rightarrow> module_error + instant" where
  "module_now clock None = Inr clock"
| "module_now clock (Some (Aware t)) = Inr t"
| "module_now clock (Some (Naive t)) = Inl ModuleOperationError"

definition module_idempotency_key :: "string \<Rightarrow> module_error + string" where
  "module_idempotency_key value =
     (if 8 \<le> length value \<and> length value \<le> 128 \<and> value = py_strip value \<and> list_all py_isprintable value
      then Inr value else Inl ModuleOperationError)"

definition step_sequences :: "uuid \<Rightarrow> plane_db \<Rightarrow> int list" where
  "step_sequences operation_id db = sort (map s_sequence (filter (\<lambda>s. s_operation_id s = operation_id) (g_steps db)))"

definition exact_existing_step_sequences :: "operation \<Rightarrow> int \<Rightarrow> plane_db \<Rightarrow> bool" where
  "exact_existing_step_sequences p expected db \<longleftrightarrow>
     o_expected_step_count p = Some expected \<and> step_sequences (o_id p) db = [0..expected - 1]"

definition mode_document :: "string \<Rightarrow> json" where
  "mode_document mode = JObj [(''execution_mode'', JStr mode)]"

definition matching_existing_operation ::
  "uuid \<Rightarrow> string \<Rightarrow> uuid \<Rightarrow> uuid \<Rightarrow> (string \<times> json) list \<Rightarrow> string \<Rightarrow> int \<Rightarrow> plane_db \<Rightarrow> module_error + operation option" where
  "matching_existing_operation client_id key device_id version_id inputs mode expected db =
     (case find (\<lambda>p. o_client_id p = client_id \<and> o_idempotency_key p = key) (g_operations db) of
        None \<Rightarrow> Inr None
      | Some p \<Rightarrow>
          if o_capability p \<noteq> ''endpoint.module.recipe'' \<or> o_device_id p \<noteq> device_id \<or> o_module_version_id p \<noteq> Some version_id
             \<or> \<not> (case o_module_inputs p of None \<Rightarrow> False | Some v \<Rightarrow> py_eq v (JObj inputs))
             \<or> \<not> py_eq (o_parameters p) (mode_document mode)
             \<or> \<not> exact_existing_step_sequences p expected db
          then Inl ModuleOperationConflict else Inr (Some p))"

definition find_version :: "string \<Rightarrow> string \<Rightarrow> plane_db \<Rightarrow> module_version option" where
  "find_version module_key version db =
     find (\<lambda>v. mv_version v = version \<and> list_ex (\<lambda>d. md_id d = mv_definition_id v \<and> md_module_key d = module_key) (g_definitions db))
       (g_versions db)"

definition probe_capabilities :: "string list" where
  "probe_capabilities = [''dns.resolve'', ''network.ping'', ''tcp.connect'', ''route.get'']"

fun targets_allowed :: "target_policy \<Rightarrow> plan_item list \<Rightarrow> module_error + unit" where
  "targets_allowed policy [] = Inr ()"
| "targets_allowed policy (i # rest) =
     (if pi_capability i \<notin> set probe_capabilities then targets_allowed policy rest
      else case map_of (pi_parameters i) ''target'' of
        Some (JStr target) \<Rightarrow>
          (case require_allowed policy target of Inl e \<Rightarrow> Inl ModuleOperationError | Inr u \<Rightarrow> targets_allowed policy rest)
      | _ \<Rightarrow> Inl ModuleOperationError)"

definition lift_recipe :: "recipe_error + 'a \<Rightarrow> module_error + 'a" where
  "lift_recipe r = (case r of Inl RecipeExecutionError \<Rightarrow> Inl ModuleOperationError | Inl e \<Rightarrow> Inl ModuleValueError | Inr x \<Rightarrow> Inr x)"

definition operation_plan :: "module_version \<Rightarrow> (string \<times> json) list \<Rightarrow> module_error + plan_item list" where
  "operation_plan v inputs =
     bindE (require ModuleOperationError (recipe_of (mv_recipe v))) (\<lambda>r. lift_recipe (build_recipe_command_plan r inputs))"

definition new_module_operation ::
  "uuid \<Rightarrow> instant \<Rightarrow> uuid \<Rightarrow> uuid \<Rightarrow> string \<Rightarrow> string \<Rightarrow> uuid \<Rightarrow> (string \<times> json) list \<Rightarrow> int \<Rightarrow> operation" where
  "new_module_operation identity at client_id device_id key mode version_id inputs expected =
     \<lparr>o_id = identity, o_created_at = at, o_client_id = client_id, o_device_id = device_id, o_idempotency_key = key,
      o_capability = ''endpoint.module.recipe'', o_parameters = mode_document mode, o_correlation = None, o_status = Queued,
      o_deadline_at = at + module_operation_ttl, o_completed_at = None, o_error_code = None, o_collection_id = None,
      o_command_id = None, o_module_version_id = Some version_id, o_module_inputs = Some (JObj inputs),
      o_expected_step_count = Some expected\<rparr>"

definition new_step :: "(nat \<Rightarrow> uuid) \<Rightarrow> uuid \<Rightarrow> nat \<times> plan_item \<Rightarrow> module_step" where
  "new_step gen operation_id numbered =
     (let i = snd numbered in
      \<lparr>s_id = gen (fst numbered), s_operation_id = operation_id, s_sequence = pi_sequence i, s_recipe_step_key = pi_step_id i,
       s_capability = pi_capability i, s_status = Queued, s_command_id = None, s_safe_result = None, s_error_code = None,
       s_started_at = None, s_completed_at = None\<rparr>)"

definition insert_module_operation ::
  "(nat \<Rightarrow> uuid) \<Rightarrow> instant \<Rightarrow> string \<Rightarrow> string \<Rightarrow> string \<Rightarrow> string \<Rightarrow> operation \<Rightarrow> plan_item list \<Rightarrow> plane_db \<Rightarrow> module_error + plane_db" where
  "insert_module_operation gen at client_name module_key version mode p plan db =
     bindE (append_audit_event ModuleValueError
       (audit ''service'' (Some client_name) ''endpoint.module_operation_created'' ''endpoint_operation'' (Some (uuid_text (o_id p)))
         (''module-operation-'' @ uuid_hex (o_id p))
         [(''module_key'', JStr module_key), (''module_version'', JStr version), (''device_id'', JStr (uuid_text (o_device_id p))),
          (''step_count'', JInt (int (length plan))), (''execution_mode'', JStr mode)] at) (g_audits db)) (\<lambda>audits.
     flush_plane ModuleIntegrityError
       (db\<lparr>g_operations := g_operations db @ [p], g_steps := g_steps db @ map (new_step gen (o_id p)) (List.enumerate 1 plan),
          g_audits := audits\<rparr>))"

definition executable_version :: "string \<Rightarrow> string \<Rightarrow> string \<Rightarrow> plane_db \<Rightarrow> module_error + module_version" where
  "executable_version module_key version mode db =
     (if mode \<noteq> ''published'' \<and> mode \<noteq> ''lab'' then Inl ModuleOperationError
      else case find_version module_key version db of
        None \<Rightarrow> Inl ModuleOperationNotFound
      | Some v \<Rightarrow>
          if mv_state v \<noteq> (if mode = ''published'' then ''published'' else ''validated'') then Inl ModuleOperationNotFound else Inr v)"

definition create_module_parent_operation ::
  "(nat \<Rightarrow> uuid) \<Rightarrow> instant \<Rightarrow> uuid option \<Rightarrow> uuid option \<Rightarrow> string \<Rightarrow> string \<Rightarrow> (string \<times> json) list \<Rightarrow> string \<Rightarrow> target_policy
   \<Rightarrow> string \<Rightarrow> moment option \<Rightarrow> plane_db \<Rightarrow> module_error + (plane_db \<times> operation \<times> bool)" where
  "create_module_parent_operation gen clock service_client_id device_id module_key version inputs key policy mode now db =
     bindE (require ModuleOperationError service_client_id) (\<lambda>client_id.
     bindE (require ModuleOperationError device_id) (\<lambda>device.
     bindE (module_idempotency_key key) (\<lambda>checked_key.
     bindE (module_now clock now) (\<lambda>at.
     bindE (require ModuleOperationNotFound (find (\<lambda>c. sc_id c = client_id \<and> sc_disabled_at c = None) (g_clients db))) (\<lambda>client.
     bindE (require ModuleOperationNotFound (find (\<lambda>d. dv_id d = device \<and> dv_retired_at d = None) (g_devices db))) (\<lambda>_.
     bindE (executable_version module_key version mode db) (\<lambda>v.
     bindE (operation_plan v inputs) (\<lambda>plan.
     bindE (targets_allowed policy plan) (\<lambda>_.
     bindE (matching_existing_operation client_id checked_key device (mv_id v) inputs mode (int (length plan)) db) (\<lambda>existing.
       case existing of
         Some p \<Rightarrow> Inr (db, p, False)
       | None \<Rightarrow>
           let p = new_module_operation (gen 0) at client_id device checked_key mode (mv_id v) inputs (int (length plan))
           in bindE (insert_module_operation gen at (sc_client_identifier client) module_key version mode p plan db) (\<lambda>db'.
                Inr (db', p, True))))))))))))"

end
