(* ===== verification/Module_Versions.thy ===== *)
theory Module_Versions
  imports Module_Operations
begin

text \<open>
  \<open>modules/lifecycle.py\<close> and \<open>modules/service.py\<close>: drafts, static validation, lab evidence, acceptance and
  publication of module versions. A version handed over by the caller is a row of the tables.
\<close>

section \<open>Lifecycle\<close>

definition lifecycle_transitions :: "(string \<times> string list) list" where
  "lifecycle_transitions =
     [(''draft'', [''validation_failed'', ''validated'', ''revoked'']),
      (''validation_failed'', [''validated'', ''revoked'']),
      (''validated'', [''lab_accepted'', ''validation_failed'', ''revoked'']),
      (''lab_accepted'', [''published'', ''revoked'']),
      (''published'', [''deprecated'', ''revoked'']),
      (''deprecated'', []),
      (''revoked'', [])]"

definition transition_module_version :: "string \<Rightarrow> string \<Rightarrow> module_error + string" where
  "transition_module_version current target =
     (if target \<in> set (case map_of lifecycle_transitions current of None \<Rightarrow> [] | Some ts \<Rightarrow> ts) then Inr target
      else Inl ModuleLifecycleError)"

section \<open>Tables\<close>

definition module_constraints :: "plane_db \<Rightarrow> bool" where
  "module_constraints db \<longleftrightarrow>
     distinct (map md_id (g_definitions db)) \<and> distinct (map md_module_key (g_definitions db))
     \<and> distinct (map mv_id (g_versions db)) \<and> distinct (map (\<lambda>v. (mv_definition_id v, mv_version v)) (g_versions db))
     \<and> list_all (\<lambda>r. vr_status r \<in> {''succeeded'', ''failed''}) (g_validation_runs db)
     \<and> list_all (\<lambda>t. lt_platform t \<in> {''linux_amd64'', ''windows_amd64''} \<and> lt_status t \<in> {''passed'', ''failed''}) (g_live_tests db)"

definition flush_modules :: "plane_db \<Rightarrow> module_error + plane_db" where
  "flush_modules db = (if plane_constraints db \<and> module_constraints db then Inr db else Inl ModuleIntegrityError)"

definition store_version :: "module_version \<Rightarrow> plane_db \<Rightarrow> plane_db" where
  "store_version v db = db\<lparr>g_versions := store_row mv_id v (g_versions db)\<rparr>"

section \<open>Drafts and validation\<close>

definition create_draft_version :: "recipe_spec option \<Rightarrow> module_error + string" where
  "create_draft_version recipe =
     (case recipe of
        None \<Rightarrow> Inl ModuleServiceError
      | Some r \<Rightarrow>
          (case validate_recipe_spec r of
             Inl RecipeValidationError \<Rightarrow> Inl ModuleServiceError
           | Inl e \<Rightarrow> Inl ModuleValueError
           | Inr u \<Rightarrow> Inr ''draft''))"

definition persist_draft_version ::
  "uuid \<Rightarrow> uuid \<Rightarrow> recipe_spec \<Rightarrow> string \<Rightarrow> string \<Rightarrow> plane_db \<Rightarrow> module_error + (plane_db \<times> module_version)" where
  "persist_draft_version definition_id version_id recipe display_name version db =
     bindE (create_draft_version (Some recipe)) (\<lambda>_.
     bindE (case find (\<lambda>d. md_module_key d = rc_module_key recipe) (g_definitions db) of
              Some d \<Rightarrow> Inr (db, d)
            | None \<Rightarrow>
                let d = \<lparr>md_id = definition_id, md_module_key = rc_module_key recipe, md_display_name = display_name\<rparr>
                in bindE (flush_modules (db\<lparr>g_definitions := g_definitions db @ [d]\<rparr>)) (\<lambda>db1. Inr (db1, d))) (\<lambda>(db1, d).
       if list_ex (\<lambda>v. mv_definition_id v = md_id d \<and> mv_version v = version) (g_versions db1) then Inl ModuleServiceError
       else
         let v = \<lparr>mv_id = version_id, mv_definition_id = md_id d, mv_version = version, mv_state = ''draft'', mv_recipe = recipe_json recipe\<rparr>
         in bindE (flush_modules (db1\<lparr>g_versions := g_versions db1 @ [v]\<rparr>)) (\<lambda>db2. Inr (db2, v))))"

definition transition_persisted_version :: "module_version \<Rightarrow> string \<Rightarrow> plane_db \<Rightarrow> module_error + (plane_db \<times> module_version)" where
  "transition_persisted_version v target db =
     bindE (transition_module_version (mv_state v) target) (\<lambda>state.
       let v' = v\<lparr>mv_state := state\<rparr> in bindE (flush_modules (store_version v' db)) (\<lambda>db'. Inr (db', v')))"

definition static_error_codes :: "module_version \<Rightarrow> module_error + string list" where
  "static_error_codes v =
     (case recipe_of (mv_recipe v) of
        None \<Rightarrow> Inr [''recipe_contract_invalid'']
      | Some r \<Rightarrow>
          (case validate_recipe_spec r of
             Inl RecipeValidationError \<Rightarrow> Inr [''recipe_catalog_invalid'']
           | Inl e \<Rightarrow> Inl ModuleValueError
           | Inr u \<Rightarrow> Inr []))"

definition validated_state :: "module_version \<Rightarrow> string list \<Rightarrow> module_error + string" where
  "validated_state v codes =
     (let target = (if codes = [] then ''validated'' else ''validation_failed'')
      in if mv_state v \<noteq> target then transition_module_version (mv_state v) target else Inr (mv_state v))"

definition validate_persisted_module_version ::
  "instant \<Rightarrow> module_version \<Rightarrow> plane_db \<Rightarrow> module_error + (plane_db \<times> module_version \<times> validation_run)" where
  "validate_persisted_module_version at v db =
     (if mv_state v \<notin> {''draft'', ''validation_failed''} then Inl ModuleServiceError
      else bindE (static_error_codes v) (\<lambda>codes.
        bindE (validated_state v codes) (\<lambda>state.
          let v' = v\<lparr>mv_state := state\<rparr>;
              run = \<lparr>vr_version_id = mv_id v, vr_validator = ''endpoint_recipe_static_v1'',
                     vr_status = (if codes = [] then ''succeeded'' else ''failed''), vr_error_codes = codes, vr_completed_at = at\<rparr>
          in bindE (flush_modules ((store_version v' db)\<lparr>g_validation_runs := g_validation_runs db @ [run]\<rparr>)) (\<lambda>db'.
               Inr (db', v', run)))))"

section \<open>Lab evidence\<close>

definition declared_platforms :: "module_version \<Rightarrow> module_error + string list" where
  "declared_platforms v = bindE (require ModuleServiceError (recipe_of (mv_recipe v))) (\<lambda>r. Inr (rc_platforms r))"

definition forbidden_snapshot_keys :: "string list" where
  "forbidden_snapshot_keys = [''command_payload'', ''raw_command'', ''raw_stderr'', ''raw_stdout'', ''recipe'', ''user_function_body'']"

fun forbidden_key :: "json \<Rightarrow> bool" where
  "forbidden_key (JObj kvs) = list_ex (\<lambda>(k, v). lower_text k \<in> set forbidden_snapshot_keys \<or> forbidden_key v) kvs"
| "forbidden_key (JList vs) = list_ex forbidden_key vs"
| "forbidden_key _ = False"

text \<open>\<open>rendered\<close> is the length in bytes of the sorted compact \<open>json.dumps\<close>, \<open>None\<close> when it does not serialize.\<close>

definition validate_safe_lab_snapshot :: "(json \<Rightarrow> nat option) \<Rightarrow> json \<Rightarrow> module_error + unit" where
  "validate_safe_lab_snapshot rendered snapshot =
     (if forbidden_key snapshot then Inl ModuleServiceError
      else bindE (require ModuleServiceError (rendered snapshot)) (\<lambda>size.
        if 131072 < size then Inl ModuleServiceError else Inr ()))"

definition steps_of :: "uuid \<Rightarrow> plane_db \<Rightarrow> module_step list" where
  "steps_of operation_id db = sort_key s_sequence (filter (\<lambda>s. s_operation_id s = operation_id) (g_steps db))"

definition lab_operation_ok :: "module_version \<Rightarrow> string list \<Rightarrow> operation \<Rightarrow> bool" where
  "lab_operation_ok v platforms p \<longleftrightarrow>
     o_capability p = ''endpoint.module.recipe'' \<and> o_module_version_id p = Some (mv_id v)
     \<and> get_field (mapping_of (o_parameters p)) ''execution_mode'' = JStr ''lab''
     \<and> get_field (mapping_of (o_parameters p)) ''execution_platform'' \<in> JStr ` ({''linux_amd64'', ''windows_amd64''} \<inter> set platforms)
     \<and> o_status p = Succeeded \<and> o_completed_at p \<noteq> None"

definition lab_steps_ok :: "operation \<Rightarrow> module_step list \<Rightarrow> bool" where
  "lab_steps_ok p steps \<longleftrightarrow>
     (case o_expected_step_count p of
        None \<Rightarrow> False
      | Some n \<Rightarrow> 1 \<le> n \<and> n \<le> 8 \<and> map s_sequence steps = [0..n - 1] \<and> list_all (\<lambda>s. s_status s = Succeeded) steps)"

definition optional_value :: "json option \<Rightarrow> json" where
  "optional_value v = (case v of None \<Rightarrow> JNull | Some w \<Rightarrow> w)"

definition lab_snapshot :: "operation \<Rightarrow> module_step list \<Rightarrow> json" where
  "lab_snapshot p steps =
     JObj [(''schema_version'', JStr ''module_live_test_snapshot_v1''), (''operation_status'', JStr (work_text (o_status p))),
           (''steps'', JList (map (\<lambda>s.
              JObj [(''sequence'', JInt (s_sequence s)), (''capability'', JStr (s_capability s)), (''status'', JStr (work_text (s_status s))),
                    (''error_code'', optional_json (s_error_code s)), (''safe_result'', optional_value (s_safe_result s))]) steps))]"

fun string_of_json :: "json \<Rightarrow> string" where
  "string_of_json (JStr s) = s"
| "string_of_json _ = []"

definition record_module_live_test ::
  "(json \<Rightarrow> nat option) \<Rightarrow> instant \<Rightarrow> module_version \<Rightarrow> uuid \<Rightarrow> plane_db \<Rightarrow> module_error + (plane_db \<times> live_test)" where
  "record_module_live_test rendered at v operation_id db =
     (if mv_state v \<notin> {''validated'', ''lab_accepted''} then Inl ModuleServiceError
      else bindE (require ModuleServiceError (find_row o_id operation_id (g_operations db))) (\<lambda>p.
           bindE (declared_platforms v) (\<lambda>platforms.
             if \<not> lab_operation_ok v platforms p then Inl ModuleServiceError
             else
               let steps = steps_of (o_id p) db in
               if \<not> lab_steps_ok p steps then Inl ModuleServiceError
               else bindE (validate_safe_lab_snapshot rendered (lab_snapshot p steps)) (\<lambda>_.
                 let t = \<lparr>lt_version_id = mv_id v,
                          lt_platform = string_of_json (get_field (mapping_of (o_parameters p)) ''execution_platform''),
                          lt_device_id = o_device_id p, lt_operation_id = operation_id, lt_status = ''passed'',
                          lt_snapshot = lab_snapshot p steps, lt_tested_at = at\<rparr>
                 in bindE (flush_modules (db\<lparr>g_live_tests := g_live_tests db @ [t]\<rparr>)) (\<lambda>db'. Inr (db', t))))))"

definition missing_passed_lab_platforms :: "module_version \<Rightarrow> plane_db \<Rightarrow> module_error + string list" where
  "missing_passed_lab_platforms v db =
     bindE (declared_platforms v) (\<lambda>platforms.
       Inr (filter (\<lambda>a. \<not> list_ex (\<lambda>t. lt_version_id t = mv_id v \<and> lt_status t = ''passed'' \<and> lt_platform t = a) (g_live_tests db)) platforms))"

section \<open>Acceptance and publication\<close>

definition accept_persisted_module_labs :: "module_version \<Rightarrow> plane_db \<Rightarrow> module_error + (plane_db \<times> module_version)" where
  "accept_persisted_module_labs v db =
     (if mv_state v \<noteq> ''validated'' then Inl ModuleServiceError
      else bindE (missing_passed_lab_platforms v db) (\<lambda>missing.
        if missing \<noteq> [] then Inl ModuleServiceError else transition_persisted_version v ''lab_accepted'' db))"

definition publish_persisted_module_version :: "module_version \<Rightarrow> plane_db \<Rightarrow> module_error + (plane_db \<times> module_version)" where
  "publish_persisted_module_version v db =
     (if mv_state v \<noteq> ''lab_accepted'' then Inl ModuleServiceError
      else bindE (missing_passed_lab_platforms v db) (\<lambda>missing.
        if missing \<noteq> [] then Inl ModuleServiceError else transition_persisted_version v ''published'' db))"

end
