(* ===== verification/Module_Routes.thy ===== *)
theory Module_Routes
  imports Module_Versions
begin

text \<open>
  The service routes of \<open>modules/routes.py\<close> that change module versions. The caller is the client identifier of
  the authenticated service; \<open>request_id\<close> is \<open>audit_request_id(request)\<close> and \<open>clock\<close> the time of the audit event.
\<close>

datatype route_error = Http int string | Raised module_error

record route_call =
  rq_client :: string
  rq_request_id :: string
  rq_clock :: instant

text \<open>\<open>except ModuleServiceError\<close>: any other exception reaches the framework.\<close>

definition on_service_error :: "string \<Rightarrow> module_error + 'a \<Rightarrow> route_error + 'a" where
  "on_service_error code r =
     (case r of Inr x \<Rightarrow> Inr x | Inl e \<Rightarrow> if e = ModuleServiceError then Inl (Http 409 code) else Inl (Raised e))"

lemma on_service_error_Inr [simp]: "on_service_error code r = Inr x \<longleftrightarrow> r = Inr x"
  by (auto simp: on_service_error_def split: sum.splits)

definition audit_version ::
  "route_call \<Rightarrow> string \<Rightarrow> uuid \<Rightarrow> (string \<times> json) list \<Rightarrow> plane_db \<Rightarrow> route_error + plane_db" where
  "audit_version rq action version_id details db =
     bindE (append_audit_event (Raised ModuleValueError)
       (audit ''service'' (Some (rq_client rq)) action ''module_version'' (Some (uuid_text version_id)) (rq_request_id rq) details (rq_clock rq))
       (g_audits db)) (\<lambda>audits. Inr (db\<lparr>g_audits := audits\<rparr>))"

definition known_version :: "string \<Rightarrow> string \<Rightarrow> plane_db \<Rightarrow> route_error + module_version" where
  "known_version module_key version db =
     require (Http 404 ''endpoint_module_version_not_found'') (find_version module_key version db)"

definition state_details :: "string \<Rightarrow> string \<Rightarrow> module_version \<Rightarrow> (string \<times> json) list" where
  "state_details module_key version v =
     [(''module_key'', JStr module_key), (''version'', JStr version), (''state'', JStr (mv_state v))]"

definition create_module_version ::
  "route_call \<Rightarrow> uuid \<Rightarrow> uuid \<Rightarrow> recipe_spec \<Rightarrow> string \<Rightarrow> string \<Rightarrow> plane_db \<Rightarrow> route_error + plane_db" where
  "create_module_version rq definition_id version_id recipe display_name version db =
     bindE (on_service_error ''endpoint_module_version_conflict''
       (persist_draft_version definition_id version_id recipe display_name version db)) (\<lambda>(db1, v).
       audit_version rq ''endpoint.module_version_created'' (mv_id v) (state_details (rc_module_key recipe) version v) db1)"

definition validate_module_version :: "route_call \<Rightarrow> instant \<Rightarrow> string \<Rightarrow> string \<Rightarrow> plane_db \<Rightarrow> route_error + plane_db" where
  "validate_module_version rq at module_key version db =
     bindE (known_version module_key version db) (\<lambda>v.
     bindE (on_service_error ''endpoint_module_validation_conflict'' (validate_persisted_module_version at v db)) (\<lambda>(db1, v', run).
       audit_version rq ''endpoint.module_validation_completed'' (mv_id v')
         [(''module_key'', JStr module_key), (''version'', JStr version), (''status'', JStr (vr_status run)),
          (''error_codes'', JList (map JStr (vr_error_codes run)))] db1))"

definition publish_module_version :: "route_call \<Rightarrow> string \<Rightarrow> string \<Rightarrow> plane_db \<Rightarrow> route_error + plane_db" where
  "publish_module_version rq module_key version db =
     bindE (known_version module_key version db) (\<lambda>v.
     bindE (on_service_error ''endpoint_module_publication_conflict'' (publish_persisted_module_version v db)) (\<lambda>(db1, v').
       audit_version rq ''endpoint.module_published'' (mv_id v') (state_details module_key version v') db1))"

definition record_module_live_test_route ::
  "route_call \<Rightarrow> (json \<Rightarrow> nat option) \<Rightarrow> instant \<Rightarrow> string \<Rightarrow> string \<Rightarrow> uuid \<Rightarrow> plane_db \<Rightarrow> route_error + plane_db" where
  "record_module_live_test_route rq rendered at module_key version operation_id db =
     bindE (known_version module_key version db) (\<lambda>v.
     bindE (on_service_error ''endpoint_module_live_test_conflict'' (record_module_live_test rendered at v operation_id db)) (\<lambda>(db1, t).
       audit_version rq ''endpoint.module_live_test_recorded'' (mv_id v)
         [(''module_key'', JStr module_key), (''version'', JStr version), (''platform'', JStr (lt_platform t)),
          (''status'', JStr (lt_status t))] db1))"

definition accept_module_labs :: "route_call \<Rightarrow> string \<Rightarrow> string \<Rightarrow> plane_db \<Rightarrow> route_error + plane_db" where
  "accept_module_labs rq module_key version db =
     bindE (known_version module_key version db) (\<lambda>v.
     bindE (on_service_error ''endpoint_module_lab_acceptance_conflict'' (accept_persisted_module_labs v db)) (\<lambda>(db1, v').
       audit_version rq ''endpoint.module_labs_accepted'' (mv_id v') (state_details module_key version v') db1))"

definition deprecate_module_version :: "route_call \<Rightarrow> string \<Rightarrow> string \<Rightarrow> plane_db \<Rightarrow> route_error + plane_db" where
  "deprecate_module_version rq module_key version db =
     bindE (known_version module_key version db) (\<lambda>v.
     bindE (on_service_error ''endpoint_module_deprecation_conflict'' (transition_persisted_version v ''deprecated'' db)) (\<lambda>(db1, v').
       audit_version rq ''endpoint.module_deprecated'' (mv_id v') (state_details module_key version v') db1))"

section \<open>Requests\<close>

datatype module_request =
    CreateVersion route_call uuid uuid recipe_spec string string
  | ValidateVersion route_call instant string string
  | PublishVersion route_call string string
  | RecordLiveTest route_call "json \<Rightarrow> nat option" instant string string uuid
  | AcceptLabs route_call string string
  | DeprecateVersion route_call string string
  | CreateModuleOperation "nat \<Rightarrow> uuid" instant "uuid option" "uuid option" string string "(string \<times> json) list" string target_policy
      string "moment option"

fun module_exec :: "module_request \<Rightarrow> plane_db \<Rightarrow> route_error + plane_db" where
  "module_exec (CreateVersion rq d v recipe name version) db = create_module_version rq d v recipe name version db"
| "module_exec (ValidateVersion rq at key version) db = validate_module_version rq at key version db"
| "module_exec (PublishVersion rq key version) db = publish_module_version rq key version db"
| "module_exec (RecordLiveTest rq rendered at key version oid) db = record_module_live_test_route rq rendered at key version oid db"
| "module_exec (AcceptLabs rq key version) db = accept_module_labs rq key version db"
| "module_exec (DeprecateVersion rq key version) db = deprecate_module_version rq key version db"
| "module_exec (CreateModuleOperation gen clock client device key version inputs idem policy mode now) db =
     map_sum Raised fst (create_module_parent_operation gen clock client device key version inputs idem policy mode now db)"

end
