(* ===== verification/Module_Histories.thy ===== *)
theory Module_Histories
  imports Module_Routes Operation_Laws
begin

text \<open>
  Histories of module requests: what the state of a version says about its lab evidence, and what of a version
  never changes.
\<close>

section \<open>Lab evidence\<close>

text \<open>The test names an operation of the table: a recipe operation of this very version, run in lab mode on the platform of the
  test, which has succeeded; the sequence numbers of the steps the table holds for it are exactly the expected ones, every
  one of these steps has succeeded, and the snapshot of the test is taken from them.\<close>

definition lab_run :: "plane_db \<Rightarrow> module_version \<Rightarrow> live_test \<Rightarrow> operation \<Rightarrow> bool" where
  "lab_run db v t p \<longleftrightarrow>
     o_id p = lt_operation_id t \<and> o_capability p = ''endpoint.module.recipe'' \<and> o_module_version_id p = Some (mv_id v)
     \<and> get_field (mapping_of (o_parameters p)) ''execution_mode'' = JStr ''lab''
     \<and> get_field (mapping_of (o_parameters p)) ''execution_platform'' = JStr (lt_platform t)
     \<and> o_status p = Succeeded
     \<and> (\<exists>n. o_expected_step_count p = Some n \<and> 1 \<le> n
          \<and> s_sequence ` {s \<in> set (g_steps db). s_operation_id s = o_id p} = {0..n - 1})
     \<and> (\<forall>s\<in>{s \<in> set (g_steps db). s_operation_id s = o_id p}. s_status s = Succeeded)
     \<and> lt_snapshot t = lab_snapshot p (steps_of (o_id p) db)"

definition genuine :: "plane_db \<Rightarrow> module_version \<Rightarrow> live_test \<Rightarrow> bool" where
  "genuine db v t \<longleftrightarrow>
     lt_version_id t = mv_id v \<and> lt_status t = ''passed'' \<and> (\<exists>p\<in>set (g_operations db). lab_run db v t p)"

definition version_evidence :: "plane_db \<Rightarrow> module_version \<Rightarrow> bool" where
  "version_evidence db v \<longleftrightarrow>
     (\<exists>r. recipe_of (mv_recipe v) = Some r
        \<and> (\<forall>a\<in>set (rc_platforms r). \<exists>t\<in>set (g_live_tests db). lt_platform t = a \<and> genuine db v t))"

definition tested_states :: "string list" where
  "tested_states = [''lab_accepted'', ''published'', ''deprecated'']"

definition module_inv :: "plane_db \<Rightarrow> bool" where
  "module_inv db \<longleftrightarrow>
     distinct (map mv_id (g_versions db))
     \<and> (\<forall>v\<in>set (g_versions db). mv_state v \<in> set tested_states \<longrightarrow> version_evidence db v)
     \<and> (\<forall>t\<in>set (g_live_tests db). \<exists>v\<in>set (g_versions db). genuine db v t)"

definition same_version :: "module_version \<Rightarrow> module_version \<Rightarrow> bool" where
  "same_version v w \<longleftrightarrow>
     mv_id w = mv_id v \<and> mv_definition_id w = mv_definition_id v \<and> mv_version w = mv_version v \<and> mv_recipe w = mv_recipe v"

text \<open>Module requests add operations and their steps, and change none that is there.\<close>

definition operations_kept :: "plane_db \<Rightarrow> plane_db \<Rightarrow> bool" where
  "operations_kept db db' \<longleftrightarrow>
     (\<forall>p\<in>set (g_operations db). p \<in> set (g_operations db')
        \<and> filter (\<lambda>s. s_operation_id s = o_id p) (g_steps db') = filter (\<lambda>s. s_operation_id s = o_id p) (g_steps db))"

definition module_le :: "plane_db \<Rightarrow> plane_db \<Rightarrow> bool" where
  "module_le db db' \<longleftrightarrow>
     (\<forall>v\<in>set (g_versions db). \<exists>w\<in>set (g_versions db'). same_version v w)
     \<and> set (g_live_tests db) \<subseteq> set (g_live_tests db') \<and> (\<exists>events. g_audits db' = g_audits db @ events)
     \<and> operations_kept db db'"

lemma operations_kept_refl: "g_operations db' = g_operations db \<Longrightarrow> g_steps db' = g_steps db \<Longrightarrow> operations_kept db db'"
  by (simp add: operations_kept_def)

lemma lab_run_same:
  assumes "mv_id w = mv_id v"
    "filter (\<lambda>s. s_operation_id s = o_id p) (g_steps db') = filter (\<lambda>s. s_operation_id s = o_id p) (g_steps db)"
  shows "lab_run db' w t p = lab_run db v t p"
proof -
  have "{s \<in> set (g_steps db'). s_operation_id s = o_id p} = {s \<in> set (g_steps db). s_operation_id s = o_id p}"
    by (simp only: set_filter [symmetric] assms(2))
  moreover have "steps_of (o_id p) db' = steps_of (o_id p) db" by (simp only: steps_of_def assms(2))
  ultimately show ?thesis by (simp only: lab_run_def assms(1))
qed

lemma genuine_same:
  assumes "same_version v w" "operations_kept db db'" "genuine db v t"
  shows "genuine db' w t"
proof -
  have w: "mv_id w = mv_id v" using assms(1) by (simp add: same_version_def)
  have "lab_run db' w t p" "p \<in> set (g_operations db')" if "p \<in> set (g_operations db)" "lab_run db v t p" for p
    using that assms(2) lab_run_same [OF w, of p db' db t] unfolding operations_kept_def by blast+
  then show ?thesis using assms(3) unfolding genuine_def w by blast
qed

lemma evidence_same:
  assumes "same_version v w" "set (g_live_tests db) \<subseteq> set (g_live_tests db')" "operations_kept db db'" "version_evidence db v"
  shows "version_evidence db' w"
proof -
  obtain r where r: "recipe_of (mv_recipe v) = Some r"
      and all: "\<forall>a\<in>set (rc_platforms r). \<exists>t\<in>set (g_live_tests db). lt_platform t = a \<and> genuine db v t"
    using assms(4) by (auto simp: version_evidence_def)
  have "\<forall>a\<in>set (rc_platforms r). \<exists>t\<in>set (g_live_tests db'). lt_platform t = a \<and> genuine db' w t"
    using all assms(2) genuine_same [OF assms(1,3)] by blast
  moreover have "recipe_of (mv_recipe w) = Some r" using assms(1) r by (simp add: same_version_def)
  ultimately show ?thesis unfolding version_evidence_def by blast
qed

lemma same_version_refl [simp]: "same_version v v" "same_version v (v\<lparr>mv_state := s\<rparr>)"
  by (simp_all add: same_version_def)

lemma module_le_refl: "module_le db db"
  by (auto simp: module_le_def intro: same_version_refl operations_kept_refl)

lemma operations_kept_trans: "operations_kept a b \<Longrightarrow> operations_kept b c \<Longrightarrow> operations_kept a c"
  by (simp add: operations_kept_def)

lemma same_version_trans: "same_version u v \<Longrightarrow> same_version v w \<Longrightarrow> same_version u w"
  by (simp add: same_version_def)

lemma module_le_trans:
  assumes "module_le a b" "module_le b c"
  shows "module_le a c"
proof -
  have "\<forall>v\<in>set (g_versions a). \<exists>w\<in>set (g_versions c). same_version v w"
    using assms same_version_trans unfolding module_le_def by blast
  moreover have "set (g_live_tests a) \<subseteq> set (g_live_tests c)" "\<exists>events. g_audits c = g_audits a @ events"
    using assms by (auto simp: module_le_def)
  moreover have "operations_kept a c" using assms operations_kept_trans unfolding module_le_def by blast
  ultimately show ?thesis unfolding module_le_def by blast
qed

section \<open>Steps\<close>

text \<open>A version that changes its state only.\<close>

lemma module_step_state:
  assumes inv: "module_inv db" and v: "v \<in> set (g_versions db)"
    and versions: "g_versions db' = store_row mv_id (v\<lparr>mv_state := s\<rparr>) (g_versions db)"
    and tests: "g_live_tests db' = g_live_tests db" and audits: "\<exists>events. g_audits db' = g_audits db @ events"
    and kept_ops: "g_operations db' = g_operations db" "g_steps db' = g_steps db"
    and evidence: "s \<in> set tested_states \<Longrightarrow> version_evidence db v"
  shows "module_inv db' \<and> module_le db db'"
proof -
  let ?v = "v\<lparr>mv_state := s\<rparr>"
  have d: "distinct (map mv_id (g_versions db))" using inv by (simp add: module_inv_def)
  have rows: "w \<in> set (g_versions db') \<longleftrightarrow> w = ?v \<or> w \<in> set (g_versions db) \<and> mv_id w \<noteq> mv_id v" for w
    using v by (auto simp: versions in_set_store_row)
  have kept: "\<exists>w\<in>set (g_versions db'). same_version u w" if u: "u \<in> set (g_versions db)" for u
  proof (cases "mv_id u = mv_id v")
    case True
    then have "u = v" using d u v by (auto dest: distinct_map_inj)
    then show ?thesis using rows by (intro bexI [of _ ?v]) simp_all
  next
    case False
    then show ?thesis using u rows by (intro bexI [of _ u]) simp_all
  qed
  note ops = operations_kept_refl [OF kept_ops]
  have "module_le db db'" using kept audits ops by (simp add: module_le_def tests)
  moreover have "module_inv db'"
    unfolding module_inv_def
  proof (intro conjI ballI impI)
    show "distinct (map mv_id (g_versions db'))" using d by (simp add: versions)
    fix w assume w: "w \<in> set (g_versions db')" and s: "mv_state w \<in> set tested_states"
    show "version_evidence db' w"
    proof (cases "w = ?v")
      case True
      then show ?thesis using s evidence ops by (auto simp: tests intro: evidence_same [of v])
    next
      case False
      then have "version_evidence db w" using w s inv by (auto simp: rows module_inv_def)
      then show ?thesis by (intro evidence_same [OF same_version_refl(1) _ ops]) (simp_all add: tests)
    qed
  next
    fix t assume "t \<in> set (g_live_tests db')"
    then obtain u where "u \<in> set (g_versions db)" "genuine db u t" using inv by (auto simp: module_inv_def tests)
    with kept [of u] show "\<exists>w\<in>set (g_versions db'). genuine db' w t" by (metis genuine_same ops)
  qed
  ultimately show ?thesis by simp
qed

text \<open>Rows that are added only.\<close>

lemma module_step_grow:
  assumes inv: "module_inv db" and versions: "g_versions db' = g_versions db @ vs" and fresh: "distinct (map mv_id (g_versions db'))"
    and draft: "\<forall>v\<in>set vs. mv_state v \<notin> set tested_states"
    and tests: "g_live_tests db' = g_live_tests db @ ts" and good: "\<forall>t\<in>set ts. \<exists>v\<in>set (g_versions db). genuine db v t"
    and audits: "\<exists>events. g_audits db' = g_audits db @ events" and ops: "operations_kept db db'"
  shows "module_inv db' \<and> module_le db db'"
proof -
  have e: "version_evidence db' v" if "version_evidence db v" for v
    using that by (intro evidence_same [OF same_version_refl(1) _ ops]) (auto simp: tests)
  have g: "\<exists>v\<in>set (g_versions db'). genuine db' v t" if "t \<in> set (g_live_tests db')" for t
  proof -
    have "\<exists>v\<in>set (g_versions db). genuine db v t" using that inv good by (auto simp: module_inv_def tests)
    then show ?thesis using genuine_same [OF same_version_refl(1) ops] by (auto simp: versions)
  qed
  have "module_inv db'"
    unfolding module_inv_def using inv draft fresh g
    by (auto simp: module_inv_def versions intro: e)
  moreover have "module_le db db'"
    using audits ops by (auto simp: module_le_def versions tests intro: same_version_refl)
  ultimately show ?thesis by simp
qed

section \<open>Services\<close>

lemma flush_modules_Inr [simp]: "flush_modules db = Inr db' \<longleftrightarrow> plane_constraints db \<and> module_constraints db \<and> db' = db"
  by (auto simp: flush_modules_def)

lemma transition_persisted_Inr:
  assumes "transition_persisted_version v target db = Inr (db', v')"
  shows "v' = v\<lparr>mv_state := target\<rparr> \<and> db' = store_version v' db"
  using assms by (auto simp: transition_persisted_version_def transition_module_version_def Let_def split: if_splits)

lemma missing_none:
  assumes "module_inv db" "v \<in> set (g_versions db)" "missing_passed_lab_platforms v db = Inr []"
  shows "version_evidence db v"
proof -
  obtain r where r: "recipe_of (mv_recipe v) = Some r"
      and all: "\<forall>a\<in>set (rc_platforms r). \<exists>t\<in>set (g_live_tests db). lt_version_id t = mv_id v \<and> lt_status t = ''passed'' \<and> lt_platform t = a"
    using assms(3) by (force simp: missing_passed_lab_platforms_def declared_platforms_def filter_empty_conv list_ex_iff)
  have "genuine db v t" if t: "t \<in> set (g_live_tests db)" "lt_version_id t = mv_id v" for t
  proof -
    obtain w where w: "w \<in> set (g_versions db)" "genuine db w t" using assms(1) t by (auto simp: module_inv_def)
    then have "mv_id w = mv_id v" using t by (simp add: genuine_def)
    then have "w = v" using assms(1,2) w by (auto simp: module_inv_def dest: distinct_map_inj)
    with w show ?thesis by simp
  qed
  with r all show ?thesis by (auto simp: version_evidence_def)
qed

lemma audit_version_Inr:
  "audit_version rq action i details db = Inr db' \<Longrightarrow> \<exists>e. db' = db\<lparr>g_audits := g_audits db @ [e]\<rparr>"
  by (auto simp: audit_version_def)

lemma known_version_member: "known_version key version db = Inr v \<Longrightarrow> v \<in> set (g_versions db)"
  by (auto simp: known_version_def find_version_def dest: find_SomeD)

lemma create_module_version_step:
  assumes inv: "module_inv db" and "create_module_version rq d i recipe name version db = Inr db'"
  shows "module_inv db' \<and> module_le db db'"
proof -
  obtain db1 v where one: "persist_draft_version d i recipe name version db = Inr (db1, v)"
      and "audit_version rq ''endpoint.module_version_created'' (mv_id v) (state_details (rc_module_key recipe) version v) db1 = Inr db'"
    using assms(2) by (auto simp: create_module_version_def)
  then obtain e where db': "db' = db1\<lparr>g_audits := g_audits db1 @ [e]\<rparr>" by (auto dest: audit_version_Inr)
  have "g_versions db1 = g_versions db @ [v]" "mv_state v = ''draft''" "g_live_tests db1 = g_live_tests db"
      "g_audits db1 = g_audits db" "module_constraints db1"
      "g_operations db1 = g_operations db" "g_steps db1 = g_steps db"
    using one by (auto simp: persist_draft_version_def Let_def split: option.splits if_splits)
  then show ?thesis
    by (intro module_step_grow [OF inv, where vs = "[v]" and ts = "[]"])
      (auto simp: db' tested_states_def module_constraints_def intro: operations_kept_refl)
qed

lemma validate_persisted_Inr:
  assumes "validate_persisted_module_version at v db = Inr (db1, v', run)"
  shows "\<exists>s\<in>{''validated'', ''validation_failed''}. v' = v\<lparr>mv_state := s\<rparr>
    \<and> db1 = (store_version v' db)\<lparr>g_validation_runs := g_validation_runs db @ [run]\<rparr>"
proof -
  obtain codes state where st: "validated_state v codes = Inr state"
      and rest: "v' = v\<lparr>mv_state := state\<rparr>" "db1 = (store_version v' db)\<lparr>g_validation_runs := g_validation_runs db @ [run]\<rparr>"
    using assms by (auto simp: validate_persisted_module_version_def Let_def split: if_split_asm)
  have "state \<in> {''validated'', ''validation_failed''}"
    using st by (auto simp: validated_state_def transition_module_version_def Let_def split: if_splits)
  then show ?thesis using rest by blast
qed

lemma validate_module_version_step:
  assumes inv: "module_inv db" and "validate_module_version rq at key version db = Inr db'"
  shows "module_inv db' \<and> module_le db db'"
proof -
  obtain v db1 v' run where v: "v \<in> set (g_versions db)" and one: "validate_persisted_module_version at v db = Inr (db1, v', run)"
      and db': "\<exists>e. db' = db1\<lparr>g_audits := g_audits db1 @ [e]\<rparr>"
    using assms(2) by (auto simp: validate_module_version_def) (metis known_version_member audit_version_Inr)
  obtain s where s: "s \<in> {''validated'', ''validation_failed''}" "v' = v\<lparr>mv_state := s\<rparr>"
      and db1: "db1 = (store_version v' db)\<lparr>g_validation_runs := g_validation_runs db @ [run]\<rparr>"
    using validate_persisted_Inr [OF one] by blast
  show ?thesis
    using db' s by (intro module_step_state [OF inv v, of _ s]) (auto simp: db1 store_version_def tested_states_def)
qed

lemma tested_transition_step:
  assumes inv: "module_inv db" and v: "v \<in> set (g_versions db)" and ev: "version_evidence db v"
    and one: "transition_persisted_version v target db = Inr (db1, v')" and db': "\<exists>e. db' = db1\<lparr>g_audits := g_audits db1 @ [e]\<rparr>"
  shows "module_inv db' \<and> module_le db db'"
  using db' transition_persisted_Inr [OF one] ev
  by (intro module_step_state [OF inv v, of _ target]) (auto simp: store_version_def)

lemma accept_module_labs_step:
  assumes inv: "module_inv db" and "accept_module_labs rq key version db = Inr db'"
  shows "module_inv db' \<and> module_le db db'"
proof -
  obtain v db1 v' where v: "v \<in> set (g_versions db)" and one: "accept_persisted_module_labs v db = Inr (db1, v')"
      and db': "\<exists>e. db' = db1\<lparr>g_audits := g_audits db1 @ [e]\<rparr>"
    using assms(2) by (auto simp: accept_module_labs_def) (metis known_version_member audit_version_Inr)
  have "missing_passed_lab_platforms v db = Inr []" "transition_persisted_version v ''lab_accepted'' db = Inr (db1, v')"
    using one by (auto simp: accept_persisted_module_labs_def split: if_splits)
  then show ?thesis using tested_transition_step [OF inv v missing_none [OF inv v]] db' by blast
qed

lemma publish_module_version_step:
  assumes inv: "module_inv db" and "publish_module_version rq key version db = Inr db'"
  shows "module_inv db' \<and> module_le db db'"
proof -
  obtain v db1 v' where v: "v \<in> set (g_versions db)" and one: "publish_persisted_module_version v db = Inr (db1, v')"
      and db': "\<exists>e. db' = db1\<lparr>g_audits := g_audits db1 @ [e]\<rparr>"
    using assms(2) by (auto simp: publish_module_version_def) (metis known_version_member audit_version_Inr)
  have "missing_passed_lab_platforms v db = Inr []" "transition_persisted_version v ''published'' db = Inr (db1, v')"
    using one by (auto simp: publish_persisted_module_version_def split: if_splits)
  then show ?thesis using tested_transition_step [OF inv v missing_none [OF inv v]] db' by blast
qed

text \<open>Only a published version can be deprecated.\<close>

lemma deprecate_from_published:
  "transition_module_version s ''deprecated'' = Inr t \<Longrightarrow> s = ''published''"
  by (auto simp: transition_module_version_def lifecycle_transitions_def split: if_splits)

lemma deprecate_module_version_step:
  assumes inv: "module_inv db" and "deprecate_module_version rq key version db = Inr db'"
  shows "module_inv db' \<and> module_le db db'"
proof -
  obtain v db1 v' where v: "v \<in> set (g_versions db)" and one: "transition_persisted_version v ''deprecated'' db = Inr (db1, v')"
      and db': "\<exists>e. db' = db1\<lparr>g_audits := g_audits db1 @ [e]\<rparr>"
    using assms(2) by (auto simp: deprecate_module_version_def) (metis known_version_member audit_version_Inr)
  have "mv_state v = ''published''"
    using one by (auto simp: transition_persisted_version_def dest: deprecate_from_published)
  then have "version_evidence db v" using inv v by (auto simp: module_inv_def tested_states_def)
  with one db' show ?thesis by (rule tested_transition_step [OF inv v, rotated])
qed

lemma lab_steps_set:
  assumes "lab_steps_ok p (steps_of (o_id p) db)"
  shows "\<exists>n. o_expected_step_count p = Some n \<and> 1 \<le> n \<and> s_sequence ` {s \<in> set (g_steps db). s_operation_id s = o_id p} = {0..n - 1}"
    and "\<forall>s\<in>{s \<in> set (g_steps db). s_operation_id s = o_id p}. s_status s = Succeeded"
proof -
  have rows: "{s \<in> set (g_steps db). s_operation_id s = o_id p} = set (steps_of (o_id p) db)" by (auto simp: steps_of_def)
  obtain n where n: "o_expected_step_count p = Some n" "1 \<le> n" "map s_sequence (steps_of (o_id p) db) = [0..n - 1]"
      and all: "list_all (\<lambda>s. s_status s = Succeeded) (steps_of (o_id p) db)"
    using assms by (auto simp: lab_steps_ok_def split: option.splits)
  have "s_sequence ` set (steps_of (o_id p) db) = {0..n - 1}"
    using arg_cong [OF n(3), of set] by simp
  with n(1,2) show "\<exists>n. o_expected_step_count p = Some n \<and> 1 \<le> n
      \<and> s_sequence ` {s \<in> set (g_steps db). s_operation_id s = o_id p} = {0..n - 1}" unfolding rows by blast
  show "\<forall>s\<in>{s \<in> set (g_steps db). s_operation_id s = o_id p}. s_status s = Succeeded"
    unfolding rows using all by (simp add: list_all_iff)
qed

lemma lab_operation_genuine:
  assumes "lab_operation_ok v platforms p" "lab_steps_ok p (steps_of (o_id p) db)" "p \<in> set (g_operations db)"
  shows "genuine db v \<lparr>lt_version_id = mv_id v,
      lt_platform = string_of_json (get_field (mapping_of (o_parameters p)) ''execution_platform''),
      lt_device_id = dev, lt_operation_id = o_id p, lt_status = ''passed'',
      lt_snapshot = lab_snapshot p (steps_of (o_id p) db), lt_tested_at = at\<rparr>"
proof -
  obtain a where "get_field (mapping_of (o_parameters p)) ''execution_platform'' = JStr a"
    using assms(1) by (auto simp: lab_operation_ok_def)
  then have "lab_run db v \<lparr>lt_version_id = mv_id v,
      lt_platform = string_of_json (get_field (mapping_of (o_parameters p)) ''execution_platform''),
      lt_device_id = dev, lt_operation_id = o_id p, lt_status = ''passed'',
      lt_snapshot = lab_snapshot p (steps_of (o_id p) db), lt_tested_at = at\<rparr> p"
    unfolding lab_run_def using assms(1) lab_steps_set [OF assms(2)]
    by (simp only: lab_operation_ok_def live_test.simps string_of_json.simps simp_thms)
  then show ?thesis using assms(3) by (auto simp: genuine_def)
qed

lemma record_live_test_step:
  assumes inv: "module_inv db" and "record_module_live_test_route rq rendered at key version oid db = Inr db'"
  shows "module_inv db' \<and> module_le db db'"
proof -
  obtain v db1 t where v: "v \<in> set (g_versions db)" and one: "record_module_live_test rendered at v oid db = Inr (db1, t)"
      and db': "\<exists>e. db' = db1\<lparr>g_audits := g_audits db1 @ [e]\<rparr>"
    using assms(2) by (auto simp: record_module_live_test_route_def) (metis known_version_member audit_version_Inr)
  obtain p r where p: "find_row o_id oid (g_operations db) = Some p" and r: "recipe_of (mv_recipe v) = Some r"
      and ok: "lab_operation_ok v (rc_platforms r) p" "lab_steps_ok p (steps_of (o_id p) db)"
      and t: "t = \<lparr>lt_version_id = mv_id v,
                   lt_platform = string_of_json (get_field (mapping_of (o_parameters p)) ''execution_platform''),
                   lt_device_id = o_device_id p, lt_operation_id = oid, lt_status = ''passed'',
                   lt_snapshot = lab_snapshot p (steps_of (o_id p) db), lt_tested_at = at\<rparr>"
      and db1: "db1 = db\<lparr>g_live_tests := g_live_tests db @ [t]\<rparr>" "module_constraints db1"
    using one by (auto simp: record_module_live_test_def declared_platforms_def Let_def split: if_splits)
  have "genuine db v t"
    using lab_operation_genuine [OF ok] find_row_SomeD [OF p] by (simp add: t)
  then show ?thesis
    using v db' db1 by (intro module_step_grow [OF inv, where vs = "[]" and ts = "[t]"])
      (auto simp: module_constraints_def intro: operations_kept_refl)
qed

text \<open>A new operation has an identifier of its own, so its steps belong to no operation that is already there.\<close>

lemma create_module_operation_kept:
  assumes "create_module_parent_operation gen clock client device key version inputs idem policy mode now db = Inr (db', p, fresh)"
  shows "operations_kept db db'"
proof (cases fresh)
  case False
  then have "db' = db"
    using assms by (auto simp: create_module_parent_operation_def Let_def split: option.splits)
  then show ?thesis by (simp add: operations_kept_refl)
next
  case True
  obtain plan where db': "g_operations db' = g_operations db @ [p]"
      "g_steps db' = g_steps db @ map (new_step gen (o_id p)) (List.enumerate 1 plan)" and "plane_constraints db'"
    using assms True
    by (auto simp: create_module_parent_operation_def insert_module_operation_def Let_def split: option.splits)
  then have "distinct (map o_id (g_operations db @ [p]))"
    by (simp add: plane_constraints_def operations_constraints_def)
  then have "o_id p \<noteq> o_id q" if "q \<in> set (g_operations db)" for q using that by (auto simp: image_iff)
  then show ?thesis unfolding operations_kept_def db' by (simp add: filter_empty_conv new_step_def Let_def)
qed

lemma create_module_operation_step:
  assumes inv: "module_inv db"
    and "create_module_parent_operation gen clock client device key version inputs idem policy mode now db = Inr (db', p, fresh)"
  shows "module_inv db' \<and> module_le db db'"
proof -
  have "g_versions db' = g_versions db" "g_live_tests db' = g_live_tests db" "\<exists>events. g_audits db' = g_audits db @ events"
    using assms(2)
    by (auto simp: create_module_parent_operation_def insert_module_operation_def Let_def split: option.splits)
  then show ?thesis
    using inv create_module_operation_kept [OF assms(2)]
    by (intro module_step_grow [OF inv, where vs = "[]" and ts = "[]"]) (auto simp: module_inv_def)
qed

lemma module_exec_step:
  assumes "module_inv db" "module_exec c db = Inr db'"
  shows "module_inv db' \<and> module_le db db'"
  using assms
  by (cases c)
    (auto simp: map_sum_def split: sum.splits
      dest: create_module_version_step validate_module_version_step publish_module_version_step record_live_test_step
        accept_module_labs_step deprecate_module_version_step create_module_operation_step)

interpretation modules: transactional_trail module_exec module_inv module_le
  by unfold_locales (use module_exec_step module_le_refl module_le_trans in blast)+

end
