(* ===== verification/Network_Laws.thy ===== *)
theory Network_Laws
  imports Network_Targets "HOL-Library.Code_Target_Nat"
begin

text \<open>
  Laws of the target policy: a suffix matches at label boundaries only, and the forbidden addresses are the
  reserved networks.
\<close>

section \<open>Label boundaries\<close>

lemma split_on_append: "split_on c (a @ c # b) = split_on c a @ split_on c b"
  by (induction a) (auto split: list.splits)

lemma join_Cons: "ys \<noteq> [] \<Longrightarrow> join sep (x # ys) = x @ sep @ join sep ys"
  by (cases ys) (auto simp: join_def)

lemma join_split: "join [c] (split_on c s) = s"
proof (induction s)
  case (Cons x s)
  then show ?case
    by (cases "split_on c s") (auto simp: join_Cons join_def)
qed (simp add: join_def)

lemma join_append: "xs \<noteq> [] \<Longrightarrow> ys \<noteq> [] \<Longrightarrow> join sep (xs @ ys) = join sep xs @ sep @ join sep ys"
proof (induction xs)
  case (Cons x xs)
  then show ?case by (cases "xs = []") (simp_all add: join_Cons, simp add: join_def)
qed simp

lemma has_suffix_append: "has_suffix s e \<longleftrightarrow> (\<exists>front. s = front @ e)"
  unfolding has_suffix_def by (metis append_take_drop_id append_eq_conv_conj diff_add_inverse2 le_add2 length_append)

lemma suffix_is_subdomain: "has_suffix host (CHR ''.'' # domain) \<longleftrightarrow> proper_subdomain host domain"
proof
  assume "has_suffix host (CHR ''.'' # domain)"
  then obtain front where "host = front @ CHR ''.'' # domain" by (auto simp: has_suffix_append)
  then show "proper_subdomain host domain"
    unfolding proper_subdomain_def labels_def by (auto simp: split_on_append intro!: exI [of _ "split_on (CHR ''.'') front"])
next
  assume "proper_subdomain host domain"
  then obtain front where front: "front \<noteq> []" and "labels host = front @ labels domain"
    by (auto simp: proper_subdomain_def)
  then have "host = join ''.'' (front @ split_on (CHR ''.'') domain)"
    using join_split [of "CHR ''.''" host] by (simp add: labels_def)
  then have "host = join ''.'' front @ ''.'' @ domain"
    using front join_split [of "CHR ''.''" domain] by (simp add: join_append)
  then show "has_suffix host (CHR ''.'' # domain)" by (auto simp: has_suffix_append)
qed

lemma subdomain_differs: "proper_subdomain host domain \<Longrightarrow> host \<noteq> domain"
  by (auto simp: proper_subdomain_def)

section \<open>Networks as intervals\<close>

definition in_network :: "ip_net \<Rightarrow> ip_address \<Rightarrow> bool" where
  "in_network net a \<longleftrightarrow>
     (case a of
        V4 n \<Rightarrow> n_version net = 4 \<and> n_base net \<le> n \<and> n < n_base net + 2 ^ (32 - n_prefix net)
      | V6 n \<Rightarrow> n_version net = 6 \<and> n_base net \<le> n \<and> n < n_base net + 2 ^ (128 - n_prefix net))"

lemma net_contains_in: "host_bits_clear net \<Longrightarrow> net_contains net a \<longleftrightarrow> in_network net a"
  by (cases a) (simp_all only: in_network_def net_contains_interval ip_address.case)

text \<open>The reserved networks: loopback, unspecified, multicast, link local and the limited broadcast, and the IPv4-mapped
  images of the unspecified, multicast and link-local ones.\<close>

definition reserved_networks :: "string list" where
  "reserved_networks =
     [''127.0.0.0/8'', ''0.0.0.0/32'', ''224.0.0.0/4'', ''169.254.0.0/16'', ''255.255.255.255/32'',
      ''::1/128'', ''::/128'', ''ff00::/8'', ''fe80::/10'',
      ''::ffff:0.0.0.0/128'', ''::ffff:224.0.0.0/100'', ''::ffff:169.254.0.0/112'']"

definition reserved_nets :: "ip_net list" where
  "reserved_nets =
     map (\<lambda>(v, b, l). \<lparr>n_version = v, n_base = b, n_prefix = l, n_scope = None\<rparr>)
       [(4, 2130706432, 8), (4, 0, 32), (4, 3758096384, 4), (4, 2851995648, 16), (4, 4294967295, 32),
        (6, 1, 128), (6, 0, 128), (6, 255 * 2 ^ 120, 8), (6, 1018 * 2 ^ 118, 10),
        (6, 65535 * 2 ^ 32, 128), (6, 65535 * 2 ^ 32 + 3758096384, 100), (6, 65535 * 2 ^ 32 + 2851995648, 112)]"

lemma reserved_parsed: "map ip_network reserved_networks = map Some reserved_nets"
  by code_simp

lemma div_interval: "0 < m \<Longrightarrow> (a :: int) div m = k \<longleftrightarrow> k * m \<le> a \<and> a < k * m + m"
proof
  assume m: "0 < m" and "a div m = k"
  then show "k * m \<le> a \<and> a < k * m + m"
    using div_mult_mod_eq [of a m] pos_mod_bound [OF m, of a] pos_mod_sign [OF m, of a] by auto
next
  assume "0 < m" and "k * m \<le> a \<and> a < k * m + m"
  then show "a div m = k"
    by (intro int_div_pos_eq [where r = "a - k * m"]) (auto simp: algebra_simps)
qed

lemma ipv4_mapped_Some: "ipv4_mapped a = Some m \<longleftrightarrow> 0 \<le> m \<and> m < 2 ^ 32 \<and> a = 65535 * 2 ^ 32 + m"
proof -
  have "ipv4_mapped a = Some m \<longleftrightarrow> a div 2 ^ 32 = 65535 \<and> m = a - 65535 * 2 ^ 32"
    using minus_div_mult_eq_mod [of a "2 ^ 32"] by (auto simp: ipv4_mapped_def)
  then show ?thesis unfolding div_interval [OF zero_less_power [OF zero_less_numeral]] by auto
qed

lemma forbidden_is_reserved: "is_forbidden_address a \<longleftrightarrow> (\<exists>net\<in>set reserved_nets. in_network net a)"
proof (cases a)
  case (V4 n)
  then show ?thesis by (auto simp: reserved_nets_def in_network_def div_interval)
next
  case (V6 n)
  show ?thesis
  proof (cases "ipv4_mapped n")
    case None
    then have "n div 4294967296 \<noteq> 65535" by (auto simp: ipv4_mapped_def split: if_splits)
    with None show ?thesis by (auto simp: V6 reserved_nets_def in_network_def div_interval)
  next
    case (Some m)
    then have n: "0 \<le> m" "m < 2 ^ 32" "n = 65535 * 2 ^ 32 + m" by (simp_all only: ipv4_mapped_Some)
    have "is_forbidden_address (V6 n) \<longleftrightarrow>
        m = 0 \<or> 3758096384 \<le> m \<and> m < 4026531840 \<or> 2851995648 \<le> m \<and> m < 2852061184"
      using Some n(1,3) by (simp only: is_forbidden_address.simps option.case) (simp add: div_interval)
    then show ?thesis using n by (auto simp: V6 reserved_nets_def in_network_def)
  qed
qed

section \<open>The decision\<close>

lemma those_map_Some: "those (map f xs) = Some ys \<Longrightarrow> (y \<in> set ys \<longleftrightarrow> (\<exists>x\<in>set xs. f x = Some y))"
  by (induction xs arbitrary: ys) (auto split: option.splits)

lemma policy_from_values_Inr:
  assumes "policy_from_values cidrs domains = Inr p"
  shows "net \<in> set (tp_cidrs p) \<longleftrightarrow> (\<exists>c\<in>set cidrs. ip_network c = Some net)"
    and "e \<in> set (tp_suffixes p) \<longleftrightarrow> (\<exists>s\<in>set domains. normalized_suffix s = Some e)"
proof -
  obtain nets es where nets: "those (map ip_network cidrs) = Some nets" and es: "those (map normalized_suffix domains) = Some es"
      and p: "tp_cidrs p = nets" "tp_suffixes p = distinct_first es"
    using assms by (auto simp: policy_from_values_def policy_cidrs_def normalized_suffixes_def map_sum_def split: sum.splits)
  show "net \<in> set (tp_cidrs p) \<longleftrightarrow> (\<exists>c\<in>set cidrs. ip_network c = Some net)"
    using those_map_Some [OF nets] p by simp
  show "e \<in> set (tp_suffixes p) \<longleftrightarrow> (\<exists>s\<in>set domains. normalized_suffix s = Some e)"
    using those_map_Some [OF es] p by simp
qed

lemma normalized_suffix_shape: "normalized_suffix s = Some e \<Longrightarrow> e = CHR ''.'' # tl e \<and> tl e \<noteq> []"
  by (auto simp: normalized_suffix_def suffix_pattern_def label_ok_def split: if_splits list.splits)

end
