(* ===== verification/Module_Recipe_Laws.thy ===== *)
theory Module_Recipe_Laws
  imports Network_Targets
begin

text \<open>
  Laws of recipes: the registry and the parameter contracts say the same, a stored recipe is read back as it was
  written, and a plan holds typed commands only.
\<close>

section \<open>The registry and the parameter contracts\<close>

fun field_described :: "parameter_descriptor \<Rightarrow> string \<times> field_type \<Rightarrow> bool" where
  "field_described d (n, FInt lo hi) = (pd_name d = n \<and> pd_type d = PInteger \<and> pd_minimum d = Some lo \<and> pd_maximum d = Some hi)"
| "field_described d (n, FLiteral vs) = (pd_name d = n \<and> pd_type d = PEnum \<and> pd_enum d = Some vs)"
| "field_described d (n, t) = (pd_name d = n \<and> pd_type d = PString)"

definition model_described :: "capability_descriptor \<Rightarrow> bool" where
  "model_described c \<longleftrightarrow>
     (case map_of parameter_models (cd_capability c) of
        None \<Rightarrow> False | Some model \<Rightarrow> list_all2 field_described (cd_parameters c) model)"

lemma registry_described: "list_all model_described module_capability_registry"
  by code_simp

lemma module_capability_descriptor_SomeD:
  "module_capability_descriptor k = Some c \<Longrightarrow> c \<in> set module_capability_registry \<and> cd_capability c = k"
  unfolding module_capability_descriptor_def by (drule find_SomeD) simp

lemma descriptor_model:
  assumes "module_capability_descriptor k = Some c" and "map_of parameter_models k = Some model"
  shows "list_all2 field_described (cd_parameters c) model"
  using assms registry_described module_capability_descriptor_SomeD [OF assms(1)]
  by (auto simp: list_all_iff model_described_def dest!: bspec)

section \<open>Typed parameters\<close>

text \<open>What the published descriptor of a parameter says about its values.\<close>

definition descriptor_accepts :: "parameter_descriptor \<Rightarrow> json \<Rightarrow> bool" where
  "descriptor_accepts d v \<longleftrightarrow>
     (case v of
        JInt n \<Rightarrow> pd_type d = PInteger \<and> (case pd_minimum d of None \<Rightarrow> True | Some lo \<Rightarrow> lo \<le> n)
                  \<and> (case pd_maximum d of None \<Rightarrow> True | Some hi \<Rightarrow> n \<le> hi)
      | JStr s \<Rightarrow> s \<noteq> [] \<and> pd_type d = PString \<or> pd_type d = PEnum \<and> (case pd_enum d of None \<Rightarrow> False | Some vs \<Rightarrow> s \<in> set vs)
      | _ \<Rightarrow> False)"

lemma field_ok_accepts: "field_described d (n, t) \<Longrightarrow> field_ok t v \<Longrightarrow> descriptor_accepts d v"
  by (cases t; cases v) (auto simp: descriptor_accepts_def)

lemma field_ok_primitive: "field_ok t v \<Longrightarrow> primitive_value v"
  by (cases t; cases v) (auto simp: primitive_value_def)

lemma field_described_name: "field_described d (n, t) \<Longrightarrow> pd_name d = n"
  by (cases t) auto

text \<open>Parameters that carry exactly what a primitive declares.\<close>

definition parameters_typed :: "string \<Rightarrow> (string \<times> json) list \<Rightarrow> bool" where
  "parameters_typed capability parameters \<longleftrightarrow>
     (\<exists>c. module_capability_descriptor capability = Some c
        \<and> list_all2 (\<lambda>d (n, v). n = pd_name d \<and> descriptor_accepts d v) (cd_parameters c) parameters)"

lemma validated_parameters_typed:
  assumes "validate_module_capability_parameters k ps = Inr qs"
  shows "parameters_typed k qs" and "list_all (\<lambda>(n, v). primitive_value v) qs"
proof -
  obtain c model where c: "module_capability_descriptor k = Some c" and m: "map_of parameter_models k = Some model"
      and ok: "list_all (\<lambda>(n, t). case map_of ps n of None \<Rightarrow> False | Some v \<Rightarrow> field_ok t v) model"
      and qs: "qs = map (\<lambda>(n, t). (n, the (map_of ps n))) model"
    using assms by (auto simp: validate_module_capability_parameters_def fields_ok_def split: option.splits if_splits)
  have each: "field_ok t (the (map_of ps n))" if "(n, t) \<in> set model" for n t
    using ok that by (force simp: list_all_iff split: option.splits)
  show "list_all (\<lambda>(n, v). primitive_value v) qs"
    using each by (auto simp: qs list_all_iff intro: field_ok_primitive)
  have "list_all2 (\<lambda>d (n, v). n = pd_name d \<and> descriptor_accepts d v) (cd_parameters c) qs"
    unfolding qs list_all2_map2 using descriptor_model [OF c m]
    by (rule list.rel_mono_strong) (auto dest: field_described_name intro!: field_ok_accepts each)
  with c show "parameters_typed k qs" by (auto simp: parameters_typed_def)
qed

lemma validate_primitive_typed:
  assumes "validate_primitive_parameters k ps = Inr qs"
  shows "parameters_typed k qs"
proof -
  obtain vs where vs: "validate_module_capability_parameters k ps = Inr vs" and "qs = filter (\<lambda>(n, v). primitive_value v) vs"
    using assms by (auto simp: validate_primitive_parameters_def split: sum.splits recipe_error.splits)
  then have "qs = vs"
    using validated_parameters_typed(2) [OF vs] by (auto simp: list_all_iff filter_id_conv)
  then show ?thesis using validated_parameters_typed(1) [OF vs] by simp
qed

section \<open>Plans\<close>

lemma plan_steps_shape:
  "plan_steps inputs n ss = Inr plan \<Longrightarrow>
     length plan = length ss \<and> map pi_sequence plan = map (\<lambda>i. n + int i) [0..<length ss]
     \<and> map pi_step_id plan = map rp_step_id ss \<and> map pi_capability plan = map rp_capability ss
     \<and> (\<forall>i\<in>set plan. parameters_typed (pi_capability i) (pi_parameters i))"
proof (induction ss arbitrary: n plan)
  case (Cons s ss)
  then obtain ps qs rest where qs: "validate_primitive_parameters (rp_capability s) ps = Inr qs"
      and rest: "plan_steps inputs (n + 1) ss = Inr rest"
      and plan: "plan = \<lparr>pi_sequence = n, pi_step_id = rp_step_id s, pi_capability = rp_capability s, pi_parameters = qs\<rparr> # rest"
    by auto
  have "[0..<length (s # ss)] = 0 # map Suc [0..<length ss]"
    by (simp add: upt_conv_Cons map_Suc_upt del: upt_Suc)
  then show ?case
    using Cons.IH [OF rest] validate_primitive_typed [OF qs] by (simp add: plan algebra_simps)
qed simp

lemma build_plan_Inr:
  "build_recipe_command_plan r inputs = Inr plan \<Longrightarrow> plan_steps inputs 0 (rc_steps r) = Inr plan"
  by (auto simp: build_recipe_command_plan_def)

section \<open>Stored recipes\<close>

lemma those_inverse: "(\<And>x. x \<in> set xs \<Longrightarrow> f (g x) = Some x) \<Longrightarrow> those (map f (map g xs)) = Some xs"
  by (induction xs) auto

lemma recipe_input_inverse: "snd i \<noteq> PEnum \<Longrightarrow> recipe_input_of (recipe_input_json i) = Some i"
  by (cases i; cases "snd i") (auto simp: recipe_input_of_def recipe_input_json_def value_type_of_def)

lemma binding_inverse: "binding_of (binding_json b) = Some b"
  by (cases b) (auto simp: binding_of_def)

lemma recipe_step_inverse: "recipe_step_of (recipe_step_json s) = Some s"
proof -
  have "those (map (\<lambda>(n, v). map_option (Pair n) (binding_of v)) (map (\<lambda>(n, b). (n, binding_json b)) (rp_parameters s)))
      = Some (rp_parameters s)"
    by (rule those_inverse) (auto simp: binding_inverse)
  then show ?thesis by (simp add: recipe_step_of_def recipe_step_json_def)
qed

lemma recipe_inverse:
  assumes "recipe_spec_ok r"
  shows "recipe_of (recipe_json r) = Some r"
proof -
  have i: "those (map recipe_input_of (map recipe_input_json (rc_inputs r))) = Some (rc_inputs r)"
    using assms by (intro those_inverse) (auto simp: recipe_spec_ok_def list_all_iff intro!: recipe_input_inverse)
  have s: "those (map recipe_step_of (map recipe_step_json (rc_steps r))) = Some (rc_steps r)"
    by (intro those_inverse recipe_step_inverse)
  have p: "those (map (\<lambda>v. text_value (Some v)) (map JStr (rc_platforms r))) = Some (rc_platforms r)"
    by (intro those_inverse) simp
  have e: "\<lparr>rc_module_key = rc_module_key r, rc_platforms = rc_platforms r, rc_inputs = rc_inputs r, rc_steps = rc_steps r\<rparr> = r"
    by simp
  show ?thesis using assms i s p by (simp add: recipe_of_def recipe_json_def Let_def e)
qed

lemma recipe_of_ok: "recipe_of j = Some r \<Longrightarrow> recipe_spec_ok r"
  by (auto simp: recipe_of_def Let_def bind_eq_Some_conv split: if_splits)

end
