(* ===== verification/Module_Properties.thy ===== *)
theory Module_Properties
  imports Module_Histories Network_Laws Module_Recipe_Laws
begin

text \<open>The properties of recipes, of the target policy and of the lifecycle of module versions.\<close>

section \<open>A sample module\<close>

definition ping_step :: recipe_step where
  "ping_step = \<lparr>rp_step_id = ''probe'', rp_capability = ''network.ping'',
     rp_parameters = [(''target'', InputBinding ''host''), (''count'', LiteralBinding (JInt 3)), (''timeout_ms'', LiteralBinding (JInt 500))]\<rparr>"

definition ping_recipe :: recipe_spec where
  "ping_recipe = \<lparr>rc_module_key = ''net.check'', rc_platforms = [''linux_amd64''], rc_inputs = [(''host'', PString)], rc_steps = [ping_step]\<rparr>"

definition ping_inputs :: "(string \<times> json) list" where
  "ping_inputs = [(''host'', JStr ''db.corp.example'')]"

definition ping_plan :: "plan_item list" where
  "ping_plan = [\<lparr>pi_sequence = 0, pi_step_id = ''probe'', pi_capability = ''network.ping'',
     pi_parameters = [(''target'', JStr ''db.corp.example''), (''count'', JInt 3), (''timeout_ms'', JInt 500)]\<rparr>]"

lemma ping_plan_built: "build_recipe_command_plan ping_recipe ping_inputs = Inr ping_plan"
  by code_simp

lemma ping_recipe_ok: "recipe_spec_ok ping_recipe"
  by code_simp

section \<open>Plans\<close>

lemma int_upt: "map int [0..<n] = [0..int n - 1]"
  by (induction n) (simp_all add: upto_rec2)

text \<open>C24. Every expansion of a recipe is typed: the plan has one command per recipe step, in order and numbered from
  zero, and each command carries exactly the parameters the registry declares for its primitive, each value within
  the type, the enumeration or the bounds that the registry publishes.\<close>

theorem plan_is_typed:
  assumes "build_recipe_command_plan r inputs = Inr plan"
  shows "map pi_sequence plan = [0..int (length (rc_steps r)) - 1]
    \<and> map pi_step_id plan = map rp_step_id (rc_steps r) \<and> map pi_capability plan = map rp_capability (rc_steps r)
    \<and> (\<forall>i\<in>set plan. parameters_typed (pi_capability i) (pi_parameters i))"
  using plan_steps_shape [OF build_plan_Inr [OF assms]] int_upt [of "length (rc_steps r)"] by simp

theorem plan_is_typed_witness:
  "build_recipe_command_plan ping_recipe ping_inputs = Inr ping_plan
   \<and> list_all (\<lambda>i. parameters_typed (pi_capability i) (pi_parameters i)) ping_plan"
  using plan_is_typed [OF ping_plan_built] ping_plan_built by (simp add: list_all_iff)

section \<open>Stored recipes\<close>

lemma draft_row:
  assumes "persist_draft_version d i r name version db = Inr (db', v)"
  shows "mv_recipe v = recipe_json r" and "validate_recipe_spec r = Inr ()"
  using assms
  by (auto simp: persist_draft_version_def create_draft_version_def Let_def split: option.splits if_splits sum.splits recipe_error.splits)

text \<open>C25. A recipe that the contract accepts is read back from its stored form unchanged; a draft that was stored
  therefore passes static validation without an error code, whatever happens to other rows.\<close>

theorem stored_recipe_round_trip:
  assumes "recipe_spec_ok r"
  shows "recipe_of (recipe_json r) = Some r
    \<and> (persist_draft_version d i r name version db = Inr (db', v) \<longrightarrow> static_error_codes v = Inr [])"
  using recipe_inverse [OF assms] draft_row [of d i r name version db db' v] by (auto simp: static_error_codes_def)

theorem stored_recipe_round_trip_witness: "recipe_of (recipe_json ping_recipe) = Some ping_recipe"
  using stored_recipe_round_trip [OF ping_recipe_ok] by blast

section \<open>Targets\<close>

definition plain_target :: "string \<Rightarrow> bool" where
  "plain_target s \<longleftrightarrow> s = py_strip s \<and> \<not> contains_text ''://'' s \<and> CHR ''/'' \<notin> set s \<and> CHR ''@'' \<notin> set s"

text \<open>What the policy is meant to be: an address inside a configured network and outside the reserved ones, or a
  host name that is a proper subdomain of a configured domain.\<close>

definition target_permitted :: "string list \<Rightarrow> string list \<Rightarrow> string \<Rightarrow> bool" where
  "target_permitted cidrs domains target \<longleftrightarrow>
     plain_target target
     \<and> (case ip_address_text target of
          Some a \<Rightarrow> (\<exists>c\<in>set cidrs. \<exists>net. ip_network c = Some net \<and> in_network net a)
            \<and> \<not> (\<exists>c\<in>set reserved_networks. \<exists>net. ip_network c = Some net \<and> in_network net a)
        | None \<Rightarrow> hostname_pattern target
            \<and> (\<exists>s\<in>set domains. proper_subdomain (strip_dots (lower_text target)) (tl (lower_text s))))"

lemma reserved_member: "net \<in> set reserved_nets \<longleftrightarrow> (\<exists>c\<in>set reserved_networks. ip_network c = Some net)"
  using reserved_parsed by (metis (no_types, lifting) imageE imageI list.set_map option.inject)

lemma normalized_suffix_text: "normalized_suffix s = Some e \<Longrightarrow> e = lower_text s"
  by (auto simp: normalized_suffix_def split: if_splits)

lemma host_admitted:
  assumes "policy_from_values cidrs domains = Inr p"
  shows "list_ex (\<lambda>e. has_suffix host e \<and> host \<noteq> tl e) (tp_suffixes p)
    \<longleftrightarrow> (\<exists>s\<in>set domains. proper_subdomain host (tl (lower_text s)))"
proof -
  have norm: "\<exists>e. normalized_suffix s = Some e" if "s \<in> set domains" for s
  proof -
    obtain es where "those (map normalized_suffix domains) = Some es"
      using assms by (auto simp: policy_from_values_def normalized_suffixes_def map_sum_def split: sum.splits)
    then show ?thesis using that by (induction domains arbitrary: es) (auto split: option.splits)
  qed
  have one: "has_suffix host e \<and> host \<noteq> tl e \<longleftrightarrow> proper_subdomain host (tl (lower_text s))" if "normalized_suffix s = Some e" for s e
  proof -
    have e: "e = CHR ''.'' # tl e" "e = lower_text s"
      using normalized_suffix_shape [OF that] normalized_suffix_text [OF that] by auto
    have "has_suffix host e \<longleftrightarrow> proper_subdomain host (tl e)"
      using suffix_is_subdomain [of host "tl e"] e(1) by simp
    then show ?thesis using e(2) subdomain_differs by auto
  qed
  show ?thesis
    unfolding list_ex_iff policy_from_values_Inr(2) [OF assms] Bex_def using norm one by metis
qed

lemma address_admitted:
  assumes "policy_from_values cidrs domains = Inr p"
  shows "list_ex (\<lambda>net. net_contains net a) (tp_cidrs p) \<longleftrightarrow> (\<exists>c\<in>set cidrs. \<exists>net. ip_network c = Some net \<and> in_network net a)"
  unfolding list_ex_iff Bex_def policy_from_values_Inr(1) [OF assms] using net_contains_in ip_network_clear by blast


definition sample_policy :: target_policy where
  "sample_policy = \<lparr>tp_cidrs = [\<lparr>n_version = 4, n_base = 167772160, n_prefix = 8, n_scope = None\<rparr>], tp_suffixes = [''.corp.example'']\<rparr>"

lemma sample_policy_from: "policy_from_values [''10.0.0.0/8''] [''.Corp.example''] = Inr sample_policy"
  by code_simp

definition open_policy :: target_policy where
  "open_policy = \<lparr>tp_cidrs = [\<lparr>n_version = 6, n_base = 0, n_prefix = 0, n_scope = None\<rparr>], tp_suffixes = []\<rparr>"

lemma open_policy_from: "policy_from_values [''::/0''] [] = Inr open_policy"
  by code_simp


section \<open>Publication\<close>


definition lab_step :: module_step where
  "lab_step = \<lparr>s_id = 31, s_operation_id = 30, s_sequence = 0, s_recipe_step_key = ''probe'', s_capability = ''network.ping'',
     s_status = Succeeded, s_command_id = None, s_safe_result = None, s_error_code = None, s_started_at = None, s_completed_at = Some 50\<rparr>"

definition lab_operation :: operation where
  "lab_operation = \<lparr>o_id = 30, o_created_at = 10, o_client_id = 7, o_device_id = 5, o_idempotency_key = ''lab-0001'',
     o_capability = ''endpoint.module.recipe'',
     o_parameters = JObj [(''execution_mode'', JStr ''lab''), (''execution_platform'', JStr ''linux_amd64'')], o_correlation = None,
     o_status = Succeeded, o_deadline_at = 100, o_completed_at = Some 50, o_error_code = None, o_collection_id = None, o_command_id = None,
     o_module_version_id = Some 21, o_module_inputs = Some (JObj ping_inputs), o_expected_step_count = Some 1\<rparr>"

definition lab_plane :: plane_db where
  "lab_plane = \<lparr>g_clients = [], g_devices = [], g_operations = [lab_operation], g_collections = [], g_steps = [lab_step], g_commands = [],
     g_deliveries = [], g_results = [], g_sessions = [], g_instances = [], g_evidence = [], g_definitions = [], g_versions = [],
     g_validation_runs = [], g_live_tests = [], g_audits = []\<rparr>"

definition lab_call :: route_call where
  "lab_call = \<lparr>rq_client = ''svc'', rq_request_id = ''req-1'', rq_clock = 60\<rparr>"

definition lab_history :: "module_request list" where
  "lab_history =
     [CreateVersion lab_call 20 21 ping_recipe ''Check'' ''1.0.0'', ValidateVersion lab_call 61 ''net.check'' ''1.0.0'',
      RecordLiveTest lab_call (\<lambda>_. Some 100) 62 ''net.check'' ''1.0.0'' 30, AcceptLabs lab_call ''net.check'' ''1.0.0'',
      PublishVersion lab_call ''net.check'' ''1.0.0'']"

definition ping_version :: module_version where
  "ping_version = \<lparr>mv_id = 21, mv_definition_id = 20, mv_version = ''1.0.0'', mv_state = ''published'', mv_recipe = recipe_json ping_recipe\<rparr>"

lemma lab_history_publishes: "g_versions (serve module_exec lab_history lab_plane) = [ping_version]"
  by code_simp


text \<open>C28. Asked to deprecate a version that is not published, the service route does not answer with its conflict:
  the lifecycle error is not the error it catches and reaches the framework. The version stays as it was.\<close>

theorem deprecate_unpublished_raises:
  assumes "known_version key version db = Inr v" "mv_state v \<noteq> ''published''"
  shows "deprecate_module_version rq key version db = Inl (Raised ModuleLifecycleError)
    \<and> serve module_exec [DeprecateVersion rq key version] db = db"
proof -
  have "transition_module_version (mv_state v) ''deprecated'' = Inl ModuleLifecycleError"
    using assms(2) deprecate_from_published [of "mv_state v"] by (metis transition_module_version_def)
  then show ?thesis
    using assms(1) by (simp add: deprecate_module_version_def transition_persisted_version_def on_service_error_def)
qed

definition draft_plane :: plane_db where
  "draft_plane = serve module_exec [CreateVersion lab_call 20 21 ping_recipe ''Check'' ''1.0.0''] lab_plane"

lemma draft_known: "known_version ''net.check'' ''1.0.0'' draft_plane = Inr (ping_version\<lparr>mv_state := ''draft''\<rparr>)"
  by code_simp

theorem deprecate_unpublished_raises_witness:
  "deprecate_module_version lab_call ''net.check'' ''1.0.0'' draft_plane = Inl (Raised ModuleLifecycleError)"
  using deprecate_unpublished_raises [OF draft_known, of lab_call] by simp

end
