(* ===== verification/Context_Model.thy ===== *)
theory Context_Model
  imports Operations Context_Canonical
begin

text \<open>
  The Device Context tables (\<open>context/models.py\<close>) beside the shared tables, the repository
  (\<open>context/repository.py\<close>) and the ingestion of command results (\<open>context/ingestion.py\<close>).

  The validation of a transport document against a pydantic contract and the rendering of a contract
  as JSON are the fields of \<open>contracts\<close>; SHA-256, the regular expressions and \<open>str\<close> of a container are
  there too.
\<close>

section \<open>Transport documents\<close>

record agent_result =
  ar_command_id :: uuid
  ar_device_id :: uuid
  ar_status :: work_status
  ar_items :: "json list"
  ar_message :: "string option"
  ar_completed_at :: instant

record agent_ack =
  aa_command_id :: uuid
  aa_device_id :: uuid
  aa_status :: work_status
  aa_acknowledged_at :: instant

record context_envelope =
  cx_profile :: string
  cx_collected_at :: instant
  cx_projection :: json

record process_entry =
  pe_name :: string
  pe_state :: string
  pe_rest :: json

record diagnostic =
  dg_reason :: string
  dg_processes :: "process_entry list"
  dg_log_excerpt :: "string option"
  dg_warnings :: "string list"
  dg_collected_at :: instant
  dg_rest :: json

record module_result =
  mr_status :: work_status
  mr_error_code :: "string option"
  mr_document :: json

record contracts =
  ct_envelope :: "json \<Rightarrow> context_envelope option"
  ct_diagnostic :: "json \<Rightarrow> diagnostic option"
  ct_diagnostic_document :: "diagnostic \<Rightarrow> json"
  ct_diagnostic_reason :: "json \<Rightarrow> string option"
  ct_diagnostic_result :: "string \<Rightarrow> diagnostic \<Rightarrow> json option"
  ct_module_result :: "string \<Rightarrow> json \<Rightarrow> module_result option"
  ct_result_document :: "agent_result \<Rightarrow> json"
  ct_digest :: "json \<Rightarrow> string"
  ct_container_text :: "json \<Rightarrow> string"
  ct_unsafe_text :: "bool \<Rightarrow> string \<Rightarrow> bool"
  ct_rendered :: "json \<Rightarrow> nat option"

section \<open>Tables\<close>

record snapshot =
  sn_id :: uuid
  sn_collection_id :: uuid
  sn_device_id :: uuid
  sn_profile :: string
  sn_collected_at :: instant
  sn_semantic_hash :: "string option"
  sn_raw_payload :: "json option"
  sn_projection :: json

record context_current =
  cu_id :: uuid
  cu_device_id :: uuid
  cu_profile :: string
  cu_snapshot_id :: uuid
  cu_updated_at :: instant
  cu_last_observed_at :: "instant option"

record context_diff =
  df_id :: uuid
  df_device_id :: uuid
  df_profile :: string
  df_before_id :: uuid
  df_after_id :: uuid
  df_payload :: snapshot_diff

record device_event =
  vt_id :: uuid
  vt_device_id :: uuid
  vt_kind :: string
  vt_profile :: string
  vt_occurred_at :: instant
  vt_source_key :: string
  vt_before_hash :: "string option"
  vt_after_hash :: "string option"

record gateway_db =
  w_plane :: plane_db
  w_snapshots :: "snapshot list"
  w_currents :: "context_current list"
  w_diffs :: "context_diff list"
  w_events :: "device_event list"

datatype gateway_error =
    CommandStateRejected
  | ContextConflict
  | ContextNotFound
  | ContextValidationError
  | GwValueError
  | GwIntegrityError
  | GwUnboundLocalError
  | GwOperationError operation_error

definition context_constraints :: "gateway_db \<Rightarrow> bool" where
  "context_constraints db \<longleftrightarrow>
     distinct (map sn_id (w_snapshots db)) \<and> distinct (map sn_collection_id (w_snapshots db))
     \<and> distinct (map cu_id (w_currents db)) \<and> distinct (map (\<lambda>c. (cu_device_id c, cu_profile c)) (w_currents db))
     \<and> list_all (\<lambda>c. list_ex (\<lambda>s. sn_id s = cu_snapshot_id c \<and> sn_device_id s = cu_device_id c \<and> sn_profile s = cu_profile c)
          (w_snapshots db)) (w_currents db)
     \<and> distinct (map df_id (w_diffs db)) \<and> distinct (map (\<lambda>d. (df_before_id d, df_after_id d)) (w_diffs db))
     \<and> distinct (map vt_id (w_events db)) \<and> distinct (map (\<lambda>e. (vt_device_id e, vt_source_key e)) (w_events db))"

definition commit_gateway :: "gateway_db \<Rightarrow> gateway_error + gateway_db" where
  "commit_gateway db =
     (if plane_constraints (w_plane db) \<and> context_constraints db then Inr db else Inl GwIntegrityError)"

definition with_plane :: "(plane_db \<Rightarrow> plane_db) \<Rightarrow> gateway_db \<Rightarrow> gateway_db" where
  "with_plane f db = db\<lparr>w_plane := f (w_plane db)\<rparr>"

section \<open>Repository\<close>

definition open_work :: "work_status \<Rightarrow> bool" where
  "open_work s \<longleftrightarrow> s \<in> {Queued, Delivered, Acknowledged, Running}"

definition overdue_collection :: "uuid \<Rightarrow> instant \<Rightarrow> string option \<Rightarrow> collection \<Rightarrow> bool" where
  "overdue_collection device_id at profile k \<longleftrightarrow>
     k_device_id k = device_id \<and> k_operation_id k = None \<and> k_status k \<in> {CRequested, CQueued, CDelivered, CCollecting}
     \<and> (case k_expires_at k of None \<Rightarrow> False | Some t \<Rightarrow> t \<le> at)
     \<and> (case profile of None \<Rightarrow> True | Some p \<Rightarrow> k_profile k = p)"

definition expire_open_delivery :: "uuid \<Rightarrow> plane_db \<Rightarrow> plane_db" where
  "expire_open_delivery command_id db =
     (case find (\<lambda>d. dl_command_id d = command_id) (g_deliveries db) of
        None \<Rightarrow> db
      | Some d \<Rightarrow> if open_work (dl_status d) then store_delivery (d\<lparr>dl_status := Expired\<rparr>) db else db)"

definition expire_collection_transport :: "uuid \<Rightarrow> collection \<Rightarrow> plane_db \<Rightarrow> plane_db" where
  "expire_collection_transport device_id k db =
     (case k_command_id k of
        None \<Rightarrow> db
      | Some i \<Rightarrow>
          (case find (\<lambda>c. cm_id c = i \<and> cm_device_id c = device_id) (g_commands db) of
             None \<Rightarrow> db
           | Some c \<Rightarrow>
               if open_work (cm_status c) then expire_open_delivery (cm_id c) (store_command (c\<lparr>cm_status := Expired\<rparr>) db)
               else db))"

definition expire_overdue_collection :: "uuid \<Rightarrow> instant \<Rightarrow> collection \<Rightarrow> plane_db \<Rightarrow> plane_db" where
  "expire_overdue_collection device_id at k db =
     expire_collection_transport device_id k
       (store_collection (k\<lparr>k_status := CExpired, k_failed_at := Some at, k_failure_code := Some ''collection_expired''\<rparr>) db)"

definition expire_overdue_collections :: "uuid \<Rightarrow> instant \<Rightarrow> string option \<Rightarrow> plane_db \<Rightarrow> gateway_error + plane_db" where
  "expire_overdue_collections device_id at profile db =
     flush_plane GwIntegrityError
       (fold (expire_overdue_collection device_id at) (sort_key k_id (filter (overdue_collection device_id at profile) (g_collections db))) db)"

definition context_profiles :: "string list" where
  "context_profiles = [''baseline_v1'', ''health_v1'', ''network_v1'', ''diagnostic_v1'', ''inventory_v1'', ''session_v1'']"

definition require_profile :: "string \<Rightarrow> gateway_error + string" where
  "require_profile value = (if value \<in> set context_profiles then Inr value else Inl ContextValidationError)"

definition context_now :: "instant \<Rightarrow> moment option \<Rightarrow> gateway_error + instant" where
  "context_now clock value =
     (case value of None \<Rightarrow> Inr clock | Some (Aware t) \<Rightarrow> Inr t | Some (Naive _) \<Rightarrow> Inl ContextValidationError)"

definition requested_collection :: "uuid \<Rightarrow> uuid \<Rightarrow> string \<Rightarrow> string \<Rightarrow> string \<Rightarrow> instant \<Rightarrow> instant \<Rightarrow> collection" where
  "requested_collection identity device_id profile requested_by key created at =
     \<lparr>k_id = identity, k_created_at = created, k_device_id = device_id, k_profile = profile, k_requested_by = requested_by,
      k_idempotency_key = key, k_command_id = None, k_command_result_id = None, k_operation_id = None, k_status = CRequested,
      k_requested_at = at, k_result_received_at = None, k_validated_at = None, k_completed_at = None, k_failed_at = None,
      k_expires_at = None, k_failure_code = None, k_raw_result_payload = None\<rparr>"

definition request_collection_outcome ::
  "uuid \<Rightarrow> instant \<Rightarrow> uuid \<Rightarrow> string \<Rightarrow> string \<Rightarrow> string \<Rightarrow> moment option \<Rightarrow> plane_db \<Rightarrow> gateway_error + (plane_db \<times> collection \<times> bool)" where
  "request_collection_outcome identity clock device_id profile requested_by key now db =
     bindE (require_profile profile) (\<lambda>checked.
       if requested_by = [] \<or> 128 < length requested_by \<or> key = [] \<or> 128 < length key then Inl ContextValidationError
       else if find_row dv_id device_id (g_devices db) = None then Inl ContextNotFound
       else
         (case find (\<lambda>k. k_device_id k = device_id \<and> k_profile k = checked \<and> k_requested_by k = requested_by
                        \<and> k_idempotency_key k = key) (g_collections db) of
            Some k \<Rightarrow> Inr (db, k, False)
          | None \<Rightarrow>
              bindE (context_now clock now) (\<lambda>at.
                let k = requested_collection identity device_id checked requested_by key clock at
                in bindE (flush_plane GwIntegrityError (db\<lparr>g_collections := g_collections db @ [k]\<rparr>)) (\<lambda>db'. Inr (db', k, True)))))"

definition link_collection_command :: "uuid \<Rightarrow> uuid \<Rightarrow> plane_db \<Rightarrow> gateway_error + (plane_db \<times> collection)" where
  "link_collection_command collection_id command_id db =
     (case (find_row k_id collection_id (g_collections db), find_row cm_id command_id (g_commands db)) of
        (Some k, Some c) \<Rightarrow>
          if k_device_id k \<noteq> cm_device_id c then Inl ContextConflict
          else if k_command_id k \<notin> {None, Some (cm_id c)} then Inl ContextConflict
          else let k' = k\<lparr>k_command_id := Some (cm_id c)\<rparr> in Inr (store_collection k' db, k')
      | _ \<Rightarrow> Inl ContextNotFound)"

end
