(* ===== verification/Context_Ingestion.thy ===== *)
theory Context_Ingestion
  imports Context_Model
begin

text \<open>
  \<open>context/ingestion.py\<close>: one command result becomes one collection outcome, and a successful one a
  snapshot, unless its semantic hash is that of the latest snapshot of the device and profile.
\<close>

definition capability_profile :: "string \<Rightarrow> string option" where
  "capability_profile kind =
     map_of [(''context.baseline.collect'', ''baseline_v1''), (''context.health.collect'', ''health_v1''),
             (''context.network.collect'', ''network_v1''), (''context.diagnostic.collect'', ''diagnostic_v1''),
             (''context.inventory.collect'', ''inventory_v1''), (''context.session.collect'', ''session_v1'')] kind"

definition profile_for_failed_command :: "command \<Rightarrow> gateway_error + string" where
  "profile_for_failed_command c = require ContextValidationError (capability_profile (cm_kind c))"

definition success_envelope :: "contracts \<Rightarrow> agent_result \<Rightarrow> gateway_error + context_envelope" where
  "success_envelope ct r =
     (case ar_items r of
        [item] \<Rightarrow> if ar_status r = Succeeded then require ContextValidationError (ct_envelope ct item) else Inl ContextValidationError
      | _ \<Rightarrow> Inl ContextValidationError)"

text \<open>The envelope, if any, and the profile of a terminal result.\<close>

definition result_profile :: "contracts \<Rightarrow> command \<Rightarrow> agent_result \<Rightarrow> gateway_error + (context_envelope option \<times> string)" where
  "result_profile ct c r =
     (if ar_status r = Succeeded then
        bindE (success_envelope ct r) (\<lambda>e.
        bindE (profile_for_failed_command c) (\<lambda>expected.
          if cx_profile e \<noteq> expected then Inl ContextValidationError else Inr (Some e, cx_profile e)))
      else if ar_status r \<in> {Failed, Canceled, Expired} then
        bindE (profile_for_failed_command c) (\<lambda>profile. Inr (None, profile))
      else Inl ContextValidationError)"

definition received_collection :: "uuid \<Rightarrow> instant \<Rightarrow> command \<Rightarrow> command_result \<Rightarrow> string \<Rightarrow> collection" where
  "received_collection identity clock c res profile =
     (requested_collection identity (cm_device_id c) profile ''agent-result'' (''result:'' @ rs_identifier res) clock
        (case rs_completed_at res of None \<Rightarrow> clock | Some t \<Rightarrow> t))\<lparr>k_command_id := Some (cm_id c), k_status := CResultReceived\<rparr>"

definition current_collection ::
  "uuid \<Rightarrow> instant \<Rightarrow> command \<Rightarrow> command_result \<Rightarrow> string \<Rightarrow> plane_db \<Rightarrow> gateway_error + (plane_db \<times> collection)" where
  "current_collection identity clock c res profile db =
     (case find (\<lambda>k. k_command_result_id k = Some (rs_id res)) (g_collections db) of
        Some k \<Rightarrow> Inr (db, k)
      | None \<Rightarrow>
          (case find (\<lambda>k. k_command_id k = Some (cm_id c)) (g_collections db) of
             Some k \<Rightarrow> if k_profile k \<noteq> profile then Inl ContextConflict else Inr (db, k)
           | None \<Rightarrow>
               bindE (require_profile profile) (\<lambda>checked.
                 let k = received_collection identity clock c res checked
                 in bindE (flush_plane GwIntegrityError (db\<lparr>g_collections := g_collections db @ [k]\<rparr>)) (\<lambda>db'. Inr (db', k)))))"

section \<open>The current pointer\<close>

definition store_current :: "context_current \<Rightarrow> gateway_db \<Rightarrow> gateway_db" where
  "store_current c db = db\<lparr>w_currents := store_row cu_id c (w_currents db)\<rparr>"

definition observed :: "instant \<Rightarrow> context_current \<Rightarrow> context_current" where
  "observed updated_at c =
     (let last_observed = (case cu_last_observed_at c of None \<Rightarrow> cu_updated_at c | Some t \<Rightarrow> t)
      in if last_observed < updated_at then c\<lparr>cu_last_observed_at := Some updated_at\<rparr> else c)"

definition advance_current_pointer :: "uuid \<Rightarrow> snapshot \<Rightarrow> instant \<Rightarrow> gateway_db \<Rightarrow> gateway_error + gateway_db" where
  "advance_current_pointer identity s updated_at db =
     (case find (\<lambda>c. cu_device_id c = sn_device_id s \<and> cu_profile c = sn_profile s) (w_currents db) of
        None \<Rightarrow>
          Inr (db\<lparr>w_currents := w_currents db
                 @ [\<lparr>cu_id = identity, cu_device_id = sn_device_id s, cu_profile = sn_profile s, cu_snapshot_id = sn_id s,
                     cu_updated_at = updated_at, cu_last_observed_at = Some updated_at\<rparr>]\<rparr>)
      | Some c \<Rightarrow>
          (case find_row sn_id (cu_snapshot_id c) (w_snapshots db) of
             None \<Rightarrow> Inl ContextConflict
           | Some cur \<Rightarrow>
               if sn_collected_at s \<le> sn_collected_at cur then Inr (store_current (observed updated_at c) db)
               else Inr (store_current ((observed updated_at c)\<lparr>cu_snapshot_id := sn_id s, cu_updated_at := updated_at\<rparr>) db)))"

section \<open>Ingestion\<close>

definition latest_snapshot :: "uuid \<Rightarrow> string \<Rightarrow> gateway_db \<Rightarrow> snapshot option" where
  "latest_snapshot device_id profile db =
     (case rev (sort_key (\<lambda>s. (sn_collected_at s, sn_id s))
                 (filter (\<lambda>s. sn_device_id s = device_id \<and> sn_profile s = profile) (w_snapshots db))) of
        [] \<Rightarrow> None | s # _ \<Rightarrow> Some s)"

definition change_event :: "(nat \<Rightarrow> uuid) \<Rightarrow> snapshot \<Rightarrow> snapshot \<Rightarrow> nat \<times> string \<Rightarrow> device_event" where
  "change_event gen before after numbered =
     (let code = snd numbered in
      \<lparr>vt_id = gen (fst numbered), vt_device_id = sn_device_id after, vt_kind = code, vt_profile = sn_profile after,
       vt_occurred_at = sn_collected_at after, vt_source_key = ''context:'' @ uuid_hex (sn_id after) @ '':'' @ code,
       vt_before_hash = sn_semantic_hash before, vt_after_hash = sn_semantic_hash after\<rparr>)"

definition events_for_change :: "(nat \<Rightarrow> uuid) \<Rightarrow> snapshot option \<Rightarrow> snapshot \<Rightarrow> snapshot_diff option \<Rightarrow> device_event list" where
  "events_for_change gen before after diff =
     (case before of
        None \<Rightarrow> []
      | Some b \<Rightarrow>
          map (change_event gen b after)
            (List.enumerate 0 (change_codes (sn_profile after) (sn_projection b) (sn_projection after) diff)))"

definition close_collection :: "instant \<Rightarrow> collection \<Rightarrow> collection" where
  "close_collection at k = k\<lparr>k_status := CCompleted, k_completed_at := Some at\<rparr>"

definition record_diff ::
  "contracts \<Rightarrow> uuid \<Rightarrow> snapshot option \<Rightarrow> snapshot \<Rightarrow> gateway_db \<Rightarrow> gateway_error + (gateway_db \<times> snapshot_diff option)" where
  "record_diff ct identity before after db =
     (case before of
        None \<Rightarrow> Inr (db, None)
      | Some b \<Rightarrow>
          if sn_profile after \<notin> {''baseline_v1'', ''inventory_v1''} then Inr (db, None)
          else bindE (require GwValueError (compare_snapshots (ct_digest ct) (ct_container_text ct) (sn_projection b) (sn_projection after))) (\<lambda>d.
            Inr (db\<lparr>w_diffs := w_diffs db @ [\<lparr>df_id = identity, df_device_id = sn_device_id after, df_profile = sn_profile after,
                     df_before_id = sn_id b, df_after_id = sn_id after, df_payload = d\<rparr>]\<rparr>, Some d)))"

text \<open>The identities of an ingestion: its collection, snapshot, current pointer, diff and events.\<close>

record ingest_ids =
  ig_collection :: uuid
  ig_snapshot :: uuid
  ig_current :: uuid
  ig_diff :: uuid
  ig_event :: "nat \<Rightarrow> uuid"

definition new_snapshot :: "ingest_ids \<Rightarrow> command \<Rightarrow> collection \<Rightarrow> context_envelope \<Rightarrow> json \<Rightarrow> string option \<Rightarrow> snapshot" where
  "new_snapshot ids c k e raw hash =
     \<lparr>sn_id = ig_snapshot ids, sn_collection_id = k_id k, sn_device_id = cm_device_id c, sn_profile = cx_profile e,
      sn_collected_at = cx_collected_at e, sn_semantic_hash = hash, sn_raw_payload = Some raw, sn_projection = cx_projection e\<rparr>"

definition finish_collection :: "instant \<Rightarrow> collection \<Rightarrow> gateway_db \<Rightarrow> gateway_error + (gateway_db \<times> collection)" where
  "finish_collection at k db =
     (let k' = close_collection at k
      in bindE (commit_gateway (with_plane (store_collection k') db)) (\<lambda>db'. Inr (db', k')))"

definition add_snapshot ::
  "contracts \<Rightarrow> ingest_ids \<Rightarrow> instant \<Rightarrow> collection \<Rightarrow> snapshot \<Rightarrow> snapshot option \<Rightarrow> gateway_db \<Rightarrow> gateway_error + (gateway_db \<times> collection)" where
  "add_snapshot ct ids observed_at k s latest db =
     bindE (commit_gateway (db\<lparr>w_snapshots := w_snapshots db @ [s]\<rparr>)) (\<lambda>db1.
     bindE (record_diff ct (ig_diff ids) latest s db1) (\<lambda>(db2, diff).
     let events = (if sn_profile s \<in> {''baseline_v1'', ''inventory_v1'', ''session_v1'', ''network_v1''}
                   then events_for_change (ig_event ids) latest s diff else [])
     in bindE (advance_current_pointer (ig_current ids) s observed_at (db2\<lparr>w_events := w_events db2 @ events\<rparr>))
          (finish_collection observed_at k)))"

definition ingest_success ::
  "contracts \<Rightarrow> ingest_ids \<Rightarrow> instant \<Rightarrow> command \<Rightarrow> collection \<Rightarrow> context_envelope \<Rightarrow> json \<Rightarrow> gateway_db
   \<Rightarrow> gateway_error + (gateway_db \<times> collection)" where
  "ingest_success ct ids observed_at c k e raw db =
     bindE (require GwValueError
       (snapshot_semantic_hash (ct_digest ct) (ct_container_text ct) (cx_profile e) (cx_projection e))) (\<lambda>hash.
     let latest = (if hash = None then None else latest_snapshot (cm_device_id c) (cx_profile e) db);
         k1 = k\<lparr>k_status := CValidated, k_validated_at := Some observed_at\<rparr>;
         db1 = with_plane (store_collection k1) db
     in case latest of
          Some l \<Rightarrow>
            if sn_semantic_hash l = hash
            then bindE (advance_current_pointer (ig_current ids) l observed_at db1) (finish_collection observed_at k1)
            else add_snapshot ct ids observed_at k1 (new_snapshot ids c k1 e raw hash) latest db1
        | None \<Rightarrow> add_snapshot ct ids observed_at k1 (new_snapshot ids c k1 e raw hash) latest db1)"

definition ingest_failure :: "instant \<Rightarrow> work_status \<Rightarrow> collection \<Rightarrow> gateway_db \<Rightarrow> gateway_error + (gateway_db \<times> collection)" where
  "ingest_failure observed_at status k db =
     (let k' = k\<lparr>k_status := CFailed, k_failed_at := Some observed_at, k_failure_code := Some (''command_'' @ work_text status)\<rparr>
      in bindE (commit_gateway (with_plane (store_collection k') db)) (\<lambda>db'. Inr (db', k')))"

definition received :: "instant \<Rightarrow> command_result \<Rightarrow> json \<Rightarrow> collection \<Rightarrow> collection" where
  "received observed_at res raw k =
     k\<lparr>k_command_result_id := Some (rs_id res), k_result_received_at := Some observed_at, k_raw_result_payload := Some raw\<rparr>"

definition ingest_context_result ::
  "contracts \<Rightarrow> ingest_ids \<Rightarrow> instant \<Rightarrow> uuid \<Rightarrow> agent_result \<Rightarrow> instant option \<Rightarrow> gateway_db \<Rightarrow> gateway_error + (gateway_db \<times> collection)" where
  "ingest_context_result ct ids clock result_id r now db =
     (case find_row rs_id result_id (g_results (w_plane db)) of
        None \<Rightarrow> Inl ContextNotFound
      | Some res \<Rightarrow>
          (case find_row cm_id (rs_command_id res) (g_commands (w_plane db)) of
             None \<Rightarrow> Inl ContextNotFound
           | Some c \<Rightarrow>
               if ar_command_id r \<noteq> cm_id c \<or> ar_device_id r \<noteq> cm_device_id c then Inl ContextValidationError
               else
                 bindE (result_profile ct c r) (\<lambda>(envelope, profile).
                 bindE (current_collection (ig_collection ids) clock c res profile (w_plane db)) (\<lambda>(plane, k).
                 let db1 = db\<lparr>w_plane := plane\<rparr> in
                 if k_command_result_id k \<noteq> None then Inr (db1, k)
                 else
                   let observed_at = (case now of None \<Rightarrow> ar_completed_at r | Some t \<Rightarrow> t);
                       raw = ct_result_document ct r;
                       k1 = received observed_at res raw k
                   in case envelope of
                        None \<Rightarrow> ingest_failure observed_at (ar_status r) k1 db1
                      | Some e \<Rightarrow> ingest_success ct ids observed_at c k1 e raw db1))))"

end
