(* ===== verification/Gateway_Delivery.thy ===== *)
theory Gateway_Delivery
  imports Context_Ingestion Module_Operations
begin

text \<open>
  \<open>gateway/command_service.py\<close>, the first half: which command a device gets next, and its delivery over a
  gateway session. \<open>clock n\<close> is the \<open>n\<close>-th reading of the clock; new identities are arguments.
\<close>

section \<open>Commands on the wire\<close>

record gateway_command =
  gc_command_id :: uuid
  gc_device_id :: uuid
  gc_capability :: string
  gc_parameters :: "(string \<times> json) list"
  gc_requested_by :: string
  gc_idempotency_key :: string
  gc_created_at :: instant
  gc_deadline_at :: instant
  gc_correlation :: "uuid option"

definition profile_capability :: "string \<Rightarrow> string option" where
  "profile_capability profile =
     map_of [(''baseline_v1'', ''context.baseline.collect''), (''health_v1'', ''context.health.collect''),
             (''network_v1'', ''context.network.collect''), (''diagnostic_v1'', ''context.diagnostic.collect''),
             (''inventory_v1'', ''context.inventory.collect''), (''session_v1'', ''context.session.collect'')] profile"

definition command_payload :: "contracts \<Rightarrow> command \<Rightarrow> collection \<Rightarrow> string \<Rightarrow> operation option \<Rightarrow> gateway_error + gateway_command" where
  "command_payload ct c k capability p =
     (case cm_expires_at c of
        None \<Rightarrow> Inl CommandStateRejected
      | Some expires \<Rightarrow>
          (case p of
             None \<Rightarrow>
               Inr \<lparr>gc_command_id = cm_id c, gc_device_id = cm_device_id c, gc_capability = capability, gc_parameters = [],
                    gc_requested_by = k_requested_by k, gc_idempotency_key = ''context-'' @ uuid_hex (k_id k),
                    gc_created_at = cm_created_at c, gc_deadline_at = expires, gc_correlation = None\<rparr>
           | Some p \<Rightarrow>
               if capability \<noteq> ''context.diagnostic.collect'' then Inl CommandStateRejected
               else bindE (require CommandStateRejected (ct_diagnostic_reason ct (o_parameters p))) (\<lambda>reason.
                 Inr \<lparr>gc_command_id = cm_id c, gc_device_id = cm_device_id c, gc_capability = capability,
                      gc_parameters = [(''reason'', JStr reason)], gc_requested_by = ''endpoint-platform'',
                      gc_idempotency_key = ''endpoint-operation:'' @ uuid_hex (o_id p), gc_created_at = cm_created_at c,
                      gc_deadline_at = o_deadline_at p, gc_correlation = Some (o_id p)\<rparr>)))"

definition module_step_payload :: "command \<Rightarrow> operation \<Rightarrow> module_step \<Rightarrow> (string \<times> json) list \<Rightarrow> gateway_error + gateway_command" where
  "module_step_payload c p s parameters =
     (if cm_kind c \<noteq> s_capability s \<or> cm_device_id c \<noteq> o_device_id p then Inl CommandStateRejected
      else Inr \<lparr>gc_command_id = cm_id c, gc_device_id = o_device_id p, gc_capability = s_capability s, gc_parameters = parameters,
                gc_requested_by = ''endpoint-platform'',
                gc_idempotency_key = ''endpoint-module:'' @ uuid_hex (o_id p) @ '':'' @ uuid_hex (s_id s),
                gc_created_at = cm_created_at c, gc_deadline_at = o_deadline_at p, gc_correlation = Some (o_id p)\<rparr>)"

definition new_command :: "uuid \<Rightarrow> instant \<Rightarrow> string \<Rightarrow> uuid \<Rightarrow> string \<Rightarrow> instant \<Rightarrow> command" where
  "new_command identity now identifier device_id kind expires_at =
     \<lparr>cm_id = identity, cm_created_at = now, cm_identifier = identifier, cm_device_id = device_id, cm_kind = kind,
      cm_status = Delivered, cm_expires_at = Some expires_at\<rparr>"

definition new_delivery :: "uuid \<Rightarrow> uuid \<Rightarrow> delivery" where
  "new_delivery identity command_id =
     \<lparr>dl_id = identity, dl_command_id = command_id, dl_session_id = None, dl_identifier = ''delivery-'' @ uuid_hex command_id,
      dl_status = Delivered, dl_acknowledged_at = None\<rparr>"

section \<open>Module steps\<close>

definition allowed :: "string list option \<Rightarrow> string \<Rightarrow> bool" where
  "allowed capabilities c = (case capabilities of None \<Rightarrow> True | Some cs \<Rightarrow> c \<in> set cs)"

definition execution_mode :: "json \<Rightarrow> json" where
  "execution_mode parameters = (if is_mapping parameters then get_default (mapping_of parameters) ''execution_mode'' (JStr ''published'') else JNull)"

definition expected_version_state :: "json \<Rightarrow> string option" where
  "expected_version_state mode =
     (if mode = JStr ''published'' then Some ''published'' else if mode = JStr ''lab'' then Some ''validated'' else None)"

definition latched_platform :: "operation \<Rightarrow> json" where
  "latched_platform p = get_field (mapping_of (o_parameters p)) ''execution_platform''"

definition lab_platform_ok :: "operation \<Rightarrow> string option \<Rightarrow> bool" where
  "lab_platform_ok p platform \<longleftrightarrow>
     (case platform of None \<Rightarrow> False | Some a \<Rightarrow> a \<in> {''linux_amd64'', ''windows_amd64''} \<and> latched_platform p \<in> {JNull, JStr a})"

fun put_field :: "string \<Rightarrow> json \<Rightarrow> (string \<times> json) list \<Rightarrow> (string \<times> json) list" where
  "put_field name v [] = [(name, v)]"
| "put_field name v ((k, w) # m) = (if k = name then (k, v) # m else (k, w) # put_field name v m)"

definition latch_platform :: "string option \<Rightarrow> operation \<Rightarrow> operation" where
  "latch_platform platform p =
     (case platform of
        Some a \<Rightarrow>
          if execution_mode (o_parameters p) = JStr ''lab'' \<and> latched_platform p = JNull
          then p\<lparr>o_parameters := JObj (put_field ''execution_platform'' (JStr a) (mapping_of (o_parameters p)))\<rparr> else p
      | None \<Rightarrow> p)"

definition module_ready_to_run :: "operation \<Rightarrow> string option \<Rightarrow> plane_db \<Rightarrow> gateway_error + module_version" where
  "module_ready_to_run p platform db =
     (case (o_module_version_id p, o_module_inputs p) of
        (Some vid, Some inputs) \<Rightarrow>
          (case expected_version_state (execution_mode (o_parameters p)) of
             None \<Rightarrow> Inl CommandStateRejected
           | Some state \<Rightarrow>
               if execution_mode (o_parameters p) = JStr ''lab'' \<and> \<not> lab_platform_ok p platform then Inl CommandStateRejected
               else
                 (case find_row mv_id vid (g_versions db) of
                    None \<Rightarrow> Inl CommandStateRejected
                  | Some v \<Rightarrow> if mv_state v \<noteq> state then Inl CommandStateRejected else Inr v))
      | _ \<Rightarrow> Inl CommandStateRejected)"

definition ordered_steps :: "operation \<Rightarrow> plane_db \<Rightarrow> module_step list" where
  "ordered_steps p db = sort_key (\<lambda>s. (s_sequence s, s_id s)) (filter (\<lambda>s. s_operation_id s = o_id p) (g_steps db))"

definition in_flight :: "work_status \<Rightarrow> bool" where
  "in_flight s \<longleftrightarrow> s \<in> {Delivered, Acknowledged, Running}"

record delivery_ids =
  di_command :: uuid
  di_delivery :: uuid

text \<open>The tables after a queued step has become a delivered command; the flush of the command comes first.\<close>

definition deliver_step :: "delivery_ids \<Rightarrow> instant \<Rightarrow> uuid \<Rightarrow> operation \<Rightarrow> module_step \<Rightarrow> plane_db \<Rightarrow> gateway_error + (plane_db \<times> command \<times> operation)" where
  "deliver_step ids now device_id p s db =
     (let c = new_command (di_command ids) now (''module-'' @ uuid_hex (o_id p) @ ''-'' @ uuid_hex (s_id s)) device_id (s_capability s)
                (o_deadline_at p);
          p' = p\<lparr>o_status := Delivered\<rparr>
      in bindE (flush_plane GwIntegrityError (db\<lparr>g_commands := g_commands db @ [c]\<rparr>)) (\<lambda>db1.
         Inr ((store_operation p' (store_step (s\<lparr>s_command_id := Some (cm_id c), s_status := Delivered\<rparr>) db1))
                \<lparr>g_deliveries := g_deliveries db1 @ [new_delivery (di_delivery ids) (cm_id c)]\<rparr>, c, p')))"

definition recipe_plan :: "json \<Rightarrow> json option \<Rightarrow> gateway_error + plan_item list" where
  "recipe_plan recipe inputs =
     bindE (require CommandStateRejected (recipe_of recipe)) (\<lambda>r.
     bindE (require CommandStateRejected inputs) (\<lambda>i.
       case build_recipe_command_plan r (mapping_of i) of Inl e \<Rightarrow> Inl CommandStateRejected | Inr plan \<Rightarrow> Inr plan))"

definition planned_payload :: "module_version \<Rightarrow> command \<Rightarrow> operation \<Rightarrow> module_step \<Rightarrow> gateway_error + gateway_command" where
  "planned_payload v c p s =
     bindE (recipe_plan (mv_recipe v) (o_module_inputs p)) (\<lambda>plan.
     (case find (\<lambda>i. pi_sequence i = s_sequence s \<and> pi_step_id i = s_recipe_step_key s) plan of
        None \<Rightarrow> Inl CommandStateRejected
      | Some i \<Rightarrow>
          if pi_capability i \<noteq> s_capability s then Inl CommandStateRejected
          else module_step_payload c p s (pi_parameters i)))"

text \<open>One operation of the loop: \<open>None\<close> is \<open>continue\<close>.\<close>

definition module_candidate ::
  "delivery_ids \<Rightarrow> instant \<Rightarrow> uuid \<Rightarrow> string list option \<Rightarrow> string option \<Rightarrow> operation \<Rightarrow> plane_db
   \<Rightarrow> gateway_error + (plane_db \<times> gateway_command) option" where
  "module_candidate ids now device_id capabilities platform p db =
     bindE (module_ready_to_run p platform db) (\<lambda>v.
       if o_deadline_at p \<le> now then Inr None
       else
         let steps = ordered_steps p db;
             finish = (\<lambda>s c p1 db1.
               let p2 = latch_platform platform p1
               in bindE (planned_payload v c p2 s) (\<lambda>payload. Inr (Some (store_operation p2 db1, payload))))
         in if steps = [] then Inl CommandStateRejected
            else
              (case filter (\<lambda>s. in_flight (s_status s)) steps of
                 [] \<Rightarrow>
                   (case filter (\<lambda>s. s_status s = Queued) steps of
                      [] \<Rightarrow> Inr None
                    | s # _ \<Rightarrow>
                        if list_ex (\<lambda>x. s_status x \<noteq> Succeeded) (take (nat (s_sequence s)) steps) then Inr None
                        else if \<not> allowed capabilities (s_capability s) then Inr None
                        else bindE (deliver_step ids now device_id p s db) (\<lambda>(db1, c, p1). finish s c p1 db1))
               | [s] \<Rightarrow>
                   if s_status s \<noteq> Delivered then Inr None
                   else
                     (case s_command_id s of
                        None \<Rightarrow> Inl CommandStateRejected
                      | Some i \<Rightarrow>
                          (case find (\<lambda>c. cm_id c = i \<and> cm_device_id c = device_id) (g_commands db) of
                             None \<Rightarrow> Inl CommandStateRejected
                           | Some c \<Rightarrow>
                               if cm_status c \<noteq> Delivered then Inl CommandStateRejected
                               else if \<not> allowed capabilities (s_capability s) then Inr None
                               else finish s c p db))
               | _ \<Rightarrow> Inr None))"

fun pending_module ::
  "delivery_ids \<Rightarrow> instant \<Rightarrow> uuid \<Rightarrow> string list option \<Rightarrow> string option \<Rightarrow> operation list \<Rightarrow> plane_db
   \<Rightarrow> gateway_error + (plane_db \<times> gateway_command) option" where
  "pending_module ids now device_id capabilities platform [] db = Inr None"
| "pending_module ids now device_id capabilities platform (p # ps) db =
     bindE (module_candidate ids now device_id capabilities platform p db) (\<lambda>found.
       case found of
         None \<Rightarrow> pending_module ids now device_id capabilities platform ps db
       | Some x \<Rightarrow> Inr (Some x))"

definition module_parents :: "uuid \<Rightarrow> plane_db \<Rightarrow> operation list" where
  "module_parents device_id db =
     sort_key (\<lambda>p. (o_created_at p, o_id p))
       (filter (\<lambda>p. o_device_id p = device_id \<and> o_capability p = ''endpoint.module.recipe''
                  \<and> o_status p \<in> {Queued, Delivered, Acknowledged, Running}) (g_operations db))"

definition next_pending_module_command ::
  "delivery_ids \<Rightarrow> instant \<Rightarrow> uuid \<Rightarrow> string list option \<Rightarrow> string option \<Rightarrow> plane_db
   \<Rightarrow> gateway_error + (plane_db \<times> gateway_command) option" where
  "next_pending_module_command ids now device_id capabilities platform db =
     pending_module ids now device_id capabilities platform (module_parents device_id db) db"

section \<open>Context collections\<close>

definition validate_operation_relation :: "collection \<Rightarrow> operation option \<Rightarrow> command option \<Rightarrow> gateway_error + operation" where
  "validate_operation_relation k p c =
     (case p of
        None \<Rightarrow> Inl CommandStateRejected
      | Some p \<Rightarrow>
          if k_operation_id k \<noteq> Some (o_id p) \<or> o_collection_id p \<noteq> Some (k_id k) \<or> o_device_id p \<noteq> k_device_id k
             \<or> Some (o_capability p) \<noteq> profile_capability (k_profile k) \<or> k_profile k \<noteq> ''diagnostic_v1''
          then Inl CommandStateRejected
          else
            (case c of
               None \<Rightarrow> Inr p
             | Some c \<Rightarrow>
                 if k_command_id k \<noteq> Some (cm_id c) \<or> o_command_id p \<noteq> Some (cm_id c) \<or> cm_device_id c \<noteq> o_device_id p
                    \<or> cm_kind c \<noteq> o_capability p
                 then Inl CommandStateRejected else Inr p))"

definition operation_for_collection :: "collection \<Rightarrow> command option \<Rightarrow> plane_db \<Rightarrow> gateway_error + operation option" where
  "operation_for_collection k c db =
     (case k_operation_id k of
        None \<Rightarrow> Inr None
      | Some i \<Rightarrow> bindE (validate_operation_relation k (find_row o_id i (g_operations db)) c) (\<lambda>p. Inr (Some p)))"

definition lift_operation :: "operation_error + 'a \<Rightarrow> gateway_error + 'a" where
  "lift_operation r = (case r of Inl e \<Rightarrow> Inl (GwOperationError e) | Inr x \<Rightarrow> Inr x)"

definition expire_if_due :: "instant \<Rightarrow> operation option \<Rightarrow> collection \<Rightarrow> plane_db \<Rightarrow> gateway_error + (plane_db \<times> bool)" where
  "expire_if_due now p k db =
     (case p of None \<Rightarrow> Inr (db, False) | Some p \<Rightarrow> lift_operation (expire_operation_if_due now p (Some (Aware now)) (Some k) db))"

definition default_command_lifetime :: int where
  "default_command_lifetime = minutes 15"

text \<open>A collection whose command was delivered before and not acknowledged is offered again.\<close>

definition replay_collection ::
  "contracts \<Rightarrow> instant \<Rightarrow> string \<Rightarrow> collection \<Rightarrow> command \<Rightarrow> plane_db \<Rightarrow> gateway_error + (plane_db \<times> gateway_command option)" where
  "replay_collection ct now capability k c db =
     bindE (operation_for_collection k (Some c) db) (\<lambda>p.
     bindE (expire_if_due now p k db) (\<lambda>(db1, expired).
       if expired then Inr (db1, None)
       else if (case p of None \<Rightarrow> False | Some p \<Rightarrow> o_status p \<noteq> Delivered) then Inl CommandStateRejected
       else
         let c' = (case cm_expires_at c of
                     None \<Rightarrow> c\<lparr>cm_expires_at := Some (cm_created_at c + default_command_lifetime)\<rparr> | Some _ \<Rightarrow> c)
         in bindE (if c' = c then Inr db1 else flush_plane GwIntegrityError (store_command c' db1)) (\<lambda>db2.
            bindE (command_payload ct c' k capability p) (\<lambda>payload. Inr (db2, Some payload)))))"

text \<open>The new command is linked to its collection and its operation.\<close>

definition begin_collection ::
  "contracts \<Rightarrow> delivery_ids \<Rightarrow> string \<Rightarrow> command \<Rightarrow> collection \<Rightarrow> operation option \<Rightarrow> plane_db
   \<Rightarrow> gateway_error + (plane_db \<times> gateway_command option)" where
  "begin_collection ct ids capability c k p db =
     bindE (flush_plane GwIntegrityError (db\<lparr>g_commands := g_commands db @ [c]\<rparr>)) (\<lambda>db2.
     bindE (link_collection_command (k_id k) (cm_id c) db2) (\<lambda>(db3, k1).
       let k2 = k1\<lparr>k_status := CDelivered\<rparr>;
           p' = map_option (\<lambda>p. p\<lparr>o_command_id := Some (cm_id c), o_status := Delivered\<rparr>) p;
           db4 = (case p' of None \<Rightarrow> db3 | Some q \<Rightarrow> store_operation q db3);
           db5 = (store_collection k2 db4)\<lparr>g_deliveries := g_deliveries db4 @ [new_delivery (di_delivery ids) (cm_id c)]\<rparr>
       in bindE (command_payload ct c k2 capability p') (\<lambda>payload. Inr (db5, Some payload))))"

definition start_collection ::
  "contracts \<Rightarrow> delivery_ids \<Rightarrow> instant \<Rightarrow> instant \<Rightarrow> uuid \<Rightarrow> string \<Rightarrow> collection \<Rightarrow> operation option \<Rightarrow> plane_db
   \<Rightarrow> gateway_error + (plane_db \<times> gateway_command option)" where
  "start_collection ct ids now checked_at device_id capability k p db =
     bindE (expire_if_due checked_at p k db) (\<lambda>(db1, expired).
       if expired then Inr (db1, None)
       else if (case p of None \<Rightarrow> False | Some p \<Rightarrow> o_status p \<noteq> Queued) then Inl CommandStateRejected
       else
         let deadline = (case p of Some p \<Rightarrow> o_deadline_at p
                         | None \<Rightarrow> (case k_expires_at k of Some t \<Rightarrow> t | None \<Rightarrow> now + default_command_lifetime))
         in begin_collection ct ids capability
              (new_command (di_command ids) now (''ctx-'' @ uuid_hex (k_id k)) device_id capability deadline) k p db1)"

definition collection_candidate ::
  "contracts \<Rightarrow> delivery_ids \<Rightarrow> instant \<Rightarrow> instant \<Rightarrow> uuid \<Rightarrow> string list option \<Rightarrow> bool \<Rightarrow> collection \<Rightarrow> plane_db
   \<Rightarrow> gateway_error + (plane_db \<times> gateway_command option)" where
  "collection_candidate ct ids now checked_at device_id capabilities wss k db =
     (if k_operation_id k \<noteq> None \<and> \<not> wss then Inr (db, None)
      else
        (case profile_capability (k_profile k) of
           None \<Rightarrow> Inr (db, None)
         | Some capability \<Rightarrow>
             if \<not> allowed capabilities capability then Inr (db, None)
             else
               bindE (operation_for_collection k None db) (\<lambda>p.
               case k_command_id k of
                 Some i \<Rightarrow>
                   (case find (\<lambda>c. cm_id c = i \<and> cm_device_id c = device_id) (g_commands db) of
                      None \<Rightarrow> Inr (db, None)
                    | Some c \<Rightarrow> if cm_status c = Delivered then replay_collection ct checked_at capability k c db else Inr (db, None))
               | None \<Rightarrow> start_collection ct ids now checked_at device_id capability k p db)))"

fun pending_collection ::
  "contracts \<Rightarrow> delivery_ids \<Rightarrow> instant \<Rightarrow> (nat \<Rightarrow> instant) \<Rightarrow> uuid \<Rightarrow> string list option \<Rightarrow> bool \<Rightarrow> collection list \<Rightarrow> plane_db
   \<Rightarrow> gateway_error + (plane_db \<times> gateway_command option)" where
  "pending_collection ct ids now clock device_id capabilities wss [] db = Inr (db, None)"
| "pending_collection ct ids now clock device_id capabilities wss (k # ks) db =
     bindE (collection_candidate ct ids now (clock 0) device_id capabilities wss k db) (\<lambda>(db1, payload).
       case payload of
         Some x \<Rightarrow> Inr (db1, Some x)
       | None \<Rightarrow> pending_collection ct ids now (\<lambda>n. clock (Suc n)) device_id capabilities wss ks db1)"

definition open_collections :: "uuid \<Rightarrow> plane_db \<Rightarrow> collection list" where
  "open_collections device_id db =
     sort_key (\<lambda>k. (k_requested_at k, k_id k))
       (filter (\<lambda>k. k_device_id k = device_id \<and> k_status k \<in> {CRequested, CDelivered}) (g_collections db))"

definition next_pending_command ::
  "contracts \<Rightarrow> delivery_ids \<Rightarrow> (nat \<Rightarrow> instant) \<Rightarrow> uuid \<Rightarrow> string list option \<Rightarrow> string \<Rightarrow> string option \<Rightarrow> plane_db
   \<Rightarrow> gateway_error + (plane_db \<times> gateway_command option)" where
  "next_pending_command ct ids clock device_id capabilities transport platform db =
     (if transport \<noteq> ''http_pull'' \<and> transport \<noteq> ''gateway_wss'' then Inl GwValueError
      else
        let wss = (transport = ''gateway_wss'') in
        bindE (expire_overdue_collections device_id (clock 0) None db) (\<lambda>db1.
        bindE (if wss then next_pending_module_command ids (clock 1) device_id capabilities platform db1 else Inr None) (\<lambda>found.
        case found of
          Some (db2, payload) \<Rightarrow> Inr (db2, Some payload)
        | None \<Rightarrow>
            pending_collection ct ids (clock 2) (\<lambda>n. clock (n + 3)) device_id capabilities wss (open_collections device_id db1) db1)))"

section \<open>Delivery over a session\<close>

definition open_session :: "uuid \<Rightarrow> uuid \<Rightarrow> plane_db \<Rightarrow> gateway_session option" where
  "open_session session_id device_id db =
     find (\<lambda>g. gs_id g = session_id \<and> gs_device_id g = device_id \<and> gs_closed_at g = None) (g_sessions db)"

definition commit_plane :: "plane_db \<Rightarrow> gateway_db \<Rightarrow> gateway_error + gateway_db" where
  "commit_plane plane db = commit_gateway (db\<lparr>w_plane := plane\<rparr>)"

text \<open>The answer is the command that is sent after the commit, if any.\<close>

definition deliver_next ::
  "contracts \<Rightarrow> delivery_ids \<Rightarrow> (nat \<Rightarrow> instant) \<Rightarrow> uuid \<Rightarrow> uuid \<Rightarrow> string list option \<Rightarrow> string option \<Rightarrow> gateway_db
   \<Rightarrow> gateway_error + (gateway_db \<times> gateway_command option)" where
  "deliver_next ct ids clock device_id session_id capabilities platform db =
     bindE (next_pending_command ct ids clock device_id capabilities ''gateway_wss'' platform (w_plane db)) (\<lambda>(plane, payload).
       case payload of
         None \<Rightarrow> bindE (commit_plane plane db) (\<lambda>db'. Inr (db', None))
       | Some x \<Rightarrow>
           (case find (\<lambda>d. dl_command_id d = gc_command_id x) (g_deliveries plane) of
              None \<Rightarrow> Inl CommandStateRejected
            | Some d \<Rightarrow>
                if open_session session_id device_id plane = None then Inl CommandStateRejected
                else if dl_session_id d = Some session_id then bindE (commit_plane plane db) (\<lambda>db'. Inr (db', None))
                else bindE (commit_plane (store_delivery (d\<lparr>dl_session_id := Some session_id\<rparr>) plane) db) (\<lambda>db'. Inr (db', Some x))))"

end
