(* ===== verification/Gateway_Results.thy ===== *)
theory Gateway_Results
  imports Gateway_Delivery
begin

text \<open>
  \<open>gateway/command_service.py\<close>, the second half: acknowledgements and terminal results, with
  \<open>operations/redaction.py\<close> and the diagnostic projection of \<open>operations/projection.py\<close>.
\<close>

section \<open>Relations of a command\<close>

definition resolve_module_step_relation :: "command \<Rightarrow> plane_db \<Rightarrow> gateway_error + (module_step \<times> operation) option" where
  "resolve_module_step_relation c db =
     (case find (\<lambda>s. s_command_id s = Some (cm_id c)) (g_steps db) of
        None \<Rightarrow> Inr None
      | Some s \<Rightarrow>
          (case find_row o_id (s_operation_id s) (g_operations db) of
             None \<Rightarrow> Inl CommandStateRejected
           | Some p \<Rightarrow>
               if o_capability p \<noteq> ''endpoint.module.recipe'' \<or> o_device_id p \<noteq> cm_device_id c \<or> o_command_id p \<noteq> None
                  \<or> cm_kind c \<noteq> s_capability s
               then Inl CommandStateRejected else Inr (Some (s, p))))"

definition resolve_command_context_relation :: "command \<Rightarrow> plane_db \<Rightarrow> gateway_error + (collection option \<times> operation option)" where
  "resolve_command_context_relation c db =
     (let k = find (\<lambda>k. k_command_id k = Some (cm_id c)) (g_collections db) in
      case find (\<lambda>p. o_command_id p = Some (cm_id c)) (g_operations db) of
        None \<Rightarrow>
          (case k of
             None \<Rightarrow> Inr (None, None)
           | Some k \<Rightarrow>
               if k_operation_id k = None then Inr (Some k, None)
               else bindE (operation_for_collection k (Some c) db) (\<lambda>p. Inr (Some k, p)))
      | Some p \<Rightarrow>
          let canonical = (if map_option k_id k = o_collection_id p \<and> k \<noteq> None then k
                           else find (\<lambda>k. Some (k_id k) = o_collection_id p) (g_collections db))
          in (case canonical of
                None \<Rightarrow> Inl CommandStateRejected
              | Some k' \<Rightarrow>
                  if k \<noteq> None \<and> map_option k_id k \<noteq> Some (k_id k') then Inl CommandStateRejected
                  else bindE (validate_operation_relation k' (Some p) (Some c)) (\<lambda>q. Inr (Some k', Some q))))"

section \<open>Acknowledgements\<close>

text \<open>A running record is not set back by a late acknowledgement.\<close>

definition acked_status :: "work_status \<Rightarrow> work_status \<Rightarrow> work_status" where
  "acked_status ack current = (if current \<noteq> Running \<or> ack = Running then ack else current)"

definition acked_delivery :: "agent_ack \<Rightarrow> work_status \<Rightarrow> delivery \<Rightarrow> delivery" where
  "acked_delivery a command_status d =
     d\<lparr>dl_status := (if command_status \<noteq> Running \<or> aa_status a = Running then aa_status a else dl_status d),
       dl_acknowledged_at := (case dl_acknowledged_at d of None \<Rightarrow> Some (aa_acknowledged_at a) | Some t \<Rightarrow> Some t)\<rparr>"

definition ack_module_step :: "agent_ack \<Rightarrow> command \<Rightarrow> delivery \<Rightarrow> module_step \<Rightarrow> operation \<Rightarrow> plane_db \<Rightarrow> plane_db" where
  "ack_module_step a c d s p db =
     store_operation (p\<lparr>o_status := acked_status (aa_status a) (o_status p)\<rparr>)
       (store_step (s\<lparr>s_status := (if cm_status c \<noteq> Running \<or> aa_status a = Running then aa_status a else s_status s),
                      s_started_at := (case s_started_at s of None \<Rightarrow> Some (aa_acknowledged_at a) | Some t \<Rightarrow> Some t)\<rparr>)
         (store_delivery (acked_delivery a (cm_status c) d)
           (store_command (c\<lparr>cm_status := acked_status (aa_status a) (cm_status c)\<rparr>) db)))"

definition ack_context_command :: "agent_ack \<Rightarrow> command \<Rightarrow> delivery \<Rightarrow> collection option \<Rightarrow> operation option \<Rightarrow> plane_db \<Rightarrow> plane_db" where
  "ack_context_command a c d k p db =
     (let db1 = store_delivery (acked_delivery a (cm_status c) d)
                  (store_command (c\<lparr>cm_status := acked_status (aa_status a) (cm_status c)\<rparr>) db);
          db2 = (case p of None \<Rightarrow> db1 | Some p \<Rightarrow> store_operation (p\<lparr>o_status := acked_status (aa_status a) (o_status p)\<rparr>) db1)
      in (case k of None \<Rightarrow> db2 | Some k \<Rightarrow> store_collection (k\<lparr>k_status := CCollecting\<rparr>) db2))"

definition record_command_ack :: "uuid \<Rightarrow> uuid \<Rightarrow> agent_ack \<Rightarrow> gateway_db \<Rightarrow> gateway_error + gateway_db" where
  "record_command_ack device_id session_id a db =
     (let plane = w_plane db in
      if aa_device_id a \<noteq> device_id then Inl CommandStateRejected
      else if aa_status a \<notin> {Acknowledged, Running} then Inl CommandStateRejected
      else
        (case (open_session session_id device_id plane,
               find (\<lambda>c. cm_id c = aa_command_id a \<and> cm_device_id c = device_id) (g_commands plane)) of
           (Some _, Some c) \<Rightarrow>
             (case find (\<lambda>d. dl_command_id d = cm_id c) (g_deliveries plane) of
                None \<Rightarrow> Inl CommandStateRejected
              | Some d \<Rightarrow>
                  if dl_session_id d \<noteq> Some session_id then Inl CommandStateRejected
                  else
                    bindE (resolve_module_step_relation c plane) (\<lambda>relation.
                    case relation of
                      Some (s, p) \<Rightarrow>
                        if terminal_work (cm_status c) then
                          (if s_status s \<noteq> cm_status c then Inl CommandStateRejected else Inr db)
                        else if \<not> in_flight (cm_status c) \<or> \<not> in_flight (s_status s) \<or> \<not> in_flight (o_status p)
                        then Inl CommandStateRejected
                        else commit_plane (ack_module_step a c d s p plane) db
                    | None \<Rightarrow>
                        bindE (resolve_command_context_relation c plane) (\<lambda>(k, p).
                          if terminal_work (cm_status c) then
                            (if (case p of None \<Rightarrow> False | Some p \<Rightarrow> o_status p \<noteq> cm_status c) then Inl CommandStateRejected else Inr db)
                          else if \<not> in_flight (cm_status c) then Inl CommandStateRejected
                          else if (case p of None \<Rightarrow> False | Some p \<Rightarrow> \<not> in_flight (o_status p)) then Inl CommandStateRejected
                          else commit_plane (ack_context_command a c d k p plane) db)))
         | _ \<Rightarrow> Inl CommandStateRejected))"

section \<open>Public text\<close>

definition public_redaction :: string where
  "public_redaction = ''[REDACTED]''"

definition sanitize_agent_public_text :: "contracts \<Rightarrow> nat \<Rightarrow> bool \<Rightarrow> string \<Rightarrow> string \<times> bool" where
  "sanitize_agent_public_text ct limit allow_multiline value =
     (if ct_unsafe_text ct allow_multiline value then (public_redaction, True)
      else if limit < length value then (take limit value, True)
      else (value, False))"

definition safe_name :: "contracts \<Rightarrow> process_entry \<Rightarrow> process_entry" where
  "safe_name ct p = p\<lparr>pe_name := fst (sanitize_agent_public_text ct 128 False (pe_name p))\<rparr>"

definition name_changed :: "contracts \<Rightarrow> process_entry \<Rightarrow> bool" where
  "name_changed ct p = snd (sanitize_agent_public_text ct 128 False (pe_name p))"

definition safe_excerpt :: "contracts \<Rightarrow> string option \<Rightarrow> string option \<times> bool" where
  "safe_excerpt ct e =
     (case e of None \<Rightarrow> (None, False)
      | Some t \<Rightarrow> (let (u, changed) = sanitize_agent_public_text ct 8192 True t in (Some u, changed)))"

definition safe_diagnostic :: "contracts \<Rightarrow> diagnostic \<Rightarrow> diagnostic" where
  "safe_diagnostic ct d =
     (let (excerpt, changed) = safe_excerpt ct (dg_log_excerpt d);
          redacted = list_ex (name_changed ct) (dg_processes d) \<or> changed
      in d\<lparr>dg_processes := map (safe_name ct) (dg_processes d), dg_log_excerpt := excerpt,
           dg_warnings := (if redacted \<and> ''redaction_applied'' \<notin> set (dg_warnings d)
                           then take 15 (dg_warnings d) @ [''redaction_applied''] else dg_warnings d)\<rparr>)"

definition project_diagnostic_result :: "contracts \<Rightarrow> operation \<Rightarrow> snapshot \<Rightarrow> json option" where
  "project_diagnostic_result ct p s =
     (if sn_profile s \<noteq> ''diagnostic_v1'' \<or> sn_device_id s \<noteq> o_device_id p \<or> Some (sn_collection_id s) \<noteq> o_collection_id p then None
      else
        (case (ct_diagnostic_reason ct (o_parameters p), ct_diagnostic ct (sn_projection s)) of
           (Some reason, Some d) \<Rightarrow> ct_diagnostic_result ct reason (safe_diagnostic ct d)
         | _ \<Rightarrow> None))"

definition safe_operation_result :: "contracts \<Rightarrow> operation \<Rightarrow> agent_result \<Rightarrow> gateway_error + agent_result" where
  "safe_operation_result ct p r =
     bindE (require CommandStateRejected (ct_diagnostic_reason ct (o_parameters p))) (\<lambda>reason.
       let message = map_option (\<lambda>m. fst (sanitize_agent_public_text ct 4096 True m)) (ar_message r) in
       if ar_status r \<noteq> Succeeded then
         (if ar_items r \<noteq> [] then Inl CommandStateRejected else Inr (r\<lparr>ar_message := message\<rparr>))
       else
         (case ar_items r of
            [item] \<Rightarrow>
              (case ct_diagnostic ct item of
                 None \<Rightarrow> Inl CommandStateRejected
               | Some d \<Rightarrow>
                   if dg_reason d \<noteq> reason then Inl CommandStateRejected
                   else Inr (r\<lparr>ar_items := [ct_diagnostic_document ct (safe_diagnostic ct d)], ar_message := message\<rparr>))
          | _ \<Rightarrow> Inl CommandStateRejected))"

section \<open>Results of module steps\<close>

definition safe_module_step_result ::
  "contracts \<Rightarrow> module_step \<Rightarrow> agent_result \<Rightarrow> gateway_error + (json option \<times> string option)" where
  "safe_module_step_result ct s r =
     (if s_capability s \<notin> set module_step_capabilities then Inl CommandStateRejected
      else if ar_status r = Succeeded then
        (case ar_items r of
           [item] \<Rightarrow>
             (case ct_module_result ct (s_capability s) item of
                None \<Rightarrow> Inl CommandStateRejected
              | Some m \<Rightarrow> if mr_status m \<noteq> Succeeded then Inl CommandStateRejected else Inr (Some (mr_document m), None))
         | _ \<Rightarrow> Inl CommandStateRejected)
      else if ar_status r = Failed \<and> ar_items r \<noteq> [] then
        (case ar_items r of
           [item] \<Rightarrow>
             (case ct_module_result ct (s_capability s) item of
                None \<Rightarrow> Inl CommandStateRejected
              | Some m \<Rightarrow>
                  if mr_status m \<noteq> Failed then Inl CommandStateRejected
                  else Inr (None, Some (case mr_error_code m of
                                          None \<Rightarrow> ''module_step_failed''
                                        | Some e \<Rightarrow> if e = [] then ''module_step_failed'' else e)))
         | _ \<Rightarrow> Inl CommandStateRejected)
      else if ar_items r \<noteq> [] then Inl CommandStateRejected
      else Inr (None, Some ''module_step_failed''))"

definition append_module_terminal_audit :: "operation \<Rightarrow> module_step \<Rightarrow> instant \<Rightarrow> plane_db \<Rightarrow> gateway_error + plane_db" where
  "append_module_terminal_audit p s at db =
     bindE (append_audit_event GwValueError
       (audit ''device'' (Some (uuid_text (o_device_id p)))
         (if o_status p = Succeeded then ''endpoint.module_operation_completed''
          else if o_status p = Failed then ''endpoint.module_operation_failed''
          else ''endpoint.module_operation_'' @ work_text (o_status p))
         ''endpoint_operation'' (Some (uuid_text (o_id p))) (''module-operation-'' @ uuid_hex (o_id p))
         [(''step_sequence'', JInt (s_sequence s)), (''capability'', JStr (s_capability s)),
          (''error_code'', optional_json (s_error_code s))] at) (g_audits db)) (\<lambda>a. Inr (db\<lparr>g_audits := a\<rparr>))"

definition require_authoritative_module_step_set :: "operation \<Rightarrow> plane_db \<Rightarrow> gateway_error + int" where
  "require_authoritative_module_step_set p db =
     (case o_expected_step_count p of
        None \<Rightarrow> Inl CommandStateRejected
      | Some n \<Rightarrow>
          if \<not> (1 \<le> n \<and> n \<le> 8) then Inl CommandStateRejected
          else if sort (map s_sequence (filter (\<lambda>s. s_operation_id s = o_id p) (g_steps db))) \<noteq> [0..n - 1]
          then Inl CommandStateRejected else Inr n)"

definition result_identifier :: "command \<Rightarrow> string" where
  "result_identifier c = ''result-'' @ uuid_hex (cm_id c)"

definition max_agent_clock_skew :: int where
  "max_agent_clock_skew = minutes 5"

definition result_timing_ok :: "operation \<Rightarrow> agent_result \<Rightarrow> instant \<Rightarrow> bool" where
  "result_timing_ok p r accepted_at \<longleftrightarrow>
     o_created_at p \<le> ar_completed_at r \<and> ar_completed_at r \<le> accepted_at + max_agent_clock_skew \<and> accepted_at < o_deadline_at p"

definition store_instance :: "gateway_instance \<Rightarrow> plane_db \<Rightarrow> plane_db" where
  "store_instance i db = db\<lparr>g_instances := store_row gi_id i (g_instances db)\<rparr>"

definition bump_sequence :: "int \<Rightarrow> gateway_instance \<Rightarrow> plane_db \<Rightarrow> plane_db" where
  "bump_sequence n i db = store_instance (i\<lparr>gi_last_result_sequence := max (gi_last_result_sequence i) n\<rparr>) db"

definition store_result :: "command_result \<Rightarrow> plane_db \<Rightarrow> plane_db" where
  "store_result r db = db\<lparr>g_results := store_row rs_id r (g_results db)\<rparr>"

definition new_result :: "uuid \<Rightarrow> command \<Rightarrow> uuid option \<Rightarrow> work_status \<Rightarrow> instant \<Rightarrow> int \<Rightarrow> string \<Rightarrow> command_result" where
  "new_result identity c delivery_id status at n digest =
     \<lparr>rs_id = identity, rs_command_id = cm_id c, rs_delivery_id = delivery_id, rs_identifier = result_identifier c,
      rs_status = status, rs_completed_at = Some at, rs_sequence = Some n, rs_digest = Some digest\<rparr>"

definition steps_document :: "operation \<Rightarrow> plane_db \<Rightarrow> json" where
  "steps_document p db =
     JObj [(''steps'', JList (map (\<lambda>s.
        JObj [(''sequence'', JInt (s_sequence s)), (''capability'', JStr (s_capability s)),
              (''safe_result'', (case s_safe_result s of None \<Rightarrow> JNull | Some v \<Rightarrow> v))])
        (sort_key s_sequence (filter (\<lambda>s. s_operation_id s = o_id p) (g_steps db)))))]"

definition finished_step :: "agent_result \<Rightarrow> json option \<Rightarrow> string option \<Rightarrow> instant \<Rightarrow> module_step \<Rightarrow> module_step" where
  "finished_step r safe_result error_code at s =
     s\<lparr>s_status := ar_status r, s_safe_result := safe_result, s_error_code := error_code, s_completed_at := Some at\<rparr>"

record result_ids =
  ri_result :: uuid
  ri_evidence :: uuid

text \<open>The parent after its step: it ends with its last step or with a step that did not succeed.\<close>

definition finish_parent ::
  "contracts \<Rightarrow> result_ids \<Rightarrow> int \<Rightarrow> agent_result \<Rightarrow> string option \<Rightarrow> instant \<Rightarrow> operation \<Rightarrow> module_step \<Rightarrow> plane_db \<Rightarrow> gateway_error + plane_db" where
  "finish_parent ct ids expected r error_code at p s db =
     (if ar_status r = Succeeded then
        (if s_sequence s = expected - 1 then
           let p' = p\<lparr>o_status := Succeeded, o_completed_at := Some at\<rparr> in
           bindE (flush_plane GwIntegrityError (store_operation p' db)) (\<lambda>db1.
           bindE (lift_operation (create_operation_evidence (ct_rendered ct) (ct_digest ct) (ri_evidence ids) p' ''module''
                    (steps_document p' db1) (Aware at) db1)) (\<lambda>(db2, _).
             append_module_terminal_audit p' s at db2))
         else Inr (store_operation (p\<lparr>o_status := Running\<rparr>) db))
      else
        let p' = p\<lparr>o_status := ar_status r, o_completed_at := Some at, o_error_code := error_code\<rparr>
        in append_module_terminal_audit p' s at (store_operation p' db))"

definition record_module_step_result ::
  "contracts \<Rightarrow> result_ids \<Rightarrow> instant \<Rightarrow> command \<Rightarrow> delivery option \<Rightarrow> module_step \<Rightarrow> operation \<Rightarrow> gateway_instance \<Rightarrow> uuid \<Rightarrow> int
   \<Rightarrow> agent_result \<Rightarrow> string \<Rightarrow> plane_db \<Rightarrow> gateway_error + plane_db" where
  "record_module_step_result ct ids accepted_at c d s p i session_id n r digest db =
     bindE (require_authoritative_module_step_set p db) (\<lambda>expected.
     case find (\<lambda>x. rs_identifier x = result_identifier c) (g_results db) of
       Some stored \<Rightarrow>
         (case d of
            None \<Rightarrow> Inl CommandStateRejected
          | Some d \<Rightarrow>
              if dl_session_id d \<noteq> Some session_id \<or> rs_command_id stored \<noteq> cm_id c \<or> rs_delivery_id stored \<noteq> Some (dl_id d)
                 \<or> rs_digest stored \<noteq> Some digest \<or> rs_status stored \<noteq> ar_status r \<or> cm_status c \<noteq> ar_status r
                 \<or> dl_status d \<noteq> ar_status r \<or> s_status s \<noteq> ar_status r
              then Inl CommandStateRejected else Inr (bump_sequence n i db))
     | None \<Rightarrow>
         (case d of
            None \<Rightarrow> Inl CommandStateRejected
          | Some d \<Rightarrow>
              if dl_session_id d \<noteq> Some session_id \<or> \<not> in_flight (cm_status c) \<or> \<not> in_flight (s_status s) \<or> \<not> in_flight (o_status p)
              then Inl CommandStateRejected
              else if \<not> result_timing_ok p r accepted_at then Inl CommandStateRejected
              else
                bindE (safe_module_step_result ct s r) (\<lambda>(safe_result, error_code).
                let s' = finished_step r safe_result error_code accepted_at s;
                    db1 = store_step s' (store_delivery (d\<lparr>dl_status := ar_status r\<rparr>) (store_command (c\<lparr>cm_status := ar_status r\<rparr>)
                            (db\<lparr>g_results := g_results db @ [new_result (ri_result ids) c (Some (dl_id d)) (ar_status r) accepted_at n digest]\<rparr>)))
                in bindE (finish_parent ct ids expected r error_code accepted_at p s' db1) (\<lambda>db2. Inr (bump_sequence n i db2)))))"

section \<open>Terminal results\<close>

record result_ack =
  ra_command_id :: uuid
  ra_result_sequence :: int

definition result_payload_digest :: "contracts \<Rightarrow> agent_result \<Rightarrow> string" where
  "result_payload_digest ct r = ct_digest ct (ct_result_document ct r)"

text \<open>A first result for an operation: the guards on its delivery, the check of its time, its public form.\<close>

definition accept_operation_result ::
  "contracts \<Rightarrow> instant \<Rightarrow> uuid \<Rightarrow> command \<Rightarrow> delivery option \<Rightarrow> operation \<Rightarrow> agent_result \<Rightarrow> gateway_error + agent_result" where
  "accept_operation_result ct accepted_at session_id c d p r =
     (if (case d of None \<Rightarrow> True | Some d \<Rightarrow> dl_session_id d \<noteq> Some session_id) \<or> \<not> in_flight (cm_status c) \<or> \<not> in_flight (o_status p)
      then Inl CommandStateRejected
      else if \<not> result_timing_ok p r accepted_at then Inl CommandStateRejected
      else bindE (safe_operation_result ct p r) (\<lambda>safe. Inr (safe\<lparr>ar_completed_at := accepted_at\<rparr>)))"

definition is_context_kind :: "string \<Rightarrow> bool" where
  "is_context_kind kind \<longleftrightarrow> take 8 kind = ''context.''"

definition outcome_matches :: "work_status \<Rightarrow> collection \<Rightarrow> operation \<Rightarrow> collection \<Rightarrow> bool" where
  "outcome_matches status k p ingested \<longleftrightarrow>
     k_id ingested = k_id k \<and> k_operation_id ingested = Some (o_id p)
     \<and> k_status ingested = (if status = Succeeded then CCompleted else CFailed)"

text \<open>The ingestion of a result, \<open>None\<close> for a command that is no context command.\<close>

definition ingest_result ::
  "contracts \<Rightarrow> ingest_ids \<Rightarrow> instant \<Rightarrow> uuid \<Rightarrow> agent_result \<Rightarrow> instant option \<Rightarrow> command \<Rightarrow> collection option \<Rightarrow> operation option
   \<Rightarrow> gateway_db \<Rightarrow> gateway_error + (gateway_db \<times> collection option)" where
  "ingest_result ct ids clock result_id r now c k p db =
     (if \<not> is_context_kind (cm_kind c) then Inr (db, None)
      else bindE (ingest_context_result ct ids clock result_id r now db) (\<lambda>(db1, ingested).
        case (p, k) of
          (None, _) \<Rightarrow> Inr (db1, Some ingested)
        | (Some p, Some k) \<Rightarrow>
            if outcome_matches (ar_status r) k p ingested then Inr (db1, Some ingested) else Inl CommandStateRejected
        | (Some p, None) \<Rightarrow> Inl CommandStateRejected))"

definition diagnostic_snapshot :: "operation \<Rightarrow> gateway_db \<Rightarrow> snapshot option" where
  "diagnostic_snapshot p db =
     find (\<lambda>s. Some (sn_collection_id s) = o_collection_id p \<and> sn_device_id s = o_device_id p \<and> sn_profile s = ''diagnostic_v1'')
       (w_snapshots db)"

definition settle_operation ::
  "contracts \<Rightarrow> uuid \<Rightarrow> instant \<Rightarrow> work_status \<Rightarrow> collection option \<Rightarrow> operation \<Rightarrow> gateway_db \<Rightarrow> gateway_error + gateway_db" where
  "settle_operation ct evidence_id at status ingested p db =
     (let p1 = p\<lparr>o_status := status, o_completed_at := Some at\<rparr> in
      bindE
        (if status = Succeeded then
           bindE (require CommandStateRejected (diagnostic_snapshot p1 db)) (\<lambda>s.
           bindE (require CommandStateRejected (project_diagnostic_result ct p1 s)) (\<lambda>safe.
           bindE (lift_operation (create_operation_evidence (ct_rendered ct) (ct_digest ct) evidence_id p1 ''diagnostic'' safe
                    (Aware at) (store_operation p1 (w_plane db)))) (\<lambda>(plane, _). Inr (plane, p1))))
         else
           bindE (require GwUnboundLocalError ingested) (\<lambda>k.
             let p2 = p1\<lparr>o_error_code := k_failure_code k\<rparr> in Inr (store_operation p2 (w_plane db), p2)))
        (\<lambda>(plane, p'). bindE (lift_operation (append_operation_terminal_audit p' (Aware at) plane)) (\<lambda>plane'. Inr (db\<lparr>w_plane := plane'\<rparr>))))"

definition finish_transport :: "work_status \<Rightarrow> command \<Rightarrow> delivery option \<Rightarrow> plane_db \<Rightarrow> plane_db" where
  "finish_transport status c d db =
     (let db1 = store_command (c\<lparr>cm_status := status\<rparr>) db
      in (case d of None \<Rightarrow> db1 | Some d \<Rightarrow> store_delivery (d\<lparr>dl_status := status\<rparr>) db1))"

definition first_result ::
  "contracts \<Rightarrow> result_ids \<Rightarrow> ingest_ids \<Rightarrow> (nat \<Rightarrow> instant) \<Rightarrow> uuid \<Rightarrow> int \<Rightarrow> agent_result \<Rightarrow> command \<Rightarrow> delivery option
   \<Rightarrow> collection option \<Rightarrow> operation option \<Rightarrow> gateway_db \<Rightarrow> gateway_error + gateway_db" where
  "first_result ct ids gids clock session_id n r c d k p db =
     bindE (case p of
              None \<Rightarrow> Inr (r, None)
            | Some p \<Rightarrow> bindE (accept_operation_result ct (clock 0) session_id c d p r) (\<lambda>safe. Inr (safe, Some (clock 0)))) (\<lambda>(accepted, accepted_at).
     let stored = new_result (ri_result ids) c (map_option dl_id d) (ar_status r) (ar_completed_at accepted) n (result_payload_digest ct r)
     in bindE (commit_gateway (with_plane (\<lambda>plane. plane\<lparr>g_results := g_results plane @ [stored]\<rparr>) db)) (\<lambda>db1.
        bindE (ingest_result ct gids (clock 1) (rs_id stored) accepted accepted_at c k p db1) (\<lambda>(db2, ingested).
        let db3 = with_plane (finish_transport (ar_status r) c d) db2
        in (case p of
              None \<Rightarrow> Inr db3
            | Some p \<Rightarrow> settle_operation ct (ri_evidence ids) (clock 0) (ar_status r) ingested p db3))))"

text \<open>A result for an operation that was stored before has to be the one that was stored.\<close>

definition operation_replay_ok ::
  "contracts \<Rightarrow> uuid \<Rightarrow> uuid \<Rightarrow> command_result \<Rightarrow> agent_result \<Rightarrow> command \<Rightarrow> delivery option \<Rightarrow> collection \<Rightarrow> operation \<Rightarrow> gateway_db \<Rightarrow> bool" where
  "operation_replay_ok ct device_id instance_id stored r c d k p db \<longleftrightarrow>
     (case d of
        None \<Rightarrow> False
      | Some d \<Rightarrow>
          (case dl_session_id d of
             None \<Rightarrow> False
           | Some i \<Rightarrow>
               (case find (\<lambda>g. gs_id g = i \<and> gs_device_id g = device_id) (g_sessions (w_plane db)) of
                  None \<Rightarrow> False | Some g \<Rightarrow> gs_instance_id g = instance_id))
          \<and> rs_delivery_id stored = Some (dl_id d) \<and> dl_status d = ar_status r)
     \<and> rs_command_id stored = cm_id c
     \<and> (case rs_sequence stored of None \<Rightarrow> False | Some m \<Rightarrow> 0 \<le> m)
     \<and> rs_digest stored = Some (result_payload_digest ct r) \<and> rs_status stored = ar_status r
     \<and> cm_status c = ar_status r \<and> o_status p = ar_status r \<and> o_completed_at p \<noteq> None \<and> rs_completed_at stored = o_completed_at p
     \<and> k_command_result_id k = Some (rs_id stored)
     \<and> (if ar_status r = Succeeded
        then k_status k = CCompleted
          \<and> (case find (\<lambda>s. sn_collection_id s = k_id k) (w_snapshots db) of
               None \<Rightarrow> False | Some s \<Rightarrow> project_diagnostic_result ct p s \<noteq> None)
        else k_status k = CFailed)"

definition repeated_result ::
  "contracts \<Rightarrow> uuid \<Rightarrow> uuid \<Rightarrow> int \<Rightarrow> command_result \<Rightarrow> agent_result \<Rightarrow> command \<Rightarrow> delivery option \<Rightarrow> collection option
   \<Rightarrow> operation option \<Rightarrow> gateway_db \<Rightarrow> gateway_error + gateway_db" where
  "repeated_result ct device_id instance_id n stored r c d k p db =
     (case (p, k) of
        (None, _) \<Rightarrow>
          Inr (if rs_sequence stored = None then with_plane (store_result (stored\<lparr>rs_sequence := Some n\<rparr>)) db else db)
      | (Some p, Some k) \<Rightarrow>
          if operation_replay_ok ct device_id instance_id stored r c d k p db then Inr db else Inl CommandStateRejected
      | (Some p, None) \<Rightarrow> Inl CommandStateRejected)"

fun context_rejected :: "gateway_error + 'a \<Rightarrow> gateway_error + 'a" where
  "context_rejected (Inl ContextConflict) = Inl CommandStateRejected"
| "context_rejected (Inl ContextNotFound) = Inl CommandStateRejected"
| "context_rejected (Inl ContextValidationError) = Inl CommandStateRejected"
| "context_rejected r = r"

definition context_result ::
  "contracts \<Rightarrow> result_ids \<Rightarrow> ingest_ids \<Rightarrow> (nat \<Rightarrow> instant) \<Rightarrow> uuid \<Rightarrow> uuid \<Rightarrow> uuid \<Rightarrow> int \<Rightarrow> agent_result \<Rightarrow> command \<Rightarrow> delivery option
   \<Rightarrow> gateway_instance \<Rightarrow> gateway_db \<Rightarrow> gateway_error + gateway_db" where
  "context_result ct ids gids clock device_id instance_id session_id n r c d i db =
     bindE (resolve_command_context_relation c (w_plane db)) (\<lambda>(k, p).
     bindE (case find (\<lambda>x. rs_identifier x = result_identifier c) (g_results (w_plane db)) of
              None \<Rightarrow> first_result ct ids gids clock session_id n r c d k p db
            | Some stored \<Rightarrow> repeated_result ct device_id instance_id n stored r c d k p db) (\<lambda>db1.
       commit_gateway (with_plane (bump_sequence n i) db1)))"

definition owned_session :: "uuid \<Rightarrow> uuid \<Rightarrow> uuid \<Rightarrow> plane_db \<Rightarrow> gateway_session option" where
  "owned_session session_id device_id instance_id db =
     find (\<lambda>g. gs_id g = session_id \<and> gs_device_id g = device_id \<and> gs_instance_id g = instance_id \<and> gs_closed_at g = None)
       (g_sessions db)"

definition record_result ::
  "contracts \<Rightarrow> result_ids \<Rightarrow> ingest_ids \<Rightarrow> (nat \<Rightarrow> instant) \<Rightarrow> uuid \<Rightarrow> uuid \<Rightarrow> uuid \<Rightarrow> int \<Rightarrow> agent_result \<Rightarrow> gateway_db
   \<Rightarrow> gateway_error + (gateway_db \<times> result_ack)" where
  "record_result ct ids gids clock device_id instance_id session_id n r db =
     (if n < 0 then Inl CommandStateRejected
      else if ar_device_id r \<noteq> device_id \<or> \<not> terminal_work (ar_status r) then Inl CommandStateRejected
      else
        let plane = w_plane db in
        bindE (context_rejected
          (case (owned_session session_id device_id instance_id plane,
                 find (\<lambda>i. gi_id i = instance_id \<and> gi_device_id i = device_id) (g_instances plane),
                 find (\<lambda>c. cm_id c = ar_command_id r \<and> cm_device_id c = device_id) (g_commands plane)) of
             (Some _, Some i, Some c) \<Rightarrow>
               let d = find (\<lambda>d. dl_command_id d = cm_id c) (g_deliveries plane) in
               bindE (resolve_module_step_relation c plane) (\<lambda>relation.
               case relation of
                 Some (s, p) \<Rightarrow>
                   bindE (record_module_step_result ct ids (clock 0) c d s p i session_id n r (result_payload_digest ct r) plane) (\<lambda>plane'.
                     commit_plane plane' db)
               | None \<Rightarrow> context_result ct ids gids clock device_id instance_id session_id n r c d i db)
           | _ \<Rightarrow> Inl CommandStateRejected)) (\<lambda>db'.
          Inr (db', \<lparr>ra_command_id = ar_command_id r, ra_result_sequence = n\<rparr>)))"

end
