(* ===== verification/Gateway_Http.thy ===== *)
theory Gateway_Http
  imports Gateway_Results
begin

text \<open>
  \<open>gateway/routes.py\<close>: the pull transport over HTTPS. The device is the one of the authenticated principal; the
  presence rows the routes touch first are not modelled.
\<close>

datatype http_error = Unavailable | HttpRaised gateway_error

definition unavailable_on_rejection :: "gateway_error + 'a \<Rightarrow> http_error + 'a" where
  "unavailable_on_rejection r =
     (case r of Inr x \<Rightarrow> Inr x | Inl e \<Rightarrow> if e = CommandStateRejected then Inl Unavailable else Inl (HttpRaised e))"

definition or_raise :: "gateway_error + 'a \<Rightarrow> http_error + 'a" where
  "or_raise r = map_sum HttpRaised (\<lambda>x. x) r"

definition next_command ::
  "contracts \<Rightarrow> delivery_ids \<Rightarrow> (nat \<Rightarrow> instant) \<Rightarrow> uuid \<Rightarrow> gateway_db \<Rightarrow> http_error + (gateway_db \<times> gateway_command option)" where
  "next_command ct ids clock device_id db =
     or_raise (bindE (next_pending_command ct ids clock device_id None ''http_pull'' None (w_plane db)) (\<lambda>(plane, payload).
       bindE (commit_plane plane db) (\<lambda>db'. Inr (db', payload))))"

definition device_command :: "uuid \<Rightarrow> uuid \<Rightarrow> plane_db \<Rightarrow> command option" where
  "device_command command_id device_id db = find (\<lambda>c. cm_id c = command_id \<and> cm_device_id c = device_id) (g_commands db)"

text \<open>The collection of a command that belongs to no operation.\<close>

definition pull_relation :: "command \<Rightarrow> plane_db \<Rightarrow> http_error + collection option" where
  "pull_relation c db =
     bindE (unavailable_on_rejection (resolve_command_context_relation c db)) (\<lambda>(k, p).
       if p \<noteq> None then Inl Unavailable else Inr k)"

definition http_acked :: "agent_ack \<Rightarrow> command \<Rightarrow> collection option \<Rightarrow> plane_db \<Rightarrow> plane_db" where
  "http_acked a c k db =
     (let db1 = store_command (c\<lparr>cm_status := aa_status a\<rparr>) db;
          db2 = (case k of None \<Rightarrow> db1 | Some k \<Rightarrow> store_collection (k\<lparr>k_status := CCollecting\<rparr>) db1)
      in (case find (\<lambda>d. dl_command_id d = cm_id c) (g_deliveries db2) of
            None \<Rightarrow> db2
          | Some d \<Rightarrow> store_delivery (d\<lparr>dl_status := aa_status a, dl_acknowledged_at := Some (aa_acknowledged_at a)\<rparr>) db2))"

definition acknowledge :: "uuid \<Rightarrow> uuid \<Rightarrow> agent_ack \<Rightarrow> gateway_db \<Rightarrow> http_error + gateway_db" where
  "acknowledge command_id device_id a db =
     (case device_command command_id device_id (w_plane db) of
        None \<Rightarrow> Inl Unavailable
      | Some c \<Rightarrow>
          if aa_command_id a \<noteq> cm_id c \<or> aa_device_id a \<noteq> device_id \<or> aa_status a \<noteq> Acknowledged then Inl Unavailable
          else bindE (pull_relation c (w_plane db)) (\<lambda>k. or_raise (commit_plane (http_acked a c k (w_plane db)) db)))"

definition pulled_result :: "contracts \<Rightarrow> uuid \<Rightarrow> command \<Rightarrow> agent_result \<Rightarrow> command_result" where
  "pulled_result ct identity c r =
     \<lparr>rs_id = identity, rs_command_id = cm_id c, rs_delivery_id = None, rs_identifier = result_identifier c, rs_status = ar_status r,
      rs_completed_at = Some (ar_completed_at r), rs_sequence = None, rs_digest = Some (result_payload_digest ct r)\<rparr>"

definition first_pulled_result ::
  "contracts \<Rightarrow> uuid \<Rightarrow> ingest_ids \<Rightarrow> instant \<Rightarrow> command \<Rightarrow> agent_result \<Rightarrow> gateway_db \<Rightarrow> gateway_error + gateway_db" where
  "first_pulled_result ct identity gids clock c r db =
     bindE (commit_gateway (with_plane (\<lambda>plane. plane\<lparr>g_results := g_results plane @ [pulled_result ct identity c r]\<rparr>) db)) (\<lambda>db1.
     bindE (ingest_context_result ct gids clock identity r None db1) (\<lambda>(db2, _).
       Inr (with_plane (store_command (c\<lparr>cm_status := ar_status r\<rparr>)) db2)))"

definition submit_result ::
  "contracts \<Rightarrow> uuid \<Rightarrow> ingest_ids \<Rightarrow> instant \<Rightarrow> uuid \<Rightarrow> uuid \<Rightarrow> agent_result \<Rightarrow> gateway_db \<Rightarrow> http_error + gateway_db" where
  "submit_result ct identity gids clock command_id device_id r db =
     (case device_command command_id device_id (w_plane db) of
        None \<Rightarrow> Inl Unavailable
      | Some c \<Rightarrow>
          if ar_command_id r \<noteq> cm_id c \<or> ar_device_id r \<noteq> device_id then Inl Unavailable
          else bindE (pull_relation c (w_plane db)) (\<lambda>_.
            case find (\<lambda>x. rs_identifier x = result_identifier c) (g_results (w_plane db)) of
              None \<Rightarrow> or_raise (bindE (first_pulled_result ct identity gids clock c r db) commit_gateway)
            | Some stored \<Rightarrow>
                if rs_command_id stored \<noteq> cm_id c \<or> rs_digest stored \<noteq> Some (result_payload_digest ct r) then Inl Unavailable
                else or_raise (commit_gateway db)))"

end
