(* ===== verification/Work_Ledger.thy ===== *)
theory Work_Ledger
  imports Operation_Invariants
begin

text \<open>
  The ledger of work as an abstract machine over three tables: operations, collections and module steps. The
  services and the gateway refine it; its invariants hold by rule induction.
\<close>

declare terminal_work.simps [simp del]

section \<open>The machine\<close>

type_synonym work_tables = "operation list \<times> collection list \<times> module_step list"

definition work_of :: "plane_db \<Rightarrow> work_tables" where
  "work_of db = (g_operations db, g_collections db, g_steps db)"

definition same_identity :: "operation \<Rightarrow> operation \<Rightarrow> bool" where
  "same_identity p q \<longleftrightarrow>
     o_id q = o_id p \<and> o_created_at q = o_created_at p \<and> o_client_id q = o_client_id p \<and> o_device_id q = o_device_id p
     \<and> o_idempotency_key q = o_idempotency_key p \<and> o_capability q = o_capability p \<and> o_deadline_at q = o_deadline_at p
     \<and> o_collection_id q = o_collection_id p"

definition same_step :: "module_step \<Rightarrow> module_step \<Rightarrow> bool" where
  "same_step s t \<longleftrightarrow>
     s_id t = s_id s \<and> s_operation_id t = s_operation_id s \<and> s_sequence t = s_sequence s \<and> s_capability t = s_capability s"

definition begun :: "work_status \<Rightarrow> bool" where
  "begun s \<longleftrightarrow> s \<in> {Delivered, Acknowledged, Running, Succeeded}"

definition earlier_succeeded :: "module_step list \<Rightarrow> module_step \<Rightarrow> bool" where
  "earlier_succeeded steps s \<longleftrightarrow>
     (\<forall>t\<in>set steps. s_operation_id t = s_operation_id s \<longrightarrow> s_sequence t < s_sequence s \<longrightarrow> s_status t = Succeeded)"

definition steps_succeeded :: "module_step list \<Rightarrow> operation \<Rightarrow> bool" where
  "steps_succeeded steps p \<longleftrightarrow> (\<forall>t\<in>set steps. s_operation_id t = o_id p \<longrightarrow> s_status t = Succeeded)"

text \<open>
  \<open>loose\<close> changes collections no operation owns; \<open>move\<close> changes one open operation and its collection together;
  \<open>advance\<close> changes one open step, and only begins it when all earlier steps have succeeded; \<open>annotate\<close> changes a
  step but not its status; \<open>enter\<close> adds a queued operation with its collection and its steps.
\<close>

inductive work_step :: "work_tables \<Rightarrow> work_tables \<Rightarrow> bool" where
  loose: "(\<And>k. k \<in> set ks' \<Longrightarrow> k_operation_id k \<noteq> None \<Longrightarrow> k \<in> set ks) \<Longrightarrow> work_step (ops, ks, steps) (ops, ks', steps)"
| move: "\<lbrakk>p \<in> set ops; \<not> terminal_work (o_status p); same_identity p q;
     \<And>k. k \<in> set ks' \<Longrightarrow> k_operation_id k = Some (o_id p) \<Longrightarrow>
       closed_collection k = terminal_work (o_status q) \<and> o_collection_id p = Some (k_id k);
     \<And>k i. k \<in> set ks' \<Longrightarrow> k_operation_id k = Some i \<Longrightarrow> i \<noteq> o_id p \<Longrightarrow> k \<in> set ks;
     o_capability q = ''endpoint.module.recipe'' \<Longrightarrow> o_status q = Succeeded \<Longrightarrow> steps_succeeded steps q\<rbrakk>
   \<Longrightarrow> work_step (ops, ks, steps) (store_row o_id q ops, ks', steps)"
| advance: "\<lbrakk>s \<in> set steps; \<not> terminal_work (s_status s); same_step s t; begun (s_status t) \<Longrightarrow> earlier_succeeded steps s\<rbrakk>
   \<Longrightarrow> work_step (ops, ks, steps) (ops, ks, store_row s_id t steps)"
| annotate: "(\<And>s. same_step s (f s) \<and> s_status (f s) = s_status s) \<Longrightarrow> work_step (ops, ks, steps) (ops, ks, map f steps)"
| enter: "\<lbrakk>o_id p \<notin> o_id ` set ops; o_status p = Queued; distinct (map s_id (steps @ new));
     o_capability p = ''endpoint.module.recipe'' \<Longrightarrow> o_collection_id p = None;
     \<And>k. k \<in> set ks \<Longrightarrow> k_operation_id k \<noteq> Some (o_id p);
     \<And>k. k \<in> set own \<Longrightarrow> k_operation_id k = Some (o_id p) \<and> o_collection_id p = Some (k_id k) \<and> \<not> closed_collection k;
     \<And>t. t \<in> set new \<Longrightarrow> s_operation_id t = o_id p \<and> s_status t = Queued\<rbrakk>
   \<Longrightarrow> work_step (ops, ks, steps) (ops @ [p], ks @ own, steps @ new)"

inductive_cases work_stepE: "work_step a b"

section \<open>Invariants\<close>

definition paired :: "operation list \<Rightarrow> collection list \<Rightarrow> bool" where
  "paired ops ks \<longleftrightarrow>
     (\<forall>p\<in>set ops. \<forall>k\<in>set ks. k_operation_id k = Some (o_id p) \<longrightarrow>
        (terminal_work (o_status p) \<longleftrightarrow> closed_collection k) \<and> o_collection_id p = Some (k_id k))"

definition in_order :: "module_step list \<Rightarrow> bool" where
  "in_order steps \<longleftrightarrow> (\<forall>s\<in>set steps. begun (s_status s) \<longrightarrow> earlier_succeeded steps s)"

definition complete :: "operation list \<Rightarrow> module_step list \<Rightarrow> bool" where
  "complete ops steps \<longleftrightarrow>
     (\<forall>p\<in>set ops. o_capability p = ''endpoint.module.recipe'' \<longrightarrow> o_status p = Succeeded \<longrightarrow> steps_succeeded steps p)"

fun work_inv :: "work_tables \<Rightarrow> bool" where
  "work_inv (ops, ks, steps) \<longleftrightarrow>
     distinct (map o_id ops) \<and> distinct (map s_id steps)
     \<and> (\<forall>p\<in>set ops. o_capability p = ''endpoint.module.recipe'' \<longrightarrow> o_collection_id p = None)
     \<and> (\<forall>s\<in>set steps. s_operation_id s \<in> o_id ` set ops)
     \<and> paired ops ks \<and> in_order steps \<and> complete ops steps"

text \<open>What a history keeps: ended operations and ended steps stay as they are, open ones keep their identity.\<close>

definition operations_le :: "operation list \<Rightarrow> operation list \<Rightarrow> bool" where
  "operations_le ops ops' \<longleftrightarrow>
     (\<forall>p\<in>set ops. \<exists>q\<in>set ops'. same_identity p q \<and> (terminal_work (o_status p) \<longrightarrow> q = p))"

definition steps_le :: "module_step list \<Rightarrow> module_step list \<Rightarrow> bool" where
  "steps_le steps steps' \<longleftrightarrow>
     (\<forall>s\<in>set steps. \<exists>t\<in>set steps'. same_step s t \<and> (terminal_work (s_status s) \<longrightarrow> s_status t = s_status s))"

fun work_le :: "work_tables \<Rightarrow> work_tables \<Rightarrow> bool" where
  "work_le (ops, ks, steps) (ops', ks', steps') \<longleftrightarrow> operations_le ops ops' \<and> steps_le steps steps'"

lemma same_identity_refl [simp]: "same_identity p p"
  by (simp add: same_identity_def)

lemma same_step_refl [simp]: "same_step s s"
  by (simp add: same_step_def)

lemma operations_le_refl [simp]: "operations_le ops ops"
  unfolding operations_le_def using same_identity_refl by blast

lemma steps_le_refl [simp]: "steps_le steps steps"
  unfolding steps_le_def using same_step_refl by blast

lemma work_le_refl: "work_le a a"
  by (cases a) simp

lemma operations_le_trans: "operations_le a b \<Longrightarrow> operations_le b c \<Longrightarrow> operations_le a c"
  unfolding operations_le_def same_identity_def by metis

lemma steps_le_trans: "steps_le a b \<Longrightarrow> steps_le b c \<Longrightarrow> steps_le a c"
  unfolding steps_le_def same_step_def by metis

lemma work_le_trans: "work_le a b \<Longrightarrow> work_le b c \<Longrightarrow> work_le a c"
  by (cases a; cases b; cases c) (auto intro: operations_le_trans steps_le_trans)

lemma store_member:
  assumes "distinct (map key rows)" "p \<in> set rows" "key q = key p"
  shows "x \<in> set (store_row key q rows) \<longleftrightarrow> x = q \<or> x \<in> set rows \<and> x \<noteq> p"
proof -
  have "x \<noteq> p \<longleftrightarrow> key x \<noteq> key p" if "x \<in> set rows"
    using distinct_map_inj [OF assms(1) that assms(2)] by blast
  then show ?thesis using assms(2,3) by (auto simp: in_set_store_row)
qed

lemma earlier_succeeded_same:
  "same_step s t \<Longrightarrow> earlier_succeeded steps t = earlier_succeeded steps s"
  by (simp add: earlier_succeeded_def same_step_def)

lemma steps_succeeded_same: "same_identity p q \<Longrightarrow> steps_succeeded steps q = steps_succeeded steps p"
  by (simp add: steps_succeeded_def same_identity_def)

lemma work_step_ok:
  assumes "work_step a b" "work_inv a"
  shows "work_inv b \<and> work_le a b"
  using assms
proof (induction rule: work_step.induct)
  case (loose ks' ks ops steps)
  then have "paired ops ks'" by (fastforce simp: paired_def)
  with loose(2) show ?case by simp
next
  case (move p ops q ks' ks steps)
  have d: "distinct (map o_id ops)" and id: "o_id q = o_id p" "o_capability q = o_capability p" "o_collection_id q = o_collection_id p"
    using move(3,7) by (auto simp: same_identity_def)
  note mem = store_member [OF d move(1) id(1)]
  have pairs: "paired (store_row o_id q ops) ks'" unfolding paired_def
  proof (intro ballI impI)
    fix r k assume r: "r \<in> set (store_row o_id q ops)" and k: "k \<in> set ks'" "k_operation_id k = Some (o_id r)"
    show "terminal_work (o_status r) = closed_collection k \<and> o_collection_id r = Some (k_id k)"
    proof (cases "r = q")
      case True
      then show ?thesis using move(4) [OF k(1)] k id by simp
    next
      case False
      then have r': "r \<in> set ops" "r \<noteq> p" using r mem by auto
      then have "o_id r \<noteq> o_id p" using distinct_map_inj [OF d] move(1) by blast
      then have "k \<in> set ks" using move(5) [OF k] by simp
      then show ?thesis using move(7) r' k by (auto simp: paired_def)
    qed
  qed
  have kept: "operations_le ops (store_row o_id q ops)"
    unfolding operations_le_def using mem move(2,3) same_identity_refl by metis
  have succ: "complete (store_row o_id q ops) steps"
    using move(6,7) by (auto simp: mem complete_def)
  have none: "\<forall>r\<in>set (store_row o_id q ops). o_capability r = ''endpoint.module.recipe'' \<longrightarrow> o_collection_id r = None"
    using move(1,7) id mem by auto
  have ids: "o_id ` set (store_row o_id q ops) = o_id ` set ops"
    using map_key_store_row [of o_id q ops] by (metis list.set_map)
  show ?case using move(7) pairs kept succ none ids by simp
next
  case (advance s steps t ops ks)
  have d: "distinct (map s_id steps)" and id: "s_id t = s_id s" "s_operation_id t = s_operation_id s"
    using advance(3,5) by (auto simp: same_step_def)
  note mem = store_member [OF d advance(1) id(1)]
  have not: "s_status s \<noteq> Succeeded" using advance(2) by (auto simp: terminal_work.simps)
  have earlier: "earlier_succeeded (store_row s_id t steps) x" if "earlier_succeeded steps x" for x
    unfolding earlier_succeeded_def
  proof (intro ballI impI)
    fix y assume y: "y \<in> set (store_row s_id t steps)" "s_operation_id y = s_operation_id x" "s_sequence y < s_sequence x"
    have "y \<noteq> t"
    proof
      assume "y = t"
      then have "s_status s = Succeeded" using that y advance(1,3) by (auto simp: earlier_succeeded_def same_step_def)
      with not show False by simp
    qed
    then show "s_status y = Succeeded" using y that mem by (auto simp: earlier_succeeded_def)
  qed
  have chain: "in_order (store_row s_id t steps)" unfolding in_order_def
  proof (intro ballI impI)
    fix x assume x: "x \<in> set (store_row s_id t steps)" "begun (s_status x)"
    show "earlier_succeeded (store_row s_id t steps) x"
    proof (cases "x = t")
      case True
      then show ?thesis using advance(4) x earlier earlier_succeeded_same [OF advance(3)] by simp
    next
      case False
      then show ?thesis using x mem advance(5) earlier by (auto simp: in_order_def)
    qed
  qed
  have succ: "complete ops (store_row s_id t steps)" unfolding complete_def
  proof (intro ballI impI)
    fix p assume p: "p \<in> set ops" "o_capability p = ''endpoint.module.recipe''" "o_status p = Succeeded"
    have all: "steps_succeeded steps p" using p advance(5) by (auto simp: complete_def)
    then have "s_operation_id s \<noteq> o_id p" using advance(1) not by (auto simp: steps_succeeded_def)
    with all id show "steps_succeeded (store_row s_id t steps) p" by (auto simp: steps_succeeded_def mem)
  qed
  have kept: "steps_le steps (store_row s_id t steps)"
    unfolding steps_le_def using mem advance(2,3) same_step_refl by metis
  have owned: "\<forall>x\<in>set (store_row s_id t steps). s_operation_id x \<in> o_id ` set ops"
    using advance(1,5) id mem by auto
  show ?case using advance(5) chain succ kept owned by simp
next
  case (annotate f ops ks steps)
  have f: "s_id (f s) = s_id s" "s_operation_id (f s) = s_operation_id s" "s_sequence (f s) = s_sequence s" "s_status (f s) = s_status s"
      "same_step s (f s)" for s
    using annotate(1) [of s] by (simp_all add: same_step_def)
  have ids: "map s_id (map f steps) = map s_id steps" using f by simp
  have "earlier_succeeded (map f steps) (f s) = earlier_succeeded steps s" for s by (simp add: earlier_succeeded_def f)
  then have "in_order (map f steps) = in_order steps" by (simp add: in_order_def f)
  moreover have "steps_succeeded (map f steps) p = steps_succeeded steps p" for p by (simp add: steps_succeeded_def f)
  then have "complete ops (map f steps) = complete ops steps" by (simp add: complete_def)
  moreover have "steps_le steps (map f steps)" unfolding steps_le_def using f(4,5) by auto
  ultimately show ?case using annotate(2) ids by (simp add: f comp_def)
next
  case (enter p ops steps new ks own)
  have other: "o_id x \<noteq> o_id p" if "x \<in> set ops" for x using that enter(1) by (metis imageI)
  have stray: "s_operation_id s \<noteq> o_id p" if "s \<in> set steps" for s
    using that enter(1,8) by (metis work_inv.simps)
  have open_p: "\<not> terminal_work (o_status p)" "o_status p \<noteq> Succeeded" using enter(2) by (simp_all add: terminal_work.simps)
  have "steps_succeeded (steps @ new) x" if "x \<in> set ops" "steps_succeeded steps x" for x
    using that other [OF that(1)] enter(7) by (auto simp: steps_succeeded_def)
  then have succ: "complete (ops @ [p]) (steps @ new)" using enter(8) open_p by (simp add: complete_def)
  have "earlier_succeeded (steps @ new) s" if "s \<in> set steps" "earlier_succeeded steps s" for s
    using that stray [OF that(1)] enter(7) unfolding earlier_succeeded_def by (metis Un_iff set_append)
  moreover have "\<not> begun (s_status t)" if "t \<in> set new" for t using enter(7) [OF that] by (simp add: begun_def)
  ultimately have chain: "in_order (steps @ new)" using enter(8) by (auto simp: in_order_def)
  have pairs: "paired (ops @ [p]) (ks @ own)" unfolding paired_def
  proof (intro ballI impI)
    fix x k assume x: "x \<in> set (ops @ [p])" and k: "k \<in> set (ks @ own)" "k_operation_id k = Some (o_id x)"
    show "terminal_work (o_status x) = closed_collection k \<and> o_collection_id x = Some (k_id k)"
    proof (cases "x \<in> set ops")
      case True
      then have "k \<in> set ks" using k enter(6) [of k] other by auto
      with True k enter(8) show ?thesis by (simp add: paired_def)
    next
      case False
      then have "x = p" using x by simp
      then have "k \<in> set own" using k enter(5) [of k] by auto
      then show ?thesis using open_p enter(6) [of k] \<open>x = p\<close> by simp
    qed
  qed
  have le: "operations_le ops (ops @ [p])" "steps_le steps (steps @ new)"
    unfolding operations_le_def steps_le_def by (auto intro: same_identity_refl same_step_refl)
  have owned: "\<forall>s\<in>set (steps @ new). s_operation_id s \<in> o_id ` set (ops @ [p])"
    using enter(7,8) by auto
  show ?case using enter(1,3,4,8) succ chain pairs le owned by auto
qed

lemma work_steps_ok:
  assumes "work_step\<^sup>*\<^sup>* a b" "work_inv a"
  shows "work_inv b \<and> work_le a b"
  using assms
proof (induction rule: rtranclp_induct)
  case (step b c)
  then show ?case using work_step_ok work_le_trans by blast
qed (simp add: work_le_refl)

end
