(* ===== verification/Work_Services.thy ===== *)
theory Work_Services
  imports Work_Ledger Operation_Frames Module_Routes
begin

text \<open>
  The services that create, cancel and expire operations refine the ledger of work, and so do the
  routes of modules.
\<close>

declare terminal_work.simps [simp del]

section \<open>Refinement\<close>

definition work_ok :: "plane_db \<Rightarrow> bool" where
  "work_ok db \<longleftrightarrow> plane_constraints db \<and> work_inv (work_of db)"

definition work_refines :: "plane_db \<Rightarrow> plane_db \<Rightarrow> bool" where
  "work_refines db db' \<longleftrightarrow> work_step\<^sup>*\<^sup>* (work_of db) (work_of db')"

lemma refines_same: "work_of db' = work_of db \<Longrightarrow> work_refines db db'"
  by (simp add: work_refines_def)

lemma refines_trans [trans]: "work_refines a b \<Longrightarrow> work_refines b c \<Longrightarrow> work_refines a c"
  unfolding work_refines_def by (rule rtranclp_trans)

lemma refines_step: "work_step (work_of db) (work_of db') \<Longrightarrow> work_refines db db'"
  by (simp add: work_refines_def)

lemma refines_inv: "work_refines db db' \<Longrightarrow> work_inv (work_of db) \<Longrightarrow> work_inv (work_of db')"
  using work_steps_ok by (auto simp: work_refines_def)

lemma refines_le: "work_refines db db' \<Longrightarrow> work_inv (work_of db) \<Longrightarrow> work_le (work_of db) (work_of db')"
  using work_steps_ok by (auto simp: work_refines_def)

lemma work_of_stores [simp]:
  "work_of (store_command c db) = work_of db" "work_of (store_delivery d db) = work_of db"
  "work_of (store_evidence e db) = work_of db"
  by (simp_all add: work_of_def store_defs)

lemma steps_stores [simp]:
  "g_steps (store_operation p db) = g_steps db" "g_steps (store_collection k db) = g_steps db"
  "g_steps (store_step s db) = store_row s_id s (g_steps db)"
  by (simp_all add: store_defs)

lemma steps_transport [simp]: "g_steps (expire_transport i d db) = g_steps db"
  by (auto simp: expire_transport_def expire_command_def expire_delivery_def store_defs split: option.splits)

lemma work_of_transport [simp]: "work_of (expire_transport i d db) = work_of db"
  by (simp add: work_of_def)

lemma work_invD:
  assumes "work_inv (work_of db)"
  shows "distinct (map o_id (g_operations db))" and "distinct (map s_id (g_steps db))"
    and "paired (g_operations db) (g_collections db)" and "in_order (g_steps db)" and "complete (g_operations db) (g_steps db)"
    and "p \<in> set (g_operations db) \<Longrightarrow> o_capability p = ''endpoint.module.recipe'' \<Longrightarrow> o_collection_id p = None"
    and "s \<in> set (g_steps db) \<Longrightarrow> s_operation_id s \<in> o_id ` set (g_operations db)"
  using assms by (auto simp: work_of_def)

lemma pairedD:
  assumes "work_inv (work_of db)" "p \<in> set (g_operations db)" "k \<in> set (g_collections db)" "k_operation_id k = Some (o_id p)"
  shows "terminal_work (o_status p) = closed_collection k" and "o_collection_id p = Some (k_id k)"
  using work_invD(3) [OF assms(1)] assms(2-4) by (auto simp: paired_def)

text \<open>An operation moves together with its collection.\<close>

lemma refines_pair:
  assumes inv: "work_inv (work_of db)" and p: "p \<in> set (g_operations db)" "\<not> terminal_work (o_status p)" "same_identity p q"
    and k: "k_id k' = i" "o_collection_id p = Some i" "k_operation_id k' = Some (o_id p)" "closed_collection k' = terminal_work (o_status q)"
    and kind: "o_capability p \<noteq> ''endpoint.module.recipe''"
    and db': "g_operations db' = store_row o_id q (g_operations db)" "g_collections db' = store_row k_id k' (g_collections db)"
      "g_steps db' = g_steps db"
  shows "work_refines db db'"
proof (rule refines_step)
  have mem: "x = k' \<or> x \<in> set (g_collections db) \<and> k_id x \<noteq> i" if "x \<in> set (store_row k_id k' (g_collections db))" for x
    using that k(1) by (auto simp: in_set_store_row)
  have "work_step (g_operations db, g_collections db, g_steps db)
      (store_row o_id q (g_operations db), store_row k_id k' (g_collections db), g_steps db)"
  proof (rule work_step.move [OF p])
    fix x assume x: "x \<in> set (store_row k_id k' (g_collections db))" "k_operation_id x = Some (o_id p)"
    have "x = k'" using mem [OF x(1)] pairedD(2) [OF inv p(1) _ x(2)] k(2) by auto
    then show "closed_collection x = terminal_work (o_status q) \<and> o_collection_id p = Some (k_id x)" using k by simp
  next
    fix x j assume "x \<in> set (store_row k_id k' (g_collections db))" "k_operation_id x = Some j" "j \<noteq> o_id p"
    then show "x \<in> set (g_collections db)" using mem [of x] k(3) by auto
  next
    assume "o_capability q = ''endpoint.module.recipe''" "o_status q = Succeeded"
    then show "steps_succeeded (g_steps db) q" using kind p(3) by (simp add: same_identity_def)
  qed
  then show "work_step (work_of db) (work_of db')" by (simp add: work_of_def db')
qed

text \<open>An operation without a collection moves alone, and so does one whose collection need not follow.\<close>

lemma refines_alone:
  assumes inv: "work_inv (work_of db)" and p: "p \<in> set (g_operations db)" "\<not> terminal_work (o_status p)" "same_identity p q"
    and kind: "o_collection_id p = None \<or> \<not> terminal_work (o_status q)"
    and all: "o_capability q = ''endpoint.module.recipe'' \<Longrightarrow> o_status q = Succeeded \<Longrightarrow> steps_succeeded (g_steps db) q"
    and db': "g_operations db' = store_row o_id q (g_operations db)" "g_collections db' = g_collections db" "g_steps db' = g_steps db"
  shows "work_refines db db'"
proof (rule refines_step)
  have "work_step (g_operations db, g_collections db, g_steps db) (store_row o_id q (g_operations db), g_collections db, g_steps db)"
  proof (rule work_step.move [OF p])
    fix x assume x: "x \<in> set (g_collections db)" "k_operation_id x = Some (o_id p)"
    show "closed_collection x = terminal_work (o_status q) \<and> o_collection_id p = Some (k_id x)"
      using pairedD [OF inv p(1) x] p(2) kind by auto
  qed (use all in auto)
  then show "work_step (work_of db) (work_of db')" by (simp add: work_of_def db')
qed

lemma refines_loose:
  assumes "\<And>k. k \<in> set (g_collections db') \<Longrightarrow> k_operation_id k \<noteq> None \<Longrightarrow> k \<in> set (g_collections db)"
    and "g_operations db' = g_operations db" "g_steps db' = g_steps db"
  shows "work_refines db db'"
  using work_step.loose [of "g_collections db'" "g_collections db" "g_operations db" "g_steps db"] assms
  by (intro refines_step) (auto simp: work_of_def)

lemma refines_advance:
  assumes "s \<in> set (g_steps db)" "\<not> terminal_work (s_status s)" "same_step s t"
    and "begun (s_status t) \<Longrightarrow> earlier_succeeded (g_steps db) s"
    and "g_operations db' = g_operations db" "g_collections db' = g_collections db" "g_steps db' = store_row s_id t (g_steps db)"
  shows "work_refines db db'"
  using work_step.advance [OF assms(1-4), of "g_operations db" "g_collections db"] assms(5-7)
  by (intro refines_step) (simp add: work_of_def)

section \<open>Expiry\<close>

lemma refines_expire_steps:
  assumes "work_inv (work_of db)" "set ss \<subseteq> set (g_steps db)" "distinct (map s_id ss)"
  shows "work_refines db (fold (expire_step at d) ss db)"
  using assms
proof (induction ss arbitrary: db)
  case Nil
  then show ?case by (simp add: refines_same)
next
  case (Cons s ss)
  let ?db = "expire_step at d s db"
  let ?t = "s\<lparr>s_status := Expired, s_error_code := Some ''operation_expired'', s_completed_at := Some at\<rparr>"
  have one: "work_refines db ?db"
  proof (cases "terminal_work (s_status s)")
    case False
    then have "work_of ?db = work_of (store_step ?t db)" by (simp add: expire_step_def)
    moreover have "work_refines db (store_step ?t db)"
      using Cons.prems(2) False by (intro refines_advance [of s _ ?t]) (auto simp: same_step_def begun_def)
    ultimately show ?thesis by (simp add: work_refines_def)
  qed (simp add: expire_step_def refines_same)
  have keep: "set ss \<subseteq> set (g_steps ?db)"
  proof
    fix x assume x: "x \<in> set ss"
    then have "s_id x \<noteq> s_id s" using Cons.prems(3) by (auto simp: image_iff)
    then have "x \<in> set (g_steps (store_step ?t db))" using x Cons.prems(2) by (auto simp: in_set_store_row)
    then show "x \<in> set (g_steps ?db)"
      using x Cons.prems(2) by (auto simp: expire_step_def)
  qed
  have "work_refines ?db (fold (expire_step at d) ss ?db)"
    using Cons.IH [OF refines_inv [OF one Cons.prems(1)] keep] Cons.prems(3) by simp
  with one show ?case by (simp add: refines_trans)
qed

lemma expire_step_steps:
  "g_steps (expire_step at d s db) = (if terminal_work (s_status s) then g_steps db
     else store_row s_id (s\<lparr>s_status := Expired, s_error_code := Some ''operation_expired'', s_completed_at := Some at\<rparr>) (g_steps db))"
  by (simp add: expire_step_def)

lemma fold_expire_steps_cong:
  "g_steps a = g_steps b \<Longrightarrow> g_steps (fold (expire_step at d) ss a) = g_steps (fold (expire_step at d) ss b)"
  by (induction ss arbitrary: a b) (simp_all add: expire_step_steps)

lemma refines_expire_module:
  assumes inv: "work_inv (work_of db)" and p: "p \<in> set (g_operations db)" "\<not> terminal_work (o_status p)"
      "o_capability p = ''endpoint.module.recipe''"
    and ok: "expire_module_operation p at db = Inr db'"
  shows "work_refines db db'"
proof -
  let ?ss = "filter (\<lambda>s. s_operation_id s = o_id p) (g_steps db)"
  let ?mid = "fold (expire_step at (o_device_id p)) ?ss db"
  have steps: "g_steps db' = g_steps ?mid"
    using ok fold_expire_steps_cong [of "store_operation (expired_operation at p) db" db at "o_device_id p" ?ss]
    by (auto simp: expire_module_operation_def Let_def split: if_splits)
  have sh: "g_operations db' = store_row o_id (expired_operation at p) (g_operations db)" "g_collections db' = g_collections db"
    using expire_module_Inr [OF ok] by auto
  have "distinct (map s_id ?ss)" using work_invD(2) [OF inv] by (simp add: distinct_map_filter)
  then have first: "work_refines db ?mid" by (intro refines_expire_steps [OF inv]) auto
  have inv': "work_inv (work_of ?mid)" by (rule refines_inv [OF first inv])
  have "work_refines ?mid db'"
    using p work_invD(6) [OF inv p(1,3)]
    by (intro refines_alone [OF inv', of p "expired_operation at p"]) (simp_all add: sh steps expired_operation_def same_identity_def)
  with first show ?thesis by (rule refines_trans)
qed

lemma refines_expire_diagnostic:
  assumes inv: "work_inv (work_of db)" and c: "plane_constraints db" and p: "p \<in> set (g_operations db)" "\<not> terminal_work (o_status p)"
      "o_capability p \<noteq> ''endpoint.module.recipe''" and k: "case k of None \<Rightarrow> True | Some k \<Rightarrow> k \<in> set (g_collections db)"
    and ok: "expire_diagnostic_operation p at k db = Inr db'"
  shows "work_refines db db'"
proof -
  let ?q = "expired_operation at p"
  from expire_diagnostic_Inr [OF ok] obtain target where
      t: "case k of None \<Rightarrow> target = find (\<lambda>k. k_operation_id k = Some (o_id p)) (g_collections db)
        | Some k \<Rightarrow> target = Some k \<and> Some (k_id k) = o_collection_id p \<and> k_operation_id k = Some (o_id p)"
      and sh: "g_operations db' = store_row o_id ?q (g_operations db)" "g_collections db' = g_collections (expire_collection at target db)"
    by blast
  have steps: "g_steps db' = g_steps db"
  proof -
    have st: "g_steps (expire_collection at x (store_operation q db)) = g_steps db" for x q
      by (simp add: expire_collection_def split: option.splits)
    show ?thesis using ok by (auto simp: expire_diagnostic_operation_def Let_def st dest!: append_operation_audit_Inr)
  qed
  have same: "same_identity p ?q" "terminal_work (o_status ?q)"
    by (simp_all add: expired_operation_def same_identity_def terminal_work.simps)
  show ?thesis
  proof (cases target)
    case None
    then have none: "k_operation_id x \<noteq> Some (o_id p)" if "x \<in> set (g_collections db)" for x
      using t that by (auto simp: find_None_iff split: option.splits)
    have "o_collection_id p = None"
    proof (rule ccontr)
      assume "o_collection_id p \<noteq> None"
      then obtain i where "o_collection_id p = Some i" by auto
      then have "\<exists>x\<in>set (g_collections db). k_operation_id x = Some (o_id p)"
        using c p(1) by (fastforce simp: plane_constraints_def identity_constraints_def list_all_iff list_ex_iff)
      with none show False by blast
    qed
    then show ?thesis
      using p(3) None by (intro refines_alone [OF inv p(1,2) same(1)])
        (simp_all add: sh steps expire_collection_rows, simp add: expired_operation_def)
  next
    case (Some x)
    have x: "x \<in> set (g_collections db)" "k_operation_id x = Some (o_id p)"
      using t k Some find_SomeD [of "\<lambda>k. k_operation_id k = Some (o_id p)" "g_collections db" x] by (auto split: option.splits)
    note pair = pairedD [OF inv p(1) x]
    let ?k = "x\<lparr>k_status := CExpired, k_failed_at := Some at, k_failure_code := Some ''operation_expired''\<rparr>"
    have "\<not> closed_collection x" using pair(1) p(2) by simp
    then have "g_collections db' = store_row k_id ?k (g_collections db)" by (simp add: sh(2) Some expire_collection_rows)
    moreover have "closed_collection ?k" by (simp add: closed_collection_def)
    ultimately show ?thesis
      using x(2) pair(2) by (intro refines_pair [OF inv p(1,2) same(1), of ?k "k_id x"]) (simp_all add: sh steps same p(3))
  qed
qed

lemma refines_expire_one:
  assumes ok: "work_ok db" and p: "p \<in> set (g_operations db)" and k: "case k of None \<Rightarrow> True | Some k \<Rightarrow> k \<in> set (g_collections db)"
    and run: "expire_operation_if_due clock p now k db = Inr (db', hit)"
  shows "work_refines db db' \<and> plane_constraints db'"
proof -
  have inv: "work_inv (work_of db)" and c: "plane_constraints db" using ok by (simp_all add: work_ok_def)
  from expire_if_due_Inr [OF run] obtain at where at: "operation_now clock now = Inr at" "hit = operation_due at p"
      and sh: "if hit then plane_constraints db' else db' = db" by (auto split: if_splits)
  show ?thesis
  proof (cases hit)
    case False
    with sh c show ?thesis by (simp add: refines_same)
  next
    case True
    then have due: "\<not> terminal_work (o_status p)" using at by (simp add: operation_due_def)
    have "work_refines db db'"
    proof (cases "o_capability p = ''endpoint.module.recipe''")
      case m: True
      with run at True have "expire_module_operation p at db = Inr db'" by (auto simp: expire_operation_if_due_def split: if_splits)
      then show ?thesis by (rule refines_expire_module [OF inv p due m])
    next
      case d: False
      with run at True have "expire_diagnostic_operation p at k db = Inr db'" by (auto simp: expire_operation_if_due_def split: if_splits)
      then show ?thesis by (rule refines_expire_diagnostic [OF inv c p due d k])
    qed
    with True sh show ?thesis by simp
  qed
qed

lemma refines_expire_each:
  assumes "work_ok db" "set ps \<subseteq> set (g_operations db)" "distinct (map o_id ps)" "expire_each at ps db = Inr db'"
  shows "work_refines db db' \<and> plane_constraints db'"
  using assms
proof (induction ps arbitrary: db)
  case Nil
  then show ?case by (simp add: refines_same work_ok_def)
next
  case (Cons p ps)
  from Cons.prems obtain db1 hit where one: "expire_operation_if_due at p (Some (Aware at)) None db = Inr (db1, hit)"
      and rest: "expire_each at ps db1 = Inr db'" by auto
  have step: "work_refines db db1" "plane_constraints db1"
    using refines_expire_one [OF Cons.prems(1) _ _ one] Cons.prems(2) by auto
  have ok: "work_ok db1" using step Cons.prems(1) refines_inv by (simp add: work_ok_def)
  have "set ps \<subseteq> set (g_operations db1)"
  proof
    fix q
    assume q: "q \<in> set ps"
    moreover have "o_id p \<notin> o_id ` set ps" using Cons.prems(3) by simp
    ultimately have "o_id q \<noteq> o_id p" by (metis imageI)
    with q Cons.prems(2) expire_if_due_Inr [OF one] show "q \<in> set (g_operations db1)"
      by (auto simp: in_set_store_row expired_operation_def split: if_splits)
  qed
  with Cons.IH [OF ok _ _ rest] Cons.prems(3) step(1) show ?case by (auto intro: refines_trans)
qed

lemma refines_expire_operations:
  assumes "work_ok db" "expire_operations clock now limit db = Inr (db', n)"
  shows "work_refines db db' \<and> plane_constraints db'"
proof -
  from assms(2) obtain at where e: "expire_each at (due_operations at (nat limit) db) db = Inr db'"
    by (auto simp: expire_operations_def Let_def split: if_splits)
  have "plane_constraints db" using assms(1) by (simp add: work_ok_def)
  from due_operations_rows [OF this] refines_expire_each [OF assms(1) _ _ e] show ?thesis by blast
qed

section \<open>Creation\<close>

text \<open>A new operation has no step and no collection yet, because both refer to operations that exist.\<close>

lemma refines_enter:
  assumes ok: "work_ok db" and c': "plane_constraints db'" and p: "o_status p = Queued"
      "o_capability p = ''endpoint.module.recipe'' \<Longrightarrow> o_collection_id p = None"
    and own: "\<And>k. k \<in> set own \<Longrightarrow> k_operation_id k = Some (o_id p) \<and> o_collection_id p = Some (k_id k) \<and> \<not> closed_collection k"
    and new: "\<And>t. t \<in> set new \<Longrightarrow> s_operation_id t = o_id p \<and> s_status t = Queued"
    and db': "g_operations db' = g_operations db @ [p]" "g_collections db' = g_collections db @ own" "g_steps db' = g_steps db @ new"
  shows "work_refines db db'"
proof (rule refines_step)
  have fresh: "o_id p \<notin> o_id ` set (g_operations db)" using plane_constraintsD(1) [OF c'] by (simp add: db')
  have d: "distinct (map s_id (g_steps db @ new))"
    using c' by (simp add: plane_constraints_def steps_constraints_def flip: db'(3))
  have "k_operation_id k \<noteq> Some (o_id p)" if "k \<in> set (g_collections db)" for k
    using that fresh plane_constraintsD(5) [of db k "o_id p"] ok unfolding work_ok_def by (metis imageI)
  then show "work_step (work_of db) (work_of db')"
    using work_step.enter [OF fresh p(1) d p(2), where ks = "g_collections db" and own = own] own new by (simp add: work_of_def db')
qed

lemma refines_create:
  assumes ok: "work_ok db" and run: "create_operation_outcome gen clock req cid did key now db = Inr (db', p, fresh)"
  shows "work_refines db db' \<and> plane_constraints db'"
proof -
  from create_operation_Inr [OF run] obtain client device at a where cap: "oc_capability req = ''context.diagnostic.collect''"
      "(o_capability p, o_parameters p) = normalized_request req" and c': "plane_constraints db'"
      and sh: "if fresh then p = new_operation gen client device key (o_capability p) (o_parameters p) at
              \<and> find (\<lambda>p. o_client_id p = client \<and> o_idempotency_key p = key) (g_operations db) = None
              \<and> db' = db\<lparr>g_operations := g_operations db @ [p],
                   g_collections := g_collections db @ [new_collection gen client device key ''diagnostic_v1'' at], g_audits := a\<rparr>
          else p \<in> set (g_operations db) \<and> db' = db\<lparr>g_audits := a\<rparr>"
    by blast
  have "work_refines db db'"
  proof (cases fresh)
    case False
    with sh show ?thesis by (intro refines_same) (simp add: work_of_def)
  next
    case True
    let ?k = "new_collection gen client device key ''diagnostic_v1'' at"
    have sh: "p = new_operation gen client device key (o_capability p) (o_parameters p) at"
        "db' = db\<lparr>g_operations := g_operations db @ [p], g_collections := g_collections db @ [?k], g_audits := a\<rparr>"
      using sh True by simp_all
    have id: "o_id p = gen 0" "o_status p = Queued" "o_collection_id p = Some (gen 1)" by (subst sh(1), simp add: new_operation_def)+
    have cap': "o_capability p = ''context.diagnostic.collect''" using cap by (simp add: normalized_request_def)
    have k: "k_operation_id ?k = Some (gen 0)" "k_id ?k = gen 1" "\<not> closed_collection ?k"
      by (simp_all add: new_collection_def closed_collection_def)
    show ?thesis using id k cap' by (intro refines_enter [OF ok c', of p "[?k]" "[]"]) (simp_all add: sh(2))
  qed
  with c' show ?thesis by simp
qed

lemma new_module_operation_fields [simp]:
  "o_status (new_module_operation i at c d key mode v inputs n) = Queued"
  "o_collection_id (new_module_operation i at c d key mode v inputs n) = None"
  by (simp_all add: new_module_operation_def)

lemma refines_create_module:
  assumes ok: "work_ok db"
    and run: "create_module_parent_operation gen clock cid did mkey version inputs key policy mode now db = Inr (db', p, fresh)"
  shows "work_refines db db' \<and> plane_constraints db'"
proof (cases "db' = db")
  case True
  with ok show ?thesis by (simp add: refines_same work_ok_def)
next
  case False
  then have fresh: "fresh" using run by (auto simp: create_module_parent_operation_def Let_def split: option.splits)
  from run fresh obtain at name plan where ins: "insert_module_operation gen at name mkey version mode p plan db = Inr db'"
    by (simp add: create_module_parent_operation_def Let_def split: option.splits) blast
  from run fresh have p: "o_status p = Queued" "o_collection_id p = None"
    by (auto simp: create_module_parent_operation_def Let_def split: option.splits)
  from ins obtain a where c': "plane_constraints db'" and db': "db' = db\<lparr>g_operations := g_operations db @ [p],
      g_steps := g_steps db @ map (new_step gen (o_id p)) (List.enumerate 1 plan), g_audits := a\<rparr>"
    by (simp only: insert_module_operation_def bindE_Inr_iff flush_plane_Inr_iff) metis
  have new: "s_operation_id t = o_id p \<and> s_status t = Queued" if "t \<in> set (map (new_step gen (o_id p)) (List.enumerate 1 plan))" for t
    using that by (auto simp: new_step_def Let_def)
  have "work_refines db db'"
    by (rule refines_enter [OF ok c', of p "[]", OF _ _ _ new]) (simp_all add: db' p)
  with c' show ?thesis by simp
qed

section \<open>Cancellation and retention\<close>

lemma refines_cancel:
  assumes ok: "work_ok db" and p: "p \<in> set (g_operations db)" and run: "cancel_queued_operation p at kind who db = Inr (db', p')"
  shows "work_refines db db' \<and> plane_constraints db'"
proof (cases "db' = db")
  case True
  with ok show ?thesis by (simp add: refines_same work_ok_def)
next
  case False
  with cancel_queued_Inr [OF run] obtain k a where q: "o_status p = Queued" and p': "p' = canceled_operation at p"
      and k: "k \<in> set (g_collections db)" "k_operation_id k = Some (o_id p)"
      and db': "db' = (store_collection (canceled_collection at k) (store_operation p' db))\<lparr>g_audits := a\<rparr>"
      and c': "plane_constraints db'" by blast
  have inv: "work_inv (work_of db)" using ok by (simp add: work_ok_def)
  note pair = pairedD [OF inv p k]
  have kind: "o_capability p \<noteq> ''endpoint.module.recipe''" using work_invD(6) [OF inv p] pair(2) by auto
  have "work_refines db db'"
    using q k(2) pair(2) kind
    by (intro refines_pair [OF inv p, of p' "canceled_collection at k" "k_id k"])
      (simp_all add: db' p' canceled_operation_def canceled_collection_def same_identity_def terminal_work.simps closed_collection_def)
  with c' show ?thesis by simp
qed

lemma refines_annotate:
  assumes "\<And>s. same_step s (f s) \<and> s_status (f s) = s_status s"
    and "g_operations db' = g_operations db" "g_collections db' = g_collections db" "g_steps db' = map f (g_steps db)"
  shows "work_refines db db'"
  using work_step.annotate [of f "g_operations db" "g_collections db" "g_steps db"] assms by (intro refines_step) (simp add: work_of_def)

lemma refines_scrub_steps: "work_refines db (scrub_steps chosen db)"
  by (rule refines_annotate [of "\<lambda>s. if chosen s then s\<lparr>s_safe_result := None\<rparr> else s"])
    (auto simp: scrub_steps_def same_step_def)

lemma refines_scrub: "work_refines db (fold (scrub_evidence w) es db)"
proof (induction es arbitrary: db)
  case (Cons e es)
  have "work_refines db (scrub_evidence w e db)"
    using refines_scrub_steps [of "store_evidence (e\<lparr>ev_safe_payload := None, ev_scrubbed_at := Some w\<rparr>) db"]
    by (simp add: scrub_evidence_def work_refines_def)
  with Cons show ?case by (simp add: refines_trans)
qed (simp add: refines_same)

section \<open>The services\<close>

lemma refines_unchanged: "work_ok db \<Longrightarrow> plane_constraints db' \<Longrightarrow> work_of db' = work_of db \<Longrightarrow> work_refines db db' \<and> plane_constraints db'"
  by (simp add: refines_same)

lemma refines_read:
  assumes "work_ok db" "read_operation_for_service clock oid cid now db = Inr (db', p)"
  shows "work_refines db db' \<and> plane_constraints db'"
proof -
  from assms(2) obtain p ac ki wh at where "append_operation_audit p ac ki wh at db = Inr db'" "plane_constraints db'"
    by (auto simp: read_operation_for_service_def)
  then show ?thesis by (auto intro!: refines_same simp: work_of_def dest!: append_operation_audit_Inr)
qed

lemma refines_evidence:
  assumes "work_ok db" "create_operation_evidence rendered digest i p kind payload at db = Inr (db', e)"
  shows "work_refines db db' \<and> plane_constraints db'"
  using assms by (auto simp: create_operation_evidence_def Let_def work_of_def intro!: refines_same split: if_splits)

lemma refines_pin:
  assumes "work_ok db" "pin_operation_evidence sanitize clock oid kind who rid reason now db = Inr (db', e)"
  shows "work_refines db db' \<and> plane_constraints db'"
proof -
  have "plane_constraints db' \<and> work_of db' = work_of db"
    using pin_evidence_Inr [OF assms(2)] assms(1) by (auto simp: work_ok_def work_of_def store_evidence_def)
  then show ?thesis by (simp add: refines_same)
qed

lemma refines_cleanup:
  assumes "cleanup_operation_results clock now limit db = Inr (db', n)"
  shows "work_refines db db' \<and> plane_constraints db'"
  using assms by (auto simp: cleanup_operation_results_def Let_def refines_scrub split: if_splits)

lemma refines_cleanup_steps:
  assumes "cleanup_module_step_results clock now limit db = Inr (db', n)"
  shows "work_refines db db' \<and> plane_constraints db'"
  using assms by (auto simp: cleanup_module_step_results_def Let_def refines_scrub_steps split: if_splits)

lemma refines_cancel_service:
  assumes "work_ok db" "cancel_operation_for_service clock oid cid now db = Inr (db', p)"
  shows "work_refines db db' \<and> plane_constraints db'"
proof -
  from assms(2) obtain i c q at who where "owned_operation i c db = Inr q" "cancel_queued_operation q at ''service'' who db = Inr (db', p)"
    by (auto simp: cancel_operation_for_service_def)
  then show ?thesis using refines_cancel [OF assms(1)] by (auto simp: owned_operation_def dest: find_SomeD)
qed

lemma refines_cancel_admin:
  assumes "work_ok db" "cancel_operation_for_admin clock oid aid now db = Inr (db', p)"
  shows "work_refines db db' \<and> plane_constraints db'"
proof -
  from assms(2) obtain i q at who where "find_row o_id i (g_operations db) = Some q" "cancel_queued_operation q at ''admin'' who db = Inr (db', p)"
    by (auto simp: cancel_operation_for_admin_def split: if_splits)
  then show ?thesis using refines_cancel [OF assms(1)] find_row_SomeD by metis
qed

theorem operation_exec_refines:
  "work_ok db \<Longrightarrow> operation_exec c db = Inr db' \<Longrightarrow> work_refines db db' \<and> plane_constraints db'"
  by (cases c) (auto dest: refines_create refines_read refines_cancel_service refines_cancel_admin refines_expire_operations
      refines_evidence refines_pin refines_cleanup refines_cleanup_steps)

section \<open>Module routes\<close>

text \<open>The tables the constraints of operations and commands read; the routes of module versions write none of them.\<close>

definition shared :: "plane_db \<Rightarrow> operation list \<times> collection list \<times> module_step list \<times> command list \<times> delivery list \<times> command_result list \<times> evidence list" where
  "shared db = (g_operations db, g_collections db, g_steps db, g_commands db, g_deliveries db, g_results db, g_evidence db)"

lemma shared_frame:
  assumes "shared db' = shared db"
  shows "plane_constraints db' = plane_constraints db" and "work_of db' = work_of db"
proof -
  have same: "g_operations db' = g_operations db" "g_collections db' = g_collections db" "g_steps db' = g_steps db"
      "g_commands db' = g_commands db" "g_deliveries db' = g_deliveries db" "g_results db' = g_results db" "g_evidence db' = g_evidence db"
    using assms by (simp_all add: shared_def)
  show "plane_constraints db' = plane_constraints db"
    unfolding plane_constraints_def operations_constraints_def identity_constraints_def collections_constraints_def
      steps_constraints_def commands_constraints_def evidence_constraints_def same ..
  show "work_of db' = work_of db" unfolding work_of_def same ..
qed

lemma shared_updates [simp]:
  "shared (db\<lparr>g_audits := a\<rparr>) = shared db" "shared (db\<lparr>g_definitions := d\<rparr>) = shared db" "shared (db\<lparr>g_versions := v\<rparr>) = shared db"
  "shared (db\<lparr>g_validation_runs := r\<rparr>) = shared db" "shared (db\<lparr>g_live_tests := t\<rparr>) = shared db"
  "shared (store_version v' db) = shared db"
  by (simp_all add: shared_def store_version_def)

lemma flush_modules_shared: "flush_modules db = Inr db' \<Longrightarrow> shared db' = shared db"
  by (auto simp: flush_modules_def split: if_splits)

lemma transition_shared: "transition_persisted_version v target db = Inr (db', v') \<Longrightarrow> shared db' = shared db"
  by (auto simp: transition_persisted_version_def Let_def dest: flush_modules_shared)

lemma persist_shared: "persist_draft_version d i r name version db = Inr (db', v) \<Longrightarrow> shared db' = shared db"
  by (auto simp: persist_draft_version_def Let_def dest!: flush_modules_shared split: option.splits if_splits)

lemma validate_shared: "validate_persisted_module_version at v db = Inr (db', x) \<Longrightarrow> shared db' = shared db"
  by (cases x) (auto simp: validate_persisted_module_version_def Let_def dest!: flush_modules_shared split: if_splits)

lemma live_test_shared: "record_module_live_test rendered at v oid db = Inr (db', t) \<Longrightarrow> shared db' = shared db"
  by (auto simp: record_module_live_test_def Let_def dest!: flush_modules_shared split: if_splits)

lemma accept_shared: "accept_persisted_module_labs v db = Inr (db', v') \<Longrightarrow> shared db' = shared db"
  by (auto simp: accept_persisted_module_labs_def dest: transition_shared split: if_splits)

lemma publish_shared: "publish_persisted_module_version v db = Inr (db', v') \<Longrightarrow> shared db' = shared db"
  by (auto simp: publish_persisted_module_version_def dest: transition_shared split: if_splits)

lemma audit_version_shared: "audit_version rq action i details db = Inr db' \<Longrightarrow> shared db' = shared db"
  by (auto simp: audit_version_def)

lemma module_routes_shared:
  "create_module_version rq d i r name version db = Inr db' \<Longrightarrow> shared db' = shared db"
  "validate_module_version rq at key version db = Inr db' \<Longrightarrow> shared db' = shared db"
  "publish_module_version rq key version db = Inr db' \<Longrightarrow> shared db' = shared db"
  "record_module_live_test_route rq rendered at key version oid db = Inr db' \<Longrightarrow> shared db' = shared db"
  "accept_module_labs rq key version db = Inr db' \<Longrightarrow> shared db' = shared db"
  "deprecate_module_version rq key version db = Inr db' \<Longrightarrow> shared db' = shared db"
       apply (simp add: create_module_version_def, metis persist_shared audit_version_shared)
      apply (simp add: validate_module_version_def, metis validate_shared audit_version_shared)
     apply (simp add: publish_module_version_def, metis publish_shared audit_version_shared)
    apply (simp add: record_module_live_test_route_def, metis live_test_shared audit_version_shared)
   apply (simp add: accept_module_labs_def, metis accept_shared audit_version_shared)
  apply (simp add: deprecate_module_version_def, metis transition_shared audit_version_shared)
  done

lemma refines_shared: "work_ok db \<Longrightarrow> shared db' = shared db \<Longrightarrow> work_refines db db' \<and> plane_constraints db'"
  using shared_frame [of db' db] by (simp add: refines_same work_ok_def)

theorem module_exec_refines:
  assumes ok: "work_ok db" and run: "module_exec c db = Inr db'"
  shows "work_refines db db' \<and> plane_constraints db'"
proof (cases c)
  case (CreateModuleOperation gen clock client device key version inputs idem policy mode now)
  with run obtain p fresh where "create_module_parent_operation gen clock client device key version inputs idem policy mode now db = Inr (db', p, fresh)"
    by (auto simp: map_sum_def split: sum.splits)
  then show ?thesis by (rule refines_create_module [OF ok])
qed (use run in \<open>simp only: module_exec.simps, elim module_routes_shared [THEN refines_shared [OF ok]]\<close>)+

end
