(* ===== verification/Work_Delivery.thy ===== *)
theory Work_Delivery
  imports Work_Services Gateway_Results
begin

text \<open>
  Delivery of commands refines the ledger of work: overdue collections expire, module steps begin in order and an
  operation is delivered together with its collection.
\<close>

declare terminal_work.simps [simp del]

section \<open>Overdue collections\<close>

lemma work_of_updates [simp]:
  "work_of (db\<lparr>g_commands := c\<rparr>) = work_of db" "work_of (db\<lparr>g_deliveries := d\<rparr>) = work_of db"
  "work_of (db\<lparr>g_results := r\<rparr>) = work_of db" "work_of (db\<lparr>g_audits := a\<rparr>) = work_of db"
  "work_of (store_instance i db) = work_of db" "work_of (store_result res db) = work_of db"
  "work_of (bump_sequence n i db) = work_of db"
  by (simp_all add: work_of_def store_instance_def store_result_def bump_sequence_def)

lemma work_of_collection_transport [simp]: "work_of (expire_collection_transport d k db) = work_of db"
  by (simp add: expire_collection_transport_def expire_open_delivery_def split: option.splits)

lemma work_of_collections: "work_of db' = work_of (store_collection k db) \<Longrightarrow>
    g_operations db' = g_operations db \<and> g_steps db' = g_steps db \<and> g_collections db' = store_row k_id k (g_collections db)"
  by (simp add: work_of_def store_defs)

text \<open>A collection of no operation is written back.\<close>

lemma refines_store_loose:
  assumes "work_of db' = work_of (store_collection k db)" "k_operation_id k = None"
  shows "work_refines db db'"
  using work_of_collections [OF assms(1)] assms(2) by (intro refines_loose) (auto simp: in_set_store_row)

lemma refines_expire_overdue_fold:
  "(\<And>k. k \<in> set ks \<Longrightarrow> k_operation_id k = None) \<Longrightarrow> work_refines db (fold (expire_overdue_collection d at) ks db)"
proof (induction ks arbitrary: db)
  case (Cons k ks)
  have "work_refines db (expire_overdue_collection d at k db)"
    using Cons.prems [of k]
    by (intro refines_store_loose [of _ "k\<lparr>k_status := CExpired, k_failed_at := Some at, k_failure_code := Some ''collection_expired''\<rparr>"])
      (simp_all add: expire_overdue_collection_def)
  with Cons show ?case by (simp add: refines_trans)
qed (simp add: refines_same)

lemma refines_expire_overdue:
  assumes "expire_overdue_collections d at profile db = Inr db'"
  shows "work_refines db db' \<and> plane_constraints db'"
  using assms refines_expire_overdue_fold [of "sort_key k_id (filter (overdue_collection d at profile) (g_collections db))" db d at]
  by (auto simp: expire_overdue_collections_def overdue_collection_def)

section \<open>Module steps\<close>

lemma nonneg_index:
  assumes "sorted_wrt (<) xs" "\<And>x. x \<in> set xs \<Longrightarrow> 0 \<le> x" "i < length xs"
  shows "int i \<le> xs ! i"
  using assms(3)
proof (induction i)
  case 0
  then show ?case using assms(2) by simp
next
  case (Suc i)
  then have "xs ! i < xs ! Suc i" using assms(1) by (auto simp: sorted_wrt_iff_nth_less)
  with Suc show ?case by simp
qed

lemma ordered_steps_set: "set (ordered_steps p db) = {s \<in> set (g_steps db). s_operation_id s = o_id p}"
  by (auto simp: ordered_steps_def)

text \<open>The sequence numbers of an operation's steps are distinct and not negative, so the steps before sequence number
  \<open>n\<close> are among the first \<open>n\<close> of the ordered list.\<close>

lemma earlier_in_take:
  assumes c: "plane_constraints db" and t: "t \<in> set (ordered_steps p db)" "s_sequence t < n"
  shows "t \<in> set (take (nat n) (ordered_steps p db))"
proof -
  let ?steps = "ordered_steps p db"
  have "distinct (map (\<lambda>s. (s_operation_id s, s_sequence s)) (g_steps db))" and pos: "list_all (\<lambda>s. 0 \<le> s_sequence s) (g_steps db)"
    using c by (auto simp: plane_constraints_def steps_constraints_def list_all_iff)
  then have "inj_on (\<lambda>s. (s_operation_id s, s_sequence s)) (set (g_steps db))" "distinct (g_steps db)"
    by (simp_all add: distinct_map)
  then have d: "distinct (map s_sequence ?steps)"
    by (auto simp: distinct_map ordered_steps_set inj_on_def) (simp add: ordered_steps_def)
  have "sorted (map (\<lambda>s. (s_sequence s, s_id s)) ?steps)" by (simp add: ordered_steps_def)
  then have "sorted (map s_sequence ?steps)"
    by (auto simp: sorted_map less_eq_prod_def intro: sorted_wrt_mono_rel [rotated])
  with d have s: "sorted_wrt (<) (map s_sequence ?steps)" by (simp add: strict_sorted_iff)
  obtain i where i: "i < length ?steps" "t = ?steps ! i" using t(1) by (auto simp: in_set_conv_nth)
  have "int i \<le> map s_sequence ?steps ! i"
    using i pos by (intro nonneg_index [OF s]) (auto simp: ordered_steps_set list_all_iff)
  then have "i < nat n" using i t(2) by simp
  with i show ?thesis by (auto simp: in_set_conv_nth intro!: exI [of _ i])
qed

lemma latch_identity: "same_identity p (latch_platform a p)" "o_status (latch_platform a p) = o_status p"
  by (auto simp: latch_platform_def same_identity_def split: option.splits)

lemma open_not_terminal: "in_flight s \<Longrightarrow> \<not> terminal_work s" "s = Queued \<Longrightarrow> \<not> terminal_work s"
  by (auto simp: in_flight_def terminal_work.simps)

text \<open>An open operation is written back open.\<close>

lemma refines_store_open:
  assumes "work_inv (work_of db)" "p \<in> set (g_operations db)" "\<not> terminal_work (o_status p)" "same_identity p q"
    and "\<not> terminal_work (o_status q)"
    and "g_operations db' = store_row o_id q (g_operations db)" "g_collections db' = g_collections db" "g_steps db' = g_steps db"
  shows "work_refines db db'"
  using assms by (intro refines_alone [of db p q db']) (auto simp: terminal_work.simps)

lemma store_operation_row:
  "p \<in> set (g_operations db) \<Longrightarrow> o_id q = o_id p \<Longrightarrow> q \<in> set (g_operations (store_operation q db))"
  by (auto simp: store_operation_def in_set_store_row)

lemma refines_deliver_step:
  assumes ok: "work_ok db" and p: "p \<in> set (g_operations db)" "\<not> terminal_work (o_status p)"
    and s: "s \<in> set (ordered_steps p db)" "s_status s = Queued"
    and earlier: "\<And>x. x \<in> set (take (nat (s_sequence s)) (ordered_steps p db)) \<Longrightarrow> s_status x = Succeeded"
    and run: "deliver_step ids now device p s db = Inr (db', c, p')"
  shows "work_refines db db' \<and> p' \<in> set (g_operations db') \<and> \<not> terminal_work (o_status p')"
proof -
  let ?t = "s\<lparr>s_command_id := Some (cm_id c), s_status := Delivered\<rparr>"
  have inv: "work_inv (work_of db)" and con: "plane_constraints db" using ok by (simp_all add: work_ok_def)
  have p': "p' = p\<lparr>o_status := Delivered\<rparr>" and rows: "g_operations db' = store_row o_id p' (g_operations db)"
      "g_collections db' = g_collections db" "g_steps db' = store_row s_id ?t (g_steps db)"
    using run by (auto simp: deliver_step_def Let_def)
  have mine: "s \<in> set (g_steps db)" "s_operation_id s = o_id p" using s(1) by (simp_all add: ordered_steps_set)
  have "earlier_succeeded (g_steps db) s"
    unfolding earlier_succeeded_def using earlier earlier_in_take [OF con] mine(2) by (auto simp: ordered_steps_set)
  then have first: "work_refines db (store_step ?t db)"
    using mine s(2) by (intro refines_advance [of s _ ?t]) (auto simp: same_step_def open_not_terminal store_step_def)
  have "work_refines (store_step ?t db) db'"
    using p by (intro refines_store_open [OF refines_inv [OF first inv], of p p'])
      (simp_all add: rows p' same_identity_def terminal_work.simps store_step_def)
  moreover have "p' \<in> set (g_operations db')" using p(1) by (auto simp: rows p' in_set_store_row)
  moreover have "\<not> terminal_work (o_status p')" by (simp add: p' terminal_work.simps)
  ultimately show ?thesis using first refines_trans by blast
qed

lemma refines_latch:
  assumes "work_inv (work_of db)" "p \<in> set (g_operations db)" "\<not> terminal_work (o_status p)"
  shows "work_refines db (store_operation (latch_platform a p) db)"
  using assms latch_identity [where a = a and p = p] by (intro refines_store_open [of db p "latch_platform a p"]) (simp_all add: store_operation_def)

lemma filter_head: "filter P xs = x # ys \<Longrightarrow> x \<in> set xs \<and> P x"
  by (metis (no_types, lifting) filter_eq_Cons_iff in_set_conv_decomp)

lemma module_candidate_refines:
  assumes ok: "work_ok db" and p: "p \<in> set (g_operations db)" "\<not> terminal_work (o_status p)"
    and run: "module_candidate ids now device caps platform p db = Inr (Some (db', x))"
  shows "work_refines db db'"
proof -
  have inv: "work_inv (work_of db)" using ok by (simp add: work_ok_def)
  define steps where "steps = ordered_steps p db"
  consider (fresh) s rest db1 c p1 where "filter (\<lambda>s. s_status s = Queued) steps = s # rest"
      "\<not> list_ex (\<lambda>x. s_status x \<noteq> Succeeded) (take (nat (s_sequence s)) steps)"
      "deliver_step ids now device p s db = Inr (db1, c, p1)" "db' = store_operation (latch_platform platform p1) db1"
    | (again) "db' = store_operation (latch_platform platform p) db"
    using run unfolding module_candidate_def Let_def steps_def [symmetric]
    by (auto split: if_splits list.splits option.splits)
  then show ?thesis
  proof cases
    case fresh
    have s: "s \<in> set (ordered_steps p db)" "s_status s = Queued" using filter_head [OF fresh(1)] by (simp_all add: steps_def)
    have one: "work_refines db db1" "p1 \<in> set (g_operations db1)" "\<not> terminal_work (o_status p1)"
      using refines_deliver_step [OF ok p s _ fresh(3)] fresh(2) by (auto simp: list_ex_iff steps_def)
    with fresh(4) refines_latch [OF refines_inv [OF one(1) inv] one(2,3)] show ?thesis by (auto intro: refines_trans)
  next
    case again
    with refines_latch [OF inv p] show ?thesis by simp
  qed
qed

lemma pending_module_refines:
  assumes "work_ok db" "\<And>p. p \<in> set ps \<Longrightarrow> p \<in> set (g_operations db) \<and> \<not> terminal_work (o_status p)"
    and "pending_module ids now device caps platform ps db = Inr (Some (db', x))"
  shows "work_refines db db'"
  using assms(2,3)
proof (induction ps)
  case (Cons p ps)
  from Cons.prems(2) obtain found where f: "module_candidate ids now device caps platform p db = Inr found"
      and rest: "(case found of None \<Rightarrow> pending_module ids now device caps platform ps db | Some y \<Rightarrow> Inr (Some y)) = Inr (Some (db', x))"
    by auto
  show ?case
  proof (cases found)
    case None
    then show ?thesis using Cons.IH Cons.prems(1) rest by simp
  next
    case (Some y)
    then have "module_candidate ids now device caps platform p db = Inr (Some (db', x))" using rest f by simp
    then show ?thesis using module_candidate_refines [OF assms(1)] Cons.prems(1) [of p] by auto
  qed
qed simp

lemma next_module_refines:
  assumes "work_ok db" "next_pending_module_command ids now device caps platform db = Inr (Some (db', x))"
  shows "work_refines db db'"
  using assms(2) by (intro pending_module_refines [OF assms(1), of "module_parents device db"])
    (auto simp: next_pending_module_command_def module_parents_def terminal_work.simps)

section \<open>Collections\<close>

lemma operation_for_collection_Inr:
  assumes "operation_for_collection k c db = Inr p"
  shows "case p of None \<Rightarrow> k_operation_id k = None
    | Some p \<Rightarrow> p \<in> set (g_operations db) \<and> k_operation_id k = Some (o_id p) \<and> o_collection_id p = Some (k_id k)
        \<and> o_capability p = ''context.diagnostic.collect''"
proof (cases "k_operation_id k")
  case (Some i)
  with assms obtain q where p: "p = Some q" and q: "validate_operation_relation k (find_row o_id i (g_operations db)) c = Inr q"
    by (auto simp: operation_for_collection_def)
  then have found: "find_row o_id i (g_operations db) = Some q"
    by (auto simp: validate_operation_relation_def split: option.splits if_splits)
  then have "k_operation_id k = Some (o_id q) \<and> o_collection_id q = Some (k_id k) \<and> o_capability q = ''context.diagnostic.collect''"
    using q by (auto simp: validate_operation_relation_def profile_capability_def split: option.splits if_splits)
  with p find_row_SomeD [OF found] show ?thesis by simp
qed (use assms in \<open>simp add: operation_for_collection_def\<close>)

lemma lift_operation_Inr [simp]: "lift_operation r = Inr x \<longleftrightarrow> r = Inr x"
  by (auto simp: lift_operation_def split: sum.splits)

text \<open>Expiring the operation of a collection leaves the other collections alone.\<close>

lemma expire_if_due_refines:
  assumes ok: "work_ok db" and k: "k \<in> set (g_collections db)"
    and p: "case p of None \<Rightarrow> True | Some p \<Rightarrow> p \<in> set (g_operations db) \<and> o_capability p = ''context.diagnostic.collect''"
    and run: "expire_if_due now p k db = Inr (db', expired)"
  shows "work_refines db db' \<and> plane_constraints db' \<and> (\<not> expired \<longrightarrow> db' = db)
    \<and> (\<forall>x\<in>set (g_collections db). k_id x \<noteq> k_id k \<longrightarrow> x \<in> set (g_collections db'))"
proof (cases p)
  case None
  with run ok show ?thesis by (auto simp: expire_if_due_def refines_same work_ok_def)
next
  case (Some q)
  with run have e: "expire_operation_if_due now q (Some (Aware now)) (Some k) db = Inr (db', expired)" by (simp add: expire_if_due_def)
  have q: "q \<in> set (g_operations db)" "o_capability q = ''context.diagnostic.collect''" using p Some by simp_all
  have "work_refines db db' \<and> plane_constraints db'" using refines_expire_one [OF ok q(1) _ e] k by simp
  moreover have "\<not> expired \<longrightarrow> db' = db" using expire_if_due_Inr [OF e] by auto
  moreover have "x \<in> set (g_collections db')" if "expired" "x \<in> set (g_collections db)" "k_id x \<noteq> k_id k" for x
  proof -
    from expire_if_due_Inr [OF e] that(1) have "operation_due now q" by auto
    then have "expire_diagnostic_operation q now (Some k) db = Inr db'"
      using e q(2) by (simp add: expire_operation_if_due_def)
    then have "g_collections db' = g_collections (expire_collection now (Some k) db)" by (auto dest: expire_diagnostic_Inr)
    then show ?thesis using that by (auto simp: expire_collection_rows in_set_store_row)
  qed
  ultimately show ?thesis by blast
qed

lemma link_collection_Inr:
  assumes "link_collection_command i c db = Inr (db', k')" "distinct (map k_id (g_collections db))" "k \<in> set (g_collections db)" "k_id k = i"
  shows "k' = k\<lparr>k_command_id := Some c\<rparr> \<and> db' = store_collection k' db"
proof -
  have "find_row k_id i (g_collections db) = Some k" using assms(2-4) by (simp add: find_row_unique)
  with assms(1) show ?thesis by (auto simp: link_collection_command_def Let_def split: option.splits if_splits dest!: find_row_SomeD)
qed

lemma store_row_twice: "key a = key b \<Longrightarrow> store_row key b (store_row key a rows) = store_row key b rows"
  by (induction rows) (auto simp: store_row_def)

lemma begin_collection_refines:
  assumes ok: "work_ok db" and k: "k \<in> set (g_collections db)"
    and p: "case p of None \<Rightarrow> k_operation_id k = None
      | Some p \<Rightarrow> p \<in> set (g_operations db) \<and> k_operation_id k = Some (o_id p) \<and> o_collection_id p = Some (k_id k)
        \<and> o_capability p = ''context.diagnostic.collect'' \<and> o_status p = Queued"
    and run: "begin_collection ct ids capability c k p db = Inr (db', payload)"
  shows "work_refines db db' \<and> payload \<noteq> None"
proof -
  have inv: "work_inv (work_of db)" and con: "plane_constraints db" using ok by (simp_all add: work_ok_def)
  let ?db2 = "db\<lparr>g_commands := g_commands db @ [c]\<rparr>"
  from run obtain db3 k1 where link: "link_collection_command (k_id k) (cm_id c) ?db2 = Inr (db3, k1)"
      and rows: "g_collections db' = store_row k_id (k1\<lparr>k_status := CDelivered\<rparr>) (g_collections db3)" "g_steps db' = g_steps db3"
        "g_operations db' = (case p of None \<Rightarrow> g_operations db3
          | Some p \<Rightarrow> store_row o_id (p\<lparr>o_command_id := Some (cm_id c), o_status := Delivered\<rparr>) (g_operations db3))"
      and pay: "payload \<noteq> None"
    by (cases p) (auto simp: begin_collection_def Let_def)
  have lk: "k1 = k\<lparr>k_command_id := Some (cm_id c)\<rparr>" "db3 = store_collection k1 ?db2"
    using link_collection_Inr [OF link, of k] k plane_constraintsD(2) [OF con] by simp_all
  let ?k2 = "k\<lparr>k_command_id := Some (cm_id c), k_status := CDelivered\<rparr>"
  have rows': "g_collections db' = store_row k_id ?k2 (g_collections db)" "g_steps db' = g_steps db"
      "g_operations db' = (case p of None \<Rightarrow> g_operations db
          | Some p \<Rightarrow> store_row o_id (p\<lparr>o_command_id := Some (cm_id c), o_status := Delivered\<rparr>) (g_operations db))"
    using rows lk(1) store_row_twice [of k_id k1 ?k2] by (simp_all add: lk(2) cong: option.case_cong)
  have "work_refines db db'"
  proof (cases p)
    case None
    with p rows' show ?thesis by (intro refines_loose) (auto simp: in_set_store_row)
  next
    case (Some q)
    let ?q = "q\<lparr>o_command_id := Some (cm_id c), o_status := Delivered\<rparr>"
    show ?thesis
      using p Some rows' by (intro refines_pair [OF inv, of q ?q ?k2 "k_id k"])
        (auto simp: same_identity_def terminal_work.simps closed_collection_def)
  qed
  with pay show ?thesis by simp
qed

text \<open>What one candidate does: on \<open>continue\<close> the tables are consistent and the other collections as before.\<close>

definition candidate_ok :: "collection \<Rightarrow> plane_db \<Rightarrow> plane_db \<Rightarrow> gateway_command option \<Rightarrow> bool" where
  "candidate_ok k db db' payload \<longleftrightarrow> work_refines db db'
     \<and> (payload = None \<longrightarrow> plane_constraints db' \<and> (\<forall>x\<in>set (g_collections db). k_id x \<noteq> k_id k \<longrightarrow> x \<in> set (g_collections db')))"

lemma candidate_same: "work_ok db \<Longrightarrow> candidate_ok k db db payload"
  by (simp add: candidate_ok_def refines_same work_ok_def)

lemma start_collection_refines:
  assumes ok: "work_ok db" and k: "k \<in> set (g_collections db)" and p: "operation_for_collection k c db = Inr p"
    and run: "start_collection ct ids now at device capability k p db = Inr (db', payload)"
  shows "candidate_ok k db db' payload"
proof -
  from run obtain db1 expired where e: "expire_if_due at p k db = Inr (db1, expired)" by (auto simp: start_collection_def)
  note q = operation_for_collection_Inr [OF p]
  have p': "case p of None \<Rightarrow> True | Some p \<Rightarrow> p \<in> set (g_operations db) \<and> o_capability p = ''context.diagnostic.collect''"
    using q by (cases p) simp_all
  note ex = expire_if_due_refines [OF ok k p' e]
  show ?thesis
  proof (cases expired)
    case True
    with run e ex show ?thesis by (simp add: start_collection_def candidate_ok_def)
  next
    case False
    then have db1: "db1 = db" using ex by simp
    have queued: "\<not> (case p of None \<Rightarrow> False | Some p \<Rightarrow> o_status p \<noteq> Queued)"
      using run e False by (auto simp: start_collection_def)
    have "\<exists>c. begin_collection ct ids capability c k p db = Inr (db', payload)"
      using run e False queued db1 by (auto simp: start_collection_def Let_def)
    moreover have "case p of None \<Rightarrow> k_operation_id k = None
      | Some p \<Rightarrow> p \<in> set (g_operations db) \<and> k_operation_id k = Some (o_id p) \<and> o_collection_id p = Some (k_id k)
        \<and> o_capability p = ''context.diagnostic.collect'' \<and> o_status p = Queued"
      using q queued by (cases p) simp_all
    ultimately have "work_refines db db' \<and> payload \<noteq> None" using begin_collection_refines [OF ok k] by blast
    then show ?thesis by (auto simp: candidate_ok_def)
  qed
qed

lemma replay_collection_refines:
  assumes ok: "work_ok db" and k: "k \<in> set (g_collections db)"
    and run: "replay_collection ct now capability k c db = Inr (db', payload)"
  shows "candidate_ok k db db' payload"
proof -
  from run obtain p db1 expired where p: "operation_for_collection k (Some c) db = Inr p" and e: "expire_if_due now p k db = Inr (db1, expired)"
    by (auto simp: replay_collection_def)
  have p': "case p of None \<Rightarrow> True | Some p \<Rightarrow> p \<in> set (g_operations db) \<and> o_capability p = ''context.diagnostic.collect''"
    using operation_for_collection_Inr [OF p] by (cases p) simp_all
  note ex = expire_if_due_refines [OF ok k p' e]
  show ?thesis
  proof (cases expired)
    case True
    with run p e ex show ?thesis by (simp add: replay_collection_def candidate_ok_def)
  next
    case False
    then have "db1 = db" using ex by simp
    then have "work_of db' = work_of db \<and> payload \<noteq> None"
      using run p e False by (auto simp: replay_collection_def Let_def split: if_splits)
    then show ?thesis by (auto simp: candidate_ok_def intro: refines_same)
  qed
qed

lemma collection_candidate_cases:
  assumes "collection_candidate ct ids now at device caps wss k db = Inr (db', payload)"
  shows "db' = db \<or> (\<exists>capability c. replay_collection ct at capability k c db = Inr (db', payload))
    \<or> (\<exists>capability p. operation_for_collection k None db = Inr p
        \<and> start_collection ct ids now at device capability k p db = Inr (db', payload))"
  using assms by (simp add: collection_candidate_def split: if_splits option.splits) blast+

lemma collection_candidate_refines:
  assumes ok: "work_ok db" and k: "k \<in> set (g_collections db)"
    and run: "collection_candidate ct ids now at device caps wss k db = Inr (db', payload)"
  shows "candidate_ok k db db' payload"
  using collection_candidate_cases [OF run] candidate_same [OF ok] replay_collection_refines [OF ok k] start_collection_refines [OF ok k]
  by blast

lemma pending_collection_refines:
  assumes "work_ok db" "set ks \<subseteq> set (g_collections db)" "distinct (map k_id ks)"
    and "pending_collection ct ids now clock device caps wss ks db = Inr (db', payload)"
  shows "work_refines db db'"
  using assms
proof (induction ks arbitrary: db clock)
  case Nil
  then show ?case by (simp add: refines_same)
next
  case (Cons k ks)
  from Cons.prems(4) obtain db1 x where one: "collection_candidate ct ids now (clock 0) device caps wss k db = Inr (db1, x)"
      and rest: "(case x of Some y \<Rightarrow> Inr (db1, Some y) | None \<Rightarrow> pending_collection ct ids now (\<lambda>n. clock (Suc n)) device caps wss ks db1)
        = Inr (db', payload)"
    by auto
  have k: "k \<in> set (g_collections db)" using Cons.prems(2) by simp
  note step = collection_candidate_refines [OF Cons.prems(1) k one, unfolded candidate_ok_def]
  show ?case
  proof (cases x)
    case (Some y)
    with rest step show ?thesis by simp
  next
    case None
    have ok: "work_ok db1" using step None Cons.prems(1) refines_inv unfolding work_ok_def by blast
    have "k_id x \<noteq> k_id k" if "x \<in> set ks" for x using that Cons.prems(3) by (auto simp: image_iff)
    then have sub: "set ks \<subseteq> set (g_collections db1)" using step None Cons.prems(2) by auto
    have "work_refines db1 db'" using Cons.IH [OF ok sub] Cons.prems(3) rest None by simp
    with step show ?thesis by (auto intro: refines_trans)
  qed
qed

section \<open>Delivery\<close>

lemma next_pending_refines:
  assumes ok: "work_ok db" and run: "next_pending_command ct ids clock device caps transport platform db = Inr (db', payload)"
  shows "work_refines db db'"
proof -
  define wss where "wss = (transport = ''gateway_wss'')"
  have guard: "\<not> (transport \<noteq> ''http_pull'' \<and> transport \<noteq> ''gateway_wss'')"
    using run unfolding next_pending_command_def by (metis Inl_Inr_False)
  from run obtain db1 found where e: "expire_overdue_collections device (clock 0) None db = Inr db1"
      and f: "(if wss then next_pending_module_command ids (clock 1) device caps platform db1 else Inr None) = Inr found"
      and rest: "(case found of Some (db2, payload) \<Rightarrow> Inr (db2, Some payload)
        | None \<Rightarrow> pending_collection ct ids (clock 2) (\<lambda>n. clock (n + 3)) device caps wss (open_collections device db1) db1) = Inr (db', payload)"
    unfolding next_pending_command_def if_not_P [OF guard] unfolding Let_def wss_def [symmetric] bindE_Inr_iff by blast
  have first: "work_refines db db1" "plane_constraints db1" using refines_expire_overdue [OF e] by simp_all
  then have ok1: "work_ok db1" using ok refines_inv by (simp add: work_ok_def)
  have "work_refines db1 db'"
  proof (cases found)
    case None
    have d: "distinct (map k_id (g_collections db1))" by (rule plane_constraintsD(2) [OF first(2)])
    have sub: "set (open_collections device db1) \<subseteq> set (g_collections db1)" by (auto simp: open_collections_def)
    have "distinct (map k_id (open_collections device db1))"
      using d by (auto simp: distinct_map open_collections_def inj_on_def)
    then show ?thesis using pending_collection_refines [OF ok1 sub] rest None by simp
  next
    case (Some y)
    then have "next_pending_module_command ids (clock 1) device caps platform db1 = Inr (Some (db', the payload))"
      using f rest by (auto split: if_splits prod.splits)
    then show ?thesis by (rule next_module_refines [OF ok1])
  qed
  with first(1) show ?thesis by (rule refines_trans)
qed

lemma commit_plane_Inr: "commit_plane plane db = Inr db' \<Longrightarrow> w_plane db' = plane \<and> plane_constraints plane"
  by (auto simp: commit_plane_def commit_gateway_def split: if_splits)

lemma deliver_next_refines:
  assumes ok: "work_ok (w_plane db)" and run: "deliver_next ct ids clock device sid caps platform db = Inr (db', x)"
  shows "work_refines (w_plane db) (w_plane db') \<and> plane_constraints (w_plane db')"
proof -
  from run obtain plane payload where n: "next_pending_command ct ids clock device caps ''gateway_wss'' platform (w_plane db) = Inr (plane, payload)"
    by (auto simp: deliver_next_def)
  have "\<exists>plane'. work_of plane' = work_of plane \<and> commit_plane plane' db = Inr db'"
    using run n by (simp add: deliver_next_def split: option.splits if_splits) (metis work_of_stores(2))+
  then obtain plane' where "work_of plane' = work_of plane" "w_plane db' = plane'" "plane_constraints plane'"
    using commit_plane_Inr by blast
  with next_pending_refines [OF ok n] show ?thesis by (simp add: work_refines_def)
qed

end
