(* ===== verification/Work_Results.thy ===== *)
theory Work_Results
  imports Work_Delivery
begin

text \<open>
  Acknowledgements and results refine the ledger of work: a step or an operation that a device reports on moves
  only while it is open, and a module operation succeeds only with its last step.
\<close>

declare terminal_work.simps [simp del]

section \<open>Relations\<close>

lemma module_relation_Inr:
  assumes "resolve_module_step_relation c db = Inr (Some (s, p))"
  shows "s \<in> set (g_steps db) \<and> p \<in> set (g_operations db) \<and> s_operation_id s = o_id p \<and> o_capability p = ''endpoint.module.recipe''"
proof -
  from assms obtain t where t: "find (\<lambda>s. s_command_id s = Some (cm_id c)) (g_steps db) = Some t"
    by (auto simp: resolve_module_step_relation_def split: option.splits)
  moreover from this assms obtain q where q: "find_row o_id (s_operation_id t) (g_operations db) = Some q"
    by (auto simp: resolve_module_step_relation_def split: option.splits)
  ultimately show ?thesis
    using assms find_SomeD [OF t] find_row_SomeD [OF q] by (auto simp: resolve_module_step_relation_def split: if_splits)
qed

text \<open>The relation of a context command is the one that a validated operation and its collection have.\<close>

definition related :: "command \<Rightarrow> plane_db \<Rightarrow> collection option \<Rightarrow> operation option \<Rightarrow> bool" where
  "related c db k p \<longleftrightarrow>
     (case p of
        None \<Rightarrow> k = find (\<lambda>k. k_command_id k = Some (cm_id c)) (g_collections db) \<and> (case k of None \<Rightarrow> True | Some k \<Rightarrow> k_operation_id k = None)
      | Some p \<Rightarrow> p \<in> set (g_operations db) \<and> o_capability p = ''context.diagnostic.collect'' \<and> cm_kind c = ''context.diagnostic.collect''
          \<and> (case k of None \<Rightarrow> False | Some k \<Rightarrow> k \<in> set (g_collections db) \<and> k_operation_id k = Some (o_id p) \<and> o_collection_id p = Some (k_id k)
               \<and> k_command_id k = Some (cm_id c)))"

lemma validated_relation:
  "validate_operation_relation k x (Some c) = Inr p \<Longrightarrow>
     x = Some p \<and> k_operation_id k = Some (o_id p) \<and> o_collection_id p = Some (k_id k) \<and> k_command_id k = Some (cm_id c)
     \<and> o_capability p = ''context.diagnostic.collect'' \<and> cm_kind c = ''context.diagnostic.collect''"
  by (auto simp: validate_operation_relation_def profile_capability_def split: option.splits if_splits)

lemma command_relation_Inr:
  assumes "resolve_command_context_relation c db = Inr (k, p)"
  shows "related c db k p"
proof (cases "find (\<lambda>p. o_command_id p = Some (cm_id c)) (g_operations db)")
  case None
  show ?thesis
  proof (cases "find (\<lambda>k. k_command_id k = Some (cm_id c)) (g_collections db)")
    case no: None
    with assms None have "k = None" "p = None" by (simp_all add: resolve_command_context_relation_def)
    with no show ?thesis by (simp add: related_def)
  next
    case (Some x)
    show ?thesis
    proof (cases "k_operation_id x")
      case no: None
      with assms None Some have "k = Some x" "p = None" by (simp_all add: resolve_command_context_relation_def)
      with no Some show ?thesis by (simp add: related_def)
    next
      case op: (Some i)
      with assms None Some have k: "k = Some x" and o: "operation_for_collection x (Some c) db = Inr p"
        by (auto simp: resolve_command_context_relation_def)
      from o op obtain q where p: "p = Some q" and q: "validate_operation_relation x (find_row o_id i (g_operations db)) (Some c) = Inr q"
        by (auto simp: operation_for_collection_def)
      from validated_relation [OF q] have "find_row o_id i (g_operations db) = Some q" by simp
      from find_row_SomeD [OF this] find_SomeD [OF Some] validated_relation [OF q] k p show ?thesis by (simp add: related_def)
    qed
  qed
next
  case (Some q)
  from assms Some obtain x where k: "k = Some x" and x: "x \<in> set (g_collections db)" and v: "validate_operation_relation x (Some q) (Some c) = Inr (the p)"
      and p: "p \<noteq> None"
    by (auto simp: resolve_command_context_relation_def Let_def split: option.splits if_splits dest: find_SomeD)
  from validated_relation [OF v] p have "p = Some q" by auto
  with validated_relation [OF v] find_SomeD [OF Some] k x show ?thesis by (simp add: related_def)
qed

section \<open>Acknowledgements\<close>

lemma acked_open: "a \<in> {Acknowledged, Running} \<Longrightarrow> in_flight s \<Longrightarrow> \<not> terminal_work (acked_status a s)"
  by (auto simp: acked_status_def in_flight_def terminal_work.simps)

lemma in_flight_begun: "in_flight s \<Longrightarrow> begun s"
  by (auto simp: in_flight_def begun_def)

lemma in_flight_earlier:
  "work_inv (work_of db) \<Longrightarrow> s \<in> set (g_steps db) \<Longrightarrow> in_flight (s_status s) \<Longrightarrow> earlier_succeeded (g_steps db) s"
  using work_invD(4) in_flight_begun by (auto simp: in_order_def)

lemma ack_module_refines:
  assumes inv: "work_inv (work_of db)" and a: "aa_status a \<in> {Acknowledged, Running}"
    and s: "s \<in> set (g_steps db)" "in_flight (s_status s)" and p: "p \<in> set (g_operations db)" "in_flight (o_status p)"
  shows "work_refines db (ack_module_step a c d s p db)"
proof -
  let ?t = "s\<lparr>s_status := (if cm_status c \<noteq> Running \<or> aa_status a = Running then aa_status a else s_status s),
              s_started_at := (case s_started_at s of None \<Rightarrow> Some (aa_acknowledged_at a) | Some t \<Rightarrow> Some t)\<rparr>"
  let ?q = "p\<lparr>o_status := acked_status (aa_status a) (o_status p)\<rparr>"
  have first: "work_refines db (store_step ?t db)"
    using s open_not_terminal(1) in_flight_earlier [OF inv s]
    by (intro refines_advance [of s _ ?t]) (simp_all add: same_step_def store_step_def)
  have "work_refines (store_step ?t db) (ack_module_step a c d s p db)"
    using p a open_not_terminal(1) acked_open
    by (intro refines_store_open [OF refines_inv [OF first inv], of p ?q])
      (simp_all add: ack_module_step_def same_identity_def store_defs)
  with first show ?thesis by (rule refines_trans)
qed

lemma ack_context_refines:
  assumes inv: "work_inv (work_of db)" and a: "aa_status a \<in> {Acknowledged, Running}"
    and r: "related c db k p" and p: "case p of None \<Rightarrow> True | Some p \<Rightarrow> in_flight (o_status p)"
  shows "work_refines db (ack_context_command a c d k p db)"
proof (cases p)
  case None
  show ?thesis
  proof (cases k)
    case k: None
    with None show ?thesis by (intro refines_same) (simp add: ack_context_command_def)
  next
    case (Some x)
    with None r have "k_operation_id x = None" by (simp add: related_def)
    then show ?thesis
      using None Some by (intro refines_store_loose [of _ "x\<lparr>k_status := CCollecting\<rparr>"]) (simp_all add: ack_context_command_def work_of_def store_defs)
  qed
next
  case (Some q)
  with r obtain x where k: "k = Some x" and x: "x \<in> set (g_collections db)" "k_operation_id x = Some (o_id q)" "o_collection_id q = Some (k_id x)"
      and q: "q \<in> set (g_operations db)" "o_capability q = ''context.diagnostic.collect''"
    by (auto simp: related_def split: option.splits)
  let ?q = "q\<lparr>o_status := acked_status (aa_status a) (o_status q)\<rparr>"
  let ?k = "x\<lparr>k_status := CCollecting\<rparr>"
  have "\<not> terminal_work (o_status q)" "\<not> terminal_work (o_status ?q)"
    using p Some open_not_terminal(1) acked_open [OF a] by simp_all
  then show ?thesis
    using x q Some k
    by (intro refines_pair [OF inv q(1), of ?q ?k "k_id x"]) (simp_all add: ack_context_command_def same_identity_def closed_collection_def store_defs)
qed

lemma record_ack_refines:
  assumes ok: "work_ok (w_plane db)" and run: "record_command_ack device sid a db = Inr db'"
  shows "work_refines (w_plane db) (w_plane db') \<and> plane_constraints (w_plane db')"
proof (cases "db' = db")
  case True
  with ok show ?thesis by (simp add: refines_same work_ok_def)
next
  case False
  have inv: "work_inv (work_of (w_plane db))" using ok by (simp add: work_ok_def)
  from run have a: "aa_status a \<in> {Acknowledged, Running}" by (auto simp: record_command_ack_def Let_def split: if_splits)
  from run obtain g where g: "open_session sid device (w_plane db) = Some g"
    by (auto simp: record_command_ack_def Let_def split: if_splits option.splits)
  from run g obtain c where c: "find (\<lambda>c. cm_id c = aa_command_id a \<and> cm_device_id c = device) (g_commands (w_plane db)) = Some c"
    by (auto simp: record_command_ack_def Let_def split: if_splits option.splits)
  from run g c obtain d where d: "find (\<lambda>d. dl_command_id d = cm_id c) (g_deliveries (w_plane db)) = Some d" "dl_session_id d = Some sid"
    by (auto simp: record_command_ack_def Let_def split: if_splits option.splits)
  from run g c d obtain relation where r: "resolve_module_step_relation c (w_plane db) = Inr relation"
    by (auto simp: record_command_ack_def Let_def split: if_splits)
  show ?thesis
  proof (cases relation)
    case (Some sp)
    obtain s p where sp: "sp = (s, p)" by (cases sp)
    have fl: "in_flight (s_status s)" "in_flight (o_status p)" and commit: "commit_plane (ack_module_step a c d s p (w_plane db)) db = Inr db'"
      using run g c d r a Some sp False by (auto simp: record_command_ack_def Let_def split: if_splits)
    have "work_refines (w_plane db) (ack_module_step a c d s p (w_plane db))"
      using module_relation_Inr [OF r [unfolded Some sp]] fl by (intro ack_module_refines [OF inv a]) simp_all
    with commit_plane_Inr [OF commit] show ?thesis by simp
  next
    case None
    with run g c d r a obtain k p where kp: "resolve_command_context_relation c (w_plane db) = Inr (k, p)"
      by (auto simp: record_command_ack_def Let_def split: if_splits)
    have fl: "case p of None \<Rightarrow> True | Some p \<Rightarrow> in_flight (o_status p)"
        and commit: "commit_plane (ack_context_command a c d k p (w_plane db)) db = Inr db'"
      using run g c d r a None kp False by (auto simp: record_command_ack_def Let_def split: if_splits option.splits)
    have "work_refines (w_plane db) (ack_context_command a c d k p (w_plane db))"
      by (rule ack_context_refines [OF inv a command_relation_Inr [OF kp] fl])
    with commit_plane_Inr [OF commit] show ?thesis by simp
  qed
qed

section \<open>Results of module steps\<close>

lemma work_of_evidence:
  "create_operation_evidence rendered digest i p kind payload at db = Inr (db', e) \<Longrightarrow> work_of db' = work_of db"
  by (auto simp: create_operation_evidence_def Let_def work_of_def split: if_splits)

lemma work_of_terminal_audit: "append_module_terminal_audit p s at db = Inr db' \<Longrightarrow> work_of db' = work_of db"
  by (auto simp: append_module_terminal_audit_def work_of_def)

lemma finish_parent_refines:
  assumes inv: "work_inv (work_of db)" and p: "p \<in> set (g_operations db)" "in_flight (o_status p)" "o_capability p = ''endpoint.module.recipe''"
    and last: "ar_status r = Succeeded \<Longrightarrow> s_sequence s = expected - 1 \<Longrightarrow> steps_succeeded (g_steps db) p"
    and run: "finish_parent ct ids expected r code at p s db = Inr db'"
  shows "work_refines db db'"
proof -
  have "\<exists>q. same_identity p q \<and> work_of db' = work_of (store_operation q db)
      \<and> (o_status q = Succeeded \<longrightarrow> ar_status r = Succeeded \<and> s_sequence s = expected - 1)"
  proof (cases "ar_status r = Succeeded")
    case False
    let ?q = "p\<lparr>o_status := ar_status r, o_completed_at := Some at, o_error_code := code\<rparr>"
    have "append_module_terminal_audit ?q s at (store_operation ?q db) = Inr db'"
      using run False by (simp add: finish_parent_def Let_def)
    from work_of_terminal_audit [OF this] False show ?thesis by (intro exI [of _ ?q]) (simp add: same_identity_def)
  next
    case succ: True
    show ?thesis
    proof (cases "s_sequence s = expected - 1")
      case True
      let ?q = "p\<lparr>o_status := Succeeded, o_completed_at := Some at\<rparr>"
      from run succ True obtain db2 e where ev: "create_operation_evidence (ct_rendered ct) (ct_digest ct) (ri_evidence ids) ?q ''module''
            (steps_document ?q (store_operation ?q db)) (Aware at) (store_operation ?q db) = Inr (db2, e)"
          and au: "append_module_terminal_audit ?q s at db2 = Inr db'"
        by (auto simp: finish_parent_def Let_def)
      from work_of_evidence [OF ev] work_of_terminal_audit [OF au] succ True show ?thesis
        by (intro exI [of _ ?q]) (simp add: same_identity_def)
    next
      case False
      then show ?thesis using run succ by (intro exI [of _ "p\<lparr>o_status := Running\<rparr>"]) (auto simp: finish_parent_def same_identity_def)
    qed
  qed
  then obtain q where q: "same_identity p q" "work_of db' = work_of (store_operation q db)"
      "o_status q = Succeeded \<longrightarrow> ar_status r = Succeeded \<and> s_sequence s = expected - 1" by blast
  have "work_refines db (store_operation q db)"
    using p open_not_terminal(1) q(1,3) last work_invD(6) [OF inv p(1,3)] steps_succeeded_same [OF q(1)]
    by (intro refines_alone [OF inv p(1), of q]) (simp_all add: store_defs)
  with q(2) show ?thesis by (simp add: work_refines_def)
qed

text \<open>When the last step of the authoritative set succeeds, every step has succeeded.\<close>

lemma last_step_complete:
  assumes c: "plane_constraints db" and inv: "work_inv (work_of db)" and s: "s \<in> set (g_steps db)" "in_flight (s_status s)" "s_operation_id s = o_id p"
    and set: "require_authoritative_module_step_set p db = Inr n" "s_sequence s = n - 1" and t: "same_step s t" "s_status t = Succeeded"
  shows "steps_succeeded (store_row s_id t (g_steps db)) p"
  unfolding steps_succeeded_def
proof (intro ballI impI)
  fix x assume x: "x \<in> set (store_row s_id t (g_steps db))" "s_operation_id x = o_id p"
  have id: "s_id t = s_id s" using t(1) by (simp add: same_step_def)
  note mem = store_member [OF work_invD(2) [OF inv] s(1) id]
  show "s_status x = Succeeded"
  proof (cases "x = t")
    case False
    then have old: "x \<in> set (g_steps db)" "x \<noteq> s" using x(1) mem by auto
    have "sort (map s_sequence (filter (\<lambda>s. s_operation_id s = o_id p) (g_steps db))) = [0..n - 1]"
      using set(1) by (auto simp: require_authoritative_module_step_set_def split: option.splits if_splits)
    then have "set (map s_sequence (filter (\<lambda>s. s_operation_id s = o_id p) (g_steps db))) = {0..n - 1}"
      by (metis set_sort set_upto)
    then have "s_sequence x \<le> s_sequence s" using old x(2) set(2) by auto
    moreover have "distinct (map (\<lambda>s. (s_operation_id s, s_sequence s)) (g_steps db))"
      using c by (simp add: plane_constraints_def steps_constraints_def)
    from distinct_map_inj [OF this old(1) s(1)] have "s_sequence x \<noteq> s_sequence s" using old(2) x(2) s(3) by auto
    ultimately show ?thesis using in_flight_earlier [OF inv s(1,2)] old(1) x(2) s(3) by (auto simp: earlier_succeeded_def)
  qed (simp add: t(2))
qed

lemma module_result_refines:
  assumes ok: "work_ok db" and rel: "resolve_module_step_relation c db = Inr (Some (s, p))"
    and run: "record_module_step_result ct ids at c d s p i sid n r digest db = Inr db'"
  shows "work_refines db db'"
proof -
  have inv: "work_inv (work_of db)" and con: "plane_constraints db" using ok by (simp_all add: work_ok_def)
  have sp: "s \<in> set (g_steps db)" "p \<in> set (g_operations db)" "s_operation_id s = o_id p" "o_capability p = ''endpoint.module.recipe''"
    using module_relation_Inr [OF rel] by simp_all
  from run obtain expected where e: "require_authoritative_module_step_set p db = Inr expected"
    by (auto simp: record_module_step_result_def)
  show ?thesis
  proof (cases "find (\<lambda>x. rs_identifier x = result_identifier c) (g_results db)")
    case (Some stored)
    with run e have "db' = bump_sequence n i db" by (auto simp: record_module_step_result_def split: option.splits if_splits)
    then show ?thesis by (simp add: refines_same)
  next
    case None
    with run e obtain dv where d: "d = Some dv" by (auto simp: record_module_step_result_def split: option.splits)
    have fl: "in_flight (s_status s)" "in_flight (o_status p)"
      using run e None d by (auto simp: record_module_step_result_def split: if_splits)
    from run e None d obtain safe code db2 where
        f: "finish_parent ct ids expected r code at p (finished_step r safe code at s)
          (store_step (finished_step r safe code at s) (store_delivery (dv\<lparr>dl_status := ar_status r\<rparr>) (store_command (c\<lparr>cm_status := ar_status r\<rparr>)
            (db\<lparr>g_results := g_results db @ [new_result (ri_result ids) c (Some (dl_id dv)) (ar_status r) at n digest]\<rparr>)))) = Inr db2"
        and db': "db' = bump_sequence n i db2"
      by (auto simp: record_module_step_result_def Let_def split: if_splits)
    define t where "t = finished_step r safe code at s"
    define db1 where "db1 = store_step t (store_delivery (dv\<lparr>dl_status := ar_status r\<rparr>) (store_command (c\<lparr>cm_status := ar_status r\<rparr>)
        (db\<lparr>g_results := g_results db @ [new_result (ri_result ids) c (Some (dl_id dv)) (ar_status r) at n digest]\<rparr>)))"
    note f = f [folded t_def, folded db1_def]
    have t: "same_step s t" "s_status t = ar_status r" by (simp_all add: t_def finished_step_def same_step_def)
    have rows: "g_operations db1 = g_operations db" "g_collections db1 = g_collections db" "g_steps db1 = store_row s_id t (g_steps db)"
      by (simp_all add: db1_def store_defs)
    have first: "work_refines db db1"
      using sp(1) fl(1) open_not_terminal(1) in_flight_earlier [OF inv] t(1) by (intro refines_advance [of s _ t]) (simp_all add: rows)
    have "steps_succeeded (g_steps db1) p" if "ar_status r = Succeeded" "s_sequence t = expected - 1"
      using last_step_complete [OF con inv sp(1) fl(1) sp(3) e _ t(1)] t that by (simp add: rows same_step_def)
    then have "work_refines db1 db2"
      using f by (intro finish_parent_refines [OF refines_inv [OF first inv] _ fl(2) sp(4)]) (simp_all add: rows sp(2))
    with first have "work_refines db db2" by (rule refines_trans)
    then show ?thesis by (simp add: db' work_refines_def)
  qed
qed

section \<open>Results of context commands\<close>

lemma finish_collection_shape:
  assumes "finish_collection at k db = Inr (db', k')"
  shows "k_id k' = k_id k \<and> k_operation_id k' = k_operation_id k \<and> w_plane db' = store_collection k' (w_plane db)"
  using assms by (auto simp: finish_collection_def Let_def close_collection_def with_plane_def commit_gateway_def split: if_splits)

lemma advance_pointer_plane: "advance_current_pointer i s at db = Inr db' \<Longrightarrow> w_plane db' = w_plane db"
  by (auto simp: advance_current_pointer_def store_current_def split: option.splits if_splits)

lemma record_diff_plane: "record_diff ct i b a db = Inr (db', d) \<Longrightarrow> w_plane db' = w_plane db"
  by (auto simp: record_diff_def split: option.splits if_splits)

lemma commit_gateway_Inr: "commit_gateway db = Inr db' \<longleftrightarrow> db' = db \<and> plane_constraints (w_plane db) \<and> context_constraints db"
  by (auto simp: commit_gateway_def)

lemma add_snapshot_shape:
  assumes "add_snapshot ct ids at k s latest db = Inr (db', k')"
  shows "k_id k' = k_id k \<and> k_operation_id k' = k_operation_id k \<and> w_plane db' = store_collection k' (w_plane db)"
proof -
  from assms obtain db2 diff db3 where d: "record_diff ct (ig_diff ids) latest s (db\<lparr>w_snapshots := w_snapshots db @ [s]\<rparr>) = Inr (db2, diff)"
      and a: "\<exists>events. advance_current_pointer (ig_current ids) s at (db2\<lparr>w_events := w_events db2 @ events\<rparr>) = Inr db3"
      and f: "finish_collection at k db3 = Inr (db', k')"
    by (auto simp: add_snapshot_def Let_def commit_gateway_Inr split del: if_split)
  have "w_plane db3 = w_plane db" using record_diff_plane [OF d] a by (auto dest: advance_pointer_plane)
  with finish_collection_shape [OF f] show ?thesis by simp
qed

lemma ingest_success_shape:
  assumes "ingest_success ct ids at c k e raw db = Inr (db', k')"
  shows "k_id k' = k_id k \<and> k_operation_id k' = k_operation_id k
    \<and> (\<exists>k1. k_id k1 = k_id k \<and> w_plane db' = store_collection k' (store_collection k1 (w_plane db)))"
proof -
  let ?k1 = "k\<lparr>k_status := CValidated, k_validated_at := Some at\<rparr>"
  let ?db1 = "with_plane (store_collection ?k1) db"
  from assms consider (same) l db2 where "advance_current_pointer (ig_current ids) l at ?db1 = Inr db2" "finish_collection at ?k1 db2 = Inr (db', k')"
    | (new) s latest where "add_snapshot ct ids at ?k1 s latest ?db1 = Inr (db', k')"
    by (auto simp: ingest_success_def Let_def split: option.splits if_splits)
  then show ?thesis
  proof cases
    case same
    with finish_collection_shape [OF same(2)] advance_pointer_plane [OF same(1)] show ?thesis
      by (auto simp: with_plane_def intro!: exI [of _ ?k1])
  next
    case new
    with add_snapshot_shape [OF new] show ?thesis by (auto simp: with_plane_def intro!: exI [of _ ?k1])
  qed
qed

text \<open>Ingestion writes one collection: the one the result's command belongs to, or a new one of no operation.\<close>

lemma ingest_shape:
  assumes res: "find_row rs_id i (g_results (w_plane db)) = Some res" and run: "ingest_context_result ct ids clock i r now db = Inr (db', k')"
  shows "g_operations (w_plane db') = g_operations (w_plane db) \<and> g_steps (w_plane db') = g_steps (w_plane db)
    \<and> k' \<in> set (g_collections (w_plane db'))
    \<and> (\<forall>x\<in>set (g_collections (w_plane db')). x = k' \<or> x \<in> set (g_collections (w_plane db)))
    \<and> (k' \<in> set (g_collections (w_plane db)) \<or> k_operation_id k' = None
       \<or> (\<exists>k0. find (\<lambda>k. k_command_id k = Some (rs_command_id res)) (g_collections (w_plane db)) = Some k0
             \<and> k_operation_id k' = k_operation_id k0))"
proof -
  from run res obtain c where c: "find_row cm_id (rs_command_id res) (g_commands (w_plane db)) = Some c"
    by (auto simp: ingest_context_result_def split: option.splits)
  from run res c obtain envelope profile plane k where
      cur: "current_collection (ig_collection ids) clock c res profile (w_plane db) = Inr (plane, k)"
      and prof: "result_profile ct c r = Inr (envelope, profile)"
    by (auto simp: ingest_context_result_def split: if_splits)
  have cid: "cm_id c = rs_command_id res" using find_row_SomeD [OF c] by simp
  define at where "at = (case now of None \<Rightarrow> ar_completed_at r | Some t \<Rightarrow> t)"
  define raw where "raw = ct_result_document ct r"
  have frame: "g_operations plane = g_operations (w_plane db) \<and> g_steps plane = g_steps (w_plane db) \<and> k \<in> set (g_collections plane)
      \<and> (\<forall>x\<in>set (g_collections plane). x = k \<or> x \<in> set (g_collections (w_plane db)))
      \<and> (k \<in> set (g_collections (w_plane db)) \<or> k_operation_id k = None)
      \<and> (k_command_result_id k = None \<longrightarrow> k_operation_id k = None
          \<or> find (\<lambda>k. k_command_id k = Some (rs_command_id res)) (g_collections (w_plane db)) = Some k)"
    using cur cid by (auto simp: current_collection_def Let_def received_collection_def requested_collection_def
        split: option.splits if_splits dest: find_SomeD)
  show ?thesis
  proof (cases "k_command_result_id k = None")
    case False
    then have "db' = db\<lparr>w_plane := plane\<rparr>" "k' = k" using run res c cur prof by (auto simp: ingest_context_result_def Let_def split: if_splits)
    with frame show ?thesis by auto
  next
    case True
    let ?k = "received at res raw k"
    let ?db = "db\<lparr>w_plane := plane\<rparr>"
    have "k_id k' = k_id k \<and> k_operation_id k' = k_operation_id k
        \<and> g_operations (w_plane db') = g_operations plane \<and> g_steps (w_plane db') = g_steps plane
        \<and> g_collections (w_plane db') = store_row k_id k' (g_collections plane)"
    proof (cases envelope)
      case None
      then have "ingest_failure at (ar_status r) ?k ?db = Inr (db', k')"
        using run res c cur prof True by (auto simp: ingest_context_result_def Let_def at_def raw_def split: if_splits)
      then show ?thesis by (auto simp: ingest_failure_def Let_def commit_gateway_Inr with_plane_def received_def)
    next
      case (Some e)
      then have "ingest_success ct ids at c ?k e raw ?db = Inr (db', k')"
        using run res c cur prof True by (auto simp: ingest_context_result_def Let_def at_def raw_def split: if_splits)
      from ingest_success_shape [OF this] show ?thesis by (auto simp: received_def store_row_twice)
    qed
    with frame True show ?thesis by (auto simp: in_set_store_row)
  qed
qed

lemma terminal_audit_frame: "append_operation_terminal_audit p m db = Inr db' \<Longrightarrow> work_of db' = work_of db"
  by (auto simp: append_operation_terminal_audit_def work_of_def split: if_splits dest!: append_operation_audit_Inr)

lemma settle_shape:
  assumes "settle_operation ct i at status ingested p db = Inr db'"
  shows "\<exists>q. same_identity p q \<and> o_status q = status \<and> work_of (w_plane db') = work_of (store_operation q (w_plane db))"
proof (cases "status = Succeeded")
  case True
  let ?q = "p\<lparr>o_status := status, o_completed_at := Some at\<rparr>"
  from assms True obtain safe plane e plane' where
      ev: "create_operation_evidence (ct_rendered ct) (ct_digest ct) i ?q ''diagnostic'' safe (Aware at) (store_operation ?q (w_plane db)) = Inr (plane, e)"
      and au: "append_operation_terminal_audit ?q (Aware at) plane = Inr plane'" and db': "db' = db\<lparr>w_plane := plane'\<rparr>"
    by (auto simp: settle_operation_def Let_def)
  with terminal_audit_frame [OF au] work_of_evidence [OF ev] show ?thesis by (intro exI [of _ ?q]) (simp add: same_identity_def)
next
  case False
  from assms False obtain k where k: "ingested = Some k" by (auto simp: settle_operation_def Let_def)
  with assms False obtain plane' where au: "append_operation_terminal_audit (p\<lparr>o_status := status, o_completed_at := Some at, o_error_code := k_failure_code k\<rparr>)
        (Aware at) (store_operation (p\<lparr>o_status := status, o_completed_at := Some at, o_error_code := k_failure_code k\<rparr>) (w_plane db)) = Inr plane'"
      and db': "w_plane db' = plane'"
    by (auto simp: settle_operation_def Let_def)
  with terminal_audit_frame [OF au] show ?thesis
    by (intro exI [of _ "p\<lparr>o_status := status, o_completed_at := Some at, o_error_code := k_failure_code k\<rparr>"]) (simp add: same_identity_def)
qed

lemma finish_transport_frame [simp]: "work_of (finish_transport status c d db) = work_of db"
  by (simp add: finish_transport_def Let_def split: option.splits)

lemma work_of_eqD: "work_of a = work_of b \<Longrightarrow> g_operations a = g_operations b \<and> g_collections a = g_collections b \<and> g_steps a = g_steps b"
  by (simp add: work_of_def)

text \<open>An operation and its ingested collection end together.\<close>

lemma settled_refines:
  assumes inv: "work_inv (work_of db)" and p: "p \<in> set (g_operations db)" "in_flight (o_status p)" "o_capability p \<noteq> ''endpoint.module.recipe''"
    and q: "same_identity p q" "terminal_work (o_status q)" and k: "k_operation_id k = Some (o_id p)" "o_collection_id p = Some (k_id k)" "closed_collection k"
    and d: "distinct (map k_id (g_collections db'))" "k \<in> set (g_collections db')"
    and rows: "\<And>x. x \<in> set (g_collections db') \<Longrightarrow> x = k \<or> x \<in> set (g_collections db)"
      "g_operations db' = store_row o_id q (g_operations db)" "g_steps db' = g_steps db"
  shows "work_refines db db'"
proof (rule refines_step)
  have "work_step (g_operations db, g_collections db, g_steps db) (store_row o_id q (g_operations db), g_collections db', g_steps db)"
  proof (rule work_step.move [OF p(1) open_not_terminal(1) [OF p(2)] q(1)])
    fix x assume x: "x \<in> set (g_collections db')" "k_operation_id x = Some (o_id p)"
    have "x = k"
    proof (rule ccontr)
      assume n: "x \<noteq> k"
      then have "o_collection_id p = Some (k_id x)" using rows(1) [OF x(1)] pairedD(2) [OF inv p(1)] x(2) by blast
      with k(2) have "x = k" using distinct_map_inj [OF d(1) x(1) d(2)] by simp
      with n show False by simp
    qed
    then show "closed_collection x = terminal_work (o_status q) \<and> o_collection_id p = Some (k_id x)" using k q(2) by simp
  next
    fix x j assume x: "x \<in> set (g_collections db')" "k_operation_id x = Some j" "j \<noteq> o_id p"
    then show "x \<in> set (g_collections db)" using rows(1) [OF x(1)] k(1) by auto
  next
    assume "o_capability q = ''endpoint.module.recipe''"
    then show "steps_succeeded (g_steps db) q" using p(3) q(1) by (simp add: same_identity_def)
  qed
  then show "work_step (work_of db) (work_of db')" by (simp add: work_of_def rows)
qed

lemma first_result_refines:
  assumes ok: "work_ok (w_plane db)" and rel: "related c (w_plane db) k p" and t: "terminal_work (ar_status r)"
    and run: "first_result ct ids gids clock sid n r c d k p db = Inr db'" and c': "plane_constraints (w_plane db')"
  shows "work_refines (w_plane db) (w_plane db')"
proof -
  have inv: "work_inv (work_of (w_plane db))" using ok by (simp add: work_ok_def)
  from run obtain accepted accepted_at where
      acc: "(case p of None \<Rightarrow> Inr (r, None)
            | Some p \<Rightarrow> bindE (accept_operation_result ct (clock 0) sid c d p r) (\<lambda>safe. Inr (safe, Some (clock 0)))) = Inr (accepted, accepted_at)"
    by (auto simp: first_result_def)
  define stored where "stored = new_result (ri_result ids) c (map_option dl_id d) (ar_status r) (ar_completed_at accepted) n (result_payload_digest ct r)"
  define db1 where "db1 = with_plane (\<lambda>plane. plane\<lparr>g_results := g_results plane @ [stored]\<rparr>) db"
  from run acc obtain db2 ingested where com: "commit_gateway db1 = Inr db1"
      and ing: "ingest_result ct gids (clock 1) (rs_id stored) accepted accepted_at c k p db1 = Inr (db2, ingested)"
      and fin: "(case p of None \<Rightarrow> Inr (with_plane (finish_transport (ar_status r) c d) db2)
              | Some p \<Rightarrow> settle_operation ct (ri_evidence ids) (clock 0) (ar_status r) ingested p (with_plane (finish_transport (ar_status r) c d) db2)) = Inr db'"
    by (auto simp: first_result_def stored_def [symmetric] db1_def [symmetric] Let_def commit_gateway_Inr)
  have w1: "work_of (w_plane db1) = work_of (w_plane db)" by (simp add: db1_def with_plane_def)
  have res: "find_row rs_id (rs_id stored) (g_results (w_plane db1)) = Some stored"
  proof -
    have "distinct (map rs_id (g_results (w_plane db1)))" "stored \<in> set (g_results (w_plane db1))"
      using com by (auto simp: commit_gateway_Inr plane_constraints_def commands_constraints_def db1_def with_plane_def)
    then show ?thesis by (simp add: find_row_key)
  qed
  have sc: "rs_command_id stored = cm_id c" by (simp add: stored_def new_result_def)
  note w = work_of_eqD [OF w1]
  show ?thesis
  proof (cases p)
    case None
    then have db': "work_of (w_plane db') = work_of (w_plane db2)" using fin by (auto simp: with_plane_def)
    have rel': "case find (\<lambda>k. k_command_id k = Some (cm_id c)) (g_collections (w_plane db)) of None \<Rightarrow> True | Some k \<Rightarrow> k_operation_id k = None"
      using rel None by (auto simp: related_def)
    have "work_refines (w_plane db) (w_plane db2)"
    proof (cases "is_context_kind (cm_kind c)")
      case False
      with ing have "db2 = db1" by (simp add: ingest_result_def)
      with w1 show ?thesis by (simp add: refines_same)
    next
      case True
      with ing None obtain k' where i: "ingest_context_result ct gids (clock 1) (rs_id stored) accepted accepted_at db1 = Inr (db2, k')"
        by (auto simp: ingest_result_def)
      note sh = ingest_shape [OF res i, unfolded sc]
      have "x \<in> set (g_collections (w_plane db))" if "x \<in> set (g_collections (w_plane db2))" "k_operation_id x \<noteq> None" for x
        using that sh w rel' by (auto split: option.splits)
      then show ?thesis using sh w by (intro refines_loose) auto
    qed
    with db' show ?thesis by (simp add: work_refines_def)
  next
    case (Some q)
    from rel Some obtain kk where k: "k = Some kk" "k_operation_id kk = Some (o_id q)" "o_collection_id q = Some (k_id kk)"
        and q: "q \<in> set (g_operations (w_plane db))" "o_capability q = ''context.diagnostic.collect''" "cm_kind c = ''context.diagnostic.collect''"
      by (auto simp: related_def split: option.splits)
    have fl: "in_flight (o_status q)" using acc Some by (auto simp: accept_operation_result_def split: if_splits)
    have kind: "is_context_kind (cm_kind c)" by (simp add: q(3) is_context_kind_def)
    from ing Some k(1) kind obtain k' where i: "ingest_context_result ct gids (clock 1) (rs_id stored) accepted accepted_at db1 = Inr (db2, k')"
        and m: "outcome_matches (ar_status accepted) kk q k'"
      by (auto simp: ingest_result_def split: if_splits)
    note sh = ingest_shape [OF res i]
    from fin Some obtain q' where q': "same_identity q q'" "o_status q' = ar_status r"
        and wk: "work_of (w_plane db') = work_of (store_operation q' (finish_transport (ar_status r) c d (w_plane db2)))"
      using settle_shape by (fastforce simp: with_plane_def)
    have rows: "g_operations (w_plane db') = store_row o_id q' (g_operations (w_plane db))" "g_steps (w_plane db') = g_steps (w_plane db)"
        "g_collections (w_plane db') = g_collections (w_plane db2)"
      using wk work_of_eqD [OF finish_transport_frame, of "ar_status r" c d "w_plane db2"] sh w by (auto simp: work_of_def store_defs)
    have close: "closed_collection k'" "k_operation_id k' = Some (o_id q)" "k_id k' = k_id kk"
      using m by (auto simp: outcome_matches_def closed_collection_def split: if_splits)
    show ?thesis
    proof (rule settled_refines [OF inv q(1) fl _ q'(1)])
      show "distinct (map k_id (g_collections (w_plane db')))" by (rule plane_constraintsD(2) [OF c'])
      show "x = k' \<or> x \<in> set (g_collections (w_plane db))" if "x \<in> set (g_collections (w_plane db'))" for x
        using that rows(3) sh w by auto
    qed (use q(2) q'(2) t close k(3) sh rows in simp_all)
  qed
qed

lemma context_rejected_Inr [simp]: "context_rejected r = Inr x \<longleftrightarrow> r = Inr x"
  by (induction r rule: context_rejected.induct) auto

lemma record_result_Inr:
  assumes "record_result ct ids gids clock device instance sid n r db = Inr (db', ack)"
  shows "terminal_work (ar_status r) \<and> (\<exists>c i d. cm_id c = ar_command_id r \<and>
      ((\<exists>s p plane'. resolve_module_step_relation c (w_plane db) = Inr (Some (s, p))
         \<and> record_module_step_result ct ids (clock 0) c d s p i sid n r (result_payload_digest ct r) (w_plane db) = Inr plane'
         \<and> commit_plane plane' db = Inr db')
      \<or> context_result ct ids gids clock device instance sid n r c d i db = Inr db'))"
proof -
  from assms obtain g where g: "owned_session sid device instance (w_plane db) = Some g"
    by (auto simp: record_result_def Let_def split: if_splits option.splits)
  from assms g obtain i where i: "find (\<lambda>i. gi_id i = instance \<and> gi_device_id i = device) (g_instances (w_plane db)) = Some i"
    by (auto simp: record_result_def Let_def split: if_splits option.splits)
  from assms g i obtain c where c: "find (\<lambda>c. cm_id c = ar_command_id r \<and> cm_device_id c = device) (g_commands (w_plane db)) = Some c"
    by (auto simp: record_result_def Let_def split: if_splits option.splits)
  from assms g i c obtain rel where rel: "resolve_module_step_relation c (w_plane db) = Inr rel"
    by (auto simp: record_result_def Let_def split: if_splits)
  have t: "terminal_work (ar_status r)" "n \<ge> 0" "ar_device_id r = device" using assms by (auto simp: record_result_def split: if_splits)
  have cid: "cm_id c = ar_command_id r" using find_SomeD [OF c] by simp
  let ?d = "find (\<lambda>d. dl_command_id d = cm_id c) (g_deliveries (w_plane db))"
  have body: "(case rel of
        Some (s, p) \<Rightarrow> bindE (record_module_step_result ct ids (clock 0) c ?d s p i sid n r (result_payload_digest ct r) (w_plane db)) (\<lambda>plane'.
          commit_plane plane' db)
      | None \<Rightarrow> context_result ct ids gids clock device instance sid n r c ?d i db) = Inr db'"
    using assms g i c rel t by (simp add: record_result_def Let_def)
  show ?thesis
  proof (cases rel)
    case None
    with body have "context_result ct ids gids clock device instance sid n r c ?d i db = Inr db'" by simp
    with t(1) cid show ?thesis by blast
  next
    case (Some sp)
    obtain s p where "sp = (s, p)" by (cases sp)
    with Some body have "\<exists>plane'. record_module_step_result ct ids (clock 0) c ?d s p i sid n r (result_payload_digest ct r) (w_plane db) = Inr plane'
        \<and> commit_plane plane' db = Inr db'" by simp
    with rel Some \<open>sp = (s, p)\<close> t(1) cid show ?thesis by blast
  qed
qed

lemma context_result_refines:
  assumes ok: "work_ok (w_plane db)" and t: "terminal_work (ar_status r)"
    and run: "context_result ct ids gids clock device instance sid n r c d i db = Inr db'"
  shows "work_refines (w_plane db) (w_plane db') \<and> plane_constraints (w_plane db')"
proof -
  from run obtain k p db1 where rel: "resolve_command_context_relation c (w_plane db) = Inr (k, p)"
      and one: "(case find (\<lambda>x. rs_identifier x = result_identifier c) (g_results (w_plane db)) of
              None \<Rightarrow> first_result ct ids gids clock sid n r c d k p db
            | Some stored \<Rightarrow> repeated_result ct device instance n stored r c d k p db) = Inr db1"
      and com: "commit_gateway (with_plane (bump_sequence n i) db1) = Inr db'"
    by (auto simp: context_result_def)
  have db': "db' = with_plane (bump_sequence n i) db1" and c': "plane_constraints (w_plane db')"
    using com by (auto simp: commit_gateway_Inr)
  have "shared (bump_sequence n i (w_plane db1)) = shared (w_plane db1)"
    by (simp add: shared_def bump_sequence_def store_instance_def)
  from shared_frame(1) [OF this] have con1: "plane_constraints (w_plane db1)" using c' by (simp add: db' with_plane_def)
  have "work_refines (w_plane db) (w_plane db1)"
  proof (cases "find (\<lambda>x. rs_identifier x = result_identifier c) (g_results (w_plane db))")
    case None
    with one show ?thesis using first_result_refines [OF ok command_relation_Inr [OF rel] t _ con1] by simp
  next
    case (Some stored)
    with one have "work_of (w_plane db1) = work_of (w_plane db)"
      by (auto simp: repeated_result_def with_plane_def split: option.splits if_splits)
    then show ?thesis by (rule refines_same)
  qed
  then show ?thesis using c' by (simp add: db' with_plane_def work_refines_def)
qed

lemma record_result_refines:
  assumes ok: "work_ok (w_plane db)" and run: "record_result ct ids gids clock device instance sid n r db = Inr (db', ack)"
  shows "work_refines (w_plane db) (w_plane db') \<and> plane_constraints (w_plane db')"
  using record_result_Inr [OF run] module_result_refines [OF ok] context_result_refines [OF ok] commit_plane_Inr by metis

end
