(* ===== verification/Platform.thy ===== *)
theory Platform
  imports Gateway_Http Work_Results Module_Histories
begin

text \<open>
  The services over one database: any interleaving of operation requests, module requests, collection requests and
  gateway traffic over both transports, each call a transaction.
\<close>

section \<open>The pull transport\<close>

lemma or_raise_Inr [simp]: "or_raise r = Inr x \<longleftrightarrow> r = Inr x"
  by (cases r) (simp_all add: or_raise_def)

lemma unavailable_Inr [simp]: "unavailable_on_rejection r = Inr x \<longleftrightarrow> r = Inr x"
  by (auto simp: unavailable_on_rejection_def split: sum.splits)

lemma next_command_refines:
  assumes "work_ok (w_plane db)" "next_command ct ids clock device db = Inr (db', x)"
  shows "work_refines (w_plane db) (w_plane db') \<and> plane_constraints (w_plane db')"
  using assms(2) next_pending_refines [OF assms(1)] by (auto simp: next_command_def dest!: commit_plane_Inr)

lemma pull_relation_Inr:
  assumes "pull_relation c db = Inr k"
  shows "related c db k None"
  using assms by (auto simp: pull_relation_def dest!: command_relation_Inr split: if_splits)

lemma work_of_http_acked:
  "work_of (http_acked a c k db) = (case k of None \<Rightarrow> work_of db | Some k \<Rightarrow> work_of (store_collection (k\<lparr>k_status := CCollecting\<rparr>) db))"
  by (auto simp: http_acked_def Let_def work_of_def store_defs split: option.splits)

lemma acknowledge_refines:
  assumes ok: "work_ok (w_plane db)" and run: "acknowledge i device a db = Inr db'"
  shows "work_refines (w_plane db) (w_plane db') \<and> plane_constraints (w_plane db')"
proof -
  from run obtain c k where k: "pull_relation c (w_plane db) = Inr k" and com: "commit_plane (http_acked a c k (w_plane db)) db = Inr db'"
    by (auto simp: acknowledge_def split: option.splits if_splits)
  have "work_refines (w_plane db) (http_acked a c k (w_plane db))"
  proof (cases k)
    case None
    then show ?thesis by (intro refines_same) (simp add: work_of_http_acked)
  next
    case (Some x)
    with pull_relation_Inr [OF k] have "k_operation_id x = None" by (simp add: related_def)
    with Some show ?thesis by (intro refines_store_loose [of _ "x\<lparr>k_status := CCollecting\<rparr>"]) (simp_all add: work_of_http_acked)
  qed
  with commit_plane_Inr [OF com] show ?thesis by simp
qed

lemma submit_result_refines:
  assumes ok: "work_ok (w_plane db)" and run: "submit_result ct identity gids clock i device r db = Inr db'"
  shows "work_refines (w_plane db) (w_plane db') \<and> plane_constraints (w_plane db')"
proof (cases "db' = db")
  case True
  with ok show ?thesis by (simp add: refines_same work_ok_def)
next
  case False
  from run obtain c where c: "device_command i device (w_plane db) = Some c" by (auto simp: submit_result_def split: option.splits)
  from run c obtain k where k: "pull_relation c (w_plane db) = Inr k" by (auto simp: submit_result_def split: if_splits)
  from run c k False have "bindE (first_pulled_result ct identity gids clock c r db) commit_gateway = Inr db'"
    by (auto simp: submit_result_def commit_gateway_Inr split: option.splits if_splits)
  then have first: "first_pulled_result ct identity gids clock c r db = Inr db'" and c': "plane_constraints (w_plane db')"
    by (auto simp: commit_gateway_Inr)
  define stored where "stored = pulled_result ct identity c r"
  define db1 where "db1 = with_plane (\<lambda>plane. plane\<lparr>g_results := g_results plane @ [stored]\<rparr>) db"
  from first obtain db2 k' where com: "commit_gateway db1 = Inr db1"
      and i: "ingest_context_result ct gids clock identity r None db1 = Inr (db2, k')"
      and db': "db' = with_plane (store_command (c\<lparr>cm_status := ar_status r\<rparr>)) db2"
    by (auto simp: first_pulled_result_def db1_def stored_def commit_gateway_Inr)
  have "distinct (map rs_id (g_results (w_plane db1)))" "stored \<in> set (g_results (w_plane db1))"
    using com by (auto simp: commit_gateway_Inr plane_constraints_def commands_constraints_def db1_def with_plane_def)
  from find_row_key [OF this] have res: "find_row rs_id identity (g_results (w_plane db1)) = Some stored"
    by (simp add: stored_def pulled_result_def)
  have sc: "rs_command_id stored = cm_id c" by (simp add: stored_def pulled_result_def)
  have w: "g_operations (w_plane db1) = g_operations (w_plane db)" "g_collections (w_plane db1) = g_collections (w_plane db)"
      "g_steps (w_plane db1) = g_steps (w_plane db)"
    by (simp_all add: db1_def with_plane_def)
  note sh = ingest_shape [OF res i, unfolded sc w]
  have rel: "case find (\<lambda>k. k_command_id k = Some (cm_id c)) (g_collections (w_plane db)) of None \<Rightarrow> True | Some k \<Rightarrow> k_operation_id k = None"
    using pull_relation_Inr [OF k] by (auto simp: related_def)
  have "x \<in> set (g_collections (w_plane db))" if "x \<in> set (g_collections (w_plane db2))" "k_operation_id x \<noteq> None" for x
    using that sh rel by (auto split: option.splits)
  then have "work_refines (w_plane db) (w_plane db2)" using sh by (intro refines_loose) auto
  then show ?thesis using c' by (simp add: db' with_plane_def work_refines_def)
qed

section \<open>Calls\<close>

datatype platform_error =
    OperationFailed operation_error
  | ModuleFailed route_error
  | GatewayFailed gateway_error
  | HttpFailed http_error

datatype platform_call =
    OperationCall operation_request
  | ModuleCall module_request
  | RequestCollection uuid instant uuid string string string "moment option"
  | DeliverNext contracts delivery_ids "nat \<Rightarrow> instant" uuid uuid "string list option" "string option"
  | RecordAck uuid uuid agent_ack
  | RecordResult contracts result_ids ingest_ids "nat \<Rightarrow> instant" uuid uuid uuid int agent_result
  | PullCommand contracts delivery_ids "nat \<Rightarrow> instant" uuid
  | PullAck uuid uuid agent_ack
  | PullResult contracts uuid ingest_ids instant uuid uuid agent_result

definition on_plane :: "('e \<Rightarrow> platform_error) \<Rightarrow> (plane_db \<Rightarrow> 'e + plane_db) \<Rightarrow> gateway_db \<Rightarrow> platform_error + gateway_db" where
  "on_plane failed run db = map_sum failed (\<lambda>plane. db\<lparr>w_plane := plane\<rparr>) (run (w_plane db))"

fun platform_exec :: "platform_call \<Rightarrow> gateway_db \<Rightarrow> platform_error + gateway_db" where
  "platform_exec (OperationCall c) db = on_plane OperationFailed (operation_exec c) db"
| "platform_exec (ModuleCall c) db = on_plane ModuleFailed (module_exec c) db"
| "platform_exec (RequestCollection i clock device profile who key now) db =
     on_plane GatewayFailed (\<lambda>plane. without_answer (request_collection_outcome i clock device profile who key now plane)) db"
| "platform_exec (DeliverNext ct ids clock device sid caps platform) db =
     map_sum GatewayFailed fst (deliver_next ct ids clock device sid caps platform db)"
| "platform_exec (RecordAck device sid a) db = map_sum GatewayFailed (\<lambda>x. x) (record_command_ack device sid a db)"
| "platform_exec (RecordResult ct ids gids clock device inst sid n r) db =
     map_sum GatewayFailed fst (record_result ct ids gids clock device inst sid n r db)"
| "platform_exec (PullCommand ct ids clock device) db = map_sum HttpFailed fst (next_command ct ids clock device db)"
| "platform_exec (PullAck i device a) db = map_sum HttpFailed (\<lambda>x. x) (acknowledge i device a db)"
| "platform_exec (PullResult ct identity gids clock i device r) db =
     map_sum HttpFailed (\<lambda>x. x) (submit_result ct identity gids clock i device r db)"

lemma map_sum_Inr [simp]: "map_sum f g r = Inr y \<longleftrightarrow> (\<exists>x. r = Inr x \<and> y = g x)"
  by (cases r) auto

lemma request_collection_refines:
  assumes "work_ok db" "request_collection_outcome i clock device profile who key now db = Inr (db', k, fresh)"
  shows "work_refines db db' \<and> plane_constraints db'"
proof (cases "db' = db")
  case True
  with assms(1) show ?thesis by (simp add: refines_same work_ok_def)
next
  case False
  with assms(2) obtain k where "db' = db\<lparr>g_collections := g_collections db @ [k]\<rparr>" "k_operation_id k = None" "plane_constraints db'"
    by (auto simp: request_collection_outcome_def requested_collection_def Let_def split: option.splits if_splits)
  then show ?thesis by (auto intro!: refines_loose)
qed

theorem platform_refines:
  assumes ok: "work_ok (w_plane db)" and run: "platform_exec c db = Inr db'"
  shows "work_refines (w_plane db) (w_plane db') \<and> plane_constraints (w_plane db')"
proof (cases c)
  case (OperationCall x)
  with run operation_exec_refines [OF ok] show ?thesis by (auto simp: on_plane_def)
next
  case (ModuleCall x)
  with run module_exec_refines [OF ok] show ?thesis by (auto simp: on_plane_def)
next
  case (RequestCollection i clock device profile who key now)
  with run request_collection_refines [OF ok] show ?thesis by (auto simp: on_plane_def)
next
  case (DeliverNext ct ids clock device sid caps platform)
  with run deliver_next_refines [OF ok] show ?thesis by auto
next
  case (RecordAck device sid a)
  with run record_ack_refines [OF ok] show ?thesis by auto
next
  case (RecordResult ct ids gids clock device inst sid n r)
  with run record_result_refines [OF ok] show ?thesis by auto
next
  case (PullCommand ct ids clock device)
  with run next_command_refines [OF ok] show ?thesis by auto
next
  case (PullAck i device a)
  with run acknowledge_refines [OF ok] show ?thesis by auto
next
  case (PullResult ct identity gids clock i device r)
  with run submit_result_refines [OF ok] show ?thesis by auto
qed

section \<open>The platform as a transactional service\<close>

definition platform_inv :: "gateway_db \<Rightarrow> bool" where
  "platform_inv db \<longleftrightarrow> work_ok (w_plane db)"

definition platform_le :: "gateway_db \<Rightarrow> gateway_db \<Rightarrow> bool" where
  "platform_le db db' \<longleftrightarrow> work_refines (w_plane db) (w_plane db')"

interpretation platform: transactional_trail platform_exec platform_inv platform_le
proof unfold_locales
  fix db c db'
  assume inv: "platform_inv db" and run: "platform_exec c db = Inr db'"
  have ok: "work_ok (w_plane db)" using inv by (simp add: platform_inv_def)
  note step = platform_refines [OF ok run]
  show "platform_inv db'" using step ok refines_inv by (auto simp: platform_inv_def work_ok_def)
  show "platform_le db db'" using step by (simp add: platform_le_def)
next
  show "platform_le db db" for db by (simp add: platform_le_def refines_same)
  show "platform_le db db1 \<Longrightarrow> platform_le db1 db2 \<Longrightarrow> platform_le db db2" for db db1 db2
    unfolding platform_le_def by (rule refines_trans)
qed

end
