(* ===== verification/Platform_Scenario.thy ===== *)
theory Platform_Scenario
  imports Platform Module_Properties Operation_Properties
begin

text \<open>A small installation for the witnesses: one client, one device with an open session, one published module.\<close>

definition plain_contracts :: contracts where
  "plain_contracts = \<lparr>
     ct_envelope = (\<lambda>_. None),
     ct_diagnostic = (\<lambda>_. None),
     ct_diagnostic_document = (\<lambda>_. JNull),
     ct_diagnostic_reason = (\<lambda>j. case map_of (mapping_of j) ''reason'' of Some (JStr s) \<Rightarrow> Some s | _ \<Rightarrow> None),
     ct_diagnostic_result = (\<lambda>_ _. None),
     ct_module_result = (\<lambda>_ item. Some \<lparr>mr_status = Succeeded, mr_error_code = None, mr_document = item\<rparr>),
     ct_result_document = (\<lambda>r. JList (ar_items r)),
     ct_digest = (\<lambda>_. ''00''),
     ct_container_text = (\<lambda>_. ''''),
     ct_unsafe_text = (\<lambda>_ _. False),
     ct_rendered = (\<lambda>_. Some 100)\<rparr>"

definition pair_recipe :: recipe_spec where
  "pair_recipe = ping_recipe\<lparr>rc_steps := [ping_step, ping_step\<lparr>rp_step_id := ''again''\<rparr>]\<rparr>"

definition pair_version :: module_version where
  "pair_version = ping_version\<lparr>mv_recipe := recipe_json pair_recipe\<rparr>"

definition site_plane :: plane_db where
  "site_plane = \<lparr>g_clients = [demo_client], g_devices = [\<lparr>dv_id = 9, dv_retired_at = None\<rparr>], g_operations = [], g_collections = [],
     g_steps = [], g_commands = [], g_deliveries = [], g_results = [],
     g_sessions = [\<lparr>gs_id = 50, gs_device_id = 9, gs_instance_id = 60, gs_closed_at = None\<rparr>],
     g_instances = [\<lparr>gi_id = 60, gi_device_id = 9, gi_last_result_sequence = 0\<rparr>], g_evidence = [],
     g_definitions = [\<lparr>md_id = 20, md_module_key = ''net.check'', md_display_name = ''Check''\<rparr>], g_versions = [pair_version],
     g_validation_runs = [], g_live_tests = [], g_audits = []\<rparr>"

definition site :: gateway_db where
  "site = \<lparr>w_plane = site_plane, w_snapshots = [], w_currents = [], w_diffs = [], w_events = []\<rparr>"

definition ask_module :: platform_call where
  "ask_module = ModuleCall (CreateModuleOperation (\<lambda>n. 100 + n) 1000 (Some 7) (Some 9) ''net.check'' ''1.0.0'' ping_inputs ''module-key-1''
     sample_policy ''published'' (Some (Aware 1000)))"

definition ask_diagnostic :: platform_call where
  "ask_diagnostic = OperationCall (CreateOperation (\<lambda>n. 200 + n) 2000
     \<lparr>oc_capability = ''context.diagnostic.collect'', oc_reason = ''check''\<rparr> (Some 7) (Some 9) ''diagnostic-1'' (Some (Aware 2000)))"

definition deliver :: "nat \<Rightarrow> platform_call" where
  "deliver i = DeliverNext plain_contracts \<lparr>di_command = i, di_delivery = i + 1\<rparr> (\<lambda>_. 3000) 9 50 None None"

definition answer :: "work_status \<Rightarrow> uuid \<Rightarrow> json list \<Rightarrow> agent_result" where
  "answer status i items = \<lparr>ar_command_id = i, ar_device_id = 9, ar_status = status, ar_items = items, ar_message = None, ar_completed_at = 3500\<rparr>"

definition ingest_sample :: ingest_ids where
  "ingest_sample = \<lparr>ig_collection = 401, ig_snapshot = 402, ig_current = 403, ig_diff = 404, ig_event = (\<lambda>n. 410 + n)\<rparr>"

definition report :: "nat \<Rightarrow> agent_result \<Rightarrow> platform_call" where
  "report i r = RecordResult plain_contracts \<lparr>ri_result = i, ri_evidence = i + 1\<rparr> ingest_sample (\<lambda>_. 4000) 9 60 50 (int i) r"

text \<open>A diagnostic operation fails; a module operation of two steps is left with its second step in flight.\<close>

definition diagnostic_history :: "platform_call list" where
  "diagnostic_history = [ask_diagnostic, deliver 320, report 330 (answer Failed 320 [])]"

definition module_history :: "platform_call list" where
  "module_history = [ask_module, deliver 300, report 310 (answer Succeeded 300 [JObj []]), deliver 340]"

definition work_statuses :: "gateway_db \<Rightarrow> work_status list \<times> collection_status list \<times> (uuid \<times> int \<times> work_status) list" where
  "work_statuses db = (map o_status (g_operations (w_plane db)), map k_status (g_collections (w_plane db)), map (\<lambda>s. (s_operation_id s, s_sequence s, s_status s)) (g_steps (w_plane db)))"

lemma site_constraints: "plane_constraints site_plane"
  by code_simp

lemma module_statuses: "work_statuses (serve platform_exec module_history site) = ([Delivered], [], [(100, 0, Succeeded), (100, 1, Delivered)])"
  by code_simp

lemma diagnostic_statuses: "work_statuses (serve platform_exec diagnostic_history site) = ([Failed], [CFailed], [])"
  by code_simp

end
