(* ===== verification/Platform_Properties.thy ===== *)
theory Platform_Properties
  imports Platform_Scenario
begin

text \<open>The properties of the platform as a whole, over any interleaving of its services.\<close>

section \<open>The ledger of work\<close>

definition no_work :: "gateway_db \<Rightarrow> bool" where
  "no_work db \<longleftrightarrow> plane_constraints (w_plane db) \<and> g_operations (w_plane db) = [] \<and> g_steps (w_plane db) = []"

lemma no_work_inv: "no_work db \<Longrightarrow> platform_inv db"
  by (simp add: no_work_def platform_inv_def work_ok_def work_of_def paired_def in_order_def complete_def)

lemma platform_served:
  assumes "no_work db"
  shows "work_inv (work_of (w_plane (serve platform_exec cs db)))"
  using platform.serve_inv [OF no_work_inv [OF assms], of cs] by (simp add: platform_inv_def work_ok_def)

text \<open>C29. Whatever the services and the gateway have served since there was no work, over both transports and in any
  order, the tables of operations, collections and steps are reached by steps of the ledger of work: an operation and its collection
  are closed together, and an ended operation is never changed again.\<close>

theorem platform_work_consistent:
  assumes "no_work db"
  shows "work_step\<^sup>*\<^sup>* (work_of (w_plane db)) (work_of (w_plane (serve platform_exec cs db)))
    \<and> (\<forall>p\<in>set (g_operations (w_plane (serve platform_exec cs db))).
         (\<forall>k\<in>set (g_collections (w_plane (serve platform_exec cs db))).
            k_operation_id k = Some (o_id p) \<longrightarrow> terminal_work (o_status p) = closed_collection k)
         \<and> (terminal_work (o_status p) \<longrightarrow> p \<in> set (g_operations (w_plane (serve platform_exec (cs @ ds) db)))))"
proof -
  let ?db = "serve platform_exec cs db"
  have inv: "platform_inv ?db" by (rule platform.serve_inv [OF no_work_inv [OF assms]])
  have "work_step\<^sup>*\<^sup>* (work_of (w_plane db)) (work_of (w_plane ?db))"
    using platform.serve_le [OF no_work_inv [OF assms], of cs] by (simp add: platform_le_def work_refines_def)
  moreover have "work_le (work_of (w_plane ?db)) (work_of (w_plane (serve platform_exec (cs @ ds) db)))"
    using platform.serve_le [OF inv, of ds] refines_le [OF _ platform_served [OF assms]] by (simp add: platform_le_def serve_append)
  then have "p \<in> set (g_operations (w_plane (serve platform_exec (cs @ ds) db)))"
    if "p \<in> set (g_operations (w_plane ?db))" "terminal_work (o_status p)" for p
    using that by (auto simp: work_of_def operations_le_def simp del: terminal_work.simps)
  ultimately show ?thesis using pairedD(1) [OF platform_served [OF assms]] by blast
qed

lemma site_no_work: "no_work site"
  using site_constraints by (simp add: no_work_def site_def) (simp add: site_plane_def)

theorem platform_work_consistent_witness:
  "no_work site
   \<and> work_step\<^sup>*\<^sup>* (work_of site_plane) (work_of (w_plane (serve platform_exec diagnostic_history site)))
   \<and> work_statuses (serve platform_exec diagnostic_history site) = ([Failed], [CFailed], [])"
  using platform_work_consistent [OF site_no_work, of diagnostic_history "[]"] site_no_work diagnostic_statuses by (simp add: site_def)

text \<open>C30. Module steps run in order and one at a time: after any history a step that was sent to the device, or has succeeded, has
  only succeeded steps before it, no two steps of an operation are in flight together, and a module operation that succeeded has only
  succeeded steps.\<close>

theorem module_steps_in_order:
  assumes "no_work db" and s: "s \<in> set (g_steps (w_plane (serve platform_exec cs db)))"
    and t: "t \<in> set (g_steps (w_plane (serve platform_exec cs db)))" "s_operation_id t = s_operation_id s"
  shows "(in_flight (s_status t) \<or> s_status t = Succeeded \<longrightarrow> s_sequence s < s_sequence t \<longrightarrow> s_status s = Succeeded)
    \<and> (in_flight (s_status s) \<and> in_flight (s_status t) \<longrightarrow> s = t)
    \<and> (p \<in> set (g_operations (w_plane (serve platform_exec cs db))) \<and> o_id p = s_operation_id s
        \<and> o_capability p = ''endpoint.module.recipe'' \<and> o_status p = Succeeded \<longrightarrow> s_status s = Succeeded)"
proof -
  let ?db = "w_plane (serve platform_exec cs db)"
  have inv: "work_inv (work_of ?db)" by (rule platform_served [OF assms(1)])
  have order: "s_status a = Succeeded"
    if "a \<in> set (g_steps ?db)" "b \<in> set (g_steps ?db)" "s_operation_id a = s_operation_id b" "in_flight (s_status b) \<or> s_status b = Succeeded"
      "s_sequence a < s_sequence b" for a b
  proof -
    have "begun (s_status b)" using that(4) in_flight_begun by (auto simp: begun_def)
    then have "earlier_succeeded (g_steps ?db) b" using work_invD(4) [OF inv] that(2) by (simp add: in_order_def)
    then show ?thesis using that by (simp add: earlier_succeeded_def)
  qed
  have "distinct (map (\<lambda>s. (s_operation_id s, s_sequence s)) (g_steps ?db))"
    using platform.serve_inv [OF no_work_inv [OF assms(1)], of cs]
    by (simp add: platform_inv_def work_ok_def plane_constraints_def steps_constraints_def)
  from distinct_map_inj [OF this s t(1)] t(2) have same: "s_sequence s = s_sequence t \<Longrightarrow> s = t" by simp
  have "s = t" if "in_flight (s_status s)" "in_flight (s_status t)"
  proof (rule ccontr)
    assume "s \<noteq> t"
    then have "s_sequence s < s_sequence t \<or> s_sequence t < s_sequence s" using same by force
    then have "s_status s = Succeeded \<or> s_status t = Succeeded" using order [of s t] order [of t s] s t that by auto
    with that show False by (auto simp: in_flight_def)
  qed
  moreover have "s_status s = Succeeded"
    if "p \<in> set (g_operations ?db)" "o_id p = s_operation_id s" "o_capability p = ''endpoint.module.recipe''" "o_status p = Succeeded"
    using work_invD(5) [OF inv] that s by (auto simp: complete_def steps_succeeded_def)
  ultimately show ?thesis using order [OF s t(1)] t(2) by auto
qed

theorem module_steps_in_order_witness:
  "\<exists>s t. g_steps (w_plane (serve platform_exec module_history site)) = [s, t] \<and> s_operation_id t = s_operation_id s
     \<and> s_sequence s < s_sequence t \<and> in_flight (s_status t) \<and> s_status s = Succeeded"
proof -
  define steps where "steps = g_steps (w_plane (serve platform_exec module_history site))"
  have "map (\<lambda>s. (s_operation_id s, s_sequence s, s_status s)) steps = [(100, 0, Succeeded), (100, 1, Delivered)]"
    using module_statuses by (simp add: work_statuses_def steps_def)
  then obtain s t where st: "steps = [s, t]" "s_operation_id t = s_operation_id s" "s_sequence s < s_sequence t" "in_flight (s_status t)"
    by (auto simp: map_eq_Cons_conv in_flight_def)
  have "s \<in> set steps" "t \<in> set steps" using st(1) by simp_all
  from module_steps_in_order [OF site_no_work this [unfolded steps_def] st(2)] st show ?thesis
    unfolding steps_def [symmetric] by (intro exI [of _ s] exI [of _ t]) simp
qed

section \<open>Results\<close>

text \<open>What a repeated result may change: the last sequence of the agent's instance and a sequence a result did not have.\<close>

definition only_sequences :: "gateway_db \<Rightarrow> gateway_db \<Rightarrow> bool" where
  "only_sequences db db' \<longleftrightarrow>
     (\<exists>results instances. db' = db\<lparr>w_plane := (w_plane db)\<lparr>g_results := results, g_instances := instances\<rparr>\<rparr>
        \<and> map (\<lambda>x. x\<lparr>rs_sequence := None\<rparr>) results = map (\<lambda>x. x\<lparr>rs_sequence := None\<rparr>) (g_results (w_plane db)))"

definition result_stored :: "uuid \<Rightarrow> gateway_db \<Rightarrow> bool" where
  "result_stored i db \<longleftrightarrow> (\<exists>x\<in>set (g_results (w_plane db)). rs_identifier x = ''result-'' @ uuid_hex i)"

lemma result_stored_find:
  "result_stored (cm_id c) db \<longleftrightarrow> find (\<lambda>x. rs_identifier x = result_identifier c) (g_results (w_plane db)) \<noteq> None"
  unfolding result_stored_def result_identifier_def find_None_iff by blast

lemma current_collection_results: "current_collection i clock c res profile db = Inr (db', k) \<Longrightarrow> g_results db' = g_results db"
  by (auto simp: current_collection_def Let_def split: option.splits if_splits)

lemma store_collection_results [simp]: "g_results (store_collection k db) = g_results db"
  by (simp add: store_collection_def)

lemma ingest_success_results: "ingest_success ct ids at c k e raw db = Inr (db', k') \<Longrightarrow> g_results (w_plane db') = g_results (w_plane db)"
  by (auto dest!: ingest_success_shape)

lemma ingest_results:
  assumes "ingest_context_result ct ids clock i r now db = Inr (db', k')"
  shows "g_results (w_plane db') = g_results (w_plane db)"
proof -
  from assms obtain res where res: "find_row rs_id i (g_results (w_plane db)) = Some res"
    by (auto simp: ingest_context_result_def split: option.splits)
  from assms res obtain c where c: "find_row cm_id (rs_command_id res) (g_commands (w_plane db)) = Some c"
    by (auto simp: ingest_context_result_def split: option.splits)
  from assms res c obtain envelope profile plane k where prof: "result_profile ct c r = Inr (envelope, profile)"
      and cur: "current_collection (ig_collection ids) clock c res profile (w_plane db) = Inr (plane, k)"
    by (auto simp: ingest_context_result_def split: if_splits)
  have "g_results (w_plane db') = g_results plane"
    using assms res c prof cur
    by (auto simp: ingest_context_result_def Let_def ingest_failure_def commit_gateway_Inr with_plane_def
        split: if_splits option.splits dest: ingest_success_results)
  with current_collection_results [OF cur] show ?thesis by simp
qed

lemma settle_results: "settle_operation ct i at status ingested p db = Inr db' \<Longrightarrow> g_results (w_plane db') = g_results (w_plane db)"
  by (auto simp: settle_operation_def Let_def append_operation_terminal_audit_def create_operation_evidence_def store_operation_def
      dest!: append_operation_audit_Inr split: if_splits)

lemma first_result_results:
  assumes "first_result ct ids gids clock sid n r c d k p db = Inr db'"
  shows "\<exists>x. g_results (w_plane db') = g_results (w_plane db) @ [x] \<and> rs_identifier x = result_identifier c"
proof -
  from assms obtain accepted at where
      acc: "(case p of None \<Rightarrow> Inr (r, None)
            | Some p \<Rightarrow> bindE (accept_operation_result ct (clock 0) sid c d p r) (\<lambda>safe. Inr (safe, Some (clock 0)))) = Inr (accepted, at)"
    by (auto simp: first_result_def)
  define stored where "stored = new_result (ri_result ids) c (map_option dl_id d) (ar_status r) (ar_completed_at accepted) n (result_payload_digest ct r)"
  define db1 where "db1 = with_plane (\<lambda>plane. plane\<lparr>g_results := g_results plane @ [stored]\<rparr>) db"
  from assms acc obtain db2 ingested where ing: "ingest_result ct gids (clock 1) (rs_id stored) accepted at c k p db1 = Inr (db2, ingested)"
      and fin: "(case p of None \<Rightarrow> Inr (with_plane (finish_transport (ar_status r) c d) db2)
              | Some p \<Rightarrow> settle_operation ct (ri_evidence ids) (clock 0) (ar_status r) ingested p (with_plane (finish_transport (ar_status r) c d) db2)) = Inr db'"
    by (auto simp: first_result_def stored_def [symmetric] db1_def [symmetric] Let_def commit_gateway_Inr)
  have "g_results (w_plane db2) = g_results (w_plane db1)"
    using ing by (cases p; cases k) (auto simp: ingest_result_def split: if_splits dest: ingest_results)
  moreover have "g_results (finish_transport (ar_status r) c d plane) = g_results plane" for plane
    by (simp add: finish_transport_def Let_def store_defs split: option.splits)
  then have "g_results (w_plane db') = g_results (w_plane db2)"
    using fin by (cases p) (auto simp: with_plane_def dest: settle_results)
  ultimately have "g_results (w_plane db') = g_results (w_plane db) @ [stored]" by (simp add: db1_def with_plane_def)
  then show ?thesis by (simp add: stored_def new_result_def)
qed

lemma finish_parent_results: "finish_parent ct ids n r code at p s db = Inr db' \<Longrightarrow> g_results db' = g_results db"
  by (auto simp: finish_parent_def Let_def create_operation_evidence_def append_module_terminal_audit_def store_operation_def split: if_splits)

lemma module_result_stored:
  assumes "record_module_step_result ct ids at c d s p i sid n r digest db = Inr db'"
  shows "\<exists>x\<in>set (g_results db'). rs_identifier x = result_identifier c"
proof (cases "find (\<lambda>x. rs_identifier x = result_identifier c) (g_results db)")
  case (Some x)
  with assms have "g_results db' = g_results db"
    by (auto simp: record_module_step_result_def bump_sequence_def store_instance_def split: option.splits if_splits)
  with find_SomeD [OF Some] show ?thesis by auto
next
  case None
  with assms obtain expected safe code dv db2 where
      "finish_parent ct ids expected r code at p (finished_step r safe code at s)
          (store_step (finished_step r safe code at s) (store_delivery (dv\<lparr>dl_status := ar_status r\<rparr>) (store_command (c\<lparr>cm_status := ar_status r\<rparr>)
            (db\<lparr>g_results := g_results db @ [new_result (ri_result ids) c (Some (dl_id dv)) (ar_status r) at n digest]\<rparr>)))) = Inr db2"
      "db' = bump_sequence n i db2"
    by (cases d) (auto simp: record_module_step_result_def Let_def split: if_splits)
  from finish_parent_results [OF this(1)] this(2) show ?thesis
    by (simp add: bump_sequence_def store_instance_def store_defs new_result_def)
qed

lemma module_result_repeated:
  assumes "record_module_step_result ct ids at c d s p i sid n r digest db = Inr db'"
    and "find (\<lambda>x. rs_identifier x = result_identifier c) (g_results db) = Some x"
  shows "\<exists>instances. db' = db\<lparr>g_instances := instances\<rparr>"
  using assms by (auto simp: record_module_step_result_def bump_sequence_def store_instance_def split: option.splits if_splits)

lemma record_result_stored:
  assumes "record_result ct ids gids clock device inst sid n r db = Inr (db', ack)"
  shows "result_stored (ar_command_id r) db' \<and> plane_constraints (w_plane db')"
proof -
  from record_result_Inr [OF assms] obtain c i d where id: "cm_id c = ar_command_id r" and run:
      "(\<exists>s p plane'. record_module_step_result ct ids (clock 0) c d s p i sid n r (result_payload_digest ct r) (w_plane db) = Inr plane'
         \<and> commit_plane plane' db = Inr db')
      \<or> context_result ct ids gids clock device inst sid n r c d i db = Inr db'" by blast
  have "(\<exists>x\<in>set (g_results (w_plane db')). rs_identifier x = result_identifier c) \<and> plane_constraints (w_plane db')"
    using run
  proof
    assume "\<exists>s p plane'. record_module_step_result ct ids (clock 0) c d s p i sid n r (result_payload_digest ct r) (w_plane db) = Inr plane'
         \<and> commit_plane plane' db = Inr db'"
    then show ?thesis using module_result_stored commit_plane_Inr by metis
  next
    assume "context_result ct ids gids clock device inst sid n r c d i db = Inr db'"
    then obtain k p db1 where one: "(case find (\<lambda>x. rs_identifier x = result_identifier c) (g_results (w_plane db)) of
              None \<Rightarrow> first_result ct ids gids clock sid n r c d k p db
            | Some stored \<Rightarrow> repeated_result ct device inst n stored r c d k p db) = Inr db1"
        and db': "db' = with_plane (bump_sequence n i) db1" "plane_constraints (w_plane db')"
      by (auto simp: context_result_def commit_gateway_Inr)
    have "\<exists>x\<in>set (g_results (w_plane db1)). rs_identifier x = result_identifier c"
    proof (cases "find (\<lambda>x. rs_identifier x = result_identifier c) (g_results (w_plane db))")
      case None
      with one show ?thesis using first_result_results by fastforce
    next
      case (Some x)
      with one have "db1 = db \<or> w_plane db1 = store_result (x\<lparr>rs_sequence := Some n\<rparr>) (w_plane db)"
        by (auto simp: repeated_result_def with_plane_def split: option.splits if_splits)
      then have "x \<in> set (g_results (w_plane db1)) \<or> x\<lparr>rs_sequence := Some n\<rparr> \<in> set (g_results (w_plane db1))"
        using find_SomeD [OF Some] by (auto simp: store_result_def in_set_store_row)
      with find_SomeD [OF Some] show ?thesis by (metis command_result.select_convs(4) command_result.update_convs(7) command_result.surjective)
    qed
    with db' show ?thesis by (simp add: with_plane_def bump_sequence_def store_instance_def)
  qed
  then show ?thesis by (auto simp: result_stored_def result_identifier_def id)
qed

lemma sequence_only:
  assumes "distinct (map rs_id rows)" "x \<in> set rows"
  shows "map (\<lambda>y. y\<lparr>rs_sequence := None\<rparr>) (store_row rs_id (x\<lparr>rs_sequence := n\<rparr>) rows) = map (\<lambda>y. y\<lparr>rs_sequence := None\<rparr>) rows"
  using distinct_map_inj [OF assms(1) _ assms(2)] by (auto simp: store_row_def)

lemma context_result_repeated:
  assumes c: "plane_constraints (w_plane db)" and x: "find (\<lambda>x. rs_identifier x = result_identifier c) (g_results (w_plane db)) = Some x"
    and run: "context_result ct ids gids clock device inst sid n r c d i db = Inr db'"
  shows "only_sequences db db'"
proof -
  have d: "distinct (map rs_id (g_results (w_plane db)))" using c by (simp add: plane_constraints_def commands_constraints_def)
  from run x obtain k p db1 where one: "repeated_result ct device inst n x r c d k p db = Inr db1"
      and db': "db' = with_plane (bump_sequence n i) db1"
    by (auto simp: context_result_def commit_gateway_Inr)
  have "db1 = db \<or> db1 = db\<lparr>w_plane := (w_plane db)\<lparr>g_results := store_row rs_id (x\<lparr>rs_sequence := Some n\<rparr>) (g_results (w_plane db))\<rparr>\<rparr>"
    using one by (auto simp: repeated_result_def with_plane_def store_result_def split: option.splits if_splits)
  then obtain results where db1: "db1 = db\<lparr>w_plane := (w_plane db)\<lparr>g_results := results\<rparr>\<rparr>"
      and res: "map (\<lambda>y. y\<lparr>rs_sequence := None\<rparr>) results = map (\<lambda>y. y\<lparr>rs_sequence := None\<rparr>) (g_results (w_plane db))"
  proof
    assume "db1 = db"
    then have "db1 = db\<lparr>w_plane := (w_plane db)\<lparr>g_results := g_results (w_plane db)\<rparr>\<rparr>" by simp
    then show ?thesis using that by blast
  next
    assume "db1 = db\<lparr>w_plane := (w_plane db)\<lparr>g_results := store_row rs_id (x\<lparr>rs_sequence := Some n\<rparr>) (g_results (w_plane db))\<rparr>\<rparr>"
    then show ?thesis using that sequence_only [OF d, of x] find_SomeD [OF x] by blast
  qed
  have "\<exists>instances. db' = db\<lparr>w_plane := (w_plane db)\<lparr>g_results := results, g_instances := instances\<rparr>\<rparr>"
    unfolding db' db1 with_plane_def bump_sequence_def store_instance_def by simp blast
  with res show ?thesis unfolding only_sequences_def by blast
qed

text \<open>C31. The first result of a command is stored with its effects; another result for the same command, with any payload and from any
  session, is rejected or changes nothing but sequence numbers: no snapshot, collection, operation, step, evidence or audit event.\<close>

theorem result_applied_once:
  assumes first: "record_result ct ids gids clock device inst sid n r db = Inr (db1, ack)"
    and again: "record_result ct' ids' gids' clock' device' inst' sid' n' r' db1 = Inr (db2, ack')" and same: "ar_command_id r' = ar_command_id r"
  shows "result_stored (ar_command_id r) db1 \<and> only_sequences db1 db2"
proof -
  have st: "result_stored (ar_command_id r) db1" and con: "plane_constraints (w_plane db1)"
    using record_result_stored [OF first] by simp_all
  from record_result_Inr [OF again] obtain c i d where id: "cm_id c = ar_command_id r'" and run:
      "(\<exists>s p plane'. record_module_step_result ct' ids' (clock' 0) c d s p i sid' n' r' (result_payload_digest ct' r') (w_plane db1) = Inr plane'
         \<and> commit_plane plane' db1 = Inr db2)
      \<or> context_result ct' ids' gids' clock' device' inst' sid' n' r' c d i db1 = Inr db2" by blast
  from st id same obtain x where x: "find (\<lambda>x. rs_identifier x = result_identifier c) (g_results (w_plane db1)) = Some x"
    using result_stored_find [of c db1] by auto
  from run have "only_sequences db1 db2"
  proof
    assume "\<exists>s p plane'. record_module_step_result ct' ids' (clock' 0) c d s p i sid' n' r' (result_payload_digest ct' r') (w_plane db1) = Inr plane'
         \<and> commit_plane plane' db1 = Inr db2"
    then obtain instances where "commit_plane ((w_plane db1)\<lparr>g_instances := instances\<rparr>) db1 = Inr db2"
      using module_result_repeated [OF _ x] by metis
    then have "db2 = db1\<lparr>w_plane := (w_plane db1)\<lparr>g_results := g_results (w_plane db1), g_instances := instances\<rparr>\<rparr>"
      by (simp add: commit_plane_def commit_gateway_Inr)
    then show ?thesis unfolding only_sequences_def by blast
  next
    assume "context_result ct' ids' gids' clock' device' inst' sid' n' r' c d i db1 = Inr db2"
    then show ?thesis by (rule context_result_repeated [OF con x])
  qed
  with st show ?thesis by simp
qed

definition failed_report :: "nat \<Rightarrow> int \<Rightarrow> gateway_db \<Rightarrow> gateway_error + (gateway_db \<times> result_ack)" where
  "failed_report i n db = record_result plain_contracts \<lparr>ri_result = i, ri_evidence = i + 1\<rparr> ingest_sample (\<lambda>_. 4000) 9 60 50 n (answer Failed 320 []) db"

definition delivered_site :: gateway_db where
  "delivered_site = serve platform_exec [ask_diagnostic, deliver 320] site"

lemma reported_twice:
  "case failed_report 330 1 delivered_site of Inl _ \<Rightarrow> False | Inr (db1, _) \<Rightarrow> \<not> isl (failed_report 331 2 db1)"
  by code_simp

theorem result_applied_once_witness:
  "\<exists>db1 ack db2 ack'. failed_report 330 1 delivered_site = Inr (db1, ack) \<and> failed_report 331 2 db1 = Inr (db2, ack') \<and> only_sequences db1 db2"
proof -
  obtain db1 ack where one: "failed_report 330 1 delivered_site = Inr (db1, ack)"
    using reported_twice by (cases "failed_report 330 1 delivered_site") auto
  then obtain db2 ack' where two: "failed_report 331 2 db1 = Inr (db2, ack')"
    using reported_twice by (cases "failed_report 331 2 db1") auto
  from result_applied_once [OF one [unfolded failed_report_def] two [unfolded failed_report_def]] one two show ?thesis by blast
qed

section \<open>A version that is no longer published\<close>

lemma expire_overdue_frame:
  assumes "expire_overdue_collections d at profile db = Inr db'"
  shows "g_operations db' = g_operations db \<and> g_versions db' = g_versions db"
proof -
  have "g_operations (fold (expire_overdue_collection d at) ks x) = g_operations x
      \<and> g_versions (fold (expire_overdue_collection d at) ks x) = g_versions x" for ks x
  proof (induction ks arbitrary: x)
    case (Cons k ks)
    have "g_operations (expire_overdue_collection d at k x) = g_operations x \<and> g_versions (expire_overdue_collection d at k x) = g_versions x"
      by (simp add: expire_overdue_collection_def expire_collection_transport_def expire_open_delivery_def store_defs split: option.splits)
    with Cons show ?case by simp
  qed simp
  then show ?thesis using assms by (auto simp: expire_overdue_collections_def)
qed

text \<open>C32. While the oldest open module operation of a device names a version that has left the published state, the gateway delivers
  nothing to the device: every attempt is rejected, before and after the operation's deadline, and leaves the tables as they were.\<close>

theorem stale_version_blocks_delivery:
  assumes oldest: "module_parents device (w_plane db) = p # ps"
    and p: "o_module_version_id p = Some i" "o_module_inputs p \<noteq> None" "execution_mode (o_parameters p) = JStr ''published''"
    and v: "find_row mv_id i (g_versions (w_plane db)) = Some v" "mv_state v \<noteq> ''published''"
  shows "deliver_next ct ids clock device sid caps platform db \<in> {Inl CommandStateRejected, Inl GwIntegrityError}
    \<and> serve platform_exec [DeliverNext ct ids clock device sid caps platform] db = db"
proof -
  have "next_pending_command ct ids clock device caps ''gateway_wss'' platform (w_plane db) \<in> {Inl CommandStateRejected, Inl GwIntegrityError}"
  proof (cases "expire_overdue_collections device (clock 0) None (w_plane db)")
    case (Inl e)
    then have "e = GwIntegrityError" by (simp add: expire_overdue_collections_def flush_plane_def split: if_splits)
    with Inl show ?thesis by (simp add: next_pending_command_def)
  next
    case (Inr db1)
    note same = expire_overdue_frame [OF Inr]
    have "module_ready_to_run p platform db1 = Inl CommandStateRejected"
      using p v same by (auto simp: module_ready_to_run_def expected_version_state_def)
    moreover have "module_parents device db1 = p # ps" using oldest same by (simp add: module_parents_def)
    ultimately have "next_pending_module_command ids (clock 1) device caps platform db1 = Inl CommandStateRejected"
      by (simp add: next_pending_module_command_def module_candidate_def)
    with Inr show ?thesis by (simp add: next_pending_command_def)
  qed
  then have "deliver_next ct ids clock device sid caps platform db \<in> {Inl CommandStateRejected, Inl GwIntegrityError}"
    by (auto simp: deliver_next_def)
  then show ?thesis by auto
qed

definition stale_site :: gateway_db where
  "stale_site = serve platform_exec [ask_module, ModuleCall (DeprecateVersion lab_call ''net.check'' ''1.0.0'')] site"

lemma stale_site_parent:
  "map (\<lambda>p. (o_module_version_id p, o_module_inputs p \<noteq> None, execution_mode (o_parameters p))) (module_parents 9 (w_plane stale_site))
     = [(Some 21, True, JStr ''published'')]
   \<and> map_option mv_state (find_row mv_id 21 (g_versions (w_plane stale_site))) = Some ''deprecated''"
  by code_simp

theorem stale_version_blocks_delivery_witness:
  "deliver_next plain_contracts \<lparr>di_command = 1, di_delivery = 2\<rparr> (\<lambda>_. 3000) 9 50 None None stale_site
     \<in> {Inl CommandStateRejected, Inl GwIntegrityError}"
proof -
  obtain p where p: "module_parents 9 (w_plane stale_site) = [p]" "o_module_version_id p = Some 21" "o_module_inputs p \<noteq> None"
      "execution_mode (o_parameters p) = JStr ''published''"
    using stale_site_parent by (auto simp: map_eq_Cons_conv)
  obtain v where v: "find_row mv_id 21 (g_versions (w_plane stale_site)) = Some v" "mv_state v = ''deprecated''"
    using stale_site_parent by auto
  show ?thesis using stale_version_blocks_delivery [OF p v(1)] v(2) by simp
qed

section \<open>A late acknowledgement\<close>

lemma device_command_acked:
  assumes "device_command i device db = Some c"
  shows "\<exists>c'. device_command i device (http_acked a c k db) = Some c' \<and> cm_id c' = cm_id c"
proof -
  have c: "c \<in> set (g_commands db)" "cm_id c = i" "cm_device_id c = device" using find_SomeD [OF assms [unfolded device_command_def]] by simp_all
  have "g_commands (http_acked a c k db) = store_row cm_id (c\<lparr>cm_status := aa_status a\<rparr>) (g_commands db)"
    by (simp add: http_acked_def Let_def store_defs split: option.splits)
  then have "c\<lparr>cm_status := aa_status a\<rparr> \<in> set (g_commands (http_acked a c k db))" using c(1) by (auto simp: in_set_store_row)
  then have "device_command i device (http_acked a c k db) \<noteq> None" 
    unfolding device_command_def find_None_iff using c by (auto intro!: exI [of _ "c\<lparr>cm_status := aa_status a\<rparr>"])
  then obtain c' where "device_command i device (http_acked a c k db) = Some c'" by auto
  with find_SomeD [OF this [unfolded device_command_def]] c(2) show ?thesis by simp
qed

text \<open>C33. An acknowledgement over the pull transport that arrives when the result of its command was already stored reopens the closed
  collection of the command, and no result that is submitted afterwards closes it again.\<close>

theorem late_acknowledgement_reopens:
  assumes c: "device_command i device (w_plane db) = Some c" and k: "pull_relation c (w_plane db) = Inr (Some k)"
    and closed: "closed_collection k" and stored: "result_stored (cm_id c) db" and ack: "acknowledge i device a db = Inr db'"
  shows "(\<exists>x\<in>set (g_collections (w_plane db')). k_id x = k_id k \<and> \<not> closed_collection x)
    \<and> (submit_result ct identity gids clock i device r db' = Inr db'' \<longrightarrow> db'' = db')"
proof -
  let ?plane = "http_acked a c (Some k) (w_plane db)"
  have db': "w_plane db' = ?plane" using ack c k commit_plane_Inr by (auto simp: acknowledge_def split: if_splits)
  have kin: "k \<in> set (g_collections (w_plane db))"
    using pull_relation_Inr [OF k] find_SomeD [of _ "g_collections (w_plane db)" k] by (simp add: related_def)
  have "g_collections ?plane = store_row k_id (k\<lparr>k_status := CCollecting\<rparr>) (g_collections (w_plane db))"
    using work_of_eqD [of ?plane "store_collection (k\<lparr>k_status := CCollecting\<rparr>) (w_plane db)"] by (simp add: work_of_http_acked)
  then have "k\<lparr>k_status := CCollecting\<rparr> \<in> set (g_collections (w_plane db'))" using kin by (auto simp: db' in_set_store_row)
  then have reopened: "\<exists>x\<in>set (g_collections (w_plane db')). k_id x = k_id k \<and> \<not> closed_collection x"
    by (rule bexI [rotated]) (simp add: closed_collection_def)
  obtain c' where c': "device_command i device (w_plane db') = Some c'" "cm_id c' = cm_id c"
    using device_command_acked [OF c] by (auto simp: db')
  have "g_results ?plane = g_results (w_plane db)" by (simp add: http_acked_def Let_def store_defs split: option.splits)
  with stored have "result_stored (cm_id c') db'" by (simp add: result_stored_def db' c'(2))
  then obtain x where x: "find (\<lambda>x. rs_identifier x = result_identifier c') (g_results (w_plane db')) = Some x"
    using result_stored_find by blast
  have "submit_result ct identity gids clock i device r db' = Inr db'' \<longrightarrow> db'' = db'"
    using c'(1) x by (auto simp: submit_result_def commit_gateway_Inr split: if_splits)
  with reopened show ?thesis by simp
qed

definition pulled_site :: gateway_db where
  "pulled_site = serve platform_exec
     [RequestCollection 70 1000 9 ''health_v1'' ''svc'' ''k-1'' None,
      PullCommand plain_contracts \<lparr>di_command = 320, di_delivery = 321\<rparr> (\<lambda>_. 1100) 9,
      PullResult plain_contracts 330 ingest_sample 1200 320 9 (answer Failed 320 [])] site"

definition late_ack :: agent_ack where
  "late_ack = \<lparr>aa_command_id = 320, aa_device_id = 9, aa_status = Acknowledged, aa_acknowledged_at = 1150\<rparr>"

lemma pulled_site_facts:
  "case device_command 320 9 (w_plane pulled_site) of None \<Rightarrow> False
   | Some c \<Rightarrow> (case pull_relation c (w_plane pulled_site) of Inr (Some k) \<Rightarrow> closed_collection k \<and> k_id k = 70 | _ \<Rightarrow> False)
       \<and> list_ex (\<lambda>x. rs_identifier x = ''result-'' @ uuid_hex (cm_id c)) (g_results (w_plane pulled_site))
       \<and> \<not> isl (acknowledge 320 9 late_ack pulled_site)"
  by code_simp

theorem late_acknowledgement_reopens_witness:
  "\<exists>db'. acknowledge 320 9 late_ack pulled_site = Inr db' \<and> (\<exists>x\<in>set (g_collections (w_plane db')). k_id x = 70 \<and> \<not> closed_collection x)"
proof -
  obtain c where c: "device_command 320 9 (w_plane pulled_site) = Some c"
    using pulled_site_facts by (auto split: option.splits)
  obtain k where k: "pull_relation c (w_plane pulled_site) = Inr (Some k)" "closed_collection k" "k_id k = 70"
    using pulled_site_facts c by (auto split: sum.splits option.splits)
  have "result_stored (cm_id c) pulled_site"
    using pulled_site_facts c by (auto simp: result_stored_def list_ex_iff)
  moreover obtain db' where "acknowledge 320 9 late_ack pulled_site = Inr db'"
    using pulled_site_facts c by (cases "acknowledge 320 9 late_ack pulled_site") auto
  ultimately show ?thesis using late_acknowledgement_reopens [OF c k(1,2)] k(3) by fastforce
qed

end
