(* ===== verification/Power_Model.thy ===== *)
theory Power_Model
  imports Prelude "HOL-Library.Product_Lexorder"
begin

text \<open>
  Power evidence: the contracts of \<open>endpoint_contracts/power_events.py\<close> and the protected queue of the agent,
  \<open>pc_agent/power/spool.py\<close>. The queue is the table in the order of its sequence; a transaction that raises leaves it as
  it was. Times are instants; \<open>isoformat\<close> of aware times in UTC orders as they do. The lengths of a serialized
  event and of a frame are fields of the configuration.
\<close>

section \<open>Contracts\<close>

record power_event =
  pv_identifier :: uuid
  pv_kind :: string
  pv_occurred_at :: instant
  pv_observed_at :: instant
  pv_boot_id :: string
  pv_source :: string
  pv_native_record_id :: string
  pv_evidence :: string
  pv_sleep_subtype :: "string option"

datatype availability = READY | DEGRADED | UNAVAILABLE | UNSUPPORTED

record power_status =
  pt_source :: string
  pt_availability :: availability
  pt_reported_at :: instant
  pt_coverage_started_at :: "instant option"
  pt_loss_count :: int
  pt_reset_count :: int

record power_batch =
  pb_batch_id :: uuid
  pb_events :: "power_event list"
  pb_source_status :: power_status

datatype disposition = Accepted | RetryLater | Rejected

record power_result =
  pd_identifier :: uuid
  pd_disposition :: disposition
  pd_reason_code :: string

record power_ack =
  pa_batch_id :: uuid
  pa_persisted_at :: instant
  pa_results :: "power_result list"

record native_page =
  np_events :: "power_event list"
  np_checkpoint :: "string option"
  np_status :: power_status
  np_loss_count :: int
  np_reset_count :: int

section \<open>The queue\<close>

record power_spool =
  sl_opened :: bool
  sl_queue :: "power_event list"
  sl_checkpoint :: "string option"
  sl_status :: "power_status option"
  sl_overflow :: int
  sl_expired :: int
  sl_rejected :: int
  sl_loss :: int
  sl_resets :: int
  sl_quarantine :: "(uuid \<times> string \<times> instant) list"

record spool_config =
  cf_max_events :: nat
  cf_max_bytes :: nat
  cf_payload_bytes :: "power_event \<Rightarrow> nat"
  cf_frame_bytes :: "power_batch \<Rightarrow> nat"

datatype spool_error = SpoolNotOpen | SpoolBound | SpoolConflict | SpoolInvalid

definition max_age :: int where
  "max_age = hours 720"

definition max_batch_bytes :: nat where
  "max_batch_bytes = 60 * 1024"

definition empty_spool :: power_spool where
  "empty_spool = \<lparr>sl_opened = False, sl_queue = [], sl_checkpoint = None, sl_status = None, sl_overflow = 0, sl_expired = 0,
     sl_rejected = 0, sl_loss = 0, sl_resets = 0, sl_quarantine = []\<rparr>"

definition spool_open :: "power_spool \<Rightarrow> power_spool" where
  "spool_open s = s\<lparr>sl_opened := True\<rparr>"

definition in_transaction :: "power_spool \<Rightarrow> spool_error + 'a \<Rightarrow> spool_error + 'a" where
  "in_transaction s r = (if \<not> sl_opened s then Inl SpoolNotOpen else r)"

definition spool_stable :: "power_event \<Rightarrow> power_event" where
  "spool_stable e = e\<lparr>pv_observed_at := 0\<rparr>"

definition queued :: "uuid \<Rightarrow> power_spool \<Rightarrow> power_event option" where
  "queued i s = find (\<lambda>e. pv_identifier e = i) (sl_queue s)"

definition spool_expire :: "instant \<Rightarrow> power_spool \<Rightarrow> power_spool" where
  "spool_expire now s =
     (let kept = filter (\<lambda>e. now - max_age \<le> pv_occurred_at e) (sl_queue s)
      in s\<lparr>sl_quarantine := filter (\<lambda>(_, _, at). now - max_age \<le> at) (sl_quarantine s), sl_queue := kept,
           sl_expired := sl_expired s + (int (length (sl_queue s)) - int (length kept))\<rparr>)"

definition queue_bytes :: "spool_config \<Rightarrow> power_event list \<Rightarrow> nat" where
  "queue_bytes cf q = sum_list (map (cf_payload_bytes cf) q)"

text \<open>Oldest first, until both bounds hold.\<close>

fun trim_queue :: "spool_config \<Rightarrow> power_event list \<Rightarrow> power_event list" where
  "trim_queue cf [] = []"
| "trim_queue cf (e # q) =
     (if cf_max_events cf < length (e # q) \<or> cf_max_bytes cf < queue_bytes cf (e # q) then trim_queue cf q else e # q)"

definition spool_trim :: "spool_config \<Rightarrow> power_spool \<Rightarrow> power_spool" where
  "spool_trim cf s =
     (let kept = trim_queue cf (sl_queue s)
      in s\<lparr>sl_queue := kept, sl_overflow := sl_overflow s + (int (length (sl_queue s)) - int (length kept))\<rparr>)"

fun take_events :: "instant \<Rightarrow> power_event list \<Rightarrow> power_spool \<Rightarrow> spool_error + power_spool" where
  "take_events now [] s = Inr s"
| "take_events now (e # es) s =
     (case queued (pv_identifier e) s of
        Some old \<Rightarrow> if spool_stable old \<noteq> spool_stable e then Inl SpoolConflict else take_events now es s
      | None \<Rightarrow>
          if pv_occurred_at e < now - max_age then take_events now es (s\<lparr>sl_expired := sl_expired s + 1\<rparr>)
          else take_events now es (s\<lparr>sl_queue := sl_queue s @ [e]\<rparr>))"

definition commit_page :: "spool_config \<Rightarrow> native_page \<Rightarrow> instant \<Rightarrow> power_spool \<Rightarrow> spool_error + power_spool" where
  "commit_page cf page now s =
     (if 128 < length (np_events page) \<or> (case np_checkpoint page of None \<Rightarrow> False | Some c \<Rightarrow> 16384 < length c) then Inl SpoolBound
      else in_transaction s
        (bindE (take_events now (np_events page) (spool_expire now s)) (\<lambda>s1.
           let s2 = spool_trim cf s1
           in Inr (s2\<lparr>sl_checkpoint := np_checkpoint page, sl_status := Some (np_status page),
                      sl_loss := sl_loss s2 + np_loss_count page, sl_resets := sl_resets s2 + np_reset_count page\<rparr>))))"

definition spool_record :: "spool_config \<Rightarrow> power_event \<Rightarrow> instant \<Rightarrow> power_spool \<Rightarrow> spool_error + power_spool" where
  "spool_record cf e now s =
     in_transaction s
       (case queued (pv_identifier e) s of
          Some old \<Rightarrow> if spool_stable old \<noteq> spool_stable e then Inl SpoolConflict else Inr s
        | None \<Rightarrow>
            let s1 = spool_expire now s in
            if pv_occurred_at e < now - max_age then Inr (s1\<lparr>sl_expired := sl_expired s1 + 1\<rparr>)
            else Inr (spool_trim cf (s1\<lparr>sl_queue := sl_queue s1 @ [e]\<rparr>)))"

text \<open>The contract of a status refuses a coverage that starts after the report, as when the clock went back.\<close>

definition status_valid :: "power_status \<Rightarrow> bool" where
  "status_valid p \<longleftrightarrow> (case pt_coverage_started_at p of None \<Rightarrow> True | Some c \<Rightarrow> c \<le> pt_reported_at p)"

definition set_unavailable :: "string \<Rightarrow> instant \<Rightarrow> power_spool \<Rightarrow> spool_error + power_spool" where
  "set_unavailable source now s =
     in_transaction s
       (let status = \<lparr>pt_source = source, pt_availability = UNAVAILABLE, pt_reported_at = now,
              pt_coverage_started_at = (case sl_status s of None \<Rightarrow> None | Some p \<Rightarrow> pt_coverage_started_at p),
              pt_loss_count = 0, pt_reset_count = 0\<rparr>
        in if \<not> status_valid status then Inl SpoolInvalid else Inr (s\<lparr>sl_status := Some status\<rparr>))"

definition reported_status :: "power_spool \<Rightarrow> power_status option" where
  "reported_status s =
     map_option (\<lambda>p. p\<lparr>pt_loss_count := sl_overflow s + sl_expired s + sl_rejected s + sl_loss s, pt_reset_count := sl_resets s\<rparr>) (sl_status s)"

text \<open>Events join the batch in order until a frame would pass the limit.\<close>

fun fill_batch :: "spool_config \<Rightarrow> power_batch \<Rightarrow> power_event list \<Rightarrow> power_batch" where
  "fill_batch cf b [] = b"
| "fill_batch cf b (e # es) =
     (let candidate = b\<lparr>pb_events := pb_events b @ [e]\<rparr>
      in if max_batch_bytes < cf_frame_bytes cf candidate then b else fill_batch cf candidate es)"

definition next_batch :: "spool_config \<Rightarrow> uuid \<Rightarrow> instant \<Rightarrow> power_spool \<Rightarrow> spool_error + (power_spool \<times> power_batch option)" where
  "next_batch cf batch_id now s =
     in_transaction s
       (let s1 = spool_expire now s
        in Inr (s1, map_option (\<lambda>p. fill_batch cf \<lparr>pb_batch_id = batch_id, pb_events = [], pb_source_status = p\<rparr> (take 128 (sl_queue s1)))
             (reported_status s1)))"

fun settle_dispositions :: "instant \<Rightarrow> power_result list \<Rightarrow> power_spool \<Rightarrow> power_spool" where
  "settle_dispositions at [] s = s"
| "settle_dispositions at (r # rs) s =
     settle_dispositions at rs
       (if pd_disposition r = RetryLater \<or> queued (pd_identifier r) s = None then s
        else
          let s1 = s\<lparr>sl_queue := filter (\<lambda>e. pv_identifier e \<noteq> pd_identifier r) (sl_queue s)\<rparr>
          in if pd_disposition r = Rejected
             then s1\<lparr>sl_rejected := sl_rejected s1 + 1, sl_quarantine := sl_quarantine s1 @ [(pd_identifier r, pd_reason_code r, at)]\<rparr>
             else s1)"

definition trim_quarantine :: "instant \<Rightarrow> power_spool \<Rightarrow> power_spool" where
  "trim_quarantine at s =
     (let q = drop (length (sl_quarantine s) - 128) (sl_quarantine s)
      in s\<lparr>sl_quarantine := filter (\<lambda>(_, _, t). at - max_age \<le> t) q\<rparr>)"

definition conflicting :: "power_batch \<Rightarrow> power_spool \<Rightarrow> bool" where
  "conflicting b s \<longleftrightarrow>
     list_ex (\<lambda>e. case queued (pv_identifier e) s of None \<Rightarrow> False | Some old \<Rightarrow> spool_stable old \<noteq> spool_stable e) (pb_events b)"

definition spool_acknowledge :: "power_batch \<Rightarrow> power_ack \<Rightarrow> power_spool \<Rightarrow> spool_error + (power_spool \<times> bool)" where
  "spool_acknowledge b a s =
     (if pa_batch_id a \<noteq> pb_batch_id b \<or> map pd_identifier (pa_results a) \<noteq> map pv_identifier (pb_events b) then Inr (s, False)
      else in_transaction s
        (if conflicting b s then Inr (s, False)
         else Inr (trim_quarantine (pa_persisted_at a) (settle_dispositions (pa_persisted_at a) (pa_results a) s), True)))"

end
