(* ===== verification/Power_Server.thy ===== *)
theory Power_Server
  imports Power_Model
begin

text \<open>
  \<open>endpoint_server/power/ingestion.py\<close> and \<open>retention.py\<close>: each event of a batch in a savepoint of
  its own, the state of the source and retention. The rows are those of \<open>device_events\<close> with category
  \<open>power\<close>; \<open>hash\<close> is SHA-256 of the JSON of its argument and \<open>size\<close> the length in bytes of the stored details.
\<close>

record power_row =
  pr_id :: uuid
  pr_device_id :: uuid
  pr_identifier :: uuid
  pr_source_key :: string
  pr_event :: power_event
  pr_received_at :: instant

record source_state =
  so_device_id :: uuid
  so_status :: power_status
  so_received_at :: instant

record power_store =
  st_rows :: "power_row list"
  st_sources :: "source_state list"

record server_codec =
  cd_hash :: "string \<times> string \<times> string \<Rightarrow> string"
  cd_details_bytes :: "power_event \<Rightarrow> instant \<Rightarrow> nat"

definition power_retention :: int where
  "power_retention = hours 720"

section \<open>The state of the source\<close>

fun availability_order :: "availability \<Rightarrow> nat" where
  "availability_order READY = 0"
| "availability_order DEGRADED = 1"
| "availability_order UNAVAILABLE = 2"
| "availability_order UNSUPPORTED = 3"

definition availability_at :: "nat \<Rightarrow> availability" where
  "availability_at n = [READY, DEGRADED, UNAVAILABLE, UNSUPPORTED] ! n"

definition min_text :: "string \<Rightarrow> string \<Rightarrow> string" where
  "min_text a b = (if lexordp_eq (map of_char a :: nat list) (map of_char b) then a else b)"

definition merge_coverage :: "instant option \<Rightarrow> instant option \<Rightarrow> instant option" where
  "merge_coverage a b = (case (a, b) of (Some x, Some y) \<Rightarrow> Some (max x y) | _ \<Rightarrow> None)"

definition merge_source_tie :: "power_status \<Rightarrow> power_status \<Rightarrow> power_status" where
  "merge_source_tie state status =
     state\<lparr>pt_availability := availability_at (max (max (availability_order (pt_availability state)) (availability_order (pt_availability status)))
              (if pt_source state \<noteq> pt_source status then 1 else 0)),
           pt_source := min_text (pt_source state) (pt_source status),
           pt_loss_count := max (pt_loss_count state) (pt_loss_count status),
           pt_reset_count := max (pt_reset_count state) (pt_reset_count status),
           pt_coverage_started_at := merge_coverage (pt_coverage_started_at state) (pt_coverage_started_at status)\<rparr>"

definition observe_source :: "uuid \<Rightarrow> power_status \<Rightarrow> instant \<Rightarrow> power_store \<Rightarrow> power_store" where
  "observe_source device_id status at db =
     (if \<not> (at - power_retention \<le> pt_reported_at status \<and> pt_reported_at status \<le> at + minutes 5) then db
      else case find_row so_device_id device_id (st_sources db) of
        None \<Rightarrow> db\<lparr>st_sources := st_sources db @ [\<lparr>so_device_id = device_id, so_status = status, so_received_at = at\<rparr>]\<rparr>
      | Some state \<Rightarrow>
          if pt_reported_at (so_status state) < pt_reported_at status
          then db\<lparr>st_sources := store_row so_device_id (state\<lparr>so_status := status, so_received_at := at\<rparr>) (st_sources db)\<rparr>
          else if pt_reported_at status = pt_reported_at (so_status state)
          then db\<lparr>st_sources := store_row so_device_id (state\<lparr>so_status := merge_source_tie (so_status state) status\<rparr>) (st_sources db)\<rparr>
          else db)"

section \<open>Events\<close>

definition native_key :: "server_codec \<Rightarrow> power_event \<Rightarrow> string" where
  "native_key cd e = ''power:'' @ cd_hash cd (pv_source e, pv_boot_id e, pv_native_record_id e)"

definition server_stable :: "power_event \<Rightarrow> power_event" where
  "server_stable e = e\<lparr>pv_identifier := 0, pv_observed_at := 0\<rparr>"

definition known_rows :: "server_codec \<Rightarrow> uuid \<Rightarrow> power_event \<Rightarrow> power_row list \<Rightarrow> power_row list" where
  "known_rows cd device_id e rows =
     filter (\<lambda>r. pr_device_id r = device_id \<and> (pr_source_key r = native_key cd e \<or> pr_identifier r = pv_identifier e)) rows"

definition same_fact :: "power_event \<Rightarrow> power_event \<Rightarrow> bool" where
  "same_fact a b \<longleftrightarrow> pv_identifier a = pv_identifier b \<and> server_stable a = server_stable b"

definition ingest_event :: "server_codec \<Rightarrow> uuid \<Rightarrow> uuid \<Rightarrow> power_event \<Rightarrow> instant \<Rightarrow> power_store \<Rightarrow> string + power_store" where
  "ingest_event cd identity device_id e at db =
     (if pv_occurred_at e < at - power_retention then Inl ''event_expired''
      else if at + minutes 5 < pv_occurred_at e \<or> at + minutes 5 < pv_observed_at e then Inl ''event_future''
      else
        let existing = known_rows cd device_id e (st_rows db) in
        if \<not> list_all (\<lambda>r. same_fact (pr_event r) e) existing then Inl ''event_conflict''
        else if existing \<noteq> [] then Inr db
        else if 2048 < cd_details_bytes cd e at then Inl ''event_metadata_too_large''
        else Inr (db\<lparr>st_rows := st_rows db @ [\<lparr>pr_id = identity, pr_device_id = device_id, pr_identifier = pv_identifier e,
                    pr_source_key = native_key cd e, pr_event = e, pr_received_at = at\<rparr>]\<rparr>))"

fun ingest_events :: "server_codec \<Rightarrow> (nat \<Rightarrow> uuid) \<Rightarrow> uuid \<Rightarrow> power_event list \<Rightarrow> instant \<Rightarrow> power_store \<Rightarrow> power_store \<times> power_result list" where
  "ingest_events cd gen device_id [] at db = (db, [])"
| "ingest_events cd gen device_id (e # es) at db =
     (case ingest_event cd (gen 0) device_id e at db of
        Inl reason \<Rightarrow>
          (let (db', rs) = ingest_events cd (\<lambda>n. gen (Suc n)) device_id es at db
           in (db', \<lparr>pd_identifier = pv_identifier e, pd_disposition = Rejected, pd_reason_code = reason\<rparr> # rs))
      | Inr db1 \<Rightarrow>
          (let (db', rs) = ingest_events cd (\<lambda>n. gen (Suc n)) device_id es at db1
           in (db', \<lparr>pd_identifier = pv_identifier e, pd_disposition = Accepted, pd_reason_code = ''persisted''\<rparr> # rs)))"

definition ingest_power_batch ::
  "server_codec \<Rightarrow> (nat \<Rightarrow> uuid) \<Rightarrow> uuid \<Rightarrow> power_batch \<Rightarrow> instant \<Rightarrow> power_store \<Rightarrow> power_store \<times> power_ack" where
  "ingest_power_batch cd gen device_id b at db =
     (let (db', results) = ingest_events cd gen device_id (pb_events b) at (observe_source device_id (pb_source_status b) at db)
      in (db', \<lparr>pa_batch_id = pb_batch_id b, pa_persisted_at = at, pa_results = results\<rparr>))"

section \<open>Retention\<close>

definition retain_power_events :: "instant \<Rightarrow> int \<Rightarrow> power_store \<Rightarrow> (power_store \<times> nat) option" where
  "retain_power_events now limit db =
     (if \<not> (1 \<le> limit \<and> limit \<le> 1000) then None
      else
        let old = take (nat limit) (sort_key (\<lambda>r. (pv_occurred_at (pr_event r), pr_id r))
                    (filter (\<lambda>r. pv_occurred_at (pr_event r) < now - power_retention) (st_rows db)))
        in Some (db\<lparr>st_rows := filter (\<lambda>r. pr_id r \<notin> set (map pr_id old)) (st_rows db)\<rparr>, length old))"

end
