(* ===== verification/Power_Laws.thy ===== *)
theory Power_Laws
  imports Power_Server
begin

text \<open>What the queue of the agent accounts for, and what the server's answers say.\<close>

section \<open>Facts\<close>

definition facts :: "power_event list \<Rightarrow> power_event set" where
  "facts q = spool_stable ` set q"

definition losses :: "power_spool \<Rightarrow> int" where
  "losses s = sl_overflow s + sl_expired s + sl_rejected s"

text \<open>From \<open>s\<close> to \<open>s'\<close> no fact of the queue and none of \<open>taken\<close> goes missing: it is queued, counted as lost or in \<open>known\<close>.\<close>

definition accounts :: "power_spool \<Rightarrow> power_event set \<Rightarrow> power_event set \<Rightarrow> power_spool \<Rightarrow> bool" where
  "accounts s taken known s' \<longleftrightarrow>
     (\<exists>lost. finite lost \<and> int (card lost) \<le> losses s' - losses s \<and> facts (sl_queue s) \<union> taken \<subseteq> facts (sl_queue s') \<union> lost \<union> known)"

lemma facts_simps [simp]: "facts [] = {}" "facts (e # q) = insert (spool_stable e) (facts q)" "facts (p @ q) = facts p \<union> facts q"
  by (auto simp: facts_def)

lemma finite_facts [simp]: "finite (facts q)"
  by (simp add: facts_def)

lemma card_facts: "card (facts q) \<le> length q"
  unfolding facts_def by (metis card_image_le card_length le_trans list.set_finite)

lemma accounts_refl: "accounts s {} known s"
  by (auto simp: accounts_def intro!: exI [of _ "{}"])

lemma accounts_trans:
  assumes "accounts s A known s1" "accounts s1 B known s2"
  shows "accounts s (A \<union> B) known s2"
proof -
  from assms(1) obtain l1 where l1: "finite l1" "int (card l1) \<le> losses s1 - losses s" "facts (sl_queue s) \<union> A \<subseteq> facts (sl_queue s1) \<union> l1 \<union> known"
    by (auto simp: accounts_def)
  from assms(2) obtain l2 where l2: "finite l2" "int (card l2) \<le> losses s2 - losses s1" "facts (sl_queue s1) \<union> B \<subseteq> facts (sl_queue s2) \<union> l2 \<union> known"
    by (auto simp: accounts_def)
  have "int (card (l1 \<union> l2)) \<le> losses s2 - losses s" using card_Un_le [of l1 l2] l1(2) l2(2) by linarith
  with l1 l2 show ?thesis unfolding accounts_def by (intro exI [of _ "l1 \<union> l2"]) auto
qed

text \<open>A step that drops a part of the queue and counts it.\<close>

lemma accounts_drop:
  assumes "set (sl_queue s) \<subseteq> set (sl_queue s') \<union> set gone" "losses s' = losses s + int (length gone)"
  shows "accounts s {} known s'"
proof -
  have "int (card (facts gone)) \<le> losses s' - losses s" using card_facts [of gone] assms(2) by linarith
  then show ?thesis using assms(1) unfolding accounts_def by (intro exI [of _ "facts gone"]) (auto simp: facts_def)
qed

section \<open>Bounds\<close>

definition within :: "spool_config \<Rightarrow> power_event list \<Rightarrow> bool" where
  "within cf q \<longleftrightarrow> length q \<le> cf_max_events cf \<and> queue_bytes cf q \<le> cf_max_bytes cf"

lemma queue_bytes_filter: "queue_bytes cf (filter P q) \<le> queue_bytes cf q"
  by (induction q) (auto simp: queue_bytes_def)

lemma within_filter: "within cf q \<Longrightarrow> within cf (filter P q)"
  using queue_bytes_filter [of cf P q] length_filter_le [of P q] unfolding within_def by linarith

lemma trim_within: "within cf (trim_queue cf q)"
  by (induction q) (auto simp: within_def queue_bytes_def)

lemma trim_suffix: "\<exists>gone. q = gone @ trim_queue cf q"
proof (induction q)
  case (Cons e q)
  then obtain gone where "q = gone @ trim_queue cf q" by blast
  then show ?case by (metis append_Cons append_Nil trim_queue.simps(2))
qed simp

section \<open>The operations of the queue\<close>

definition distinct_queue :: "power_spool \<Rightarrow> bool" where
  "distinct_queue s \<longleftrightarrow> distinct (map pv_identifier (sl_queue s))"

lemma expire_accounts: "accounts s {} known (spool_expire now s)"
proof -
  let ?gone = "filter (\<lambda>e. \<not> now - max_age \<le> pv_occurred_at e) (sl_queue s)"
  have "int (length (sl_queue s)) = int (length (filter (\<lambda>e. now - max_age \<le> pv_occurred_at e) (sl_queue s))) + int (length ?gone)"
    using sum_length_filter_compl [of "\<lambda>e. now - max_age \<le> pv_occurred_at e" "sl_queue s"] by linarith
  then show ?thesis by (intro accounts_drop [of _ _ ?gone]) (auto simp: spool_expire_def Let_def losses_def)
qed

lemma trim_accounts: "accounts s {} known (spool_trim cf s)"
proof -
  obtain gone where g: "sl_queue s = gone @ trim_queue cf (sl_queue s)" using trim_suffix by blast
  then have "length (sl_queue s) = length gone + length (trim_queue cf (sl_queue s))" by (metis length_append)
  moreover have "set (sl_queue s) \<subseteq> set (trim_queue cf (sl_queue s)) \<union> set gone" using g by (metis set_append Un_commute order_refl)
  ultimately show ?thesis by (intro accounts_drop [of _ _ gone]) (simp_all add: spool_trim_def Let_def losses_def)
qed

lemma queued_Some: "queued i s = Some e \<Longrightarrow> e \<in> set (sl_queue s) \<and> pv_identifier e = i"
  by (auto simp: queued_def find_Some_iff)

lemma queued_None: "queued i s = None \<longleftrightarrow> i \<notin> pv_identifier ` set (sl_queue s)"
  by (auto simp: queued_def find_None_iff)

lemma accounts_mono: "accounts s A known s' \<Longrightarrow> B \<subseteq> A \<Longrightarrow> known \<subseteq> known' \<Longrightarrow> accounts s B known' s'"
  unfolding accounts_def by blast

text \<open>One event of a page: already queued, too old, or appended.\<close>

lemma accounts_present:
  assumes "queued (pv_identifier e) s = Some old" "spool_stable old = spool_stable e"
  shows "accounts s {spool_stable e} known s"
proof -
  have "spool_stable e \<in> facts (sl_queue s)" using queued_Some [OF assms(1)] assms(2) unfolding facts_def by (metis imageI)
  then show ?thesis unfolding accounts_def by (intro exI [of _ "{}"]) auto
qed

lemma accounts_too_old: "accounts s {spool_stable e} known (s\<lparr>sl_expired := sl_expired s + 1\<rparr>)"
  unfolding accounts_def by (intro exI [of _ "{spool_stable e}"]) (auto simp: losses_def)

lemma accounts_append: "accounts s {spool_stable e} known (s\<lparr>sl_queue := sl_queue s @ [e]\<rparr>)"
  unfolding accounts_def by (intro exI [of _ "{}"]) (auto simp: losses_def)

lemma take_events_ok:
  assumes "take_events now es s = Inr s'" "distinct_queue s"
  shows "accounts s (facts es) known s' \<and> distinct_queue s' \<and> sl_opened s' = sl_opened s"
  using assms
proof (induction es arbitrary: s)
  case Nil
  then show ?case by (simp add: accounts_refl)
next
  case (Cons e es)
  have go: ?case if "accounts s {spool_stable e} known s1" "take_events now es s1 = Inr s'" "distinct_queue s1" "sl_opened s1 = sl_opened s" for s1
    using accounts_trans [OF that(1)] Cons.IH [OF that(2,3)] that(4) by auto
  show ?case
  proof (cases "queued (pv_identifier e) s")
    case (Some old)
    with Cons.prems(1) have "spool_stable old = spool_stable e" "take_events now es s = Inr s'" by (auto split: if_splits)
    then show ?thesis using go [OF accounts_present [OF Some]] Cons.prems(2) by simp
  next
    case None
    show ?thesis
    proof (cases "pv_occurred_at e < now - max_age")
      case True
      then show ?thesis using go [OF accounts_too_old] None Cons.prems by (simp add: distinct_queue_def)
    next
      case False
      have "distinct_queue (s\<lparr>sl_queue := sl_queue s @ [e]\<rparr>)" using Cons.prems(2) None by (simp add: distinct_queue_def queued_None)
      then show ?thesis using go [OF accounts_append] None False Cons.prems by simp
    qed
  qed
qed

definition spool_ok :: "spool_config \<Rightarrow> power_spool \<Rightarrow> bool" where
  "spool_ok cf s \<longleftrightarrow> distinct_queue s \<and> within cf (sl_queue s)"

lemma distinct_queue_sub: "distinct_queue s \<Longrightarrow> sl_queue s' = filter P (sl_queue s) \<Longrightarrow> distinct_queue s'"
  by (simp add: distinct_queue_def distinct_map_filter)

lemma expire_queue: "sl_queue (spool_expire now s) = filter (\<lambda>e. now - max_age \<le> pv_occurred_at e) (sl_queue s)"
  by (simp add: spool_expire_def Let_def)

lemma expire_ok: "spool_ok cf s \<Longrightarrow> spool_ok cf (spool_expire now s)"
  unfolding spool_ok_def using distinct_queue_sub [OF _ expire_queue] within_filter by (auto simp: expire_queue)

lemma expire_opened [simp]: "sl_opened (spool_expire now s) = sl_opened s"
  by (simp add: spool_expire_def Let_def)

lemma trim_ok: "distinct_queue s \<Longrightarrow> spool_ok cf (spool_trim cf s)"
proof -
  assume d: "distinct_queue s"
  obtain gone where "sl_queue s = gone @ trim_queue cf (sl_queue s)" using trim_suffix by blast
  with d have "distinct (map pv_identifier (trim_queue cf (sl_queue s)))" unfolding distinct_queue_def by (metis distinct_append map_append)
  then show ?thesis by (simp add: spool_ok_def distinct_queue_def spool_trim_def Let_def trim_within)
qed

lemma trim_opened [simp]: "sl_opened (spool_trim cf s) = sl_opened s"
  by (simp add: spool_trim_def Let_def)

lemma accounts_cong:
  "sl_queue s' = sl_queue t' \<Longrightarrow> losses s' = losses t' \<Longrightarrow> accounts s A known s' \<longleftrightarrow> accounts s A known t'"
  by (simp add: accounts_def)

lemma spool_ok_cong: "sl_queue s = sl_queue t \<Longrightarrow> spool_ok cf s \<longleftrightarrow> spool_ok cf t"
  by (simp add: spool_ok_def distinct_queue_def)

lemma in_transaction_Inr: "in_transaction s r = Inr y \<longleftrightarrow> sl_opened s \<and> r = Inr y"
  by (simp add: in_transaction_def)

lemma commit_page_ok:
  assumes "commit_page cf page now s = Inr s'" "spool_ok cf s"
  shows "accounts s (facts (np_events page)) known s' \<and> spool_ok cf s'"
proof -
  from assms(1) obtain s1 where t: "take_events now (np_events page) (spool_expire now s) = Inr s1"
    and s': "s' = (spool_trim cf s1)\<lparr>sl_checkpoint := np_checkpoint page, sl_status := Some (np_status page),
               sl_loss := sl_loss (spool_trim cf s1) + np_loss_count page, sl_resets := sl_resets (spool_trim cf s1) + np_reset_count page\<rparr>"
    by (auto simp: commit_page_def in_transaction_Inr bindE_Inr_iff Let_def split: if_splits)
  have d: "distinct_queue (spool_expire now s)" using expire_ok [OF assms(2)] by (simp add: spool_ok_def)
  have t': "accounts (spool_expire now s) (facts (np_events page)) known s1" "distinct_queue s1"
    using take_events_ok [OF t d] by blast+
  have "accounts s ({} \<union> facts (np_events page) \<union> {}) known (spool_trim cf s1)"
    using accounts_trans [OF accounts_trans [OF expire_accounts t'(1)] trim_accounts] .
  then have "accounts s (facts (np_events page)) known s'"
    using accounts_cong [of s' "spool_trim cf s1"] by (simp add: s' losses_def)
  moreover have "spool_ok cf s'" using spool_ok_cong [of s' "spool_trim cf s1"] trim_ok [OF t'(2)] by (simp add: s')
  ultimately show ?thesis by blast
qed

lemma record_ok:
  assumes "spool_record cf e now s = Inr s'" "spool_ok cf s"
  shows "accounts s {spool_stable e} known s' \<and> spool_ok cf s'"
proof (cases "queued (pv_identifier e) s")
  case (Some old)
  then show ?thesis using assms accounts_present [OF Some] by (auto simp: spool_record_def in_transaction_Inr split: if_splits)
next
  case None
  let ?s1 = "spool_expire now s"
  have ok: "spool_ok cf ?s1" using expire_ok assms(2) by blast
  have late: "queued (pv_identifier e) ?s1 = None" using None by (auto simp: queued_None expire_queue)
  show ?thesis
  proof (cases "pv_occurred_at e < now - max_age")
    case True
    have "s' = ?s1\<lparr>sl_expired := sl_expired ?s1 + 1\<rparr>" using assms(1) None True by (simp add: spool_record_def in_transaction_Inr Let_def)
    moreover have "spool_ok cf (?s1\<lparr>sl_expired := sl_expired ?s1 + 1\<rparr>)" using ok by (simp add: spool_ok_def distinct_queue_def)
    ultimately show ?thesis using accounts_trans [OF expire_accounts [of s known now] accounts_too_old [of ?s1 e known]] by simp
  next
    case False
    let ?s2 = "?s1\<lparr>sl_queue := sl_queue ?s1 @ [e]\<rparr>"
    have "s' = spool_trim cf ?s2" using assms(1) None False by (simp add: spool_record_def in_transaction_Inr Let_def)
    moreover have "distinct_queue ?s2" using ok late by (simp add: spool_ok_def distinct_queue_def queued_None)
    ultimately show ?thesis
      using accounts_trans [OF accounts_trans [OF expire_accounts [of s known now] accounts_append [of ?s1 e known]] trim_accounts [of ?s2 known cf]] trim_ok
      by simp
  qed
qed

lemma set_unavailable_ok:
  assumes "set_unavailable source now s = Inr s'" "spool_ok cf s"
  shows "accounts s {} known s' \<and> spool_ok cf s'"
proof -
  have e: "sl_queue s' = sl_queue s" "losses s' = losses s"
    using assms(1) by (auto simp: set_unavailable_def in_transaction_Inr losses_def Let_def split: if_splits)
  then show ?thesis using accounts_refl [of s] accounts_cong [OF e, of s "{}"] spool_ok_cong [OF e(1)] assms(2) by blast
qed

section \<open>Batches\<close>

lemma fill_batch_prefix: "\<exists>n. pb_events (fill_batch cf b es) = pb_events b @ take n es"
proof (induction es arbitrary: b)
  case (Cons e es)
  show ?case
  proof (cases "max_batch_bytes < cf_frame_bytes cf (b\<lparr>pb_events := pb_events b @ [e]\<rparr>)")
    case True
    then show ?thesis by (intro exI [of _ 0]) simp
  next
    case False
    obtain n where "pb_events (fill_batch cf (b\<lparr>pb_events := pb_events b @ [e]\<rparr>) es) = (pb_events b @ [e]) @ take n es"
      using Cons.IH [of "b\<lparr>pb_events := pb_events b @ [e]\<rparr>"] by auto
    with False show ?thesis by (intro exI [of _ "Suc n"]) simp
  qed
qed simp

lemma fill_batch_id [simp]: "pb_batch_id (fill_batch cf b es) = pb_batch_id b"
  by (induction es arbitrary: b) (auto simp: Let_def)

lemma fill_batch_frame: "fill_batch cf b es = b \<or> cf_frame_bytes cf (fill_batch cf b es) \<le> max_batch_bytes"
proof (induction es arbitrary: b)
  case (Cons e es)
  show ?case using Cons.IH [of "b\<lparr>pb_events := pb_events b @ [e]\<rparr>"] by (auto simp: Let_def)
qed simp

lemma next_batch_ok:
  assumes "next_batch cf batch_id now s = Inr (s', out)" "spool_ok cf s"
  shows "accounts s {} known s' \<and> spool_ok cf s' \<and> (\<forall>b. out = Some b \<longrightarrow> pb_batch_id b = batch_id \<and> length (pb_events b) \<le> 128)"
proof -
  have s': "s' = spool_expire now s"
    and out: "out = map_option (\<lambda>p. fill_batch cf \<lparr>pb_batch_id = batch_id, pb_events = [], pb_source_status = p\<rparr> (take 128 (sl_queue s'))) (reported_status s')"
    using assms(1) by (auto simp: next_batch_def in_transaction_Inr Let_def)
  have "length (pb_events b) \<le> 128" if "out = Some b" for b
  proof -
    from that out obtain p where b: "b = fill_batch cf \<lparr>pb_batch_id = batch_id, pb_events = [], pb_source_status = p\<rparr> (take 128 (sl_queue s'))" by auto
    show ?thesis using fill_batch_prefix [of cf "\<lparr>pb_batch_id = batch_id, pb_events = [], pb_source_status = p\<rparr>" "take 128 (sl_queue s')"] by (auto simp: b)
  qed
  moreover have "pb_batch_id b = batch_id" if "out = Some b" for b using that out by auto
  ultimately show ?thesis using expire_accounts expire_ok [OF assms(2)] s' by blast
qed

section \<open>Acknowledgements\<close>

text \<open>The facts an answer reports as stored.\<close>

definition stored_by :: "power_result list \<Rightarrow> power_event list \<Rightarrow> power_event set" where
  "stored_by rs q = {spool_stable e | e r. e \<in> set q \<and> r \<in> set rs \<and> pd_disposition r = Accepted \<and> pd_identifier r = pv_identifier e}"

lemma settle_one:
  assumes "distinct_queue s"
  shows "\<exists>P. sl_queue (settle_dispositions at [r] s) = filter P (sl_queue s) \<and> accounts s {} (stored_by [r] (sl_queue s)) (settle_dispositions at [r] s)"
proof (cases "pd_disposition r = RetryLater \<or> queued (pd_identifier r) s = None")
  case True
  then show ?thesis using accounts_refl by (intro exI [of _ "\<lambda>_. True"]) auto
next
  case False
  then obtain old where old: "queued (pd_identifier r) s = Some old" by auto
  have mem: "old \<in> set (sl_queue s)" "pv_identifier old = pd_identifier r" using queued_Some [OF old] by auto
  have only: "e = old" if "e \<in> set (sl_queue s)" "pv_identifier e = pd_identifier r" for e
    using assms that mem by (metis distinct_queue_def distinct_map inj_onD)
  let ?s' = "settle_dispositions at [r] s"
  have q: "sl_queue ?s' = filter (\<lambda>e. pv_identifier e \<noteq> pd_identifier r) (sl_queue s)" using False by (auto simp: Let_def)
  have sub: "facts (sl_queue s) \<subseteq> insert (spool_stable old) (facts (sl_queue ?s'))" using only q unfolding facts_def by auto
  have "accounts s {} (stored_by [r] (sl_queue s)) ?s'"
  proof (cases "pd_disposition r = Rejected")
    case True
    then have "losses ?s' = losses s + 1" using False by (auto simp: Let_def losses_def)
    then show ?thesis using sub unfolding accounts_def by (intro exI [of _ "{spool_stable old}"]) auto
  next
    case rej: False
    then have "pd_disposition r = Accepted" using False by (cases "pd_disposition r") auto
    then have "spool_stable old \<in> stored_by [r] (sl_queue s)" using mem unfolding stored_by_def by auto
    moreover have "losses ?s' = losses s" using False rej by (auto simp: Let_def losses_def)
    ultimately show ?thesis using sub unfolding accounts_def by (intro exI [of _ "{}"]) auto
  qed
  with q show ?thesis by blast
qed

lemma settle_cons: "settle_dispositions at (r # rs) s = settle_dispositions at rs (settle_dispositions at [r] s)"
  by simp

declare settle_dispositions.simps(2) [simp del]

lemma stored_by_mono: "set q \<subseteq> set q' \<Longrightarrow> set rs \<subseteq> set rs' \<Longrightarrow> stored_by rs q \<subseteq> stored_by rs' q'"
  unfolding stored_by_def by blast

lemma settle_ok:
  "distinct_queue s \<Longrightarrow>
   (\<exists>P. sl_queue (settle_dispositions at rs s) = filter P (sl_queue s)) \<and> accounts s {} (stored_by rs (sl_queue s)) (settle_dispositions at rs s)"
proof (induction rs arbitrary: s)
  case Nil
  then show ?case using accounts_refl by (auto intro!: exI [of _ "\<lambda>_. True"])
next
  case (Cons r rs)
  let ?s1 = "settle_dispositions at [r] s"
  obtain P where P: "sl_queue ?s1 = filter P (sl_queue s)" and a1: "accounts s {} (stored_by [r] (sl_queue s)) ?s1"
    using settle_one [OF Cons.prems] by blast
  have d1: "distinct_queue ?s1" using distinct_queue_sub [OF Cons.prems P] .
  obtain Q where Q: "sl_queue (settle_dispositions at rs ?s1) = filter Q (sl_queue ?s1)"
    and a2: "accounts ?s1 {} (stored_by rs (sl_queue ?s1)) (settle_dispositions at rs ?s1)"
    using Cons.IH [OF d1] by blast
  have "accounts s {} (stored_by (r # rs) (sl_queue s)) ?s1"
    by (rule accounts_mono [OF a1 _ stored_by_mono]) auto
  moreover have "accounts ?s1 {} (stored_by (r # rs) (sl_queue s)) (settle_dispositions at rs ?s1)"
    by (rule accounts_mono [OF a2 _ stored_by_mono]) (auto simp: P)
  ultimately have "accounts s {} (stored_by (r # rs) (sl_queue s)) (settle_dispositions at (r # rs) s)"
    using accounts_trans [of s "{}" _ ?s1 "{}"] by (metis settle_cons Un_empty_left)
  moreover have "sl_queue (settle_dispositions at (r # rs) s) = filter (\<lambda>e. P e \<and> Q e) (sl_queue s)"
    unfolding settle_cons [of at r rs] Q P by (simp add: conj_commute)
  ultimately show ?case by blast
qed

text \<open>Of the acknowledged batch only what the answer says was stored leaves the queue uncounted.\<close>

definition confirmed :: "power_batch \<Rightarrow> power_ack \<Rightarrow> power_event set" where
  "confirmed b a = {spool_stable e | e r. (e, r) \<in> set (zip (pb_events b) (pa_results a)) \<and> pd_disposition r = Accepted}"

lemma stored_is_confirmed:
  assumes "map pd_identifier (pa_results a) = map pv_identifier (pb_events b)" "\<not> conflicting b s" "distinct_queue s"
  shows "stored_by (pa_results a) (sl_queue s) \<subseteq> confirmed b a"
proof
  fix f assume "f \<in> stored_by (pa_results a) (sl_queue s)"
  then obtain e r where f: "f = spool_stable e" and e: "e \<in> set (sl_queue s)" and r: "r \<in> set (pa_results a)"
    and acc: "pd_disposition r = Accepted" and eq: "pd_identifier r = pv_identifier e"
    by (auto simp: stored_by_def)
  from r obtain i where i: "i < length (pa_results a)" "pa_results a ! i = r" by (auto simp: in_set_conv_nth)
  have len: "length (pa_results a) = length (pb_events b)" using assms(1) by (metis length_map)
  let ?b = "pb_events b ! i"
  have idb: "pv_identifier ?b = pv_identifier e" using assms(1) i len eq by (metis nth_map)
  have "queued (pv_identifier ?b) s = Some e"
  proof (cases "queued (pv_identifier ?b) s")
    case None
    then show ?thesis using e idb by (simp add: queued_None)
  next
    case (Some old)
    have "old = e" using queued_Some [OF Some] e idb assms(3) by (metis distinct_queue_def distinct_map inj_onD)
    with Some show ?thesis by simp
  qed
  moreover have "?b \<in> set (pb_events b)" using i len by simp
  ultimately have "spool_stable e = spool_stable ?b" using assms(2) unfolding conflicting_def list_ex_iff by fastforce
  moreover have "(?b, r) \<in> set (zip (pb_events b) (pa_results a))" using i len by (auto simp: set_zip)
  ultimately show "f \<in> confirmed b a" using f acc unfolding confirmed_def by blast
qed

lemma acknowledge_ok:
  assumes "spool_acknowledge b a s = Inr (s', matched)" "spool_ok cf s"
  shows "accounts s {} (confirmed b a) s' \<and> spool_ok cf s' \<and> (matched \<longrightarrow> pa_batch_id a = pb_batch_id b) \<and> (\<not> matched \<longrightarrow> s' = s)"
proof (cases "pa_batch_id a \<noteq> pb_batch_id b \<or> map pd_identifier (pa_results a) \<noteq> map pv_identifier (pb_events b) \<or> conflicting b s")
  case True
  then have "s' = s \<and> \<not> matched" using assms(1) by (auto simp: spool_acknowledge_def in_transaction_Inr split: if_splits)
  then show ?thesis using assms(2) accounts_refl by auto
next
  case False
  let ?t = "settle_dispositions (pa_persisted_at a) (pa_results a) s"
  have d: "distinct_queue s" using assms(2) by (simp add: spool_ok_def)
  have s': "s' = trim_quarantine (pa_persisted_at a) ?t" "matched"
    using assms(1) False by (auto simp: spool_acknowledge_def in_transaction_Inr)
  have same: "sl_queue s' = sl_queue ?t" "losses s' = losses ?t" by (simp_all add: s' trim_quarantine_def Let_def losses_def)
  obtain P where P: "sl_queue ?t = filter P (sl_queue s)" using settle_ok [OF d] by blast
  have "stored_by (pa_results a) (sl_queue s) \<subseteq> confirmed b a" using stored_is_confirmed False d by blast
  then have "accounts s {} (confirmed b a) ?t" using settle_ok [OF d] by (blast intro: accounts_mono)
  moreover have "spool_ok cf ?t" using assms(2) P distinct_queue_sub [OF d P] within_filter by (auto simp: spool_ok_def)
  ultimately show ?thesis using accounts_cong [OF same] spool_ok_cong [OF same(1)] False s'(2) by simp
qed

end
