(* ===== verification/Power_Server_Laws.thy ===== *)
theory Power_Server_Laws
  imports Power_Laws
begin

text \<open>
  The server's half: a fact answered as accepted is a row, rows stay unique by identifier and by native record, and the
  state kept for a source when report times tie does not depend on the order or the number of the reports.
\<close>

section \<open>Reports with one time\<close>

lemma availability_at_order [simp]: "availability_at (availability_order a) = a"
  by (cases a) (simp_all add: availability_at_def)

lemma availability_order_bound: "availability_order a \<le> 3"
  by (cases a) simp_all

lemma availability_order_at [simp]: "n \<le> 3 \<Longrightarrow> availability_order (availability_at n) = n"
proof -
  assume "n \<le> 3"
  then consider "n = 0" | "n = 1" | "n = 2" | "n = 3" by linarith
  then show ?thesis by cases (simp_all add: availability_at_def)
qed

definition code_points :: "string \<Rightarrow> nat list" where
  "code_points a = map of_char a"

lemma code_points_inj: "code_points a = code_points b \<longleftrightarrow> a = b"
  by (simp add: code_points_def inj_map_eq_map inj_of_char)

lemma min_text_alt: "min_text a b = (if lexordp_eq (code_points a) (code_points b) then a else b)"
  by (simp add: min_text_def code_points_def)

lemma min_text_commute: "min_text a b = min_text b a"
  using lexordp_eq_antisym [of "code_points a" "code_points b"] lexordp_eq_linear [of "code_points a" "code_points b"]
  by (auto simp: min_text_alt code_points_inj)

lemma min_text_idem [simp]: "min_text a a = a"
  by (simp add: min_text_def)

lemma min_text_assoc: "min_text (min_text a b) c = min_text a (min_text b c)"
  using lexordp_eq_trans [of "code_points a" "code_points b" "code_points c"] lexordp_eq_linear [of "code_points a" "code_points b"]
    lexordp_eq_trans [of "code_points c" "code_points b" "code_points a"] lexordp_eq_linear [of "code_points b" "code_points c"]
    lexordp_eq_antisym [of "code_points a" "code_points c"]
  by (auto simp: min_text_alt code_points_inj)

lemma merge_coverage_laws:
  "merge_coverage a b = merge_coverage b a" "merge_coverage a a = a"
  "merge_coverage (merge_coverage a b) c = merge_coverage a (merge_coverage b c)"
  by (auto simp: merge_coverage_def max.commute max.assoc split: option.splits)

definition tie_rank :: "power_status \<Rightarrow> power_status \<Rightarrow> nat" where
  "tie_rank x y = max (max (availability_order (pt_availability x)) (availability_order (pt_availability y))) (if pt_source x \<noteq> pt_source y then 1 else 0)"

lemma tie_rank_bound: "tie_rank x y \<le> 3"
  using availability_order_bound [of "pt_availability x"] availability_order_bound [of "pt_availability y"] by (simp add: tie_rank_def)

lemma merge_source_tie_fields [simp]:
  "pt_availability (merge_source_tie x y) = availability_at (tie_rank x y)"
  "availability_order (availability_at (tie_rank x y)) = tie_rank x y"
  "pt_source (merge_source_tie x y) = min_text (pt_source x) (pt_source y)"
  "pt_reported_at (merge_source_tie x y) = pt_reported_at x"
  "pt_loss_count (merge_source_tie x y) = max (pt_loss_count x) (pt_loss_count y)"
  "pt_reset_count (merge_source_tie x y) = max (pt_reset_count x) (pt_reset_count y)"
  "pt_coverage_started_at (merge_source_tie x y) = merge_coverage (pt_coverage_started_at x) (pt_coverage_started_at y)"
  using tie_rank_bound [of x y] by (simp_all add: merge_source_tie_def tie_rank_def)

lemma tie_rank_commute: "tie_rank x y = tie_rank y x"
  by (simp add: tie_rank_def max.commute)

lemma merge_commute: "pt_reported_at x = pt_reported_at y \<Longrightarrow> merge_source_tie x y = merge_source_tie y x"
  by (rule power_status.equality)
    (simp_all add: min_text_commute [of "pt_source x"] merge_coverage_laws(1) [of "pt_coverage_started_at x"] tie_rank_commute [of x] max.commute)

lemma merge_idem: "merge_source_tie x x = x"
  by (rule power_status.equality) (simp_all add: merge_coverage_laws(2) tie_rank_def)

lemma min_text_cases: "min_text a b = a \<or> min_text a b = b"
  by (simp add: min_text_def)

lemma tie_rank_merge:
  "tie_rank (merge_source_tie x y) z =
     max (max (max (availability_order (pt_availability x)) (availability_order (pt_availability y))) (availability_order (pt_availability z)))
       (if pt_source x = pt_source y \<and> pt_source y = pt_source z then 0 else 1)"
proof -
  have "max (tie_rank x y) (if min_text (pt_source x) (pt_source y) \<noteq> pt_source z then 1 else 0) =
      max (max (availability_order (pt_availability x)) (availability_order (pt_availability y)))
        (if pt_source x = pt_source y \<and> pt_source y = pt_source z then 0 else 1)"
    using min_text_cases [of "pt_source x" "pt_source y"] by (cases "pt_source x = pt_source y") (simp_all add: tie_rank_def)
  then show ?thesis by (simp add: tie_rank_def [of "merge_source_tie x y"] max.assoc max.left_commute)
qed

lemma tie_rank_assoc: "tie_rank (merge_source_tie x y) z = tie_rank x (merge_source_tie y z)"
  unfolding tie_rank_commute [of x] tie_rank_merge by (auto simp: max.assoc max.commute max.left_commute)

lemma merge_assoc: "merge_source_tie (merge_source_tie x y) z = merge_source_tie x (merge_source_tie y z)"
  by (rule power_status.equality) (simp_all add: tie_rank_assoc min_text_assoc merge_coverage_laws(3) max.assoc)

text \<open>Later reports replace earlier ones; reports of one time merge.\<close>

definition join_status :: "power_status \<Rightarrow> power_status \<Rightarrow> power_status" where
  "join_status x y =
     (if pt_reported_at x < pt_reported_at y then y else if pt_reported_at y = pt_reported_at x then merge_source_tie x y else x)"

definition join_known :: "power_status \<Rightarrow> power_status option \<Rightarrow> power_status option" where
  "join_known y k = (case k of None \<Rightarrow> Some y | Some x \<Rightarrow> Some (join_status x y))"

lemma join_idem: "join_status x x = x"
  by (simp add: join_status_def merge_idem)

lemma join_commute: "join_status x y = join_status y x"
  by (auto simp: join_status_def intro: merge_commute)

lemma join_assoc: "join_status (join_status x y) z = join_status x (join_status y z)"
  by (auto simp: join_status_def merge_assoc)

interpretation status_join: comp_fun_idem join_known
proof
  fix x y
  show "join_known y \<circ> join_known x = join_known x \<circ> join_known y"
  proof
    fix k show "(join_known y \<circ> join_known x) k = (join_known x \<circ> join_known y) k"
      using join_assoc [of _ x y] join_assoc [of _ y x] join_commute [of x y] by (auto simp: join_known_def split: option.splits)
  qed
  show "join_known x \<circ> join_known x = join_known x"
  proof
    fix k show "(join_known x \<circ> join_known x) k = join_known x k"
      using join_assoc [of _ x x] join_idem [of x] by (auto simp: join_known_def split: option.splits)
  qed
qed

definition current_status :: "uuid \<Rightarrow> power_store \<Rightarrow> power_status option" where
  "current_status d db = map_option so_status (find_row so_device_id d (st_sources db))"

definition admissible :: "power_status \<times> instant \<Rightarrow> bool" where
  "admissible sa \<longleftrightarrow> snd sa - power_retention \<le> pt_reported_at (fst sa) \<and> pt_reported_at (fst sa) \<le> snd sa + minutes 5"

definition observe_all :: "uuid \<Rightarrow> (power_status \<times> instant) list \<Rightarrow> power_store \<Rightarrow> power_store" where
  "observe_all d rs db = fold (\<lambda>(status, at). observe_source d status at) rs db"

lemma observe_source_status:
  "current_status d (observe_source d status at db) =
     (if admissible (status, at) then join_known status (current_status d db) else current_status d db)"
proof (cases "find_row so_device_id d (st_sources db)")
  case None
  then show ?thesis
    by (simp add: observe_source_def current_status_def admissible_def join_known_def find_row_append find_row_def [of _ _ "[_]"])
next
  case (Some st)
  have "so_device_id st = d" "d \<in> so_device_id ` set (st_sources db)" using find_row_SomeD [OF Some] by auto
  then show ?thesis using Some
    by (simp add: observe_source_def current_status_def admissible_def join_known_def join_status_def find_row_store_row)
qed

lemma observe_all_status:
  "current_status d (observe_all d rs db) = fold join_known (map fst (filter admissible rs)) (current_status d db)"
  by (induction rs arbitrary: db) (auto simp: observe_all_def observe_source_status)

lemma observe_all_set:
  "current_status d (observe_all d rs db) = Finite_Set.fold join_known (current_status d db) (fst ` {sa \<in> set rs. admissible sa})"
proof -
  have "fst ` {sa \<in> set rs. admissible sa} = set (map fst (filter admissible rs))" by auto
  then show ?thesis by (metis observe_all_status status_join.fold_set_fold)
qed

section \<open>Rows\<close>

lemma same_fact_stable: "same_fact a b \<longleftrightarrow> spool_stable a = spool_stable b"
  by (cases a; cases b) (auto simp: same_fact_def spool_stable_def server_stable_def)

definition stored :: "uuid \<Rightarrow> power_store \<Rightarrow> power_event set" where
  "stored d db = spool_stable ` pr_event ` {r \<in> set (st_rows db). pr_device_id r = d}"

lemma stored_iff: "f \<in> stored d db \<longleftrightarrow> (\<exists>r\<in>set (st_rows db). pr_device_id r = d \<and> f = spool_stable (pr_event r))"
  by (auto simp: stored_def)

text \<open>Rows carry what they were made of, and no two rows of a device share an identifier or a native record.\<close>

definition row_of :: "server_codec \<Rightarrow> power_row \<Rightarrow> bool" where
  "row_of cd r \<longleftrightarrow> pr_identifier r = pv_identifier (pr_event r) \<and> pr_source_key r = native_key cd (pr_event r)"

definition store_ok :: "server_codec \<Rightarrow> power_store \<Rightarrow> bool" where
  "store_ok cd db \<longleftrightarrow> list_all (row_of cd) (st_rows db) \<and> distinct (map pr_id (st_rows db))
     \<and> distinct (map (\<lambda>r. (pr_device_id r, pr_identifier r)) (st_rows db)) \<and> distinct (map (\<lambda>r. (pr_device_id r, pr_source_key r)) (st_rows db))"

definition fresh_ids :: "(nat \<Rightarrow> uuid) \<Rightarrow> power_store \<Rightarrow> bool" where
  "fresh_ids gen db \<longleftrightarrow> inj gen \<and> (\<forall>n. gen n \<notin> pr_id ` set (st_rows db))"

lemma ingest_event_cases:
  assumes "ingest_event cd identity d e at db = Inr db'"
  obtains (again) r where "r \<in> set (st_rows db)" "pr_device_id r = d" "same_fact (pr_event r) e" "db' = db"
  | (first) r where "row_of cd r" "pr_id r = identity" "pr_device_id r = d" "pr_event r = e" "known_rows cd d e (st_rows db) = []"
      "db' = db\<lparr>st_rows := st_rows db @ [r]\<rparr>"
proof (cases "known_rows cd d e (st_rows db) = []")
  case True
  with assms show ?thesis by (intro first) (auto simp: ingest_event_def Let_def row_of_def split: if_splits)
next
  case False
  then obtain r rs where k: "known_rows cd d e (st_rows db) = r # rs" by (cases "known_rows cd d e (st_rows db)") auto
  then have "r \<in> set (known_rows cd d e (st_rows db))" by simp
  then have "r \<in> set (st_rows db)" "pr_device_id r = d" by (auto simp: known_rows_def)
  moreover have "same_fact (pr_event r) e" "db' = db" using assms k by (auto simp: ingest_event_def Let_def split: if_splits)
  ultimately show ?thesis by (rule again)
qed

lemma ingest_event_ok:
  assumes "ingest_event cd identity d e at db = Inr db'" "store_ok cd db" "identity \<notin> pr_id ` set (st_rows db)"
  shows "store_ok cd db' \<and> spool_stable e \<in> stored d db' \<and> set (st_rows db) \<subseteq> set (st_rows db')
    \<and> (\<forall>r\<in>set (st_rows db') - set (st_rows db). pr_id r = identity \<and> pr_device_id r = d)"
  using assms(1)
proof (cases rule: ingest_event_cases)
  case (again r)
  then have "spool_stable e \<in> stored d db" unfolding stored_iff same_fact_stable by metis
  with again assms(2) show ?thesis by simp
next
  case (first r)
  have new: "(pr_device_id x, pr_identifier x) \<noteq> (d, pv_identifier e)" "(pr_device_id x, pr_source_key x) \<noteq> (d, native_key cd e)"
    if "x \<in> set (st_rows db)" for x
    using first(5) that by (auto simp: known_rows_def filter_empty_conv)
  have rd: "(pr_device_id r, pr_identifier r) = (d, pv_identifier e)" "(pr_device_id r, pr_source_key r) = (d, native_key cd e)"
    using first(1,3,4) by (simp_all add: row_of_def)
  have "store_ok cd db'"
    using assms(2,3) new first(1,2) unfolding store_ok_def first(6) by (fastforce simp: rd)
  moreover have "spool_stable e \<in> stored d db'" unfolding stored_iff first(6) using first(3,4) by simp
  ultimately show ?thesis using first by auto
qed

lemma ingest_events_ok:
  assumes "ingest_events cd gen d es at db = (db', rs)" "store_ok cd db" "fresh_ids gen db"
  shows "store_ok cd db' \<and> set (st_rows db) \<subseteq> set (st_rows db') \<and> map pd_identifier rs = map pv_identifier es
    \<and> (\<forall>(e, r)\<in>set (zip es rs). pd_disposition r = Accepted \<longrightarrow> spool_stable e \<in> stored d db') \<and> (\<forall>x. x \<noteq> d \<longrightarrow> stored x db' = stored x db)"
  using assms
proof (induction es arbitrary: gen db rs)
  case Nil
  then show ?case by simp
next
  case (Cons e es)
  let ?gen = "\<lambda>n. gen (Suc n)"
  show ?case
  proof (cases "ingest_event cd (gen 0) d e at db")
    case (Inl reason)
    obtain rs' where rs: "ingest_events cd ?gen d es at db = (db', rs')"
        "rs = \<lparr>pd_identifier = pv_identifier e, pd_disposition = Rejected, pd_reason_code = reason\<rparr> # rs'"
      using Cons.prems(1) Inl by (auto split: prod.splits)
    have "fresh_ids ?gen db" using Cons.prems(3) by (auto simp: fresh_ids_def inj_def)
    with Cons.IH [OF rs(1) Cons.prems(2)] show ?thesis unfolding rs(2) by simp
  next
    case (Inr db1)
    obtain rs' where rs: "ingest_events cd ?gen d es at db1 = (db', rs')"
        "rs = \<lparr>pd_identifier = pv_identifier e, pd_disposition = Accepted, pd_reason_code = ''persisted''\<rparr> # rs'"
      using Cons.prems(1) Inr by (auto split: prod.splits)
    have g0: "gen 0 \<notin> pr_id ` set (st_rows db)" using Cons.prems(3) by (simp add: fresh_ids_def)
    note one = ingest_event_ok [OF Inr Cons.prems(2) g0]
    have "gen (Suc n) \<notin> pr_id ` set (st_rows db1)" for n
    proof
      assume "gen (Suc n) \<in> pr_id ` set (st_rows db1)"
      then obtain x where x: "x \<in> set (st_rows db1)" "pr_id x = gen (Suc n)" by auto
      show False
      proof (cases "x \<in> set (st_rows db)")
        case True
        then show False using x(2) Cons.prems(3) unfolding fresh_ids_def by (metis imageI)
      next
        case False
        then have "gen (Suc n) = gen 0" using one x by auto
        then show False using Cons.prems(3) by (auto simp: fresh_ids_def inj_def)
      qed
    qed
    then have "fresh_ids ?gen db1" using Cons.prems(3) by (auto simp: fresh_ids_def inj_def)
    note rest = Cons.IH [OF rs(1) _ this]
    have "stored x db1 = stored x db" if "x \<noteq> d" for x
      using one that unfolding set_eq_iff stored_iff by blast
    moreover have "stored d db1 \<subseteq> stored d db'" using rest one unfolding stored_def by blast
    ultimately show ?thesis using one rest unfolding rs(2) by auto
  qed
qed

lemma observe_source_rows [simp]: "st_rows (observe_source d status at db) = st_rows db"
  by (simp add: observe_source_def split: option.splits)

lemma ingest_batch_ok:
  assumes "ingest_power_batch cd gen d b at db = (db', a)" "store_ok cd db" "fresh_ids gen db"
  shows "store_ok cd db' \<and> set (st_rows db) \<subseteq> set (st_rows db') \<and> pa_batch_id a = pb_batch_id b \<and> confirmed b a \<subseteq> stored d db'
    \<and> map pd_identifier (pa_results a) = map pv_identifier (pb_events b)
    \<and> (\<forall>x. x \<noteq> d \<longrightarrow> stored x db' = stored x db)"
proof -
  let ?db0 = "observe_source d (pb_source_status b) at db"
  have pre: "store_ok cd ?db0" "fresh_ids gen ?db0" using assms(2,3) by (simp_all add: store_ok_def fresh_ids_def)
  obtain rs where i: "ingest_events cd gen d (pb_events b) at ?db0 = (db', rs)" and a: "a = \<lparr>pa_batch_id = pb_batch_id b, pa_persisted_at = at, pa_results = rs\<rparr>"
    using assms(1) by (auto simp: ingest_power_batch_def split: prod.splits)
  have "stored x ?db0 = stored x db" for x by (simp add: stored_def)
  then show ?thesis using ingest_events_ok [OF i pre] by (auto simp: a confirmed_def)
qed

section \<open>Retention\<close>

lemma retain_ok:
  assumes "retain_power_events now limit db = Some (db', n)" "store_ok cd db"
  shows "store_ok cd db' \<and> (\<forall>d. stored d db \<subseteq> stored d db' \<union> {f. pv_occurred_at f < now - power_retention})"
proof -
  define old where "old = take (nat limit) (sort_key (\<lambda>r. (pv_occurred_at (pr_event r), pr_id r))
                    (filter (\<lambda>r. pv_occurred_at (pr_event r) < now - power_retention) (st_rows db)))"
  have db': "st_rows db' = filter (\<lambda>r. pr_id r \<notin> set (map pr_id old)) (st_rows db)"
    using assms(1) by (auto simp: retain_power_events_def old_def Let_def split: if_splits)
  have old: "r \<in> set (st_rows db) \<and> pv_occurred_at (pr_event r) < now - power_retention" if "r \<in> set old" for r
    using that set_take_subset unfolding old_def by fastforce
  have "store_ok cd db'" using assms(2) unfolding store_ok_def db' by (auto simp: list_all_iff distinct_map_filter)
  moreover have "stored d db \<subseteq> stored d db' \<union> {f. pv_occurred_at f < now - power_retention}" for d
  proof
    fix f assume "f \<in> stored d db"
    then obtain r where r: "r \<in> set (st_rows db)" "pr_device_id r = d" "f = spool_stable (pr_event r)" by (auto simp: stored_def)
    show "f \<in> stored d db' \<union> {f. pv_occurred_at f < now - power_retention}"
    proof (cases "pr_id r \<in> set (map pr_id old)")
      case True
      then obtain o' where "o' \<in> set old" "pr_id o' = pr_id r" by auto
      moreover have "inj_on pr_id (set (st_rows db))" using assms(2) by (simp add: store_ok_def distinct_map)
      ultimately have "o' = r" using old r(1) by (meson inj_onD)
      with old \<open>o' \<in> set old\<close> r(3) show ?thesis by (auto simp: spool_stable_def)
    next
      case False
      with r show ?thesis by (auto simp: stored_def db')
    qed
  qed
  ultimately show ?thesis by blast
qed

end
