(* ===== verification/Power_Pipeline.thy ===== *)
theory Power_Pipeline
  imports Power_Server_Laws
begin

text \<open>
  The delivery of power evidence as a whole: \<open>pc_agent/power/runtime.py\<close> between the queue and the network, a network that
  delivers a batch late, again or never, the server of \<open>endpoint_server/power/ingestion.py\<close> and its retention. Native
  sources are parameters: \<open>read\<close> is \<open>read_page\<close>, with \<open>None\<close> when it raises or has not finished in time.
\<close>

section \<open>The runtime of the agent\<close>

record power_runtime =
  rt_spool :: power_spool
  rt_inflight :: "power_batch option"
  rt_acked :: bool

definition runtime_open :: "power_runtime \<Rightarrow> power_runtime" where
  "runtime_open rt = rt\<lparr>rt_spool := spool_open (rt_spool rt)\<rparr>"

definition runtime_record :: "spool_config \<Rightarrow> power_event \<Rightarrow> instant \<Rightarrow> power_runtime \<Rightarrow> power_runtime \<times> bool" where
  "runtime_record cf e now rt =
     (let rt1 = runtime_open rt
      in case spool_record cf e now (rt_spool rt1) of Inl _ \<Rightarrow> (rt1, False) | Inr s \<Rightarrow> (rt1\<lparr>rt_spool := s\<rparr>, True))"

definition collect_failed :: "string \<Rightarrow> instant \<Rightarrow> power_runtime \<Rightarrow> power_runtime" where
  "collect_failed source now rt =
     (case set_unavailable source now (rt_spool rt) of Inl _ \<Rightarrow> rt | Inr s \<Rightarrow> rt\<lparr>rt_spool := s\<rparr>)"

definition collect_once ::
  "spool_config \<Rightarrow> string \<Rightarrow> (string option \<Rightarrow> native_page option) \<Rightarrow> instant \<Rightarrow> power_runtime \<Rightarrow> power_runtime \<times> native_page option" where
  "collect_once cf source read now rt =
     (let rt1 = runtime_open rt
      in case read (sl_checkpoint (rt_spool rt1)) of
           None \<Rightarrow> (collect_failed source now rt1, None)
         | Some page \<Rightarrow>
             (case commit_page cf page now (rt_spool rt1) of
                Inl _ \<Rightarrow> (collect_failed source now rt1, None)
              | Inr s \<Rightarrow> (rt1\<lparr>rt_spool := s\<rparr>, Some page)))"

definition receive_ack :: "power_ack \<Rightarrow> power_runtime \<Rightarrow> power_runtime \<times> bool" where
  "receive_ack a rt =
     (case rt_inflight rt of
        None \<Rightarrow> (rt, False)
      | Some b \<Rightarrow>
          (case spool_acknowledge b a (rt_spool rt) of
             Inl _ \<Rightarrow> (rt, False)
           | Inr (s, matched) \<Rightarrow> (rt\<lparr>rt_spool := s, rt_acked := rt_acked rt \<or> matched\<rparr>, matched)))"

text \<open>One round of \<open>send_forever\<close>: a batch is taken while none is in flight, sent until it is acknowledged, and dropped.\<close>

definition send_prepare :: "spool_config \<Rightarrow> uuid \<Rightarrow> instant \<Rightarrow> power_runtime \<Rightarrow> power_runtime \<times> power_batch option" where
  "send_prepare cf batch_id now rt =
     (let rt1 = runtime_open rt
      in case next_batch cf batch_id now (rt_spool rt1) of
           Inl _ \<Rightarrow> (rt1, None)
         | Inr (s, None) \<Rightarrow> (rt1\<lparr>rt_spool := s\<rparr>, None)
         | Inr (s, Some b) \<Rightarrow> (rt1\<lparr>rt_spool := s, rt_inflight := Some b, rt_acked := False\<rparr>, Some b))"

definition send_attempt :: "power_runtime \<Rightarrow> power_batch option" where
  "send_attempt rt = (if rt_acked rt then None else rt_inflight rt)"

definition send_finish :: "power_runtime \<Rightarrow> power_runtime" where
  "send_finish rt = (if rt_acked rt then rt\<lparr>rt_inflight := None\<rparr> else rt)"

definition send_abort :: "power_runtime \<Rightarrow> power_runtime" where
  "send_abort rt = rt\<lparr>rt_inflight := None\<rparr>"

definition runtime_restart :: "power_runtime \<Rightarrow> power_runtime" where
  "runtime_restart rt = \<lparr>rt_spool = (rt_spool rt)\<lparr>sl_opened := False\<rparr>, rt_inflight = None, rt_acked = False\<rparr>"

section \<open>Agent, network and server\<close>

record power_system =
  ys_runtime :: power_runtime
  ys_used :: "uuid set"
  ys_wire :: "power_batch set"
  ys_acks :: "power_ack set"
  ys_store :: power_store
  ys_taken :: "power_event set"
  ys_horizon :: "instant option"

definition power_start :: "power_store \<Rightarrow> power_system" where
  "power_start db = \<lparr>ys_runtime = \<lparr>rt_spool = empty_spool, rt_inflight = None, rt_acked = False\<rparr>, ys_used = {}, ys_wire = {}, ys_acks = {},
     ys_store = db, ys_taken = {}, ys_horizon = None\<rparr>"

definition page_facts :: "native_page option \<Rightarrow> power_event set" where
  "page_facts p = (case p of None \<Rightarrow> {} | Some page \<Rightarrow> facts (np_events page))"

definition later_horizon :: "instant option \<Rightarrow> instant \<Rightarrow> instant option" where
  "later_horizon h t = Some (case h of None \<Rightarrow> t | Some u \<Rightarrow> max u t)"

text \<open>Two further fields record history: the facts committed with the cursor, and how far retention has gone.\<close>

inductive power_step :: "spool_config \<Rightarrow> server_codec \<Rightarrow> uuid \<Rightarrow> power_system \<Rightarrow> power_system \<Rightarrow> bool"
  for cf :: spool_config and cd :: server_codec and device :: uuid where
  collect: "collect_once cf source read now (ys_runtime y) = (rt, page) \<Longrightarrow>
     power_step cf cd device y (y\<lparr>ys_runtime := rt, ys_taken := ys_taken y \<union> page_facts page\<rparr>)"
| callback: "runtime_record cf e now (ys_runtime y) = (rt, taken) \<Longrightarrow>
     power_step cf cd device y (y\<lparr>ys_runtime := rt, ys_taken := ys_taken y \<union> (if taken then {spool_stable e} else {})\<rparr>)"
| prepare: "rt_inflight (ys_runtime y) = None \<Longrightarrow> batch_id \<notin> ys_used y \<Longrightarrow> send_prepare cf batch_id now (ys_runtime y) = (rt, out) \<Longrightarrow>
     power_step cf cd device y (y\<lparr>ys_runtime := rt, ys_used := insert batch_id (ys_used y)\<rparr>)"
| transmit: "send_attempt (ys_runtime y) = Some b \<Longrightarrow> power_step cf cd device y (y\<lparr>ys_wire := insert b (ys_wire y)\<rparr>)"
| finish: "power_step cf cd device y (y\<lparr>ys_runtime := send_finish (ys_runtime y)\<rparr>)"
| abort: "power_step cf cd device y (y\<lparr>ys_runtime := send_abort (ys_runtime y)\<rparr>)"
| restart: "power_step cf cd device y (y\<lparr>ys_runtime := runtime_restart (ys_runtime y)\<rparr>)"
| serve: "b \<in> ys_wire y \<Longrightarrow> fresh_ids gen (ys_store y) \<Longrightarrow> ingest_power_batch cd gen device b at (ys_store y) = (db, a) \<Longrightarrow>
     power_step cf cd device y (y\<lparr>ys_store := db, ys_acks := insert a (ys_acks y)\<rparr>)"
| other_device: "d \<noteq> device \<Longrightarrow> fresh_ids gen (ys_store y) \<Longrightarrow> ingest_power_batch cd gen d b at (ys_store y) = (db, a) \<Longrightarrow>
     power_step cf cd device y (y\<lparr>ys_store := db\<rparr>)"
| receive: "a \<in> ys_acks y \<Longrightarrow> receive_ack a (ys_runtime y) = (rt, matched) \<Longrightarrow> power_step cf cd device y (y\<lparr>ys_runtime := rt\<rparr>)"
| retain: "retain_power_events now limit (ys_store y) = Some (db, n) \<Longrightarrow>
     power_step cf cd device y (y\<lparr>ys_store := db, ys_horizon := later_horizon (ys_horizon y) (now - power_retention)\<rparr>)"

inductive_cases power_stepE: "power_step cf cd device y y'"

section \<open>Nothing goes missing\<close>

definition aged :: "instant option \<Rightarrow> power_event set" where
  "aged h = (case h of None \<Rightarrow> {} | Some t \<Rightarrow> {f. pv_occurred_at f < t})"

definition safe :: "uuid \<Rightarrow> power_system \<Rightarrow> power_event set" where
  "safe d y = stored d (ys_store y) \<union> aged (ys_horizon y)"

definition accounted :: "uuid \<Rightarrow> power_system \<Rightarrow> bool" where
  "accounted d y \<longleftrightarrow>
     (\<exists>lost. finite lost \<and> int (card lost) \<le> losses (rt_spool (ys_runtime y))
       \<and> ys_taken y \<subseteq> facts (sl_queue (rt_spool (ys_runtime y))) \<union> lost \<union> safe d y)"

definition batches_of :: "power_system \<Rightarrow> power_batch set" where
  "batches_of y = set_option (rt_inflight (ys_runtime y)) \<union> ys_wire y"

definition batches_ok :: "power_system \<Rightarrow> bool" where
  "batches_ok y \<longleftrightarrow> inj_on pb_batch_id (batches_of y) \<and> pb_batch_id ` batches_of y \<subseteq> ys_used y"

definition acks_ok :: "uuid \<Rightarrow> power_system \<Rightarrow> bool" where
  "acks_ok d y \<longleftrightarrow> (\<forall>a\<in>ys_acks y. \<exists>b\<in>ys_wire y. pa_batch_id a = pb_batch_id b \<and> confirmed b a \<subseteq> safe d y)"

definition pipeline_inv :: "spool_config \<Rightarrow> server_codec \<Rightarrow> uuid \<Rightarrow> power_system \<Rightarrow> bool" where
  "pipeline_inv cf cd d y \<longleftrightarrow> spool_ok cf (rt_spool (ys_runtime y)) \<and> store_ok cd (ys_store y) \<and> batches_ok y \<and> acks_ok d y \<and> accounted d y"

text \<open>A step of the agent: what it takes and what it drops is accounted for.\<close>

lemma accounted_agent:
  assumes "accounted d y" "accounts (rt_spool (ys_runtime y)) new (safe d y) (rt_spool rt)"
    "ys_store y' = ys_store y" "ys_horizon y' = ys_horizon y" "ys_runtime y' = rt" "ys_taken y' = ys_taken y \<union> new"
  shows "accounted d y'"
proof -
  from assms(1) obtain l1 where l1: "finite l1" "int (card l1) \<le> losses (rt_spool (ys_runtime y))"
      "ys_taken y \<subseteq> facts (sl_queue (rt_spool (ys_runtime y))) \<union> l1 \<union> safe d y" by (auto simp: accounted_def)
  from assms(2) obtain l2 where l2: "finite l2" "int (card l2) \<le> losses (rt_spool rt) - losses (rt_spool (ys_runtime y))"
      "facts (sl_queue (rt_spool (ys_runtime y))) \<union> new \<subseteq> facts (sl_queue (rt_spool rt)) \<union> l2 \<union> safe d y" by (auto simp: accounts_def)
  have "safe d y' = safe d y" using assms(3,4) by (simp add: safe_def)
  moreover have "int (card (l1 \<union> l2)) \<le> losses (rt_spool rt)" using card_Un_le [of l1 l2] l1(2) l2(2) by linarith
  ultimately show ?thesis unfolding accounted_def assms(5,6) using l1(1,3) l2(1,3) by (intro exI [of _ "l1 \<union> l2"]) auto
qed

lemma open_spool_ok [simp]: "spool_ok cf (spool_open s) = spool_ok cf s"
  by (simp add: spool_ok_def spool_open_def distinct_queue_def)

lemma accounts_open [simp]: "accounts (spool_open s) A known s' = accounts s A known s'" "accounts s A known (spool_open s') = accounts s A known s'"
  by (simp_all add: accounts_def spool_open_def losses_def)

lemma collect_failed_ok:
  "spool_ok cf (rt_spool rt) \<Longrightarrow>
   spool_ok cf (rt_spool (collect_failed source now rt)) \<and> accounts (rt_spool rt) {} known (rt_spool (collect_failed source now rt))
   \<and> rt_inflight (collect_failed source now rt) = rt_inflight rt"
  using set_unavailable_ok [of source now "rt_spool rt"] accounts_refl by (auto simp: collect_failed_def split: sum.splits)

lemma collect_once_ok:
  assumes "collect_once cf source read now rt = (rt', page)" "spool_ok cf (rt_spool rt)"
  shows "spool_ok cf (rt_spool rt') \<and> accounts (rt_spool rt) (page_facts page) known (rt_spool rt') \<and> rt_inflight rt' = rt_inflight rt"
proof -
  let ?rt = "runtime_open rt"
  have ok: "spool_ok cf (rt_spool ?rt)" using assms(2) by (simp add: runtime_open_def)
  have same: "accounts (rt_spool ?rt) A known s = accounts (rt_spool rt) A known s" "rt_inflight ?rt = rt_inflight rt" for A s
    by (simp_all add: runtime_open_def)
  consider "rt' = collect_failed source now ?rt" "page = None"
    | p s where "commit_page cf p now (rt_spool ?rt) = Inr s" "rt' = ?rt\<lparr>rt_spool := s\<rparr>" "page = Some p"
    using assms(1) by (auto simp: collect_once_def Let_def split: option.splits sum.splits)
  then show ?thesis
  proof cases
    case 1
    then show ?thesis using collect_failed_ok [OF ok, of source now known] same by (simp add: page_facts_def)
  next
    case 2
    then show ?thesis using commit_page_ok [OF 2(1) ok, of known] same by (simp add: page_facts_def)
  qed
qed

lemma runtime_record_ok:
  assumes "runtime_record cf e now rt = (rt', taken)" "spool_ok cf (rt_spool rt)"
  shows "spool_ok cf (rt_spool rt') \<and> accounts (rt_spool rt) (if taken then {spool_stable e} else {}) known (rt_spool rt')
    \<and> rt_inflight rt' = rt_inflight rt"
proof (cases "spool_record cf e now (spool_open (rt_spool rt))")
  case (Inl x)
  then show ?thesis using assms accounts_refl by (auto simp: runtime_record_def runtime_open_def)
next
  case (Inr s)
  then show ?thesis using assms record_ok [OF Inr, of known] by (auto simp: runtime_record_def runtime_open_def)
qed

lemma send_prepare_ok:
  assumes "send_prepare cf batch_id now rt = (rt', out)" "spool_ok cf (rt_spool rt)" "rt_inflight rt = None"
  shows "spool_ok cf (rt_spool rt') \<and> accounts (rt_spool rt) {} known (rt_spool rt') \<and> rt_inflight rt' = out
    \<and> (\<forall>b. out = Some b \<longrightarrow> pb_batch_id b = batch_id)"
proof (cases "next_batch cf batch_id now (spool_open (rt_spool rt))")
  case (Inl x)
  then show ?thesis using assms accounts_refl by (auto simp: send_prepare_def runtime_open_def)
next
  case (Inr so)
  obtain s o' where so: "so = (s, o')" by (cases so)
  have "accounts (rt_spool rt) {} known s \<and> spool_ok cf s \<and> (\<forall>b. o' = Some b \<longrightarrow> pb_batch_id b = batch_id)"
    using next_batch_ok [OF Inr [unfolded so], of known] assms(2) by auto
  then show ?thesis using assms(1,3) Inr so by (cases o') (auto simp: send_prepare_def runtime_open_def)
qed

lemma receive_ack_ok:
  assumes "receive_ack a rt = (rt', matched)" "spool_ok cf (rt_spool rt)"
    "\<And>b. rt_inflight rt = Some b \<Longrightarrow> pa_batch_id a = pb_batch_id b \<Longrightarrow> confirmed b a \<subseteq> known"
  shows "spool_ok cf (rt_spool rt') \<and> accounts (rt_spool rt) {} known (rt_spool rt') \<and> rt_inflight rt' = rt_inflight rt"
proof (cases "\<exists>b s m. rt_inflight rt = Some b \<and> spool_acknowledge b a (rt_spool rt) = Inr (s, m)")
  case False
  then have "rt' = rt" using assms(1) by (auto simp: receive_ack_def split: option.splits sum.splits)
  then show ?thesis using assms(2) accounts_refl by simp
next
  case True
  then obtain b s m where b: "rt_inflight rt = Some b" and k: "spool_acknowledge b a (rt_spool rt) = Inr (s, m)" by blast
  have rt': "rt' = rt\<lparr>rt_spool := s, rt_acked := rt_acked rt \<or> m\<rparr>" using assms(1) b k by (auto simp: receive_ack_def)
  note ok = acknowledge_ok [OF k assms(2)]
  have "accounts (rt_spool rt) {} known s"
  proof (cases m)
    case True
    then show ?thesis using ok assms(3) [OF b] by (blast intro: accounts_mono)
  next
    case False
    then show ?thesis using ok accounts_refl by simp
  qed
  then show ?thesis using ok by (simp add: rt')
qed

text \<open>A step of the server: what was safe stays safe.\<close>

lemma inv_server:
  assumes "pipeline_inv cf cd d y" "store_ok cd (ys_store y')" "safe d y \<subseteq> safe d y'" "ys_runtime y' = ys_runtime y"
    "ys_wire y' = ys_wire y" "ys_used y' = ys_used y" "ys_taken y' = ys_taken y"
    "\<And>a. a \<in> ys_acks y' - ys_acks y \<Longrightarrow> \<exists>b\<in>ys_wire y. pa_batch_id a = pb_batch_id b \<and> confirmed b a \<subseteq> safe d y'"
  shows "pipeline_inv cf cd d y'"
proof -
  have "accounted d y'" using assms(1,3) unfolding pipeline_inv_def accounted_def assms(4,7) by blast
  moreover have "acks_ok d y'" unfolding acks_ok_def assms(5)
  proof
    fix a assume a: "a \<in> ys_acks y'"
    show "\<exists>b\<in>ys_wire y. pa_batch_id a = pb_batch_id b \<and> confirmed b a \<subseteq> safe d y'"
    proof (cases "a \<in> ys_acks y")
      case True
      then show ?thesis using assms(1,3) unfolding pipeline_inv_def acks_ok_def by blast
    next
      case False
      then show ?thesis using assms(8) a by blast
    qed
  qed
  moreover have "batches_ok y'" using assms(1) by (simp add: pipeline_inv_def batches_ok_def batches_of_def assms(4,5,6))
  ultimately show ?thesis using assms(1,2) by (simp add: pipeline_inv_def assms(4))
qed

text \<open>A step of the agent that leaves the network alone.\<close>

lemma inv_agent:
  assumes "pipeline_inv cf cd d y" "spool_ok cf (rt_spool rt)" "accounts (rt_spool (ys_runtime y)) new (safe d y) (rt_spool rt)"
    "y' = y\<lparr>ys_runtime := rt, ys_taken := ys_taken y \<union> new, ys_used := used\<rparr>" "ys_used y \<subseteq> used"
    "set_option (rt_inflight rt) \<subseteq> set_option (rt_inflight (ys_runtime y)) \<union> fresh" "inj_on pb_batch_id fresh" "pb_batch_id ` fresh \<subseteq> used - ys_used y"
  shows "pipeline_inv cf cd d y'"
proof -
  have f: "ys_runtime y' = rt" "ys_wire y' = ys_wire y" "ys_acks y' = ys_acks y" "ys_store y' = ys_store y" "ys_horizon y' = ys_horizon y"
      "ys_taken y' = ys_taken y \<union> new" "ys_used y' = used" by (simp_all add: assms(4))
  have sub: "batches_of y' \<subseteq> batches_of y \<union> fresh" using assms(6) by (auto simp: batches_of_def f)
  have old: "inj_on pb_batch_id (batches_of y)" "pb_batch_id ` batches_of y \<subseteq> ys_used y" using assms(1) by (auto simp: pipeline_inv_def batches_ok_def)
  have "inj_on pb_batch_id (batches_of y \<union> fresh)"
    using old assms(7,8) unfolding inj_on_Un by blast
  then have "batches_ok y'" unfolding batches_ok_def f(7) using sub old(2) assms(5,8) by (blast intro: inj_on_subset)
  moreover have "acks_ok d y'" using assms(1) by (simp add: pipeline_inv_def acks_ok_def safe_def f)
  moreover have "accounted d y'" using accounted_agent [OF _ assms(3) f(4,5,1,6)] assms(1) by (simp add: pipeline_inv_def)
  ultimately show ?thesis using assms(1,2) by (simp add: pipeline_inv_def f)
qed

lemma aged_later: "aged h \<subseteq> aged (later_horizon h t)" "{f. pv_occurred_at f < t} \<subseteq> aged (later_horizon h t)"
  by (auto simp: aged_def later_horizon_def split: option.splits)

text \<open>An answer for the batch in flight is an answer to that batch: identifiers of batches are not reused.\<close>

lemma inflight_confirmed:
  assumes "pipeline_inv cf cd d y" "a \<in> ys_acks y" "rt_inflight (ys_runtime y) = Some b" "pa_batch_id a = pb_batch_id b"
  shows "confirmed b a \<subseteq> safe d y"
proof -
  obtain b' where b': "b' \<in> ys_wire y" "pa_batch_id a = pb_batch_id b'" "confirmed b' a \<subseteq> safe d y"
    using assms(1,2) by (auto simp: pipeline_inv_def acks_ok_def)
  have "inj_on pb_batch_id (batches_of y)" using assms(1) by (simp add: pipeline_inv_def batches_ok_def)
  moreover have "b \<in> batches_of y" "b' \<in> batches_of y" using assms(3) b'(1) by (auto simp: batches_of_def)
  ultimately have "b' = b" using assms(4) b'(2) by (metis inj_onD)
  with b' show ?thesis by simp
qed

lemma restart_ok:
  "spool_ok cf (rt_spool rt) \<Longrightarrow> spool_ok cf (rt_spool (runtime_restart rt)) \<and> accounts (rt_spool rt) {} known (rt_spool (runtime_restart rt))"
  by (auto simp: runtime_restart_def spool_ok_def distinct_queue_def accounts_def losses_def intro!: exI [of _ "{}"])

lemma inv_step:
  assumes "power_step cf cd d y y'" "pipeline_inv cf cd d y"
  shows "pipeline_inv cf cd d y'"
proof -
  have ok: "spool_ok cf (rt_spool (ys_runtime y))" "store_ok cd (ys_store y)" "batches_ok y" "acks_ok d y"
    using assms(2) by (simp_all add: pipeline_inv_def)
  show ?thesis using assms(1)
  proof (cases rule: power_step.cases)
    case (collect source read now rt page)
    show ?thesis using collect_once_ok [OF collect(2) ok(1), of "safe d y"]
      by (intro inv_agent [OF assms(2), of rt "page_facts page" _ "ys_used y" "{}"]) (auto simp: collect(1))
  next
    case (callback e now rt taken)
    show ?thesis using runtime_record_ok [OF callback(2) ok(1), of "safe d y"]
      by (intro inv_agent [OF assms(2), of rt "if taken then {spool_stable e} else {}" _ "ys_used y" "{}"]) (auto simp: callback(1))
  next
    case (prepare batch_id now rt out)
    show ?thesis using send_prepare_ok [OF prepare(4) ok(1) prepare(2), of "safe d y"] prepare(3)
      by (intro inv_agent [OF assms(2), of rt "{}" _ "insert batch_id (ys_used y)" "set_option out"]) (auto simp: prepare(1) inj_on_def)
  next
    case (transmit b)
    have "b \<in> batches_of y" using transmit(2) by (auto simp: send_attempt_def batches_of_def split: if_splits)
    then have "batches_of y' = batches_of y" by (auto simp: batches_of_def transmit(1))
    then have "batches_ok y'" using ok(3) by (simp add: batches_ok_def transmit(1))
    moreover have "acks_ok d y'" using ok(4) by (auto simp: acks_ok_def safe_def transmit(1))
    ultimately show ?thesis using assms(2) by (simp add: pipeline_inv_def accounted_def safe_def transmit(1))
  next
    case finish
    show ?thesis using ok(1) accounts_refl [of "rt_spool (ys_runtime y)"]
      by (intro inv_agent [OF assms(2), of "send_finish (ys_runtime y)" "{}" _ "ys_used y" "{}"]) (auto simp: finish send_finish_def)
  next
    case abort
    show ?thesis using ok(1) accounts_refl [of "rt_spool (ys_runtime y)"]
      by (intro inv_agent [OF assms(2), of "send_abort (ys_runtime y)" "{}" _ "ys_used y" "{}"]) (auto simp: abort send_abort_def)
  next
    case restart
    show ?thesis using restart_ok [OF ok(1), of "safe d y"]
      by (intro inv_agent [OF assms(2), of "runtime_restart (ys_runtime y)" "{}" _ "ys_used y" "{}"]) (auto simp: restart runtime_restart_def)
  next
    case (serve b gen at db a)
    note i = ingest_batch_ok [OF serve(4) ok(2) serve(3)]
    have "stored d (ys_store y) \<subseteq> stored d db" using i unfolding stored_def by blast
    then have "safe d y \<subseteq> safe d y'" by (auto simp: safe_def serve(1))
    moreover have "confirmed b a \<subseteq> safe d y'" using i by (auto simp: safe_def serve(1))
    ultimately show ?thesis using i serve(2) by (intro inv_server [OF assms(2)]) (auto simp: serve(1))
  next
    case (other_device x gen b at db a)
    note i = ingest_batch_ok [OF other_device(4) ok(2) other_device(3)]
    have "stored d db = stored d (ys_store y)" using i other_device(2) by metis
    then show ?thesis using i by (intro inv_server [OF assms(2)]) (auto simp: other_device(1) safe_def)
  next
    case (receive a rt matched)
    note conf = inflight_confirmed [OF assms(2) receive(2)]
    show ?thesis using receive_ack_ok [OF receive(3) ok(1) conf]
      by (intro inv_agent [OF assms(2), of rt "{}" _ "ys_used y" "{}"]) (auto simp: receive(1))
  next
    case (retain now limit db n)
    have "safe d y \<subseteq> safe d y'" using retain_ok [OF retain(2) ok(2)] aged_later by (fastforce simp: safe_def retain(1))
    then show ?thesis using retain_ok [OF retain(2) ok(2)] by (intro inv_server [OF assms(2)]) (auto simp: retain(1))
  qed
qed

lemma inv_start: "store_ok cd db \<Longrightarrow> pipeline_inv cf cd d (power_start db)"
  by (simp add: pipeline_inv_def power_start_def spool_ok_def distinct_queue_def within_def queue_bytes_def empty_spool_def batches_ok_def
      batches_of_def acks_ok_def accounted_def losses_def exI [of _ "{}"])

lemma inv_reachable: "(power_step cf cd d)\<^sup>*\<^sup>* (power_start db) y \<Longrightarrow> store_ok cd db \<Longrightarrow> pipeline_inv cf cd d y"
  by (induction rule: rtranclp_induct) (auto intro: inv_start inv_step)

end
