(* ===== verification/Power_Projection.thy ===== *)
theory Power_Projection
  imports Power_Server_Laws "HOL-Library.Multiset"
begin

text \<open>
  \<open>endpoint_server/power/projection.py\<close>: the summary of one device, the summaries of a page of the fleet and the markers of
  a timeline. The queries cut to 128 rows before the summary picks the latest; the results are those of an uncut query.
  Identifiers order as their text does. \<open>arrange\<close> is the order in which a query without \<open>ORDER BY\<close> returns its rows.
\<close>

definition latest_key :: "power_event \<Rightarrow> instant \<times> bool \<times> bool \<times> uuid" where
  "latest_key e = (pv_occurred_at e, pv_kind e \<in> {''OS_STARTED'', ''OS_RESUMED''}, pv_evidence e \<noteq> ''transition'', pv_identifier e)"

definition evidence_order :: "power_row \<Rightarrow> (instant \<times> bool \<times> bool \<times> uuid) \<times> uuid" where
  "evidence_order r = (latest_key (pr_event r), pr_id r)"

datatype power_label = LabelOnline | LabelUnknown | LabelSleep | LabelShutdown

record power_summary =
  py_status :: power_label
  py_online :: bool
  py_last_seen_at :: "instant option"
  py_source_status :: "power_status option"
  py_source_fresh :: bool
  py_history_from :: instant
  py_latest :: "power_event option"

fun max_by :: "('a \<Rightarrow> 'b::linorder) \<Rightarrow> 'a list \<Rightarrow> 'a option" where
  "max_by key [] = None"
| "max_by key (x # xs) = Some (foldl (\<lambda>m y. if key m < key y then y else m) x xs)"

definition transition_label :: "string \<Rightarrow> power_label" where
  "transition_label kind =
     (if kind = ''OS_SLEEP_STARTED'' then LabelSleep else if kind = ''OS_SHUTDOWN_STARTED'' then LabelShutdown else LabelUnknown)"

definition usable_source :: "power_status option \<Rightarrow> bool" where
  "usable_source src = (case src of None \<Rightarrow> False | Some p \<Rightarrow> pt_availability p \<in> {READY, DEGRADED})"

definition project_label :: "bool \<Rightarrow> instant option \<Rightarrow> power_status option \<Rightarrow> power_event option \<Rightarrow> power_label" where
  "project_label online seen src latest =
     (if online then LabelOnline
      else case latest of
        None \<Rightarrow> LabelUnknown
      | Some e \<Rightarrow>
          if usable_source src \<and> pv_evidence e = ''transition'' \<and> (case seen of None \<Rightarrow> True | Some t \<Rightarrow> t \<le> pv_occurred_at e)
          then transition_label (pv_kind e) else LabelUnknown)"

definition project_power ::
  "bool \<Rightarrow> instant option \<Rightarrow> power_status option \<Rightarrow> power_event list \<Rightarrow> instant \<Rightarrow> power_summary" where
  "project_power online seen src events now =
     (let horizon = now - power_retention;
          latest = max_by latest_key (filter (\<lambda>e. horizon \<le> pv_occurred_at e \<and> pv_occurred_at e \<le> now) events)
      in \<lparr>py_status = project_label online seen src latest, py_online = online, py_last_seen_at = seen, py_source_status = src,
          py_source_fresh = (case src of None \<Rightarrow> False | Some p \<Rightarrow> 0 \<le> now - pt_reported_at p \<and> now - pt_reported_at p \<le> seconds 90),
          py_history_from = (case src of None \<Rightarrow> horizon
             | Some p \<Rightarrow> (case pt_coverage_started_at p of None \<Rightarrow> horizon | Some c \<Rightarrow> max horizon c)),
          py_latest = latest\<rparr>)"

definition recent_rows :: "uuid \<Rightarrow> instant \<Rightarrow> power_store \<Rightarrow> power_row list" where
  "recent_rows d now db =
     filter (\<lambda>r. pr_device_id r = d \<and> now - power_retention \<le> pv_occurred_at (pr_event r) \<and> pv_occurred_at (pr_event r) \<le> now) (st_rows db)"

definition top_rows :: "uuid \<Rightarrow> instant \<Rightarrow> power_store \<Rightarrow> power_row list" where
  "top_rows d now db = take 128 (rev (sort_key evidence_order (recent_rows d now db)))"

definition summarize_power :: "uuid \<Rightarrow> bool \<Rightarrow> instant option \<Rightarrow> instant \<Rightarrow> power_store \<Rightarrow> power_summary" where
  "summarize_power d online seen now db = project_power online seen (current_status d db) (map pr_event (top_rows d now db)) now"

text \<open>The page ranks the rows of all its devices in one query and keeps ranks up to 128 per device.\<close>

definition row_rank :: "instant \<Rightarrow> power_store \<Rightarrow> power_row \<Rightarrow> nat" where
  "row_rank now db r = Suc (length (filter (\<lambda>x. evidence_order r < evidence_order x) (recent_rows (pr_device_id r) now db)))"

definition page_rows :: "uuid list \<Rightarrow> instant \<Rightarrow> power_store \<Rightarrow> power_row list" where
  "page_rows ids now db =
     filter (\<lambda>r. pr_device_id r \<in> set ids \<and> now - power_retention \<le> pv_occurred_at (pr_event r) \<and> pv_occurred_at (pr_event r) \<le> now
       \<and> row_rank now db r \<le> 128) (st_rows db)"

record fleet_item =
  fi_device :: uuid
  fi_online :: bool
  fi_last_seen_at :: "instant option"

definition enrich_power_summaries ::
  "(power_row list \<Rightarrow> power_row list) \<Rightarrow> fleet_item list \<Rightarrow> instant \<Rightarrow> power_store \<Rightarrow> power_summary list" where
  "enrich_power_summaries arrange items now db =
     (let rows = arrange (page_rows (map fi_device items) now db)
      in map (\<lambda>i. project_power (fi_online i) (fi_last_seen_at i) (current_status (fi_device i) db)
                (map pr_event (filter (\<lambda>r. pr_device_id r = fi_device i) rows)) now) items)"

definition power_timeline_markers :: "uuid set \<Rightarrow> instant \<Rightarrow> instant \<Rightarrow> instant \<Rightarrow> power_store \<Rightarrow> (uuid \<times> power_event) list \<times> bool" where
  "power_timeline_markers ids start finish now db =
     (if ids = {} then ([], False)
      else
        let rows = take 2001 (sort_key (\<lambda>r. (pv_occurred_at (pr_event r), pr_id r))
              (filter (\<lambda>r. pr_device_id r \<in> ids \<and> max start (now - power_retention) \<le> pv_occurred_at (pr_event r) \<and> pv_occurred_at (pr_event r) < finish)
                (st_rows db)))
        in (map (\<lambda>r. (pr_device_id r, pr_event r)) (take 2000 rows), 2000 < length rows))"

section \<open>The latest fact\<close>

lemma foldl_max_member: "foldl (\<lambda>m y. if key m < key y then y else m) x xs \<in> set (x # xs)"
  for key :: "'a \<Rightarrow> 'b::linorder"
  by (induction xs arbitrary: x) auto

lemma foldl_max_bound: "y \<in> set (x # xs) \<Longrightarrow> key y \<le> key (foldl (\<lambda>m y. if key m < key y then y else m) x xs)"
  for key :: "'a \<Rightarrow> 'b::linorder"
proof (induction xs arbitrary: x y)
  case (Cons z zs)
  let ?x = "if key x < key z then z else x"
  have "key y \<le> key ?x \<or> y \<in> set zs" using Cons.prems by auto
  moreover have "key ?x \<le> key (foldl (\<lambda>m y. if key m < key y then y else m) ?x zs)" using Cons.IH [of ?x ?x] by simp
  moreover have "y \<in> set zs \<Longrightarrow> key y \<le> key (foldl (\<lambda>m y. if key m < key y then y else m) ?x zs)" using Cons.IH [of y ?x] by simp
  ultimately show ?case by (auto intro: order_trans)
qed simp

lemma max_by_Some: "max_by key xs = Some m \<Longrightarrow> m \<in> set xs \<and> (\<forall>y\<in>set xs. key y \<le> key m)"
proof (cases xs)
  case (Cons x ys)
  assume "max_by key xs = Some m"
  with Cons have m: "m = foldl (\<lambda>m y. if key m < key y then y else m) x ys" by simp
  show ?thesis unfolding m Cons using foldl_max_member [of key x ys] foldl_max_bound [of _ x ys key] by blast
qed simp

lemma pair_le_fst: "(a, b) \<le> (c, d) \<Longrightarrow> a \<le> c"
  for a c :: "'a::order" and b d :: "'b::order"
  by (auto simp: less_eq_prod_def)

lemma max_by_None: "max_by key xs = None \<longleftrightarrow> xs = []"
  by (cases xs) auto

text \<open>With keys that tell elements apart the choice depends on the upper end of the set alone.\<close>

lemma max_by_upper:
  assumes "set xs \<subseteq> set ys" "inj_on key (set ys)" "\<And>y. y \<in> set ys \<Longrightarrow> \<exists>x\<in>set xs. key y \<le> key x"
  shows "max_by key xs = max_by key ys"
proof (cases "max_by key ys")
  case None
  then show ?thesis using assms(1) by (simp add: max_by_None)
next
  case (Some m)
  from max_by_Some [OF this] have m: "m \<in> set ys" "\<And>y. y \<in> set ys \<Longrightarrow> key y \<le> key m" by auto
  obtain k where k: "max_by key xs = Some k" using assms(3) [OF m(1)] max_by_None [of key xs] by fastforce
  from max_by_Some [OF k] have k': "k \<in> set xs" "\<And>x. x \<in> set xs \<Longrightarrow> key x \<le> key k" by auto
  obtain x where "x \<in> set xs" "key m \<le> key x" using assms(3) [OF m(1)] by blast
  then have "key m \<le> key k" using k'(2) by (blast intro: order_trans)
  moreover have "key k \<le> key m" using m(2) k'(1) assms(1) by blast
  ultimately have "k = m" using assms(1,2) m(1) k'(1) by (meson antisym inj_onD subsetD)
  with Some k show ?thesis by simp
qed

section \<open>The cuts\<close>

lemma latest_key_inj:
  assumes "store_ok cd db"
  shows "inj_on latest_key (pr_event ` {r \<in> set (st_rows db). pr_device_id r = d})"
proof (rule inj_onI)
  fix e e' assume "e \<in> pr_event ` {r \<in> set (st_rows db). pr_device_id r = d}" "e' \<in> pr_event ` {r \<in> set (st_rows db). pr_device_id r = d}"
    and k: "latest_key e = latest_key e'"
  then obtain r r' where r: "r \<in> set (st_rows db)" "pr_device_id r = d" "e = pr_event r" and r': "r' \<in> set (st_rows db)" "pr_device_id r' = d" "e' = pr_event r'"
    by auto
  have "pv_identifier e = pv_identifier e'" using k by (simp add: latest_key_def)
  then have "(pr_device_id r, pr_identifier r) = (pr_device_id r', pr_identifier r')"
    using assms r r' by (auto simp: store_ok_def list_all_iff row_of_def)
  moreover have "inj_on (\<lambda>r. (pr_device_id r, pr_identifier r)) (set (st_rows db))" using assms by (simp add: store_ok_def distinct_map)
  ultimately have "r = r'" using r(1) r'(1) by (auto dest: inj_onD)
  then show "e = e'" using r r' by simp
qed

text \<open>A summary over rows that include the latest of the window is the summary over all rows of the device.\<close>

lemma project_upper:
  assumes "store_ok cd db" "set rows \<subseteq> set (recent_rows d now db)"
    "\<And>r. r \<in> set (recent_rows d now db) \<Longrightarrow> \<exists>x\<in>set rows. evidence_order r \<le> evidence_order x"
  shows "project_power online seen src (map pr_event rows) now
       = project_power online seen src (map pr_event (filter (\<lambda>r. pr_device_id r = d) (st_rows db))) now"
proof -
  let ?in = "\<lambda>e. now - power_retention \<le> pv_occurred_at e \<and> pv_occurred_at e \<le> now"
  let ?all = "filter ?in (map pr_event (filter (\<lambda>r. pr_device_id r = d) (st_rows db)))"
  have all: "set ?all = pr_event ` set (recent_rows d now db)" by (auto simp: recent_rows_def)
  have some: "set (filter ?in (map pr_event rows)) = pr_event ` set rows" using assms(2) by (auto simp: recent_rows_def)
  have "max_by latest_key (filter ?in (map pr_event rows)) = max_by latest_key ?all"
  proof (rule max_by_upper)
    show "set (filter ?in (map pr_event rows)) \<subseteq> set ?all" unfolding all some using assms(2) by blast
    show "inj_on latest_key (set ?all)" by (rule inj_on_subset [OF latest_key_inj [OF assms(1), of d]]) auto
    fix e assume "e \<in> set ?all"
    then obtain r where r: "r \<in> set (recent_rows d now db)" "e = pr_event r" unfolding all by blast
    then obtain x where "x \<in> set rows" "evidence_order r \<le> evidence_order x" using assms(3) by blast
    then have "latest_key e \<le> latest_key (pr_event x)" using r(2) pair_le_fst unfolding evidence_order_def by metis
    then show "\<exists>y\<in>set (filter ?in (map pr_event rows)). latest_key e \<le> latest_key y" unfolding some using \<open>x \<in> set rows\<close> by blast
  qed
  then show ?thesis by (simp add: project_power_def Let_def)
qed

lemma rev_sorted_upper:
  fixes key :: "'a \<Rightarrow> 'b::linorder"
  assumes "r \<in> set xs" "0 < n"
  shows "\<exists>x\<in>set (take n (rev (sort_key key xs))). key r \<le> key x"
proof -
  let ?s = "sort_key key xs"
  have ne: "?s \<noteq> []" using assms(1) by (metis empty_iff set_empty set_sort)
  have "last ?s \<in> set (take n (rev ?s))" using ne assms(2) by (cases "rev ?s"; cases n) (auto simp: hd_rev [symmetric])
  moreover have "key r \<le> key (last ?s)"
  proof -
    have r: "r \<in> set ?s" using assms(1) by simp
    then have "key r \<in> set (map key ?s)" by simp
    moreover have "sorted (map key ?s)" by simp
    ultimately have "key r \<le> last (map key ?s)" by (metis (no_types, lifting) append_butlast_last_id empty_iff in_set_butlastD list.set(1) set_ConsD sorted_append Un_iff list.set_intros(1) set_append order_refl)
    then show ?thesis using ne by (simp add: last_map)
  qed
  ultimately show ?thesis by blast
qed

lemma top_rows_summary:
  assumes "store_ok cd db"
  shows "summarize_power d online seen now db
       = project_power online seen (current_status d db) (map pr_event (filter (\<lambda>r. pr_device_id r = d) (st_rows db))) now"
  unfolding summarize_power_def
proof (rule project_upper [OF assms])
  show "set (top_rows d now db) \<subseteq> set (recent_rows d now db)" using set_take_subset unfolding top_rows_def by fastforce
  show "\<exists>x\<in>set (top_rows d now db). evidence_order r \<le> evidence_order x" if "r \<in> set (recent_rows d now db)" for r
    unfolding top_rows_def by (rule rev_sorted_upper [OF that]) simp
qed

lemma first_rank:
  assumes "r \<in> set (recent_rows d now db)"
  shows "\<exists>x\<in>set (recent_rows d now db). row_rank now db x = 1 \<and> evidence_order r \<le> evidence_order x"
proof -
  let ?S = "evidence_order ` set (recent_rows d now db)"
  have "Max ?S \<in> ?S" using assms by (intro Max_in) auto
  then obtain x where x: "x \<in> set (recent_rows d now db)" "evidence_order x = Max ?S" by auto
  have up: "evidence_order y \<le> evidence_order x" if "y \<in> set (recent_rows d now db)" for y using that unfolding x(2) by simp
  have "pr_device_id x = d" using x(1) by (simp add: recent_rows_def)
  moreover have "filter (\<lambda>y. evidence_order x < evidence_order y) (recent_rows d now db) = []" using up by (auto simp: filter_empty_conv not_less)
  ultimately have "row_rank now db x = 1" by (simp add: row_rank_def)
  with x(1) up [OF assms] show ?thesis by blast
qed

lemma page_rows_device:
  assumes "d \<in> set ids"
  shows "r \<in> set (page_rows ids now db) \<and> pr_device_id r = d \<longleftrightarrow> r \<in> set (recent_rows d now db) \<and> row_rank now db r \<le> 128"
  using assms by (auto simp: page_rows_def recent_rows_def)

lemma enriched_summary:
  assumes "store_ok cd db" "\<And>rows. mset (arrange rows) = mset rows" "i \<in> set items"
  shows "project_power (fi_online i) (fi_last_seen_at i) (current_status (fi_device i) db)
           (map pr_event (filter (\<lambda>r. pr_device_id r = fi_device i) (arrange (page_rows (map fi_device items) now db)))) now
       = summarize_power (fi_device i) (fi_online i) (fi_last_seen_at i) now db"
  unfolding top_rows_summary [OF assms(1)]
proof (rule project_upper [OF assms(1)])
  let ?page = "page_rows (map fi_device items) now db"
  have same: "set (arrange ?page) = set ?page" using assms(2) by (metis set_mset_mset)
  have d: "fi_device i \<in> set (map fi_device items)" using assms(3) by simp
  note dev = page_rows_device [OF d, of _ now db]
  show "set (filter (\<lambda>r. pr_device_id r = fi_device i) (arrange ?page)) \<subseteq> set (recent_rows (fi_device i) now db)"
    unfolding set_filter same using dev by blast
  show "\<exists>x\<in>set (filter (\<lambda>r. pr_device_id r = fi_device i) (arrange ?page)). evidence_order r \<le> evidence_order x"
    if "r \<in> set (recent_rows (fi_device i) now db)" for r
    using first_rank [OF that] dev unfolding set_filter same by fastforce
qed

end
