(* ===== verification/Power_Properties.thy ===== *)
theory Power_Properties
  imports Power_Pipeline Power_Projection
begin

text \<open>The properties of the delivery of power evidence and of its summaries, with a small run as their witness.\<close>

section \<open>One exchange\<close>

lemma ingest_events_final: "ingest_events cd gen d es at db = (db', rs) \<Longrightarrow> list_all (\<lambda>r. pd_disposition r \<noteq> RetryLater) rs"
proof (induction es arbitrary: gen db rs)
  case (Cons e es)
  then show ?case by (auto split: sum.splits prod.splits)
qed simp

definition rejections :: "power_result list \<Rightarrow> int" where
  "rejections rs = int (length (filter (\<lambda>r. pd_disposition r = Rejected) rs))"

lemma settle_head:
  assumes "sl_queue s = e # q" "distinct_queue s" "pd_identifier r = pv_identifier e" "pd_disposition r \<noteq> RetryLater"
  shows "sl_queue (settle_dispositions at [r] s) = q \<and> sl_rejected (settle_dispositions at [r] s) = sl_rejected s + rejections [r]"
proof -
  have "queued (pd_identifier r) s \<noteq> None" using assms(1,3) by (simp add: queued_None)
  moreover have "pv_identifier e \<notin> pv_identifier ` set q" using assms(1,2) by (simp add: distinct_queue_def)
  then have "filter (\<lambda>x. pv_identifier x \<noteq> pv_identifier e) q = q" by (intro filter_True) (metis imageI)
  ultimately show ?thesis using assms by (auto simp: settle_dispositions.simps Let_def rejections_def)
qed

lemma settle_prefix:
  assumes "sl_queue s = es @ q" "distinct_queue s" "map pd_identifier rs = map pv_identifier es" "list_all (\<lambda>r. pd_disposition r \<noteq> RetryLater) rs"
  shows "sl_queue (settle_dispositions at rs s) = q \<and> sl_rejected (settle_dispositions at rs s) = sl_rejected s + rejections rs"
  using assms
proof (induction es arbitrary: s rs)
  case Nil
  then show ?case by (simp add: rejections_def)
next
  case (Cons e es)
  then obtain r rs' where rs: "rs = r # rs'" "pd_identifier r = pv_identifier e" "map pd_identifier rs' = map pv_identifier es" by (cases rs) auto
  let ?s = "settle_dispositions at [r] s"
  have h: "sl_queue ?s = es @ q" "sl_rejected ?s = sl_rejected s + rejections [r]"
    using settle_head [of s e "es @ q" r at] Cons.prems rs by simp_all
  have "distinct_queue ?s" using Cons.prems(1,2) by (simp add: distinct_queue_def h(1))
  then have "sl_queue (settle_dispositions at rs' ?s) = q \<and> sl_rejected (settle_dispositions at rs' ?s) = sl_rejected ?s + rejections rs'"
    using Cons.IH [OF h(1) _ rs(3)] Cons.prems(4) rs(1) by simp
  moreover have "rejections rs = rejections [r] + rejections rs'" by (simp add: rejections_def rs(1))
  ultimately show ?case using h(2) settle_cons [of at r rs' s] by (simp add: rs(1))
qed

lemma fill_batch_stalls:
  assumes "pb_events b = []" "pb_events (fill_batch cf b (e # es)) = []"
  shows "max_batch_bytes < cf_frame_bytes cf (b\<lparr>pb_events := [e]\<rparr>)"
proof (rule ccontr)
  assume "\<not> ?thesis"
  then have "fill_batch cf b (e # es) = fill_batch cf (b\<lparr>pb_events := [e]\<rparr>) es" using assms(1) by simp
  then show False using assms(2) fill_batch_prefix [of cf "b\<lparr>pb_events := [e]\<rparr>" es] by auto
qed

lemma send_prepare_prefix:
  assumes "send_prepare cf batch_id now rt = (rt1, Some b)"
  shows "(\<exists>rest. sl_queue (rt_spool rt1) = pb_events b @ rest) \<and> rt_inflight rt1 = Some b \<and> sl_opened (rt_spool rt1)
    \<and> (pb_events b = [] \<longrightarrow> sl_queue (rt_spool rt1) = [] \<or> max_batch_bytes < cf_frame_bytes cf (b\<lparr>pb_events := [hd (sl_queue (rt_spool rt1))]\<rparr>))"
proof -
  from assms obtain s where n: "next_batch cf batch_id now (spool_open (rt_spool rt)) = Inr (s, Some b)"
      and rt1: "rt1 = (runtime_open rt)\<lparr>rt_spool := s, rt_inflight := Some b, rt_acked := False\<rparr>"
    by (auto simp: send_prepare_def runtime_open_def Let_def split: sum.splits option.splits)
  from n obtain p where b: "b = fill_batch cf \<lparr>pb_batch_id = batch_id, pb_events = [], pb_source_status = p\<rparr> (take 128 (sl_queue s))" and o: "sl_opened s"
    by (auto simp: next_batch_def in_transaction_Inr Let_def spool_open_def)
  let ?b0 = "\<lparr>pb_batch_id = batch_id, pb_events = [], pb_source_status = p\<rparr>"
  obtain k where "pb_events b = take k (take 128 (sl_queue s))" using fill_batch_prefix [of cf ?b0 "take 128 (sl_queue s)"] b by auto
  then have "sl_queue s = pb_events b @ drop (min k 128) (sl_queue s)" by (simp add: min.commute)
  moreover have "sl_queue s = [] \<or> max_batch_bytes < cf_frame_bytes cf (b\<lparr>pb_events := [hd (sl_queue s)]\<rparr>)" if e: "pb_events b = []"
  proof (cases "sl_queue s")
    case (Cons x xs)
    have "take 128 (sl_queue s) = x # take 127 xs" by (simp add: Cons take_Cons')
    then have stall: "max_batch_bytes < cf_frame_bytes cf (?b0\<lparr>pb_events := [x]\<rparr>)" using fill_batch_stalls [of ?b0 cf x "take 127 xs"] b e by simp
    then have "b = ?b0" by (simp add: b Cons take_Cons')
    with stall show ?thesis by (simp add: Cons)
  qed simp
  ultimately show ?thesis using o by (auto simp: rt1)
qed

lemma not_conflicting:
  assumes "sl_queue s = pb_events b @ rest" "distinct_queue s"
  shows "\<not> conflicting b s"
proof -
  have "queued (pv_identifier e) s = Some e" if "e \<in> set (pb_events b)" for e
  proof -
    have "e \<in> set (sl_queue s)" using that assms(1) by simp
    then obtain x where x: "queued (pv_identifier e) s = Some x" using queued_None [of "pv_identifier e" s] by fastforce
    have "x = e" using queued_Some [OF x] \<open>e \<in> set (sl_queue s)\<close> assms(2) by (metis distinct_queue_def distinct_map inj_onD)
    with x show ?thesis by simp
  qed
  then show ?thesis by (auto simp: conflicting_def list_ex_iff)
qed

lemma exchange:
  assumes "spool_ok cf (rt_spool rt1)" "store_ok cd db" "fresh_ids gen db" "rt_inflight rt1 = Some b" "sl_opened (rt_spool rt1)"
    "sl_queue (rt_spool rt1) = pb_events b @ rest" "ingest_power_batch cd gen d b at db = (db', a)" "receive_ack a rt1 = (rt2, matched)"
  shows "matched \<and> rt_acked rt2 \<and> sl_queue (rt_spool rt2) = rest
    \<and> sl_rejected (rt_spool rt2) = sl_rejected (rt_spool rt1) + rejections (pa_results a) \<and> confirmed b a \<subseteq> stored d db'"
proof -
  let ?s = "rt_spool rt1"
  have d: "distinct_queue ?s" using assms(1) by (simp add: spool_ok_def)
  note i = ingest_batch_ok [OF assms(7,2,3)]
  have final: "list_all (\<lambda>r. pd_disposition r \<noteq> RetryLater) (pa_results a)"
    using assms(7) ingest_events_final by (fastforce simp: ingest_power_batch_def split: prod.splits)
  have ids: "map pd_identifier (pa_results a) = map pv_identifier (pb_events b)" "pa_batch_id a = pb_batch_id b" using i by blast+
  let ?t = "settle_dispositions (pa_persisted_at a) (pa_results a) ?s"
  have "spool_acknowledge b a ?s = Inr (trim_quarantine (pa_persisted_at a) ?t, True)"
    using ids not_conflicting [OF assms(6) d] assms(5) by (simp add: spool_acknowledge_def in_transaction_def)
  then have rt2: "rt2 = rt1\<lparr>rt_spool := trim_quarantine (pa_persisted_at a) ?t, rt_acked := True\<rparr>" and m: "matched"
    using assms(8) by (auto simp: receive_ack_def assms(4))
  show ?thesis using settle_prefix [OF assms(6) d ids(1) final] m i by (simp add: rt2 trim_quarantine_def Let_def)
qed

section \<open>A run\<close>

definition demo_config :: spool_config where
  "demo_config = \<lparr>cf_max_events = 4, cf_max_bytes = 2000, cf_payload_bytes = (\<lambda>_. 300), cf_frame_bytes = (\<lambda>b. 200 + 400 * length (pb_events b))\<rparr>"

definition power_codec :: server_codec where
  "power_codec = \<lparr>cd_hash = (\<lambda>(a, b, c). a @ ''/'' @ b @ ''/'' @ c), cd_details_bytes = (\<lambda>_ _. 400)\<rparr>"

definition demo_event :: "uuid \<Rightarrow> string \<Rightarrow> instant \<Rightarrow> power_event" where
  "demo_event i kind t = \<lparr>pv_identifier = i, pv_kind = kind, pv_occurred_at = t, pv_observed_at = t + 1, pv_boot_id = ''b1'', pv_source = ''journal'',
     pv_native_record_id = kind, pv_evidence = ''transition'', pv_sleep_subtype = None\<rparr>"

definition demo_status :: "instant \<Rightarrow> power_status" where
  "demo_status t = \<lparr>pt_source = ''journal'', pt_availability = READY, pt_reported_at = t, pt_coverage_started_at = Some 0, pt_loss_count = 0, pt_reset_count = 0\<rparr>"

definition demo_page :: native_page where
  "demo_page = \<lparr>np_events = [demo_event 1 ''OS_STARTED'' 10, demo_event 2 ''OS_SLEEP_STARTED'' 20], np_checkpoint = Some ''c1'', np_status = demo_status 20,
     np_loss_count = 0, np_reset_count = 0\<rparr>"

definition demo_store :: power_store where
  "demo_store = \<lparr>st_rows = [], st_sources = []\<rparr>"

definition demo_collected :: power_system where
  "demo_collected = (power_start demo_store)\<lparr>ys_runtime := fst (collect_once demo_config ''journal'' (\<lambda>_. Some demo_page) 30 (ys_runtime (power_start demo_store))),
     ys_taken := facts (np_events demo_page)\<rparr>"

definition demo_batch :: power_batch where
  "demo_batch = \<lparr>pb_batch_id = 7, pb_events = np_events demo_page, pb_source_status = demo_status 20\<rparr>"

definition demo_row :: "uuid \<Rightarrow> power_event \<Rightarrow> power_row" where
  "demo_row i e = \<lparr>pr_id = i, pr_device_id = 5, pr_identifier = pv_identifier e, pr_source_key = native_key power_codec e, pr_event = e, pr_received_at = 40\<rparr>"

definition demo_rows :: power_store where
  "demo_rows = \<lparr>st_rows = [demo_row 1 (demo_event 1 ''OS_STARTED'' 10), demo_row 2 (demo_event 2 ''OS_SLEEP_STARTED'' 20)],
     st_sources = [\<lparr>so_device_id = 5, so_status = demo_status 20, so_received_at = 40\<rparr>]\<rparr>"

lemmas demo_defs = demo_config_def demo_page_def demo_status_def demo_event_def power_start_def demo_store_def collect_once_def runtime_open_def spool_open_def empty_spool_def commit_page_def in_transaction_def spool_expire_def queued_def spool_trim_def queue_bytes_def max_age_def spool_stable_def hours_def minutes_def seconds_def

lemma demo_reachable: "(power_step demo_config power_codec 5)\<^sup>*\<^sup>* (power_start demo_store) demo_collected"
proof -
  have "snd (collect_once demo_config ''journal'' (\<lambda>_. Some demo_page) 30 (ys_runtime (power_start demo_store))) = Some demo_page"
    by (simp add: demo_defs Let_def)
  then have "collect_once demo_config ''journal'' (\<lambda>_. Some demo_page) 30 (ys_runtime (power_start demo_store))
     = (ys_runtime demo_collected, Some demo_page)" by (simp add: demo_collected_def prod_eq_iff)
  from power_step.collect [OF this, of power_codec 5] show ?thesis
    by (simp add: demo_collected_def power_start_def page_facts_def r_into_rtranclp)
qed

lemma demo_store_ok: "store_ok power_codec demo_store"
  by (simp add: store_ok_def demo_store_def)

lemma demo_spool:
  "rt_spool (ys_runtime demo_collected) = \<lparr>sl_opened = True, sl_queue = np_events demo_page, sl_checkpoint = Some ''c1'', sl_status = Some (demo_status 20),
     sl_overflow = 0, sl_expired = 0, sl_rejected = 0, sl_loss = 0, sl_resets = 0, sl_quarantine = []\<rparr>"
  by (simp add: demo_collected_def demo_defs Let_def)

section \<open>Properties\<close>

text \<open>C34. Over any interleaving of collection, callbacks, batches, a network that repeats, delays or drops what it carries,
  restarts of the agent, other devices and retention on the server: every fact the agent has committed with its native
  cursor is still queued, is a row of the server, has aged out of the server's retention, or is one of at most as many
  facts as the queue's counters of overflow, expiry and rejection say; the queue is within its bounds with unique
  identifiers, and the server has no two rows of a device for one identifier or one native record.\<close>

theorem power_evidence_accounted:
  assumes "(power_step cf cd device)\<^sup>*\<^sup>* (power_start db) y" "store_ok cd db"
  shows "(\<exists>lost. finite lost
           \<and> int (card lost) \<le> sl_overflow (rt_spool (ys_runtime y)) + sl_expired (rt_spool (ys_runtime y)) + sl_rejected (rt_spool (ys_runtime y))
           \<and> ys_taken y \<subseteq> facts (sl_queue (rt_spool (ys_runtime y))) \<union> lost \<union> stored device (ys_store y) \<union> aged (ys_horizon y))
    \<and> distinct (map pv_identifier (sl_queue (rt_spool (ys_runtime y)))) \<and> length (sl_queue (rt_spool (ys_runtime y))) \<le> cf_max_events cf
    \<and> queue_bytes cf (sl_queue (rt_spool (ys_runtime y))) \<le> cf_max_bytes cf
    \<and> distinct (map (\<lambda>r. (pr_device_id r, pr_identifier r)) (st_rows (ys_store y)))
    \<and> distinct (map (\<lambda>r. (pr_device_id r, pr_source_key r)) (st_rows (ys_store y)))"
  using inv_reachable [OF assms]
  by (simp add: pipeline_inv_def accounted_def losses_def safe_def Un_assoc spool_ok_def distinct_queue_def within_def store_ok_def)

theorem power_evidence_accounted_witness:
  "ys_taken demo_collected \<noteq> {} \<and> (\<exists>lost. finite lost \<and> int (card lost) \<le> 0
     \<and> ys_taken demo_collected \<subseteq> facts (sl_queue (rt_spool (ys_runtime demo_collected))) \<union> lost \<union> {})"
proof -
  have "stored 5 (ys_store demo_collected) = {}" "aged (ys_horizon demo_collected) = {}"
    by (simp_all add: demo_collected_def power_start_def demo_store_def stored_def aged_def)
  moreover have "sl_overflow (rt_spool (ys_runtime demo_collected)) + sl_expired (rt_spool (ys_runtime demo_collected)) + sl_rejected (rt_spool (ys_runtime demo_collected)) = 0"
    by (simp add: demo_spool)
  moreover have "ys_taken demo_collected \<noteq> {}" by (simp add: demo_collected_def demo_page_def)
  ultimately show ?thesis using power_evidence_accounted [OF demo_reachable demo_store_ok] by simp
qed

text \<open>C35. One exchange makes progress: when the batch a sender took is served once and its answer comes back, the answer
  matches, exactly the events of the batch leave the front of the queue, every one of them is either a row of the server
  or counted as rejected, and an empty batch means that the queue is empty or its first event does not fit a frame.\<close>

theorem power_exchange_settles:
  assumes "(power_step cf cd device)\<^sup>*\<^sup>* (power_start db) y" "store_ok cd db" "rt_inflight (ys_runtime y) = None"
    "send_prepare cf batch_id now (ys_runtime y) = (rt1, Some b)" "fresh_ids gen (ys_store y)"
    "ingest_power_batch cd gen device b at (ys_store y) = (db', a)" "receive_ack a rt1 = (rt2, matched)"
  shows "matched \<and> sl_queue (rt_spool rt1) = pb_events b @ sl_queue (rt_spool rt2)
    \<and> sl_rejected (rt_spool rt2) = sl_rejected (rt_spool rt1) + int (length (filter (\<lambda>r. pd_disposition r = Rejected) (pa_results a)))
    \<and> list_all2 (\<lambda>e r. pd_disposition r = Rejected \<or> pd_disposition r = Accepted \<and> spool_stable e \<in> stored device db') (pb_events b) (pa_results a)
    \<and> (pb_events b = [] \<longrightarrow> sl_queue (rt_spool rt1) = [] \<or> max_batch_bytes < cf_frame_bytes cf (b\<lparr>pb_events := [hd (sl_queue (rt_spool rt1))]\<rparr>))"
proof -
  have inv: "spool_ok cf (rt_spool (ys_runtime y))" "store_ok cd (ys_store y)" using inv_reachable [OF assms(1,2)] by (simp_all add: pipeline_inv_def)
  have ok: "spool_ok cf (rt_spool rt1)" using send_prepare_ok [OF assms(4) inv(1) assms(3)] by blast
  note p = send_prepare_prefix [OF assms(4)]
  obtain rest where q: "sl_queue (rt_spool rt1) = pb_events b @ rest" using p by blast
  have inflight: "rt_inflight rt1 = Some b" "sl_opened (rt_spool rt1)" using p by blast+
  note x = exchange [OF ok inv(2) assms(5) inflight q assms(6,7)]
  have final: "list_all (\<lambda>r. pd_disposition r \<noteq> RetryLater) (pa_results a)"
    using assms(6) ingest_events_final by (fastforce simp: ingest_power_batch_def split: prod.splits)
  have len: "length (pb_events b) = length (pa_results a)" using ingest_batch_ok [OF assms(6) inv(2) assms(5)] by (metis length_map)
  have "pd_disposition r = Rejected \<or> pd_disposition r = Accepted \<and> spool_stable e \<in> stored device db'"
    if "(e, r) \<in> set (zip (pb_events b) (pa_results a))" for e r
  proof (cases "pd_disposition r")
    case Accepted
    then show ?thesis using x that by (auto simp: confirmed_def)
  next
    case RetryLater
    then show ?thesis using final set_zip_rightD [OF that] by (auto simp: list_all_iff)
  qed simp
  then have "list_all2 (\<lambda>e r. pd_disposition r = Rejected \<or> pd_disposition r = Accepted \<and> spool_stable e \<in> stored device db') (pb_events b) (pa_results a)"
    using len by (auto simp: list_all2_iff)
  then show ?thesis using x q p by (simp add: rejections_def)
qed

lemma demo_prepared:
  "send_prepare demo_config 7 31 (ys_runtime demo_collected) =
     ((ys_runtime demo_collected)\<lparr>rt_inflight := Some demo_batch, rt_acked := False\<rparr>, Some demo_batch)"
proof -
  have s: "spool_open (rt_spool (ys_runtime demo_collected)) = rt_spool (ys_runtime demo_collected)" by (simp add: demo_spool spool_open_def)
  have "next_batch demo_config 7 31 (rt_spool (ys_runtime demo_collected)) = Inr (rt_spool (ys_runtime demo_collected), Some demo_batch)"
    by (simp add: demo_spool next_batch_def reported_status_def demo_batch_def max_batch_bytes_def demo_defs Let_def)
  then show ?thesis by (simp add: send_prepare_def runtime_open_def s)
qed

theorem power_exchange_settles_witness:
  "\<exists>rt2 db' a. ingest_power_batch power_codec (\<lambda>n. n) 5 demo_batch 40 demo_store = (db', a)
     \<and> receive_ack a ((ys_runtime demo_collected)\<lparr>rt_inflight := Some demo_batch, rt_acked := False\<rparr>) = (rt2, True) \<and> sl_queue (rt_spool rt2) = []"
proof -
  let ?rt1 = "(ys_runtime demo_collected)\<lparr>rt_inflight := Some demo_batch, rt_acked := False\<rparr>"
  obtain db' a where i: "ingest_power_batch power_codec (\<lambda>n. n) 5 demo_batch 40 demo_store = (db', a)" by fastforce
  obtain rt2 matched where r: "receive_ack a ?rt1 = (rt2, matched)" by fastforce
  have y: "rt_inflight (ys_runtime demo_collected) = None" "ys_store demo_collected = demo_store" "fresh_ids (\<lambda>n. n) demo_store"
    by (simp_all add: demo_collected_def demo_defs Let_def fresh_ids_def)
  have "matched \<and> sl_queue (rt_spool ?rt1) = pb_events demo_batch @ sl_queue (rt_spool rt2)"
    using power_exchange_settles [OF demo_reachable demo_store_ok y(1) demo_prepared _ _ r, of "\<lambda>n. n" 40 db'] i y(2,3) by simp
  moreover have "sl_queue (rt_spool ?rt1) = pb_events demo_batch" by (simp add: demo_spool demo_batch_def)
  ultimately show ?thesis using i r by auto
qed

text \<open>C36. What the server believes of a power source depends only on the set of reports it has admitted, never on the
  order in which they arrive or on how often one arrives: two sequences of reports that admit the same reports leave
  the same state, the newest report or, for reports of one time, their merge.\<close>

theorem source_status_order_free:
  assumes "fst ` {sa \<in> set rs. admissible sa} = fst ` {sa \<in> set rs'. admissible sa}"
  shows "current_status device (fold (\<lambda>(status, at). observe_source device status at) rs db)
       = current_status device (fold (\<lambda>(status, at). observe_source device status at) rs' db)"
  using observe_all_set [of device rs db] observe_all_set [of device rs' db] assms by (simp add: observe_all_def)

theorem source_status_order_free_witness:
  "current_status 5 (fold (\<lambda>(status, at). observe_source 5 status at) [(demo_status 20, 30), (demo_status 10, 40), (demo_status 20, 50)] demo_store)
     = current_status 5 (fold (\<lambda>(status, at). observe_source 5 status at) [(demo_status 10, 31), (demo_status 20, 32)] demo_store)"
proof -
  have ok: "admissible (demo_status t, at)" if "t \<le> at" "at \<le> 50" "0 \<le> t" for t at
    using that by (simp add: admissible_def demo_status_def power_retention_def hours_def minutes_def seconds_def)
  have pick: "fst ` {sa \<in> set rs. admissible sa} = set (map fst (filter admissible rs))" for rs by auto
  show ?thesis by (rule source_status_order_free) (unfold pick, simp add: ok insert_commute)
qed

text \<open>C37. The summary of a device and the summaries of a page of the fleet agree, and both are the summary over all rows
  of the device: cutting the queries to 128 rows before choosing the latest fact changes nothing, in whatever order the
  page query returns its rows.\<close>

theorem summaries_agree:
  assumes "store_ok cd db" "\<And>rows. mset (arrange rows) = mset rows"
  shows "enrich_power_summaries arrange items now db
           = map (\<lambda>i. summarize_power (fi_device i) (fi_online i) (fi_last_seen_at i) now db) items
    \<and> enrich_power_summaries arrange items now db
           = map (\<lambda>i. project_power (fi_online i) (fi_last_seen_at i) (current_status (fi_device i) db)
                (map pr_event (filter (\<lambda>r. pr_device_id r = fi_device i) (st_rows db))) now) items"
proof -
  have "enrich_power_summaries arrange items now db = map (\<lambda>i. summarize_power (fi_device i) (fi_online i) (fi_last_seen_at i) now db) items"
    using enriched_summary [OF assms, of _ items now] by (simp add: enrich_power_summaries_def Let_def)
  then show ?thesis by (simp add: top_rows_summary [OF assms(1)])
qed

theorem summaries_agree_witness:
  "map py_status (enrich_power_summaries rev [\<lparr>fi_device = 5, fi_online = False, fi_last_seen_at = Some 15\<rparr>] 60 demo_rows) = [LabelSleep]"
proof -
  have ok: "store_ok power_codec demo_rows"
    by (simp add: store_ok_def demo_rows_def demo_row_def row_of_def native_key_def power_codec_def demo_event_def)
  show ?thesis
    unfolding summaries_agree [OF ok, of rev, simplified, THEN conjunct2]
    by (simp add: demo_rows_def demo_row_def demo_event_def demo_status_def project_power_def project_label_def transition_label_def usable_source_def
        current_status_def find_row_def latest_key_def power_retention_def hours_def minutes_def seconds_def Let_def)
qed

end
