(* ===== verification/Activity_Sweep.thy ===== *)
theory Activity_Sweep
  imports Prelude "HOL-Library.Product_Lexorder" "HOL-Library.AList"
begin

text \<open>
  \<open>endpoint_server/activity/analytics_math.py\<close>: measured intervals, the sweep that merges the intervals of one account over
  all its devices into segments. Times are instants in microseconds. The heap is the sorted list of its keys, of which the code reads the
  least only; identifiers of devices order as their text does.
\<close>

section \<open>Intervals\<close>

datatype session_state = SessActive | SessIdle | SessLocked | SessDisconnected | SessUnknown

fun state_priority :: "session_state \<Rightarrow> nat" where
  "state_priority SessActive = 0"
| "state_priority SessIdle = 1"
| "state_priority SessLocked = 2"
| "state_priority SessDisconnected = 3"
| "state_priority SessUnknown = 4"

record activity_interval =
  av_id :: uuid
  av_device_id :: uuid
  av_user_key :: "string option"
  av_user_login :: "string option"
  av_started_at :: instant
  av_ended_at :: instant
  av_last_observed_at :: instant
  av_state :: session_state
  av_process :: "string option"
  av_category :: "string option"
  av_browser :: "string option"
  av_policy_version :: "uuid option"

record activity_segment =
  sg_started_at :: instant
  sg_ended_at :: instant
  sg_state :: session_state
  sg_process :: "string option"
  sg_category :: "string option"
  sg_device_id :: uuid
  sg_overlap :: bool

section \<open>The sweep\<close>

type_synonym sweep_rank = "nat \<times> uuid \<times> nat"
type_synonym edge = "instant \<times> bool \<times> nat \<times> activity_interval"

definition sweep_key :: "nat \<times> activity_interval \<Rightarrow> sweep_rank" where
  "sweep_key p = (state_priority (av_state (snd p)), av_device_id (snd p), fst p)"

definition clip_left :: "instant \<Rightarrow> activity_interval \<Rightarrow> instant" where
  "clip_left a r = max a (av_started_at r)"

definition clip_right :: "instant \<Rightarrow> activity_interval \<Rightarrow> instant" where
  "clip_right b r = min b (av_ended_at r)"

definition edges_of :: "instant \<Rightarrow> instant \<Rightarrow> nat \<times> activity_interval \<Rightarrow> edge list" where
  "edges_of a b p =
     (case p of (i, r) \<Rightarrow>
        if clip_right b r \<le> clip_left a r then [] else [(clip_left a r, True, i, r), (clip_right b r, False, i, r)])"

definition sweep_edges :: "instant \<Rightarrow> instant \<Rightarrow> activity_interval list \<Rightarrow> edge list" where
  "sweep_edges a b rows = concat (map (edges_of a b) (enumerate 0 rows))"

definition apply_edge :: "edge \<Rightarrow> (nat \<times> activity_interval) list \<times> sweep_rank list \<Rightarrow> (nat \<times> activity_interval) list \<times> sweep_rank list" where
  "apply_edge e st =
     (case (e, st) of ((_, starts, i, r), (active, heap)) \<Rightarrow>
        if starts then (AList.update i r active, insort (sweep_key (i, r)) heap) else (AList.delete i active, heap))"

definition drop_stale :: "(nat \<times> activity_interval) list \<Rightarrow> sweep_rank list \<Rightarrow> sweep_rank list" where
  "drop_stale active heap = dropWhile (\<lambda>k. snd (snd k) \<notin> fst ` set active) heap"

definition segment_of :: "instant \<Rightarrow> instant \<Rightarrow> activity_interval \<Rightarrow> bool \<Rightarrow> activity_segment" where
  "segment_of q p w overlap =
     \<lparr>sg_started_at = q, sg_ended_at = p, sg_state = av_state w, sg_process = av_process w, sg_category = av_category w,
      sg_device_id = av_device_id w, sg_overlap = overlap\<rparr>"

text \<open>\<open>None\<close> stands for the exceptions of an empty heap and of a missing key.\<close>

fun sweep :: "edge list \<Rightarrow> (nat \<times> activity_interval) list \<Rightarrow> sweep_rank list \<Rightarrow> instant option \<Rightarrow> instant list \<Rightarrow> activity_segment list option" where
  "sweep es active heap previous [] = Some []"
| "sweep es active heap previous (p # ps) =
     (case previous of
        None \<Rightarrow>
          (case fold apply_edge (filter (\<lambda>e. fst e = p) es) (active, heap) of (active', heap') \<Rightarrow> sweep es active' heap' (Some p) ps)
      | Some q \<Rightarrow>
          if q < p \<and> active \<noteq> [] then
            (case drop_stale active heap of
               [] \<Rightarrow> None
             | k # ks \<Rightarrow>
                 (case map_of active (snd (snd k)) of
                    None \<Rightarrow> None
                  | Some w \<Rightarrow>
                      (case fold apply_edge (filter (\<lambda>e. fst e = p) es) (active, k # ks) of (active', heap') \<Rightarrow>
                         map_option ((#) (segment_of q p w (1 < length active))) (sweep es active' heap' (Some p) ps))))
          else (case fold apply_edge (filter (\<lambda>e. fst e = p) es) (active, heap) of (active', heap') \<Rightarrow> sweep es active' heap' (Some p) ps))"

definition sweep_points :: "edge list \<Rightarrow> instant list" where
  "sweep_points es = sort (remdups (map fst es))"

definition merged_segments :: "activity_interval list \<Rightarrow> instant \<Rightarrow> instant \<Rightarrow> activity_segment list option" where
  "merged_segments rows a b = (let es = sweep_edges a b rows in sweep es [] [] None (sweep_points es))"

section \<open>What the segments mean\<close>

text \<open>At one instant: the intervals that cover it, and the one of least priority, device and position.\<close>

definition covering :: "instant \<Rightarrow> instant \<Rightarrow> activity_interval list \<Rightarrow> instant \<Rightarrow> (nat \<times> activity_interval) list" where
  "covering a b rows t = filter (\<lambda>(i, r). clip_left a r \<le> t \<and> t < clip_right b r) (enumerate 0 rows)"

definition winner_at :: "instant \<Rightarrow> instant \<Rightarrow> activity_interval list \<Rightarrow> instant \<Rightarrow> (activity_interval \<times> bool) option" where
  "winner_at a b rows t =
     (case sort_key sweep_key (covering a b rows t) of [] \<Rightarrow> None | w # ws \<Rightarrow> Some (snd w, ws \<noteq> []))"

definition segment_at :: "activity_segment list \<Rightarrow> instant \<Rightarrow> activity_segment option" where
  "segment_at segs t = find (\<lambda>s. sg_started_at s \<le> t \<and> t < sg_ended_at s) segs"

definition describes :: "activity_segment \<Rightarrow> activity_interval \<times> bool \<Rightarrow> bool" where
  "describes s w \<longleftrightarrow> sg_state s = av_state (fst w) \<and> sg_process s = av_process (fst w) \<and> sg_category s = av_category (fst w)
     \<and> sg_device_id s = av_device_id (fst w) \<and> sg_overlap s = snd w"

section \<open>Edges\<close>

lemma edge_iff:
  "(t, starts, i, r) \<in> set (sweep_edges a b rows) \<longleftrightarrow>
   (i, r) \<in> set (enumerate 0 rows) \<and> clip_left a r < clip_right b r \<and> t = (if starts then clip_left a r else clip_right b r)"
  by (force simp: sweep_edges_def edges_of_def not_le)

lemma distinct_enumerate_fst: "distinct (map fst (enumerate n rows))"
  by simp

lemma enumerate_fun: "(i, r) \<in> set (enumerate n rows) \<Longrightarrow> (i, r') \<in> set (enumerate n rows) \<Longrightarrow> r = r'"
  using distinct_enumerate_fst [of n rows] by (metis eq_key_imp_eq_value)

lemma covering_iff: "(i, r) \<in> set (covering a b rows t) \<longleftrightarrow> (i, r) \<in> set (enumerate 0 rows) \<and> clip_left a r \<le> t \<and> t < clip_right b r"
  by (auto simp: covering_def)

lemma distinct_covering: "distinct (map fst (covering a b rows t))"
  by (simp add: covering_def distinct_map_filter)

text \<open>The intervals that are open after the edges up to \<open>q\<close> are those that cover \<open>q\<close>.\<close>

definition active_ok :: "instant \<Rightarrow> instant \<Rightarrow> activity_interval list \<Rightarrow> instant \<Rightarrow> (nat \<times> activity_interval) list \<Rightarrow> bool" where
  "active_ok a b rows q active \<longleftrightarrow> distinct (map fst active) \<and> set active = set (covering a b rows q)"

definition heap_ok :: "instant \<Rightarrow> activity_interval list \<Rightarrow> instant \<Rightarrow> (nat \<times> activity_interval) list \<Rightarrow> sweep_rank list \<Rightarrow> bool" where
  "heap_ok a rows q active heap \<longleftrightarrow> sorted heap \<and> sweep_key ` set active \<subseteq> set heap
     \<and> set heap \<subseteq> sweep_key ` {p \<in> set (enumerate 0 rows). clip_left a (snd p) \<le> q}"

definition edge_index :: "edge \<Rightarrow> nat" where
  "edge_index e = fst (snd (snd e))"

lemma edge_index_simp [simp]: "edge_index (t, starts, i, r) = i"
  by (simp add: edge_index_def)

lemma set_AList_update: "distinct (map fst al) \<Longrightarrow> set (AList.update k v al) = insert (k, v) {p \<in> set al. fst p \<noteq> k}"
  by (induction al) (auto simp: image_iff)

lemma set_AList_delete: "set (AList.delete k al) = {p \<in> set al. fst p \<noteq> k}"
  by (auto simp: AList.delete_eq)

lemma fold_edges:
  assumes "fold apply_edge es (active, heap) = (active', heap')" "distinct (map edge_index es)" "distinct (map fst active)" "sorted heap"
  shows "distinct (map fst active') \<and> sorted heap'
    \<and> set active' = {p \<in> set active. fst p \<notin> edge_index ` set es} \<union> {(i, r). \<exists>t. (t, True, i, r) \<in> set es}
    \<and> set heap' = set heap \<union> {sweep_key (i, r) | t i r. (t, True, i, r) \<in> set es}"
  using assms
proof (induction es arbitrary: active heap)
  case Nil
  then show ?case by auto
next
  case (Cons e es)
  obtain t starts i r where e: "e = (t, starts, i, r)" by (cases e) auto
  obtain active1 heap1 where one: "apply_edge e (active, heap) = (active1, heap1)" by (cases "apply_edge e (active, heap)")
  have a1: "distinct (map fst active1)" "sorted heap1" "set heap1 = set heap \<union> (if starts then {sweep_key (i, r)} else {})"
      "set active1 = {p \<in> set active. fst p \<noteq> i} \<union> (if starts then {(i, r)} else {})"
    using one Cons.prems(3,4)
    by (auto simp: apply_edge_def e sorted_insort set_insort_key AList.distinct_update AList.distinct_delete set_AList_update set_AList_delete split: if_splits)
  have notin: "i \<notin> edge_index ` set es" using Cons.prems(2) by (simp add: e)
  then have away: "(t', b, i, r') \<notin> set es" for t' b r' by (metis edge_index_simp imageI)
  have "fold apply_edge es (active1, heap1) = (active', heap')" using Cons.prems(1) one by simp
  note rest = Cons.IH [OF this _ a1(1,2)]
  have d: "distinct (map edge_index es)" using Cons.prems(2) by simp
  note rest = rest [OF d]
  have "set active' = {p \<in> set active. fst p \<notin> edge_index ` set (e # es)} \<union> {(j, x). \<exists>t. (t, True, j, x) \<in> set (e # es)}"
    using rest notin away unfolding a1(4) e by (auto split: if_splits)
  moreover have "set heap' = set heap \<union> {sweep_key (j, x) | t j x. (t, True, j, x) \<in> set (e # es)}"
    using rest unfolding a1(3) e by (auto split: if_splits)
  ultimately show ?case using rest by blast
qed

lemma edges_of_index: "edge_index ` set (edges_of a b x) \<subseteq> {fst x}" "distinct (map edge_index (filter (\<lambda>e. fst e = p) (edges_of a b x)))"
  by (cases x; auto simp: edges_of_def)+

lemma edges_index: "edge_index ` set (concat (map (edges_of a b) xs)) \<subseteq> fst ` set xs"
proof
  fix i assume "i \<in> edge_index ` set (concat (map (edges_of a b) xs))"
  then obtain x e where "x \<in> set xs" "e \<in> set (edges_of a b x)" "i = edge_index e" by auto
  then have "i = fst x" using edges_of_index(1) [of a b x] by blast
  with \<open>x \<in> set xs\<close> show "i \<in> fst ` set xs" by simp
qed

lemma disjoint_singleton: "A \<subseteq> {x} \<Longrightarrow> B \<subseteq> S \<Longrightarrow> x \<notin> S \<Longrightarrow> A \<inter> B = {}"
  by blast

lemma edges_at_distinct: "distinct (map fst xs) \<Longrightarrow> distinct (map edge_index (filter (\<lambda>e. fst e = p) (concat (map (edges_of a b) xs))))"
proof (induction xs)
  case (Cons x xs)
  define here where "here = filter (\<lambda>e. fst e = p) (edges_of a b x)"
  define there where "there = filter (\<lambda>e. fst e = p) (concat (map (edges_of a b) xs))"
  have "edge_index ` set here \<subseteq> {fst x}" using edges_of_index(1) [of a b x] by (auto simp: here_def)
  moreover have "edge_index ` set there \<subseteq> fst ` set xs" using edges_index [of a b xs] by (auto simp: there_def)
  moreover have "fst x \<notin> fst ` set xs" using Cons.prems by simp
  ultimately have "edge_index ` set here \<inter> edge_index ` set there = {}" by (rule disjoint_singleton)
  moreover have "distinct (map edge_index there)" "distinct (map edge_index here)"
    using Cons edges_of_index(2) [of p a b x] by (simp_all add: there_def here_def)
  moreover have "filter (\<lambda>e. fst e = p) (concat (map (edges_of a b) (x # xs))) = here @ there" by (simp add: here_def there_def)
  ultimately show ?case by (simp only: map_append distinct_append set_map)
qed simp

lemma edges_point_distinct: "distinct (map edge_index (filter (\<lambda>e. fst e = p) (sweep_edges a b rows)))"
  unfolding sweep_edges_def by (rule edges_at_distinct) simp

section \<open>From point to point\<close>

definition points_of :: "instant \<Rightarrow> instant \<Rightarrow> activity_interval list \<Rightarrow> instant set" where
  "points_of a b rows = fst ` set (sweep_edges a b rows)"

lemma left_point: "(i, r) \<in> set (enumerate 0 rows) \<Longrightarrow> clip_left a r < clip_right b r \<Longrightarrow> clip_left a r \<in> points_of a b rows"
  unfolding points_of_def by (rule image_eqI [of _ _ "(clip_left a r, True, i, r)"]) (simp_all add: edge_iff)

lemma right_point: "(i, r) \<in> set (enumerate 0 rows) \<Longrightarrow> clip_left a r < clip_right b r \<Longrightarrow> clip_right b r \<in> points_of a b rows"
  unfolding points_of_def by (rule image_eqI [of _ _ "(clip_right b r, False, i, r)"]) (simp_all add: edge_iff)

definition no_point_between :: "instant \<Rightarrow> instant \<Rightarrow> activity_interval list \<Rightarrow> instant \<Rightarrow> instant \<Rightarrow> bool" where
  "no_point_between a b rows q p \<longleftrightarrow> (\<forall>x\<in>points_of a b rows. x \<le> q \<or> p \<le> x)"

lemma point_cases:
  assumes "no_point_between a b rows q p" "(i, r) \<in> set (enumerate 0 rows)" "clip_left a r < clip_right b r"
  shows "(clip_left a r \<le> q \<or> p \<le> clip_left a r) \<and> (clip_right b r \<le> q \<or> p \<le> clip_right b r)"
  using assms left_point [OF assms(2,3)] right_point [OF assms(2,3)] unfolding no_point_between_def by blast

lemma covering_between:
  assumes "no_point_between a b rows q p" "q \<le> t" "t < p"
  shows "covering a b rows t = covering a b rows q"
  unfolding covering_def
proof (rule filter_cong [OF refl])
  fix x assume "x \<in> set (enumerate 0 rows)"
  moreover obtain i r where "x = (i, r)" by (cases x)
  ultimately have x: "x = (i, r)" "(i, r) \<in> set (enumerate 0 rows)" by simp_all
  show "(case x of (i, r) \<Rightarrow> clip_left a r \<le> t \<and> t < clip_right b r) = (case x of (i, r) \<Rightarrow> clip_left a r \<le> q \<and> q < clip_right b r)"
    using assms(2,3) point_cases [OF assms(1) x(2)] unfolding x(1) by (cases "clip_left a r < clip_right b r") auto
qed

lemma covering_step:
  assumes "no_point_between a b rows q p" "q < p"
  shows "set (covering a b rows p) = {x \<in> set (covering a b rows q). fst x \<notin> edge_index ` set (filter (\<lambda>e. fst e = p) (sweep_edges a b rows))}
     \<union> {(i, r). \<exists>t. (t, True, i, r) \<in> set (filter (\<lambda>e. fst e = p) (sweep_edges a b rows))}" (is "_ = ?A \<union> ?B")
proof -
  have idx: "i \<in> edge_index ` set (filter (\<lambda>e. fst e = p) (sweep_edges a b rows)) \<longleftrightarrow> clip_left a r < clip_right b r \<and> (p = clip_left a r \<or> p = clip_right b r)"
    if "(i, r) \<in> set (enumerate 0 rows)" for i r
  proof -
    have "i \<in> edge_index ` set (filter (\<lambda>e. fst e = p) (sweep_edges a b rows)) \<longleftrightarrow> (\<exists>starts r'. (p, starts, i, r') \<in> set (sweep_edges a b rows))"
      by (force simp: edge_index_def)
    also have "\<dots> \<longleftrightarrow> (\<exists>starts. (p, starts, i, r) \<in> set (sweep_edges a b rows))" using enumerate_fun [OF that] unfolding edge_iff by blast
    also have "\<dots> \<longleftrightarrow> clip_left a r < clip_right b r \<and> (p = clip_left a r \<or> p = clip_right b r)" using that unfolding edge_iff by auto
    finally show ?thesis .
  qed
  have "(i, r) \<in> set (covering a b rows p) \<longleftrightarrow> (i, r) \<in> ?A \<union> ?B" if m: "(i, r) \<in> set (enumerate 0 rows)" for i r
  proof -
    have "(i, r) \<in> ?A \<longleftrightarrow> clip_left a r \<le> q \<and> q < clip_right b r \<and> p \<noteq> clip_left a r \<and> p \<noteq> clip_right b r"
      unfolding mem_Collect_eq covering_iff fst_conv idx [OF m] using m by auto
    moreover have "(i, r) \<in> ?B \<longleftrightarrow> clip_left a r < clip_right b r \<and> p = clip_left a r" using m by (auto simp: edge_iff simp del: in_set_enumerate_eq)
    ultimately have "(i, r) \<in> ?A \<union> ?B \<longleftrightarrow> clip_left a r \<le> q \<and> q < clip_right b r \<and> p \<noteq> clip_left a r \<and> p \<noteq> clip_right b r
        \<or> clip_left a r < clip_right b r \<and> p = clip_left a r" by blast
    also have "\<dots> \<longleftrightarrow> clip_left a r \<le> p \<and> p < clip_right b r"
      using assms(2) point_cases [OF assms(1) m] by (cases "clip_left a r < clip_right b r") auto
    finally show ?thesis using m by (simp add: covering_iff)
  qed
  moreover have "(i, r) \<notin> set (covering a b rows p)" "(i, r) \<notin> ?A \<union> ?B" if "(i, r) \<notin> set (enumerate 0 rows)" for i r
    using that by (simp_all add: covering_iff edge_iff del: in_set_enumerate_eq)
  ultimately have iff: "(i, r) \<in> set (covering a b rows p) \<longleftrightarrow> (i, r) \<in> ?A \<union> ?B" for i r by blast
  show ?thesis
  proof (rule set_eqI)
    fix x :: "nat \<times> activity_interval"
    obtain i r where "x = (i, r)" by (cases x)
    then show "x \<in> set (covering a b rows p) \<longleftrightarrow> x \<in> ?A \<union> ?B" using iff [of i r] by (simp only:)
  qed
qed

lemma advance:
  assumes "active_ok a b rows q active" "heap_ok a rows q active heap" "no_point_between a b rows q p" "q < p"
    "fold apply_edge (filter (\<lambda>e. fst e = p) (sweep_edges a b rows)) (active, heap) = (active', heap')"
  shows "active_ok a b rows p active' \<and> heap_ok a rows p active' heap'"
proof -
  have pre: "distinct (map fst active)" "sorted heap" "set active = set (covering a b rows q)" using assms(1,2) by (simp_all add: active_ok_def heap_ok_def)
  note f = fold_edges [OF assms(5) edges_point_distinct pre(1,2)]
  have act: "set active' = set (covering a b rows p)" using f covering_step [OF assms(3,4)] pre(3) by simp
  have "sweep_key ` set active' \<subseteq> set heap'"
    using f assms(2) unfolding heap_ok_def by (auto simp: image_iff subset_iff)
  moreover have "set heap' \<subseteq> sweep_key ` {p' \<in> set (enumerate 0 rows). clip_left a (snd p') \<le> p}"
  proof
    fix k assume "k \<in> set heap'"
    then consider "k \<in> set heap" | t i r where "k = sweep_key (i, r)" "(t, True, i, r) \<in> set (sweep_edges a b rows)" "t = p" using f by auto
    then show "k \<in> sweep_key ` {p' \<in> set (enumerate 0 rows). clip_left a (snd p') \<le> p}"
    proof cases
      case 1
      then show ?thesis using assms(2,4) unfolding heap_ok_def by fastforce
    next
      case 2
      then show ?thesis by (intro image_eqI [of _ _ "(i, r)"]) (simp_all add: edge_iff del: in_set_enumerate_eq)
    qed
  qed
  ultimately show ?thesis using f act by (simp add: active_ok_def heap_ok_def)
qed

section \<open>The top of the heap\<close>

lemma sweep_key_index [simp]: "snd (snd (sweep_key p)) = fst p"
  by (simp add: sweep_key_def)

lemma sweep_key_enumerate: "p \<in> set (enumerate 0 rows) \<Longrightarrow> p' \<in> set (enumerate 0 rows) \<Longrightarrow> sweep_key p = sweep_key p' \<Longrightarrow> p = p'"
  using enumerate_fun [of "fst p" "snd p" 0 rows "snd p'"] sweep_key_index [of p] sweep_key_index [of p'] by (metis prod.collapse)

lemma covering_subset: "set (covering a b rows q) \<subseteq> set (enumerate 0 rows)"
  by (auto simp: covering_def)

lemma active_length: "active_ok a b rows q active \<Longrightarrow> length active = length (covering a b rows q)"
  unfolding active_ok_def using distinct_covering [of a b rows q] by (metis distinct_card distinct_map)

lemma dropWhile_keeps: "x \<in> set xs \<Longrightarrow> \<not> P x \<Longrightarrow> x \<in> set (dropWhile P xs)"
  by (induction xs) auto

lemma sort_key_head:
  assumes "x \<in> set xs" "\<And>y. y \<in> set xs \<Longrightarrow> key x \<le> key y" "inj_on key (set xs)"
  shows "\<exists>ys. sort_key key xs = x # ys"
proof (cases "sort_key key xs")
  case Nil
  then show ?thesis using assms(1) by (metis empty_iff set_empty set_sort)
next
  case (Cons y ys)
  have y: "y \<in> set xs" using Cons by (metis list.set_intros(1) set_sort)
  have "sorted (map key (y # ys))" using sorted_sort_key [of key xs] Cons by simp
  moreover have "x \<in> set (y # ys)" using assms(1) Cons by (metis set_sort)
  ultimately have "key y \<le> key x" by auto
  then have "y = x" using assms(2) [OF y] assms(1,3) y by (meson antisym inj_onD)
  with Cons show ?thesis by simp
qed

lemma heap_top:
  assumes "active_ok a b rows q active" "heap_ok a rows q active heap" "active \<noteq> []"
  shows "\<exists>k ks w. drop_stale active heap = k # ks \<and> map_of active (snd (snd k)) = Some w
    \<and> winner_at a b rows q = Some (w, 1 < length active) \<and> heap_ok a rows q active (k # ks)"
proof -
  have act: "distinct (map fst active)" "set active = set (covering a b rows q)" using assms(1) by (simp_all add: active_ok_def)
  have h: "sorted heap" "sweep_key ` set active \<subseteq> set heap" "set heap \<subseteq> sweep_key ` {p \<in> set (enumerate 0 rows). clip_left a (snd p) \<le> q}"
    using assms(2) by (simp_all add: heap_ok_def)
  have kept: "sweep_key p \<in> set (drop_stale active heap)" if "p \<in> set active" for p
    unfolding drop_stale_def using that h(2) by (intro dropWhile_keeps) auto
  obtain p0 where p0: "p0 \<in> set active" using assms(3) by (cases active) auto
  obtain k ks where k: "drop_stale active heap = k # ks" using kept [OF p0] by (cases "drop_stale active heap") auto
  have sub: "set (k # ks) \<subseteq> set heap" unfolding k [symmetric] drop_stale_def by (meson set_dropWhileD subsetI)
  have "sorted (k # ks)" unfolding k [symmetric] drop_stale_def using h(1) by (rule sorted_dropWhile)
  then have least: "k \<le> x" if "x \<in> set (k # ks)" for x using that by auto
  have idx: "snd (snd k) \<in> fst ` set active" using k unfolding drop_stale_def by (metis dropWhile_eq_Cons_conv)
  then obtain w where w: "(snd (snd k), w) \<in> set active" by auto
  have en: "set active \<subseteq> set (enumerate 0 rows)" using act(2) covering_subset by blast
  have "k \<in> sweep_key ` set (enumerate 0 rows)" using sub h(3) by auto
  then obtain p where p: "p \<in> set (enumerate 0 rows)" "k = sweep_key p" by auto
  have "fst p = snd (snd k)" by (simp add: p(2))
  then have pw: "p = (snd (snd k), w)" using enumerate_fun [of "fst p" "snd p" 0 rows w] p(1) w en by (metis prod.collapse subsetD)
  have "inj_on sweep_key (set (covering a b rows q))" using covering_subset sweep_key_enumerate by (meson inj_onI subsetD)
  then obtain ys where ys: "sort_key sweep_key (covering a b rows q) = p # ys"
    using sort_key_head [of p "covering a b rows q" sweep_key] w least kept pw p(2) act(2) k by metis
  have "length (covering a b rows q) = Suc (length ys)" using arg_cong [OF ys, of length] by simp
  then have "ys \<noteq> [] \<longleftrightarrow> 1 < length active" using active_length [OF assms(1)] by (cases ys) auto
  then have "winner_at a b rows q = Some (w, 1 < length active)" by (simp add: winner_at_def ys pw)
  moreover have "map_of active (snd (snd k)) = Some w" using w act(1) by simp
  moreover have "sweep_key ` set active \<subseteq> set (k # ks)" using kept unfolding k by blast
  then have "heap_ok a rows q active (k # ks)"
    unfolding heap_ok_def using \<open>sorted (k # ks)\<close> subset_trans [OF sub h(3)] by blast
  ultimately show ?thesis using k by blast
qed

section \<open>The sweep meets its specification\<close>

fun chain_from :: "instant \<Rightarrow> activity_segment list \<Rightarrow> bool" where
  "chain_from q [] \<longleftrightarrow> True"
| "chain_from q (s # ss) \<longleftrightarrow> q \<le> sg_started_at s \<and> sg_started_at s < sg_ended_at s \<and> chain_from (sg_ended_at s) ss"

lemma chain_from_later: "chain_from p ss \<Longrightarrow> q \<le> p \<Longrightarrow> chain_from q ss"
  by (cases ss) auto

lemma segment_at_before: "chain_from q ss \<Longrightarrow> t < q \<Longrightarrow> segment_at ss t = None"
  by (induction ss arbitrary: q) (force simp: segment_at_def)+

lemma describes_segment: "describes (segment_of q p w o') (w, o')"
  by (simp add: describes_def segment_of_def)

lemma sweep_ok:
  assumes "active_ok a b rows q active" "heap_ok a rows q active heap" "previous = Some q \<or> previous = None \<and> active = []"
    "sorted ps" "distinct ps" "set ps = {x \<in> points_of a b rows. q < x}"
  shows "\<exists>segs. sweep (sweep_edges a b rows) active heap previous ps = Some segs \<and> chain_from q segs
    \<and> (\<forall>t\<ge>q. rel_option describes (segment_at segs t) (winner_at a b rows t))"
  using assms
proof (induction ps arbitrary: q active heap previous)
  case Nil
  have "winner_at a b rows t = None" if "q \<le> t" for t
  proof -
    have "covering a b rows t = []"
    proof (rule ccontr)
      assume "covering a b rows t \<noteq> []"
      then obtain i r where "(i, r) \<in> set (covering a b rows t)" by (metis list.set_intros(1) neq_Nil_conv prod.exhaust)
      then show False using Nil.prems(6) right_point [of i r rows a b] that unfolding covering_iff by force
    qed
    then show ?thesis by (simp add: winner_at_def)
  qed
  then show ?case by (simp add: segment_at_def)
next
  case (Cons p ps)
  have qp: "q < p" using Cons.prems(6) by auto
  have le: "p \<le> x" if "x \<in> set ps" for x using that Cons.prems(4) by simp
  have ps: "sorted ps" "distinct ps" using Cons.prems(4,5) by simp_all
  have ps': "set ps = {x \<in> points_of a b rows. p < x}"
  proof (rule set_eqI)
    fix x
    have "x \<in> insert p (set ps) \<longleftrightarrow> x \<in> points_of a b rows \<and> q < x" using Cons.prems(6) by auto
    then show "x \<in> set ps \<longleftrightarrow> x \<in> {x \<in> points_of a b rows. p < x}" using le [of x] Cons.prems(5) qp by (cases "x = p") auto
  qed
  have none: "no_point_between a b rows q p" unfolding no_point_between_def
  proof
    fix x assume x: "x \<in> points_of a b rows"
    show "x \<le> q \<or> p \<le> x"
    proof (cases "q < x")
      case True
      then have "x \<in> set (p # ps)" using x Cons.prems(6) by simp
      then show ?thesis using le by auto
    qed simp
  qed
  have same: "winner_at a b rows t = winner_at a b rows q" if "q \<le> t" "t < p" for t
    using covering_between [OF none that] by (simp add: winner_at_def)
  have go: "\<exists>segs. sweep (sweep_edges a b rows) active' heap' (Some p) ps = Some segs \<and> chain_from p segs
      \<and> (\<forall>t\<ge>p. rel_option describes (segment_at segs t) (winner_at a b rows t))"
    if "heap_ok a rows q active h" "fold apply_edge (filter (\<lambda>e. fst e = p) (sweep_edges a b rows)) (active, h) = (active', heap')" for h active' heap'
    using Cons.IH [OF _ _ _ ps ps'] advance [OF Cons.prems(1) that(1) none qp that(2)] by blast
  show ?case
  proof (cases "active = []")
    case True
    obtain active' heap' where f: "fold apply_edge (filter (\<lambda>e. fst e = p) (sweep_edges a b rows)) (active, heap) = (active', heap')"
      by (cases "fold apply_edge (filter (\<lambda>e. fst e = p) (sweep_edges a b rows)) (active, heap)")
    obtain segs where segs: "sweep (sweep_edges a b rows) active' heap' (Some p) ps = Some segs" "chain_from p segs"
        "\<And>t. p \<le> t \<Longrightarrow> rel_option describes (segment_at segs t) (winner_at a b rows t)"
      using go [OF Cons.prems(2) f] by blast
    have "covering a b rows q = []" using Cons.prems(1) True by (simp add: active_ok_def)
    then have w: "winner_at a b rows q = None" by (simp add: winner_at_def)
    have "rel_option describes (segment_at segs t) (winner_at a b rows t)" if "q \<le> t" for t
    proof (cases "t < p")
      case True
      show ?thesis unfolding same [OF that True] segment_at_before [OF segs(2) True] w by simp
    next
      case False
      then show ?thesis using segs(3) [of t] by simp
    qed
    moreover have "sweep (sweep_edges a b rows) active heap previous (p # ps) = Some segs"
      using f segs(1) unfolding True by (cases previous) simp_all
    ultimately show ?thesis using chain_from_later [OF segs(2)] qp by auto
  next
    case False
    then have prev: "previous = Some q" using Cons.prems(3) by blast
    obtain k ks w where top: "drop_stale active heap = k # ks" "map_of active (snd (snd k)) = Some w"
        "winner_at a b rows q = Some (w, 1 < length active)" "heap_ok a rows q active (k # ks)"
      using heap_top [OF Cons.prems(1,2) False] by blast
    obtain active' heap' where f: "fold apply_edge (filter (\<lambda>e. fst e = p) (sweep_edges a b rows)) (active, k # ks) = (active', heap')"
      by (cases "fold apply_edge (filter (\<lambda>e. fst e = p) (sweep_edges a b rows)) (active, k # ks)")
    obtain segs where segs: "sweep (sweep_edges a b rows) active' heap' (Some p) ps = Some segs" "chain_from p segs"
        "\<And>t. p \<le> t \<Longrightarrow> rel_option describes (segment_at segs t) (winner_at a b rows t)"
      using go [OF top(4) f] by blast
    let ?s = "segment_of q p w (1 < length active)"
    have "sweep (sweep_edges a b rows) active heap previous (p # ps) = Some (?s # segs)"
      using f segs(1) top(1,2) False qp by (simp add: prev)
    moreover have "rel_option describes (segment_at (?s # segs) t) (winner_at a b rows t)" if "q \<le> t" for t
    proof (cases "t < p")
      case True
      then have "segment_at (?s # segs) t = Some ?s" using that by (simp add: segment_at_def segment_of_def)
      then show ?thesis using same [OF that True] top(3) describes_segment by simp
    next
      case False
      then have "segment_at (?s # segs) t = segment_at segs t" by (simp add: segment_at_def segment_of_def)
      then show ?thesis using segs(3) False by simp
    qed
    moreover have "chain_from q (?s # segs)" using segs(2) qp by (simp add: segment_of_def)
    ultimately show ?thesis by blast
  qed
qed

lemma sweep_correct:
  "\<exists>segs. merged_segments rows a b = Some segs \<and> chain_from a segs
     \<and> (\<forall>t. rel_option describes (segment_at segs t) (winner_at a b rows t))"
proof -
  define q where "q = a - 1"
  let ?ps = "sweep_points (sweep_edges a b rows)"
  have left: "a \<le> clip_left a r" for r by (simp add: clip_left_def)
  have early: "covering a b rows t = []" if "t < a" for t
    using that left by (auto simp: covering_def filter_empty_conv) (meson leD order_trans)
  have pts: "a \<le> x" if "x \<in> points_of a b rows" for x
    using that left unfolding points_of_def by (force simp: edge_iff split: if_splits intro: order_trans [OF _ less_imp_le])
  have "active_ok a b rows q []" using early [of q] by (simp add: active_ok_def q_def)
  moreover have "heap_ok a rows q [] []" by (simp add: heap_ok_def)
  moreover have "set ?ps = {x \<in> points_of a b rows. q < x}" using pts by (force simp: sweep_points_def points_of_def q_def)
  ultimately obtain segs where segs: "sweep (sweep_edges a b rows) [] [] None ?ps = Some segs" "chain_from q segs"
      "\<And>t. q \<le> t \<Longrightarrow> rel_option describes (segment_at segs t) (winner_at a b rows t)"
    using sweep_ok [of a b rows q "[]" "[]" None ?ps] by (auto simp: sweep_points_def)
  have "rel_option describes (segment_at segs t) (winner_at a b rows t)" for t
  proof (cases "t < q")
    case True
    then have "covering a b rows t = []" using early by (simp add: q_def)
    then show ?thesis using segment_at_before [OF segs(2) True] by (simp add: winner_at_def)
  qed (use segs(3) in simp)
  moreover have "chain_from a segs"
  proof (cases segs)
    case (Cons s ss)
    then have "segment_at segs (sg_started_at s) = Some s" using segs(2) by (simp add: segment_at_def)
    then have "winner_at a b rows (sg_started_at s) \<noteq> None" using calculation [of "sg_started_at s"] by (cases "winner_at a b rows (sg_started_at s)") auto
    then have "\<not> sg_started_at s < a" using early [of "sg_started_at s"] by (auto simp: winner_at_def)
    then show ?thesis using segs(2) Cons by simp
  qed simp
  ultimately show ?thesis using segs(1) by (auto simp: merged_segments_def Let_def)
qed

end
