(* ===== verification/Activity_Floats.thy ===== *)
theory Activity_Floats
  imports Complex_Main "HOL-Library.Log_Nat"
begin

text \<open>
  The floating-point arithmetic of \<open>summarize\<close>: a float is a rational number, and every operation is the exact one followed by
  rounding to 53 bits, half to even, as IEEE binary64 does. The exponent is not bounded: the durations of a calendar are
  far from the least and the greatest float. \<open>total_seconds\<close> of a difference of datetimes and the division of two floats round
  once, and \<open>sum\<close> of floats is the compensated summation of Python 3.12.
\<close>

section \<open>Rounding\<close>

definition round_half_even :: "rat \<Rightarrow> int" where
  "round_half_even y =
     (let f = \<lfloor>y\<rfloor>; d = y - of_int f in if d < 1 / 2 \<or> d = 1 / 2 \<and> even f then f else f + 1)"

text \<open>The exponent of the last of the 53 bits.\<close>

definition ulp_exponent :: "rat \<Rightarrow> int" where
  "ulp_exponent x =
     (case quotient_of \<bar>x\<bar> of (p, q) \<Rightarrow>
        let e = bitlen p - bitlen q in if \<bar>x\<bar> < 2 powi e then e - 53 else e - 52)"

definition fl :: "rat \<Rightarrow> rat" where
  "fl x = (if x = 0 then 0 else let u = 2 powi ulp_exponent x in of_int (round_half_even (x / u)) * u)"

definition total_seconds :: "int \<Rightarrow> rat" where
  "total_seconds microseconds = fl (of_int microseconds / 10 ^ 6)"

fun neumaier :: "rat \<Rightarrow> rat \<Rightarrow> rat list \<Rightarrow> rat" where
  "neumaier f c [] = (if c = 0 then f else fl (f + c))"
| "neumaier f c (x # xs) =
     (let t = fl (f + x)
      in neumaier t (fl (c + (if \<bar>x\<bar> \<le> \<bar>f\<bar> then fl (fl (f - t) + x) else fl (fl (x - t) + f)))) xs)"

definition py_sum :: "rat list \<Rightarrow> rat" where
  "py_sum xs = (case xs of [] \<Rightarrow> 0 | x # rest \<Rightarrow> neumaier x 0 rest)"

section \<open>The error of one rounding\<close>

text \<open>A tenth and two tenths of a second do not add up to three tenths.\<close>

lemma tenths: "fl (total_seconds 100000 + total_seconds 200000) = total_seconds 300000 + 1 / 2 ^ 54"
  by code_simp

lemma round_half_even_error: "\<bar>of_int (round_half_even y) - y\<bar> \<le> 1 / 2"
proof -
  have "of_int \<lfloor>y\<rfloor> \<le> y" "y < of_int \<lfloor>y\<rfloor> + 1" by linarith+
  then show ?thesis unfolding round_half_even_def Let_def abs_le_iff by (simp only: of_int_add of_int_1 split: if_split) linarith
qed

lemma ulp_bounds:
  assumes "x \<noteq> 0"
  shows "2 ^ 52 * 2 powi ulp_exponent x \<le> \<bar>x\<bar>" and "\<bar>x\<bar> < 2 ^ 53 * 2 powi ulp_exponent x"
proof -
  obtain p q where pq: "quotient_of \<bar>x\<bar> = (p, q)" by (cases "quotient_of \<bar>x\<bar>")
  have q: "0 < q" and x: "\<bar>x\<bar> = of_int p / of_int q" using quotient_of_denom_pos [OF pq] quotient_of_div [OF pq] by auto
  have "0 < \<bar>x\<bar>" using assms by simp
  then have p: "0 < p" using q by (simp add: x zero_less_divide_iff)
  define e where "e = bitlen p - bitlen q"
  have power: "2 powi (bitlen n - 1) \<le> (of_int n :: rat) \<and> (of_int n :: rat) < 2 powi bitlen n" if "0 < n" for n
  proof -
    have "0 < bitlen n" using that bitlen_nonneg [of n] bitlen_eq_zero_iff [of n] by linarith
    then have "(2 :: rat) powi (bitlen n - 1) = of_int (2 ^ nat (bitlen n - 1))" "(2 :: rat) powi bitlen n = of_int (2 ^ nat (bitlen n))"
      by (simp_all add: power_int_def)
    then show ?thesis using bitlen_bounds [OF that] by (simp only: of_int_le_iff of_int_less_iff)
  qed
  have low: "2 powi (e - 1) \<le> \<bar>x\<bar>"
  proof -
    have "2 powi (e - 1) * of_int q \<le> (2 powi (e - 1) * 2 powi bitlen q :: rat)"
      using power [OF q] by (intro mult_left_mono) auto
    also have "\<dots> = 2 powi (bitlen p - 1)" by (simp add: power_int_add [symmetric] e_def)
    also have "\<dots> \<le> of_int p" using power [OF p] by simp
    finally show ?thesis using q by (simp add: x pos_le_divide_eq)
  qed
  have high: "\<bar>x\<bar> < 2 powi (e + 1)"
  proof -
    have "of_int p < (2 powi bitlen p :: rat)" using power [OF p] by simp
    also have "\<dots> = 2 powi (e + 1) * 2 powi (bitlen q - 1)" by (simp add: power_int_add [symmetric] e_def)
    also have "\<dots> \<le> 2 powi (e + 1) * of_int q" using power [OF q] by (intro mult_left_mono) auto
    finally show ?thesis using q by (simp add: x pos_divide_less_eq)
  qed
  have u: "ulp_exponent x = (if \<bar>x\<bar> < 2 powi e then e - 53 else e - 52)" by (simp add: ulp_exponent_def pq e_def)
  have shift: "2 ^ n * 2 powi k = (2 powi (int n + k) :: rat)" for n k by (simp add: power_int_add)
  show "2 ^ 52 * 2 powi ulp_exponent x \<le> \<bar>x\<bar>" unfolding shift u using low by (auto simp: not_less)
  show "\<bar>x\<bar> < 2 ^ 53 * 2 powi ulp_exponent x" unfolding shift u using high by (auto simp: add.commute)
qed

lemma fl_error: "\<bar>fl x - x\<bar> \<le> \<bar>x\<bar> / 2 ^ 53"
proof (cases "x = 0")
  case False
  define u :: rat where "u = 2 powi ulp_exponent x"
  have u: "0 < u" by (simp add: u_def)
  have "fl x - x = (of_int (round_half_even (x / u)) - x / u) * u"
    using False u by (simp add: fl_def Let_def u_def [symmetric] left_diff_distrib)
  then have "\<bar>fl x - x\<bar> \<le> 1 / 2 * u"
    using round_half_even_error [of "x / u"] u by (simp only: abs_mult abs_of_pos [OF u] mult_right_mono [OF _ less_imp_le [OF u]])
  also have "\<dots> \<le> \<bar>x\<bar> / 2 ^ 53" using ulp_bounds(1) [OF False] unfolding u_def [symmetric] by simp
  finally show ?thesis .
qed (simp add: fl_def)

text \<open>A rounded number has at most 53 bits.\<close>

lemma fl_representable: "\<exists>m e. fl x = of_int m * 2 powi e \<and> \<bar>m\<bar> \<le> 2 ^ 53"
proof (cases "x = 0")
  case True
  then show ?thesis by (intro exI [of _ 0]) (simp add: fl_def)
next
  case False
  define u :: rat where "u = 2 powi ulp_exponent x"
  have u: "0 < u" by (simp add: u_def)
  have "\<bar>x / u\<bar> < 2 ^ 53" using ulp_bounds(2) [OF False] u unfolding u_def [symmetric] by (simp add: abs_divide pos_divide_less_eq)
  then have "\<bar>of_int (round_half_even (x / u))\<bar> < (2 ^ 53 + 1 :: rat)" using round_half_even_error [of "x / u"] by linarith
  then have "of_int \<bar>round_half_even (x / u)\<bar> < (of_int (2 ^ 53 + 1) :: rat)" by simp
  then have "\<bar>round_half_even (x / u)\<bar> < 2 ^ 53 + 1" by (simp only: of_int_less_iff)
  moreover have "fl x = of_int (round_half_even (x / u)) * 2 powi ulp_exponent x" using False by (simp add: fl_def u_def Let_def)
  ultimately show ?thesis by (intro exI [of _ "round_half_even (x / u)"] exI [of _ "ulp_exponent x"]) linarith
qed

lemma fl_near: "\<bar>x\<bar> \<le> k * (9007199254740992 * E) \<Longrightarrow> \<bar>fl x - x\<bar> \<le> k * E"
  using fl_error [of x] by (simp add: field_simps)

lemma fl_nonneg: "0 \<le> x \<Longrightarrow> 0 \<le> fl x"
  using fl_error [of x] by (simp add: abs_if split: if_splits)

section \<open>The error of a sum\<close>

text \<open>The relative error that \<open>n\<close> roundings can add up to.\<close>

definition drift :: "nat \<Rightarrow> rat" where
  "drift n = (1 + 1 / 2 ^ 53) ^ n - 1"

lemma drift_nonneg: "0 \<le> drift n"
  by (simp add: drift_def one_le_power)

lemma drift_mono: "m \<le> n \<Longrightarrow> drift m \<le> drift n"
  unfolding drift_def by (intro diff_right_mono power_increasing) simp_all

lemma drift_Suc: "drift (Suc n) = drift n + (1 + drift n) / 2 ^ 53"
  by (simp add: drift_def field_simps)

lemma drift_add: "drift n + of_nat m * ((1 + drift n) / 2 ^ 53) \<le> drift (n + m)"
proof (induction m)
  case (Suc m)
  have "drift n \<le> drift (n + m)" by (rule drift_mono) simp
  then have "(1 + drift n) / 2 ^ 53 \<le> (1 + drift (n + m)) / 2 ^ 53" by (intro divide_right_mono) simp_all
  with Suc show ?case unfolding add_Suc_right drift_Suc of_nat_Suc distrib_right mult_1 by linarith
qed simp

lemma drift_linear: "drift n * (1 - of_nat n / 2 ^ 53) \<le> of_nat n / 2 ^ 53"
proof -
  have "(1 + 1 / 2 ^ 53) ^ n * (1 - of_nat n / 2 ^ 53) \<le> (1 :: rat)"
  proof (induction n)
    case (Suc n)
    have "(1 + 1 / 2 ^ 53) * (1 - of_nat (Suc n) / 2 ^ 53) \<le> (1 - of_nat n / 2 ^ 53 :: rat)" by (simp add: field_simps)
    then have "(1 + 1 / 2 ^ 53) ^ n * ((1 + 1 / 2 ^ 53) * (1 - of_nat (Suc n) / 2 ^ 53)) \<le> (1 + 1 / 2 ^ 53) ^ n * (1 - of_nat n / 2 ^ 53 :: rat)"
      by (intro mult_left_mono) simp_all
    also have "\<dots> \<le> 1" by (rule Suc)
    finally show ?case by (simp only: power_Suc2 mult.assoc)
  qed simp
  then show ?thesis by (simp add: drift_def left_diff_distrib)
qed

lemma fl_add_drift:
  assumes "\<bar>x - s\<bar> \<le> drift n * s" "\<bar>y - t\<bar> \<le> drift n * t" "0 \<le> s" "0 \<le> t"
  shows "\<bar>fl (x + y) - (s + t)\<bar> \<le> drift (Suc n) * (s + t)"
proof -
  have xy: "\<bar>(x + y) - (s + t)\<bar> \<le> drift n * (s + t)" using assms(1,2) by (simp add: distrib_left)
  then have "\<bar>x + y\<bar> \<le> (1 + drift n) * (s + t)" using assms(3,4) by (simp add: distrib_right)
  then have "\<bar>fl (x + y) - (x + y)\<bar> \<le> (1 + drift n) / 2 ^ 53 * (s + t)" using fl_error [of "x + y"] by simp
  with xy show ?thesis unfolding drift_Suc distrib_right by linarith
qed

lemma total_seconds_near: "0 \<le> m \<Longrightarrow> \<bar>total_seconds m - of_int m / 10 ^ 6\<bar> \<le> drift 1 * (of_int m / 10 ^ 6)"
  using fl_error [of "of_int m / 10 ^ 6"] by (simp add: total_seconds_def drift_def)

lemma fold_near:
  assumes "\<bar>acc - t\<bar> \<le> drift n * t" "0 \<le> t" "1 \<le> n" "\<forall>d\<in>set ds. 0 \<le> d"
  shows "\<bar>fold (\<lambda>d acc. fl (acc + total_seconds d)) ds acc - (t + of_int (sum_list ds) / 10 ^ 6)\<bar>
    \<le> drift (n + length ds) * (t + of_int (sum_list ds) / 10 ^ 6)"
  using assms
proof (induction ds arbitrary: acc t n)
  case (Cons d ds)
  have d: "0 \<le> d" using Cons.prems(4) by simp
  have "drift 1 * (of_int d / 10 ^ 6) \<le> drift n * (of_int d / 10 ^ 6)" using drift_mono [OF Cons.prems(3)] d by (intro mult_right_mono) simp_all
  then have "\<bar>fl (acc + total_seconds d) - (t + of_int d / 10 ^ 6)\<bar> \<le> drift (Suc n) * (t + of_int d / 10 ^ 6)"
    using Cons.prems(1,2) total_seconds_near [OF d] d by (intro fl_add_drift) simp_all
  from Cons.IH [OF this] show ?case using Cons.prems(2,4) d by (simp add: add.assoc add_divide_distrib)
qed simp

section \<open>The compensated sum\<close>

lemma neumaier_step:
  assumes "0 \<le> E" "0 \<le> f" "0 \<le> x" "0 \<le> F" "F + x \<le> 9007199254740992 * E" "\<bar>f - F\<bar> \<le> A" "A \<le> 16 * E" "\<bar>c\<bar> \<le> C" "C \<le> 64 * E"
  shows "0 \<le> fl (f + x)" and "\<bar>fl (f + x) - (F + x)\<bar> \<le> A + 2 * E"
    and "\<bar>fl (c + (if \<bar>x\<bar> \<le> \<bar>f\<bar> then fl (fl (f - fl (f + x)) + x) else fl (fl (x - fl (f + x)) + f)))\<bar> \<le> C + 8 * E"
proof -
  define t where "t = fl (f + x)"
  show "0 \<le> fl (f + x)" using assms(2,3) by (intro fl_nonneg) simp
  have bound: "f + x \<le> 2 * (9007199254740992 * E)" using assms(1,5,6,7) by linarith
  then have t: "\<bar>t - (f + x)\<bar> \<le> 2 * E" unfolding t_def using assms(2,3) by (intro fl_near) simp
  then show "\<bar>fl (f + x) - (F + x)\<bar> \<le> A + 2 * E" using assms(6) unfolding t_def [symmetric] by linarith
  have part: "\<bar>fl (fl (p - t) + q)\<bar> \<le> 6 * E" if "p + q = f + x" "0 \<le> p" "0 \<le> q" for p q
  proof -
    have "\<bar>p - t\<bar> \<le> 3 * (9007199254740992 * E)" using that t bound assms(1) by linarith
    then have "\<bar>fl (p - t) - (p - t)\<bar> \<le> 3 * E" by (rule fl_near)
    then have v: "\<bar>fl (p - t) + q\<bar> \<le> 5 * E" using t that(1) by linarith
    then have "\<bar>fl (fl (p - t) + q) - (fl (p - t) + q)\<bar> \<le> 1 * E" using assms(1) by (intro fl_near) linarith
    with v show ?thesis by linarith
  qed
  define d where "d = (if \<bar>x\<bar> \<le> \<bar>f\<bar> then fl (fl (f - t) + x) else fl (fl (x - t) + f))"
  have d: "\<bar>d\<bar> \<le> 6 * E" unfolding d_def using part [of f x] part [of x f] assms(2,3) by (simp add: add.commute)
  then have "\<bar>fl (c + d) - (c + d)\<bar> \<le> 1 * E" using assms(1,8,9) by (intro fl_near) linarith
  then have "\<bar>fl (c + d)\<bar> \<le> C + 8 * E" using d assms(1,8) by linarith
  then show "\<bar>fl (c + (if \<bar>x\<bar> \<le> \<bar>f\<bar> then fl (fl (f - fl (f + x)) + x) else fl (fl (x - fl (f + x)) + f)))\<bar> \<le> C + 8 * E"
    by (simp only: d_def t_def)
qed

lemma neumaier_near:
  assumes "0 \<le> E" "0 \<le> f" "0 \<le> F" "\<forall>x\<in>set xs. 0 \<le> x" "F + sum_list xs \<le> 9007199254740992 * E"
    "\<bar>f - F\<bar> \<le> A" "A + of_nat (length xs) * (2 * E) \<le> 16 * E" "\<bar>c\<bar> \<le> C" "C + of_nat (length xs) * (8 * E) \<le> 64 * E"
  shows "\<bar>neumaier f c xs - (F + sum_list xs)\<bar> \<le> A + C + 3 * E + of_nat (length xs) * (10 * E)"
  using assms
proof (induction xs arbitrary: f F A c C)
  case Nil
  have "\<bar>f + c\<bar> \<le> 3 * (9007199254740992 * E)" using Nil.prems unfolding list.size sum_list.Nil of_nat_0 mult_zero_left by linarith
  then have "\<bar>fl (f + c) - (f + c)\<bar> \<le> 3 * E" by (rule fl_near)
  then have "\<bar>fl (f + c) - F\<bar> \<le> A + C + 3 * E" "\<bar>f - F\<bar> \<le> A + C + 3 * E" using Nil.prems(1,6,8) by linarith+
  then show ?case by simp
next
  case (Cons x xs)
  have len: "0 \<le> of_nat (length xs) * (2 * E)" "0 \<le> of_nat (length xs) * (8 * E)" "0 \<le> sum_list xs"
    using Cons.prems(1,4) by (simp_all add: sum_list_nonneg)
  have "0 \<le> x" "F + x + sum_list xs \<le> 9007199254740992 * E" "A + 2 * E + of_nat (length xs) * (2 * E) \<le> 16 * E"
      "C + 8 * E + of_nat (length xs) * (8 * E) \<le> 64 * E"
    using Cons.prems(4,5,7,9) by (simp_all add: distrib_right)
  then have pre: "0 \<le> x" "F + x \<le> 9007199254740992 * E" "A \<le> 16 * E" "C \<le> 64 * E" "0 \<le> F + x"
    using Cons.prems(1,3) len by linarith+
  note step = neumaier_step [OF Cons.prems(1,2) pre(1) Cons.prems(3) pre(2) Cons.prems(6) pre(3) Cons.prems(8) pre(4)]
  have rest: "\<forall>x\<in>set xs. 0 \<le> x" "F + x + sum_list xs \<le> 9007199254740992 * E"
      "A + 2 * E + of_nat (length xs) * (2 * E) \<le> 16 * E" "C + 8 * E + of_nat (length xs) * (8 * E) \<le> 64 * E"
    using Cons.prems(4,5,7,9) by (simp_all add: distrib_right add.assoc)
  from Cons.IH [OF Cons.prems(1) step(1) pre(5) rest(1,2) step(2) rest(3) step(3) rest(4)] show ?case
    by (simp add: Let_def distrib_right add.assoc)
qed

lemma py_sum_near:
  assumes "\<forall>x\<in>set xs. 0 \<le> x" "sum_list xs \<le> 9007199254740992 * E" "length xs \<le> 5" "0 \<le> E"
  shows "\<bar>py_sum xs - sum_list xs\<bar> \<le> 43 * E"
proof (cases xs)
  case Nil
  then show ?thesis using assms(4) by (simp add: py_sum_def)
next
  case (Cons x rest)
  have n: "of_nat (length rest) * (k * E) \<le> 4 * (k * E)" if "0 \<le> k" for k
    using assms(3,4) that of_nat_mono [of "length rest" 4, where 'a = rat] by (intro mult_right_mono) (simp_all add: Cons)
  have "\<bar>neumaier x 0 rest - (x + sum_list rest)\<bar> \<le> 0 + 0 + 3 * E + of_nat (length rest) * (10 * E)"
  proof (rule neumaier_near [OF assms(4)])
    show "0 + of_nat (length rest) * (2 * E) \<le> 16 * E" "0 + of_nat (length rest) * (8 * E) \<le> 64 * E"
      using n [of 2] n [of 8] assms(4) by simp_all
  qed (use assms in \<open>simp_all add: Cons\<close>)
  moreover have "of_nat (length rest) * (10 * E) \<le> 4 * (10 * E)" by (rule n) simp
  ultimately have "\<bar>neumaier x 0 rest - (x + sum_list rest)\<bar> \<le> 43 * E" by linarith
  then show ?thesis by (simp add: py_sum_def Cons)
qed

section \<open>A remainder\<close>

text \<open>The parts \<open>m\<close> of a whole are measured up to a relative error; what is missing to the whole is added to one of them.\<close>

lemma sum_near:
  "\<forall>s\<in>set ss. \<bar>m s - X s\<bar> \<le> \<delta> * X s \<Longrightarrow> \<bar>sum_list (map m ss) - sum_list (map X ss)\<bar> \<le> \<delta> * (sum_list (map X ss) :: rat)"
proof (induction ss)
  case (Cons s ss)
  then have "\<bar>sum_list (map m ss) - sum_list (map X ss)\<bar> \<le> \<delta> * sum_list (map X ss)" "\<bar>m s - X s\<bar> \<le> \<delta> * X s" by simp_all
  then show ?case by (simp add: distrib_left)
qed simp

lemma remainder_near:
  assumes near: "\<forall>s\<in>set ss. 0 \<le> X s \<and> 0 \<le> m s \<and> \<bar>m s - X s\<bar> \<le> drift n * X s"
    and whole: "sum_list (map X ss) \<le> H" and "length ss \<le> 5" "u \<in> set ss"
  shows "\<bar>fl (m u + max 0 (fl (fl H - py_sum (map m ss)))) - (X u + (H - sum_list (map X ss)))\<bar> \<le> 2 * drift (n + 25) * H"
proof -
  define D where "D = drift n * H"
  define E where "E = (H + D) / 9007199254740992"
  have u: "0 \<le> X u" "X u \<le> sum_list (map X ss)" "0 \<le> m u" "\<bar>m u - X u\<bar> \<le> drift n * X u"
    using near assms(4) by (auto intro!: member_le_sum_list)
  then have H: "0 \<le> sum_list (map X ss)" "0 \<le> H" "X u \<le> H" using whole by linarith+
  have D: "0 \<le> D" "drift n * X u \<le> D" "drift n * sum_list (map X ss) \<le> D"
    using H whole drift_nonneg [of n] by (auto simp: D_def intro: mult_left_mono)
  have E: "H + D = 9007199254740992 * E" "0 \<le> E" using H(2) D(1) by (simp_all add: E_def)
  have sums: "\<bar>sum_list (map m ss) - sum_list (map X ss)\<bar> \<le> D"
    using sum_near [of ss m X "drift n"] near D(3) by fastforce
  have S: "\<bar>py_sum (map m ss) - sum_list (map m ss)\<bar> \<le> 43 * E"
    using near assms(3) sums whole E by (intro py_sum_near) auto
  have h: "\<bar>fl H - H\<bar> \<le> 1 * E" using H(2) D(1) E(1) by (intro fl_near) linarith
  define g where "g = fl (fl H - py_sum (map m ss))"
  have "\<bar>fl H - py_sum (map m ss)\<bar> \<le> 2 * (9007199254740992 * E)" using h S sums whole H D E by linarith
  then have "\<bar>g - (fl H - py_sum (map m ss))\<bar> \<le> 2 * E" unfolding g_def by (rule fl_near)
  then have "\<bar>g - (H - sum_list (map X ss))\<bar> \<le> 46 * E + D" using h S sums by linarith
  then have g: "\<bar>max 0 g - (H - sum_list (map X ss))\<bar> \<le> 46 * E + D" "0 \<le> max 0 g" using whole by (simp_all add: max_def abs_if split: if_splits)
  have "\<bar>m u + max 0 g\<bar> \<le> 3 * (9007199254740992 * E)" using g u H D E by linarith
  then have "\<bar>fl (m u + max 0 g) - (m u + max 0 g)\<bar> \<le> 3 * E" by (rule fl_near)
  then have "\<bar>fl (m u + max 0 g) - (X u + (H - sum_list (map X ss)))\<bar> \<le> 2 * D + 50 * E" using g u D(2) E(2) by linarith
  also have "2 * D + 50 * E = 2 * (drift n + of_nat 25 * ((1 + drift n) / 2 ^ 53)) * H" by (simp add: D_def E_def field_simps)
  also have "\<dots> \<le> 2 * drift (n + 25) * H" using drift_add [of n 25] H(2) by (intro mult_right_mono mult_left_mono) simp_all
  finally show ?thesis unfolding g_def .
qed

end
