(* ===== verification/Activity_Summary.thy ===== *)
theory Activity_Summary
  imports Activity_Sweep Activity_Floats
begin

text \<open>
  \<open>summarize\<close> of \<open>endpoint_server/activity/analytics_math.py\<close>: the time per state, the observed span and the overlap of a window,
  in floating-point seconds. The labels of applications and their categories are left out.
\<close>

definition session_states :: "session_state list" where
  "session_states = [SessActive, SessIdle, SessLocked, SessDisconnected, SessUnknown]"

record activity_summary =
  sm_seconds :: "session_state \<Rightarrow> rat"
  sm_span :: rat
  sm_coverage :: "rat option"
  sm_overlap :: rat
  sm_devices :: "uuid list"
  sm_login :: "string option"
  sm_last_observed_at :: "instant option"

definition seg_length :: "activity_segment \<Rightarrow> int" where
  "seg_length s = sg_ended_at s - sg_started_at s"

text \<open>\<open>total += segment['seconds']\<close> over the segments of one kind, in their order.\<close>

definition total_of :: "(activity_segment \<Rightarrow> bool) \<Rightarrow> activity_segment list \<Rightarrow> rat" where
  "total_of P segs = fold (\<lambda>s total. fl (total + total_seconds (seg_length s))) (filter P segs) 0"

definition horizon_length :: "activity_segment list \<Rightarrow> int" where
  "horizon_length segs = (if segs = [] then 0 else sg_ended_at (last segs) - sg_started_at (hd segs))"

definition horizon_of :: "activity_segment list \<Rightarrow> rat" where
  "horizon_of segs = (if segs = [] then 0 else total_seconds (sg_ended_at (last segs) - sg_started_at (hd segs)))"

definition state_seconds :: "activity_segment list \<Rightarrow> session_state \<Rightarrow> rat" where
  "state_seconds segs st =
     (let measured = (\<lambda>x. total_of (\<lambda>s. sg_state s = x) segs)
      in if st = SessUnknown
         then fl (measured st + max 0 (fl (horizon_of segs - py_sum (map measured session_states))))
         else measured st)"

definition summarize :: "activity_interval list \<Rightarrow> instant \<Rightarrow> instant \<Rightarrow> activity_summary option" where
  "summarize rows a b =
     map_option (\<lambda>segs.
       let horizon = horizon_of segs
       in \<lparr>sm_seconds = state_seconds segs, sm_span = horizon,
           sm_coverage = (if horizon = 0 then None else Some (fl (fl (horizon - state_seconds segs SessUnknown) / horizon))),
           sm_overlap = total_of sg_overlap segs, sm_devices = sort (remdups (map av_device_id rows)),
           sm_login = find (\<lambda>l. l \<noteq> []) (List.map_filter av_user_login rows),
           sm_last_observed_at = (if rows = [] then None else Some (Max (set (map av_last_observed_at rows))))\<rparr>)
       (merged_segments rows a b)"

section \<open>Lengths count instants\<close>

text \<open>The total length of the segments of one kind, in microseconds and without rounding.\<close>

definition exact_total :: "(activity_segment \<Rightarrow> bool) \<Rightarrow> activity_segment list \<Rightarrow> int" where
  "exact_total P segs = sum_list (map seg_length (filter P segs))"

definition instants_of :: "(activity_segment \<Rightarrow> bool) \<Rightarrow> activity_segment list \<Rightarrow> instant set" where
  "instants_of P segs = {t. \<exists>s. segment_at segs t = Some s \<and> P s}"

lemma segment_at_Cons: "segment_at (s # ss) t = (if sg_started_at s \<le> t \<and> t < sg_ended_at s then Some s else segment_at ss t)"
  by (simp add: segment_at_def)

lemma instants_Nil [simp]: "instants_of P [] = {}"
  by (simp add: instants_of_def segment_at_def)

lemma instants_Cons:
  assumes "chain_from q (s # ss)"
  shows "instants_of P (s # ss) = (if P s then {sg_started_at s..<sg_ended_at s} else {}) \<union> instants_of P ss"
    and "instants_of P ss \<subseteq> {sg_ended_at s..}"
proof -
  have c: "chain_from (sg_ended_at s) ss" using assms by simp
  show below: "instants_of P ss \<subseteq> {sg_ended_at s..}"
    using segment_at_before [OF c] unfolding instants_of_def by (force simp: not_less [symmetric])
  have "segment_at ss t = None" if "t < sg_ended_at s" for t using segment_at_before [OF c that] .
  then show "instants_of P (s # ss) = (if P s then {sg_started_at s..<sg_ended_at s} else {}) \<union> instants_of P ss"
    unfolding instants_of_def segment_at_Cons by auto
qed

lemma instants_finite: "chain_from q segs \<Longrightarrow> finite (instants_of P segs)"
proof (induction segs arbitrary: q)
  case (Cons s ss)
  then show ?case using instants_Cons(1) [OF Cons.prems, of P] by auto
qed simp

lemma total_counts: "chain_from q segs \<Longrightarrow> exact_total P segs = int (card (instants_of P segs))"
proof (induction segs arbitrary: q)
  case Nil
  then show ?case by (simp add: exact_total_def)
next
  case (Cons s ss)
  have c: "chain_from (sg_ended_at s) ss" "sg_started_at s < sg_ended_at s" using Cons.prems by simp_all
  have "card (instants_of P (s # ss)) = card (if P s then {sg_started_at s..<sg_ended_at s} else {}) + card (instants_of P ss)"
    unfolding instants_Cons(1) [OF Cons.prems, of P] using instants_Cons(2) [OF Cons.prems, of P] instants_finite [OF c(1), of P]
    by (intro card_Un_disjoint) auto
  then show ?case using Cons.IH [OF c(1)] c(2) by (simp add: exact_total_def seg_length_def)
qed

text \<open>The span is the number of instants between covered ones.\<close>

definition covered :: "activity_segment list \<Rightarrow> instant set" where
  "covered segs = instants_of (\<lambda>_. True) segs"

definition stretch :: "instant set \<Rightarrow> instant set" where
  "stretch A = {t. \<exists>u\<in>A. \<exists>v\<in>A. u \<le> t \<and> t \<le> v}"

lemma chain_last: "chain_from q (s # ss) \<Longrightarrow> sg_started_at s < sg_ended_at (last (s # ss)) \<and> sg_ended_at s \<le> sg_ended_at (last (s # ss))"
proof (induction ss arbitrary: q s)
  case (Cons x ss)
  have "chain_from (sg_ended_at s) (x # ss)" "sg_started_at s < sg_ended_at s" "sg_ended_at s \<le> sg_started_at x" using Cons.prems by simp_all
  with Cons.IH [OF this(1)] show ?case by simp
qed simp

lemma last_covered: "chain_from q (s # ss) \<Longrightarrow> sg_ended_at (last (s # ss)) - 1 \<in> covered (s # ss)"
proof (induction ss arbitrary: q s)
  case Nil
  then show ?case by (simp add: covered_def instants_Cons(1) [OF Nil.prems])
next
  case (Cons x ss)
  have "chain_from (sg_ended_at s) (x # ss)" using Cons.prems by simp
  from Cons.IH [OF this] show ?case unfolding covered_def instants_Cons(1) [OF Cons.prems] by simp
qed

lemma covered_range: "chain_from q (s # ss) \<Longrightarrow> covered (s # ss) \<subseteq> {sg_started_at s..<sg_ended_at (last (s # ss))}"
proof (induction ss arbitrary: q s)
  case Nil
  then show ?case by (simp add: covered_def instants_Cons(1) [OF Nil.prems])
next
  case (Cons x ss)
  have c: "chain_from (sg_ended_at s) (x # ss)" "sg_started_at s < sg_ended_at s" "sg_ended_at s \<le> sg_started_at x" using Cons.prems by simp_all
  have "sg_ended_at s \<le> sg_ended_at (last (s # x # ss))" using chain_last [OF Cons.prems] by simp
  with c Cons.IH [OF c(1)] show ?case unfolding covered_def instants_Cons(1) [OF Cons.prems] by auto
qed

lemma stretch_segments: "chain_from q (s # ss) \<Longrightarrow> stretch (covered (s # ss)) = {sg_started_at s..<sg_ended_at (last (s # ss))}"
proof -
  assume c: "chain_from q (s # ss)"
  have first: "sg_started_at s \<in> covered (s # ss)" using c by (auto simp: covered_def instants_Cons(1) [OF c])
  show ?thesis
  proof (rule set_eqI, rule iffI)
    fix t assume "t \<in> stretch (covered (s # ss))"
    then obtain u v where "u \<in> covered (s # ss)" "v \<in> covered (s # ss)" "u \<le> t" "t \<le> v" by (auto simp: stretch_def)
    moreover have "sg_started_at s \<le> u" "v < sg_ended_at (last (s # ss))" using covered_range [OF c] calculation(1,2) by auto
    ultimately show "t \<in> {sg_started_at s..<sg_ended_at (last (s # ss))}" unfolding atLeastLessThan_iff by linarith
  next
    fix t assume t: "t \<in> {sg_started_at s..<sg_ended_at (last (s # ss))}"
    then have "sg_started_at s \<le> t" "t \<le> sg_ended_at (last (s # ss)) - 1" unfolding atLeastLessThan_iff by linarith+
    with first last_covered [OF c] show "t \<in> stretch (covered (s # ss))" unfolding stretch_def by blast
  qed
qed

lemma horizon_counts: "chain_from q segs \<Longrightarrow> horizon_length segs = int (card (stretch (covered segs)))"
proof (cases segs)
  case Nil
  then show ?thesis by (simp add: horizon_length_def covered_def stretch_def)
next
  case (Cons s ss)
  assume "chain_from q segs"
  then have c: "chain_from q (s # ss)" by (simp add: Cons)
  show ?thesis using chain_last [OF c] by (simp add: Cons stretch_segments [OF c] horizon_length_def)
qed

lemma total_split: "sum_list (map (\<lambda>x. exact_total (\<lambda>s. sg_state s = x) segs) session_states) = exact_total (\<lambda>_. True) segs"
proof (induction segs)
  case (Cons s ss)
  then show ?case by (cases "sg_state s") (simp_all add: exact_total_def session_states_def)
qed (simp add: exact_total_def session_states_def)

lemma stretch_extends: "A \<subseteq> stretch A"
  unfolding stretch_def by blast

lemma stretch_finite: "chain_from q segs \<Longrightarrow> finite (stretch (covered segs))"
  by (cases segs) (simp add: covered_def stretch_def, metis finite_atLeastLessThan_int stretch_segments)

lemma measured_within_horizon:
  assumes "chain_from q segs"
  shows "exact_total (\<lambda>_. True) segs \<le> horizon_length segs"
  unfolding horizon_counts [OF assms] total_counts [OF assms]
  using card_mono [OF stretch_finite [OF assms] stretch_extends] by (simp add: covered_def)

lemma unknown_exact:
  assumes "chain_from q segs"
  shows "exact_total (\<lambda>s. sg_state s = SessUnknown) segs + (horizon_length segs - exact_total (\<lambda>_. True) segs)
    = int (card (stretch (covered segs) - instants_of (\<lambda>s. sg_state s \<noteq> SessUnknown) segs))"
proof -
  let ?known = "instants_of (\<lambda>s. sg_state s \<noteq> SessUnknown) segs"
  have sub: "?known \<subseteq> stretch (covered segs)" using stretch_extends unfolding covered_def instants_of_def by fastforce
  have "exact_total (\<lambda>_. True) segs = exact_total (\<lambda>s. sg_state s = SessUnknown) segs + exact_total (\<lambda>s. sg_state s \<noteq> SessUnknown) segs"
    by (induction segs) (simp_all add: exact_total_def)
  then have "exact_total (\<lambda>s. sg_state s = SessUnknown) segs + (horizon_length segs - exact_total (\<lambda>_. True) segs)
      = horizon_length segs - exact_total (\<lambda>s. sg_state s \<noteq> SessUnknown) segs" by simp
  also have "\<dots> = int (card (stretch (covered segs) - ?known))"
    unfolding horizon_counts [OF assms] total_counts [OF assms]
    using card_mono [OF stretch_finite [OF assms] sub] by (simp add: card_Diff_subset [OF instants_finite [OF assms] sub] of_nat_diff)
  finally show ?thesis .
qed

section \<open>Rounding errors\<close>

lemma chain_lengths: "chain_from q segs \<Longrightarrow> s \<in> set segs \<Longrightarrow> 0 \<le> seg_length s"
  by (induction segs arbitrary: q) (auto simp: seg_length_def)

lemma exact_total_nonneg: "chain_from q segs \<Longrightarrow> 0 \<le> exact_total P segs"
  by (simp add: total_counts)

lemma total_near:
  assumes "chain_from q segs" "length segs \<le> n"
  shows "\<bar>total_of P segs - of_int (exact_total P segs) / 10 ^ 6\<bar> \<le> drift (Suc n) * (of_int (exact_total P segs) / 10 ^ 6)"
proof -
  let ?ds = "map seg_length (filter P segs)"
  have "\<forall>d\<in>set ?ds. 0 \<le> d" using chain_lengths [OF assms(1)] by auto
  from fold_near [of 0 0 1, OF _ _ _ this]
  have "\<bar>total_of P segs - of_int (exact_total P segs) / 10 ^ 6\<bar> \<le> drift (1 + length ?ds) * (of_int (exact_total P segs) / 10 ^ 6)"
    by (simp add: total_of_def exact_total_def fold_map comp_def)
  also have "\<dots> \<le> drift (Suc n) * (of_int (exact_total P segs) / 10 ^ 6)"
    using exact_total_nonneg [OF assms(1), of P] order_trans [OF length_filter_le [of P segs] assms(2)]
    by (intro mult_right_mono drift_mono) simp_all
  finally show ?thesis .
qed

lemma total_of_nonneg:
  assumes "chain_from q segs"
  shows "0 \<le> total_of P segs"
proof -
  have "0 \<le> fold (\<lambda>s total. fl (total + total_seconds (seg_length s))) ss t" if "0 \<le> t" "\<forall>s\<in>set ss. 0 \<le> seg_length s" for ss t
    using that by (induction ss arbitrary: t) (simp_all add: fl_nonneg total_seconds_def)
  then show ?thesis unfolding total_of_def using chain_lengths [OF assms] by simp
qed

lemma of_int_sum_list: "of_int (sum_list xs) = (sum_list (map of_int xs) :: rat)"
  by (induction xs) simp_all

lemma unknown_near:
  assumes chain: "chain_from q segs" and "length segs \<le> n"
  shows "\<bar>10 ^ 6 * state_seconds segs SessUnknown - of_nat (card (stretch (covered segs) - instants_of (\<lambda>s. sg_state s \<noteq> SessUnknown) segs))\<bar>
    \<le> 2 * drift (n + 26) * of_int (horizon_length segs)"
proof -
  let ?m = "\<lambda>x. total_of (\<lambda>s. sg_state s = x) segs"
  let ?X = "\<lambda>x. of_int (exact_total (\<lambda>s. sg_state s = x) segs) / 10 ^ 6 :: rat"
  let ?H = "of_int (horizon_length segs) / 10 ^ 6 :: rat"
  have near: "\<forall>x\<in>set session_states. 0 \<le> ?X x \<and> 0 \<le> ?m x \<and> \<bar>?m x - ?X x\<bar> \<le> drift (Suc n) * ?X x"
    using total_near [OF assms] exact_total_nonneg [OF chain] total_of_nonneg [OF chain] by simp
  have "sum_list (map ?X session_states) = of_int (sum_list (map (\<lambda>x. exact_total (\<lambda>s. sg_state s = x) segs) session_states)) / 10 ^ 6"
    by (simp add: session_states_def add_divide_distrib)
  then have sum: "sum_list (map ?X session_states) = of_int (exact_total (\<lambda>_. True) segs) / 10 ^ 6" by (simp only: total_split)
  have whole: "sum_list (map ?X session_states) \<le> ?H"
    unfolding sum using measured_within_horizon [OF chain] by (intro divide_right_mono) simp_all
  have u: "state_seconds segs SessUnknown = fl (?m SessUnknown + max 0 (fl (fl ?H - py_sum (map ?m session_states))))"
    by (simp add: state_seconds_def Let_def horizon_of_def horizon_length_def total_seconds_def fl_def [of 0])
  have "\<bar>state_seconds segs SessUnknown - (?X SessUnknown + (?H - sum_list (map ?X session_states)))\<bar> \<le> 2 * drift (Suc n + 25) * ?H"
    unfolding u using near whole by (rule remainder_near) (simp_all add: session_states_def)
  moreover have "?X SessUnknown + (?H - sum_list (map ?X session_states))
      = of_nat (card (stretch (covered segs) - instants_of (\<lambda>s. sg_state s \<noteq> SessUnknown) segs)) / 10 ^ 6"
    unfolding sum using arg_cong [OF unknown_exact [OF chain], of "of_int :: int \<Rightarrow> rat"] by (simp add: field_simps)
  ultimately show ?thesis by (simp add: field_simps abs_le_iff)
qed

text \<open>There are at most two points for every interval, and a segment ends at a point.\<close>

lemma sweep_length: "sweep es active heap previous ps = Some segs \<Longrightarrow> length segs \<le> length ps"
proof (induction es active heap previous ps arbitrary: segs rule: sweep.induct)
  case (2 es active heap previous p ps)
  then show ?case by (fastforce split: option.splits list.splits if_splits prod.splits)
qed simp

lemma sweep_edges_length: "length (sweep_edges a b rows) \<le> 2 * length rows"
proof -
  have "length (concat (map (edges_of a b) xs)) \<le> 2 * length xs" for xs
    by (induction xs) (auto simp: edges_of_def)
  from this [of "enumerate 0 rows"] show ?thesis by (simp add: sweep_edges_def)
qed

lemma segments_length: "merged_segments rows a b = Some segs \<Longrightarrow> length segs \<le> 2 * length rows"
  using sweep_length [of "sweep_edges a b rows"] sweep_edges_length [of a b rows] length_remdups_leq [of "map fst (sweep_edges a b rows)"]
  by (fastforce simp: merged_segments_def Let_def sweep_points_def)

section \<open>In terms of the rows\<close>

definition winning :: "instant \<Rightarrow> instant \<Rightarrow> activity_interval list \<Rightarrow> session_state \<Rightarrow> instant set" where
  "winning a b rows st = {t. \<exists>w overlap. winner_at a b rows t = Some (w, overlap) \<and> av_state w = st}"

definition observed_instants :: "instant \<Rightarrow> instant \<Rightarrow> activity_interval list \<Rightarrow> instant set" where
  "observed_instants a b rows = {t. covering a b rows t \<noteq> []}"

lemma winner_None: "winner_at a b rows t = None \<longleftrightarrow> covering a b rows t = []"
proof -
  have "sort_key sweep_key (covering a b rows t) = [] \<longleftrightarrow> covering a b rows t = []" by (metis length_0_conv length_sort)
  then show ?thesis unfolding winner_at_def by (cases "sort_key sweep_key (covering a b rows t)") auto
qed

lemma winner_overlap: "winner_at a b rows t = Some (w, overlap) \<Longrightarrow> overlap \<longleftrightarrow> 1 < length (covering a b rows t)"
proof -
  assume "winner_at a b rows t = Some (w, overlap)"
  then obtain p ps where s: "sort_key sweep_key (covering a b rows t) = p # ps" "overlap = (ps \<noteq> [])"
    by (auto simp: winner_at_def split: list.splits)
  have "length (covering a b rows t) = Suc (length ps)" using arg_cong [OF s(1), of length] by simp
  then show ?thesis using s(2) by (cases ps) auto
qed

lemma segments_winner:
  assumes "\<And>t. rel_option describes (segment_at segs t) (winner_at a b rows t)" "\<And>s w. describes s w \<Longrightarrow> P s = Q w"
  shows "instants_of P segs = {t. \<exists>w. winner_at a b rows t = Some w \<and> Q w}"
  unfolding instants_of_def
proof (rule Collect_cong)
  fix t
  show "(\<exists>s. segment_at segs t = Some s \<and> P s) \<longleftrightarrow> (\<exists>w. winner_at a b rows t = Some w \<and> Q w)"
    using assms(1) [of t] assms(2) by (cases "segment_at segs t"; cases "winner_at a b rows t") auto
qed

lemma covering_rows: "(\<exists>p\<in>set (covering a b rows t). P (snd p)) \<longleftrightarrow> (\<exists>r\<in>set rows. clip_left a r \<le> t \<and> t < clip_right b r \<and> P r)"
proof -
  have rows: "set rows = snd ` set (enumerate 0 rows)" by (metis list.set_map map_snd_enumerate)
  show ?thesis unfolding covering_def rows bex_simps by (force simp del: in_set_enumerate_eq)
qed

text \<open>An active interval wins wherever it covers.\<close>

lemma winning_active: "winning a b rows SessActive = {t. a \<le> t \<and> t < b \<and> (\<exists>r\<in>set rows. av_state r = SessActive \<and> av_started_at r \<le> t \<and> t < av_ended_at r)}"
proof -
  have iff: "(\<exists>w overlap. winner_at a b rows t = Some (w, overlap) \<and> av_state w = SessActive) \<longleftrightarrow> (\<exists>p\<in>set (covering a b rows t). av_state (snd p) = SessActive)" for t
  proof (cases "sort_key sweep_key (covering a b rows t)")
    case Nil
    then show ?thesis by (metis empty_iff list.simps(4) option.distinct(1) set_empty set_sort winner_at_def)
  next
    case (Cons w ws)
    have w: "w \<in> set (covering a b rows t)" using Cons by (metis list.set_intros(1) set_sort)
    have least: "sweep_key w \<le> sweep_key p" if "p \<in> set (covering a b rows t)" for p
      using that sorted_sort_key [of sweep_key "covering a b rows t"] set_sort [of sweep_key "covering a b rows t"] unfolding Cons by auto
    have "av_state (snd w) = SessActive" if p: "p \<in> set (covering a b rows t)" "av_state (snd p) = SessActive" for p
    proof -
      have "state_priority (av_state (snd w)) \<le> 0" using least [OF p(1)] p(2) by (auto simp: sweep_key_def)
      then show ?thesis by (cases "av_state (snd w)") auto
    qed
    then show ?thesis using w by (auto simp: winner_at_def Cons)
  qed
  show ?thesis unfolding winning_def iff covering_rows [of a b rows _ "\<lambda>r. av_state r = SessActive"] by (auto simp: clip_left_def clip_right_def)
qed

text \<open>A number of seconds is a number of instants up to an error in microseconds.\<close>

definition near :: "rat \<Rightarrow> instant set \<Rightarrow> rat \<Rightarrow> bool" where
  "near x A e \<longleftrightarrow> \<bar>10 ^ 6 * x - of_nat (card A)\<bar> \<le> e"

lemma near_total:
  assumes "chain_from q segs" "length segs \<le> n"
  shows "near (total_of P segs) (instants_of P segs) (drift (n + 26) * of_nat (card (instants_of P segs)))"
proof -
  have "\<bar>total_of P segs - of_nat (card (instants_of P segs)) / 10 ^ 6\<bar> \<le> drift (Suc n) * (of_nat (card (instants_of P segs)) / 10 ^ 6)"
    using total_near [OF assms, of P] by (simp add: total_counts [OF assms(1)])
  then have "\<bar>10 ^ 6 * total_of P segs - of_nat (card (instants_of P segs))\<bar> \<le> drift (Suc n) * of_nat (card (instants_of P segs))"
    by (simp add: field_simps abs_le_iff)
  also have "\<dots> \<le> drift (n + 26) * of_nat (card (instants_of P segs))" by (intro mult_right_mono drift_mono) simp_all
  finally show ?thesis unfolding near_def .
qed

lemma states_near:
  assumes chain: "chain_from q segs" and n: "length segs \<le> n"
  shows "\<bar>10 ^ 6 * sum_list (map (state_seconds segs) session_states) - of_int (horizon_length segs)\<bar>
    \<le> 3 * drift (n + 26) * of_int (horizon_length segs)"
proof -
  define X where "X st = (of_int (exact_total (\<lambda>s. sg_state s = st) segs) :: rat)" for st
  define H where "H = (of_int (horizon_length segs) :: rat)"
  define e where "e = drift (n + 26)"
  have e: "0 \<le> e" by (simp add: e_def drift_nonneg)
  have split: "X SessActive + X SessIdle + X SessLocked + X SessDisconnected + X SessUnknown = of_int (exact_total (\<lambda>_. True) segs)"
    unfolding X_def of_int_add [symmetric] of_int_eq_iff using total_split [of segs] by (simp add: session_states_def)
  have le: "of_int (exact_total (\<lambda>_. True) segs) \<le> H" unfolding H_def using measured_within_horizon [OF chain] by (simp only: of_int_le_iff)
  have pos: "0 \<le> X SessUnknown" using exact_total_nonneg [OF chain] by (simp add: X_def)
  have known: "\<bar>10 ^ 6 * state_seconds segs st - X st\<bar> \<le> e * X st" if "st \<noteq> SessUnknown" for st
    using near_total [OF assms, of "\<lambda>s. sg_state s = st"] that
    by (simp add: near_def state_seconds_def Let_def X_def total_counts [OF chain] e_def)
  have unknown: "\<bar>10 ^ 6 * state_seconds segs SessUnknown - (X SessUnknown + (H - of_int (exact_total (\<lambda>_. True) segs)))\<bar> \<le> 2 * (e * H)"
    using unknown_near [OF assms] arg_cong [OF unknown_exact [OF chain], of "of_int :: int \<Rightarrow> rat"]
    by (simp add: X_def H_def e_def)
  have "e * (X SessActive + X SessIdle + X SessLocked + X SessDisconnected) \<le> e * H"
    using split le pos e by (intro mult_left_mono) linarith+
  then have "\<bar>10 ^ 6 * state_seconds segs SessActive + 10 ^ 6 * state_seconds segs SessIdle + 10 ^ 6 * state_seconds segs SessLocked
      + 10 ^ 6 * state_seconds segs SessDisconnected + 10 ^ 6 * state_seconds segs SessUnknown - H\<bar> \<le> 3 * (e * H)"
    using known [of SessActive] known [of SessIdle] known [of SessLocked] known [of SessDisconnected] unknown split
    by (simp add: distrib_left)
  then show ?thesis by (simp add: session_states_def H_def e_def distrib_left add.assoc)
qed

lemma summary_near:
  fixes rows :: "activity_interval list"
  defines "e \<equiv> drift (2 * length rows + 26)"
  shows "\<exists>s. summarize rows a b = Some s
     \<and> (\<forall>st. st \<noteq> SessUnknown \<longrightarrow> near (sm_seconds s st) (winning a b rows st) (e * of_nat (card (winning a b rows st))))
     \<and> near (sm_seconds s SessUnknown) (stretch (observed_instants a b rows) - (\<Union>st\<in>- {SessUnknown}. winning a b rows st))
          (2 * e * of_nat (card (stretch (observed_instants a b rows))))
     \<and> sm_span s = fl (of_nat (card (stretch (observed_instants a b rows))) / 10 ^ 6)
     \<and> near (sum_list (map (sm_seconds s) session_states)) (stretch (observed_instants a b rows))
          (3 * e * of_nat (card (stretch (observed_instants a b rows))))
     \<and> near (sm_overlap s) {t. 1 < length (covering a b rows t)} (e * of_nat (card {t. 1 < length (covering a b rows t)}))"
proof -
  obtain segs where segs: "merged_segments rows a b = Some segs" "chain_from a segs"
      "\<And>t. rel_option describes (segment_at segs t) (winner_at a b rows t)"
    using sweep_correct by blast
  have state: "instants_of (\<lambda>s. sg_state s = st) segs = winning a b rows st" for st
    using segments_winner [OF segs(3), of "\<lambda>s. sg_state s = st" "\<lambda>w. av_state (fst w) = st"] by (auto simp: describes_def winning_def)
  have known: "instants_of (\<lambda>s. sg_state s \<noteq> SessUnknown) segs = (\<Union>st\<in>- {SessUnknown}. winning a b rows st)"
    unfolding state [symmetric] by (auto simp: instants_of_def)
  have cov: "covered segs = observed_instants a b rows"
  proof -
    have "instants_of (\<lambda>_. True) segs = {t. winner_at a b rows t \<noteq> None}"
      using segments_winner [OF segs(3), of "\<lambda>_. True" "\<lambda>_. True"] by (simp only: simp_thms not_None_eq)
    then show ?thesis unfolding covered_def observed_instants_def winner_None .
  qed
  have over: "instants_of sg_overlap segs = {t. 1 < length (covering a b rows t)}"
  proof -
    have "{t. \<exists>w. winner_at a b rows t = Some w \<and> snd w} = {t. 1 < length (covering a b rows t)}"
    proof (rule Collect_cong)
      fix t
      show "(\<exists>w. winner_at a b rows t = Some w \<and> snd w) \<longleftrightarrow> 1 < length (covering a b rows t)"
      proof (cases "winner_at a b rows t")
        case None
        then show ?thesis using winner_None [of a b rows t] by simp
      next
        case (Some w)
        then show ?thesis using winner_overlap [of a b rows t "fst w" "snd w"] by simp
      qed
    qed
    then show ?thesis using segments_winner [OF segs(3), of sg_overlap snd] by (simp add: describes_def)
  qed
  let ?s = "the (summarize rows a b)"
  have s: "summarize rows a b = Some ?s" "sm_seconds ?s = state_seconds segs" "sm_span ?s = horizon_of segs" "sm_overlap ?s = total_of sg_overlap segs"
    by (simp_all add: summarize_def segs(1) Let_def)
  note n = segments_length [OF segs(1)]
  have "near (state_seconds segs st) (winning a b rows st) (e * of_nat (card (winning a b rows st)))" if "st \<noteq> SessUnknown" for st
    using that near_total [OF segs(2) n, of "\<lambda>s. sg_state s = st"] by (simp add: state_seconds_def Let_def state e_def)
  moreover have span: "of_int (horizon_length segs) = (of_nat (card (stretch (observed_instants a b rows))) :: rat)"
    unfolding horizon_counts [OF segs(2)] cov by simp
  moreover have "horizon_of segs = fl (of_int (horizon_length segs) / 10 ^ 6)"
    by (simp add: horizon_of_def horizon_length_def total_seconds_def fl_def [of 0])
  ultimately show ?thesis
    using s unknown_near [OF segs(2) n] states_near [OF segs(2) n] near_total [OF segs(2) n, of sg_overlap]
    by (intro exI [of _ ?s]) (simp add: known cov over near_def e_def)
qed

end
