(* ===== verification/Activity_Store.thy ===== *)
theory Activity_Store
  imports Activity_Summary
begin

text \<open>
  \<open>record_observation\<close> of \<open>endpoint_server/activity/analytics_store.py\<close>: an accepted sample closes the time since the sample before
  it. The calendar (the days of the report time zones) and the normalisation of logins are parameters; the
  process name of a sample is the lowered one and \<open>gen\<close> gives the identities of new rows.
\<close>

section \<open>Tables\<close>

record analytics_policy =
  ap_detail_days :: int
  ap_aggregate_days :: int
  ap_max_gap_seconds :: int

record calendar =
  cal_zones :: "string list"
  cal_day :: "string \<Rightarrow> instant \<Rightarrow> int"
  cal_day_bounds :: "int \<Rightarrow> string \<Rightarrow> instant \<times> instant"

record activity_observation =
  ob_observation_id :: uuid
  ob_observed_at :: instant
  ob_user_login :: "string option"
  ob_foreground :: "(string \<times> string) option"
  ob_browser :: "string option"

record activity_cursor =
  ac_device_id :: uuid
  ac_user_key :: "string option"
  ac_user_login :: "string option"
  ac_interval_id :: "uuid option"
  ac_observation_id :: uuid
  ac_last_observed_at :: instant
  ac_session_state :: session_state

record activity_day =
  dy_user_key :: string
  dy_timezone :: string
  dy_day :: int
  dy_dirty :: bool
  dy_updated_at :: instant
  dy_payload :: "activity_summary option"

record activity_tables =
  tb_intervals :: "activity_interval list"
  tb_cursors :: "activity_cursor list"
  tb_days :: "activity_day list"

section \<open>Operations\<close>

definition day_key :: "activity_day \<Rightarrow> string \<times> string \<times> int" where
  "day_key d = (dy_user_key d, dy_timezone d, dy_day d)"

definition dirty_day :: "string \<Rightarrow> instant \<Rightarrow> string \<times> int \<Rightarrow> activity_day list \<Rightarrow> activity_day list" where
  "dirty_day user_key start zd days =
     (if list_ex (\<lambda>d. day_key d = (user_key, fst zd, snd zd)) days
      then map (\<lambda>d. if day_key d = (user_key, fst zd, snd zd) then d\<lparr>dy_dirty := True\<rparr> else d) days
      else days @ [\<lparr>dy_user_key = user_key, dy_timezone = fst zd, dy_day = snd zd, dy_dirty = True, dy_updated_at = start, dy_payload = None\<rparr>])"

definition mark_dirty :: "calendar \<Rightarrow> string option \<Rightarrow> instant \<Rightarrow> instant \<Rightarrow> activity_day list \<Rightarrow> activity_day list" where
  "mark_dirty cal user_key start end days =
     (case user_key of
        None \<Rightarrow> days
      | Some k \<Rightarrow> fold (dirty_day k start) (concat (map (\<lambda>z. map (Pair z) [cal_day cal z start..cal_day cal z end]) (cal_zones cal))) days)"

definition next_boundary :: "calendar \<Rightarrow> instant \<Rightarrow> instant" where
  "next_boundary cal t = Min (set (map (\<lambda>z. snd (cal_day_bounds cal (cal_day cal z t) z)) (cal_zones cal)))"

definition same_days :: "calendar \<Rightarrow> instant \<Rightarrow> instant \<Rightarrow> bool" where
  "same_days cal t u \<longleftrightarrow> list_all (\<lambda>z. cal_day cal z t = cal_day cal z u) (cal_zones cal)"

definition new_interval ::
  "uuid \<Rightarrow> uuid \<Rightarrow> string option \<Rightarrow> string option \<Rightarrow> instant \<Rightarrow> instant \<Rightarrow> session_state \<Rightarrow> (string \<times> string) option \<Rightarrow> string option \<Rightarrow> uuid option \<Rightarrow> activity_interval" where
  "new_interval identity device_id user_key login start end state foreground browser version =
     \<lparr>av_id = identity, av_device_id = device_id, av_user_key = user_key, av_user_login = login, av_started_at = start, av_ended_at = end,
      av_last_observed_at = end, av_state = state, av_process = map_option fst foreground, av_category = map_option snd foreground,
      av_browser = browser, av_policy_version = version\<rparr>"

definition continue_interval :: "uuid \<Rightarrow> uuid \<Rightarrow> activity_interval \<Rightarrow> instant \<Rightarrow> instant \<Rightarrow> activity_interval" where
  "continue_interval identity device_id previous start end =
     previous\<lparr>av_id := identity, av_device_id := device_id, av_started_at := start, av_ended_at := end\<rparr>"

text \<open>One turn of the loop over the calendar: the time from \<open>start\<close> to the next boundary or to the new sample.\<close>

type_synonym extension = "activity_interval \<times> activity_interval list \<times> activity_day list \<times> nat"

definition extend_once :: "calendar \<Rightarrow> (nat \<Rightarrow> uuid) \<Rightarrow> uuid \<Rightarrow> bool \<Rightarrow> bool \<Rightarrow> instant \<Rightarrow> instant \<Rightarrow> extension \<Rightarrow> extension" where
  "extend_once cal gen device_id gap attributable when start st =
     (case st of (previous, ivs, days, n) \<Rightarrow>
        let boundary = next_boundary cal start;
            end = min when boundary;
            (previous1, ivs1, n1) =
              (if gap then
                 (previous, ivs @ [new_interval (gen n) device_id (if attributable then av_user_key previous else None)
                    (if attributable then av_user_login previous else None) start end SessUnknown None None (av_policy_version previous)], Suc n)
               else if av_ended_at previous = start \<and> av_started_at previous < boundary then
                 (let p = previous\<lparr>av_ended_at := end\<rparr> in (p, store_row av_id p ivs, n))
               else (let p = continue_interval (gen n) device_id previous start end in (p, ivs @ [p], Suc n)));
            days1 = mark_dirty cal (if \<not> gap \<or> attributable then av_user_key previous1 else None) start end days
        in if end = boundary \<and> end < when \<and> \<not> gap
           then (let p = continue_interval (gen n1) device_id previous1 end end in (p, ivs1 @ [p], days1, Suc n1))
           else (previous1, ivs1, days1, n1))"

partial_function (option) extend_until ::
  "calendar \<Rightarrow> (nat \<Rightarrow> uuid) \<Rightarrow> uuid \<Rightarrow> bool \<Rightarrow> bool \<Rightarrow> instant \<Rightarrow> instant \<Rightarrow> extension \<Rightarrow> extension option" where
  "extend_until cal gen device_id gap attributable when start st =
     (if start < when
      then extend_until cal gen device_id gap attributable when (min when (next_boundary cal start)) (extend_once cal gen device_id gap attributable when start st)
      else Some st)"

definition continues ::
  "analytics_policy \<Rightarrow> calendar \<Rightarrow> activity_interval \<Rightarrow> instant \<Rightarrow> string option \<Rightarrow> session_state \<Rightarrow> (string \<times> string) option \<Rightarrow> string option \<Rightarrow> uuid option \<Rightarrow> instant \<Rightarrow> bool" where
  "continues pol cal previous seen user_key state foreground browser version when \<longleftrightarrow>
     av_user_key previous = user_key \<and> av_state previous = state \<and> av_process previous = map_option fst foreground
     \<and> av_category previous = map_option snd foreground \<and> av_browser previous = browser \<and> av_policy_version previous = version
     \<and> when - seen \<le> seconds (ap_max_gap_seconds pol) \<and> same_days cal (av_started_at previous) when"

definition put_cursor :: "activity_cursor \<Rightarrow> activity_cursor list \<Rightarrow> activity_cursor list" where
  "put_cursor c cs = (if find_row ac_device_id (ac_device_id c) cs = None then cs @ [c] else store_row ac_device_id c cs)"

definition loop_start :: "analytics_policy \<Rightarrow> instant \<Rightarrow> instant \<Rightarrow> instant" where
  "loop_start pol seen now = (if seconds (ap_max_gap_seconds pol) < now - seen then max seen (now - hours (24 * ap_detail_days pol)) else seen)"

text \<open>What is left after the loop: extend the last row or start a new one, and move the cursor.\<close>

definition finish_observation ::
  "calendar \<Rightarrow> uuid \<Rightarrow> activity_observation \<Rightarrow> session_state \<Rightarrow> string option \<Rightarrow> activity_cursor list \<Rightarrow> activity_interval \<Rightarrow> activity_interval list \<Rightarrow> activity_day list \<Rightarrow> activity_tables" where
  "finish_observation cal d ob state key cs interval ivs days =
     \<lparr>tb_intervals = ivs,
      tb_cursors = put_cursor \<lparr>ac_device_id = d, ac_user_key = key, ac_user_login = ob_user_login ob, ac_interval_id = Some (av_id interval),
        ac_observation_id = ob_observation_id ob, ac_last_observed_at = ob_observed_at ob, ac_session_state = state\<rparr> cs,
      tb_days = mark_dirty cal key (ob_observed_at ob) (ob_observed_at ob) days\<rparr>"

definition fresh_interval :: "(nat \<Rightarrow> uuid) \<Rightarrow> uuid \<Rightarrow> activity_observation \<Rightarrow> session_state \<Rightarrow> string option \<Rightarrow> uuid option \<Rightarrow> nat \<Rightarrow> activity_interval" where
  "fresh_interval gen d ob state key version n =
     (let foreground = (if state = SessActive then ob_foreground ob else None)
      in new_interval (gen n) d key (ob_user_login ob) (ob_observed_at ob) (ob_observed_at ob) state foreground
           (if foreground = None then None else ob_browser ob) version)"

text \<open>\<open>None\<close> stands for a loop that does not end, \<open>Inl\<close> for the \<open>ValueError\<close> of the login.\<close>

definition record_observation ::
  "analytics_policy \<Rightarrow> calendar \<Rightarrow> (string option \<Rightarrow> uuid \<Rightarrow> unit + string option) \<Rightarrow> (nat \<Rightarrow> uuid) \<Rightarrow> uuid \<Rightarrow> activity_observation
     \<Rightarrow> session_state \<Rightarrow> uuid option \<Rightarrow> activity_tables \<Rightarrow> (unit + activity_tables) option" where
  "record_observation pol cal login_key gen device_id ob state version tb =
     (let cursor = find_row ac_device_id device_id (tb_cursors tb);
          now = ob_observed_at ob
      in if (case cursor of None \<Rightarrow> False | Some c \<Rightarrow> now \<le> ac_last_observed_at c \<or> ob_observation_id ob = ac_observation_id c) then Some (Inr tb)
         else (case login_key (ob_user_login ob) device_id of
           Inl e \<Rightarrow> Some (Inl e)
         | Inr user_key \<Rightarrow>
             (let previous = Option.bind cursor (\<lambda>c. Option.bind (ac_interval_id c) (\<lambda>i. find_row av_id i (tb_intervals tb)));
                 foreground = (if state = SessActive then ob_foreground ob else None);
                 browser = (if foreground = None then None else ob_browser ob);
                 fresh = fresh_interval gen device_id ob state user_key version;
                 finish = finish_observation cal device_id ob state user_key (tb_cursors tb)
             in (case (cursor, previous) of
                  (Some c, Some p) \<Rightarrow>
                    (let seen = ac_last_observed_at c;
                        gap = (seconds (ap_max_gap_seconds pol) < now - seen);
                        attributable = (av_user_key p = user_key \<and> now - seen \<le> hours 24)
                    in map_option (\<lambda>(p', ivs, days, n).
                         if continues pol cal p' seen user_key state foreground browser version now
                         then Inr (finish p' (store_row av_id (p'\<lparr>av_last_observed_at := now\<rparr>) ivs) days)
                         else Inr (finish (fresh n) (ivs @ [fresh n]) days))
                       (extend_until cal gen device_id gap attributable now (loop_start pol seen now) (p, tb_intervals tb, tb_days tb, 0)))
                | _ \<Rightarrow> Some (Inr (finish (fresh 0) (tb_intervals tb @ [fresh 0]) (tb_days tb)))))))"

text \<open>One turn of \<open>rebuild_daily\<close>: a dirty day is summarised up to now, unless it has too many rows.\<close>

definition day_rows :: "string \<Rightarrow> instant \<Rightarrow> instant \<Rightarrow> activity_interval list \<Rightarrow> activity_interval list" where
  "day_rows key a b ivs =
     take 20001 (sort_key av_started_at (filter (\<lambda>r. av_user_key r = Some key \<and> av_started_at r < b \<and> a \<le> av_ended_at r) ivs))"

definition rebuild_day :: "calendar \<Rightarrow> instant \<Rightarrow> activity_interval list \<Rightarrow> activity_day \<Rightarrow> activity_day" where
  "rebuild_day cal now ivs day =
     (case cal_day_bounds cal (dy_day day) (dy_timezone day) of (a, b) \<Rightarrow>
        let rows = day_rows (dy_user_key day) a b ivs
        in if 20000 < length rows then day\<lparr>dy_updated_at := now\<rparr>
           else day\<lparr>dy_payload := summarize rows a (min b now), dy_updated_at := now, dy_dirty := False\<rparr>)"

section \<open>What the rows of a device say at an instant\<close>

type_synonym reading = "session_state \<times> string option \<times> string option"

definition value_of :: "activity_interval \<Rightarrow> reading" where
  "value_of r = (av_state r, av_user_key r, av_process r)"

definition covers :: "uuid \<Rightarrow> instant \<Rightarrow> activity_interval \<Rightarrow> bool" where
  "covers d t r \<longleftrightarrow> av_device_id r = d \<and> av_started_at r \<le> t \<and> t < av_ended_at r"

definition reading :: "uuid \<Rightarrow> activity_interval list \<Rightarrow> instant \<Rightarrow> reading list" where
  "reading d ivs t = map value_of (filter (covers d t) ivs)"

definition others :: "uuid \<Rightarrow> activity_interval list \<Rightarrow> activity_interval list" where
  "others d ivs = filter (\<lambda>r. av_device_id r \<noteq> d) ivs"

lemma reading_append: "reading d (ivs @ [r]) t = reading d ivs t @ (if covers d t r then [value_of r] else [])"
  by (simp add: reading_def)

lemma reading_others:
  assumes "others d ivs = others d ivs'" "x \<noteq> d"
  shows "reading x ivs t = reading x ivs' t"
proof -
  have "filter (covers x t) ivs = filter (covers x t) (others d ivs)" for ivs
    using assms(2) unfolding others_def filter_filter by (intro filter_cong) (auto simp: covers_def)
  then show ?thesis unfolding reading_def using assms(1) by metis
qed

lemma others_store: "distinct (map av_id ivs) \<Longrightarrow> p \<in> set ivs \<Longrightarrow> av_device_id p = d \<Longrightarrow> av_id p' = av_id p \<Longrightarrow> av_device_id p' = d
   \<Longrightarrow> others d (store_row av_id p' ivs) = others d ivs"
proof (induction ivs)
  case (Cons x ivs)
  show ?case
  proof (cases "x = p")
    case True
    then have "store_row av_id p' ivs = ivs" using Cons.prems by (auto simp: store_row_def map_idI image_iff intro!: map_idI)
    then show ?thesis using Cons.prems True by (simp add: store_row_def others_def)
  next
    case False
    then have "av_id x \<noteq> av_id p" using Cons.prems by auto
    then show ?thesis using Cons False by (simp add: store_row_def others_def)
  qed
qed simp

lemma reading_store:
  assumes "distinct (map av_id ivs)" "p \<in> set ivs" "av_id p' = av_id p" "value_of p' = value_of p"
    "covers d t p' \<Longrightarrow> covers d t p \<or> filter (covers d t) ivs = []" "covers d t p \<Longrightarrow> covers d t p'"
  shows "reading d (store_row av_id p' ivs) t = (if covers d t p' \<and> \<not> covers d t p then [value_of p] else reading d ivs t)"
proof -
  obtain xs ys where ivs: "ivs = xs @ p # ys" using assms(2) by (meson split_list)
  have "av_id p \<notin> av_id ` (set xs \<union> set ys)" using assms(1) by (auto simp: ivs)
  then have "av_id x \<noteq> av_id p" if "x \<in> set xs \<union> set ys" for x using that by (metis imageI)
  then have "map (\<lambda>r. if av_id r = av_id p' then p' else r) xs = xs" "map (\<lambda>r. if av_id r = av_id p' then p' else r) ys = ys"
    by (auto simp: assms(3) intro!: map_idI)
  then have "store_row av_id p' ivs = xs @ p' # ys" using assms(3) by (simp add: ivs store_row_def)
  then show ?thesis using assms(4-6) by (auto simp: reading_def ivs)
qed

section \<open>The loop over the calendar\<close>

definition calendar_ok :: "calendar \<Rightarrow> bool" where
  "calendar_ok cal \<longleftrightarrow> cal_zones cal \<noteq> [] \<and> (\<forall>z\<in>set (cal_zones cal). \<forall>t. t < snd (cal_day_bounds cal (cal_day cal z t) z))"

lemma next_boundary_later: "calendar_ok cal \<Longrightarrow> t < next_boundary cal t"
  unfolding next_boundary_def calendar_ok_def by (subst Min_gr_iff) auto

definition gap_value :: "bool \<Rightarrow> activity_interval \<Rightarrow> reading" where
  "gap_value attributable p = (SessUnknown, if attributable then av_user_key p else None, None)"

text \<open>From \<open>base\<close> to \<open>start\<close> the device reads \<open>v\<close>, elsewhere as before; in a run without a gap the last row ends at \<open>start\<close>.\<close>

definition extended :: "(nat \<Rightarrow> uuid) \<Rightarrow> uuid \<Rightarrow> bool \<Rightarrow> reading \<Rightarrow> activity_interval \<Rightarrow> activity_interval list \<Rightarrow> instant \<Rightarrow> instant \<Rightarrow> extension \<Rightarrow> bool" where
  "extended gen d gap v p0 ivs0 base start st \<longleftrightarrow>
     (case st of (p, ivs, days, n) \<Rightarrow>
        distinct (map av_id ivs) \<and> av_id ` set ivs \<subseteq> av_id ` set ivs0 \<union> gen ` {..<n} \<and> others d ivs = others d ivs0
        \<and> (\<forall>t. reading d ivs t = (if base \<le> t \<and> t < start then [v] else reading d ivs0 t))
        \<and> p \<in> set ivs \<and> av_device_id p = d \<and> (if gap then p = p0
             else av_ended_at p = start \<and> av_started_at p \<le> start \<and> value_of p = v))"

definition fresh_rows :: "(nat \<Rightarrow> uuid) \<Rightarrow> activity_interval list \<Rightarrow> bool" where
  "fresh_rows gen ivs \<longleftrightarrow> inj gen \<and> (\<forall>n. gen n \<notin> av_id ` set ivs)"

lemma extended_append:
  assumes "extended gen d gap v p0 ivs0 base start (p, ivs, days, n)" "fresh_rows gen ivs0" "av_id r = gen n" "av_device_id r = d"
  shows "distinct (map av_id (ivs @ [r])) \<and> av_id ` set (ivs @ [r]) \<subseteq> av_id ` set ivs0 \<union> gen ` {..<Suc n} \<and> others d (ivs @ [r]) = others d ivs0"
proof -
  have "gen n \<notin> gen ` {..<n}" using assms(2) by (auto simp: fresh_rows_def inj_def)
  moreover have "gen n \<notin> av_id ` set ivs0" using assms(2) by (simp add: fresh_rows_def)
  ultimately have "gen n \<notin> av_id ` set ivs" using assms(1) unfolding extended_def by blast
  then show ?thesis using assms(1,3,4) unfolding extended_def by (auto simp: others_def less_Suc_eq)
qed

lemma extend_once_ok:
  assumes "calendar_ok cal" "fresh_rows gen ivs0" "start < when" "base \<le> start" "\<And>t. base \<le> t \<Longrightarrow> reading d ivs0 t = []"
    "extended gen d gap v p0 ivs0 base start st" "gap \<Longrightarrow> v = gap_value attributable p0"
  shows "extended gen d gap v p0 ivs0 base (min when (next_boundary cal start)) (extend_once cal gen d gap attributable when start st)"
proof -
  obtain p ivs days n where st: "st = (p, ivs, days, n)" by (cases st)
  define boundary where "boundary = next_boundary cal start"
  define e where "e = min when boundary"
  have se: "start < e" "start < boundary" using next_boundary_later [OF assms(1), of start] assms(3) by (simp_all add: e_def boundary_def)
  note ext = assms(6) [unfolded st]
  have rd: "reading d ivs t = (if base \<le> t \<and> t < start then [v] else reading d ivs0 t)" for t using ext by (simp add: extended_def)
  have later: "reading d ivs t = []" if "start \<le> t" for t using that assms(4,5) rd by simp
  show ?thesis
  proof (cases gap)
    case True
    define r where "r = new_interval (gen n) d (if attributable then av_user_key p else None) (if attributable then av_user_login p else None) start e SessUnknown None None (av_policy_version p)"
    have p: "p = p0" "p \<in> set ivs" "av_device_id p = d" using ext True by (auto simp: extended_def)
    obtain days' where once: "extend_once cal gen d gap attributable when start st = (p, ivs @ [r], days', Suc n)"
      using True by (simp add: extend_once_def st Let_def e_def boundary_def r_def)
    have r: "av_id r = gen n" "av_device_id r = d" by (simp_all add: r_def new_interval_def)
    have val: "value_of r = v" using assms(7) [OF True] by (simp add: r_def value_of_def new_interval_def gap_value_def p(1))
    have "covers d t r \<longleftrightarrow> start \<le> t \<and> t < e" for t by (simp add: r_def covers_def new_interval_def)
    then have "reading d (ivs @ [r]) t = (if base \<le> t \<and> t < e then [v] else reading d ivs0 t)" for t
      unfolding reading_append rd val using assms(4,5) se by auto
    then have "extended gen d gap v p0 ivs0 base e (p, ivs @ [r], days', Suc n)"
      using extended_append [OF ext assms(2) r] True p unfolding extended_def by simp
    then show ?thesis unfolding once e_def boundary_def .
  next
    case False
    have p: "p \<in> set ivs" "av_device_id p = d" "av_ended_at p = start" "av_started_at p \<le> start" "value_of p = v" "distinct (map av_id ivs)"
      using ext False by (simp_all add: extended_def)
    let ?p = "p\<lparr>av_ended_at := e\<rparr>"
    let ?ivs = "store_row av_id ?p ivs"
    define days' where "days' = mark_dirty cal (av_user_key p) start e days"
    have cov: "covers d t ?p \<longleftrightarrow> covers d t p \<or> start \<le> t \<and> t < e" for t using p se by (auto simp: covers_def)
    have none: "filter (covers d t) ivs = []" if "start \<le> t" for t using later [OF that] by (simp add: reading_def)
    have "reading d ?ivs t = (if base \<le> t \<and> t < e then [v] else reading d ivs0 t)" for t
    proof -
      have "reading d ?ivs t = (if covers d t ?p \<and> \<not> covers d t p then [value_of p] else reading d ivs t)"
        using cov none p by (intro reading_store) (auto simp: value_of_def)
      moreover have "covers d t ?p \<and> \<not> covers d t p \<longleftrightarrow> start \<le> t \<and> t < e" unfolding cov using p(3) by (auto simp: covers_def)
      ultimately show ?thesis using rd [of t] p(5) assms(4) assms(5) [of t] se by auto
    qed
    moreover have "others d ?ivs = others d ivs0" using others_store [OF p(6,1,2), of ?p] p(2) ext by (simp add: extended_def)
    moreover have "?p \<in> set ?ivs" using p(1) store_row_self [where r = ?p and key = av_id and rows = ivs] by simp
    moreover have "av_id ` set ?ivs = av_id ` set ivs" by (metis list.set_map map_key_store_row)
    ultimately have one: "extended gen d gap v p0 ivs0 base e (?p, ?ivs, days', n)"
      using ext False p se unfolding extended_def by (simp add: value_of_def)
    show ?thesis
    proof (cases "e = boundary \<and> e < when")
      case more: True
      let ?q = "continue_interval (gen n) d ?p e e"
      have once: "extend_once cal gen d gap attributable when start st = (?q, ?ivs @ [?q], days', Suc n)"
        using False p more se by (simp add: extend_once_def st Let_def e_def boundary_def days'_def)
      have q: "av_id ?q = gen n" "av_device_id ?q = d" "\<not> covers d t ?q" "value_of ?q = v" "av_started_at ?q = e" "av_ended_at ?q = e" for t
        using p(5) by (simp_all add: continue_interval_def covers_def value_of_def)
      show ?thesis using extended_append [OF one assms(2) q(1,2)] one False q
        unfolding once e_def [symmetric] boundary_def [symmetric] by (simp add: extended_def reading_append)
    next
      case False
      then have "extend_once cal gen d gap attributable when start st = (?p, ?ivs, days', n)"
        using \<open>\<not> gap\<close> p se by (auto simp: extend_once_def st Let_def e_def boundary_def days'_def)
      then show ?thesis using one unfolding e_def [symmetric] boundary_def [symmetric] by (simp add: e_def)
    qed
  qed
qed

text \<open>The loop returns: every turn moves \<open>start\<close> past a day.\<close>

lemma extend_until_ok:
  assumes "calendar_ok cal" "fresh_rows gen ivs0" "base \<le> start" "start \<le> when" "\<And>t. base \<le> t \<Longrightarrow> reading d ivs0 t = []"
    "extended gen d gap v p0 ivs0 base start st" "gap \<Longrightarrow> v = gap_value attributable p0"
  shows "\<exists>st'. extend_until cal gen d gap attributable when start st = Some st' \<and> extended gen d gap v p0 ivs0 base when st'"
  using assms(3,4,6)
proof (induction "nat (when - start)" arbitrary: start st rule: less_induct)
  case less
  show ?case
  proof (cases "start < when")
    case True
    let ?e = "min when (next_boundary cal start)"
    have e: "start < ?e" "?e \<le> when" using True next_boundary_later [OF assms(1), of start] by simp_all
    have "\<exists>st'. extend_until cal gen d gap attributable when ?e (extend_once cal gen d gap attributable when start st) = Some st'
        \<and> extended gen d gap v p0 ivs0 base when st'"
      using extend_once_ok [OF assms(1,2) True less.prems(1) assms(5) less.prems(3) assms(7)] e less.prems(1) by (intro less.hyps) auto
    then show ?thesis using True by (subst extend_until.simps) simp
  next
    case False
    then show ?thesis using less.prems by (subst extend_until.simps) simp
  qed
qed

section \<open>What was measured\<close>

text \<open>
  The samples of a device, newest first. The time between two samples belongs to the earlier one when they are close
  enough; otherwise it is unknown, for the account of both samples if they agree and at most a day apart, and nothing is
  claimed of the part before the detail window.
\<close>

type_synonym sample = "instant \<times> reading"

definition between_samples :: "analytics_policy \<Rightarrow> sample \<Rightarrow> sample \<Rightarrow> instant \<Rightarrow> reading list" where
  "between_samples pol a b t =
     (if fst b - fst a \<le> seconds (ap_max_gap_seconds pol) then [snd a]
      else if fst b - hours (24 * ap_detail_days pol) \<le> t
      then [(SessUnknown, if fst (snd (snd a)) = fst (snd (snd b)) \<and> fst b - fst a \<le> hours 24 then fst (snd (snd a)) else None, None)]
      else [])"

fun timeline :: "analytics_policy \<Rightarrow> sample list \<Rightarrow> instant \<Rightarrow> reading list" where
  "timeline pol (b # a # h) t = (if fst a \<le> t \<and> t < fst b then between_samples pol a b t else timeline pol (a # h) t)"
| "timeline pol [s] t = []"
| "timeline pol [] t = []"

definition sample_of :: "activity_observation \<Rightarrow> session_state \<Rightarrow> string option \<Rightarrow> sample" where
  "sample_of ob state key = (ob_observed_at ob, state, key, if state = SessActive then map_option fst (ob_foreground ob) else None)"

definition sorted_samples :: "sample list \<Rightarrow> bool" where
  "sorted_samples h \<longleftrightarrow> sorted_wrt (\<lambda>b a. fst a < fst b) h"

definition tracked :: "analytics_policy \<Rightarrow> activity_tables \<Rightarrow> uuid \<Rightarrow> sample list \<Rightarrow> bool" where
  "tracked pol tb d h \<longleftrightarrow> (\<forall>t. reading d (tb_intervals tb) t = timeline pol h t) \<and> sorted_samples h
     \<and> (case h of [] \<Rightarrow> find_row ac_device_id d (tb_cursors tb) = None
        | s # _ \<Rightarrow> (\<exists>c p. find_row ac_device_id d (tb_cursors tb) = Some c \<and> ac_last_observed_at c = fst s \<and> ac_interval_id c = Some (av_id p)
            \<and> p \<in> set (tb_intervals tb) \<and> av_device_id p = d \<and> av_ended_at p = fst s \<and> av_started_at p \<le> fst s \<and> value_of p = snd s))"

definition activity_inv :: "analytics_policy \<Rightarrow> activity_tables \<Rightarrow> (uuid \<Rightarrow> sample list) \<Rightarrow> bool" where
  "activity_inv pol tb h \<longleftrightarrow> distinct (map av_id (tb_intervals tb)) \<and> (\<forall>d. tracked pol tb d (h d))"

lemma timeline_late: "sorted_samples h \<Longrightarrow> (\<And>s. s \<in> set h \<Longrightarrow> fst s \<le> t) \<Longrightarrow> timeline pol h t = []"
proof (induction pol h t rule: timeline.induct)
  case (1 pol b a h t)
  have "\<not> t < fst b" using "1.prems"(2) [of b] by simp
  moreover have "sorted_samples (a # h)" using "1.prems"(1) by (simp add: sorted_samples_def)
  ultimately show ?case using "1.IH" "1.prems"(2) by simp
qed simp_all

text \<open>Rows and cursor of another device are as they were.\<close>

lemma tracked_other:
  assumes "tracked pol tb x h" "x \<noteq> d" "others d (tb_intervals tb') = others d (tb_intervals tb)"
    "find_row ac_device_id x (tb_cursors tb') = find_row ac_device_id x (tb_cursors tb)"
  shows "tracked pol tb' x h"
proof -
  have "r \<in> set (tb_intervals tb')" if "r \<in> set (tb_intervals tb)" "av_device_id r = x" for r
  proof -
    have "r \<in> set (others d (tb_intervals tb))" using that assms(2) by (simp add: others_def)
    then show ?thesis unfolding assms(3) [symmetric] by (simp add: others_def)
  qed
  moreover have "reading x (tb_intervals tb') t = reading x (tb_intervals tb) t" for t using reading_others [OF assms(3) assms(2)] .
  ultimately show ?thesis using assms(1,4) unfolding tracked_def by (cases h) (simp, simp, blast)
qed

lemma find_put_cursor: "find_row ac_device_id x (put_cursor c cs) = (if x = ac_device_id c then Some c else find_row ac_device_id x cs)"
proof (cases "find_row ac_device_id (ac_device_id c) cs")
  case None
  then show ?thesis by (auto simp: put_cursor_def find_row_append find_row_def [of _ _ "[_]"] split: option.splits)
next
  case (Some c')
  then have "ac_device_id c \<in> ac_device_id ` set cs" using find_row_SomeD [OF Some] by (metis imageI)
  then show ?thesis using Some by (simp add: put_cursor_def find_row_store_row)
qed

section \<open>One observation\<close>

definition accepts :: "activity_tables \<Rightarrow> uuid \<Rightarrow> activity_observation \<Rightarrow> bool" where
  "accepts tb d ob \<longleftrightarrow>
     (case find_row ac_device_id d (tb_cursors tb) of
        None \<Rightarrow> True | Some c \<Rightarrow> ac_last_observed_at c < ob_observed_at ob \<and> ob_observation_id ob \<noteq> ac_observation_id c)"

lemma tracked_fresh:
  assumes "p \<in> set ivs" "av_device_id p = d" "av_ended_at p = ob_observed_at ob" "av_started_at p \<le> ob_observed_at ob"
    "value_of p = snd (sample_of ob state key)" "\<And>t. reading d ivs t = timeline pol (sample_of ob state key # h) t" "sorted_samples (sample_of ob state key # h)"
    "ac_device_id c = d" "ac_last_observed_at c = ob_observed_at ob" "ac_interval_id c = Some (av_id p)"
  shows "tracked pol \<lparr>tb_intervals = ivs, tb_cursors = put_cursor c cs, tb_days = days\<rparr> d (sample_of ob state key # h)"
proof -
  have t: "fst (sample_of ob state key) = ob_observed_at ob" by (simp add: sample_of_def)
  show ?thesis unfolding tracked_def list.case activity_tables.simps t using assms find_put_cursor [of d c cs] by (intro conjI allI exI [of _ c] exI [of _ p]) simp_all
qed

lemma fresh_interval_simps [simp]:
  "av_id (fresh_interval gen d ob state key version n) = gen n" "av_device_id (fresh_interval gen d ob state key version n) = d"
  "av_started_at (fresh_interval gen d ob state key version n) = ob_observed_at ob" "av_ended_at (fresh_interval gen d ob state key version n) = ob_observed_at ob"
  "value_of (fresh_interval gen d ob state key version n) = snd (sample_of ob state key)" "\<not> covers d t (fresh_interval gen d ob state key version n)"
  by (simp_all add: fresh_interval_def new_interval_def value_of_def sample_of_def covers_def Let_def)

lemma record_first:
  assumes "find_row ac_device_id d (tb_cursors tb) = None" "login_key (ob_user_login ob) d = Inr key"
  shows "record_observation pol cal login_key gen d ob state version tb =
    Some (Inr (finish_observation cal d ob state key (tb_cursors tb) (fresh_interval gen d ob state key version 0)
      (tb_intervals tb @ [fresh_interval gen d ob state key version 0]) (tb_days tb)))"
  using assms by (simp add: record_observation_def Let_def)

lemma record_next:
  assumes "find_row ac_device_id d (tb_cursors tb) = Some c" "ac_interval_id c = Some i" "find_row av_id i (tb_intervals tb) = Some p"
    "accepts tb d ob" "login_key (ob_user_login ob) d = Inr key"
    "extend_until cal gen d (seconds (ap_max_gap_seconds pol) < ob_observed_at ob - ac_last_observed_at c)
       (av_user_key p = key \<and> ob_observed_at ob - ac_last_observed_at c \<le> hours 24) (ob_observed_at ob) (loop_start pol (ac_last_observed_at c) (ob_observed_at ob))
       (p, tb_intervals tb, tb_days tb, 0) = Some (p', ivs, days, n)"
  shows "record_observation pol cal login_key gen d ob state version tb =
    Some (Inr (if continues pol cal p' (ac_last_observed_at c) key state (if state = SessActive then ob_foreground ob else None)
         (if (if state = SessActive then ob_foreground ob else None) = None then None else ob_browser ob) version (ob_observed_at ob)
       then finish_observation cal d ob state key (tb_cursors tb) p' (store_row av_id (p'\<lparr>av_last_observed_at := ob_observed_at ob\<rparr>) ivs) days
       else finish_observation cal d ob state key (tb_cursors tb) (fresh_interval gen d ob state key version n) (ivs @ [fresh_interval gen d ob state key version n]) days))"
  using assms by (simp add: record_observation_def accepts_def Let_def)

lemma sorted_bound: "sorted_samples (s # h) \<Longrightarrow> x \<in> set (s # h) \<Longrightarrow> fst x \<le> fst s"
  by (auto simp: sorted_samples_def)

lemma extended_timeline:
  assumes "sorted_samples (s # h)" "fst s < fst smp" "value_of p = snd s" "snd smp = (st, key, pr)" "0 \<le> ap_detail_days pol"
    "\<And>t. reading d ivs0 t = timeline pol (s # h) t" "gap = (seconds (ap_max_gap_seconds pol) < fst smp - fst s)"
    "v = (if gap then gap_value (av_user_key p = key \<and> fst smp - fst s \<le> hours 24) p else value_of p)"
    "reading d ivs t = (if loop_start pol (fst s) (fst smp) \<le> t \<and> t < fst smp then [v] else reading d ivs0 t)"
  shows "reading d ivs t = timeline pol (smp # s # h) t"
proof -
  have late: "timeline pol (s # h) t = []" if "fst s \<le> t"
    using timeline_late [OF assms(1)] sorted_bound [OF assms(1)] that order_trans by meson
  have key: "fst (snd (snd s)) = av_user_key p" "fst (snd (snd smp)) = key"
    using assms(4) by (simp_all add: assms(3) [symmetric] value_of_def)
  show ?thesis
  proof (cases "fst s \<le> t \<and> t < fst smp")
    case False
    moreover have "fst s \<le> loop_start pol (fst s) (fst smp)" by (simp add: loop_start_def)
    ultimately show ?thesis using assms(9) assms(6) [of t] by auto
  next
    case True
    then have none: "reading d ivs0 t = []" using assms(6) late by simp
    show ?thesis
    proof (cases gap)
      case True
      have v: "v = (SessUnknown, if av_user_key p = key \<and> fst smp - fst s \<le> hours 24 then av_user_key p else None, None)"
        using assms(8) True by (simp add: gap_value_def)
      have "loop_start pol (fst s) (fst smp) \<le> t \<longleftrightarrow> fst smp - hours (24 * ap_detail_days pol) \<le> t"
        using True assms(7) \<open>fst s \<le> t \<and> t < fst smp\<close> by (simp add: loop_start_def)
      then show ?thesis using True assms(7,9) none \<open>fst s \<le> t \<and> t < fst smp\<close> v key by (simp add: between_samples_def)
    next
      case False
      then show ?thesis using assms(3,7,8,9) none \<open>fst s \<le> t \<and> t < fst smp\<close> by (simp add: loop_start_def between_samples_def)
    qed
  qed
qed

lemma reading_touch:
  assumes "distinct (map av_id ivs)" "p \<in> set ivs"
  shows "reading d (store_row av_id (p\<lparr>av_last_observed_at := x\<rparr>) ivs) t = reading d ivs t"
proof -
  have "covers d t (p\<lparr>av_last_observed_at := x\<rparr>) = covers d t p" "value_of (p\<lparr>av_last_observed_at := x\<rparr>) = value_of p"
    by (simp_all add: covers_def value_of_def)
  then show ?thesis using reading_store [OF assms, of "p\<lparr>av_last_observed_at := x\<rparr>" d t] by simp
qed

lemma inv_finish:
  assumes "activity_inv pol tb h" "distinct (map av_id ivs)" "others d ivs = others d (tb_intervals tb)"
    "tracked pol (finish_observation cal d ob state key (tb_cursors tb) p ivs days) d (sample_of ob state key # h d)"
  shows "activity_inv pol (finish_observation cal d ob state key (tb_cursors tb) p ivs days) (h(d := sample_of ob state key # h d))"
proof -
  let ?tb = "finish_observation cal d ob state key (tb_cursors tb) p ivs days"
  have "tracked pol ?tb x (h x)" if "x \<noteq> d" for x
  proof (rule tracked_other [OF _ that])
    show "tracked pol tb x (h x)" using assms(1) by (simp add: activity_inv_def)
    show "others d (tb_intervals ?tb) = others d (tb_intervals tb)" using assms(3) by (simp add: finish_observation_def)
    show "find_row ac_device_id x (tb_cursors ?tb) = find_row ac_device_id x (tb_cursors tb)" using that by (simp add: finish_observation_def find_put_cursor)
  qed
  then show ?thesis using assms(2,4) by (simp add: activity_inv_def finish_observation_def)
qed

lemma record_first_ok:
  assumes "activity_inv pol tb h" "h d = []" "fresh_rows gen (tb_intervals tb)" "login_key (ob_user_login ob) d = Inr key"
  shows "\<exists>tb'. record_observation pol cal login_key gen d ob state version tb = Some (Inr tb') \<and> activity_inv pol tb' (h(d := sample_of ob state key # h d))"
proof -
  let ?f = "fresh_interval gen d ob state key version 0"
  have t: "tracked pol tb d []" "distinct (map av_id (tb_intervals tb))" using assms(1,2) by (auto simp: activity_inv_def) (metis assms(2))
  have none: "find_row ac_device_id d (tb_cursors tb) = None" using t(1) by (simp add: tracked_def)
  have rd: "reading d (tb_intervals tb @ [?f]) u = timeline pol [sample_of ob state key] u" for u using t(1) by (simp add: reading_append tracked_def)
  have "tracked pol (finish_observation cal d ob state key (tb_cursors tb) ?f (tb_intervals tb @ [?f]) (tb_days tb)) d (sample_of ob state key # h d)"
    unfolding finish_observation_def by (rule tracked_fresh [of ?f]) (use rd assms(2) in \<open>simp_all add: sorted_samples_def\<close>)
  then have "activity_inv pol (finish_observation cal d ob state key (tb_cursors tb) ?f (tb_intervals tb @ [?f]) (tb_days tb)) (h(d := sample_of ob state key # h d))"
    using t(2) assms(3) by (intro inv_finish [OF assms(1)]) (auto simp: others_def fresh_rows_def)
  then show ?thesis using record_first [of d tb login_key ob key, OF none assms(4)] by blast
qed

lemma record_next_ok:
  assumes "activity_inv pol tb h" "h d = s # hs" "fresh_rows gen (tb_intervals tb)" "login_key (ob_user_login ob) d = Inr key"
    "accepts tb d ob" "calendar_ok cal" "0 \<le> ap_detail_days pol"
  shows "\<exists>tb'. record_observation pol cal login_key gen d ob state version tb = Some (Inr tb') \<and> activity_inv pol tb' (h(d := sample_of ob state key # h d))"
proof -
  define now where "now = ob_observed_at ob"
  define smp where "smp = sample_of ob state key"
  have smp: "fst smp = now" "snd smp = (state, key, if state = SessActive then map_option fst (ob_foreground ob) else None)" by (simp_all add: smp_def sample_of_def now_def)
  have dist: "distinct (map av_id (tb_intervals tb))" and tr: "tracked pol tb d (s # hs)" using assms(1,2) unfolding activity_inv_def by (simp, metis)
  have rd0: "reading d (tb_intervals tb) t = timeline pol (s # hs) t" for t using tr by (simp add: tracked_def)
  have srt: "sorted_samples (s # hs)" using tr by (simp add: tracked_def)
  obtain c p where c: "find_row ac_device_id d (tb_cursors tb) = Some c" "ac_last_observed_at c = fst s" "ac_interval_id c = Some (av_id p)"
      and p: "p \<in> set (tb_intervals tb)" "av_device_id p = d" "av_ended_at p = fst s" "av_started_at p \<le> fst s" "value_of p = snd s"
    using tr unfolding tracked_def list.case by blast
  have fp: "find_row av_id (av_id p) (tb_intervals tb) = Some p" using find_row_key [OF dist p(1)] .
  have later: "fst s < now" using assms(5) c by (simp add: accepts_def now_def)
  define gap where "gap = (seconds (ap_max_gap_seconds pol) < now - fst s)"
  define att where "att = (av_user_key p = key \<and> now - fst s \<le> hours 24)"
  define start where "start = loop_start pol (fst s) now"
  define v where "v = (if gap then gap_value att p else value_of p)"
  have start: "fst s \<le> start" "start \<le> now" "\<not> gap \<Longrightarrow> start = fst s"
    using later assms(7) by (auto simp: start_def loop_start_def gap_def hours_def minutes_def seconds_def)
  have quiet: "reading d (tb_intervals tb) t = []" if "start \<le> t" for t
    unfolding rd0 using timeline_late [OF srt] sorted_bound [OF srt] start(1) that order_trans by meson
  have init: "extended gen d gap v p (tb_intervals tb) start start (p, tb_intervals tb, tb_days tb, 0)"
    using dist p start(3) by (auto simp: extended_def v_def)
  have "gap \<Longrightarrow> v = gap_value att p" by (simp add: v_def)
  then obtain st where st: "extend_until cal gen d gap att now start (p, tb_intervals tb, tb_days tb, 0) = Some st"
      "extended gen d gap v p (tb_intervals tb) start now st"
    using extend_until_ok [OF assms(6,3) order_refl start(2) quiet init] by blast
  obtain p' ivs days n where st': "st = (p', ivs, days, n)" by (cases st)
  note ext = st(2) [unfolded st']
  have e: "distinct (map av_id ivs)" "others d ivs = others d (tb_intervals tb)" "p' \<in> set ivs" "av_device_id p' = d"
    using ext by (auto simp: extended_def)
  have line: "reading d ivs t = timeline pol (smp # s # hs) t" for t
    using ext later smp srt p(5) assms(7) rd0 unfolding extended_def start_def
    by (intro extended_timeline [of s hs smp p state key _ pol d "tb_intervals tb" gap v]) (auto simp: gap_def v_def att_def)
  have sorted: "sorted_samples (smp # s # hs)" using srt later smp(1) sorted_bound [OF srt] by (force simp: sorted_samples_def)
  let ?go = "continues pol cal p' (fst s) key state (if state = SessActive then ob_foreground ob else None)
         (if (if state = SessActive then ob_foreground ob else None) = None then None else ob_browser ob) version now"
  note run = record_next [of d tb c "av_id p" p ob login_key key, OF c(1,3) fp assms(5,4), of cal gen pol p' ivs days n state version, unfolded c(2), folded now_def]
  have until: "extend_until cal gen d (seconds (ap_max_gap_seconds pol) < now - fst s) (av_user_key p = key \<and> now - fst s \<le> hours 24) now
      (loop_start pol (fst s) now) (p, tb_intervals tb, tb_days tb, 0) = Some (p', ivs, days, n)"
    using st(1) unfolding st' gap_def att_def start_def .
  note run = run [OF until]
  show ?thesis
  proof (cases ?go)
    case True
    let ?p = "p'\<lparr>av_last_observed_at := now\<rparr>"
    have "\<not> gap" using True by (simp add: continues_def gap_def)
    then have p': "av_ended_at p' = now" "av_started_at p' \<le> now" using ext by (auto simp: extended_def)
    have val: "value_of p' = snd smp" using True smp(2) by (simp add: continues_def value_of_def)
    have "tracked pol (finish_observation cal d ob state key (tb_cursors tb) p' (store_row av_id ?p ivs) days) d (smp # h d)"
      unfolding finish_observation_def smp_def
    proof (rule tracked_fresh [of ?p])
      show "?p \<in> set (store_row av_id ?p ivs)" using e(3) store_row_self [where r = ?p and key = av_id and rows = ivs] by simp
      show "value_of ?p = snd (sample_of ob state key)" using val by (simp add: value_of_def smp_def)
      show "reading d (store_row av_id ?p ivs) t = timeline pol (sample_of ob state key # h d) t" for t
        using line reading_touch [OF e(1,3)] by (simp add: assms(2) smp_def)
    qed (use p' e(4) sorted in \<open>simp_all add: now_def smp_def assms(2)\<close>)
    moreover have "others d (store_row av_id ?p ivs) = others d ivs" using others_store [OF e(1,3,4), of ?p] e(4) by simp
    ultimately have "activity_inv pol (finish_observation cal d ob state key (tb_cursors tb) p' (store_row av_id ?p ivs) days) (h(d := smp # h d))"
      unfolding smp_def using e(1,2) by (intro inv_finish [OF assms(1)]) simp_all
    then show ?thesis using run True by (simp add: smp_def)
  next
    case False
    let ?f = "fresh_interval gen d ob state key version n"
    have app: "distinct (map av_id (ivs @ [?f]))" "others d (ivs @ [?f]) = others d (tb_intervals tb)"
      using extended_append [OF ext assms(3), of ?f] by simp_all
    have "tracked pol (finish_observation cal d ob state key (tb_cursors tb) ?f (ivs @ [?f]) days) d (smp # h d)"
      unfolding finish_observation_def smp_def
      by (rule tracked_fresh [of ?f]) (use line sorted in \<open>simp_all add: reading_append assms(2) smp_def\<close>)
    then have "activity_inv pol (finish_observation cal d ob state key (tb_cursors tb) ?f (ivs @ [?f]) days) (h(d := smp # h d))"
      unfolding smp_def using app by (intro inv_finish [OF assms(1)]) simp_all
    then show ?thesis using run False by (simp add: smp_def)
  qed
qed

end
