(* ===== verification/Activity_Retention.thy ===== *)
theory Activity_Retention
  imports Activity_Store
begin

text \<open>
  The jobs of the worker in \<open>endpoint_server/activity/analytics_store.py\<close>: \<open>rebuild_daily\<close> and \<open>retain_analytics\<close>. Text orders by
  code points; \<open>arrange\<close> is the order in which a query without one returns its rows.
\<close>

section \<open>Operations\<close>

definition rebuild_batch :: "calendar \<Rightarrow> nat \<Rightarrow> activity_day list \<Rightarrow> activity_day list" where
  "rebuild_batch cal batch_size days =
     take batch_size (sort_key (\<lambda>d. (dy_updated_at d, dy_day d, dy_user_key d)) (filter (\<lambda>d. dy_dirty d \<and> dy_timezone d \<in> set (cal_zones cal)) days))"

definition rebuild_daily :: "calendar \<Rightarrow> instant \<Rightarrow> nat \<Rightarrow> activity_tables \<Rightarrow> unit + activity_tables \<times> nat" where
  "rebuild_daily cal now batch_size tb =
     (if \<not> (1 \<le> batch_size \<and> batch_size \<le> 256) then Inl ()
      else let daily = rebuild_batch cal batch_size (tb_days tb)
           in Inr (tb\<lparr>tb_days := map (\<lambda>d. if day_key d \<in> day_key ` set daily then rebuild_day cal now (tb_intervals tb) d else d) (tb_days tb)\<rparr>,
                   length daily))"

definition retention_cutoff :: "analytics_policy \<Rightarrow> calendar \<Rightarrow> instant \<Rightarrow> instant" where
  "retention_cutoff pol cal now =
     Min (set (map (\<lambda>z. fst (cal_day_bounds cal (cal_day cal z now - ap_detail_days pol) z)) (cal_zones cal)))"

definition dirty_account :: "activity_day list \<Rightarrow> string \<Rightarrow> bool" where
  "dirty_account days key \<longleftrightarrow> list_ex (\<lambda>d. dy_dirty d \<and> dy_user_key d = key) days"

definition expired_rows :: "analytics_policy \<Rightarrow> calendar \<Rightarrow> instant \<Rightarrow> nat \<Rightarrow> activity_tables \<Rightarrow> activity_interval list" where
  "expired_rows pol cal now batch_size tb =
     take batch_size (sort_key av_ended_at (filter (\<lambda>r. av_ended_at r < retention_cutoff pol cal now
       \<and> (case av_user_key r of None \<Rightarrow> True | Some k \<Rightarrow> \<not> dirty_account (tb_days tb) k)) (tb_intervals tb)))"

definition expired_days :: "analytics_policy \<Rightarrow> calendar \<Rightarrow> instant \<Rightarrow> nat \<Rightarrow> activity_day list \<Rightarrow> activity_day list" where
  "expired_days pol cal now batch_size days =
     take batch_size (sort_key dy_day (filter (\<lambda>d. dy_day d < cal_day cal ''UTC'' (now - hours (24 * ap_aggregate_days pol))) days))"

text \<open>Deleting a row clears the references of the cursors to it.\<close>

definition delete_rows :: "uuid set \<Rightarrow> activity_tables \<Rightarrow> activity_tables" where
  "delete_rows gone tb =
     tb\<lparr>tb_intervals := filter (\<lambda>r. av_id r \<notin> gone) (tb_intervals tb),
        tb_cursors := map (\<lambda>c. if (case ac_interval_id c of None \<Rightarrow> False | Some i \<Rightarrow> i \<in> gone) then c\<lparr>ac_interval_id := None\<rparr> else c) (tb_cursors tb)\<rparr>"

definition retain_analytics ::
  "(activity_cursor list \<Rightarrow> activity_cursor list) \<Rightarrow> analytics_policy \<Rightarrow> calendar \<Rightarrow> instant \<Rightarrow> nat \<Rightarrow> activity_tables \<Rightarrow> unit + activity_tables \<times> nat" where
  "retain_analytics arrange pol cal now batch_size tb =
     (if \<not> (1 \<le> batch_size \<and> batch_size \<le> 1000) then Inl ()
      else let gone = expired_rows pol cal now batch_size tb;
               tb1 = delete_rows (av_id ` set gone) tb;
               stale = expired_days pol cal now batch_size (tb_days tb1);
               cursors = take batch_size (arrange (filter (\<lambda>c. ac_last_observed_at c < now - hours (24 * ap_aggregate_days pol)) (tb_cursors tb1)))
           in Inr (tb1\<lparr>tb_days := filter (\<lambda>d. day_key d \<notin> day_key ` set stale) (tb_days tb1),
                       tb_cursors := filter (\<lambda>c. ac_device_id c \<notin> ac_device_id ` set cursors) (tb_cursors tb1)\<rparr>, length gone))"

section \<open>What retention leaves\<close>

lemma day_rows_filter:
  assumes "\<And>r. r \<in> set ivs \<Longrightarrow> \<not> P r \<Longrightarrow> \<not> (av_user_key r = Some key \<and> av_started_at r < b \<and> a \<le> av_ended_at r)"
  shows "day_rows key a b (filter P ivs) = day_rows key a b ivs"
proof -
  have "filter (\<lambda>r. av_user_key r = Some key \<and> av_started_at r < b \<and> a \<le> av_ended_at r) (filter P ivs)
      = filter (\<lambda>r. av_user_key r = Some key \<and> av_started_at r < b \<and> a \<le> av_ended_at r) ivs"
    unfolding filter_filter using assms by (intro filter_cong) auto
  then show ?thesis by (simp add: day_rows_def)
qed

lemma expired_row:
  assumes "r \<in> set (expired_rows pol cal now n tb)"
  shows "r \<in> set (tb_intervals tb)" "av_ended_at r < retention_cutoff pol cal now" "av_user_key r = Some k \<Longrightarrow> \<not> dirty_account (tb_days tb) k"
  using in_set_takeD [OF assms [unfolded expired_rows_def]] by auto

definition calendar_monotone :: "calendar \<Rightarrow> bool" where
  "calendar_monotone cal \<longleftrightarrow> (\<forall>z d e. d \<le> e \<longrightarrow> fst (cal_day_bounds cal d z) \<le> fst (cal_day_bounds cal e z))"

lemma cutoff_before:
  assumes "calendar_monotone cal" "z \<in> set (cal_zones cal)" "cal_day cal z now - ap_detail_days pol \<le> d"
  shows "retention_cutoff pol cal now \<le> fst (cal_day_bounds cal d z)"
proof -
  have "retention_cutoff pol cal now \<le> fst (cal_day_bounds cal (cal_day cal z now - ap_detail_days pol) z)"
    unfolding retention_cutoff_def using assms(2) by (intro Min_le) auto
  also have "\<dots> \<le> fst (cal_day_bounds cal d z)" using assms(1,3) unfolding calendar_monotone_def by blast
  finally show ?thesis .
qed

lemma retained_intervals:
  "retain_analytics arrange pol cal now n tb = Inr (tb', k) \<Longrightarrow>
   tb_intervals tb' = filter (\<lambda>r. av_id r \<notin> av_id ` set (expired_rows pol cal now n tb)) (tb_intervals tb)"
  by (auto simp: retain_analytics_def Let_def delete_rows_def split: if_splits)

lemma rebuild_after_retention:
  assumes "retain_analytics arrange pol cal now n tb = Inr (tb', k)" "distinct (map av_id (tb_intervals tb))" "calendar_monotone cal"
    "dirty_account (tb_days tb) (dy_user_key day)
     \<or> dy_timezone day \<in> set (cal_zones cal) \<and> cal_day cal (dy_timezone day) now - ap_detail_days pol \<le> dy_day day"
  shows "rebuild_day cal t (tb_intervals tb') day = rebuild_day cal t (tb_intervals tb) day"
proof -
  obtain a b where ab: "cal_day_bounds cal (dy_day day) (dy_timezone day) = (a, b)" by fastforce
  have "day_rows (dy_user_key day) a b (tb_intervals tb') = day_rows (dy_user_key day) a b (tb_intervals tb)"
    unfolding retained_intervals [OF assms(1)]
  proof (rule day_rows_filter)
    fix r assume r: "r \<in> set (tb_intervals tb)" "\<not> av_id r \<notin> av_id ` set (expired_rows pol cal now n tb)"
    then obtain x where x: "x \<in> set (expired_rows pol cal now n tb)" "av_id x = av_id r" by fastforce
    then have "x = r" using expired_row(1) [OF x(1)] r(1) assms(2) by (metis distinct_map inj_on_eq_iff)
    then have e: "av_ended_at r < retention_cutoff pol cal now" "av_user_key r = Some (dy_user_key day) \<Longrightarrow> \<not> dirty_account (tb_days tb) (dy_user_key day)"
      using expired_row(2,3) [OF x(1)] by auto
    show "\<not> (av_user_key r = Some (dy_user_key day) \<and> av_started_at r < b \<and> a \<le> av_ended_at r)"
    proof (cases "dirty_account (tb_days tb) (dy_user_key day)")
      case False
      then have "retention_cutoff pol cal now \<le> a" using assms(4) cutoff_before [OF assms(3)] ab by (metis fst_conv)
      then show ?thesis using e(1) by simp
    qed (use e(2) in blast)
  qed
  then show ?thesis by (simp add: rebuild_day_def ab)
qed

lemma removed_count:
  assumes "distinct (map av_id ivs)" "set gone \<subseteq> set ivs" "distinct gone"
  shows "length (filter (\<lambda>r. av_id r \<notin> av_id ` set gone) ivs) + length gone = length ivs"
proof -
  have "filter (\<lambda>r. av_id r \<in> av_id ` set gone) ivs = filter (\<lambda>r. r \<in> set gone) ivs"
    using assms(1,2) by (intro filter_cong) (auto simp: distinct_map inj_on_def)
  moreover have "distinct ivs" using assms(1) by (simp add: distinct_map)
  then have "length (filter (\<lambda>r. r \<in> set gone) ivs) = card {r \<in> set ivs. r \<in> set gone}" by (metis distinct_card distinct_filter set_filter)
  moreover have "{r \<in> set ivs. r \<in> set gone} = set gone" using assms(2) by auto
  ultimately have "length (filter (\<lambda>r. av_id r \<in> av_id ` set gone) ivs) = length gone" using assms(3) by (simp add: distinct_card)
  then show ?thesis using sum_length_filter_compl [of "\<lambda>r. av_id r \<in> av_id ` set gone" ivs] by simp
qed

lemma expired_distinct: "distinct (map av_id (tb_intervals tb)) \<Longrightarrow> distinct (expired_rows pol cal now n tb)"
  by (simp add: expired_rows_def distinct_map)

end
