(* ===== verification/Activity_Properties.thy ===== *)
theory Activity_Properties
  imports Activity_Retention
begin

text \<open>
  The properties of the activity analytics. Histories are any interleaving of samples of any devices and of rebuilds of
  days; beside the tables they carry the accepted samples of every device.
\<close>

inductive activity_step ::
  "analytics_policy \<Rightarrow> calendar \<Rightarrow> (string option \<Rightarrow> uuid \<Rightarrow> unit + string option) \<Rightarrow> activity_tables \<times> (uuid \<Rightarrow> sample list)
     \<Rightarrow> activity_tables \<times> (uuid \<Rightarrow> sample list) \<Rightarrow> bool"
  for pol :: analytics_policy and cal :: calendar and login_key :: "string option \<Rightarrow> uuid \<Rightarrow> unit + string option" where
  sampled: "accepts tb d ob \<Longrightarrow> login_key (ob_user_login ob) d = Inr key \<Longrightarrow> fresh_rows gen (tb_intervals tb) \<Longrightarrow>
     record_observation pol cal login_key gen d ob state version tb = Some (Inr tb') \<Longrightarrow>
     activity_step pol cal login_key (tb, h) (tb', h(d := sample_of ob state key # h d))"
| repeated: "\<not> accepts tb d ob \<Longrightarrow> record_observation pol cal login_key gen d ob state version tb = Some (Inr tb') \<Longrightarrow>
     activity_step pol cal login_key (tb, h) (tb', h)"
| rebuilt: "rebuild_daily cal now batch tb = Inr (tb', n) \<Longrightarrow> activity_step pol cal login_key (tb, h) (tb', h)"

definition no_activity :: "activity_tables \<times> (uuid \<Rightarrow> sample list)" where
  "no_activity = (\<lparr>tb_intervals = [], tb_cursors = [], tb_days = []\<rparr>, \<lambda>_. [])"

lemma activity_record_ok:
  assumes "activity_inv pol tb h" "fresh_rows gen (tb_intervals tb)" "login_key (ob_user_login ob) d = Inr key" "accepts tb d ob" "calendar_ok cal" "0 \<le> ap_detail_days pol"
  shows "\<exists>tb'. record_observation pol cal login_key gen d ob state version tb = Some (Inr tb') \<and> activity_inv pol tb' (h(d := sample_of ob state key # h d))"
proof (cases "h d")
  case Nil
  then show ?thesis using record_first_ok [of pol tb h d gen login_key ob key] assms(1-3) by blast
next
  case (Cons s hs)
  then show ?thesis using record_next_ok [of pol tb h d s hs gen login_key ob key cal] assms by blast
qed

lemma record_repeated: "\<not> accepts tb d ob \<Longrightarrow> record_observation pol cal login_key gen d ob state version tb = Some (Inr tb)"
  by (auto simp: accepts_def record_observation_def Let_def split: option.splits)

lemma inv_days: "activity_inv pol (tb\<lparr>tb_days := days\<rparr>) h = activity_inv pol tb h"
proof -
  have "tracked pol (tb\<lparr>tb_days := days\<rparr>) d x = tracked pol tb d x" for d x by (cases x) (simp_all add: tracked_def)
  then show ?thesis by (simp add: activity_inv_def)
qed

lemma inv_no_activity: "activity_inv pol (fst no_activity) (snd no_activity)"
  by (simp add: activity_inv_def tracked_def no_activity_def reading_def sorted_samples_def find_row_def)

lemma activity_reachable:
  assumes "(activity_step pol cal login_key)\<^sup>*\<^sup>* no_activity s" "calendar_ok cal" "0 \<le> ap_detail_days pol"
  shows "activity_inv pol (fst s) (snd s)"
  using assms(1)
proof (induction rule: rtranclp_induct)
  case base
  then show ?case by (rule inv_no_activity)
next
  case (step y z)
  from step(2,3) show ?case
  proof (cases rule: activity_step.cases)
    case (sampled tb d ob key gen state version tb' h)
    have "activity_inv pol tb h" using step(3) by (simp add: sampled(1))
    then obtain tb2 where "record_observation pol cal login_key gen d ob state version tb = Some (Inr tb2)"
        "activity_inv pol tb2 (h(d := sample_of ob state key # h d))"
      using activity_record_ok [of pol tb h gen login_key ob d key cal state version] sampled assms(2,3) by blast
    then show ?thesis using sampled(6) unfolding sampled(2) fst_conv snd_conv by (simp add: fun_upd_def)
  next
    case (repeated tb d ob gen state version tb' h)
    then show ?thesis using step(3) record_repeated [OF repeated(3), of pol cal login_key gen state version] by simp
  next
    case (rebuilt now batch tb tb' n h)
    then obtain days where "tb' = tb\<lparr>tb_days := days\<rparr>" by (auto simp: rebuild_daily_def Let_def split: if_splits)
    then show ?thesis using step(3) rebuilt(1,2) by (simp add: inv_days)
  qed
qed

section \<open>Accounts\<close>

text \<open>The instants at which some device of the account reads active.\<close>

definition active_instants :: "analytics_policy \<Rightarrow> (uuid \<Rightarrow> sample list) \<Rightarrow> string \<Rightarrow> instant set" where
  "active_instants pol h key = {t. \<exists>d pr. (SessActive, Some key, pr) \<in> set (timeline pol (h d) t)}"

lemma reading_active:
  "(\<exists>d pr. (SessActive, Some key, pr) \<in> set (reading d ivs t)) \<longleftrightarrow>
   (\<exists>r\<in>set ivs. av_user_key r = Some key \<and> av_state r = SessActive \<and> av_started_at r \<le> t \<and> t < av_ended_at r)"
  unfolding reading_def covers_def value_of_def by (auto simp: image_iff)

lemma day_active:
  assumes "length (day_rows key a b ivs) \<le> 20000" "a \<le> t" "t < b"
  shows "(\<exists>r\<in>set (day_rows key a b ivs). av_state r = SessActive \<and> av_started_at r \<le> t \<and> t < av_ended_at r) \<longleftrightarrow>
    (\<exists>r\<in>set ivs. av_user_key r = Some key \<and> av_state r = SessActive \<and> av_started_at r \<le> t \<and> t < av_ended_at r)"
proof -
  have "set (day_rows key a b ivs) = {r \<in> set ivs. av_user_key r = Some key \<and> av_started_at r < b \<and> a \<le> av_ended_at r}"
    using assms(1) by (simp add: day_rows_def take_all)
  then show ?thesis using assms(2,3) by auto
qed

section \<open>Properties\<close>

text \<open>The rounding errors of a day stay below half a microsecond.\<close>

lemma day_drift: "n \<le> 40026 \<Longrightarrow> drift n * 97200000000 < 1 / 2"
proof -
  assume "n \<le> 40026"
  then have "drift n \<le> drift 40026" by (rule drift_mono)
  moreover have "drift 40026 * (1 - of_nat 40026 / 2 ^ 53) \<le> of_nat 40026 / 2 ^ 53" by (rule drift_linear)
  ultimately show ?thesis by simp
qed

lemma day_rounds:
  assumes "near x A (drift n * of_nat (card A))" "A \<subseteq> {a..<b}" "n \<le> 40026" "b - a \<le> hours 27"
  shows "round (10 ^ 6 * x) = int (card A)"
proof -
  have "card A \<le> nat (b - a)" using card_mono [OF _ assms(2)] by simp
  then have "card A \<le> 97200000000" using assms(4) by (simp add: hours_def minutes_def seconds_def)
  then have "of_nat (card A) \<le> (97200000000 :: rat)" by (metis of_nat_le_iff of_nat_numeral)
  then have "drift n * of_nat (card A) \<le> drift n * 97200000000" by (intro mult_left_mono) (simp_all add: drift_nonneg)
  then have "\<bar>10 ^ 6 * x - of_int (int (card A))\<bar> < 1 / 2" using assms(1) day_drift [OF assms(3)] unfolding near_def by simp
  then show ?thesis by (rule round_unique')
qed

text \<open>C38. The sweep over the endpoints of the intervals of an account, with its heap of lazily deleted candidates, always
  returns, and its totals are those of the pointwise definition up to the rounding of floating-point sums: a state other than
  unknown gets the instants at which its interval has the least priority, device and position among the covering ones, active
  ones in particular all instants some active interval covers, and the overlap gets the instants with several covering
  intervals, each with a relative error of at most \<open>2n + 26\<close> roundings for \<open>n\<close> intervals; unknown gets the rest of the stretch from the
  first to the last covered instant with at most twice that error in the stretch; the observed span is the length of the stretch
  rounded once, and the totals add up to the stretch within three times that error.\<close>

theorem summary_measures_window:
  "let e = (1 + 1 / 2 ^ 53) ^ (2 * length rows + 26) - 1; span = stretch (observed_instants a b rows)
   in \<exists>s. summarize rows a b = Some s
     \<and> (\<forall>st. \<bar>10 ^ 6 * sm_seconds s st - of_nat (card (if st = SessUnknown
              then span - (\<Union>x\<in>- {SessUnknown}. winning a b rows x) else winning a b rows st))\<bar>
            \<le> (if st = SessUnknown then 2 * e * of_nat (card span) else e * of_nat (card (winning a b rows st))))
     \<and> winning a b rows SessActive
          = {t. a \<le> t \<and> t < b \<and> (\<exists>r\<in>set rows. av_state r = SessActive \<and> av_started_at r \<le> t \<and> t < av_ended_at r)}
     \<and> sm_span s = fl (of_nat (card span) / 10 ^ 6)
     \<and> \<bar>10 ^ 6 * sum_list (map (sm_seconds s) session_states) - of_nat (card span)\<bar> \<le> 3 * e * of_nat (card span)
     \<and> \<bar>10 ^ 6 * sm_overlap s - of_nat (card {t. 1 < length (covering a b rows t)})\<bar>
          \<le> e * of_nat (card {t. 1 < length (covering a b rows t)})"
proof -
  obtain s where s: "summarize rows a b = Some s"
      "\<And>st. st \<noteq> SessUnknown \<Longrightarrow> near (sm_seconds s st) (winning a b rows st) (drift (2 * length rows + 26) * of_nat (card (winning a b rows st)))"
      "near (sm_seconds s SessUnknown) (stretch (observed_instants a b rows) - (\<Union>st\<in>- {SessUnknown}. winning a b rows st))
         (2 * drift (2 * length rows + 26) * of_nat (card (stretch (observed_instants a b rows))))"
      "sm_span s = fl (of_nat (card (stretch (observed_instants a b rows))) / 10 ^ 6)"
      "near (sum_list (map (sm_seconds s) session_states)) (stretch (observed_instants a b rows))
         (3 * drift (2 * length rows + 26) * of_nat (card (stretch (observed_instants a b rows))))"
      "near (sm_overlap s) {t. 1 < length (covering a b rows t)}
         (drift (2 * length rows + 26) * of_nat (card {t. 1 < length (covering a b rows t)}))"
    using summary_near [of rows a b] by blast
  show ?thesis
    unfolding Let_def drift_def [symmetric] using s winning_active [of a b rows] by (intro exI [of _ s]) (auto simp: near_def)
qed

text \<open>C39. Over any history of samples of any devices, accepted, repeated or late, every call returns, the rows of a device
  say at every instant exactly what its samples bracket - the earlier of two samples when they are close, unknown in a
  longer gap, nothing outside. The active time of an account in a rebuilt day of at most 20000 rows, the most the rebuild
  reads, and at most 27 hours is, to the nearest microsecond, the number of instants up to now at which the samples of some
  device bracket activity of that account: the rounding of the floating-point sums never adds up to half a microsecond.\<close>

theorem active_time_is_bracketed:
  assumes "(activity_step pol cal login_key)\<^sup>*\<^sup>* no_activity (tb, h)" "calendar_ok cal" "0 \<le> ap_detail_days pol"
    "cal_day_bounds cal (dy_day day) (dy_timezone day) = (a, b)" "length (day_rows (dy_user_key day) a b (tb_intervals tb)) \<le> 20000"
    "b - a \<le> hours 27"
  shows "(\<forall>d t. reading d (tb_intervals tb) t = timeline pol (h d) t)
    \<and> (\<exists>s. dy_payload (rebuild_day cal now (tb_intervals tb) day) = Some s
         \<and> round (10 ^ 6 * sm_seconds s SessActive) = int (card {t \<in> active_instants pol h (dy_user_key day). a \<le> t \<and> t < min b now}))
    \<and> (\<forall>gen d ob state version. fresh_rows gen (tb_intervals tb) \<longrightarrow> record_observation pol cal login_key gen d ob state version tb \<noteq> None)"
proof (intro conjI allI impI)
  have inv: "activity_inv pol tb h" using activity_reachable [OF assms(1-3)] by simp
  then show rd: "reading d (tb_intervals tb) t = timeline pol (h d) t" for d t by (simp add: activity_inv_def tracked_def)
  let ?rows = "day_rows (dy_user_key day) a b (tb_intervals tb)"
  obtain s where s: "summarize ?rows a (min b now) = Some s" and
      e: "near (sm_seconds s SessActive) (winning a (min b now) ?rows SessActive)
        (drift (2 * length ?rows + 26) * of_nat (card (winning a (min b now) ?rows SessActive)))"
    using summary_near [of ?rows a "min b now"] by auto
  have day: "winning a (min b now) ?rows SessActive \<subseteq> {a..<b}" unfolding winning_active by auto
  have r: "round (10 ^ 6 * sm_seconds s SessActive) = int (card (winning a (min b now) ?rows SessActive))"
    using day_rounds [OF e day] assms(5,6) by simp
  have "winning a (min b now) ?rows SessActive = {t \<in> active_instants pol h (dy_user_key day). a \<le> t \<and> t < min b now}"
    unfolding winning_active active_instants_def using day_active [OF assms(5)] rd [symmetric] reading_active [of "dy_user_key day" "tb_intervals tb"] by auto
  then show "\<exists>s. dy_payload (rebuild_day cal now (tb_intervals tb) day) = Some s
      \<and> round (10 ^ 6 * sm_seconds s SessActive) = int (card {t \<in> active_instants pol h (dy_user_key day). a \<le> t \<and> t < min b now})"
    using s r assms(4,5) by (simp add: rebuild_day_def Let_def)
  show "record_observation pol cal login_key gen d ob state version tb \<noteq> None" if "fresh_rows gen (tb_intervals tb)" for gen d ob state version
  proof (cases "accepts tb d ob")
    case False
    then show ?thesis using record_repeated by simp
  next
    case True
    show ?thesis
    proof (cases "login_key (ob_user_login ob) d")
      case (Inl e)
      then show ?thesis using True by (auto simp: record_observation_def accepts_def Let_def split: option.splits)
    next
      case (Inr key)
      then show ?thesis using activity_record_ok [OF inv that, of login_key ob d key cal state version] True assms(2,3) by auto
    qed
  qed
qed

text \<open>C40. A retention run within its bounds removes at most its batch of rows, and reports how many; it never touches what a
  summary still needs: rebuilding any day of an account with a day yet to be summarised, or any day within the detail
  horizon of its own time zone, gives after the run exactly what it gave before it.\<close>

theorem retention_keeps_days:
  assumes "1 \<le> n" "n \<le> 1000" "distinct (map av_id (tb_intervals tb))" "calendar_monotone cal"
  shows "\<exists>tb' k. retain_analytics arrange pol cal now n tb = Inr (tb', k) \<and> k \<le> n \<and> length (tb_intervals tb') + k = length (tb_intervals tb)
    \<and> (\<forall>day t. dirty_account (tb_days tb) (dy_user_key day)
         \<or> dy_timezone day \<in> set (cal_zones cal) \<and> cal_day cal (dy_timezone day) now - ap_detail_days pol \<le> dy_day day
         \<longrightarrow> rebuild_day cal t (tb_intervals tb') day = rebuild_day cal t (tb_intervals tb) day)"
proof -
  let ?gone = "expired_rows pol cal now n tb"
  obtain tb' where r: "retain_analytics arrange pol cal now n tb = Inr (tb', length ?gone)"
    using assms(1,2) by (auto simp: retain_analytics_def Let_def)
  have "length (tb_intervals tb') + length ?gone = length (tb_intervals tb)"
    unfolding retained_intervals [OF r] using expired_row(1) expired_distinct [OF assms(3)] by (intro removed_count [OF assms(3)]) auto
  moreover have "length ?gone \<le> n" by (simp add: expired_rows_def)
  ultimately show ?thesis using r rebuild_after_retention [OF r assms(3,4)] by blast
qed

section \<open>A day with two samples\<close>

definition demo_calendar :: calendar where
  "demo_calendar = \<lparr>cal_zones = [''UTC''], cal_day = (\<lambda>_ t. t div hours 24), cal_day_bounds = (\<lambda>d _. (d * hours 24, (d + 1) * hours 24))\<rparr>"

definition demo_analytics :: analytics_policy where
  "demo_analytics = \<lparr>ap_detail_days = 14, ap_aggregate_days = 90, ap_max_gap_seconds = 45\<rparr>"

definition demo_login :: "string option \<Rightarrow> uuid \<Rightarrow> unit + string option" where
  "demo_login l d = Inr l"

definition demo_sample :: "uuid \<Rightarrow> instant \<Rightarrow> activity_observation" where
  "demo_sample i t = \<lparr>ob_observation_id = i, ob_observed_at = t, ob_user_login = Some ''corp/ann'', ob_foreground = Some (''winword.exe'', ''office''), ob_browser = None\<rparr>"

lemma day_end_later: "(t :: int) < (t div k + 1) * k" if "0 < k"
  using div_mult_mod_eq [of t k] pos_mod_bound [OF that, of t] by (simp only: distrib_right mult_1)

lemma demo_calendar_ok: "calendar_ok demo_calendar"
  using day_end_later [of "hours 24"] by (simp add: calendar_ok_def demo_calendar_def)

definition demo_interval :: "instant \<Rightarrow> activity_interval" where
  "demo_interval t = \<lparr>av_id = 0, av_device_id = 5, av_user_key = Some ''corp/ann'', av_user_login = Some ''corp/ann'', av_started_at = 0, av_ended_at = t,
     av_last_observed_at = t, av_state = SessActive, av_process = Some ''winword.exe'', av_category = Some ''office'', av_browser = None, av_policy_version = None\<rparr>"

definition demo_tables :: "uuid \<Rightarrow> instant \<Rightarrow> activity_tables" where
  "demo_tables i t = \<lparr>tb_intervals = [demo_interval t],
     tb_cursors = [\<lparr>ac_device_id = 5, ac_user_key = Some ''corp/ann'', ac_user_login = Some ''corp/ann'', ac_interval_id = Some 0, ac_observation_id = i,
       ac_last_observed_at = t, ac_session_state = SessActive\<rparr>],
     tb_days = [\<lparr>dy_user_key = ''corp/ann'', dy_timezone = ''UTC'', dy_day = 0, dy_dirty = True, dy_updated_at = 0, dy_payload = None\<rparr>]\<rparr>"

lemmas demo_activity_defs = demo_tables_def demo_interval_def demo_calendar_def demo_analytics_def demo_login_def demo_sample_def no_activity_def
  finish_observation_def fresh_interval_def new_interval_def put_cursor_def mark_dirty_def dirty_day_def day_key_def find_row_def store_row_def
  hours_def minutes_def seconds_def

lemma demo_first: "record_observation demo_analytics demo_calendar demo_login (\<lambda>n. n) 5 (demo_sample 1 0) SessActive None (fst no_activity) = Some (Inr (demo_tables 1 0))"
  by (simp add: record_observation_def demo_activity_defs)

lemma demo_second: "record_observation demo_analytics demo_calendar demo_login (\<lambda>n. Suc n) 5 (demo_sample 2 30000000) SessActive None (demo_tables 1 0) = Some (Inr (demo_tables 2 30000000))"
proof -
  have "extend_until demo_calendar (\<lambda>n. Suc n) 5 False True 30000000 0 (demo_interval 0, tb_intervals (demo_tables 1 0), tb_days (demo_tables 1 0), 0)
      = Some ((demo_interval 0)\<lparr>av_ended_at := 30000000\<rparr>, [(demo_interval 0)\<lparr>av_ended_at := 30000000\<rparr>], tb_days (demo_tables 1 0), 0)"
  proof -
    have next_day: "next_boundary demo_calendar 0 = hours 24" by (simp add: next_boundary_def demo_activity_defs)
    have once: "extend_once demo_calendar (\<lambda>n. Suc n) 5 False True 30000000 0 (demo_interval 0, tb_intervals (demo_tables 1 0), tb_days (demo_tables 1 0), 0)
        = ((demo_interval 0)\<lparr>av_ended_at := 30000000\<rparr>, [(demo_interval 0)\<lparr>av_ended_at := 30000000\<rparr>], tb_days (demo_tables 1 0), 0)"
      unfolding extend_once_def next_day by (simp add: demo_activity_defs Let_def)
    have step: "extend_until demo_calendar (\<lambda>n. Suc n) 5 False True 30000000 0 st
        = extend_until demo_calendar (\<lambda>n. Suc n) 5 False True 30000000 30000000 (extend_once demo_calendar (\<lambda>n. Suc n) 5 False True 30000000 0 st)" for st
      by (subst extend_until.simps) (simp add: next_day hours_def minutes_def seconds_def)
    have stop: "extend_until demo_calendar (\<lambda>n. Suc n) 5 False True 30000000 30000000 st = Some st" for st
      by (subst extend_until.simps) simp
    show ?thesis unfolding step once stop ..
  qed
  then show ?thesis
    by (simp add: record_observation_def loop_start_def continues_def same_days_def demo_activity_defs)
qed

definition demo_samples :: "uuid \<Rightarrow> sample list" where
  "demo_samples = (\<lambda>_. [])(5 := [sample_of (demo_sample 2 30000000) SessActive (Some ''corp/ann''), sample_of (demo_sample 1 0) SessActive (Some ''corp/ann'')])"

lemma demo_activity_reachable: "(activity_step demo_analytics demo_calendar demo_login)\<^sup>*\<^sup>* no_activity (demo_tables 2 30000000, demo_samples)"
proof -
  let ?h1 = "(\<lambda>_. [])(5 := [sample_of (demo_sample 1 0) SessActive (Some ''corp/ann'')])"
  have login: "demo_login (ob_user_login (demo_sample i t)) 5 = Inr (Some ''corp/ann'')" for i t by (simp add: demo_login_def demo_sample_def)
  have "accepts (fst no_activity) 5 (demo_sample 1 0)" "fresh_rows (\<lambda>n. n) (tb_intervals (fst no_activity))"
    by (simp_all add: no_activity_def fresh_rows_def accepts_def find_row_def)
  from activity_step.sampled [OF this(1) login this(2) demo_first, of "snd no_activity"]
  have s1: "activity_step demo_analytics demo_calendar demo_login no_activity (demo_tables 1 0, ?h1)" by (simp add: no_activity_def fun_upd_def)
  have "accepts (demo_tables 1 0) 5 (demo_sample 2 30000000)" "fresh_rows (\<lambda>n. Suc n) (tb_intervals (demo_tables 1 0))"
    by (simp_all add: accepts_def fresh_rows_def demo_activity_defs)
  from activity_step.sampled [OF this(1) login this(2) demo_second, of ?h1]
  have "activity_step demo_analytics demo_calendar demo_login (demo_tables 1 0, ?h1) (demo_tables 2 30000000, demo_samples)"
    by (simp only: demo_samples_def fun_upd_upd fun_upd_same)
  with s1 show ?thesis by (rule converse_rtranclp_into_rtranclp [OF _ r_into_rtranclp])
qed

theorem active_time_is_bracketed_witness:
  "(\<exists>s. dy_payload (rebuild_day demo_calendar 60000000 (tb_intervals (demo_tables 2 30000000)) (hd (tb_days (demo_tables 2 30000000)))) = Some s
     \<and> round (10 ^ 6 * sm_seconds s SessActive) = int (card {t \<in> active_instants demo_analytics demo_samples ''corp/ann''. 0 \<le> t \<and> t < 60000000}))
   \<and> timeline demo_analytics (demo_samples 5) 10 = [(SessActive, Some ''corp/ann'', Some ''winword.exe'')]"
proof -
  let ?day = "hd (tb_days (demo_tables 2 30000000))"
  have "0 \<le> ap_detail_days demo_analytics" "cal_day_bounds demo_calendar (dy_day ?day) (dy_timezone ?day) = (0, hours 24)"
      "length (day_rows (dy_user_key ?day) 0 (hours 24) (tb_intervals (demo_tables 2 30000000))) \<le> 20000"
      "hours 24 - 0 \<le> hours 27"
    by (simp_all add: demo_activity_defs day_rows_def)
  note active_time_is_bracketed [OF demo_activity_reachable demo_calendar_ok this, of 60000000]
  moreover have "dy_user_key ?day = ''corp/ann''" "min (hours 24) 60000000 = 60000000" by (simp_all add: demo_activity_defs)
  moreover have "timeline demo_analytics (demo_samples 5) 10 = [(SessActive, Some ''corp/ann'', Some ''winword.exe'')]"
    by (simp add: demo_samples_def sample_of_def between_samples_def demo_activity_defs)
  ultimately show ?thesis by simp
qed

text \<open>Three weeks later the clean rows of the first day go, and today's summary is the same.\<close>

definition old_tables :: activity_tables where
  "old_tables = \<lparr>tb_intervals = [demo_interval 30000000, (demo_interval (hours 500))\<lparr>av_id := 1, av_started_at := hours 499\<rparr>], tb_cursors = [], tb_days = []\<rparr>"

theorem retention_keeps_days_witness:
  "\<exists>tb'. retain_analytics id demo_analytics demo_calendar (hours 504) 500 old_tables = Inr (tb', 1) \<and> length (tb_intervals tb') = 1
     \<and> rebuild_day demo_calendar (hours 504) (tb_intervals tb') \<lparr>dy_user_key = ''corp/ann'', dy_timezone = ''UTC'', dy_day = 20, dy_dirty = True, dy_updated_at = 0, dy_payload = None\<rparr>
       = rebuild_day demo_calendar (hours 504) (tb_intervals old_tables) \<lparr>dy_user_key = ''corp/ann'', dy_timezone = ''UTC'', dy_day = 20, dy_dirty = True, dy_updated_at = 0, dy_payload = None\<rparr>"
proof -
  let ?day = "\<lparr>dy_user_key = ''corp/ann'', dy_timezone = ''UTC'', dy_day = 20, dy_dirty = True, dy_updated_at = 0, dy_payload = None\<rparr>"
  have "distinct (map av_id (tb_intervals old_tables))" "calendar_monotone demo_calendar"
    by (simp_all add: old_tables_def demo_interval_def calendar_monotone_def demo_calendar_def hours_def minutes_def seconds_def)
  then obtain tb' k where r: "retain_analytics id demo_analytics demo_calendar (hours 504) 500 old_tables = Inr (tb', k)"
      "length (tb_intervals tb') + k = length (tb_intervals old_tables)"
      "dirty_account (tb_days old_tables) (dy_user_key ?day)
         \<or> dy_timezone ?day \<in> set (cal_zones demo_calendar) \<and> cal_day demo_calendar (dy_timezone ?day) (hours 504) - ap_detail_days demo_analytics \<le> dy_day ?day
         \<Longrightarrow> rebuild_day demo_calendar (hours 504) (tb_intervals tb') ?day = rebuild_day demo_calendar (hours 504) (tb_intervals old_tables) ?day"
    using retention_keeps_days [of 500 old_tables demo_calendar id demo_analytics "hours 504"] by fastforce
  have "length (expired_rows demo_analytics demo_calendar (hours 504) 500 old_tables) = 1"
    by (simp add: expired_rows_def retention_cutoff_def old_tables_def dirty_account_def demo_interval_def demo_calendar_def demo_analytics_def hours_def minutes_def seconds_def)
  then have "k = 1" using r(1) by (auto simp: retain_analytics_def Let_def)
  moreover have "dy_timezone ?day \<in> set (cal_zones demo_calendar)" "cal_day demo_calendar (dy_timezone ?day) (hours 504) - ap_detail_days demo_analytics \<le> dy_day ?day"
    by (simp_all add: demo_calendar_def demo_analytics_def hours_def minutes_def seconds_def)
  moreover have "length (tb_intervals old_tables) = 2" by (simp add: old_tables_def)
  ultimately show ?thesis using r by auto
qed

end
