(* ===== verification/Spec2Isabelle.thy ===== *)
theory Spec2Isabelle
  imports Update_Properties Operation_Properties Enroll_Properties Module_Properties Platform_Properties Power_Properties
    Activity_Properties
begin

text \<open>
  A verification development for the endpoint platform: a server (\<open>endpoint_server\<close>) that enrolls devices, hands
  them commands, collects their evidence and rolls out updates of their agent (\<open>pc_agent\<close>), with the wire
  contracts of both (\<open>endpoint_contracts\<close>). Paths are relative to \<open>src/\<close>.

  \<^bold>\<open>The program.\<close> The server is a set of services over one relational database. A request runs in one transaction:
  it raises, and is rolled back, or it commits. A device enrolls with a campaign token, an install claim or an
  approved request and gets a credential. Administrators and the help desk create operations, which become commands;
  the gateway hands the commands to the device over a socket or over HTTPS and applies its acknowledgements and
  results, which close operations, steps of module operations and collections of Device Context. Published module
  versions are recipes that expand into commands. Rollouts assign builds of the agent to devices, whose reports close
  them. The agent also sends power evidence through a durable queue of its own and samples of activity, which the
  server turns into intervals and daily summaries. Every service appends to one audit trail.

  \<^bold>\<open>The model.\<close> A table is the list of its rows and a row a record with the source's columns; unique and check
  constraints are predicates that the flush of an insert or a write-back tests, with \<open>IntegrityError\<close> as its
  outcome. An operation is a function from the tables and its request to \<open>'e + 'a\<close>: \<open>Inl\<close> is the exception the source
  raises, \<open>Inr\<close> the tables after its last statement. Row locks and advisory locks are the serial execution of
  transactions; random identifiers, tokens and readings of the clock are arguments. Instants are integers in
  microseconds, Python integers are \<open>int\<close>, floats are rationals rounded to 53 bits after every operation, identifiers are
  their integer value, text is a list of characters.

  \<^bold>\<open>Theories and sources.\<close>
  \<^item> \<open>Prelude\<close>: results, tables, instants, identifiers, JSON values and the lemmas on them. \<open>Interfaces\<close>: the locales.
  \<^item> Audit: \<open>Audit_Trail\<close> is \<open>audit/service.py\<close> and \<open>audit/redaction.py\<close>.
  \<^item> Updates: \<open>Semver\<close> (\<open>updates/service.py\<close>, the order of versions), \<open>Update_Prose\<close> (\<open>endpoint_contracts/update_safety.py\<close>),
    \<open>Update_Model\<close> (\<open>db/models/updates.py\<close>, \<open>endpoint_contracts/updates.py\<close>), \<open>Update_Service\<close> and \<open>Update_Cancellation\<close>
    (\<open>updates/service.py\<close>, \<open>updates/admin_contracts.py\<close>); \<open>Update_Laws\<close>, \<open>Update_Invariants\<close>, \<open>Update_Progress\<close>, \<open>Update_Totality\<close>,
    \<open>Update_Contracts\<close> hold the outcomes of each operation, the invariant of the tables, the order in which targets move, when
    operations succeed and that stored rows pass the response contract; \<open>Update_Scenario\<close> and \<open>Update_Properties\<close>.
  \<^item> Operations: \<open>Plane_Model\<close> (the tables of \<open>db/models/operations.py\<close>, \<open>db/models/commands.py\<close>, \<open>context/models.py\<close>), \<open>Operations\<close>
    (\<open>operations/service.py\<close>, \<open>operations/evidence.py\<close>), \<open>Operation_Laws\<close>, \<open>Operation_Frames\<close>, \<open>Operation_Invariants\<close>,
    \<open>Operation_Sweeps\<close>, \<open>Operation_Properties\<close>.
  \<^item> Enrollment: \<open>Ip_Network\<close>, \<open>Enroll_Model\<close> (\<open>db/models/enrollment.py\<close>, \<open>db/models/devices.py\<close>), \<open>Enroll_Secrets\<close> (\<open>enrollment/credentials.py\<close>),
    \<open>Enroll_Campaigns\<close>, \<open>Enroll_Requests\<close>, \<open>Enroll_Agent\<close> (\<open>campaigns.py\<close>, \<open>requests.py\<close>, \<open>agent_routes.py\<close>, \<open>delivery.py\<close> and the other routes of
    \<open>enrollment\<close>); \<open>Enroll_Ledger\<close> is the abstract specification, \<open>Enroll_Refinement\<close>, \<open>Enroll_Frames\<close> and \<open>Enroll_Histories\<close>
    prove that every route refines it; \<open>Enroll_Secret_Laws\<close>, \<open>Enroll_Properties\<close>.
  \<^item> Modules: \<open>Module_Recipes\<close> (\<open>endpoint_contracts/capabilities.py\<close>, \<open>modules/recipes.py\<close>, \<open>recipe_engine.py\<close>), \<open>Network_Targets\<close>
    (\<open>policy/network_targets.py\<close>), \<open>Module_Versions\<close> (\<open>modules/service.py\<close>, \<open>lifecycle.py\<close>), \<open>Module_Routes\<close>, \<open>Module_Operations\<close>
    (\<open>modules/operation_service.py\<close>); \<open>Module_Recipe_Laws\<close>, \<open>Network_Laws\<close>, \<open>Module_Histories\<close>, \<open>Module_Properties\<close>.
  \<^item> Device Context and gateway: \<open>Context_Canonical\<close> (\<open>context/canonicalize.py\<close>, \<open>diff.py\<close>, \<open>events.py\<close>), \<open>Context_Model\<close>,
    \<open>Context_Ingestion\<close> (\<open>context/repository.py\<close>, \<open>ingestion.py\<close>), \<open>Gateway_Delivery\<close>, \<open>Gateway_Results\<close> (\<open>gateway/command_service.py\<close>),
    \<open>Gateway_Http\<close> (\<open>gateway/routes.py\<close>).
  \<^item> The platform: \<open>Work_Ledger\<close> is an abstract machine of operations, collections and module steps; \<open>Work_Services\<close>,
    \<open>Work_Delivery\<close> and \<open>Work_Results\<close> show that services and gateway refine it; \<open>Platform\<close> composes them over one database;
    \<open>Platform_Scenario\<close>, \<open>Platform_Properties\<close>.
  \<^item> Power evidence: \<open>Power_Model\<close> (\<open>pc_agent/power/spool.py\<close>), \<open>Power_Server\<close> (\<open>endpoint_server/power/ingestion.py\<close>, \<open>retention.py\<close>),
    \<open>Power_Pipeline\<close> (\<open>pc_agent/power/runtime.py\<close>, a network that loses, delays and repeats, and both ends), \<open>Power_Projection\<close>
    (\<open>power/projection.py\<close>); \<open>Power_Laws\<close>, \<open>Power_Server_Laws\<close>, \<open>Power_Properties\<close>.
  \<^item> Activity: \<open>Activity_Floats\<close> (the arithmetic of Python floats), \<open>Activity_Sweep\<close>, \<open>Activity_Summary\<close> (\<open>activity/analytics_math.py\<close>), \<open>Activity_Store\<close>, \<open>Activity_Retention\<close>
    (\<open>activity/analytics_store.py\<close>), \<open>Activity_Properties\<close>.

  \<^bold>\<open>Interfaces.\<close> \<open>lifecycle\<close> is a status graph with final statuses and a bounded rank, interpreted on the targets of rollouts
  and on enrollment requests. \<open>transactional\<close> and \<open>transactional_trail\<close> are services whose requests roll back or commit,
  keep an invariant and move the tables up a preorder; they are interpreted on updates, operations, enrollment,
  modules and the platform, and give the statements over all histories. \<open>version_order\<close> is interpreted on the comparison of
  versions, and the library's \<open>comp_fun_idem\<close> on the merge of source reports.

  \<^bold>\<open>Results.\<close> C1 to C10: the check that keeps one active target per device, canary before bulk, statuses of rollouts and targets, reports and
  their replay, recommendations, rollback and the absence of integrity errors. C11 to C15: creation, cancellation,
  expiry and retention of operations. C16 to C23: quotas as a refinement of the ledger, claims, revocation, the life
  of a request, selection of a campaign and the rate limit. C24 to C28: typed plans, stored recipes, network
  targets, tested publication. C29 to C33: the platform refines the ledger of work, order of module steps, results
  applied once, and two failures of delivery. C34 to C37: the accounting of power evidence, its delivery, the merge
  of reports and the agreement of summaries. C38 to C40: the sweep equals its pointwise definition up to a bound on the rounding of
  its sums, recorded time is what samples bracket to the microsecond, retention keeps what summaries need. Theorems without such a number hold as well.

  \<^bold>\<open>Loops and bounds.\<close> Loops over rows are recursion on lists. The loop over calendar boundaries (\<open>extend_until\<close>) is a
  \<open>partial_function\<close>; C39 proves that it returns. Redaction and JSON equality are functions with termination proofs. No
  definition takes fuel. Batch limits, queue bounds, quotas and rates are those of the source.

  \<^bold>\<open>Parameters.\<close> SHA-256, HMAC, AES-GCM, validation and rendering by pydantic, URL parsing, regular expressions that classify
  text, lengths of serialized frames, the calendar of time zones, Unicode normalisation of logins, native event sources
  and the order of queries without \<open>ORDER BY\<close> are arguments. What a theorem needs of them is a hypothesis with a witness:
  for instance that a boundary of the calendar lies after the instant it belongs to.

  \<^bold>\<open>What the proofs showed.\<close> A completed enrollment request expires when polled (C20); an approved request can be shadowed
  by a second one (C21); deprecating an unpublished version escapes its handler (C28); a deprecated version blocks
  every delivery to a device (C32); a late acknowledgement over HTTPS reopens a closed collection (C33).

  \<^bold>\<open>Not modelled.\<close> Authentication of administrators and services, sockets and presence, sensor policies and compliance, device
  binding, security events, the schedule and retention of Device Context, console and reports: services beside or in
  front of the modelled ones, left out in favour of the paths that change work, credentials and evidence. The rest of
  the agent drives operating systems through files, processes and native interfaces; to the server it is an arbitrary
  sequence of calls. The labels of applications in a summary are left out. Migrations, web application, extension, build and canary tools hold no logic of the control plane.
\<close>

end
